(* ===== verification/Prelude.thy ===== *)
theory Prelude
  imports Main "HOL-Library.List_Lexorder" "HOL-Library.Char_ord"
begin

text \<open>
  The vocabulary every component shares: relational tables as lists of rows in insertion
  order, with the four statements the SQL of the store uses (select, fetch one row, update
  with a row count, insert), Python string helpers, and the lemmas on them.

  A Python \<open>str\<close> is a list of code points; \<^typ>\<open>string\<close> covers the code points
  below 256, and every function here reads a character as that code point.
\<close>

named_theorems table_simps \<open>rewriting of select, fetch and update on tables\<close>

section \<open>Results\<close>

text \<open>A computation that raises is a sum: \<^term>\<open>Inl\<close> the exception, \<^term>\<open>Inr\<close> the value.\<close>

definition bindE :: "'e + 'a \<Rightarrow> ('a \<Rightarrow> 'e + 'b) \<Rightarrow> 'e + 'b" where
  "bindE r f = (case r of Inl e \<Rightarrow> Inl e | Inr x \<Rightarrow> f x)"

lemma bindE_simps [simp]: "bindE (Inl e) f = Inl e" "bindE (Inr x) f = f x"
  by (simp_all add: bindE_def)

lemma bindE_InrD: "bindE r f = Inr y \<Longrightarrow> \<exists>x. r = Inr x \<and> f x = Inr y"
  by (simp add: bindE_def split: sum.splits)

lemma bindE_InrE:
  assumes "bindE r f = Inr y" obtains x where "r = Inr x" and "f x = Inr y"
  using bindE_InrD [OF assms] that by blast

definition is_ok :: "'e + 'a \<Rightarrow> bool" where
  "is_ok r = (case r of Inl _ \<Rightarrow> False | Inr _ \<Rightarrow> True)"

lemma is_ok_simps [simp]: "is_ok (Inr x)" "\<not> is_ok (Inl e)"
  by (simp_all add: is_ok_def)

section \<open>Tables\<close>

definition select :: "('a \<Rightarrow> bool) \<Rightarrow> 'a list \<Rightarrow> 'a list" where
  "select P xs = filter P xs"

fun fetchone :: "'a list \<Rightarrow> 'a option" where
  "fetchone [] = None"
| "fetchone (x # xs) = Some x"

definition select_one :: "('a \<Rightarrow> bool) \<Rightarrow> 'a list \<Rightarrow> 'a option" where
  "select_one P xs = fetchone (select P xs)"

definition update_where :: "('a \<Rightarrow> bool) \<Rightarrow> ('a \<Rightarrow> 'a) \<Rightarrow> 'a list \<Rightarrow> 'a list" where
  "update_where P f xs = map (\<lambda>x. if P x then f x else x) xs"

definition rowcount :: "('a \<Rightarrow> bool) \<Rightarrow> 'a list \<Rightarrow> nat" where
  "rowcount P xs = length (filter P xs)"

lemma select_one_None: "select_one P xs = None \<longleftrightarrow> (\<forall>x\<in>set xs. \<not> P x)"
  by (induction xs) (auto simp: select_one_def select_def)

lemma select_one_SomeD: "select_one P xs = Some x \<Longrightarrow> x \<in> set xs \<and> P x"
  by (induction xs) (auto simp: select_one_def select_def split: if_splits)

lemma select_one_in: "select_one P xs = Some x \<Longrightarrow> x \<in> set xs"
  and select_one_sat: "select_one P xs = Some x \<Longrightarrow> P x"
  by (auto dest: select_one_SomeD)

lemma select_one_Nil [simp]: "select_one P [] = None"
  by (simp add: select_one_def select_def)

lemma select_one_Cons [simp]:
  "select_one P (x # xs) = (if P x then Some x else select_one P xs)"
  by (simp add: select_one_def select_def)

lemma select_one_append:
  "select_one P (xs @ ys) = (case select_one P xs of None \<Rightarrow> select_one P ys | Some x \<Rightarrow> Some x)"
  by (induction xs) auto

lemma select_one_ex: "x \<in> set xs \<Longrightarrow> P x \<Longrightarrow> \<exists>y. select_one P xs = Some y"
  by (metis select_one_None option.exhaust)

text \<open>A key that no two rows share makes the fetched row unique.\<close>

lemma select_one_unique:
  assumes "x \<in> set xs" "P x" "\<And>y. y \<in> set xs \<Longrightarrow> P y \<Longrightarrow> y = x"
  shows "select_one P xs = Some x"
  using assms by (metis select_one_SomeD select_one_ex)

lemma set_update_where:
  "set (update_where P f xs) = {if P x then f x else x | x. x \<in> set xs}"
  by (auto simp: update_where_def)

lemma in_update_whereE:
  assumes "y \<in> set (update_where P f xs)"
  obtains x where "x \<in> set xs" "y = (if P x then f x else x)"
  using assms by (auto simp: update_where_def)

lemma length_update_where [simp]: "length (update_where P f xs) = length xs"
  by (simp add: update_where_def)

lemma update_where_Nil [simp]: "update_where P f [] = []"
  and update_where_Cons [simp]:
    "update_where P f (x # xs) = (if P x then f x else x) # update_where P f xs"
  by (simp_all add: update_where_def)

lemma map_update_where_key:
  "(\<And>x. P x \<Longrightarrow> k (f x) = k x) \<Longrightarrow> map k (update_where P f xs) = map k xs"
  by (induction xs) auto

lemma update_where_none: "(\<And>x. x \<in> set xs \<Longrightarrow> \<not> P x) \<Longrightarrow> update_where P f xs = xs"
  by (induction xs) auto

lemma select_one_update_where:
  assumes "\<And>x. P x \<Longrightarrow> Q (f x) = Q x"
  shows "select_one Q (update_where P f xs)
       = map_option (\<lambda>x. if P x then f x else x) (select_one Q xs)"
  using assms by (induction xs) auto

lemma rowcount_pos: "0 < rowcount P xs \<longleftrightarrow> (\<exists>x\<in>set xs. P x)"
  by (induction xs) (auto simp: rowcount_def)

lemma filter_key_unique:
  "distinct (map k xs) \<Longrightarrow> x \<in> set xs \<Longrightarrow> filter (\<lambda>y. k y = k x) xs = [x]"
proof (induction xs)
  case Nil then show ?case by simp
next
  case (Cons a xs)
  then show ?case
  proof (cases "a = x")
    case True
    then have "k x \<notin> k ` set xs" using Cons.prems by auto
    then have "\<forall>y\<in>set xs. k y \<noteq> k x" by (metis imageI)
    then show ?thesis using True by (simp add: filter_empty_conv)
  next
    case False
    then have "k a \<noteq> k x" using Cons.prems by force
    then show ?thesis using Cons False by simp
  qed
qed

lemma rowcount_one:
  assumes "distinct (map k xs)" "x \<in> set xs" "P x" "\<And>y. y \<in> set xs \<Longrightarrow> P y \<Longrightarrow> k y = k x"
  shows "rowcount P xs = 1"
proof -
  have "filter P xs = filter (\<lambda>y. P y \<and> k y = k x) xs"
    using assms(4) by (intro filter_cong) auto
  also have "\<dots> = filter P (filter (\<lambda>y. k y = k x) xs)" by (simp add: conj_commute)
  also have "\<dots> = [x]" using assms(1-3) by (simp only: filter_key_unique) simp
  finally show ?thesis by (simp add: rowcount_def)
qed

lemma distinct_map_inj: "distinct (map k xs) \<Longrightarrow> x \<in> set xs \<Longrightarrow> y \<in> set xs \<Longrightarrow> k x = k y \<Longrightarrow> x = y"
  by (auto simp: distinct_map inj_on_def)

text \<open>A table as the map from its key: updates and inserts are updates of the map.\<close>

definition table_map :: "('a \<Rightarrow> 'k) \<Rightarrow> ('a \<Rightarrow> 'b) \<Rightarrow> 'a list \<Rightarrow> 'k \<Rightarrow> 'b option" where
  "table_map k proj xs i = map_option proj (select_one (\<lambda>x. k x = i) xs)"

lemma table_map_None: "table_map k proj xs i = None \<longleftrightarrow> (\<forall>x\<in>set xs. k x \<noteq> i)"
  by (simp add: table_map_def select_one_None)

lemma table_mapD: "table_map k proj xs i = Some y \<Longrightarrow> \<exists>x\<in>set xs. k x = i \<and> y = proj x"
  by (auto simp: table_map_def dest: select_one_SomeD)

lemma table_mapI: "distinct (map k xs) \<Longrightarrow> x \<in> set xs \<Longrightarrow> table_map k proj xs (k x) = Some (proj x)"
  unfolding table_map_def
  by (subst select_one_unique [of x]) (auto dest: distinct_map_inj)

lemma table_map_append:
  "\<forall>y\<in>set xs. k y \<noteq> k x \<Longrightarrow> table_map k proj (xs @ [x]) = (table_map k proj xs)(k x \<mapsto> proj x)"
  by (rule ext) (auto simp: table_map_def select_one_append split: option.split dest: select_one_SomeD)

lemma table_map_update:
  assumes "\<And>x. P x \<Longrightarrow> k (f x) = k x"
  shows "table_map k proj (update_where P f xs) i
       = map_option (\<lambda>x. proj (if P x then f x else x)) (select_one (\<lambda>x. k x = i) xs)"
  unfolding table_map_def
  by (subst select_one_update_where) (simp_all add: assms option.map_comp comp_def)

text \<open>An update whose condition and effect the projection shows.\<close>

lemma table_map_abs:
  assumes "\<And>x. P x \<Longrightarrow> k (f x) = k x" "\<And>x. P x = A (k x) (proj x)"
    "\<And>x. proj (f x) = F (proj x)"
  shows "table_map k proj (update_where P f xs)
       = (\<lambda>i. map_option (\<lambda>p. if A i p then F p else p) (table_map k proj xs i))"
proof (rule ext)
  fix i
  show "table_map k proj (update_where P f xs) i
      = map_option (\<lambda>p. if A i p then F p else p) (table_map k proj xs i)"
  proof (cases "select_one (\<lambda>x. k x = i) xs")
    case None
    then show ?thesis by (subst table_map_update) (simp_all add: assms(1) table_map_def)
  next
    case (Some x)
    then have "k x = i" using select_one_SomeD by fastforce
    then show ?thesis using Some
      by (subst table_map_update) (simp_all add: assms table_map_def)
  qed
qed

lemma table_map_same:
  assumes "\<And>x. P x \<Longrightarrow> k (f x) = k x" "\<And>x. P x \<Longrightarrow> proj (f x) = proj x"
  shows "table_map k proj (update_where P f xs) = table_map k proj xs"
proof (rule ext)
  fix i show "table_map k proj (update_where P f xs) i = table_map k proj xs i"
    by (subst table_map_update) (auto simp: table_map_def assms intro!: option.map_cong)
qed

lemma table_map_update_one:
  assumes "\<And>x. P x \<Longrightarrow> k (f x) = k x" "distinct (map k xs)" "x \<in> set xs" "P x"
    "\<And>y. y \<in> set xs \<Longrightarrow> P y \<Longrightarrow> k y = k x"
  shows "table_map k proj (update_where P f xs) = (table_map k proj xs)(k x \<mapsto> proj (f x))"
proof (rule ext)
  fix i
  show "table_map k proj (update_where P f xs) i = ((table_map k proj xs)(k x \<mapsto> proj (f x))) i"
  proof (cases "i = k x")
    case True
    have "select_one (\<lambda>y. k y = k x) xs = Some x"
      using assms(2,3) by (intro select_one_unique) (auto dest: distinct_map_inj)
    then show ?thesis using True assms(1,4) by (subst table_map_update) simp_all
  next
    case False
    have "\<not> P y" if "select_one (\<lambda>x. k x = i) xs = Some y" for y
      using select_one_SomeD [OF that] assms(5) False by auto
    then show ?thesis using False assms(1)
      by (subst table_map_update) (auto simp: table_map_def intro!: option.map_cong dest: select_one_SomeD)
  qed
qed

section \<open>Python strings\<close>

text \<open>\<open>str.isspace\<close> on code points below 256.\<close>

definition py_isspace :: "char \<Rightarrow> bool" where
  "py_isspace c = (let n = of_char c :: nat in
     (9 \<le> n \<and> n \<le> 13) \<or> (28 \<le> n \<and> n \<le> 32) \<or> n = 133 \<or> n = 160)"

definition py_lstrip :: "string \<Rightarrow> string" where
  "py_lstrip s = dropWhile py_isspace s"

definition py_strip :: "string \<Rightarrow> string" where
  "py_strip s = rev (dropWhile py_isspace (rev (dropWhile py_isspace s)))"

text \<open>\<open>sep.join(parts)\<close> and \<open>s.split(c)\<close> for a one-character separator.\<close>

fun py_join :: "string \<Rightarrow> string list \<Rightarrow> string" where
  "py_join sep [] = []"
| "py_join sep [x] = x"
| "py_join sep (x # y # xs) = x @ sep @ py_join sep (y # xs)"

fun py_split :: "char \<Rightarrow> string \<Rightarrow> string list" where
  "py_split c [] = [[]]"
| "py_split c (x # xs) =
     (if x = c then [] # py_split c xs
      else (case py_split c xs of [] \<Rightarrow> [[x]] | p # ps \<Rightarrow> (x # p) # ps))"

lemma py_split_not_Nil [simp]: "py_split c s \<noteq> []"
  by (induction s) (auto split: list.splits)

lemma py_join_split: "py_join [c] (py_split c s) = s"
proof (induction s)
  case Nil then show ?case by simp
next
  case (Cons x xs)
  obtain p ps where p: "py_split c xs = p # ps" by (cases "py_split c xs") auto
  then show ?case using Cons by (cases ps) auto
qed

lemma py_split_no_sep: "p \<in> set (py_split c s) \<Longrightarrow> c \<notin> set p"
  by (induction s arbitrary: p) (auto split: list.splits if_splits)

lemma py_split_single: "c \<notin> set s \<Longrightarrow> py_split c s = [s]"
  by (induction s) auto

lemma py_split_append: "c \<notin> set p \<Longrightarrow> py_split c (p @ c # s) = p # py_split c s"
  by (induction p) auto

lemma py_split_join:
  "xs \<noteq> [] \<Longrightarrow> \<forall>x\<in>set xs. c \<notin> set x \<Longrightarrow> py_split c (py_join [c] xs) = xs"
  by (induction "[c]" xs rule: py_join.induct) (auto simp: py_split_single py_split_append)

lemma py_strip_Nil [simp]: "py_strip [] = []"
  by (simp add: py_strip_def)

lemma py_strip_empty_iff: "py_strip s = [] \<longleftrightarrow> (\<forall>c\<in>set s. py_isspace c)"
proof -
  have "py_strip s = [] \<longleftrightarrow> (\<forall>c\<in>set (dropWhile py_isspace s). py_isspace c)"
    by (auto simp: py_strip_def dropWhile_eq_Nil_conv)
  also have "\<dots> \<longleftrightarrow> (\<forall>c\<in>set s. py_isspace c)"
    by (induction s) auto
  finally show ?thesis .
qed

text \<open>Decimal digits: \<open>str(n)\<close> for a natural number.\<close>

definition digit_char :: "nat \<Rightarrow> char" where
  "digit_char d = char_of (48 + d)"

fun py_str_nat :: "nat \<Rightarrow> string" where
  "py_str_nat n = (if n < 10 then [digit_char n] else py_str_nat (n div 10) @ [digit_char (n mod 10)])"

declare py_str_nat.simps [simp del]

definition py_str_int :: "int \<Rightarrow> string" where
  "py_str_int i = (if i < 0 then ''-'' @ py_str_nat (nat (- i)) else py_str_nat (nat i))"

text \<open>A Python string is false when it is empty; \<open>None\<close> is false too.\<close>

definition falsy :: "string option \<Rightarrow> bool" where
  "falsy s = (case s of None \<Rightarrow> True | Some t \<Rightarrow> t = [])"

lemma falsy_simps [simp]: "falsy None" "falsy (Some s) = (s = [])"
  by (simp_all add: falsy_def)

text \<open>\<open>s.startswith(p)\<close>.\<close>

definition py_startswith :: "string \<Rightarrow> string \<Rightarrow> bool" where
  "py_startswith s p = (take (length p) s = p)"

end
