(* ===== verification/Contracts.thy ===== *)
theory Contracts
  imports Prelude
begin

text \<open>
  The domain vocabulary of \<open>src/code_forge/contracts.py\<close>: the closed enumerations with
  their wire values, the errors, the frozen dataclasses the components exchange, and the
  validation the dataclasses run on construction. Field names carry a short prefix of their
  class, because record fields are global names here.

  \<open>pathlib\<close> paths are modelled as their root and their parts. What the operating system
  decides (\<open>expanduser\<close> and the symbolic links \<open>resolve\<close> follows) is the argument
  \<open>os\<close> of the functions that use it.
\<close>

section \<open>Enumerations\<close>

datatype run_status = QUEUED | RUNNING | WAITING_USER | WAITING_EXTERNAL | RECOVERING
  | CANCELLING | SUCCEEDED | FAILED | CANCELLED | TIMED_OUT

fun run_status_value :: "run_status \<Rightarrow> string" where
  "run_status_value QUEUED = ''QUEUED''"
| "run_status_value RUNNING = ''RUNNING''"
| "run_status_value WAITING_USER = ''WAITING_USER''"
| "run_status_value WAITING_EXTERNAL = ''WAITING_EXTERNAL''"
| "run_status_value RECOVERING = ''RECOVERING''"
| "run_status_value CANCELLING = ''CANCELLING''"
| "run_status_value SUCCEEDED = ''SUCCEEDED''"
| "run_status_value FAILED = ''FAILED''"
| "run_status_value CANCELLED = ''CANCELLED''"
| "run_status_value TIMED_OUT = ''TIMED_OUT''"

definition TERMINAL_STATUSES :: "run_status set" where
  "TERMINAL_STATUSES = {SUCCEEDED, FAILED, CANCELLED, TIMED_OUT}"

datatype message_status = Msg_QUEUED | Msg_RUNNING | Msg_WAITING_USER | Msg_WAITING_EXTERNAL
  | Msg_RECOVERING | Msg_CANCELLING | Msg_SUCCEEDED | Msg_FAILED | Msg_CANCELLED | Msg_TIMED_OUT

datatype task_outcome = COMPLETED | PARTIAL | BLOCKED

fun task_outcome_value :: "task_outcome \<Rightarrow> string" where
  "task_outcome_value COMPLETED = ''completed''"
| "task_outcome_value PARTIAL = ''partial''"
| "task_outcome_value BLOCKED = ''blocked''"

datatype tool_status = Tool_PREPARED | Tool_RUNNING | Tool_SUCCEEDED | Tool_FAILED
  | Tool_CANCELLED | Tool_UNKNOWN

fun tool_status_value :: "tool_status \<Rightarrow> string" where
  "tool_status_value Tool_PREPARED = ''PREPARED''"
| "tool_status_value Tool_RUNNING = ''RUNNING''"
| "tool_status_value Tool_SUCCEEDED = ''SUCCEEDED''"
| "tool_status_value Tool_FAILED = ''FAILED''"
| "tool_status_value Tool_CANCELLED = ''CANCELLED''"
| "tool_status_value Tool_UNKNOWN = ''UNKNOWN''"

datatype event_type = RUN_ACCEPTED | RUN_STARTED | RUN_WAITING | RUN_RESUMED | RUN_RECOVERING
  | RUN_CANCEL_REQUESTED | RUN_FINISHED | MESSAGE_DELTA | MESSAGE_COMPLETED | TOOL_PREPARED
  | TOOL_STARTED | TOOL_OUTPUT | TOOL_FINISHED | TOOL_UNKNOWN | SKILL_ACTIVATED
  | SKILL_STARTED | SKILL_FINISHED | WORKSPACE_COMMITTED

fun event_type_value :: "event_type \<Rightarrow> string" where
  "event_type_value RUN_ACCEPTED = ''run.accepted''"
| "event_type_value RUN_STARTED = ''run.started''"
| "event_type_value RUN_WAITING = ''run.waiting''"
| "event_type_value RUN_RESUMED = ''run.resumed''"
| "event_type_value RUN_RECOVERING = ''run.recovering''"
| "event_type_value RUN_CANCEL_REQUESTED = ''run.cancel_requested''"
| "event_type_value RUN_FINISHED = ''run.finished''"
| "event_type_value MESSAGE_DELTA = ''message.delta''"
| "event_type_value MESSAGE_COMPLETED = ''message.completed''"
| "event_type_value TOOL_PREPARED = ''tool.prepared''"
| "event_type_value TOOL_STARTED = ''tool.started''"
| "event_type_value TOOL_OUTPUT = ''tool.output''"
| "event_type_value TOOL_FINISHED = ''tool.finished''"
| "event_type_value TOOL_UNKNOWN = ''tool.unknown''"
| "event_type_value SKILL_ACTIVATED = ''skill.activated''"
| "event_type_value SKILL_STARTED = ''skill.started''"
| "event_type_value SKILL_FINISHED = ''skill.finished''"
| "event_type_value WORKSPACE_COMMITTED = ''workspace.committed''"

datatype platform_event_type = P_MESSAGE_ACCEPTED | P_MESSAGE_STARTED | P_MESSAGE_WAITING
  | P_MESSAGE_RESUMED | P_MESSAGE_RECOVERING | P_MESSAGE_CANCEL_REQUESTED | P_MESSAGE_FINISHED
  | P_MESSAGE_DELTA | P_MESSAGE_COMPLETED | P_TOOL_PREPARED | P_TOOL_STARTED | P_TOOL_OUTPUT
  | P_TOOL_FINISHED | P_TOOL_UNKNOWN | P_SKILL_ACTIVATED | P_SKILL_STARTED
  | P_SKILL_FINISHED | P_WORKSPACE_COMMITTED

datatype business_code = B_OK | B_INVALID_REQUEST | B_SESSION_NOT_FOUND | B_MESSAGE_NOT_FOUND
  | B_STATE_CONFLICT | B_MESSAGE_BUSY | B_SKILL_INVALID | B_EXECUTION_FAILED
  | B_EXECUTION_UNKNOWN | B_MODEL_UNAVAILABLE | B_DEPENDENCY_UNAVAILABLE | B_INTERNAL_ERROR

fun business_code_value :: "business_code \<Rightarrow> string" where
  "business_code_value B_OK = ''0000''"
| "business_code_value B_INVALID_REQUEST = ''1001''"
| "business_code_value B_SESSION_NOT_FOUND = ''1002''"
| "business_code_value B_MESSAGE_NOT_FOUND = ''1003''"
| "business_code_value B_STATE_CONFLICT = ''1004''"
| "business_code_value B_MESSAGE_BUSY = ''1005''"
| "business_code_value B_SKILL_INVALID = ''2001''"
| "business_code_value B_EXECUTION_FAILED = ''3001''"
| "business_code_value B_EXECUTION_UNKNOWN = ''3002''"
| "business_code_value B_MODEL_UNAVAILABLE = ''4001''"
| "business_code_value B_DEPENDENCY_UNAVAILABLE = ''5001''"
| "business_code_value B_INTERNAL_ERROR = ''9001''"

datatype error_code = INVALID_REQUEST | SESSION_NOT_FOUND | RUN_NOT_FOUND | IDEMPOTENCY_CONFLICT
  | STATE_CONFLICT | INVALID_TRANSITION | INVALID_EVENT_CURSOR | SKILL_NOT_FOUND
  | SKILL_INCOMPATIBLE | MODEL_NOT_CONFIGURED | EXECUTION_FAILED | EXECUTION_UNKNOWN
  | CAPABILITY_DENIED | RESOURCE_LIMIT | DEPENDENCY_UNAVAILABLE | MESSAGE_BUSY

fun error_code_value :: "error_code \<Rightarrow> string" where
  "error_code_value INVALID_REQUEST = ''INVALID_REQUEST''"
| "error_code_value SESSION_NOT_FOUND = ''SESSION_NOT_FOUND''"
| "error_code_value RUN_NOT_FOUND = ''RUN_NOT_FOUND''"
| "error_code_value IDEMPOTENCY_CONFLICT = ''IDEMPOTENCY_CONFLICT''"
| "error_code_value STATE_CONFLICT = ''STATE_CONFLICT''"
| "error_code_value INVALID_TRANSITION = ''INVALID_TRANSITION''"
| "error_code_value INVALID_EVENT_CURSOR = ''INVALID_EVENT_CURSOR''"
| "error_code_value SKILL_NOT_FOUND = ''SKILL_NOT_FOUND''"
| "error_code_value SKILL_INCOMPATIBLE = ''SKILL_INCOMPATIBLE''"
| "error_code_value MODEL_NOT_CONFIGURED = ''MODEL_NOT_CONFIGURED''"
| "error_code_value EXECUTION_FAILED = ''EXECUTION_FAILED''"
| "error_code_value EXECUTION_UNKNOWN = ''EXECUTION_UNKNOWN''"
| "error_code_value CAPABILITY_DENIED = ''CAPABILITY_DENIED''"
| "error_code_value RESOURCE_LIMIT = ''RESOURCE_LIMIT''"
| "error_code_value DEPENDENCY_UNAVAILABLE = ''DEPENDENCY_UNAVAILABLE''"
| "error_code_value MESSAGE_BUSY = ''MESSAGE_BUSY''"

text \<open>
  What a call can raise: the repository's own \<^term>\<open>DomainError\<close>, the constraint violation
  of the database, and the built-in exceptions of Python the source lets through.
\<close>

datatype exn = DomainError error_code string | IntegrityError string
  | ContentUnavailable string | ValueErr string | KeyErr string | OSErr string

section \<open>Paths\<close>

text \<open>
  A POSIX \<open>PurePath\<close>: the root is empty, one slash or (exactly two leading slashes) two; the
  parts are the components, without the empty ones and the single dots.
\<close>

record ppath =
  pp_root :: string
  pp_parts :: "string list"

definition path_root :: "string \<Rightarrow> string" where
  "path_root s =
     (if \<not> py_startswith s ''/'' then ''''
      else if py_startswith s ''//'' \<and> \<not> py_startswith s ''///'' then ''//'' else ''/'')"

definition mk_path :: "string \<Rightarrow> ppath" where
  "mk_path s = \<lparr>pp_root = path_root s,
                pp_parts = filter (\<lambda>p. p \<noteq> [] \<and> p \<noteq> ''.'') (py_split CHR ''/'' s)\<rparr>"

definition path_is_absolute :: "ppath \<Rightarrow> bool" where
  "path_is_absolute p = (pp_root p \<noteq> [])"

definition path_as_posix :: "ppath \<Rightarrow> string" where
  "path_as_posix p =
     (if pp_root p = [] \<and> pp_parts p = [] then ''.'' else pp_root p @ py_join ''/'' (pp_parts p))"

definition path_join :: "ppath \<Rightarrow> ppath \<Rightarrow> ppath" where
  "path_join a b = (if path_is_absolute b then b else a\<lparr>pp_parts := pp_parts a @ pp_parts b\<rparr>)"

definition path_relative_to :: "ppath \<Rightarrow> ppath \<Rightarrow> ppath option" where
  "path_relative_to p base =
     (if pp_root p = pp_root base \<and> take (length (pp_parts base)) (pp_parts p) = pp_parts base
      then Some \<lparr>pp_root = [], pp_parts = drop (length (pp_parts base)) (pp_parts p)\<rparr>
      else None)"

record os_env =
  os_expanduser :: "ppath \<Rightarrow> ppath"
  os_resolve :: "ppath \<Rightarrow> ppath option"

definition nul :: char where "nul = char_of (0::nat)"

definition canonical_path :: "os_env \<Rightarrow> string \<Rightarrow> string \<Rightarrow> exn + string" where
  "canonical_path os value field =
     (if py_strip value = [] then Inl (DomainError INVALID_REQUEST (field @ '' must not be empty''))
      else if nul \<in> set value
        then Inl (DomainError INVALID_REQUEST (field @ '' contains an invalid character''))
      else let path = os_expanduser os (mk_path value) in
        if \<not> path_is_absolute path
          then Inl (DomainError INVALID_REQUEST (field @ '' must be an absolute path''))
        else (case os_resolve os path of
                None \<Rightarrow> Inl (DomainError INVALID_REQUEST (field @ '' cannot be resolved''))
              | Some q \<Rightarrow> Inr (path_as_posix q)))"

definition canonical_relative_path :: "string \<Rightarrow> string \<Rightarrow> exn + string" where
  "canonical_relative_path value field =
     (if py_strip value = [] then Inl (DomainError INVALID_REQUEST (field @ '' must not be empty''))
      else if nul \<in> set value
        then Inl (DomainError INVALID_REQUEST (field @ '' contains an invalid character''))
      else let path = mk_path value in
        if path_is_absolute path
          then Inl (DomainError INVALID_REQUEST (field @ '' must be a relative path''))
        else let parts = filter (\<lambda>p. p \<noteq> [] \<and> p \<noteq> ''.'') (pp_parts path) in
          if parts = [] \<or> ''..'' \<in> set parts
            then Inl (DomainError INVALID_REQUEST (field @ '' escapes its logical root''))
          else Inr (path_as_posix \<lparr>pp_root = [], pp_parts = parts\<rparr>))"

fun canonical_skill_paths_from ::
  "os_env \<Rightarrow> nat \<Rightarrow> string list \<Rightarrow> string list \<Rightarrow> exn + string list" where
  "canonical_skill_paths_from os index canonical [] = Inr canonical"
| "canonical_skill_paths_from os index canonical (value # values) =
     bindE (canonical_path os value (''skill_paths['' @ py_str_nat index @ '']''))
       (\<lambda>path. canonical_skill_paths_from os (index + 1)
                 (if path \<in> set canonical then canonical else canonical @ [path]) values)"

definition canonical_skill_paths :: "os_env \<Rightarrow> string list \<Rightarrow> exn + string list" where
  "canonical_skill_paths os values = canonical_skill_paths_from os 0 [] values"

section \<open>Facts about paths\<close>

definition wf_ppath :: "ppath \<Rightarrow> bool" where
  "wf_ppath p \<longleftrightarrow> pp_root p \<in> {'''', ''/'', ''//''}
     \<and> (\<forall>x\<in>set (pp_parts p). x \<noteq> [] \<and> x \<noteq> ''.'' \<and> CHR ''/'' \<notin> set x)"

lemma wf_mk_path [simp, intro]: "wf_ppath (mk_path s)"
  by (auto simp: wf_ppath_def mk_path_def path_root_def dest: py_split_no_sep)

lemma wf_path_join: "wf_ppath a \<Longrightarrow> wf_ppath b \<Longrightarrow> wf_ppath (path_join a b)"
  by (auto simp: wf_ppath_def path_join_def path_is_absolute_def)

lemma join_parts_head:
  assumes "\<forall>x\<in>set ps. x \<noteq> [] \<and> x \<noteq> ''.'' \<and> CHR ''/'' \<notin> set x"
  shows "\<not> py_startswith (py_join ''/'' ps) ''/''"
proof (cases ps)
  case Nil then show ?thesis by (simp add: py_startswith_def)
next
  case (Cons x xs)
  then obtain c cs where "x = c # cs" using assms by (cases x) auto
  then show ?thesis using Cons assms by (cases xs) (auto simp: py_startswith_def)
qed

lemma filter_split_join:
  assumes "\<forall>x\<in>set ps. x \<noteq> [] \<and> x \<noteq> ''.'' \<and> CHR ''/'' \<notin> set x"
  shows "filter (\<lambda>p. p \<noteq> [] \<and> p \<noteq> ''.'') (py_split CHR ''/'' (py_join ''/'' ps)) = ps"
  using assms by (cases "ps = []") (auto simp: py_split_join filter_id_conv)

text \<open>A path read back from its text is the same path.\<close>

lemma mk_path_as_posix: "wf_ppath p \<Longrightarrow> mk_path (path_as_posix p) = p"
proof -
  assume wf: "wf_ppath p"
  obtain r ps where p: "p = \<lparr>pp_root = r, pp_parts = ps\<rparr>" by (cases p)
  have ps: "\<forall>x\<in>set ps. x \<noteq> [] \<and> x \<noteq> ''.'' \<and> CHR ''/'' \<notin> set x"
    and r: "r \<in> {'''', ''/'', ''//''}"
    using wf by (auto simp: wf_ppath_def p)
  note h = join_parts_head [OF ps]
  have f: "filter (\<lambda>p. p \<noteq> [] \<and> p \<noteq> ''.'') (py_split CHR ''/'' (py_join ''/'' ps)) = ps"
    by (rule filter_split_join [OF ps])
  show ?thesis
  proof (cases "r = [] \<and> ps = []")
    case True
    then show ?thesis
      by (simp add: p path_as_posix_def mk_path_def path_root_def py_startswith_def)
  next
    case False
    have "path_root (r @ py_join ''/'' ps) = r"
      using r h by (cases "py_join ''/'' ps") (auto simp: path_root_def py_startswith_def)
    moreover have "filter (\<lambda>p. p \<noteq> [] \<and> p \<noteq> ''.'') (py_split CHR ''/'' (r @ py_join ''/'' ps)) = ps"
      using r f by auto
    ultimately show ?thesis using False by (auto simp: p path_as_posix_def mk_path_def)
  qed
qed

lemma path_as_posix_inj:
  "wf_ppath p \<Longrightarrow> wf_ppath q \<Longrightarrow> path_as_posix p = path_as_posix q \<Longrightarrow> p = q"
  by (metis mk_path_as_posix)

lemma path_relative_to_join:
  assumes "path_relative_to p base = Some r"
  shows "path_join base r = p"
proof -
  have "take (length (pp_parts base)) (pp_parts p) @ drop (length (pp_parts base)) (pp_parts p)
        = pp_parts p" by simp
  then show ?thesis using assms
    by (cases p; cases base)
       (auto simp: path_relative_to_def path_join_def path_is_absolute_def split: if_splits,
        metis append_take_drop_id)
qed

end
