(* ===== verification/Json.thy ===== *)
theory Json
  imports Contracts
begin

text \<open>
  What the source uses of Python's \<open>json\<close> and of \<open>str.encode("utf-8")\<close>: values built from
  null, booleans, integers, strings, arrays and objects, \<open>json.dumps(..., ensure_ascii=False)\<close>
  with or without sorted keys and with either pair of separators, and \<open>json.loads\<close>. The
  round trip at the end is what the content store relies on when it reads a record back.
\<close>

datatype json = JNull | JBool bool | JInt int | JStr string | JArr "json list"
  | JObj "(string \<times> json) list"

section \<open>Printing\<close>

definition hex_digit :: "nat \<Rightarrow> char" where
  "hex_digit n = (if n < 10 then char_of (48 + n) else char_of (87 + n))"

definition esc_char :: "char \<Rightarrow> string" where
  "esc_char c = (let n = of_char c :: nat in
     if n = 34 then [CHR 0x5C, CHR 0x22]
     else if n = 92 then [CHR 0x5C, CHR 0x5C]
     else if n = 10 then [CHR 0x5C, CHR ''n'']
     else if n = 13 then [CHR 0x5C, CHR ''r'']
     else if n = 9 then [CHR 0x5C, CHR ''t'']
     else if n = 12 then [CHR 0x5C, CHR ''f'']
     else if n = 8 then [CHR 0x5C, CHR ''b'']
     else if n < 32 then [CHR 0x5C, CHR ''u'', CHR ''0'', CHR ''0'',
                          hex_digit (n div 16), hex_digit (n mod 16)]
     else [c])"

definition quote_str :: "string \<Rightarrow> string" where
  "quote_str s = CHR 0x22 # concat (map esc_char s) @ [CHR 0x22]"

text \<open>The arguments are \<open>sort_keys\<close> and the two separators.\<close>

fun dumps :: "bool \<Rightarrow> string \<Rightarrow> string \<Rightarrow> json \<Rightarrow> string" where
  "dumps sk isep ksep JNull = ''null''"
| "dumps sk isep ksep (JBool b) = (if b then ''true'' else ''false'')"
| "dumps sk isep ksep (JInt i) = py_str_int i"
| "dumps sk isep ksep (JStr s) = quote_str s"
| "dumps sk isep ksep (JArr xs) = ''['' @ py_join isep (map (dumps sk isep ksep) xs) @ '']''"
| "dumps sk isep ksep (JObj kvs) =
     (let items = map (\<lambda>(k, v). (k, quote_str k @ ksep @ dumps sk isep ksep v)) kvs
      in ''{'' @ py_join isep (map snd (if sk then sort_key fst items else items)) @ ''}'')"

definition dumps_sorted :: "json \<Rightarrow> string" where
  "dumps_sorted j = dumps True '', '' '': '' j"

section \<open>UTF-8\<close>

definition utf8_char :: "char \<Rightarrow> string" where
  "utf8_char c = (let n = of_char c :: nat in
     if n < 128 then [c] else [char_of (192 + n div 64), char_of (128 + n mod 64)])"

definition utf8_encode :: "string \<Rightarrow> string" where
  "utf8_encode s = concat (map utf8_char s)"

fun utf8_decode :: "string \<Rightarrow> string option" where
  "utf8_decode [] = Some []"
| "utf8_decode (a # bs) =
     (if (of_char a :: nat) < 128 then map_option ((#) a) (utf8_decode bs)
      else case bs of
        [] \<Rightarrow> None
      | b # cs \<Rightarrow>
          let n = of_char a :: nat; m = of_char b :: nat in
          if n \<in> {194, 195} \<and> 128 \<le> m \<and> m < 192
          then map_option ((#) (char_of ((n - 192) * 64 + (m - 128)))) (utf8_decode cs)
          else None)"

lemma utf8_decode_char: "utf8_decode (utf8_char c @ s) = map_option ((#) c) (utf8_decode s)"
proof (cases "(of_char c :: nat) < 128")
  case True then show ?thesis by (simp add: utf8_char_def)
next
  case False
  define n where "n = (of_char c :: nat)"
  have n: "128 \<le> n" "n < 256" using False by (auto simp: n_def)
  have "128 div 64 \<le> n div 64" "n div 64 \<le> 255 div 64"
    using n by (intro div_le_mono; simp)+
  then have d: "n div 64 = 2 \<or> n div 64 = 3" by simp linarith
  have m: "n mod 64 < 64" by simp
  have a: "of_char (char_of (192 + n div 64) :: char) = 192 + n div 64"
    using d by (auto simp: of_char_of)
  have b: "of_char (char_of (128 + n mod 64) :: char) = 128 + n mod 64"
    using m by (simp add: of_char_of)
  have "(192 + n div 64 - 192) * 64 + (128 + n mod 64 - 128) = n" by simp
  then have c: "char_of ((192 + n div 64 - 192) * 64 + (128 + n mod 64 - 128)) = c"
    by (simp add: n_def)
  have "utf8_char c = [char_of (192 + n div 64), char_of (128 + n mod 64)]"
    using False by (simp add: utf8_char_def n_def Let_def)
  moreover have "n div 64 = 2 \<Longrightarrow> 128 + n mod 64 = n" "n div 64 = 3 \<Longrightarrow> 192 + n mod 64 = n"
    using div_mult_mod_eq [of n 64] by simp_all
  ultimately show ?thesis using d c by (auto simp: a b)
qed

lemma utf8_encode_append: "utf8_encode (s @ t) = utf8_encode s @ utf8_encode t"
  by (simp add: utf8_encode_def)

lemma utf8_roundtrip: "utf8_decode (utf8_encode s) = Some s"
  by (induction s) (simp_all add: utf8_encode_def utf8_decode_char)

section \<open>Parsing\<close>

definition json_ws :: "char \<Rightarrow> bool" where
  "json_ws c \<longleftrightarrow> c \<in> {CHR '' '', CHR 0x09, CHR 0x0A, CHR 0x0D}"

definition skip_ws :: "string \<Rightarrow> string" where
  "skip_ws s = dropWhile json_ws s"

definition hex_value :: "char \<Rightarrow> nat option" where
  "hex_value c = (let n = of_char c :: nat in
     if 48 \<le> n \<and> n \<le> 57 then Some (n - 48)
     else if 97 \<le> n \<and> n \<le> 102 then Some (n - 87)
     else if 65 \<le> n \<and> n \<le> 70 then Some (n - 55) else None)"

definition unescape :: "char \<Rightarrow> char option" where
  "unescape c = (let n = of_char c :: nat in
     if n \<in> {34, 92, 47} then Some c
     else if c = CHR ''n'' then Some (CHR 0x0A)
     else if c = CHR ''r'' then Some (CHR 0x0D)
     else if c = CHR ''t'' then Some (CHR 0x09)
     else if c = CHR ''f'' then Some (CHR 0x0C)
     else if c = CHR ''b'' then Some (CHR 0x08) else None)"

text \<open>The four digits of a \<open>\u\<close> escape; code points from 256 on are outside the model.\<close>

definition unicode_escape :: "char \<Rightarrow> char \<Rightarrow> char \<Rightarrow> char \<Rightarrow> char option" where
  "unicode_escape a b c d =
     (case (hex_value a, hex_value b, hex_value c, hex_value d) of
        (Some a, Some b, Some c, Some d) \<Rightarrow>
          (let n = ((a * 16 + b) * 16 + c) * 16 + d in if n < 256 then Some (char_of n) else None)
      | _ \<Rightarrow> None)"

fun parse_str :: "string \<Rightarrow> (string \<times> string) option" where
  "parse_str [] = None"
| "parse_str (c # cs) =
     (if c = CHR 0x22 then Some ([], cs)
      else if c = CHR 0x5C then
        (case cs of
           [] \<Rightarrow> None
         | e # es \<Rightarrow>
             if e = CHR ''u'' then
               (case es of
                  h1 # h2 # h3 # h4 # rest \<Rightarrow>
                    (case unicode_escape h1 h2 h3 h4 of
                       None \<Rightarrow> None
                     | Some x \<Rightarrow> map_option (apfst ((#) x)) (parse_str rest))
                | _ \<Rightarrow> None)
             else (case unescape e of
                     None \<Rightarrow> None
                   | Some x \<Rightarrow> map_option (apfst ((#) x)) (parse_str es)))
      else if (of_char c :: nat) < 32 then None
      else map_option (apfst ((#) c)) (parse_str cs))"

definition is_digit :: "char \<Rightarrow> bool" where
  "is_digit c = (let n = of_char c :: nat in 48 \<le> n \<and> n \<le> 57)"

definition digits_value :: "string \<Rightarrow> nat" where
  "digits_value ds = foldl (\<lambda>n c. 10 * n + (of_char c - 48)) 0 ds"

text \<open>A number without fraction and exponent; a leading zero stands alone.\<close>

definition parse_nat :: "string \<Rightarrow> (nat \<times> string) option" where
  "parse_nat s =
     (let ds = takeWhile is_digit s; rest = dropWhile is_digit s in
      if ds = [] then None
      else if hd ds = CHR ''0'' then
        (case tl s of [] \<Rightarrow> Some (0, [])
         | c # _ \<Rightarrow> if c \<in> set ''.eE'' then None else Some (0, tl s))
      else (case rest of [] \<Rightarrow> Some (digits_value ds, rest)
            | c # _ \<Rightarrow> if c \<in> set ''.eE'' then None else Some (digits_value ds, rest)))"

fun dict_set :: "string \<Rightarrow> 'v \<Rightarrow> (string \<times> 'v) list \<Rightarrow> (string \<times> 'v) list" where
  "dict_set k v [] = [(k, v)]"
| "dict_set k v ((k', v') # kvs) = (if k = k' then (k, v) # kvs else (k', v') # dict_set k v kvs)"

definition dict_of :: "(string \<times> 'v) list \<Rightarrow> (string \<times> 'v) list" where
  "dict_of kvs = foldl (\<lambda>d (k, v). dict_set k v d) [] kvs"

fun parse_value :: "nat \<Rightarrow> string \<Rightarrow> (json \<times> string) option"
  and parse_elems :: "nat \<Rightarrow> string \<Rightarrow> (json list \<times> string) option"
  and parse_members :: "nat \<Rightarrow> string \<Rightarrow> ((string \<times> json) list \<times> string) option" where
  "parse_value 0 s = None"
| "parse_value (Suc n) s = (case s of
     [] \<Rightarrow> None
   | c # cs \<Rightarrow>
       if c = CHR 0x22 then map_option (apfst JStr) (parse_str cs)
       else if c = CHR ''{'' then
         (case skip_ws cs of
            [] \<Rightarrow> None
          | d # ds \<Rightarrow> if d = CHR ''}'' then Some (JObj [], ds)
                      else map_option (apfst (JObj \<circ> dict_of)) (parse_members n (d # ds)))
       else if c = CHR ''['' then
         (case skip_ws cs of
            [] \<Rightarrow> None
          | d # ds \<Rightarrow> if d = CHR '']'' then Some (JArr [], ds)
                      else map_option (apfst JArr) (parse_elems n (d # ds)))
       else if take 4 s = ''null'' then Some (JNull, drop 4 s)
       else if take 4 s = ''true'' then Some (JBool True, drop 4 s)
       else if take 5 s = ''false'' then Some (JBool False, drop 5 s)
       else if c = CHR ''-'' then map_option (apfst (\<lambda>k. JInt (- int k))) (parse_nat cs)
       else map_option (apfst (\<lambda>k. JInt (int k))) (parse_nat s))"
| "parse_elems 0 s = None"
| "parse_elems (Suc n) s = (case parse_value n s of
     None \<Rightarrow> None
   | Some (v, r) \<Rightarrow>
       (case skip_ws r of
          [] \<Rightarrow> None
        | c # cs \<Rightarrow> if c = CHR '']'' then Some ([v], cs)
                    else if c = CHR '','' then map_option (apfst ((#) v)) (parse_elems n (skip_ws cs))
                    else None))"
| "parse_members 0 s = None"
| "parse_members (Suc n) s = (case s of
     [] \<Rightarrow> None
   | q # qs \<Rightarrow>
       if q \<noteq> CHR 0x22 then None
       else (case parse_str qs of
          None \<Rightarrow> None
        | Some (k, r) \<Rightarrow>
            (case skip_ws r of
               [] \<Rightarrow> None
             | c # cs \<Rightarrow>
                 if c \<noteq> CHR '':'' then None
                 else (case parse_value n (skip_ws cs) of
                    None \<Rightarrow> None
                  | Some (v, r2) \<Rightarrow>
                      (case skip_ws r2 of
                         [] \<Rightarrow> None
                       | d # ds \<Rightarrow>
                           if d = CHR ''}'' then Some ([(k, v)], ds)
                           else if d = CHR '','' then
                             map_option (apfst ((#) (k, v))) (parse_members n (skip_ws ds))
                           else None)))))"

text \<open>The nesting of a document is shorter than its text, which is therefore enough fuel.\<close>

definition loads :: "string \<Rightarrow> json option" where
  "loads s = (case parse_value (2 * length s + 2) (skip_ws s) of
     None \<Rightarrow> None
   | Some (v, r) \<Rightarrow> if skip_ws r = [] then Some v else None)"

section \<open>Reading back what was printed\<close>

lemma hex_value_digit: "m < 16 \<Longrightarrow> hex_value (hex_digit m) = Some m"
  by (auto simp: hex_value_def hex_digit_def Let_def of_char_of)

lemma unicode_escape_hex:
  assumes "n < 256"
  shows "unicode_escape CHR ''0'' CHR ''0'' (hex_digit (n div 16)) (hex_digit (n mod 16))
       = Some (char_of n)"
proof -
  have "n div 16 < 16" using assms by simp
  moreover have "n div 16 * 16 + n mod 16 = n" by simp
  moreover have "hex_value CHR ''0'' = Some 0" by (simp add: hex_value_def)
  ultimately show ?thesis using assms by (simp add: unicode_escape_def hex_value_digit)
qed

lemma of_char_eqD: "of_char c = (n::nat) \<Longrightarrow> c = char_of n"
  by auto

lemma char_of_controls:
  "char_of (8::nat) = CHR 0x08" "char_of (9::nat) = CHR 0x09" "char_of (10::nat) = CHR 0x0A"
  "char_of (12::nat) = CHR 0x0C" "char_of (13::nat) = CHR 0x0D" "char_of (48::nat) = CHR ''0''"
  "char_of (34::nat) = CHR 0x22" "char_of (92::nat) = CHR 0x5C"
  by code_simp+

lemma parse_str_esc: "parse_str (esc_char c @ t) = map_option (apfst ((#) c)) (parse_str t)"
proof (cases "of_char c < (32::nat)")
  case True
  define n where "n = (of_char c :: nat)"
  have c: "c = char_of n" by (simp add: n_def)
  show ?thesis
  proof (cases "n \<in> {8, 9, 10, 12, 13}")
    case True
    then show ?thesis
      by (auto simp: c esc_char_def unescape_def of_char_of char_of_controls)
  next
    case False
    have "n < 32" using True by (simp add: n_def)
    then have "esc_char c = [CHR 0x5C, CHR ''u'', CHR ''0'', CHR ''0'',
                  hex_digit (n div 16), hex_digit (n mod 16)]"
      using False by (simp add: c esc_char_def of_char_of)
    moreover have "unicode_escape CHR ''0'' CHR ''0'' (hex_digit (n div 16)) (hex_digit (n mod 16))
      = Some c" using \<open>n < 32\<close> by (simp add: unicode_escape_hex c)
    ultimately show ?thesis by simp
  qed
next
  case False
  define n where "n = (of_char c :: nat)"
  have c: "c = char_of n" and n: "32 \<le> n" "n < 256" using False by (simp_all add: n_def)
  show ?thesis
  proof (cases "n \<in> {34, 92}")
    case True
    then show ?thesis
      by (auto simp: c esc_char_def unescape_def of_char_of char_of_controls)
  next
    case False
    then have "c \<noteq> CHR 0x22" "c \<noteq> CHR 0x5C" by (auto simp: n_def)
    moreover have "esc_char c = [c]" using False n by (simp add: esc_char_def n_def Let_def)
    ultimately show ?thesis using n by (simp add: n_def)
  qed
qed

lemma parse_str_quote: "parse_str (concat (map esc_char s) @ CHR 0x22 # t) = Some (s, t)"
  by (induction s) (simp_all add: parse_str_esc)

lemma is_digit_char: "d < 10 \<Longrightarrow> is_digit (digit_char d)"
  by (simp add: is_digit_def digit_char_def of_char_of)

lemma digit_char_inverse: "d < 10 \<Longrightarrow> of_char (digit_char d) - 48 = d"
  by (simp add: digit_char_def of_char_of)

lemma digits_value_snoc: "digits_value (ds @ [c]) = 10 * digits_value ds + (of_char c - 48)"
  by (simp add: digits_value_def)

lemma py_str_nat_digits: "\<forall>c\<in>set (py_str_nat n). is_digit c"
proof (induction n rule: py_str_nat.induct)
  case (1 n) then show ?case by (subst py_str_nat.simps) (auto simp: is_digit_char)
qed

lemma digits_value_py_str: "digits_value (py_str_nat n) = n"
proof (induction n rule: py_str_nat.induct)
  case (1 n)
  then show ?case
    by (subst py_str_nat.simps)
       (auto simp: digits_value_snoc digit_char_inverse, simp add: digits_value_def digit_char_inverse)
qed

lemma py_str_nat_nonempty [simp]: "py_str_nat n \<noteq> []"
  by (subst py_str_nat.simps) simp

lemma digit_char_0: "digit_char d = CHR ''0'' \<Longrightarrow> d < 10 \<Longrightarrow> d = 0"
  by (drule arg_cong [where f = "of_char :: char \<Rightarrow> nat"]) (simp add: digit_char_def of_char_of)

lemma hd_py_str_nat: "hd (py_str_nat n) = CHR ''0'' \<Longrightarrow> n = 0"
proof (induction n rule: py_str_nat.induct)
  case (1 n)
  show ?case
  proof (cases "n < 10")
    case True
    then show ?thesis using "1.prems" by (subst (asm) py_str_nat.simps) (auto dest: digit_char_0)
  next
    case False
    then have "hd (py_str_nat (n div 10)) = CHR ''0''"
      using "1.prems" by (subst (asm) py_str_nat.simps) simp
    then show ?thesis using "1.IH" False by simp
  qed
qed

text \<open>What may follow a number without being read as part of it.\<close>

definition ends_number :: "string \<Rightarrow> bool" where
  "ends_number t \<longleftrightarrow> (case t of [] \<Rightarrow> True | c # _ \<Rightarrow> \<not> is_digit c \<and> c \<notin> set ''.eE'')"

lemma parse_nat_py_str:
  assumes "ends_number t" shows "parse_nat (py_str_nat n @ t) = Some (n, t)"
proof -
  have tk: "takeWhile is_digit (py_str_nat n @ t) = py_str_nat n"
    using py_str_nat_digits [of n] assms
    by (cases t) (auto simp: takeWhile_append2 ends_number_def)
  have dr: "dropWhile is_digit (py_str_nat n @ t) = t"
    using py_str_nat_digits [of n] assms
    by (cases t) (auto simp: dropWhile_append2 ends_number_def)
  show ?thesis
  proof (cases "hd (py_str_nat n) = CHR ''0''")
    case True
    then have "n = 0" by (rule hd_py_str_nat)
    then have "py_str_nat n = ''0''" by (simp add: py_str_nat.simps digit_char_def char_of_controls)
    then show ?thesis unfolding parse_nat_def Let_def tk dr using assms \<open>n = 0\<close>
      by (cases t) (auto simp: ends_number_def)
  next
    case False
    then show ?thesis unfolding parse_nat_def Let_def tk dr using assms
      by (cases t) (auto simp: ends_number_def digits_value_py_str)
  qed
qed

text \<open>The value that comes back: the same one, its objects with their keys in order if sorted.\<close>

fun norm_json :: "bool \<Rightarrow> json \<Rightarrow> json" where
  "norm_json sk (JArr xs) = JArr (map (norm_json sk) xs)"
| "norm_json sk (JObj kvs) =
     (let items = map (\<lambda>(k, v). (k, norm_json sk v)) kvs
      in JObj (if sk then sort_key fst items else items))"
| "norm_json sk j = j"

text \<open>A Python dict has no key twice.\<close>

fun wf_json :: "json \<Rightarrow> bool" where
  "wf_json (JArr xs) = list_all wf_json xs"
| "wf_json (JObj kvs) = (distinct (map fst kvs) \<and> list_all (\<lambda>(k, v). wf_json v) kvs)"
| "wf_json j = True"

lemma insort_key_map:
  "(\<And>x y. f (g x) \<le> f (g y) \<longleftrightarrow> h x \<le> h y) \<Longrightarrow>
     insort_key f (g x) (map g xs) = map g (insort_key h x xs)"
  by (induction xs) auto

lemma sort_key_map:
  assumes "\<And>x. f (g x) = h x" shows "sort_key f (map g xs) = map g (sort_key h xs)"
  by (induction xs) (simp_all add: assms insort_key_map)

lemma dict_set_new: "k \<notin> set (map fst d) \<Longrightarrow> dict_set k v d = d @ [(k, v)]"
  by (induction d) auto

lemma dict_of_aux:
  "distinct (map fst (d @ kvs)) \<Longrightarrow> foldl (\<lambda>d (k, v). dict_set k v d) d kvs = d @ kvs"
proof (induction kvs arbitrary: d)
  case Nil then show ?case by simp
next
  case (Cons kv kvs)
  obtain k v where kv: "kv = (k, v)" by (cases kv)
  have "dict_set k v d = d @ [(k, v)]" using Cons.prems kv by (intro dict_set_new) auto
  then show ?case using Cons.IH [of "d @ [(k, v)]"] Cons.prems kv by simp
qed

lemma dict_of_distinct: "distinct (map fst kvs) \<Longrightarrow> dict_of kvs = kvs"
  using dict_of_aux [of "[]" kvs] by (simp add: dict_of_def)

text \<open>The separators the source uses, with or without a space.\<close>

definition item_seps :: "string set" where "item_seps = {'','', '', ''}"
definition key_seps :: "string set" where "key_seps = {'':'', '': ''}"

definition reads_back :: "bool \<Rightarrow> string \<Rightarrow> string \<Rightarrow> json \<Rightarrow> bool" where
  "reads_back sk isep ksep j \<longleftrightarrow>
     (\<forall>n t. 2 * length (dumps sk isep ksep j) \<le> n \<longrightarrow> ends_number t \<longrightarrow>
        parse_value n (dumps sk isep ksep j @ t) = Some (norm_json sk j, t))"

lemma reads_backD:
  "reads_back sk isep ksep j \<Longrightarrow> 2 * length (dumps sk isep ksep j) \<le> n \<Longrightarrow> ends_number t \<Longrightarrow>
     parse_value n (dumps sk isep ksep j @ t) = Some (norm_json sk j, t)"
  by (simp add: reads_back_def)

text \<open>No printed value starts with white space.\<close>

definition starts_value :: "string \<Rightarrow> bool" where
  "starts_value s \<longleftrightarrow> (case s of [] \<Rightarrow> False | c # _ \<Rightarrow> \<not> json_ws c \<and> c \<notin> set '']}'')"

lemma starts_value_digit: "is_digit c \<Longrightarrow> starts_value (c # s)"
  by (auto simp: starts_value_def is_digit_def json_ws_def Let_def)

lemma starts_value_nat: "starts_value (py_str_nat n @ t)"
  using py_str_nat_digits [of n]
  by (cases "py_str_nat n") (auto simp: starts_value_digit)

lemma starts_value_dumps: "starts_value (dumps sk isep ksep j @ t)"
  by (cases j)
     (auto simp: py_str_int_def starts_value_nat quote_str_def Let_def, simp_all add: starts_value_def json_ws_def)

lemma starts_value_quote: "starts_value (quote_str k @ t)"
  by (simp add: quote_str_def starts_value_def json_ws_def)

lemma skip_ws_starts: "starts_value s \<Longrightarrow> skip_ws s = s"
  by (cases s) (auto simp: starts_value_def skip_ws_def)

lemma starts_value_split:
  assumes "starts_value s"
  obtains c cs where "skip_ws s = c # cs" "s = c # cs" "c \<noteq> CHR '']''" "c \<noteq> CHR ''}''"
  using assms skip_ws_starts [OF assms] by (cases s) (auto simp: starts_value_def)

lemma skip_ws_sep:
  assumes "sep \<in> item_seps" "starts_value s"
  shows "\<exists>r. sep @ s = CHR '','' # r \<and> skip_ws r = s"
  using assms skip_ws_starts [of s]
  by (auto simp: item_seps_def) (simp add: skip_ws_def json_ws_def)

lemma skip_ws_ksep:
  assumes "sep \<in> key_seps" "starts_value s"
  shows "\<exists>r. sep @ s = CHR '':'' # r \<and> skip_ws r = s"
  using assms skip_ws_starts [of s]
  by (auto simp: key_seps_def) (simp add: skip_ws_def json_ws_def)

lemma skip_ws_comma [simp]: "skip_ws (CHR '','' # r) = CHR '','' # r"
  and skip_ws_colon [simp]: "skip_ws (CHR '':'' # r) = CHR '':'' # r"
  and skip_ws_rbracket [simp]: "skip_ws (CHR '']'' # r) = CHR '']'' # r"
  and skip_ws_rbrace [simp]: "skip_ws (CHR ''}'' # r) = CHR ''}'' # r"
  by (simp_all add: skip_ws_def json_ws_def)

lemma ends_number_punct [simp]:
  "ends_number (CHR '','' # r)" "ends_number (CHR '']'' # r)" "ends_number (CHR ''}'' # r)"
  by (simp_all add: ends_number_def is_digit_def)

lemma parse_elems_dumps:
  assumes "isep \<in> item_seps" "xs \<noteq> []" "\<forall>x\<in>set xs. reads_back sk isep ksep x"
    "2 * length (py_join isep (map (dumps sk isep ksep) xs)) + 1 \<le> n"
  shows "parse_elems n (py_join isep (map (dumps sk isep ksep) xs) @ CHR '']'' # t)
       = Some (map (norm_json sk) xs, t)"
  using assms(2-)
proof (induction xs arbitrary: n)
  case Nil then show ?case by simp
next
  case (Cons x xs)
  obtain m where n: "n = Suc m" using Cons.prems by (cases n) auto
  show ?case
  proof (cases "xs = []")
    case True
    then have "parse_value m (dumps sk isep ksep x @ CHR '']'' # t)
               = Some (norm_json sk x, CHR '']'' # t)"
      using Cons.prems n by (intro reads_backD) auto
    then show ?thesis using True n by simp
  next
    case False
    let ?J = "py_join isep (map (dumps sk isep ksep) xs)"
    have J: "py_join isep (map (dumps sk isep ksep) (x # xs)) = dumps sk isep ksep x @ isep @ ?J"
      using False by (cases xs) auto
    have "starts_value (?J @ CHR '']'' # t)"
      using False starts_value_dumps by (cases xs; cases "tl xs") auto
    then obtain r where r: "isep @ ?J @ CHR '']'' # t = CHR '','' # r"
        "skip_ws r = ?J @ CHR '']'' # t"
      using skip_ws_sep [OF assms(1)] by blast
    have l: "1 \<le> length isep" using assms(1) by (auto simp: item_seps_def)
    have "parse_value m (dumps sk isep ksep x @ CHR '','' # r) = Some (norm_json sk x, CHR '','' # r)"
      using Cons.prems n J by (intro reads_backD) auto
    moreover have "parse_elems m (skip_ws r) = Some (map (norm_json sk) xs, t)"
      unfolding r(2) using Cons.prems n J l False by (intro Cons.IH) auto
    ultimately show ?thesis using n J r(1) by simp
  qed
qed

abbreviation member_text :: "bool \<Rightarrow> string \<Rightarrow> string \<Rightarrow> string \<times> json \<Rightarrow> string" where
  "member_text sk isep ksep kv \<equiv> quote_str (fst kv) @ ksep @ dumps sk isep ksep (snd kv)"

lemma parse_members_dumps:
  assumes "isep \<in> item_seps" "ksep \<in> key_seps" "kvs \<noteq> []"
    "\<forall>kv\<in>set kvs. reads_back sk isep ksep (snd kv)"
    "2 * length (py_join isep (map (member_text sk isep ksep) kvs)) + 1 \<le> n"
  shows "parse_members n (py_join isep (map (member_text sk isep ksep) kvs) @ CHR ''}'' # t)
       = Some (map (\<lambda>(k, v). (k, norm_json sk v)) kvs, t)"
  using assms(3-)
proof (induction kvs arbitrary: n)
  case Nil then show ?case by simp
next
  case (Cons kv kvs)
  obtain k v where kv: "kv = (k, v)" by (cases kv)
  obtain m where n: "n = Suc m" using Cons.prems by (cases n) auto
  let ?D = "dumps sk isep ksep v"
  have key: "\<exists>r. ksep @ ?D @ u = CHR '':'' # r \<and> skip_ws r = ?D @ u" for u
    using skip_ws_ksep [OF assms(2) starts_value_dumps] by blast
  have rb: "parse_value m (?D @ u) = Some (norm_json sk v, u)"
    if "ends_number u" "2 * length ?D \<le> m" for u
    using Cons.prems kv that by (intro reads_backD) auto
  show ?case
  proof (cases "kvs = []")
    case True
    obtain r where r: "ksep @ ?D @ CHR ''}'' # t = CHR '':'' # r"
        "skip_ws r = ?D @ CHR ''}'' # t"
      using key by blast
    have "parse_value m (skip_ws r) = Some (norm_json sk v, CHR ''}'' # t)"
      unfolding r(2) using Cons.prems n kv True by (intro rb) auto
    then show ?thesis using True n kv r(1) by (simp add: quote_str_def parse_str_quote)
  next
    case False
    let ?J = "py_join isep (map (member_text sk isep ksep) kvs)"
    have J: "py_join isep (map (member_text sk isep ksep) (kv # kvs))
               = quote_str k @ ksep @ ?D @ isep @ ?J"
      using False kv by (cases kvs) auto
    have "starts_value (?J @ CHR ''}'' # t)"
      using False starts_value_quote by (cases kvs; cases "tl kvs") auto
    then obtain r where r: "isep @ ?J @ CHR ''}'' # t = CHR '','' # r"
        "skip_ws r = ?J @ CHR ''}'' # t"
      using skip_ws_sep [OF assms(1)] by blast
    obtain q where q: "ksep @ ?D @ CHR '','' # r = CHR '':'' # q"
        "skip_ws q = ?D @ CHR '','' # r"
      using key by blast
    have l: "1 \<le> length isep" using assms(1) by (auto simp: item_seps_def)
    have "parse_value m (skip_ws q) = Some (norm_json sk v, CHR '','' # r)"
      unfolding q(2) using Cons.prems n J by (intro rb) auto
    moreover have "parse_members m (skip_ws r) = Some (map (\<lambda>(k, v). (k, norm_json sk v)) kvs, t)"
      unfolding r(2) using Cons.prems n J l False by (intro Cons.IH) auto
    ultimately show ?thesis using n kv J r(1) q(1)
      by (simp add: quote_str_def parse_str_quote)
  qed
qed

lemma dumps_JObj:
  "dumps sk isep ksep (JObj kvs) =
     ''{'' @ py_join isep (map (member_text sk isep ksep) (if sk then sort_key fst kvs else kvs))
     @ ''}''"
proof -
  let ?g = "\<lambda>(k, v). (k, quote_str k @ ksep @ dumps sk isep ksep v)"
  have "sort_key fst (map ?g kvs) = map ?g (sort_key fst kvs)"
    by (rule sort_key_map) auto
  moreover have "map snd (map ?g xs) = map (member_text sk isep ksep) xs" for xs
    by (induction xs) auto
  ultimately show ?thesis by (cases sk) (simp_all only: dumps.simps Let_def if_True if_False)
qed

lemma norm_json_JObj:
  "norm_json sk (JObj kvs) =
     JObj (map (\<lambda>(k, v). (k, norm_json sk v)) (if sk then sort_key fst kvs else kvs))"
proof -
  have "sort_key fst (map (\<lambda>(k, v). (k, norm_json sk v)) kvs)
        = map (\<lambda>(k, v). (k, norm_json sk v)) (sort_key fst kvs)"
    by (rule sort_key_map) auto
  then show ?thesis by (cases sk) (simp_all only: norm_json.simps Let_def if_True if_False)
qed

lemma dumps_nonempty: "1 \<le> length (dumps sk isep ksep j)"
  using starts_value_dumps [of sk isep ksep j "[]"]
  by (cases "dumps sk isep ksep j") (auto simp: starts_value_def)

lemma reads_backI:
  "(\<And>n t. 2 * length (dumps sk isep ksep j) \<le> Suc n \<Longrightarrow> ends_number t \<Longrightarrow>
      parse_value (Suc n) (dumps sk isep ksep j @ t) = Some (norm_json sk j, t)) \<Longrightarrow>
   reads_back sk isep ksep j"
  unfolding reads_back_def
  by (metis dumps_nonempty not_less_eq_eq Suc_le_D mult_2 add_leD1 le_trans One_nat_def)

lemma parse_value_digits:
  "ends_number t \<Longrightarrow> parse_value (Suc n) (py_str_nat k @ t) = Some (JInt (int k), t)"
proof -
  assume t: "ends_number t"
  obtain c cs where c: "py_str_nat k = c # cs" by (cases "py_str_nat k") auto
  have "is_digit c" using py_str_nat_digits [of k] c by simp
  then have "c \<noteq> CHR 0x22" "c \<noteq> CHR ''{''" "c \<noteq> CHR ''[''" "c \<noteq> CHR ''n''" "c \<noteq> CHR ''t''"
      "c \<noteq> CHR ''f''" "c \<noteq> CHR ''-''"
    by (auto simp: is_digit_def)
  then show ?thesis using parse_nat_py_str [OF t, of k] c by simp
qed

lemma reads_back_all:
  assumes "isep \<in> item_seps" "ksep \<in> key_seps"
  shows "wf_json j \<Longrightarrow> reads_back sk isep ksep j"
proof (induction j)
  case (JInt i)
  show ?case
  proof (rule reads_backI)
    fix n t assume t: "ends_number t"
    show "parse_value (Suc n) (dumps sk isep ksep (JInt i) @ t) = Some (norm_json sk (JInt i), t)"
      using parse_value_digits [OF t, of n "nat i"] parse_nat_py_str [OF t, of "nat (- i)"]
      by (simp add: py_str_int_def)
  qed
next
  case (JStr s)
  show ?case by (rule reads_backI) (simp add: quote_str_def parse_str_quote)
next
  case (JArr xs)
  show ?case
  proof (rule reads_backI)
    fix n t assume n: "2 * length (dumps sk isep ksep (JArr xs)) \<le> Suc n"
    let ?J = "py_join isep (map (dumps sk isep ksep) xs)"
    show "parse_value (Suc n) (dumps sk isep ksep (JArr xs) @ t) = Some (norm_json sk (JArr xs), t)"
    proof (cases "xs = []")
      case False
      have "starts_value (?J @ CHR '']'' # t)"
        using False starts_value_dumps by (cases xs; cases "tl xs") auto
      then obtain c cs where c: "skip_ws (?J @ CHR '']'' # t) = c # cs" "?J @ CHR '']'' # t = c # cs"
          "c \<noteq> CHR '']''"
        by (rule starts_value_split)
      have "parse_elems n (?J @ CHR '']'' # t) = Some (map (norm_json sk) xs, t)"
        using JArr n False by (intro parse_elems_dumps assms(1)) (auto simp: list_all_iff)
      then show ?thesis using c by simp
    qed simp
  qed
next
  case (JObj kvs)
  show ?case
  proof (rule reads_backI)
    fix n t assume n: "2 * length (dumps sk isep ksep (JObj kvs)) \<le> Suc n"
    let ?K = "if sk then sort_key fst kvs else kvs"
    let ?J = "py_join isep (map (member_text sk isep ksep) ?K)"
    have set: "set ?K = set kvs" and dist: "distinct (map fst ?K)"
      using JObj.prems by (auto simp: distinct_map intro: distinct_sort)
    show "parse_value (Suc n) (dumps sk isep ksep (JObj kvs) @ t) = Some (norm_json sk (JObj kvs), t)"
    proof (cases "?K = []")
      case True
      then show ?thesis unfolding dumps_JObj norm_json_JObj by simp
    next
      case False
      have "starts_value (?J @ CHR ''}'' # t)"
        using False starts_value_quote by (cases ?K; cases "tl ?K") auto
      then obtain c cs where c: "skip_ws (?J @ CHR ''}'' # t) = c # cs" "?J @ CHR ''}'' # t = c # cs"
          "c \<noteq> CHR ''}''"
        by (rule starts_value_split)
      have "\<forall>kv\<in>set ?K. reads_back sk isep ksep (snd kv)"
        using JObj set by (fastforce simp: list_all_iff)
      then have "parse_members n (?J @ CHR ''}'' # t) = Some (map (\<lambda>(k, v). (k, norm_json sk v)) ?K, t)"
        using n False unfolding dumps_JObj by (intro parse_members_dumps assms) auto
      moreover have "dict_of (map (\<lambda>(k, v). (k, norm_json sk v)) ?K)
                     = map (\<lambda>(k, v). (k, norm_json sk v)) ?K"
        using dist by (intro dict_of_distinct) (simp add: comp_def case_prod_beta)
      ultimately show ?thesis unfolding dumps_JObj norm_json_JObj using c by simp
    qed
  qed
qed (rule reads_backI, simp)+

lemma loads_dumps:
  assumes "isep \<in> item_seps" "ksep \<in> key_seps" "wf_json j"
  shows "loads (dumps sk isep ksep j) = Some (norm_json sk j)"
proof -
  have "skip_ws (dumps sk isep ksep j) = dumps sk isep ksep j"
    using skip_ws_starts [OF starts_value_dumps [of sk isep ksep j "[]"]] by simp
  moreover have "parse_value (2 * length (dumps sk isep ksep j) + 2) (dumps sk isep ksep j @ [])
                 = Some (norm_json sk j, [])"
    using reads_back_all [OF assms] by (intro reads_backD) (auto simp: ends_number_def)
  ultimately show ?thesis by (simp add: loads_def skip_ws_def)
qed

lemma dumps_norm: "wf_json j \<Longrightarrow> dumps True isep ksep (norm_json True j) = dumps True isep ksep j"
proof (induction j)
  case (JArr xs)
  then show ?case by (auto simp: list_all_iff intro!: arg_cong [where f = "py_join isep"])
next
  case (JObj kvs)
  let ?n = "\<lambda>(k, v). (k, norm_json True v)"
  have "sort_key fst (map ?n (sort_key fst kvs)) = map ?n (sort_key fst (sort_key fst kvs))"
    by (rule sort_key_map) auto
  also have "sort_key fst (sort_key fst kvs) = sort_key fst kvs"
    by (rule sort_key_id_if_sorted) simp
  finally have s: "sort_key fst (map ?n (sort_key fst kvs)) = map ?n (sort_key fst kvs)" .
  have "map (member_text True isep ksep) (map ?n (sort_key fst kvs))
        = map (member_text True isep ksep) (sort_key fst kvs)"
    using JObj by (fastforce simp: list_all_iff)
  then show ?case by (simp only: norm_json_JObj dumps_JObj if_True s)
qed auto

lemma norm_json_wf: "wf_json j \<Longrightarrow> wf_json (norm_json sk j)"
proof (induction j)
  case (JArr xs) then show ?case by (auto simp: list_all_iff)
next
  case (JObj kvs)
  let ?K = "if sk then sort_key fst kvs else kvs"
  have "distinct (map fst ?K)" "set ?K = set kvs"
    using JObj.prems by (auto simp: distinct_map)
  then show ?case unfolding norm_json_JObj using JObj
    by (fastforce simp: list_all_iff comp_def case_prod_beta)
qed auto

section \<open>What a document parses to has no key twice\<close>

lemma dict_set_keys: "fst ` set (dict_set k v d) = insert k (fst ` set d)"
  by (induction d rule: dict_set.induct) auto

lemma dict_set_wf:
  "distinct (map fst d) \<and> list_all (\<lambda>(k, v). wf_json v) d \<Longrightarrow> wf_json v
   \<Longrightarrow> distinct (map fst (dict_set k v d)) \<and> list_all (\<lambda>(k, v). wf_json v) (dict_set k v d)"
  by (induction d rule: dict_set.induct) (auto simp: dict_set_keys)

lemma dict_of_wf: "list_all (\<lambda>(k, v). wf_json v) kvs \<Longrightarrow> wf_json (JObj (dict_of kvs))"
proof -
  have "distinct (map fst (foldl (\<lambda>d (k, v). dict_set k v d) d kvs))
      \<and> list_all (\<lambda>(k, v). wf_json v) (foldl (\<lambda>d (k, v). dict_set k v d) d kvs)"
    if "list_all (\<lambda>(k, v). wf_json v) kvs" "distinct (map fst d) \<and> list_all (\<lambda>(k, v). wf_json v) d" for d
    using that by (induction kvs arbitrary: d) (auto simp: dict_set_wf)
  from this [of "[]"] show "list_all (\<lambda>(k, v). wf_json v) kvs \<Longrightarrow> wf_json (JObj (dict_of kvs))"
    by (simp add: dict_of_def)
qed

lemma parse_wf:
  "parse_value n s = Some (j, r) \<Longrightarrow> wf_json j"
  "parse_elems n s = Some (js, r) \<Longrightarrow> list_all wf_json js"
  "parse_members n s = Some (kvs, r) \<Longrightarrow> list_all (\<lambda>(k, v). wf_json v) kvs"
proof (induction n s and n s and n s arbitrary: j r and js r and kvs r
    rule: parse_value_parse_elems_parse_members.induct)
  case (2 n s)
  then show ?case
    by (auto split: list.splits if_splits simp: map_option_case dict_of_wf [simplified] split: option.splits)
next
  case (4 n s)
  then show ?case by (auto split: option.splits list.splits if_splits simp: map_option_case)
next
  case (6 n s)
  then show ?case by (auto split: option.splits list.splits if_splits prod.split_asm simp: map_option_case)
qed simp_all

lemma loads_wf: "loads s = Some j \<Longrightarrow> wf_json j"
  by (auto simp: loads_def simp del: parse_value.simps split: option.splits if_splits dest: parse_wf(1))

end
