(* ===== verification/ContentStore.thy ===== *)
theory ContentStore
  imports Json "HOL-Library.AList"
begin

text \<open>
  The file-backed body store of \<open>src/code_forge/persistence/content_store.py\<close>: append-only
  JSONL logs that rotate by size, and object files written once. The file system is an
  association list from a base directory and a relative path to bytes. The lemmas show that
  a record read through the reference its append returned is the record, whatever is written
  afterwards, and that the first write of an object wins.

  SHA-256 is the argument \<open>sha\<close>, a function from bytes to a hexadecimal digest: nothing here
  depends on which function it is.
\<close>

type_synonym file_key = "string \<times> string"
type_synonym files = "(file_key \<times> string) list"

definition canonical_json :: "json \<Rightarrow> string" where
  "canonical_json value = dumps True '','' '':'' value"

definition digest_bytes :: "(string \<Rightarrow> string) \<Rightarrow> string \<Rightarrow> string" where
  "digest_bytes sha payload = sha payload"

definition digest_json :: "(string \<Rightarrow> string) \<Rightarrow> json \<Rightarrow> string" where
  "digest_json sha value = digest_bytes sha (utf8_encode (canonical_json value))"

definition digest_text :: "(string \<Rightarrow> string) \<Rightarrow> string \<Rightarrow> string" where
  "digest_text sha value = digest_bytes sha (utf8_encode value)"

record content_ref =
  cr_ref :: string
  cr_offset :: nat
  cr_bytes :: nat
  cr_digest :: string

record object_ref =
  ob_ref :: string
  ob_bytes :: nat
  ob_digest :: string

text \<open>The directory entries of \<open>base / relative_dir\<close> that \<open>glob\<close> matches.\<close>

definition name_in_dir :: "string \<Rightarrow> ppath \<Rightarrow> file_key \<Rightarrow> string option" where
  "name_in_dir base dir key =
     (let parts = pp_parts (mk_path (snd key)) in
      if fst key = base \<and> parts \<noteq> [] \<and> butlast parts = pp_parts dir then Some (last parts) else None)"

definition glob_jsonl :: "string \<Rightarrow> string \<Rightarrow> bool" where
  "glob_jsonl prefix name \<longleftrightarrow>
     py_startswith name (prefix @ ''-'') \<and> length prefix + 7 \<le> length name
     \<and> drop (length name - 6) name = ''.jsonl''"

definition pad6 :: "nat \<Rightarrow> string" where
  "pad6 n = (let s = py_str_nat n in replicate (6 - length s) CHR ''0'' @ s)"

definition next_file :: "nat \<Rightarrow> files \<Rightarrow> string \<Rightarrow> ppath \<Rightarrow> string \<Rightarrow> nat \<Rightarrow> string" where
  "next_file max_file_bytes fs base dir prefix incoming =
     (let names = sort (filter (glob_jsonl prefix) (List.map_filter (name_in_dir base dir \<circ> fst) fs))
      in if names = [] then prefix @ ''-000001.jsonl''
         else let candidate = last names;
                  size = (case map_of fs (base, path_as_posix (path_join dir (mk_path candidate)))
                          of None \<Rightarrow> 0 | Some c \<Rightarrow> length c)
              in if size \<noteq> 0 \<and> size + incoming > max_file_bytes
                 then prefix @ ''-'' @ pad6 (length names + 1) @ ''.jsonl''
                 else candidate)"

definition append_record ::
  "nat \<Rightarrow> (string \<Rightarrow> string) \<Rightarrow> files \<Rightarrow> string \<Rightarrow> string \<Rightarrow> json \<Rightarrow> string \<Rightarrow> content_ref \<times> files" where
  "append_record max_file_bytes sha fs base relative_dir record prefix =
     (let encoded = utf8_encode (canonical_json record @ [CHR 0x0A]);
          dir = mk_path relative_dir;
          target = next_file max_file_bytes fs base dir prefix (length encoded);
          ref = path_as_posix (path_join dir (mk_path target));
          old = (case map_of fs (base, ref) of None \<Rightarrow> [] | Some c \<Rightarrow> c)
      in (\<lparr>cr_ref = ref, cr_offset = length old, cr_bytes = length encoded,
           cr_digest = digest_json sha record\<rparr>,
          AList.update (base, ref) (old @ encoded) fs))"

definition read_record :: "files \<Rightarrow> string \<Rightarrow> string \<Rightarrow> nat \<Rightarrow> nat \<Rightarrow> exn + json" where
  "read_record fs base ref offset len =
     (case map_of fs (base, path_as_posix (mk_path ref)) of
        None \<Rightarrow> Inl (OSErr ''FileNotFoundError'')
      | Some content \<Rightarrow>
          (case utf8_decode (take len (drop offset content)) of
             None \<Rightarrow> Inl (ValueErr ''UnicodeDecodeError'')
           | Some text \<Rightarrow>
               (case loads text of None \<Rightarrow> Inl (ValueErr ''JSONDecodeError'') | Some v \<Rightarrow> Inr v)))"

definition read_verified ::
  "(string \<Rightarrow> string) \<Rightarrow> files \<Rightarrow> string \<Rightarrow> string \<Rightarrow> nat \<Rightarrow> nat \<Rightarrow> string option \<Rightarrow> exn + json" where
  "read_verified sha fs base ref offset len expected_digest =
     bindE (read_record fs base ref offset len) (\<lambda>record.
       if \<not> falsy expected_digest \<and> Some (digest_json sha record) \<noteq> expected_digest
       then Inl (ContentUnavailable (''Content digest mismatch for '' @ ref))
       else Inr record)"

definition write_object ::
  "(string \<Rightarrow> string) \<Rightarrow> files \<Rightarrow> string \<Rightarrow> string \<Rightarrow> string \<Rightarrow> object_ref \<times> files" where
  "write_object sha fs base relative_path payload =
     (let target = (base, path_as_posix (mk_path relative_path))
      in (\<lparr>ob_ref = relative_path, ob_bytes = length payload, ob_digest = digest_bytes sha payload\<rparr>,
          if map_of fs target = None then AList.update target payload fs else fs))"

definition read_object :: "files \<Rightarrow> string \<Rightarrow> string \<Rightarrow> exn + string" where
  "read_object fs base ref =
     (case map_of fs (base, path_as_posix (mk_path ref)) of
        None \<Rightarrow> Inl (ContentUnavailable (''Content object is unavailable: '' @ ref))
      | Some payload \<Rightarrow> Inr payload)"

section \<open>What is stored stays\<close>

text \<open>Files only grow: every operation keeps the bytes that were there.\<close>

definition extends :: "files \<Rightarrow> files \<Rightarrow> bool" where
  "extends fs fs' \<longleftrightarrow> (\<forall>k c. map_of fs k = Some c \<longrightarrow> (\<exists>e. map_of fs' k = Some (c @ e)))"

lemma extends_refl [simp]: "extends fs fs"
  by (auto simp: extends_def)

lemma extendsD: "extends fs fs' \<Longrightarrow> map_of fs k = Some c \<Longrightarrow> \<exists>e. map_of fs' k = Some (c @ e)"
  unfolding extends_def by blast

lemma extends_trans: "extends a b \<Longrightarrow> extends b c \<Longrightarrow> extends a c"
  unfolding extends_def by (metis append.assoc)

lemma map_of_update: "map_of (AList.update k v al) = (map_of al)(k \<mapsto> v)"
  by (simp add: update_conv')

lemma extends_append: "extends fs (snd (append_record mx sha fs base dir record prefix))"
  by (auto simp: append_record_def Let_def extends_def map_of_update)

lemma extends_write: "extends fs (snd (write_object sha fs base path payload))"
  by (auto simp: write_object_def Let_def extends_def map_of_update)

datatype content_op = Append string string json string | Write string string string

fun apply_op :: "nat \<Rightarrow> (string \<Rightarrow> string) \<Rightarrow> files \<Rightarrow> content_op \<Rightarrow> files" where
  "apply_op mx sha fs (Append base dir record prefix) =
     snd (append_record mx sha fs base dir record prefix)"
| "apply_op mx sha fs (Write base path payload) = snd (write_object sha fs base path payload)"

definition apply_ops :: "nat \<Rightarrow> (string \<Rightarrow> string) \<Rightarrow> files \<Rightarrow> content_op list \<Rightarrow> files" where
  "apply_ops mx sha fs ops = foldl (apply_op mx sha) fs ops"

lemma extends_apply_ops: "extends fs (apply_ops mx sha fs ops)"
proof (induction ops arbitrary: fs)
  case Nil then show ?case by (simp add: apply_ops_def)
next
  case (Cons op ops)
  have "extends fs (apply_op mx sha fs op)"
    by (cases op) (simp_all add: extends_append extends_write)
  then show ?case using Cons [of "apply_op mx sha fs op"]
    by (auto simp: apply_ops_def intro: extends_trans)
qed

lemma canonical_newline: "canonical_json j @ [CHR 0x0A] = dumps True '','' '':'' j @ [CHR 0x0A]"
  by (simp add: canonical_json_def)

text \<open>The line break after a record is white space to the parser.\<close>

lemma loads_canonical_newline:
  assumes "wf_json j" shows "loads (canonical_json j @ [CHR 0x0A]) = Some (norm_json True j)"
proof -
  let ?t = "[CHR 0x0A]"
  let ?d = "dumps True '','' '':'' j"
  have sep: "'','' \<in> item_seps" "'':'' \<in> key_seps" by (auto simp: item_seps_def key_seps_def)
  have "ends_number ?t" by (simp add: ends_number_def is_digit_def)
  then have "parse_value (2 * length (?d @ ?t) + 2) (?d @ ?t) = Some (norm_json True j, ?t)"
    using reads_back_all [OF sep assms] by (intro reads_backD) auto
  moreover have "skip_ws (?d @ ?t) = ?d @ ?t" by (rule skip_ws_starts) (rule starts_value_dumps)
  moreover have "skip_ws ?t = []" by (simp add: skip_ws_def json_ws_def)
  ultimately show ?thesis by (simp only: loads_def canonical_newline) simp
qed

lemma normal_ref [simp]:
  "path_as_posix (mk_path (path_as_posix (path_join (mk_path d) (mk_path t))))
   = path_as_posix (path_join (mk_path d) (mk_path t))"
  by (simp add: mk_path_as_posix wf_path_join)

lemma digest_norm: "wf_json j \<Longrightarrow> digest_json sha (norm_json True j) = digest_json sha j"
  by (simp add: digest_json_def canonical_json_def dumps_norm)

lemma append_bytes:
  assumes "append_record mx sha fs base dir record prefix = (ref, fs')"
  shows "\<exists>old. map_of fs' (base, cr_ref ref)
           = Some (old @ utf8_encode (canonical_json record @ [CHR 0x0A]))
         \<and> cr_offset ref = length old
         \<and> cr_bytes ref = length (utf8_encode (canonical_json record @ [CHR 0x0A]))
         \<and> cr_digest ref = digest_json sha record
         \<and> path_as_posix (mk_path (cr_ref ref)) = cr_ref ref"
  using assms by (auto simp: append_record_def Let_def map_of_update)

lemma read_after_append:
  assumes "wf_json record" "append_record mx sha fs base dir record prefix = (ref, fs1)"
    "extends fs1 fs2"
  shows "read_verified sha fs2 base (cr_ref ref) (cr_offset ref) (cr_bytes ref) (Some (cr_digest ref))
         = Inr (norm_json True record)"
proof -
  obtain old where old: "map_of fs1 (base, cr_ref ref)
           = Some (old @ utf8_encode (canonical_json record @ [CHR 0x0A]))"
      "cr_offset ref = length old"
      "cr_bytes ref = length (utf8_encode (canonical_json record @ [CHR 0x0A]))"
      "cr_digest ref = digest_json sha record"
      "path_as_posix (mk_path (cr_ref ref)) = cr_ref ref"
    using append_bytes [OF assms(2)] by blast
  obtain e where "map_of fs2 (base, cr_ref ref)
           = Some ((old @ utf8_encode (canonical_json record @ [CHR 0x0A])) @ e)"
    using extendsD [OF assms(3) old(1)] by blast
  then show ?thesis
    by (simp add: read_verified_def read_record_def old(2-) utf8_roundtrip
          loads_canonical_newline assms(1) digest_norm)
qed

text \<open>The bytes a reference spans never overlap those of a later append to the same file.\<close>

lemma append_offset_fresh:
  assumes "append_record mx sha fs base dir record prefix = (ref, fs1)" "extends fs1 fs2"
    "append_record mx sha fs2 base dir2 record2 prefix2 = (ref2, fs3)" "cr_ref ref2 = cr_ref ref"
  shows "cr_offset ref + cr_bytes ref \<le> cr_offset ref2"
proof -
  obtain old where old: "map_of fs1 (base, cr_ref ref)
           = Some (old @ utf8_encode (canonical_json record @ [CHR 0x0A]))"
      "cr_offset ref = length old"
      "cr_bytes ref = length (utf8_encode (canonical_json record @ [CHR 0x0A]))"
    using append_bytes [OF assms(1)] by blast
  obtain e where "map_of fs2 (base, cr_ref ref)
           = Some ((old @ utf8_encode (canonical_json record @ [CHR 0x0A])) @ e)"
    using extendsD [OF assms(2) old(1)] by blast
  then show ?thesis using assms(3,4) old by (auto simp: append_record_def Let_def)
qed

end
