(* ===== verification/Bindings.thy ===== *)
theory Bindings
  imports Contracts
begin

text \<open>
  The dataclasses of \<open>src/code_forge/contracts.py\<close> that cross component boundaries, with the
  validation of \<open>UserBinding.__post_init__\<close>, \<open>ExecutionContext.__post_init__\<close> and
  \<open>RunRequest.__post_init__\<close>. A dataclass whose construction can raise has a \<open>make_\<close> function.
\<close>

record user_binding =
  ub_scope_id :: string
  ub_tenant_ref :: string
  ub_user_ref :: string
  ub_user_path :: string
  ub_project_ref :: string
  ub_project_path :: string
  ub_storage_root :: string
  ub_user_rel_path :: string
  ub_project_rel_path :: string

text \<open>\<open>[A-Za-z0-9._-]\<close>\<close>

definition ref_char :: "char \<Rightarrow> bool" where
  "ref_char c = ((CHR ''A'' \<le> c \<and> c \<le> CHR ''Z'') \<or> (CHR ''a'' \<le> c \<and> c \<le> CHR ''z'')
     \<or> (CHR ''0'' \<le> c \<and> c \<le> CHR ''9'') \<or> c \<in> {CHR ''.'', CHR ''_'', CHR ''-''})"

definition stable_reference :: "string \<Rightarrow> bool" where
  "stable_reference v = (py_strip v \<noteq> [] \<and> length v \<le> 200 \<and> v \<noteq> [] \<and> list_all ref_char v)"

fun check_references :: "(string \<times> string) list \<Rightarrow> exn + unit" where
  "check_references [] = Inr ()"
| "check_references ((field, value) # rest) =
     (if stable_reference value then check_references rest
      else Inl (DomainError INVALID_REQUEST
             (field @ '' must be a stable 1-200 character reference'')))"

definition resolve_or_raise :: "os_env \<Rightarrow> ppath \<Rightarrow> exn + string" where
  "resolve_or_raise os p = (case os_resolve os p of
      None \<Rightarrow> Inl (OSErr ''resolve'') | Some q \<Rightarrow> Inr (path_as_posix q))"

definition check_user_path ::
  "os_env \<Rightarrow> string \<Rightarrow> string \<Rightarrow> string \<Rightarrow> exn + (string \<times> string)" where
  "check_user_path os user_path storage_root user_rel_path =
     (if storage_root \<noteq> [] then
        bindE (canonical_path os storage_root ''storage_root'') (\<lambda>root.
        bindE (canonical_relative_path user_rel_path ''user_rel_path'') (\<lambda>rel.
        bindE (resolve_or_raise os (path_join (mk_path root) (mk_path rel))) (\<lambda>expected.
          if user_path \<noteq> expected
          then Inl (DomainError INVALID_REQUEST ''user_path must equal storage_root/user_rel_path'')
          else Inr (root, rel))))
      else if user_rel_path \<noteq> []
        then Inl (DomainError INVALID_REQUEST
               ''storage_root is required when user_rel_path is provided'')
      else Inr ([], []))"

definition check_project_rel ::
  "os_env \<Rightarrow> string \<Rightarrow> string \<Rightarrow> string \<Rightarrow> ppath \<Rightarrow> exn + string" where
  "check_project_rel os user_path project_path project_rel_path relative =
     (if project_rel_path \<noteq> [] then
        bindE (canonical_relative_path project_rel_path ''project_rel_path'') (\<lambda>rel.
        bindE (resolve_or_raise os (path_join (mk_path user_path) (mk_path rel))) (\<lambda>expected.
          if project_path \<noteq> expected
          then Inl (DomainError INVALID_REQUEST
                 ''project_path must equal user_path/project_rel_path'')
          else Inr rel))
      else Inr (path_as_posix relative))"

definition make_user_binding ::
  "os_env \<Rightarrow> string \<Rightarrow> string \<Rightarrow> string \<Rightarrow> string \<Rightarrow> string \<Rightarrow> string option \<Rightarrow> string \<Rightarrow> string
     \<Rightarrow> string \<Rightarrow> exn + user_binding" where
  "make_user_binding os scope_id tenant_ref user_ref user_path0 project_ref project_path0
       storage_root0 user_rel_path0 project_rel_path0 =
     bindE (check_references [(''scope_id'', scope_id), (''tenant_ref'', tenant_ref),
                (''user_ref'', user_ref), (''project_ref'', project_ref)]) (\<lambda>_.
     if scope_id \<noteq> user_ref
     then Inl (DomainError INVALID_REQUEST
            ''scope_id must equal user_ref for a user execution scope'')
     else bindE (canonical_path os user_path0 ''user_path'') (\<lambda>user_path.
     bindE (check_user_path os user_path storage_root0 user_rel_path0) (\<lambda>(storage_root, user_rel_path).
     bindE (case project_path0 of
              None \<Rightarrow> Inr (path_as_posix (path_join (path_join (path_join (mk_path user_path)
                        (mk_path ''workspace'')) (mk_path ''projects'')) (mk_path project_ref)))
            | Some p \<Rightarrow> canonical_path os p ''project_path'') (\<lambda>project_path.
     (case path_relative_to (mk_path project_path) (mk_path user_path) of
        None \<Rightarrow> Inl (DomainError INVALID_REQUEST ''project_path must be located below user_path'')
      | Some relative \<Rightarrow>
          if project_path = user_path
          then Inl (DomainError INVALID_REQUEST ''project_path must not equal user_path'')
          else bindE (check_project_rel os user_path project_path project_rel_path0 relative)
            (\<lambda>project_rel_path.
             Inr \<lparr>ub_scope_id = scope_id, ub_tenant_ref = tenant_ref, ub_user_ref = user_ref,
                  ub_user_path = user_path, ub_project_ref = project_ref,
                  ub_project_path = project_path, ub_storage_root = storage_root,
                  ub_user_rel_path = user_rel_path, ub_project_rel_path = project_rel_path\<rparr>))))))"

definition default_skill_path :: "user_binding \<Rightarrow> string" where
  "default_skill_path b = path_as_posix (path_join (path_join (mk_path (ub_user_path b))
      (mk_path ''config'')) (mk_path ''skills''))"

record execution_context =
  ec_scope_id :: string
  ec_actor_ref :: "string option"
  ec_external_ref :: "string option"
  ec_user_binding :: "user_binding option"

definition make_execution_context ::
  "string \<Rightarrow> string option \<Rightarrow> string option \<Rightarrow> user_binding option \<Rightarrow> exn + execution_context" where
  "make_execution_context scope actor external ub =
     (case ub of
        Some b \<Rightarrow> if ub_scope_id b \<noteq> scope
                  then Inl (DomainError INVALID_REQUEST
                         ''context.scope_id must match user_binding.scope_id'')
                  else Inr \<lparr>ec_scope_id = scope, ec_actor_ref = actor,
                            ec_external_ref = external, ec_user_binding = ub\<rparr>
      | None \<Rightarrow> Inr \<lparr>ec_scope_id = scope, ec_actor_ref = actor,
                     ec_external_ref = external, ec_user_binding = ub\<rparr>)"

record skill_binding =
  sb_name :: string
  sb_version :: "string option"

record skill_ref =
  sr_name :: string
  sr_version :: string
  sr_digest :: string
  sr_bundle_ref :: string
  sr_source_kind :: string
  sr_source_path :: string
  sr_user_ref :: string
  sr_project_ref :: string

record run_request =
  rq_session_id :: string
  rq_input :: string
  rq_agent_ref :: string
  rq_skills :: "skill_binding list"
  rq_context :: execution_context
  rq_skill_paths :: "string list option"

definition make_run_request :: "os_env \<Rightarrow> run_request \<Rightarrow> exn + run_request" where
  "make_run_request os r = (case rq_skill_paths r of
      None \<Rightarrow> Inr r
    | Some ps \<Rightarrow> bindE (canonical_skill_paths os ps) (\<lambda>qs. Inr (r\<lparr>rq_skill_paths := Some qs\<rparr>)))"

record run_snapshot =
  sn_agent_digest :: string
  sn_runtime_ref :: string
  sn_model_profile_ref :: string
  sn_execution_profile_ref :: string
  sn_skills :: "skill_ref list"
  sn_tool_refs :: "string list"
  sn_user_binding :: "user_binding option"
  sn_effective_skill_paths :: "string list"
  sn_skill_path_source :: string
  sn_path_digest :: string

record accepted_run =
  ar_id :: string
  ar_session_id :: string
  ar_status :: run_status
  ar_state_version :: int
  ar_reused :: bool

record existing_request =
  er_fingerprint :: string
  er_run :: accepted_run

datatype mount_granularity = PROJECT | REVISION

record mount_spec =
  ms_spec_version :: string
  ms_granularity :: mount_granularity
  ms_source_ref :: string
  ms_target :: string
  ms_mode :: string
  ms_cwd :: string

record operation_spec =
  os_operation_id :: string
  os_run_id :: string
  os_session_id :: "string option"
  os_attempt_id :: string
  os_workspace_ref :: string
  os_argv :: "string list"
  os_timeout_seconds :: int
  os_output_limit_bytes :: int
  os_environment_profile_ref :: string
  os_credential_refs :: "string list"
  os_user_binding :: "user_binding option"
  os_workspace_epoch :: int
  os_mount_spec :: "mount_spec option"
  os_working_directory :: "string option"
  os_stdin_text :: "string option"

record operation_result =
  or_operation_id :: string
  or_status :: tool_status
  or_exit_code :: "int option"
  or_stdout_ref :: "string option"
  or_stderr_ref :: "string option"
  or_workspace_revision :: "string option"
  or_error_code :: "error_code option"
  or_manifest_digest :: "string option"
  or_manifest_ref :: "string option"
  or_storage_ref :: "string option"
  or_changed_paths :: "string list"

record workspace_commit =
  wc_revision_id :: string
  wc_manifest_digest :: string
  wc_manifest_ref :: string
  wc_storage_ref :: string
  wc_changed_paths :: "string list"

end
