(* ===== verification/StateMachine.thy ===== *)
theory StateMachine
  imports Contracts
begin

text \<open>
  The pure Run transitions of \<open>src/code_forge/state_machine.py\<close>: the table of allowed edges,
  \<open>transition\<close> and \<open>request_cancel\<close>, then the step relation they span and its invariant.
\<close>

fun allowed_transitions :: "run_status \<Rightarrow> run_status set" where
  "allowed_transitions QUEUED = {RUNNING, CANCELLING, FAILED, TIMED_OUT}"
| "allowed_transitions RUNNING =
     {WAITING_USER, WAITING_EXTERNAL, RECOVERING, CANCELLING, SUCCEEDED, FAILED, TIMED_OUT}"
| "allowed_transitions WAITING_USER = {QUEUED, CANCELLING, FAILED, TIMED_OUT}"
| "allowed_transitions WAITING_EXTERNAL = {QUEUED, CANCELLING, FAILED, TIMED_OUT}"
| "allowed_transitions RECOVERING = {QUEUED, WAITING_USER, CANCELLING, FAILED, TIMED_OUT}"
| "allowed_transitions CANCELLING = {CANCELLED}"
| "allowed_transitions SUCCEEDED = {}"
| "allowed_transitions FAILED = {}"
| "allowed_transitions CANCELLED = {}"
| "allowed_transitions TIMED_OUT = {}"

record run_state =
  rs_run_id :: string
  rs_status :: run_status
  rs_state_version :: int
  rs_task_outcome :: "task_outcome option"
  rs_wait_reason :: "string option"

record transition_rec =
  tr_before :: run_state
  tr_after :: run_state
  tr_event_type :: event_type
  tr_changed :: bool

fun nonterminal_event :: "run_status \<Rightarrow> event_type" where
  "nonterminal_event QUEUED = RUN_RESUMED"
| "nonterminal_event RUNNING = RUN_STARTED"
| "nonterminal_event WAITING_USER = RUN_WAITING"
| "nonterminal_event WAITING_EXTERNAL = RUN_WAITING"
| "nonterminal_event RECOVERING = RUN_RECOVERING"
| "nonterminal_event CANCELLING = RUN_CANCEL_REQUESTED"
| "nonterminal_event _ = RUN_FINISHED"

definition waiting :: "run_status \<Rightarrow> bool" where
  "waiting target \<longleftrightarrow> target \<in> {WAITING_USER, WAITING_EXTERNAL}"

definition transition ::
  "run_state \<Rightarrow> run_status \<Rightarrow> int \<Rightarrow> task_outcome option \<Rightarrow> string option \<Rightarrow> exn + transition_rec" where
  "transition state target expected_version outcome reason =
     (if rs_state_version state \<noteq> expected_version
        then Inl (DomainError STATE_CONFLICT ''Run state_version changed'')
      else if target \<notin> allowed_transitions (rs_status state)
        then Inl (DomainError INVALID_TRANSITION
               (run_status_value (rs_status state) @ '' -> '' @ run_status_value target
                @ '' is forbidden''))
      else if target = SUCCEEDED \<and> outcome = None
        then Inl (DomainError INVALID_REQUEST
               ''Normal completion requires an explicit task_outcome'')
      else if target \<noteq> SUCCEEDED \<and> outcome \<noteq> None
        then Inl (DomainError INVALID_REQUEST ''task_outcome belongs to normal completion only'')
      else if waiting target \<and> falsy reason
        then Inl (DomainError INVALID_REQUEST ''Waiting requires a reason'')
      else let event = (if target \<in> TERMINAL_STATUSES then RUN_FINISHED else nonterminal_event target);
               after = state\<lparr>rs_status := target, rs_state_version := rs_state_version state + 1,
                             rs_task_outcome := outcome,
                             rs_wait_reason := if waiting target then reason else None\<rparr>
           in Inr \<lparr>tr_before = state, tr_after = after, tr_event_type = event, tr_changed = True\<rparr>)"

definition request_cancel :: "run_state \<Rightarrow> int \<Rightarrow> exn + transition_rec" where
  "request_cancel state expected_version =
     (if rs_state_version state \<noteq> expected_version
        then Inl (DomainError STATE_CONFLICT ''Run state_version changed'')
      else if rs_status state \<in> TERMINAL_STATUSES \<or> rs_status state = CANCELLING
        then Inr \<lparr>tr_before = state, tr_after = state,
                  tr_event_type = RUN_CANCEL_REQUESTED, tr_changed = False\<rparr>
      else transition state CANCELLING expected_version None None)"

section \<open>The steps a Run takes\<close>

text \<open>
  \<open>sm_step\<close> relates the states before and after an accepted call. A command list drives the
  same functions: a refused command leaves the state, as the callers do.
\<close>

inductive sm_step :: "run_state \<Rightarrow> run_state \<Rightarrow> bool" where
  sm_transition: "transition s target v outcome reason = Inr t \<Longrightarrow> sm_step s (tr_after t)"
| sm_cancel: "request_cancel s v = Inr t \<Longrightarrow> tr_changed t \<Longrightarrow> sm_step s (tr_after t)"

datatype sm_cmd = Transition run_status int "task_outcome option" "string option" | Cancel int

fun run_cmd :: "run_state \<Rightarrow> sm_cmd \<Rightarrow> exn + transition_rec" where
  "run_cmd s (Transition target v outcome reason) = transition s target v outcome reason"
| "run_cmd s (Cancel v) = request_cancel s v"

fun run_cmds :: "run_state \<Rightarrow> sm_cmd list \<Rightarrow> run_state" where
  "run_cmds s [] = s"
| "run_cmds s (c # cs) =
     run_cmds (case run_cmd s c of Inl _ \<Rightarrow> s | Inr t \<Rightarrow> tr_after t) cs"

fun count_changed :: "run_state \<Rightarrow> sm_cmd list \<Rightarrow> nat" where
  "count_changed s [] = 0"
| "count_changed s (c # cs) = (case run_cmd s c of
       Inl _ \<Rightarrow> count_changed s cs
     | Inr t \<Rightarrow> (if tr_changed t then 1 else 0) + count_changed (tr_after t) cs)"

definition sm_inv :: "run_state \<Rightarrow> bool" where
  "sm_inv s \<longleftrightarrow> (rs_task_outcome s \<noteq> None \<longleftrightarrow> rs_status s = SUCCEEDED)
     \<and> (if waiting (rs_status s) then \<not> falsy (rs_wait_reason s) else rs_wait_reason s = None)"

definition accepted_state :: "string \<Rightarrow> int \<Rightarrow> run_state" where
  "accepted_state rid v = \<lparr>rs_run_id = rid, rs_status = QUEUED, rs_state_version = v,
     rs_task_outcome = None, rs_wait_reason = None\<rparr>"

lemma transition_InrD:
  assumes "transition s target v outcome reason = Inr t"
  shows "rs_state_version s = v" "target \<in> allowed_transitions (rs_status s)"
    "outcome \<noteq> None \<longleftrightarrow> target = SUCCEEDED" "waiting target \<Longrightarrow> \<not> falsy reason"
    "tr_before t = s" "tr_changed t"
    "tr_after t = s\<lparr>rs_status := target, rs_state_version := v + 1, rs_task_outcome := outcome,
                   rs_wait_reason := if waiting target then reason else None\<rparr>"
    "tr_event_type t = (if target \<in> TERMINAL_STATUSES then RUN_FINISHED else nonterminal_event target)"
  using assms by (auto simp: transition_def Let_def split: if_splits)

lemma request_cancel_InrD:
  assumes "request_cancel s v = Inr t"
  shows "rs_state_version s = v"
    "tr_changed t \<longleftrightarrow> rs_status s \<notin> TERMINAL_STATUSES \<and> rs_status s \<noteq> CANCELLING"
    "tr_after t = (if tr_changed t
       then s\<lparr>rs_status := CANCELLING, rs_state_version := v + 1, rs_task_outcome := None,
              rs_wait_reason := None\<rparr> else s)"
    "tr_event_type t = RUN_CANCEL_REQUESTED"
proof -
  consider (idle) "rs_status s \<in> TERMINAL_STATUSES \<or> rs_status s = CANCELLING"
      "rs_state_version s = v"
      "t = \<lparr>tr_before = s, tr_after = s, tr_event_type = RUN_CANCEL_REQUESTED, tr_changed = False\<rparr>"
    | (step) "\<not> (rs_status s \<in> TERMINAL_STATUSES \<or> rs_status s = CANCELLING)"
      "transition s CANCELLING v None None = Inr t"
    using assms by (auto simp: request_cancel_def split: if_splits)
  then have "rs_state_version s = v
    \<and> (tr_changed t \<longleftrightarrow> rs_status s \<notin> TERMINAL_STATUSES \<and> rs_status s \<noteq> CANCELLING)
    \<and> tr_after t = (if tr_changed t
       then s\<lparr>rs_status := CANCELLING, rs_state_version := v + 1, rs_task_outcome := None,
              rs_wait_reason := None\<rparr> else s)
    \<and> tr_event_type t = RUN_CANCEL_REQUESTED"
  proof cases
    case step
    show ?thesis using transition_InrD [OF step(2)] step(1)
      by (simp add: waiting_def TERMINAL_STATUSES_def)
  qed simp_all
  then show "rs_state_version s = v"
    "tr_changed t \<longleftrightarrow> rs_status s \<notin> TERMINAL_STATUSES \<and> rs_status s \<noteq> CANCELLING"
    "tr_after t = (if tr_changed t
       then s\<lparr>rs_status := CANCELLING, rs_state_version := v + 1, rs_task_outcome := None,
              rs_wait_reason := None\<rparr> else s)"
    "tr_event_type t = RUN_CANCEL_REQUESTED" by auto
qed

lemma request_cancel_transition:
  assumes "request_cancel s v = Inr t" "tr_changed t"
  shows "transition s CANCELLING v None None = Inr t"
  using assms by (auto simp: request_cancel_def split: if_splits)

text \<open>Every step is a transition along an edge of the table.\<close>

inductive_cases sm_stepE: "sm_step s s'"

lemma sm_stepD:
  assumes "sm_step s s'"
  obtains target v outcome reason t
  where "transition s target v outcome reason = Inr t" "s' = tr_after t"
  using assms by (cases rule: sm_step.cases) (auto dest: request_cancel_transition intro: that)

lemma sm_step_shape:
  assumes "sm_step s s'"
  shows "\<exists>target outcome reason. target \<in> allowed_transitions (rs_status s)
    \<and> (outcome \<noteq> None \<longleftrightarrow> target = SUCCEEDED) \<and> (waiting target \<longrightarrow> \<not> falsy reason)
    \<and> s' = s\<lparr>rs_status := target, rs_state_version := rs_state_version s + 1,
           rs_task_outcome := outcome, rs_wait_reason := if waiting target then reason else None\<rparr>"
proof -
  obtain target v outcome reason t
    where t: "transition s target v outcome reason = Inr t" "s' = tr_after t"
    using assms by (rule sm_stepD)
  show ?thesis
    using transition_InrD(1-4,7) [OF t(1)] t(2)
    by (intro exI [of _ target] exI [of _ outcome] exI [of _ reason]) simp
qed

lemma sm_step_edge: "sm_step s s' \<Longrightarrow> rs_status s' \<in> allowed_transitions (rs_status s)"
  by (drule sm_step_shape) auto

lemma sm_step_version: "sm_step s s' \<Longrightarrow> rs_state_version s' = rs_state_version s + 1"
  by (drule sm_step_shape) auto

lemma sm_step_run_id: "sm_step s s' \<Longrightarrow> rs_run_id s' = rs_run_id s"
  by (drule sm_step_shape) auto

lemma sm_step_inv: "sm_step s s' \<Longrightarrow> sm_inv s'"
  by (drule sm_step_shape) (auto simp: sm_inv_def waiting_def)

lemma sm_inv_accepted: "sm_inv (accepted_state rid v)"
  by (simp add: sm_inv_def accepted_state_def waiting_def)

lemma sm_reach_inv: "sm_step\<^sup>*\<^sup>* s s' \<Longrightarrow> sm_inv s \<Longrightarrow> sm_inv s'"
  by (induction rule: rtranclp_induct) (auto intro: sm_step_inv)

lemma sm_terminal_stuck: "rs_status s \<in> TERMINAL_STATUSES \<Longrightarrow> \<not> sm_step s s'"
  by (auto simp: TERMINAL_STATUSES_def dest!: sm_step_edge)

lemma run_cmd_step:
  "run_cmd s c = Inr t \<Longrightarrow> (if tr_changed t then sm_step s (tr_after t) else tr_after t = s)"
  by (cases c) (auto intro: sm_step.intros dest: transition_InrD(6) request_cancel_InrD(3))

lemma run_cmds_reach: "sm_step\<^sup>*\<^sup>* s (run_cmds s cs)"
proof (induction cs arbitrary: s)
  case Nil then show ?case by simp
next
  case (Cons c cs)
  show ?case
  proof (cases "run_cmd s c")
    case (Inl e) then show ?thesis using Cons by simp
  next
    case (Inr t)
    have "sm_step\<^sup>*\<^sup>* s (tr_after t)" using run_cmd_step [OF Inr] by (auto split: if_splits)
    then show ?thesis using Cons [of "tr_after t"] Inr by simp
  qed
qed

lemma run_cmds_version:
  "rs_state_version (run_cmds s cs) = rs_state_version s + int (count_changed s cs)"
proof (induction cs arbitrary: s)
  case Nil then show ?case by simp
next
  case (Cons c cs)
  show ?case
  proof (cases "run_cmd s c")
    case (Inl e) then show ?thesis using Cons by simp
  next
    case (Inr t)
    then show ?thesis using Cons [of "tr_after t"] run_cmd_step [OF Inr]
      by (auto dest: sm_step_version split: if_splits)
  qed
qed

lemma run_cmds_stuck:
  "rs_status s \<in> TERMINAL_STATUSES \<Longrightarrow> run_cmds s cs = s"
proof (induction cs)
  case Nil then show ?case by simp
next
  case (Cons c cs)
  then show ?case
    using run_cmd_step [of s c] sm_terminal_stuck [of s]
    by (auto split: sum.splits if_splits)
qed

lemma run_cmds_run_id: "rs_run_id (run_cmds s cs) = rs_run_id s"
proof -
  have "rs_run_id s' = rs_run_id s" if "sm_step\<^sup>*\<^sup>* s s'" for s'
    using that by (induction rule: rtranclp_induct) (simp_all add: sm_step_run_id)
  then show ?thesis using run_cmds_reach by blast
qed

lemma stale_version_refused:
  "rs_state_version s \<noteq> v \<Longrightarrow>
   run_cmd s (Transition target v outcome reason) = Inl (DomainError STATE_CONFLICT ''Run state_version changed'')
   \<and> run_cmd s (Cancel v) = Inl (DomainError STATE_CONFLICT ''Run state_version changed'')"
  by (simp add: transition_def request_cancel_def)

fun cmd_version :: "sm_cmd \<Rightarrow> int" where
  "cmd_version (Transition _ v _ _) = v"
| "cmd_version (Cancel v) = v"

section \<open>Properties\<close>

text \<open>C1: Whatever sequence of transition and cancel calls an accepted Run receives, refused
  calls included, it carries a task outcome exactly when it succeeded, a wait reason exactly
  when it waits, and its state version counts the accepted changes.\<close>

theorem run_history_consistent:
  "sm_inv (run_cmds (accepted_state rid v) cs)
   \<and> rs_run_id (run_cmds (accepted_state rid v) cs) = rid
   \<and> rs_state_version (run_cmds (accepted_state rid v) cs)
     = v + int (count_changed (accepted_state rid v) cs)"
  using sm_reach_inv [OF run_cmds_reach sm_inv_accepted] run_cmds_run_id run_cmds_version
  by (simp add: accepted_state_def)

text \<open>C2: A terminal Run is final: no sequence of calls changes it, and asking it to cancel
  is accepted without a change.\<close>

theorem terminal_run_is_final:
  assumes "rs_status s \<in> TERMINAL_STATUSES"
  shows "run_cmds s cs = s
    \<and> request_cancel s (rs_state_version s)
      = Inr \<lparr>tr_before = s, tr_after = s, tr_event_type = RUN_CANCEL_REQUESTED, tr_changed = False\<rparr>"
  using run_cmds_stuck [OF assms] assms by (simp add: request_cancel_def)

theorem terminal_run_is_final_witness:
  "run_cmds \<lparr>rs_run_id = ''r'', rs_status = FAILED, rs_state_version = 4, rs_task_outcome = None,
      rs_wait_reason = None\<rparr> [Transition QUEUED 4 None None, Cancel 4]
   = \<lparr>rs_run_id = ''r'', rs_status = FAILED, rs_state_version = 4, rs_task_outcome = None,
      rs_wait_reason = None\<rparr>"
  by (rule terminal_run_is_final [THEN conjunct1]) (simp add: TERMINAL_STATUSES_def)

text \<open>Two writers that read the same state version cannot both change the Run: after one
  accepted change, every call that still names the old version is refused with
  \<open>STATE_CONFLICT\<close>.\<close>

theorem no_lost_update:
  assumes "run_cmd s c = Inr t" "tr_changed t" "cmd_version d = cmd_version c"
  shows "run_cmd (tr_after t) d = Inl (DomainError STATE_CONFLICT ''Run state_version changed'')"
proof -
  have "rs_state_version s = cmd_version c"
    using assms(1) by (cases c) (auto dest: transition_InrD(1) request_cancel_InrD(1))
  moreover have "rs_state_version (tr_after t) = rs_state_version s + 1"
    using run_cmd_step [OF assms(1)] assms(2) by (simp add: sm_step_version)
  ultimately show ?thesis using assms(3) stale_version_refused [of "tr_after t"]
    by (cases d) simp_all
qed

theorem no_lost_update_witness:
  "run_cmd \<lparr>rs_run_id = ''r'', rs_status = CANCELLING, rs_state_version = 2, rs_task_outcome = None,
      rs_wait_reason = None\<rparr> (Transition RUNNING 1 None None)
   = Inl (DomainError STATE_CONFLICT ''Run state_version changed'')"
  using no_lost_update [of "accepted_state ''r'' 1" "Cancel 1"
    "\<lparr>tr_before = accepted_state ''r'' 1, tr_after = (accepted_state ''r'' 1)\<lparr>rs_status := CANCELLING,
      rs_state_version := 2\<rparr>, tr_event_type = RUN_CANCEL_REQUESTED, tr_changed = True\<rparr>"
    "Transition RUNNING 1 None None"]
  by (simp add: request_cancel_def transition_def accepted_state_def TERMINAL_STATUSES_def
      waiting_def)

text \<open>Every Run that is not terminal can still be brought to an end: cancelling it and
  confirming the cancellation is accepted from every such state, in at most two changes.\<close>

theorem every_run_can_end:
  assumes "rs_status s \<notin> TERMINAL_STATUSES"
  shows "\<exists>cs. length cs \<le> 2 \<and> rs_status (run_cmds s cs) = CANCELLED"
proof (cases "rs_status s = CANCELLING")
  case True
  then show ?thesis
    by (intro exI [of _ "[Transition CANCELLED (rs_state_version s) None None]"])
       (simp add: transition_def waiting_def)
next
  case False
  then show ?thesis using assms
    by (intro exI [of _ "[Cancel (rs_state_version s),
          Transition CANCELLED (rs_state_version s + 1) None None]"], cases "rs_status s")
       (simp_all add: transition_def request_cancel_def waiting_def TERMINAL_STATUSES_def)
qed

theorem every_run_can_end_witness:
  "\<exists>cs. length cs \<le> 2 \<and> rs_status (run_cmds (accepted_state ''r'' 1) cs) = CANCELLED"
  by (rule every_run_can_end) (simp add: accepted_state_def TERMINAL_STATUSES_def)

end
