(* ===== verification/Clock.thy ===== *)
theory Clock
  imports Prelude
begin

text \<open>
  The time stamps of the store: \<open>_iso\<close> and \<open>_now\<close> of
  \<open>src/code_forge/persistence/sqlite_store.py\<close>. An aware \<open>datetime\<close> is the number of
  microseconds since 1970-01-01T00:00:00 UTC; \<open>isoformat()\<close> writes its civil date, and leaves
  the fraction out when it is zero.
\<close>

definition pad_to :: "nat \<Rightarrow> int \<Rightarrow> string" where
  "pad_to n i = (let s = py_str_nat (nat i) in replicate (n - length s) CHR ''0'' @ s)"

text \<open>Year, month and day of a day number, the proleptic Gregorian calendar.\<close>

definition civil :: "int \<Rightarrow> int \<times> int \<times> int" where
  "civil days =
     (let z = days + 719468; era = z div 146097; doe = z mod 146097;
          yoe = (doe - doe div 1460 + doe div 36524 - doe div 146096) div 365;
          doy = doe - (365 * yoe + yoe div 4 - yoe div 100);
          mp = (5 * doy + 2) div 153;
          month = (if mp < 10 then mp + 3 else mp - 9)
      in (yoe + era * 400 + (if month \<le> 2 then 1 else 0), month, doy - (153 * mp + 2) div 5 + 1))"

definition iso_seconds :: "int \<Rightarrow> string" where
  "iso_seconds secs =
     (let (y, m, d) = civil (secs div 86400); t = secs mod 86400 in
      pad_to 4 y @ ''-'' @ pad_to 2 m @ ''-'' @ pad_to 2 d @ ''T'' @ pad_to 2 (t div 3600) @ '':''
        @ pad_to 2 (t mod 3600 div 60) @ '':'' @ pad_to 2 (t mod 60))"

definition iso :: "int \<Rightarrow> string" where
  "iso us = iso_seconds (us div 1000000)
     @ (if us mod 1000000 = 0 then '''' else ''.'' @ pad_to 6 (us mod 1000000)) @ ''Z''"

lemma append_less: "(xs @ ys < xs @ zs) = (ys < (zs :: string))"
  by (induction xs) simp_all

text \<open>Time stamps are compared as text, and the text of a whole second sorts after every
  later instant of that second: a Run due exactly at a second, or a lease that ends at one,
  compares as still in the future until the next second.\<close>

theorem iso_whole_second_sorts_late:
  assumes "t mod 1000000 = 0" "0 < u" "u < 1000000"
  shows "iso (t + u) < iso t"
proof -
  obtain k where k: "t = 1000000 * k" using assms(1) by (auto simp: mod_eq_0_iff_dvd)
  have d: "(t + u) div 1000000 = t div 1000000"
    using assms(2,3) by (simp add: k div_pos_pos_trivial)
  have m: "(t + u) mod 1000000 = u"
    using assms(2,3) by (simp add: k mod_pos_pos_trivial)
  show ?thesis unfolding iso_def d m using assms(1,2) by (simp add: append_less less_char_def)
qed

theorem iso_whole_second_sorts_late_witness:
  "iso (1700000000000000 + 500000) < iso 1700000000000000"
  by (rule iso_whole_second_sorts_late) simp_all

end
