(* ===== verification/Schema.thy ===== *)
theory Schema
  imports ContentStore Bindings StateMachine Clock
begin

text \<open>
  The relational state of \<open>SqliteRuntimeStore\<close> (\<open>src/code_forge/persistence/sqlite_store.py\<close>,
  schema v5: \<open>_schema_v4\<close> with the replacements of \<open>_schema_v5\<close>): one record per table, in the
  order of its columns, and one insert per table that enforces the primary key, the unique
  constraints and the foreign keys of its \<open>CREATE TABLE\<close>. The four audit columns every table
  ends with are the record they all extend.

  A \<open>world\<close> is the database and the body files. An action is a function on worlds that may
  raise; a transaction undoes the database of a body that raised, and not its files.
\<close>

text \<open>Names for what a string column holds.\<close>

type_synonym ident = string
type_synonym path_text = string
type_synonym stamp = string

section \<open>Rows\<close>

record audit =
  date_created :: string
  created_by :: string
  date_updated :: string
  updated_by :: string

definition touch :: "string \<Rightarrow> string \<Rightarrow> 'a audit_scheme \<Rightarrow> 'a audit_scheme" where
  "touch now actor r = r\<lparr>date_updated := now, updated_by := actor\<rparr>"

record workspace_row = audit +
  w_id :: string
  w_scope_id :: string
  w_storage_ref :: string
  w_storage_root :: string
  w_tenant_ref :: string
  w_user_ref :: string
  w_user_path :: string
  w_user_rel_path :: string
  w_project_ref :: string
  w_project_path :: string
  w_current_revision :: "string option"
  w_active_attempt_id :: "string option"
  w_workspace_epoch :: int
  w_lease_until :: "string option"
  w_heartbeat_at :: "string option"

record revision_row = audit +
  v_id :: string
  v_scope_id :: string
  v_workspace_id :: string
  v_parent_id :: "string option"
  v_manifest_digest :: string
  v_manifest_ref :: string
  v_storage_ref :: string

record session_row = audit +
  s_id :: string
  s_scope_id :: string
  s_workspace_id :: string
  s_title :: string
  s_external_ref :: "string option"
  s_thread_id :: string
  s_next_run_seq :: int
  s_next_event_seq :: int
  s_execution_epoch :: int
  s_active_run_id :: "string option"

record session_request_row = audit +
  q_scope_id :: string
  q_idempotency_key :: string
  q_request_fingerprint :: string
  q_session_id :: string

record run_row = audit +
  r_id :: string
  r_scope_id :: string
  r_session_id :: string
  r_workspace_id :: string
  r_run_seq :: int
  r_idempotency_key :: string
  r_request_fingerprint :: string
  r_input_ref :: string
  r_input_digest :: string
  r_input_chars :: nat
  r_agent_ref :: string
  r_execution_context :: string
  r_config_snapshot_ref :: string
  r_config_snapshot_digest :: string
  r_config_snapshot_bytes :: nat
  r_status :: run_status
  r_active_attempt_id :: "string option"
  r_state_version :: int
  r_task_outcome :: "task_outcome option"
  r_wait_reason :: "string option"
  r_output_ref :: "string option"
  r_output_digest :: "string option"
  r_output_chars :: "nat option"
  r_error :: "string option"
  r_cancel_requested_at :: "string option"
  r_deadline_at :: "string option"
  r_due_at :: string
  r_next_event_seq :: int

record attempt_row = audit +
  a_id :: string
  a_scope_id :: string
  a_session_id :: string
  a_run_id :: string
  a_workspace_id :: string
  a_epoch :: int
  a_workspace_epoch :: int
  a_worker_id :: string
  a_lease_until :: string
  a_heartbeat_at :: string
  a_workspace_base_revision :: "string option"
  a_mount_spec_ref :: string
  a_working_directory_ref :: string
  a_checkpoint_ref :: "string option"
  a_ended_at :: "string option"

record tool_row = audit +
  t_id :: string
  t_scope_id :: string
  t_run_id :: string
  t_workspace_id :: string
  t_logical_call_key :: string
  t_tool_ref :: string
  t_params_digest :: string
  t_input_ref :: string
  t_input_digest :: "string option"
  t_input_bytes :: "nat option"
  t_status :: tool_status
  t_execution_profile_ref :: string
  t_external_operation_ref :: "string option"
  t_process_ref :: "string option"
  t_result_ref :: "string option"
  t_input_revision_id :: "string option"
  t_result_revision_id :: "string option"
  t_error :: "string option"

record pending_row = audit +
  p_id :: string
  p_scope_id :: string
  p_run_id :: string
  p_kind :: string
  p_payload_ref :: string
  p_payload_digest :: string
  p_payload_bytes :: nat
  p_response_key :: "string option"
  p_response_digest :: "string option"
  p_response_payload_ref :: "string option"
  p_response_payload_digest :: "string option"
  p_response_payload_bytes :: "nat option"
  p_resolved_at :: "string option"

record event_row = audit +
  e_event_id :: string
  e_scope_id :: string
  e_run_id :: string
  e_session_id :: string
  e_seq :: int
  e_session_seq :: int
  e_schema_version :: string
  e_type :: event_type
  e_data_ref :: string
  e_data_offset :: nat
  e_data_bytes :: nat
  e_data_digest :: string
  e_occurred_at :: string

record db =
  workspaces :: "workspace_row list"
  workspace_revisions :: "revision_row list"
  sessions :: "session_row list"
  session_requests :: "session_request_row list"
  runs :: "run_row list"
  run_attempts :: "attempt_row list"
  tool_executions :: "tool_row list"
  pending_responses :: "pending_row list"
  run_events :: "event_row list"

definition empty_db :: db where
  "empty_db = \<lparr>workspaces = [], workspace_revisions = [], sessions = [], session_requests = [],
     runs = [], run_attempts = [], tool_executions = [], pending_responses = [], run_events = []\<rparr>"

section \<open>Inserts\<close>

definition clash :: "('a \<Rightarrow> 'k) \<Rightarrow> 'a \<Rightarrow> 'a list \<Rightarrow> bool" where
  "clash k x xs \<longleftrightarrow> list_ex (\<lambda>y. k y = k x) xs"

definition insert_workspace :: "workspace_row \<Rightarrow> db \<Rightarrow> exn + db" where
  "insert_workspace w db =
     (if clash w_id w (workspaces db)
         \<or> clash (\<lambda>w. (w_scope_id w, w_project_ref w)) w (workspaces db)
      then Inl (IntegrityError ''workspaces'')
      else Inr (db\<lparr>workspaces := workspaces db @ [w]\<rparr>))"

definition insert_revision :: "revision_row \<Rightarrow> db \<Rightarrow> exn + db" where
  "insert_revision v db =
     (if clash v_id v (workspace_revisions db)
         \<or> \<not> list_ex (\<lambda>w. w_scope_id w = v_scope_id v \<and> w_id w = v_workspace_id v) (workspaces db)
         \<or> (case v_parent_id v of None \<Rightarrow> False | Some p \<Rightarrow>
              \<not> list_ex (\<lambda>u. v_scope_id u = v_scope_id v \<and> v_workspace_id u = v_workspace_id v
                          \<and> v_id u = p) (workspace_revisions db))
      then Inl (IntegrityError ''workspace_revisions'')
      else Inr (db\<lparr>workspace_revisions := workspace_revisions db @ [v]\<rparr>))"

definition insert_session :: "session_row \<Rightarrow> db \<Rightarrow> exn + db" where
  "insert_session s db =
     (if clash s_id s (sessions db) \<or> clash s_thread_id s (sessions db)
         \<or> \<not> list_ex (\<lambda>w. w_scope_id w = s_scope_id s \<and> w_id w = s_workspace_id s) (workspaces db)
      then Inl (IntegrityError ''sessions'')
      else Inr (db\<lparr>sessions := sessions db @ [s]\<rparr>))"

definition insert_session_request :: "session_request_row \<Rightarrow> db \<Rightarrow> exn + db" where
  "insert_session_request q db =
     (if clash (\<lambda>q. (q_scope_id q, q_idempotency_key q)) q (session_requests db)
         \<or> \<not> list_ex (\<lambda>s. s_scope_id s = q_scope_id q \<and> s_id s = q_session_id q) (sessions db)
      then Inl (IntegrityError ''session_requests'')
      else Inr (db\<lparr>session_requests := session_requests db @ [q]\<rparr>))"

definition insert_run :: "run_row \<Rightarrow> db \<Rightarrow> exn + db" where
  "insert_run r db =
     (if clash r_id r (runs db)
         \<or> clash (\<lambda>r. (r_scope_id r, r_session_id r, r_run_seq r)) r (runs db)
         \<or> clash (\<lambda>r. (r_scope_id r, r_session_id r, r_idempotency_key r)) r (runs db)
         \<or> \<not> list_ex (\<lambda>s. s_scope_id s = r_scope_id r \<and> s_id s = r_session_id r) (sessions db)
         \<or> \<not> list_ex (\<lambda>w. w_scope_id w = r_scope_id r \<and> w_id w = r_workspace_id r) (workspaces db)
      then Inl (IntegrityError ''runs'')
      else Inr (db\<lparr>runs := runs db @ [r]\<rparr>))"

definition insert_attempt :: "attempt_row \<Rightarrow> db \<Rightarrow> exn + db" where
  "insert_attempt a db =
     (if clash a_id a (run_attempts db)
         \<or> clash (\<lambda>a. (a_scope_id a, a_session_id a, a_epoch a)) a (run_attempts db)
         \<or> clash (\<lambda>a. (a_scope_id a, a_workspace_id a, a_workspace_epoch a)) a (run_attempts db)
         \<or> \<not> list_ex (\<lambda>r. r_scope_id r = a_scope_id a \<and> r_session_id r = a_session_id a
                        \<and> r_id r = a_run_id a) (runs db)
         \<or> \<not> list_ex (\<lambda>w. w_scope_id w = a_scope_id a \<and> w_id w = a_workspace_id a) (workspaces db)
      then Inl (IntegrityError ''run_attempts'')
      else Inr (db\<lparr>run_attempts := run_attempts db @ [a]\<rparr>))"

definition revision_exists :: "string \<Rightarrow> string \<Rightarrow> string option \<Rightarrow> db \<Rightarrow> bool" where
  "revision_exists scope ws rid db =
     (case rid of None \<Rightarrow> True | Some p \<Rightarrow>
        list_ex (\<lambda>v. v_scope_id v = scope \<and> v_workspace_id v = ws \<and> v_id v = p)
          (workspace_revisions db))"

definition insert_tool :: "tool_row \<Rightarrow> db \<Rightarrow> exn + db" where
  "insert_tool t db =
     (if clash t_id t (tool_executions db)
         \<or> clash (\<lambda>t. (t_scope_id t, t_run_id t, t_logical_call_key t)) t (tool_executions db)
         \<or> \<not> list_ex (\<lambda>r. r_scope_id r = t_scope_id t \<and> r_id r = t_run_id t) (runs db)
         \<or> \<not> list_ex (\<lambda>w. w_scope_id w = t_scope_id t \<and> w_id w = t_workspace_id t) (workspaces db)
         \<or> \<not> revision_exists (t_scope_id t) (t_workspace_id t) (t_input_revision_id t) db
         \<or> \<not> revision_exists (t_scope_id t) (t_workspace_id t) (t_result_revision_id t) db
      then Inl (IntegrityError ''tool_executions'')
      else Inr (db\<lparr>tool_executions := tool_executions db @ [t]\<rparr>))"

definition insert_event :: "event_row \<Rightarrow> db \<Rightarrow> exn + db" where
  "insert_event e db =
     (if clash e_event_id e (run_events db)
         \<or> clash (\<lambda>e. (e_scope_id e, e_run_id e, e_seq e)) e (run_events db)
         \<or> clash (\<lambda>e. (e_scope_id e, e_session_id e, e_session_seq e)) e (run_events db)
         \<or> \<not> list_ex (\<lambda>r. r_scope_id r = e_scope_id e \<and> r_session_id r = e_session_id e
                        \<and> r_id r = e_run_id e) (runs db)
      then Inl (IntegrityError ''run_events'')
      else Inr (db\<lparr>run_events := run_events db @ [e]\<rparr>))"

definition update_runs :: "(run_row \<Rightarrow> bool) \<Rightarrow> (run_row \<Rightarrow> run_row) \<Rightarrow> db \<Rightarrow> db" where
  "update_runs P f db = db\<lparr>runs := update_where P f (runs db)\<rparr>"

definition update_sessions :: "(session_row \<Rightarrow> bool) \<Rightarrow> (session_row \<Rightarrow> session_row) \<Rightarrow> db \<Rightarrow> db" where
  "update_sessions P f db = db\<lparr>sessions := update_where P f (sessions db)\<rparr>"

definition update_workspaces ::
  "(workspace_row \<Rightarrow> bool) \<Rightarrow> (workspace_row \<Rightarrow> workspace_row) \<Rightarrow> db \<Rightarrow> db" where
  "update_workspaces P f db = db\<lparr>workspaces := update_where P f (workspaces db)\<rparr>"

definition update_attempts :: "(attempt_row \<Rightarrow> bool) \<Rightarrow> (attempt_row \<Rightarrow> attempt_row) \<Rightarrow> db \<Rightarrow> db" where
  "update_attempts P f db = db\<lparr>run_attempts := update_where P f (run_attempts db)\<rparr>"

definition update_tools :: "(tool_row \<Rightarrow> bool) \<Rightarrow> (tool_row \<Rightarrow> tool_row) \<Rightarrow> db \<Rightarrow> db" where
  "update_tools P f db = db\<lparr>tool_executions := update_where P f (tool_executions db)\<rparr>"

definition update_pendings :: "(pending_row \<Rightarrow> bool) \<Rightarrow> (pending_row \<Rightarrow> pending_row) \<Rightarrow> db \<Rightarrow> db" where
  "update_pendings P f db = db\<lparr>pending_responses := update_where P f (pending_responses db)\<rparr>"

section \<open>Actions and transactions\<close>

record world =
  wdb :: db
  wfiles :: files

text \<open>
  What an operation asks its host for: the digest function, its \<open>n\<close>-th fresh UUID and its
  \<open>n\<close>-th reading of the clock, and the store's two settings.
\<close>

record host =
  h_sha256 :: "string \<Rightarrow> string"
  h_uuid :: "nat \<Rightarrow> string"
  h_clock :: "nat \<Rightarrow> int"
  h_max_file_bytes :: nat
  h_legacy_root :: string

definition h_now :: "host \<Rightarrow> nat \<Rightarrow> string" where
  "h_now h n = iso (h_clock h n)"

type_synonym 'a act = "world \<Rightarrow> (exn + 'a) \<times> world"

definition ret :: "'a \<Rightarrow> 'a act" where
  "ret x w = (Inr x, w)"

definition raise :: "exn \<Rightarrow> 'a act" where
  "raise e w = (Inl e, w)"

definition bindA :: "'a act \<Rightarrow> ('a \<Rightarrow> 'b act) \<Rightarrow> 'b act" where
  "bindA m f w = (case m w of (Inl e, w') \<Rightarrow> (Inl e, w') | (Inr x, w') \<Rightarrow> f x w')"

definition read_db :: "db act" where
  "read_db w = (Inr (wdb w), w)"

definition mod_db :: "(db \<Rightarrow> db) \<Rightarrow> unit act" where
  "mod_db f w = (Inr (), w\<lparr>wdb := f (wdb w)\<rparr>)"

definition insert_db :: "(db \<Rightarrow> exn + db) \<Rightarrow> unit act" where
  "insert_db f w = (case f (wdb w) of Inl e \<Rightarrow> (Inl e, w) | Inr d \<Rightarrow> (Inr (), w\<lparr>wdb := d\<rparr>))"

definition with_files :: "(files \<Rightarrow> 'a \<times> files) \<Rightarrow> 'a act" where
  "with_files f w = (let (x, fs) = f (wfiles w) in (Inr x, w\<lparr>wfiles := fs\<rparr>))"

definition liftE :: "exn + 'a \<Rightarrow> 'a act" where
  "liftE r w = (case r of Inl e \<Rightarrow> (Inl e, w) | Inr x \<Rightarrow> (Inr x, w))"

definition transaction :: "'a act \<Rightarrow> 'a act" where
  "transaction m w = (case m w of (Inl e, w') \<Rightarrow> (Inl e, w'\<lparr>wdb := wdb w\<rparr>) | (Inr x, w') \<Rightarrow> (Inr x, w'))"

end
