(* ===== verification/StoreBase.thy ===== *)
theory StoreBase
  imports Schema "HOL-Library.Product_Lexorder"
begin

text \<open>
  The helpers every operation of \<open>SqliteRuntimeStore\<close> shares
  (\<open>src/code_forge/persistence/sqlite_store.py\<close>): fingerprints, the body files of messages and
  snapshots, the base directory of a session, reading a message back; and the weakest
  precondition calculus the proofs about actions use.
\<close>

named_theorems wp_simps \<open>symbolic execution of store actions\<close>

section \<open>Weakest preconditions\<close>

text \<open>\<open>wp m Q w\<close>: if \<open>m\<close> returns from \<open>w\<close>, its value and the world after it satisfy \<open>Q\<close>.\<close>

definition wp :: "'a act \<Rightarrow> ('a \<Rightarrow> world \<Rightarrow> bool) \<Rightarrow> world \<Rightarrow> bool" where
  "wp m Q w \<longleftrightarrow> (case m w of (Inl e, w') \<Rightarrow> True | (Inr x, w') \<Rightarrow> Q x w')"

lemma wp_ret [wp_simps]: "wp (ret x) Q = Q x"
  by (simp add: wp_def ret_def fun_eq_iff)

lemma wp_raise [wp_simps]: "wp (raise e) Q = (\<lambda>w. True)"
  by (simp add: wp_def raise_def fun_eq_iff)

lemma wp_read_db [wp_simps]: "wp read_db Q = (\<lambda>w. Q (wdb w) w)"
  by (simp add: wp_def read_db_def fun_eq_iff)

lemma wp_mod_db [wp_simps]: "wp (mod_db f) Q = (\<lambda>w. Q () (w\<lparr>wdb := f (wdb w)\<rparr>))"
  by (simp add: wp_def mod_db_def fun_eq_iff)

lemma wp_bindA [wp_simps]: "wp (bindA m f) Q = wp m (\<lambda>x. wp (f x) Q)"
  by (auto simp: wp_def bindA_def fun_eq_iff split: prod.splits sum.splits)

lemma wp_insert_db [wp_simps]:
  "wp (insert_db f) Q = (\<lambda>w. \<forall>d. f (wdb w) = Inr d \<longrightarrow> Q () (w\<lparr>wdb := d\<rparr>))"
  by (auto simp: wp_def insert_db_def fun_eq_iff split: sum.splits)

lemma wp_liftE [wp_simps]: "wp (liftE r) Q = (\<lambda>w. \<forall>x. r = Inr x \<longrightarrow> Q x w)"
  by (auto simp: wp_def liftE_def fun_eq_iff split: sum.splits)

lemma wp_with_files [wp_simps]:
  "wp (with_files f) Q = (\<lambda>w. Q (fst (f (wfiles w))) (w\<lparr>wfiles := snd (f (wfiles w))\<rparr>))"
  by (simp add: wp_def with_files_def fun_eq_iff split: prod.splits)

lemma wp_transaction [wp_simps]: "wp (transaction m) Q = wp m Q"
  by (auto simp: wp_def transaction_def fun_eq_iff split: prod.splits sum.splits)

lemma wp_if [wp_simps]: "wp (if b then m else k) Q = (if b then wp m Q else wp k Q)"
  by simp

lemma wp_option [wp_simps]:
  "wp (case x of None \<Rightarrow> m | Some y \<Rightarrow> f y) Q
   = (case x of None \<Rightarrow> wp m Q | Some y \<Rightarrow> wp (f y) Q)"
  by (simp split: option.split)

lemma wpD: "wp m Q w \<Longrightarrow> m w = (Inr x, w') \<Longrightarrow> Q x w'"
  by (simp add: wp_def)

lemma wp_mono: "wp m Q w \<Longrightarrow> (\<And>x w'. Q x w' \<Longrightarrow> R x w') \<Longrightarrow> wp m R w"
  by (auto simp: wp_def split: prod.splits sum.splits)

lemma wp_True [simp]: "wp m (\<lambda>_ _. True) w"
  by (simp add: wp_def split: prod.splits sum.splits)

lemma transaction_raises: "transaction m w = (Inl e, w') \<Longrightarrow> wdb w' = wdb w"
  by (auto simp: transaction_def split: prod.splits sum.splits)

section \<open>JSON of the shared dataclasses\<close>

definition opt_str :: "string option \<Rightarrow> json" where
  "opt_str s = (case s of None \<Rightarrow> JNull | Some t \<Rightarrow> JStr t)"

definition binding_json :: "user_binding \<Rightarrow> json" where
  "binding_json b = JObj [(''scope_id'', JStr (ub_scope_id b)), (''tenant_ref'', JStr (ub_tenant_ref b)),
     (''user_ref'', JStr (ub_user_ref b)), (''user_path'', JStr (ub_user_path b)),
     (''project_ref'', JStr (ub_project_ref b)), (''project_path'', JStr (ub_project_path b)),
     (''storage_root'', JStr (ub_storage_root b)), (''user_rel_path'', JStr (ub_user_rel_path b)),
     (''project_rel_path'', JStr (ub_project_rel_path b))]"

definition context_json :: "execution_context \<Rightarrow> json" where
  "context_json c = JObj [(''scope_id'', JStr (ec_scope_id c)), (''actor_ref'', opt_str (ec_actor_ref c)),
     (''external_ref'', opt_str (ec_external_ref c)),
     (''user_binding'', case ec_user_binding c of None \<Rightarrow> JNull | Some b \<Rightarrow> binding_json b)]"

definition actor_of :: "execution_context \<Rightarrow> string" where
  "actor_of c = (case ec_actor_ref c of
     None \<Rightarrow> ''system:runtime/api'' | Some a \<Rightarrow> if a = [] then ''system:runtime/api'' else a)"

definition fingerprint :: "host \<Rightarrow> json \<Rightarrow> string" where
  "fingerprint h value = h_sha256 h (utf8_encode (dumps True '','' '':'' value))"

definition audit_row :: "string \<Rightarrow> string \<Rightarrow> audit" where
  "audit_row now actor = \<lparr>date_created = now, created_by = actor, date_updated = now, updated_by = actor\<rparr>"

section \<open>Body files\<close>

definition message_json :: "string \<Rightarrow> string \<Rightarrow> string \<Rightarrow> string \<Rightarrow> int \<Rightarrow> json" where
  "message_json sid rid role content run_seq = JObj [(''schema_version'', JStr ''1''),
     (''session_id'', JStr sid), (''run_id'', JStr rid), (''run_seq'', JInt run_seq),
     (''role'', JStr role), (''content'', JStr content)]"

definition message_path :: "string \<Rightarrow> string \<Rightarrow> string \<Rightarrow> string" where
  "message_path sid rid role = ''sessions/'' @ sid @ ''/messages/'' @ rid @ ''-'' @ role @ ''.json''"

definition write_object_act :: "host \<Rightarrow> string \<Rightarrow> string \<Rightarrow> string \<Rightarrow> object_ref act" where
  "write_object_act h base path payload =
     with_files (\<lambda>fs. write_object (h_sha256 h) fs base path payload)"

definition write_message ::
  "host \<Rightarrow> string \<Rightarrow> string \<Rightarrow> string \<Rightarrow> string \<Rightarrow> string \<Rightarrow> int \<Rightarrow> object_ref act" where
  "write_message h base sid rid role content run_seq =
     write_object_act h base (message_path sid rid role)
       (utf8_encode (canonical_json (message_json sid rid role content run_seq)))"

definition write_snapshot :: "host \<Rightarrow> string \<Rightarrow> string \<Rightarrow> string \<Rightarrow> string \<Rightarrow> object_ref act" where
  "write_snapshot h base sid rid encoded =
     write_object_act h base (''sessions/'' @ sid @ ''/snapshots/'' @ rid @ ''.json'')
       (utf8_encode encoded)"

definition user_base :: "host \<Rightarrow> string \<Rightarrow> string" where
  "user_base h user_path =
     (if user_path \<noteq> [] then path_as_posix (mk_path user_path) else h_legacy_root h)"

text \<open>The rows of \<open>sessions s JOIN workspaces w ON w.scope_id = s.scope_id AND w.id = s.workspace_id\<close>.\<close>

definition join_sw :: "db \<Rightarrow> (session_row \<times> workspace_row) list" where
  "join_sw d = concat (map (\<lambda>s. map (Pair s) (filter (\<lambda>w. w_scope_id w = s_scope_id s
       \<and> w_id w = s_workspace_id s) (workspaces d))) (sessions d))"

definition base_for_session :: "host \<Rightarrow> string \<Rightarrow> db \<Rightarrow> string" where
  "base_for_session h sid d =
     (case select_one (\<lambda>(s, w). s_id s = sid) (join_sw d) of
        None \<Rightarrow> h_legacy_root h
      | Some (s, w) \<Rightarrow> user_base h (w_user_path w))"

definition exn_text :: "exn \<Rightarrow> string" where
  "exn_text e = (case e of DomainError _ m \<Rightarrow> m | IntegrityError m \<Rightarrow> m | ContentUnavailable m \<Rightarrow> m
     | ValueErr m \<Rightarrow> m | KeyErr m \<Rightarrow> m | OSErr m \<Rightarrow> m)"

definition content_unavailable :: "exn \<Rightarrow> exn" where
  "content_unavailable e =
     DomainError DEPENDENCY_UNAVAILABLE (''Content is unavailable: '' @ exn_text e)"

text \<open>\<open>json.loads(payload.decode("utf-8"))\<close> of a stored object, its failures translated.\<close>

definition load_object :: "files \<Rightarrow> string \<Rightarrow> string \<Rightarrow> exn + json" where
  "load_object fs base ref =
     (case read_object fs base ref of
        Inl e \<Rightarrow> Inl (content_unavailable e)
      | Inr payload \<Rightarrow>
          (case utf8_decode payload of
             None \<Rightarrow> Inl (content_unavailable (ValueErr ''UnicodeDecodeError''))
           | Some text \<Rightarrow>
               (case loads text of
                  None \<Rightarrow> Inl (content_unavailable (ValueErr ''JSONDecodeError''))
                | Some v \<Rightarrow> Inr v)))"

fun json_get :: "string \<Rightarrow> json \<Rightarrow> exn + json option" where
  "json_get key (JObj kvs) = Inr (map_of kvs key)"
| "json_get key _ = Inl (ValueErr ''AttributeError'')"

definition read_message :: "files \<Rightarrow> string \<Rightarrow> string option \<Rightarrow> exn + json option" where
  "read_message fs base ref =
     (case ref of
        None \<Rightarrow> Inr None
      | Some path \<Rightarrow>
          if path = [] then Inr None
          else bindE (load_object fs base path) (\<lambda>record.
               bindE (json_get ''content'' record) (\<lambda>c.
               Inr (Some (case c of None \<Rightarrow> JStr '''' | Some v \<Rightarrow> v)))))"

definition read_object_json :: "files \<Rightarrow> string \<Rightarrow> string option \<Rightarrow> exn + json option" where
  "read_object_json fs base ref =
     (case ref of
        None \<Rightarrow> Inr None
      | Some path \<Rightarrow> if path = [] then Inr None
                     else bindE (load_object fs base path) (\<lambda>v. Inr (Some v)))"

text \<open>A message read through the path its write used is the message, unless an earlier write
  to that path won.\<close>

lemma wf_message_json: "wf_json (message_json sid rid role content run_seq)"
  by (simp add: message_json_def)

lemma read_written_message:
  assumes "map_of fs (base, path_as_posix (mk_path path)) =
      Some (utf8_encode (canonical_json (message_json sid rid role content run_seq)))" "path \<noteq> []"
  shows "read_message fs base (Some path) = Inr (Some (JStr content))"
proof -
  have l: "loads (canonical_json (message_json sid rid role content run_seq))
        = Some (norm_json True (message_json sid rid role content run_seq))"
    unfolding canonical_json_def
    by (rule loads_dumps) (simp_all add: wf_message_json item_seps_def key_seps_def)
  have g: "json_get ''content'' (norm_json True (message_json sid rid role content run_seq))
        = Inr (Some (JStr content))"
    by (simp add: message_json_def norm_json_JObj)
  show ?thesis using assms by (simp add: read_message_def load_object_def read_object_def utf8_roundtrip l g)
qed

end
