(* ===== verification/Events.thy ===== *)
theory Events
  imports StoreBase
begin

text \<open>
  The event log of \<open>SqliteRuntimeStore\<close>: appending an event to a Run, which numbers it in its
  Run and in its Session and writes its body to the session's JSONL log, and reading events
  back (\<open>_insert_event_locked\<close>, \<open>append_event\<close>, \<open>_event_payload\<close>, \<open>_event_view\<close>, \<open>list_events\<close>,
  \<open>list_session_events\<close> and the two cursors).
\<close>

section \<open>Appending\<close>

record event_view =
  ev_event_id :: string
  ev_scope_id :: string
  ev_run_id :: string
  ev_session_id :: string
  ev_seq :: int
  ev_session_seq :: "int option"
  ev_schema_version :: string
  ev_type :: event_type
  ev_occurred_at :: string
  ev_data :: json

record new_event =
  ne_event_id :: string
  ne_run_id :: string
  ne_session_id :: string
  ne_seq :: int
  ne_session_seq :: int
  ne_type :: event_type
  ne_occurred_at :: string
  ne_data :: json

text \<open>\<open>runs r JOIN sessions s ON s.scope_id = r.scope_id AND s.id = r.session_id\<close>\<close>

definition join_rs :: "db \<Rightarrow> (run_row \<times> session_row) list" where
  "join_rs d = concat (map (\<lambda>r. map (Pair r) (filter (\<lambda>s. s_scope_id s = r_scope_id r
       \<and> s_id s = r_session_id r) (sessions d))) (runs d))"

definition event_record ::
  "string \<Rightarrow> run_row \<Rightarrow> string \<Rightarrow> int \<Rightarrow> event_type \<Rightarrow> string \<Rightarrow> string \<Rightarrow> json \<Rightarrow> json" where
  "event_record event_id r run_id session_seq event_type occurred_at actor data = JObj
     [(''schema_version'', JStr ''1''), (''record_id'', JStr event_id),
      (''session_id'', JStr (r_session_id r)), (''run_id'', JStr run_id),
      (''run_seq'', JInt (r_run_seq r)), (''session_seq'', JInt session_seq),
      (''kind'', JStr ''event''), (''type'', JStr (event_type_value event_type)),
      (''occurred_at'', JStr occurred_at), (''actor_ref'', JStr actor), (''data'', data)]"

definition event_row_of :: "string \<Rightarrow> string \<Rightarrow> string \<Rightarrow> string \<Rightarrow> int \<Rightarrow> int \<Rightarrow> event_type
    \<Rightarrow> content_ref \<Rightarrow> string \<Rightarrow> string \<Rightarrow> string \<Rightarrow> event_row" where
  "event_row_of event_id scope run_id sid seq session_seq event_type c occurred_at now actor =
     \<lparr>date_created = now, created_by = actor, date_updated = now, updated_by = actor,
      e_event_id = event_id, e_scope_id = scope, e_run_id = run_id, e_session_id = sid,
      e_seq = seq, e_session_seq = session_seq, e_schema_version = ''1'', e_type = event_type,
      e_data_ref = cr_ref c, e_data_offset = cr_offset c, e_data_bytes = cr_bytes c,
      e_data_digest = cr_digest c, e_occurred_at = occurred_at\<rparr>"

text \<open>The three statements that record the event: its row, and the counters of its Run and Session.\<close>

definition record_event :: "event_row \<Rightarrow> string \<Rightarrow> string \<Rightarrow> db \<Rightarrow> exn + db" where
  "record_event e now actor d = bindE (insert_event e d) (\<lambda>d1.
     Inr (update_sessions (\<lambda>s. s_scope_id s = e_scope_id e \<and> s_id s = e_session_id e)
            (\<lambda>s. touch now actor (s\<lparr>s_next_event_seq := e_session_seq e + 1\<rparr>))
         (update_runs (\<lambda>r. r_scope_id r = e_scope_id e \<and> r_id r = e_run_id e)
            (\<lambda>r. touch now actor (r\<lparr>r_next_event_seq := e_seq e + 1\<rparr>)) d1)))"

definition insert_event_locked :: "host \<Rightarrow> nat \<Rightarrow> nat \<Rightarrow> string \<Rightarrow> string \<Rightarrow> event_type \<Rightarrow> json
    \<Rightarrow> string \<Rightarrow> string \<Rightarrow> new_event act" where
  "insert_event_locked h u n scope run_id event_type data actor occurred_at =
     bindA read_db (\<lambda>d.
     case select_one (\<lambda>(r, s). r_scope_id r = scope \<and> r_id r = run_id) (join_rs d) of
       None \<Rightarrow> raise (DomainError RUN_NOT_FOUND ''Run not found'')
     | Some (r, s) \<Rightarrow>
        let seq = r_next_event_seq r; session_seq = s_next_event_seq s; event_id = h_uuid h u;
            now = h_now h n; base = base_for_session h (r_session_id r) d;
            record = event_record event_id r run_id session_seq event_type occurred_at actor data
        in bindA (with_files (\<lambda>fs. append_record (h_max_file_bytes h) (h_sha256 h) fs base
                    (''sessions/'' @ r_session_id r) record ''content'')) (\<lambda>c.
           bindA (insert_db (record_event (event_row_of event_id scope run_id (r_session_id r)
                    seq session_seq event_type c occurred_at now actor) now actor)) (\<lambda>_.
           ret \<lparr>ne_event_id = event_id, ne_run_id = run_id, ne_session_id = r_session_id r,
                ne_seq = seq, ne_session_seq = session_seq, ne_type = event_type,
                ne_occurred_at = occurred_at, ne_data = data\<rparr>)))"

definition append_event ::
  "host \<Rightarrow> string \<Rightarrow> string \<Rightarrow> event_type \<Rightarrow> json \<Rightarrow> string \<Rightarrow> new_event act" where
  "append_event h scope run_id event_type data actor = transaction (bindA read_db (\<lambda>d.
     case select_one (\<lambda>r. r_scope_id r = scope \<and> r_id r = run_id) (runs d) of
       None \<Rightarrow> raise (DomainError RUN_NOT_FOUND ''Run not found'')
     | Some _ \<Rightarrow> insert_event_locked h 0 1 scope run_id event_type data actor (h_now h 0)))"

section \<open>Reading\<close>

fun json_truthy :: "json \<Rightarrow> bool" where
  "json_truthy JNull = False"
| "json_truthy (JBool b) = b"
| "json_truthy (JInt i) = (i \<noteq> 0)"
| "json_truthy (JStr s) = (s \<noteq> [])"
| "json_truthy (JArr xs) = (xs \<noteq> [])"
| "json_truthy (JObj kvs) = (kvs \<noteq> [])"

text \<open>\<open>dict(record.get("data") or {})\<close>\<close>

definition data_dict :: "json option \<Rightarrow> exn + (string \<times> json) list" where
  "data_dict v = (case v of None \<Rightarrow> Inr []
     | Some j \<Rightarrow> if \<not> json_truthy j then Inr []
               else (case j of JObj kvs \<Rightarrow> Inr kvs | _ \<Rightarrow> Inl (ValueErr ''TypeError'')))"

definition event_payload :: "host \<Rightarrow> world \<Rightarrow> event_row \<Rightarrow> exn + json" where
  "event_payload h w e =
     (let base = base_for_session h (e_session_id e) (wdb w) in
      bindE (case read_verified (h_sha256 h) (wfiles w) base (e_data_ref e) (e_data_offset e)
                (e_data_bytes e) (Some (e_data_digest e)) of
               Inl (ContentUnavailable m) \<Rightarrow> Inl (content_unavailable (ContentUnavailable m))
             | Inl x \<Rightarrow> Inl x
             | Inr r \<Rightarrow> Inr r) (\<lambda>record.
      bindE (json_get ''data'' record) (\<lambda>v.
      bindE (data_dict v) (\<lambda>data.
      let output_ref = map_of data ''output_ref''; rest = AList.delete ''output_ref'' data;
          no_output = (case map_of rest ''output'' of None \<Rightarrow> True | Some j \<Rightarrow> j = JNull)
      in case output_ref of
           None \<Rightarrow> Inr (JObj rest)
         | Some ref \<Rightarrow>
             if \<not> (json_truthy ref \<and> no_output) then Inr (JObj rest)
             else (case ref of
                     JStr path \<Rightarrow> bindE (read_message (wfiles w) base (Some path)) (\<lambda>m.
                       Inr (JObj (dict_set ''output'' (case m of None \<Rightarrow> JNull | Some j \<Rightarrow> j) rest)))
                   | _ \<Rightarrow> Inl (ValueErr ''TypeError''))))))"

text \<open>A view of a row; \<open>list_events\<close> does not select the session number.\<close>

definition event_view :: "host \<Rightarrow> world \<Rightarrow> bool \<Rightarrow> event_row \<Rightarrow> exn + event_view" where
  "event_view h w with_session_seq e = bindE (event_payload h w e) (\<lambda>payload.
     Inr \<lparr>ev_event_id = e_event_id e, ev_scope_id = e_scope_id e, ev_run_id = e_run_id e,
          ev_session_id = e_session_id e, ev_seq = e_seq e,
          ev_session_seq = (if with_session_seq then Some (e_session_seq e) else None),
          ev_schema_version = e_schema_version e, ev_type = e_type e,
          ev_occurred_at = e_occurred_at e, ev_data = payload\<rparr>)"

fun mapE :: "('a \<Rightarrow> 'e + 'b) \<Rightarrow> 'a list \<Rightarrow> 'e + 'b list" where
  "mapE f [] = Inr []"
| "mapE f (x # xs) = bindE (f x) (\<lambda>y. bindE (mapE f xs) (\<lambda>ys. Inr (y # ys)))"

definition event_rows :: "string \<Rightarrow> string \<Rightarrow> int \<Rightarrow> nat \<Rightarrow> db \<Rightarrow> event_row list" where
  "event_rows scope run_id after_seq limit d =
     take limit (sort_key e_seq (select (\<lambda>e. e_scope_id e = scope \<and> e_run_id e = run_id
       \<and> e_seq e > after_seq) (run_events d)))"

definition list_events ::
  "host \<Rightarrow> world \<Rightarrow> string \<Rightarrow> string \<Rightarrow> int \<Rightarrow> nat \<Rightarrow> exn + (event_view list \<times> int)" where
  "list_events h w scope run_id after_seq limit =
     bindE (mapE (event_view h w False) (event_rows scope run_id after_seq limit (wdb w))) (\<lambda>evs.
     Inr (evs, if evs \<noteq> [] then ev_seq (last evs) else after_seq))"

definition session_event_rows :: "string \<Rightarrow> int \<Rightarrow> nat \<Rightarrow> db \<Rightarrow> event_row list" where
  "session_event_rows sid after_seq limit d =
     take limit (sort_key e_session_seq (select (\<lambda>e. e_session_id e = sid
       \<and> e_session_seq e > after_seq) (run_events d)))"

definition list_session_events ::
  "host \<Rightarrow> world \<Rightarrow> string \<Rightarrow> int \<Rightarrow> nat \<Rightarrow> exn + (event_view list \<times> int)" where
  "list_session_events h w sid after_seq limit =
     (let rows = session_event_rows sid after_seq limit (wdb w) in
      bindE (mapE (event_view h w True) rows) (\<lambda>evs.
      Inr (evs, if rows \<noteq> [] then e_session_seq (last rows) else after_seq)))"

fun coalesce_max :: "int list \<Rightarrow> int" where
  "coalesce_max [] = 0"
| "coalesce_max (x # xs) = foldl max x xs"

definition event_cursor :: "string \<Rightarrow> string \<Rightarrow> db \<Rightarrow> string" where
  "event_cursor scope run_id d = run_id @ '':'' @ py_str_int (coalesce_max (map e_seq
     (select (\<lambda>e. e_scope_id e = scope \<and> e_run_id e = run_id) (run_events d))))"

definition session_event_cursor :: "string \<Rightarrow> db \<Rightarrow> int" where
  "session_event_cursor sid d =
     coalesce_max (map e_session_seq (select (\<lambda>e. e_session_id e = sid) (run_events d)))"

end
