(* ===== verification/Sessions.thy ===== *)
theory Sessions
  imports Events
begin

text \<open>
  Sessions of \<open>SqliteRuntimeStore\<close>: creating one (idempotent by key, reusing the workspace of
  the user's project), reading one, listing them page by page, renaming one
  (\<open>create_session\<close> to \<open>update_session_title\<close>).
\<close>

record session_view = audit +
  sv_id :: string
  sv_scope_id :: string
  sv_workspace_id :: string
  sv_title :: string
  sv_external_ref :: "string option"
  sv_thread_id :: string
  sv_next_event_seq :: int
  sv_storage_ref :: string
  sv_storage_root :: string
  sv_tenant_ref :: string
  sv_user_ref :: string
  sv_user_path :: string
  sv_user_rel_path :: string
  sv_project_ref :: string
  sv_project_path :: string
  sv_current_revision :: "string option"
  sv_workspace_active_attempt_id :: "string option"
  sv_workspace_epoch :: int
  sv_lease_until :: "string option"
  sv_heartbeat_at :: "string option"

definition session_view_of :: "session_row \<times> workspace_row \<Rightarrow> session_view" where
  "session_view_of sw = (case sw of (s, w) \<Rightarrow>
     \<lparr>date_created = date_created s, created_by = created_by s, date_updated = date_updated s,
      updated_by = updated_by s, sv_id = s_id s, sv_scope_id = s_scope_id s,
      sv_workspace_id = s_workspace_id s, sv_title = s_title s,
      sv_external_ref = s_external_ref s, sv_thread_id = s_thread_id s,
      sv_next_event_seq = s_next_event_seq s, sv_storage_ref = w_storage_ref w,
      sv_storage_root = w_storage_root w, sv_tenant_ref = w_tenant_ref w,
      sv_user_ref = w_user_ref w, sv_user_path = w_user_path w,
      sv_user_rel_path = w_user_rel_path w, sv_project_ref = w_project_ref w,
      sv_project_path = w_project_path w, sv_current_revision = w_current_revision w,
      sv_workspace_active_attempt_id = w_active_attempt_id w,
      sv_workspace_epoch = w_workspace_epoch w, sv_lease_until = w_lease_until w,
      sv_heartbeat_at = w_heartbeat_at w\<rparr>)"

definition get_session :: "string \<Rightarrow> string \<Rightarrow> db \<Rightarrow> session_view option" where
  "get_session scope sid d = map_option session_view_of
     (select_one (\<lambda>(s, w). s_scope_id s = scope \<and> s_id s = sid) (join_sw d))"

definition get_session_unscoped :: "string \<Rightarrow> db \<Rightarrow> session_view option" where
  "get_session_unscoped sid d = map_option session_view_of
     (select_one (\<lambda>(s, w). s_id s = sid) (join_sw d))"

definition get_workspace :: "string \<Rightarrow> string \<Rightarrow> db \<Rightarrow> workspace_row option" where
  "get_workspace scope wid d = select_one (\<lambda>w. w_scope_id w = scope \<and> w_id w = wid) (workspaces d)"

definition require_session :: "string \<Rightarrow> string \<Rightarrow> db \<Rightarrow> exn + unit" where
  "require_session scope sid d = (if get_session scope sid d = None
     then Inl (DomainError SESSION_NOT_FOUND ''Session not found'') else Inr ())"

section \<open>Creating\<close>

definition session_fingerprint ::
  "host \<Rightarrow> string \<Rightarrow> string \<Rightarrow> string \<Rightarrow> string option \<Rightarrow> execution_context \<Rightarrow> string" where
  "session_fingerprint h scope key title external ctx = fingerprint h (JObj
     [(''scope_id'', JStr scope), (''idempotency_key'', JStr key), (''title'', JStr title),
      (''external_ref'', opt_str external), (''context'', context_json ctx)])"

definition new_workspace :: "ident \<Rightarrow> ident \<Rightarrow> path_text \<Rightarrow> path_text \<Rightarrow> string \<Rightarrow> string \<Rightarrow> path_text
    \<Rightarrow> path_text \<Rightarrow> string \<Rightarrow> path_text \<Rightarrow> stamp \<Rightarrow> string \<Rightarrow> workspace_row" where
  "new_workspace wid scope storage_ref storage_root tenant user user_path user_rel project_ref
       project_path now actor =
     \<lparr>date_created = now, created_by = actor, date_updated = now, updated_by = actor,
      w_id = wid, w_scope_id = scope, w_storage_ref = storage_ref, w_storage_root = storage_root,
      w_tenant_ref = tenant, w_user_ref = user, w_user_path = user_path,
      w_user_rel_path = user_rel, w_project_ref = project_ref, w_project_path = project_path,
      w_current_revision = None, w_active_attempt_id = None, w_workspace_epoch = 0,
      w_lease_until = None, w_heartbeat_at = None\<rparr>"

text \<open>The workspace a session without a user binding gets: one of its own.\<close>

definition legacy_workspace :: "string \<Rightarrow> string \<Rightarrow> string \<Rightarrow> string \<Rightarrow> workspace_row" where
  "legacy_workspace wid scope now actor = new_workspace wid scope (''workspace:'' @ wid) ''''
     (''legacy-tenant:'' @ scope) scope '''' '''' (''legacy-project:'' @ wid) '''' now actor"

definition bound_workspace ::
  "string \<Rightarrow> string \<Rightarrow> user_binding \<Rightarrow> string \<Rightarrow> string \<Rightarrow> workspace_row" where
  "bound_workspace wid scope b now actor = new_workspace wid scope (ub_project_path b)
     (ub_storage_root b) (ub_tenant_ref b) (ub_user_ref b) (ub_user_path b) (ub_user_rel_path b)
     (ub_project_ref b) (ub_project_path b) now actor"

definition workspace_moved :: "workspace_row \<Rightarrow> user_binding \<Rightarrow> bool" where
  "workspace_moved w b \<longleftrightarrow> w_storage_ref w \<noteq> ub_project_path b
     \<or> w_storage_root w \<noteq> ub_storage_root b \<or> w_user_path w \<noteq> ub_user_path b
     \<or> w_user_rel_path w \<noteq> ub_user_rel_path b \<or> w_project_path w \<noteq> ub_project_path b"

definition rebind_workspace :: "user_binding \<Rightarrow> workspace_row \<Rightarrow> workspace_row" where
  "rebind_workspace b w = w\<lparr>w_storage_ref := ub_project_path b, w_storage_root := ub_storage_root b,
     w_user_path := ub_user_path b, w_user_rel_path := ub_user_rel_path b,
     w_project_path := ub_project_path b\<rparr>"

text \<open>The workspace of a new session: found, moved, or created under the second fresh UUID.\<close>

definition session_workspace ::
  "host \<Rightarrow> string \<Rightarrow> execution_context \<Rightarrow> string \<Rightarrow> string \<Rightarrow> string act" where
  "session_workspace h scope ctx now actor = (case ec_user_binding ctx of
     None \<Rightarrow>
       let wid = h_uuid h 1 in
       bindA (insert_db (insert_workspace (legacy_workspace wid scope now actor))) (\<lambda>_. ret wid)
   | Some b \<Rightarrow> bindA read_db (\<lambda>d.
       case select_one (\<lambda>w. w_scope_id w = scope \<and> w_project_ref w = ub_project_ref b)
              (workspaces d) of
         Some w \<Rightarrow>
           if w_tenant_ref w \<noteq> ub_tenant_ref b \<or> w_user_ref w \<noteq> ub_user_ref b
           then raise (DomainError IDEMPOTENCY_CONFLICT
                  ''User project is already bound to a different identity'')
           else if workspace_moved w b
           then bindA (mod_db (update_workspaces (\<lambda>x. w_scope_id x = scope \<and> w_id x = w_id w)
                        (\<lambda>x. touch now actor (rebind_workspace b x)))) (\<lambda>_. ret (w_id w))
           else ret (w_id w)
       | None \<Rightarrow>
           let wid = h_uuid h 1 in
           bindA (insert_db (insert_workspace (bound_workspace wid scope b now actor)))
             (\<lambda>_. ret wid)))"

definition new_session :: "ident \<Rightarrow> string \<Rightarrow> ident \<Rightarrow> string \<Rightarrow> string option \<Rightarrow> string \<Rightarrow> string
    \<Rightarrow> session_row" where
  "new_session sid scope wid title external now actor =
     \<lparr>date_created = now, created_by = actor, date_updated = now, updated_by = actor,
      s_id = sid, s_scope_id = scope, s_workspace_id = wid, s_title = title,
      s_external_ref = external, s_thread_id = ''thread:'' @ sid, s_next_run_seq = 1,
      s_next_event_seq = 1, s_execution_epoch = 0, s_active_run_id = None\<rparr>"

definition new_session_request ::
  "string \<Rightarrow> string \<Rightarrow> string \<Rightarrow> string \<Rightarrow> string \<Rightarrow> string \<Rightarrow> session_request_row" where
  "new_session_request scope key fp sid now actor =
     \<lparr>date_created = now, created_by = actor, date_updated = now, updated_by = actor,
      q_scope_id = scope, q_idempotency_key = key, q_request_fingerprint = fp, q_session_id = sid\<rparr>"

definition create_session_tx :: "host \<Rightarrow> string \<Rightarrow> string \<Rightarrow> string \<Rightarrow> string option
    \<Rightarrow> execution_context \<Rightarrow> string act" where
  "create_session_tx h scope key title external ctx =
     (let now = h_now h 0; actor = actor_of ctx;
          fp = session_fingerprint h scope key title external ctx in
      transaction (bindA read_db (\<lambda>d.
        case select_one (\<lambda>q. q_scope_id q = scope \<and> q_idempotency_key q = key)
               (session_requests d) of
          Some q \<Rightarrow>
            if q_request_fingerprint q \<noteq> fp
            then raise (DomainError IDEMPOTENCY_CONFLICT
                   ''Session key is already bound to a different request'')
            else ret (q_session_id q)
        | None \<Rightarrow>
            let sid = h_uuid h 0 in
            bindA (session_workspace h scope ctx now actor) (\<lambda>wid.
            bindA (insert_db (insert_session (new_session sid scope wid title external now actor)))
              (\<lambda>_.
            bindA (insert_db (insert_session_request
                     (new_session_request scope key fp sid now actor))) (\<lambda>_.
            ret sid))))))"

definition create_session :: "host \<Rightarrow> string \<Rightarrow> string \<Rightarrow> string \<Rightarrow> string option
    \<Rightarrow> execution_context \<Rightarrow> session_view option act" where
  "create_session h scope key title external ctx =
     bindA (create_session_tx h scope key title external ctx) (\<lambda>sid.
     bindA read_db (\<lambda>d. ret (get_session scope sid d)))"

section \<open>Listing\<close>

definition list_bound_sessions :: "db \<Rightarrow> session_view list" where
  "list_bound_sessions d = map session_view_of (sort_key (\<lambda>(s, w). (date_created s, s_id s))
     (select (\<lambda>(s, w). w_user_path w \<noteq> '''' \<and> w_project_path w \<noteq> '''') (join_sw d)))"

text \<open>\<open>cursor.split("|", 1)\<close>: a cursor without a bar does not unpack into two.\<close>

definition parse_cursor :: "string option \<Rightarrow> exn + (string \<times> string) option" where
  "parse_cursor cursor = (if falsy cursor then Inr None else
     (case dropWhile (\<lambda>c. c \<noteq> CHR ''|'') (the cursor) of
        [] \<Rightarrow> Inl (ValueErr ''not enough values to unpack (expected 2, got 1)'')
      | _ # ident \<Rightarrow> Inr (Some (takeWhile (\<lambda>c. c \<noteq> CHR ''|'') (the cursor), ident))))"

definition after_cursor :: "(string \<times> string) option \<Rightarrow> session_row \<times> workspace_row \<Rightarrow> bool" where
  "after_cursor cur = (\<lambda>(s, w). case cur of None \<Rightarrow> True
     | Some (created, ident) \<Rightarrow> created < date_created s
         \<or> (date_created s = created \<and> ident < s_id s))"

text \<open>One page and the cursor of the next, from the rows the filter admits.\<close>

definition session_page :: "(session_row \<times> workspace_row \<Rightarrow> bool) \<Rightarrow> nat \<Rightarrow> db
    \<Rightarrow> session_view list \<times> string option" where
  "session_page P limit d =
     (let rows = take (limit + 1) (sort_key (\<lambda>(s, w). (date_created s, s_id s))
                   (select P (join_sw d)));
          items = map session_view_of (take limit rows)
      in (items, if length rows > limit
                 then (let s = fst (rows ! (limit - 1)) in
                       Some (date_created s @ ''|'' @ s_id s))
                 else None))"

definition list_sessions ::
  "string \<Rightarrow> string option \<Rightarrow> nat \<Rightarrow> db \<Rightarrow> exn + (session_view list \<times> string option)" where
  "list_sessions scope cursor limit d = bindE (parse_cursor cursor) (\<lambda>cur.
     Inr (session_page (\<lambda>sw. s_scope_id (fst sw) = scope \<and> after_cursor cur sw) limit d))"

definition list_sessions_public :: "string option \<Rightarrow> string option \<Rightarrow> string option \<Rightarrow> nat \<Rightarrow> db
    \<Rightarrow> exn + (session_view list \<times> string option)" where
  "list_sessions_public user_rel_path project_ref cursor limit d =
     bindE (parse_cursor cursor) (\<lambda>cur.
     Inr (session_page (\<lambda>sw. (falsy user_rel_path \<or> Some (w_user_rel_path (snd sw)) = user_rel_path)
            \<and> (falsy project_ref \<or> Some (w_project_ref (snd sw)) = project_ref)
            \<and> after_cursor cur sw) limit d))"

section \<open>Renaming\<close>

definition update_session_title ::
  "host \<Rightarrow> string \<Rightarrow> string \<Rightarrow> string \<Rightarrow> session_view option act" where
  "update_session_title h sid title actor =
     bindA (transaction (bindA read_db (\<lambda>d.
        bindA (mod_db (update_sessions (\<lambda>s. s_id s = sid)
                 (\<lambda>s. touch (h_now h 0) actor (s\<lparr>s_title := title\<rparr>)))) (\<lambda>_.
        if rowcount (\<lambda>s. s_id s = sid) (sessions d) \<noteq> 1
        then raise (DomainError SESSION_NOT_FOUND ''Session not found'') else ret ())))) (\<lambda>_.
     bindA read_db (\<lambda>d. ret (get_session_unscoped sid d)))"

end
