(* ===== verification/Runs.thy ===== *)
theory Runs
  imports Sessions
begin

text \<open>
  Accepting a Run and reading Runs (\<open>find_request\<close> to \<open>run_state\<close> of
  \<open>src/code_forge/persistence/sqlite_store.py\<close>): the idempotent acceptance under a request key
  with its input message and configuration snapshot, the Session's binding check, the paged
  listings, the pending reply and the history the context builder reads.
\<close>

section \<open>Accepting\<close>

definition skill_ref_json :: "skill_ref \<Rightarrow> json" where
  "skill_ref_json s = JObj [(''name'', JStr (sr_name s)), (''version'', JStr (sr_version s)),
     (''digest'', JStr (sr_digest s)), (''bundle_ref'', JStr (sr_bundle_ref s)),
     (''source_kind'', JStr (sr_source_kind s)), (''source_path'', JStr (sr_source_path s)),
     (''user_ref'', JStr (sr_user_ref s)), (''project_ref'', JStr (sr_project_ref s))]"

definition snapshot_json :: "run_snapshot \<Rightarrow> json" where
  "snapshot_json s = JObj [(''agent_digest'', JStr (sn_agent_digest s)),
     (''runtime_ref'', JStr (sn_runtime_ref s)), (''model_profile_ref'', JStr (sn_model_profile_ref s)),
     (''execution_profile_ref'', JStr (sn_execution_profile_ref s)),
     (''skills'', JArr (map skill_ref_json (sn_skills s))),
     (''tool_refs'', JArr (map JStr (sn_tool_refs s))),
     (''user_binding'', case sn_user_binding s of None \<Rightarrow> JNull | Some b \<Rightarrow> binding_json b),
     (''effective_skill_paths'', JArr (map JStr (sn_effective_skill_paths s))),
     (''skill_path_source'', JStr (sn_skill_path_source s)), (''path_digest'', JStr (sn_path_digest s))]"

definition find_request :: "string \<Rightarrow> string \<Rightarrow> string \<Rightarrow> db \<Rightarrow> existing_request option" where
  "find_request scope sid key d = map_option (\<lambda>r.
     \<lparr>er_fingerprint = r_request_fingerprint r,
      er_run = \<lparr>ar_id = r_id r, ar_session_id = sid, ar_status = r_status r,
                ar_state_version = r_state_version r, ar_reused = True\<rparr>\<rparr>)
     (select_one (\<lambda>r. r_scope_id r = scope \<and> r_session_id r = sid \<and> r_idempotency_key r = key)
       (runs d))"

definition require_session_binding ::
  "os_env \<Rightarrow> workspace_row \<Rightarrow> user_binding option \<Rightarrow> exn + unit" where
  "require_session_binding os w binding =
     bindE (if w_project_path w \<noteq> [] then
              bindE (make_user_binding os (w_user_ref w) (w_tenant_ref w) (w_user_ref w)
                       (w_user_path w) (w_project_ref w) (Some (w_project_path w))
                       (w_storage_root w) (w_user_rel_path w) '''') (\<lambda>b. Inr (Some b))
            else Inr None) (\<lambda>stored.
     case binding of
       None \<Rightarrow> if stored \<noteq> None
                then Inl (DomainError INVALID_REQUEST ''Session requires its Platform user binding'')
                else Inr ()
     | Some b \<Rightarrow> if stored \<noteq> Some b
                then Inl (DomainError IDEMPOTENCY_CONFLICT
                       ''Run user binding does not match its Session'')
                else Inr ())"

definition new_run :: "string \<Rightarrow> run_request \<Rightarrow> string \<Rightarrow> int \<Rightarrow> string \<Rightarrow> string \<Rightarrow> object_ref
    \<Rightarrow> object_ref \<Rightarrow> string \<Rightarrow> string \<Rightarrow> run_row" where
  "new_run rid rq wid run_seq key fp input snap now actor =
     \<lparr>date_created = now, created_by = actor, date_updated = now, updated_by = actor,
      r_id = rid, r_scope_id = ec_scope_id (rq_context rq), r_session_id = rq_session_id rq,
      r_workspace_id = wid, r_run_seq = run_seq, r_idempotency_key = key,
      r_request_fingerprint = fp, r_input_ref = ob_ref input, r_input_digest = ob_digest input,
      r_input_chars = length (rq_input rq), r_agent_ref = rq_agent_ref rq,
      r_execution_context = dumps_sorted (context_json (rq_context rq)),
      r_config_snapshot_ref = ob_ref snap, r_config_snapshot_digest = ob_digest snap,
      r_config_snapshot_bytes = ob_bytes snap, r_status = QUEUED, r_active_attempt_id = None,
      r_state_version = 0, r_task_outcome = None, r_wait_reason = None, r_output_ref = None,
      r_output_digest = None, r_output_chars = None, r_error = None,
      r_cancel_requested_at = None, r_deadline_at = None, r_due_at = now,
      r_next_event_seq = 1\<rparr>"

definition busy :: "string \<Rightarrow> string \<Rightarrow> db \<Rightarrow> bool" where
  "busy scope sid d = (select_one (\<lambda>r. r_scope_id r = scope \<and> r_session_id r = sid
     \<and> r_status r \<notin> TERMINAL_STATUSES) (runs d) \<noteq> None)"

definition accepted_data :: "object_ref \<Rightarrow> json" where
  "accepted_data snap = JObj [(''status'', JStr (run_status_value QUEUED)),
     (''snapshot_ref'', JObj [(''ref'', JStr (ob_ref snap)), (''bytes'', JInt (int (ob_bytes snap))),
        (''digest'', JStr (ob_digest snap))])]"

text \<open>The new Run of a Session row \<open>s\<close> with its workspace \<open>w\<close>: bodies, row, event, counter.\<close>

definition insert_new_run :: "host \<Rightarrow> run_request \<Rightarrow> string \<Rightarrow> string \<Rightarrow> run_snapshot
    \<Rightarrow> session_row \<Rightarrow> workspace_row \<Rightarrow> accepted_run act" where
  "insert_new_run h rq key fp snapshot s w =
     (let now = h_now h 0; actor = actor_of (rq_context rq); scope = ec_scope_id (rq_context rq);
          sid = rq_session_id rq; rid = h_uuid h 0; run_seq = s_next_run_seq s;
          base = user_base h (w_user_path w) in
      bindA (write_message h base sid rid ''user'' (rq_input rq) run_seq) (\<lambda>input.
      bindA (write_snapshot h base sid rid (dumps_sorted (snapshot_json snapshot))) (\<lambda>snap.
      bindA (insert_db (insert_run (new_run rid rq (s_workspace_id s) run_seq key fp input snap
                          now actor))) (\<lambda>_.
      bindA (insert_event_locked h 1 1 scope rid RUN_ACCEPTED (accepted_data snap) actor now) (\<lambda>_.
      bindA (mod_db (update_sessions (\<lambda>x. s_scope_id x = scope \<and> s_id x = sid)
               (\<lambda>x. touch now actor (x\<lparr>s_next_run_seq := run_seq + 1\<rparr>)))) (\<lambda>_.
      ret \<lparr>ar_id = rid, ar_session_id = sid, ar_status = QUEUED, ar_state_version = 0,
           ar_reused = False\<rparr>))))))"

definition accept_once :: "os_env \<Rightarrow> host \<Rightarrow> run_request \<Rightarrow> string \<Rightarrow> string \<Rightarrow> run_snapshot \<Rightarrow> bool
    \<Rightarrow> accepted_run act" where
  "accept_once os h rq key fp snapshot reject_if_active =
     (let scope = ec_scope_id (rq_context rq); sid = rq_session_id rq in
      transaction (bindA read_db (\<lambda>d.
        case select_one (\<lambda>r. r_scope_id r = scope \<and> r_session_id r = sid
               \<and> r_idempotency_key r = key) (runs d) of
          Some r \<Rightarrow>
            if r_request_fingerprint r \<noteq> fp
            then raise (DomainError IDEMPOTENCY_CONFLICT ''Key is already bound to different input'')
            else ret \<lparr>ar_id = r_id r, ar_session_id = sid, ar_status = r_status r,
                      ar_state_version = r_state_version r, ar_reused = True\<rparr>
        | None \<Rightarrow>
            (case select_one (\<lambda>(s, w). s_scope_id s = scope \<and> s_id s = sid) (join_sw d) of
               None \<Rightarrow> raise (DomainError SESSION_NOT_FOUND ''Session not found'')
             | Some (s, w) \<Rightarrow>
                 bindA (liftE (require_session_binding os w (ec_user_binding (rq_context rq)))) (\<lambda>_.
                 if reject_if_active \<and> busy scope sid d
                 then raise (DomainError MESSAGE_BUSY ''Session already has a running message'')
                 else insert_new_run h rq key fp snapshot s w)))))"

section \<open>Reading\<close>

text \<open>
  A decoded row: the columns \<open>_decode_run\<close> keeps as they are, and the five it replaces. The
  nine body columns it drops are still in \<open>rv_row\<close>, and nothing here reads them there.
\<close>

record run_view =
  rv_row :: run_row
  rv_execution_context :: "json option"
  rv_config_snapshot :: "json option"
  rv_input :: "json option"
  rv_output :: "json option"
  rv_error :: "json option"

definition parse_json_text :: "string option \<Rightarrow> exn + json option" where
  "parse_json_text v = (if falsy v then Inr None else
     (case loads (the v) of None \<Rightarrow> Inl (ValueErr ''JSONDecodeError'') | Some j \<Rightarrow> Inr (Some j)))"

definition decode_run :: "host \<Rightarrow> world \<Rightarrow> run_row \<Rightarrow> exn + run_view" where
  "decode_run h w r =
     (let base = base_for_session h (r_session_id r) (wdb w); fs = wfiles w in
      bindE (parse_json_text (Some (r_execution_context r))) (\<lambda>ctx.
      bindE (read_object_json fs base (Some (r_config_snapshot_ref r))) (\<lambda>snap.
      bindE (read_message fs base (Some (r_input_ref r))) (\<lambda>inp.
      bindE (read_message fs base (r_output_ref r)) (\<lambda>out.
      bindE (parse_json_text (r_error r)) (\<lambda>err.
      Inr \<lparr>rv_row = r, rv_execution_context = ctx, rv_config_snapshot = snap, rv_input = inp,
           rv_output = out, rv_error = err\<rparr>))))))"

definition optE :: "('a \<Rightarrow> 'e + 'b) \<Rightarrow> 'a option \<Rightarrow> 'e + 'b option" where
  "optE f x = (case x of None \<Rightarrow> Inr None | Some y \<Rightarrow> bindE (f y) (\<lambda>z. Inr (Some z)))"

definition get_run :: "host \<Rightarrow> world \<Rightarrow> string \<Rightarrow> string \<Rightarrow> exn + run_view option" where
  "get_run h w scope rid =
     optE (decode_run h w) (select_one (\<lambda>r. r_scope_id r = scope \<and> r_id r = rid) (runs (wdb w)))"

definition get_run_unscoped :: "host \<Rightarrow> world \<Rightarrow> string \<Rightarrow> exn + run_view option" where
  "get_run_unscoped h w rid = optE (decode_run h w) (select_one (\<lambda>r. r_id r = rid) (runs (wdb w)))"

text \<open>Python \<open>int(text)\<close>: white space around, a sign, digits with single underscores between.\<close>

fun int_digits :: "bool \<Rightarrow> nat \<Rightarrow> string \<Rightarrow> nat option" where
  "int_digits after_digit acc [] = (if after_digit then Some acc else None)"
| "int_digits after_digit acc (c # cs) =
     (if is_digit c then int_digits True (10 * acc + (of_char c - 48)) cs
      else if c = CHR ''_'' \<and> after_digit then int_digits False acc cs else None)"

definition py_int :: "string \<Rightarrow> int option" where
  "py_int s = (case py_strip s of
     [] \<Rightarrow> None
   | c # cs \<Rightarrow> if c = CHR ''-'' then map_option (\<lambda>n. - int n) (int_digits False 0 cs)
               else if c = CHR ''+'' then map_option int (int_digits False 0 cs)
               else map_option int (int_digits False 0 (c # cs)))"

definition parse_run_cursor :: "string option \<Rightarrow> exn + int option" where
  "parse_run_cursor cursor = (if falsy cursor then Inr None else
     (case py_int (the cursor) of
        None \<Rightarrow> Inl (ValueErr ''invalid literal for int() with base 10'')
      | Some i \<Rightarrow> Inr (Some i)))"

definition run_page :: "(run_row \<Rightarrow> bool) \<Rightarrow> int option \<Rightarrow> nat \<Rightarrow> db \<Rightarrow> run_row list" where
  "run_page P cur limit d = take (limit + 1) (sort_key r_run_seq (select (\<lambda>r. P r
     \<and> (case cur of None \<Rightarrow> True | Some c \<Rightarrow> r_run_seq r > c)) (runs d)))"

definition paged_runs ::
  "host \<Rightarrow> world \<Rightarrow> (run_row \<Rightarrow> bool) \<Rightarrow> string option \<Rightarrow> nat \<Rightarrow> exn + (run_view list \<times> string option)" where
  "paged_runs h w P cursor limit = bindE (parse_run_cursor cursor) (\<lambda>cur.
     let rows = run_page P cur limit (wdb w) in
     bindE (mapE (decode_run h w) (take limit rows)) (\<lambda>items.
     Inr (items, if length rows > limit then Some (py_str_int (r_run_seq (rows ! (limit - 1))))
                 else None)))"

definition list_runs :: "host \<Rightarrow> world \<Rightarrow> string \<Rightarrow> string \<Rightarrow> string option \<Rightarrow> nat
    \<Rightarrow> exn + (run_view list \<times> string option)" where
  "list_runs h w scope sid cursor limit =
     paged_runs h w (\<lambda>r. r_scope_id r = scope \<and> r_session_id r = sid) cursor limit"

definition list_messages_public :: "host \<Rightarrow> world \<Rightarrow> string \<Rightarrow> string option \<Rightarrow> nat
    \<Rightarrow> exn + (run_view list \<times> string option)" where
  "list_messages_public h w sid cursor limit =
     paged_runs h w (\<lambda>r. r_session_id r = sid) cursor limit"

definition get_current_message :: "host \<Rightarrow> world \<Rightarrow> string \<Rightarrow> exn + run_view option" where
  "get_current_message h w sid = optE (decode_run h w)
     (fetchone (rev (sort_key r_run_seq (select (\<lambda>r. r_session_id r = sid) (runs (wdb w))))))"

record pending_reply =
  pr_pending_id :: string
  pr_message_id :: string
  pr_kind :: string
  pr_prompt :: json

text \<open>\<open>(value or {}).get("prompt", "")\<close>\<close>

definition prompt_of :: "json option \<Rightarrow> exn + json" where
  "prompt_of v = (case v of None \<Rightarrow> Inr (JStr '''')
     | Some j \<Rightarrow> if \<not> json_truthy j then Inr (JStr '''')
               else bindE (json_get ''prompt'' j) (\<lambda>p.
                 Inr (case p of None \<Rightarrow> JStr '''' | Some x \<Rightarrow> x)))"

definition join_pr :: "db \<Rightarrow> (pending_row \<times> run_row) list" where
  "join_pr d = concat (map (\<lambda>p. map (Pair p) (filter (\<lambda>r. r_scope_id r = p_scope_id p
       \<and> r_id r = p_run_id p) (runs d))) (pending_responses d))"

definition get_pending_reply :: "host \<Rightarrow> world \<Rightarrow> string \<Rightarrow> exn + pending_reply option" where
  "get_pending_reply h w sid = optE (\<lambda>(p, r).
     bindE (read_object_json (wfiles w) (base_for_session h sid (wdb w)) (Some (p_payload_ref p)))
       (\<lambda>payload. bindE (prompt_of payload) (\<lambda>prompt.
     Inr \<lparr>pr_pending_id = p_id p, pr_message_id = p_run_id p, pr_kind = p_kind p,
          pr_prompt = prompt\<rparr>)))
     (fetchone (rev (sort_key (\<lambda>(p, r). (r_run_seq r, date_created p))
        (select (\<lambda>(p, r). r_session_id r = sid \<and> p_resolved_at p = None) (join_pr (wdb w))))))"

record history_item =
  hi_id :: string
  hi_run_seq :: int
  hi_status :: run_status
  hi_input :: "json option"
  hi_output :: "json option"

definition history_rows :: "string \<Rightarrow> string \<Rightarrow> int \<Rightarrow> nat \<Rightarrow> db \<Rightarrow> run_row list" where
  "history_rows scope sid before_seq limit d =
     take limit (rev (sort_key r_run_seq (select (\<lambda>r. r_scope_id r = scope \<and> r_session_id r = sid
       \<and> r_run_seq r < before_seq) (runs d))))"

definition conversation_history :: "host \<Rightarrow> world \<Rightarrow> string \<Rightarrow> string \<Rightarrow> string \<Rightarrow> nat
    \<Rightarrow> exn + history_item list" where
  "conversation_history h w scope sid before_run_id limit =
     (case select_one (\<lambda>r. r_scope_id r = scope \<and> r_session_id r = sid \<and> r_id r = before_run_id)
             (runs (wdb w)) of
        None \<Rightarrow> Inr []
      | Some current \<Rightarrow>
          let base = base_for_session h sid (wdb w) in
          bindE (mapE (\<lambda>r. bindE (read_message (wfiles w) base (Some (r_input_ref r))) (\<lambda>inp.
                    bindE (read_message (wfiles w) base (r_output_ref r)) (\<lambda>out.
                    Inr \<lparr>hi_id = r_id r, hi_run_seq = r_run_seq r, hi_status = r_status r,
                         hi_input = inp, hi_output = out\<rparr>)))
                  (history_rows scope sid (r_run_seq current) limit (wdb w)))
            (\<lambda>items. Inr (rev items)))"

definition run_state_of :: "run_row \<Rightarrow> run_state" where
  "run_state_of r = \<lparr>rs_run_id = r_id r, rs_status = r_status r,
     rs_state_version = r_state_version r, rs_task_outcome = r_task_outcome r,
     rs_wait_reason = r_wait_reason r\<rparr>"

definition get_run_state :: "host \<Rightarrow> world \<Rightarrow> string \<Rightarrow> string \<Rightarrow> exn + run_state" where
  "get_run_state h w scope rid = bindE (get_run h w scope rid) (\<lambda>v.
     case v of None \<Rightarrow> Inl (DomainError RUN_NOT_FOUND ''Run not found'')
     | Some x \<Rightarrow> Inr (run_state_of (rv_row x)))"

record pending_view =
  pv_id :: string
  pv_kind :: string
  pv_response_key :: "string option"
  pv_response_digest :: "string option"
  pv_resolved_at :: "string option"
  pv_prompt :: json
  pv_resolved :: bool

record run_snapshot_view =
  sn_run :: run_view
  sn_event_cursor :: string
  sn_pending_responses :: "pending_view list"

definition pending_view_of :: "host \<Rightarrow> world \<Rightarrow> string \<Rightarrow> pending_row \<Rightarrow> exn + pending_view" where
  "pending_view_of h w base p =
     bindE (read_object_json (wfiles w) base (Some (p_payload_ref p))) (\<lambda>payload.
     bindE (prompt_of payload) (\<lambda>prompt.
     Inr \<lparr>pv_id = p_id p, pv_kind = p_kind p, pv_response_key = p_response_key p,
          pv_response_digest = p_response_digest p, pv_resolved_at = p_resolved_at p,
          pv_prompt = prompt, pv_resolved = (p_resolved_at p \<noteq> None)\<rparr>))"

definition get_snapshot :: "host \<Rightarrow> world \<Rightarrow> string \<Rightarrow> string \<Rightarrow> exn + run_snapshot_view option" where
  "get_snapshot h w scope rid = bindE (get_run h w scope rid) (\<lambda>v.
     case v of None \<Rightarrow> Inr None
     | Some run \<Rightarrow>
         let base = base_for_session h (r_session_id (rv_row run)) (wdb w) in
         bindE (mapE (pending_view_of h w base) (sort_key date_created
                  (select (\<lambda>p. p_scope_id p = scope \<and> p_run_id p = rid)
                     (pending_responses (wdb w))))) (\<lambda>ps.
         Inr (Some \<lparr>sn_run = run, sn_event_cursor = event_cursor scope rid (wdb w),
                   sn_pending_responses = ps\<rparr>)))"

end
