(* ===== verification/Execution.thy ===== *)
theory Execution
  imports Runs
begin

text \<open>
  The life of an accepted Run in \<open>SqliteRuntimeStore\<close>: a worker claims the next due one and
  takes the leases of its Session and workspace (\<open>claim_next_run\<close>), the workspace's revision
  chain grows under that lease (\<open>record_workspace_revision\<close>), and the Run changes its status
  (\<open>transition_run\<close>, \<open>cancel_run\<close>, \<open>respond_to_run\<close> with \<open>_transition_run_locked\<close>).
\<close>

section \<open>Claiming\<close>

record claim_info =
  ci_scope_id :: string
  ci_run_id :: string
  ci_attempt_id :: string
  ci_epoch :: int
  ci_workspace_id :: string
  ci_workspace_epoch :: int
  ci_user_binding :: "user_binding option"
  ci_working_directory :: "string option"

text \<open>\<open>runs r JOIN sessions s .. JOIN workspaces w ON w.scope_id = s.scope_id AND w.id = s.workspace_id\<close>\<close>

definition join_rsw :: "db \<Rightarrow> (run_row \<times> session_row \<times> workspace_row) list" where
  "join_rsw d = concat (map (\<lambda>(r, s). map (\<lambda>w. (r, s, w)) (filter (\<lambda>w. w_scope_id w = s_scope_id s
       \<and> w_id w = s_workspace_id s) (workspaces d))) (join_rs d))"

definition prior_queued :: "run_row \<Rightarrow> db \<Rightarrow> bool" where
  "prior_queued r d \<longleftrightarrow> list_ex (\<lambda>p. r_scope_id p = r_scope_id r \<and> r_session_id p = r_session_id r
     \<and> r_status p = QUEUED \<and> r_run_seq p < r_run_seq r) (runs d)"

definition claimable :: "string \<Rightarrow> string option \<Rightarrow> db \<Rightarrow> run_row \<times> session_row \<times> workspace_row \<Rightarrow> bool" where
  "claimable now_iso scope d = (\<lambda>(r, s, w). r_status r = QUEUED \<and> r_due_at r \<le> now_iso
     \<and> s_active_run_id s = None \<and> w_active_attempt_id w = None \<and> \<not> prior_queued r d
     \<and> (case scope of None \<Rightarrow> True | Some x \<Rightarrow> r_scope_id r = x))"

definition claim_order :: "run_row \<times> session_row \<times> workspace_row \<Rightarrow> string \<times> string \<times> int" where
  "claim_order = (\<lambda>(r, s, w). (r_due_at r, date_created r, r_run_seq r))"

definition next_claim :: "string \<Rightarrow> string option \<Rightarrow> db \<Rightarrow> (run_row \<times> session_row \<times> workspace_row) option" where
  "next_claim now_iso scope d =
     fetchone (sort_key claim_order (select (claimable now_iso scope d) (join_rsw d)))"

definition claim_binding :: "os_env \<Rightarrow> run_row \<Rightarrow> workspace_row \<Rightarrow> exn + user_binding option" where
  "claim_binding os r w = (if w_project_path w \<noteq> [] then
     bindE (make_user_binding os (r_scope_id r) (w_tenant_ref w) (w_user_ref w) (w_user_path w)
              (w_project_ref w) (Some (w_project_path w)) (w_storage_root w) (w_user_rel_path w) '''')
       (\<lambda>b. Inr (Some b))
     else Inr None)"

definition new_attempt :: "string \<Rightarrow> run_row \<Rightarrow> session_row \<Rightarrow> workspace_row \<Rightarrow> bool \<Rightarrow> string
    \<Rightarrow> string \<Rightarrow> string \<Rightarrow> string \<Rightarrow> attempt_row" where
  "new_attempt aid r s w bound worker_id lease_until now_iso actor =
     \<lparr>date_created = now_iso, created_by = actor, date_updated = now_iso, updated_by = actor,
      a_id = aid, a_scope_id = r_scope_id r, a_session_id = r_session_id r, a_run_id = r_id r,
      a_workspace_id = s_workspace_id s, a_epoch = s_execution_epoch s + 1,
      a_workspace_epoch = w_workspace_epoch w + 1, a_worker_id = worker_id,
      a_lease_until = lease_until, a_heartbeat_at = now_iso,
      a_workspace_base_revision = w_current_revision w,
      a_mount_spec_ref = (if bound then ''project:'' @ w_project_ref w else ''legacy''),
      a_working_directory_ref = w_project_path w, a_checkpoint_ref = None, a_ended_at = None\<rparr>"

definition lease_session :: "run_row \<Rightarrow> session_row \<Rightarrow> string \<Rightarrow> string \<Rightarrow> db \<Rightarrow> db" where
  "lease_session r s now_iso actor =
     update_sessions (\<lambda>x. s_scope_id x = r_scope_id r \<and> s_id x = r_session_id r)
       (\<lambda>x. touch now_iso actor (x\<lparr>s_active_run_id := Some (r_id r),
              s_execution_epoch := s_execution_epoch s + 1\<rparr>))"

definition workspace_free :: "run_row \<Rightarrow> session_row \<Rightarrow> workspace_row \<Rightarrow> workspace_row \<Rightarrow> bool" where
  "workspace_free r s w x \<longleftrightarrow> w_scope_id x = r_scope_id r \<and> w_id x = s_workspace_id s
     \<and> w_workspace_epoch x = w_workspace_epoch w \<and> w_active_attempt_id x = None"

definition lease_workspace ::
  "run_row \<Rightarrow> session_row \<Rightarrow> workspace_row \<Rightarrow> string \<Rightarrow> string \<Rightarrow> string \<Rightarrow> string \<Rightarrow> db \<Rightarrow> db" where
  "lease_workspace r s w aid lease_until now_iso actor =
     update_workspaces (workspace_free r s w)
       (\<lambda>x. touch now_iso actor (x\<lparr>w_active_attempt_id := Some aid,
              w_workspace_epoch := w_workspace_epoch w + 1, w_lease_until := Some lease_until,
              w_heartbeat_at := Some now_iso\<rparr>))"

definition run_at_version :: "string \<Rightarrow> string \<Rightarrow> int \<Rightarrow> run_row \<Rightarrow> bool" where
  "run_at_version scope rid v x \<longleftrightarrow> r_scope_id x = scope \<and> r_id x = rid \<and> r_state_version x = v"

definition start_run :: "run_row \<Rightarrow> string \<Rightarrow> string \<Rightarrow> string \<Rightarrow> string \<Rightarrow> db \<Rightarrow> db" where
  "start_run r aid lease_until now_iso actor =
     update_runs (run_at_version (r_scope_id r) (r_id r) (r_state_version r))
       (\<lambda>x. touch now_iso actor (x\<lparr>r_status := RUNNING, r_active_attempt_id := Some aid,
              r_state_version := r_state_version x + 1, r_due_at := lease_until\<rparr>))"

text \<open>An \<open>UPDATE\<close> whose row count must be one.\<close>

definition cas :: "(db \<Rightarrow> nat) \<Rightarrow> (db \<Rightarrow> db) \<Rightarrow> string \<Rightarrow> unit act" where
  "cas count upd message = bindA read_db (\<lambda>d. bindA (mod_db upd) (\<lambda>_.
     if count d \<noteq> 1 then raise (DomainError STATE_CONFLICT message) else ret ()))"

definition claim_row :: "os_env \<Rightarrow> host \<Rightarrow> string \<Rightarrow> string \<Rightarrow> string \<Rightarrow> string
    \<Rightarrow> run_row \<times> session_row \<times> workspace_row \<Rightarrow> claim_info act" where
  "claim_row os h worker_id now_iso lease_until actor = (\<lambda>(r, s, w).
     let aid = h_uuid h 0 in
     bindA (liftE (claim_binding os r w)) (\<lambda>binding.
     bindA (insert_db (insert_attempt
              (new_attempt aid r s w (binding \<noteq> None) worker_id lease_until now_iso actor))) (\<lambda>_.
     bindA (mod_db (lease_session r s now_iso actor)) (\<lambda>_.
     bindA (cas (\<lambda>d. rowcount (workspace_free r s w) (workspaces d))
              (lease_workspace r s w aid lease_until now_iso actor) ''Workspace lease conflict'') (\<lambda>_.
     bindA (cas (\<lambda>d. rowcount (run_at_version (r_scope_id r) (r_id r) (r_state_version r)) (runs d))
              (start_run r aid lease_until now_iso actor) ''Run state conflict while claiming'') (\<lambda>_.
     bindA (insert_event_locked h 1 1 (r_scope_id r) (r_id r) RUN_STARTED
              (JObj [(''attempt_id'', JStr aid)]) actor now_iso) (\<lambda>_.
     ret \<lparr>ci_scope_id = r_scope_id r, ci_run_id = r_id r, ci_attempt_id = aid,
          ci_epoch = s_execution_epoch s + 1, ci_workspace_id = s_workspace_id s,
          ci_workspace_epoch = w_workspace_epoch w + 1, ci_user_binding = binding,
          ci_working_directory = (if w_project_path w = [] then None else Some (w_project_path w))\<rparr>)))))))"

definition claim_tx :: "os_env \<Rightarrow> host \<Rightarrow> string option \<Rightarrow> string \<Rightarrow> int \<Rightarrow> int option
    \<Rightarrow> claim_info option act" where
  "claim_tx os h scope worker_id lease_seconds now_arg =
     (let now = (case now_arg of None \<Rightarrow> h_clock h 0 | Some t \<Rightarrow> t); now_iso = iso now;
          lease_until = iso (now + lease_seconds * 1000000);
          actor = ''system:runtime/'' @ worker_id in
      transaction (bindA read_db (\<lambda>d.
        case next_claim now_iso scope d of
          None \<Rightarrow> ret None
        | Some rsw \<Rightarrow> bindA (claim_row os h worker_id now_iso lease_until actor rsw)
                        (\<lambda>ci. ret (Some ci)))))"

text \<open>A read after the transaction, for the result of the operation.\<close>

definition read_run :: "host \<Rightarrow> string \<Rightarrow> string \<Rightarrow> run_view option act" where
  "read_run h scope rid w = (get_run h w scope rid, w)"

definition claim_next_run :: "os_env \<Rightarrow> host \<Rightarrow> string option \<Rightarrow> string \<Rightarrow> int \<Rightarrow> int option
    \<Rightarrow> (run_view option \<times> claim_info) option act" where
  "claim_next_run os h scope worker_id lease_seconds now_arg =
     bindA (claim_tx os h scope worker_id lease_seconds now_arg) (\<lambda>c.
     case c of None \<Rightarrow> ret None
     | Some ci \<Rightarrow> bindA (read_run h (ci_scope_id ci) (ci_run_id ci)) (\<lambda>v. ret (Some (v, ci))))"

section \<open>Workspace revisions\<close>

definition new_revision ::
  "string \<Rightarrow> string \<Rightarrow> string option \<Rightarrow> workspace_commit \<Rightarrow> string \<Rightarrow> string \<Rightarrow> revision_row" where
  "new_revision scope wid parent c now actor =
     \<lparr>date_created = now, created_by = actor, date_updated = now, updated_by = actor,
      v_id = wc_revision_id c, v_scope_id = scope, v_workspace_id = wid, v_parent_id = parent,
      v_manifest_digest = wc_manifest_digest c, v_manifest_ref = wc_manifest_ref c,
      v_storage_ref = wc_storage_ref c\<rparr>"

definition lease_held :: "string \<Rightarrow> string \<Rightarrow> string option \<Rightarrow> string \<Rightarrow> int \<Rightarrow> workspace_row \<Rightarrow> bool" where
  "lease_held scope wid parent aid epoch x \<longleftrightarrow> w_scope_id x = scope \<and> w_id x = wid
     \<and> w_current_revision x = parent \<and> w_active_attempt_id x = Some aid
     \<and> w_workspace_epoch x = epoch"

definition record_workspace_revision ::
  "host \<Rightarrow> string \<Rightarrow> string \<Rightarrow> string \<Rightarrow> int \<Rightarrow> workspace_commit \<Rightarrow> string \<Rightarrow> unit act" where
  "record_workspace_revision h scope wid attempt_id epoch c actor =
     (let now = h_now h 0 in
      transaction (bindA read_db (\<lambda>d.
        case get_workspace scope wid d of
          None \<Rightarrow> raise (DomainError RUN_NOT_FOUND ''Workspace not found'')
        | Some w \<Rightarrow>
            if w_active_attempt_id w \<noteq> Some attempt_id \<or> w_workspace_epoch w \<noteq> epoch
            then raise (DomainError STATE_CONFLICT ''Workspace lease is stale'')
            else if \<not> falsy (w_lease_until w) \<and> the (w_lease_until w) \<le> now
            then raise (DomainError STATE_CONFLICT ''Workspace lease has expired'')
            else
              let parent = w_current_revision w in
              bindA (insert_db (insert_revision (new_revision scope wid parent c now actor))) (\<lambda>_.
              cas (\<lambda>d. rowcount (lease_held scope wid parent attempt_id epoch) (workspaces d))
                (update_workspaces (lease_held scope wid parent attempt_id epoch)
                   (\<lambda>x. touch now actor (x\<lparr>w_current_revision := Some (wc_revision_id c)\<rparr>)))
                ''Workspace revision CAS failed''))))"

section \<open>Changing the status\<close>

type_synonym json_dict = "(string \<times> json) list"

definition merge_dict :: "json_dict \<Rightarrow> json_dict \<Rightarrow> json_dict" where
  "merge_dict base extra = foldl (\<lambda>d (k, v). dict_set k v d) base extra"

definition error_json :: "json_dict option \<Rightarrow> json" where
  "error_json err = (case err of None \<Rightarrow> JNull | Some kvs \<Rightarrow> JObj kvs)"

text \<open>\<open>json.dumps(error, ..) if error else None\<close>\<close>

definition error_text :: "json_dict option \<Rightarrow> string option" where
  "error_text err = (case err of None \<Rightarrow> None
     | Some kvs \<Rightarrow> if kvs = [] then None else Some (dumps_sorted (JObj kvs)))"

definition coalesce :: "'a option \<Rightarrow> 'a option \<Rightarrow> 'a option" where
  "coalesce a b = (case a of None \<Rightarrow> b | Some x \<Rightarrow> Some x)"

record change =
  ch_target :: run_status
  ch_expected_version :: int
  ch_task_outcome :: "task_outcome option"
  ch_reason :: "string option"
  ch_output :: "string option"
  ch_error :: "json_dict option"
  ch_extra_data :: "json_dict option"

definition transition_data :: "change \<Rightarrow> transition_rec \<Rightarrow> string option \<Rightarrow> json_dict" where
  "transition_data ch t output_ref =
     (let after = tr_after t; status = (''status'', JStr (run_status_value (rs_status after)));
          data = (case ch_extra_data ch of None \<Rightarrow> [] | Some kvs \<Rightarrow> kvs) in
      if tr_event_type t = RUN_FINISHED then
        [status,
         (''task_outcome'', case rs_task_outcome after of None \<Rightarrow> JNull
                              | Some x \<Rightarrow> JStr (task_outcome_value x)),
         (''output_ref'', opt_str output_ref), (''error'', error_json (ch_error ch))]
      else if waiting (rs_status after) then
        merge_dict [status, (''reason'', opt_str (rs_wait_reason after))] data
      else if rs_status after = QUEUED then merge_dict [status] data
      else if rs_status after = RECOVERING then
        merge_dict [(''reason'', JStr (case ch_reason ch of None \<Rightarrow> '''' | Some x \<Rightarrow> x))] data
      else if rs_status after = CANCELLING then merge_dict [status] data
      else data)"

definition apply_change ::
  "change \<Rightarrow> run_state \<Rightarrow> object_ref option \<Rightarrow> string \<Rightarrow> string \<Rightarrow> run_row \<Rightarrow> run_row" where
  "apply_change ch after out now actor x = touch now actor
     (x\<lparr>r_status := rs_status after, r_state_version := rs_state_version after,
        r_task_outcome := rs_task_outcome after, r_wait_reason := rs_wait_reason after,
        r_output_ref := coalesce (map_option ob_ref out) (r_output_ref x),
        r_output_digest := coalesce (map_option ob_digest out) (r_output_digest x),
        r_output_chars := coalesce (map_option length (ch_output ch)) (r_output_chars x),
        r_error := coalesce (error_text (ch_error ch)) (r_error x)\<rparr>)"

text \<open>\<open>column = value\<close> on a nullable column and a nullable parameter: SQL compares nothing with NULL.\<close>

definition sql_eq :: "'a option \<Rightarrow> 'a option \<Rightarrow> bool" where
  "sql_eq a b \<longleftrightarrow> a \<noteq> None \<and> a = b"

text \<open>A Run that ended gives its leases back: four statements on a row \<open>r\<close> read before.\<close>

definition release_leases :: "run_row \<Rightarrow> string \<Rightarrow> string \<Rightarrow> string \<Rightarrow> string \<Rightarrow> db \<Rightarrow> db" where
  "release_leases r scope rid now actor d =
     update_runs (\<lambda>x. r_scope_id x = scope \<and> r_id x = rid)
       (\<lambda>x. touch now actor (x\<lparr>r_active_attempt_id := None\<rparr>))
    (update_workspaces (\<lambda>x. w_scope_id x = scope \<and> w_id x = r_workspace_id r
         \<and> sql_eq (w_active_attempt_id x) (r_active_attempt_id r))
       (\<lambda>x. touch now actor (x\<lparr>w_active_attempt_id := None, w_lease_until := None,
              w_heartbeat_at := None\<rparr>))
    (update_sessions (\<lambda>x. s_scope_id x = scope \<and> sql_eq (s_active_run_id x) (Some rid))
       (\<lambda>x. touch now actor (x\<lparr>s_active_run_id := None\<rparr>))
    (update_attempts (\<lambda>x. a_scope_id x = scope \<and> sql_eq (Some (a_id x)) (r_active_attempt_id r))
       (\<lambda>x. touch now actor (x\<lparr>a_ended_at := Some now\<rparr>)) d)))"

definition write_output :: "host \<Rightarrow> run_row \<Rightarrow> string \<Rightarrow> string option \<Rightarrow> db \<Rightarrow> object_ref option act" where
  "write_output h r rid output d = (case output of
     None \<Rightarrow> ret None
   | Some text \<Rightarrow> bindA (write_message h (base_for_session h (r_session_id r) d) (r_session_id r) rid
                    ''assistant'' text (r_run_seq r)) (\<lambda>ob. ret (Some ob)))"

text \<open>The rest of \<open>transition_run\<close>, once the transition \<open>t\<close> of the row \<open>r\<close> is allowed.\<close>

definition apply_transition :: "host \<Rightarrow> string \<Rightarrow> string \<Rightarrow> change \<Rightarrow> string \<Rightarrow> run_row
    \<Rightarrow> transition_rec \<Rightarrow> db \<Rightarrow> unit act" where
  "apply_transition h scope rid ch actor r t d =
     (let now = h_now h 0; after = tr_after t in
      if \<not> tr_changed t then ret () else
      bindA (write_output h r rid (ch_output ch) d) (\<lambda>out.
      bindA (mod_db (update_runs (run_at_version scope rid (ch_expected_version ch))
               (apply_change ch after out now actor))) (\<lambda>_.
      bindA (insert_event_locked h 0 1 scope rid (tr_event_type t)
               (JObj (transition_data ch t (map_option ob_ref out))) actor now) (\<lambda>_.
      if rs_status after \<in> TERMINAL_STATUSES
      then mod_db (release_leases r scope rid now actor)
      else ret ()))))"

definition transition_tx :: "host \<Rightarrow> string \<Rightarrow> string \<Rightarrow> change \<Rightarrow> string option \<Rightarrow> unit act" where
  "transition_tx h scope rid ch actor_ref =
     (let actor = (if falsy actor_ref then ''system:runtime/worker'' else the actor_ref) in
      transaction (bindA read_db (\<lambda>d.
        case select_one (\<lambda>r. r_scope_id r = scope \<and> r_id r = rid) (runs d) of
          None \<Rightarrow> raise (DomainError RUN_NOT_FOUND ''Run not found'')
        | Some r \<Rightarrow>
            bindA (liftE (transition (run_state_of r) (ch_target ch) (ch_expected_version ch)
                            (ch_task_outcome ch) (ch_reason ch)))
              (\<lambda>t. apply_transition h scope rid ch actor r t d))))"

definition transition_run ::
  "host \<Rightarrow> string \<Rightarrow> string \<Rightarrow> change \<Rightarrow> string option \<Rightarrow> run_view option act" where
  "transition_run h scope rid ch actor_ref =
     bindA (transition_tx h scope rid ch actor_ref) (\<lambda>_. read_run h scope rid)"

text \<open>The host of a second transaction: the UUIDs and clock readings that come after.\<close>

definition later :: "nat \<Rightarrow> nat \<Rightarrow> host \<Rightarrow> host" where
  "later u n h = h\<lparr>h_uuid := (\<lambda>k. h_uuid h (u + k)), h_clock := (\<lambda>k. h_clock h (n + k))\<rparr>"

definition cancel_change :: "run_status \<Rightarrow> int \<Rightarrow> change" where
  "cancel_change target v = \<lparr>ch_target = target, ch_expected_version = v, ch_task_outcome = None,
     ch_reason = None, ch_output = None, ch_error = None, ch_extra_data = None\<rparr>"

text \<open>\<open>int(current["state_version"])\<close>: there is no Run to subscript if it vanished.\<close>

definition view_version :: "run_view option \<Rightarrow> exn + int" where
  "view_version v = (case v of None \<Rightarrow> Inl (ValueErr ''TypeError'')
     | Some x \<Rightarrow> Inr (r_state_version (rv_row x)))"

definition read_run_state :: "host \<Rightarrow> string \<Rightarrow> string \<Rightarrow> run_state act" where
  "read_run_state h scope rid w = (get_run_state h w scope rid, w)"

definition cancel_run :: "host \<Rightarrow> string \<Rightarrow> string \<Rightarrow> string option \<Rightarrow> run_view option act" where
  "cancel_run h scope rid actor_ref =
     bindA (read_run_state h scope rid) (\<lambda>state.
     if rs_status state \<in> TERMINAL_STATUSES \<or> rs_status state = CANCELLING
     then read_run h scope rid
     else
       let actor = (if falsy actor_ref then Some ''system:runtime/api'' else actor_ref) in
       bindA (transition_run h scope rid (cancel_change CANCELLING (rs_state_version state)) actor)
         (\<lambda>current.
       bindA (liftE (view_version current)) (\<lambda>version.
       if rs_status state = QUEUED
       then transition_run (later 1 2 h) scope rid (cancel_change CANCELLED version) actor
       else ret current)))"

section \<open>Answering a waiting Run\<close>

definition transition_run_locked ::
  "host \<Rightarrow> nat \<Rightarrow> nat \<Rightarrow> string \<Rightarrow> string \<Rightarrow> change \<Rightarrow> string \<Rightarrow> unit act" where
  "transition_run_locked h u n scope rid ch actor = bindA read_db (\<lambda>d.
     case select_one (\<lambda>r. r_scope_id r = scope \<and> r_id r = rid) (runs d) of
       None \<Rightarrow> raise (DomainError RUN_NOT_FOUND ''Run not found'')
     | Some r \<Rightarrow>
         bindA (liftE (transition (run_state_of r) (ch_target ch) (ch_expected_version ch)
                         (ch_task_outcome ch) (ch_reason ch))) (\<lambda>t.
         if \<not> tr_changed t then ret () else
         let after = tr_after t in
         bindA (write_output h r rid (ch_output ch) d) (\<lambda>out.
         bindA (mod_db (update_runs (run_at_version scope rid (ch_expected_version ch))
                  (apply_change ch after out (h_now h n) actor))) (\<lambda>_.
         bindA (insert_event_locked h u (n + 2) scope rid (tr_event_type t)
                  (JObj (if rs_status after = QUEUED
                         then [(''status'', JStr (run_status_value (rs_status after)))] else []))
                  actor (h_now h (n + 1))) (\<lambda>_. ret ())))))"

definition this_pending :: "string \<Rightarrow> string \<Rightarrow> string \<Rightarrow> pending_row \<Rightarrow> bool" where
  "this_pending scope rid pid p \<longleftrightarrow> p_scope_id p = scope \<and> p_run_id p = rid \<and> p_id p = pid"

definition answer_pending ::
  "string \<Rightarrow> string \<Rightarrow> object_ref \<Rightarrow> string \<Rightarrow> string \<Rightarrow> string \<Rightarrow> pending_row \<Rightarrow> pending_row" where
  "answer_pending key digest ob resolved now actor p = touch now actor
     (p\<lparr>p_response_key := Some key, p_response_digest := Some digest,
        p_response_payload_ref := Some (ob_ref ob), p_response_payload_digest := Some (ob_digest ob),
        p_response_payload_bytes := Some (ob_bytes ob), p_resolved_at := Some resolved\<rparr>)"

text \<open>The update of one pending row, under \<open>UNIQUE(scope_id,run_id,response_key)\<close>.\<close>

definition answer_pendings :: "string \<Rightarrow> string \<Rightarrow> string \<Rightarrow> string \<Rightarrow> string \<Rightarrow> object_ref
    \<Rightarrow> string \<Rightarrow> string \<Rightarrow> string \<Rightarrow> db \<Rightarrow> exn + db" where
  "answer_pendings scope rid pid key digest ob resolved now actor d =
     (if list_ex (\<lambda>p. p_scope_id p = scope \<and> p_run_id p = rid \<and> p_id p \<noteq> pid
           \<and> p_response_key p = Some key) (pending_responses d)
      then Inl (IntegrityError ''pending_responses'')
      else Inr (update_pendings (this_pending scope rid pid)
                  (answer_pending key digest ob resolved now actor) d))"

definition response_json :: "string \<Rightarrow> json" where
  "response_json text = JObj [(''text'', JStr text)]"

definition respond_change :: "int \<Rightarrow> change" where
  "respond_change v = \<lparr>ch_target = QUEUED, ch_expected_version = v, ch_task_outcome = None,
     ch_reason = None, ch_output = None, ch_error = None, ch_extra_data = None\<rparr>"

definition respond_tx :: "host \<Rightarrow> string \<Rightarrow> string \<Rightarrow> string \<Rightarrow> string \<Rightarrow> int \<Rightarrow> string \<Rightarrow> string
    \<Rightarrow> unit act" where
  "respond_tx h scope rid pid key expected_version text actor =
     (let digest = fingerprint h (response_json text) in
      transaction (bindA read_db (\<lambda>d.
        case select_one (\<lambda>(p, r). this_pending scope rid pid p) (join_pr d) of
          None \<Rightarrow> raise (DomainError RUN_NOT_FOUND ''Pending response not found'')
        | Some (p, pr) \<Rightarrow>
            if \<not> falsy (p_resolved_at p) then
              (if p_response_key p = Some key \<and> p_response_digest p = Some digest
               then bindA (read_run h scope rid) (\<lambda>_. ret ())
               else raise (DomainError STATE_CONFLICT ''Response is already resolved''))
            else
              bindA (write_object_act h (base_for_session h (r_session_id pr) d)
                       (''sessions/'' @ r_session_id pr @ ''/pending/'' @ pid @ ''-response.json'')
                       (utf8_encode (dumps_sorted (response_json text)))) (\<lambda>ob.
              bindA (insert_db (answer_pendings scope rid pid key digest ob (h_now h 0) (h_now h 1)
                                  actor)) (\<lambda>_.
              bindA read_db (\<lambda>d1.
              case select_one (\<lambda>r. r_scope_id r = scope \<and> r_id r = rid) (runs d1) of
                None \<Rightarrow> raise (DomainError RUN_NOT_FOUND ''Run not found'')
              | Some r \<Rightarrow>
                  if r_state_version r \<noteq> expected_version
                  then raise (DomainError STATE_CONFLICT ''Expected state version mismatch'')
                  else transition_run_locked h 0 2 scope rid (respond_change expected_version) actor))))))"

definition respond_to_run :: "host \<Rightarrow> string \<Rightarrow> string \<Rightarrow> string \<Rightarrow> string \<Rightarrow> int \<Rightarrow> string \<Rightarrow> string
    \<Rightarrow> run_view option act" where
  "respond_to_run h scope rid pid key expected_version text actor =
     bindA (respond_tx h scope rid pid key expected_version text actor) (\<lambda>_. read_run h scope rid)"

end
