(* ===== verification/Tools.thy ===== *)
theory Tools
  imports Execution
begin

text \<open>
  The tool journal of \<open>SqliteRuntimeStore\<close>: one row per logical tool call of a Run, written
  before the tool runs and updated as it starts and ends, each step with its event
  (\<open>prepare_tool\<close>, \<open>start_tool\<close>, \<open>append_tool_output\<close>, \<open>finish_tool\<close>).
\<close>

record tool_call =
  tc_logical_call_key :: string
  tc_tool_ref :: string
  tc_params_digest :: string
  tc_input_ref :: string
  tc_execution_profile_ref :: string
  tc_input_summary :: string
  tc_workspace_id :: "string option"
  tc_input_revision_id :: "string option"
  tc_input_text :: string

text \<open>\<open>a or b\<close> on a nullable string.\<close>

definition or_else :: "string option \<Rightarrow> string option \<Rightarrow> string option" where
  "or_else a b = (if falsy a then b else a)"

definition new_tool :: "host \<Rightarrow> string \<Rightarrow> string \<Rightarrow> string \<Rightarrow> string \<Rightarrow> tool_call \<Rightarrow> string option
    \<Rightarrow> string \<Rightarrow> string \<Rightarrow> tool_row" where
  "new_tool h oid scope rid wid tc revision now actor =
     \<lparr>date_created = now, created_by = actor, date_updated = now, updated_by = actor,
      t_id = oid, t_scope_id = scope, t_run_id = rid, t_workspace_id = wid,
      t_logical_call_key = tc_logical_call_key tc, t_tool_ref = tc_tool_ref tc,
      t_params_digest = tc_params_digest tc, t_input_ref = tc_input_ref tc,
      t_input_digest = (if tc_input_text tc = [] then None
                        else Some (digest_text (h_sha256 h) (tc_input_text tc))),
      t_input_bytes = (if tc_input_text tc = [] then None
                       else Some (length (utf8_encode (tc_input_text tc)))),
      t_status = Tool_PREPARED, t_execution_profile_ref = tc_execution_profile_ref tc,
      t_external_operation_ref = None, t_process_ref = None, t_result_ref = None,
      t_input_revision_id = revision, t_result_revision_id = None, t_error = None\<rparr>"

definition join_rw :: "db \<Rightarrow> (run_row \<times> workspace_row) list" where
  "join_rw d = concat (map (\<lambda>r. map (Pair r) (filter (\<lambda>w. w_scope_id w = r_scope_id r
       \<and> w_id w = r_workspace_id r) (workspaces d))) (runs d))"

definition prepare_tool ::
  "host \<Rightarrow> string \<Rightarrow> string \<Rightarrow> tool_call \<Rightarrow> string \<Rightarrow> (string \<times> tool_status) act" where
  "prepare_tool h scope rid tc actor =
     (let now = h_now h 0 in
      transaction (bindA read_db (\<lambda>d.
        case select_one (\<lambda>t. t_scope_id t = scope \<and> t_run_id t = rid
               \<and> t_logical_call_key t = tc_logical_call_key tc) (tool_executions d) of
          Some t \<Rightarrow>
            if t_params_digest t \<noteq> tc_params_digest tc
            then raise (DomainError IDEMPOTENCY_CONFLICT
                   ''Tool call key is already bound to different parameters'')
            else ret (t_id t, t_status t)
        | None \<Rightarrow>
            (case select_one (\<lambda>(r, w). r_scope_id r = scope \<and> r_id r = rid) (join_rw d) of
               None \<Rightarrow> raise (DomainError RUN_NOT_FOUND ''Run not found'')
             | Some (r, w) \<Rightarrow>
                 let wid = the (or_else (tc_workspace_id tc) (Some (r_workspace_id r))) in
                 if wid \<noteq> r_workspace_id r
                 then raise (DomainError STATE_CONFLICT ''Tool workspace mismatch'')
                 else
                   let revision = or_else (tc_input_revision_id tc) (w_current_revision w);
                       oid = h_uuid h 0 in
                   bindA (insert_db (insert_tool (new_tool h oid scope rid wid tc revision now actor)))
                     (\<lambda>_.
                   bindA (insert_event_locked h 1 1 scope rid TOOL_PREPARED
                            (JObj [(''operation_id'', JStr oid), (''tool_ref'', JStr (tc_tool_ref tc)),
                                   (''input_summary'', JStr (tc_input_summary tc)),
                                   (''input'', JStr (tc_input_text tc))]) actor now) (\<lambda>_.
                   ret (oid, Tool_PREPARED)))))))"

definition find_tool :: "string \<Rightarrow> string \<Rightarrow> db \<Rightarrow> tool_row option" where
  "find_tool scope oid d = select_one (\<lambda>t. t_scope_id t = scope \<and> t_id t = oid) (tool_executions d)"

definition start_tool :: "host \<Rightarrow> string \<Rightarrow> string \<Rightarrow> string \<Rightarrow> unit act" where
  "start_tool h scope oid actor =
     (let now = h_now h 0 in
      transaction (bindA read_db (\<lambda>d.
        case find_tool scope oid d of
          None \<Rightarrow> raise (DomainError RUN_NOT_FOUND ''Tool execution not found'')
        | Some t \<Rightarrow>
            bindA (mod_db (update_tools (\<lambda>x. t_scope_id x = scope \<and> t_id x = oid)
                     (\<lambda>x. touch now actor (x\<lparr>t_status := Tool_RUNNING\<rparr>)))) (\<lambda>_.
            bindA (insert_event_locked h 0 1 scope (t_run_id t) TOOL_STARTED
                     (JObj [(''operation_id'', JStr oid), (''tool_ref'', JStr (t_tool_ref t))])
                     actor now) (\<lambda>_. ret ())))))"

definition append_tool_output ::
  "host \<Rightarrow> string \<Rightarrow> string \<Rightarrow> string \<Rightarrow> string \<Rightarrow> bool \<Rightarrow> string \<Rightarrow> unit act" where
  "append_tool_output h scope oid stream text truncated actor =
     transaction (bindA read_db (\<lambda>d.
       case find_tool scope oid d of
         None \<Rightarrow> raise (DomainError RUN_NOT_FOUND ''Tool execution not found'')
       | Some t \<Rightarrow>
           bindA (insert_event_locked h 0 1 scope (t_run_id t) TOOL_OUTPUT
                    (JObj [(''operation_id'', JStr oid), (''stream'', JStr stream),
                           (''text'', JStr text), (''truncated'', JBool truncated)])
                    actor (h_now h 0)) (\<lambda>_. ret ())))"

definition finish_tool_row :: "tool_status \<Rightarrow> string option \<Rightarrow> json_dict option \<Rightarrow> string option
    \<Rightarrow> string \<Rightarrow> string \<Rightarrow> tool_row \<Rightarrow> tool_row" where
  "finish_tool_row status result_ref err revision now actor x = touch now actor
     (x\<lparr>t_status := status, t_result_ref := result_ref, t_result_revision_id := revision,
        t_error := error_text err\<rparr>)"

text \<open>The update under the foreign key of \<open>result_revision_id\<close>.\<close>

definition finish_tools :: "string \<Rightarrow> string \<Rightarrow> tool_row \<Rightarrow> tool_status \<Rightarrow> string option
    \<Rightarrow> json_dict option \<Rightarrow> string option \<Rightarrow> string \<Rightarrow> string \<Rightarrow> db \<Rightarrow> exn + db" where
  "finish_tools scope oid t status result_ref err revision now actor d =
     (if \<not> revision_exists (t_scope_id t) (t_workspace_id t) revision d
      then Inl (IntegrityError ''tool_executions'')
      else Inr (update_tools (\<lambda>x. t_scope_id x = scope \<and> t_id x = oid)
                  (finish_tool_row status result_ref err revision now actor) d))"

definition finish_data :: "string \<Rightarrow> tool_status \<Rightarrow> json_dict option \<Rightarrow> json" where
  "finish_data oid status err = JObj (if status = Tool_UNKNOWN then
       [(''operation_id'', JStr oid),
        (''reason'', case err of None \<Rightarrow> JStr ''unknown''
           | Some kvs \<Rightarrow> (case map_of kvs ''message'' of None \<Rightarrow> JStr ''unknown'' | Some v \<Rightarrow> v))]
     else [(''operation_id'', JStr oid), (''status'', JStr (tool_status_value status)),
           (''error'', error_json err)])"

definition finish_tool :: "host \<Rightarrow> string \<Rightarrow> string \<Rightarrow> tool_status \<Rightarrow> string option
    \<Rightarrow> json_dict option \<Rightarrow> string \<Rightarrow> string option \<Rightarrow> unit act" where
  "finish_tool h scope oid status result_ref err actor revision =
     (let now = h_now h 0 in
      transaction (bindA read_db (\<lambda>d.
        case find_tool scope oid d of
          None \<Rightarrow> raise (DomainError RUN_NOT_FOUND ''Tool execution not found'')
        | Some t \<Rightarrow>
            bindA (insert_db (finish_tools scope oid t status result_ref err revision now actor)) (\<lambda>_.
            bindA (insert_event_locked h 0 1 scope (t_run_id t)
                     (if status = Tool_UNKNOWN then TOOL_UNKNOWN else TOOL_FINISHED)
                     (finish_data oid status err) actor now) (\<lambda>_. ret ())))))"

end
