(* ===== verification/Leases.thy ===== *)
theory Leases
  imports Contracts StateMachine
begin

text \<open>
  The lease protocol, abstractly: what the store promises about who may run. A Run holds a lease
  through its attempt; a Session and a workspace each have at most one holder. The steps are what
  the operations of the store may do to these facts; the invariant says that leases and holders
  match exactly, and two Runs that run never share a Session or a workspace. Theory \<open>StoreSafety\<close>
  shows that every operation of the store is one of these steps.
\<close>

record lease_run =
  lr_scope :: string
  lr_session :: string
  lr_workspace :: string
  lr_status :: run_status
  lr_attempt :: "string option"

record lease_session =
  ls_scope :: string
  ls_workspace :: string
  ls_active :: "string option"

record lease_workspace =
  lw_scope :: string
  lw_active :: "string option"

record lease_attempt =
  la_scope :: string
  la_run :: string
  la_ended :: bool

record lease_state =
  L_runs :: "string \<rightharpoonup> lease_run"
  L_sessions :: "string \<rightharpoonup> lease_session"
  L_workspaces :: "string \<rightharpoonup> lease_workspace"
  L_attempts :: "string \<rightharpoonup> lease_attempt"

definition no_leases :: lease_state where
  "no_leases = \<lparr>L_runs = Map.empty, L_sessions = Map.empty, L_workspaces = Map.empty,
     L_attempts = Map.empty\<rparr>"

text \<open>What a claim and the end of a leased Run do.\<close>

definition claimed :: "lease_state \<Rightarrow> string \<Rightarrow> lease_run \<Rightarrow> lease_session \<Rightarrow> lease_workspace \<Rightarrow> string
    \<Rightarrow> lease_state" where
  "claimed L rid r s w aid =
     \<lparr>L_runs = (L_runs L)(rid \<mapsto> r\<lparr>lr_status := RUNNING, lr_attempt := Some aid\<rparr>),
      L_sessions = (L_sessions L)(lr_session r \<mapsto> s\<lparr>ls_active := Some rid\<rparr>),
      L_workspaces = (L_workspaces L)(lr_workspace r \<mapsto> w\<lparr>lw_active := Some aid\<rparr>),
      L_attempts = (L_attempts L)(aid \<mapsto> \<lparr>la_scope = lr_scope r, la_run = rid, la_ended = False\<rparr>)\<rparr>"

definition finished :: "lease_state \<Rightarrow> string \<Rightarrow> lease_run \<Rightarrow> run_status \<Rightarrow> lease_session
    \<Rightarrow> lease_workspace \<Rightarrow> string \<Rightarrow> lease_attempt \<Rightarrow> lease_state" where
  "finished L rid r st s w aid a =
     \<lparr>L_runs = (L_runs L)(rid \<mapsto> r\<lparr>lr_status := st, lr_attempt := None\<rparr>),
      L_sessions = (L_sessions L)(lr_session r \<mapsto> s\<lparr>ls_active := None\<rparr>),
      L_workspaces = (L_workspaces L)(lr_workspace r \<mapsto> w\<lparr>lw_active := None\<rparr>),
      L_attempts = (L_attempts L)(aid \<mapsto> a\<lparr>la_ended := True\<rparr>)\<rparr>"

inductive lease_step :: "lease_state \<Rightarrow> lease_state \<Rightarrow> bool" where
  idle: "lease_step L L"
| add_workspace: "L_workspaces L wid = None \<Longrightarrow>
    lease_step L (L\<lparr>L_workspaces := (L_workspaces L)(wid \<mapsto> \<lparr>lw_scope = scope, lw_active = None\<rparr>)\<rparr>)"
| add_session: "L_sessions L sid = None \<Longrightarrow> L_workspaces L wid = Some w \<Longrightarrow> lw_scope w = scope \<Longrightarrow>
    lease_step L (L\<lparr>L_sessions := (L_sessions L)(sid \<mapsto>
      \<lparr>ls_scope = scope, ls_workspace = wid, ls_active = None\<rparr>)\<rparr>)"
| add_run: "L_runs L rid = None \<Longrightarrow> L_sessions L sid = Some s \<Longrightarrow> ls_scope s = scope \<Longrightarrow>
    ls_workspace s = wid \<Longrightarrow>
    lease_step L (L\<lparr>L_runs := (L_runs L)(rid \<mapsto> \<lparr>lr_scope = scope, lr_session = sid,
      lr_workspace = wid, lr_status = QUEUED, lr_attempt = None\<rparr>)\<rparr>)"
| claim: "L_runs L rid = Some r \<Longrightarrow> lr_status r = QUEUED \<Longrightarrow>
    L_sessions L (lr_session r) = Some s \<Longrightarrow> ls_active s = None \<Longrightarrow>
    L_workspaces L (lr_workspace r) = Some w \<Longrightarrow> lw_active w = None \<Longrightarrow> L_attempts L aid = None \<Longrightarrow>
    lease_step L (claimed L rid r s w aid)"
| change: "L_runs L rid = Some r \<Longrightarrow> st \<in> allowed_transitions (lr_status r) \<Longrightarrow> st \<noteq> RUNNING \<Longrightarrow>
    st \<notin> TERMINAL_STATUSES \<Longrightarrow>
    lease_step L (L\<lparr>L_runs := (L_runs L)(rid \<mapsto> r\<lparr>lr_status := st\<rparr>)\<rparr>)"
| finish_idle: "L_runs L rid = Some r \<Longrightarrow> st \<in> allowed_transitions (lr_status r) \<Longrightarrow>
    st \<in> TERMINAL_STATUSES \<Longrightarrow> lr_attempt r = None \<Longrightarrow>
    lease_step L (L\<lparr>L_runs := (L_runs L)(rid \<mapsto> r\<lparr>lr_status := st\<rparr>)\<rparr>)"
| finish: "L_runs L rid = Some r \<Longrightarrow> st \<in> allowed_transitions (lr_status r) \<Longrightarrow>
    st \<in> TERMINAL_STATUSES \<Longrightarrow> lr_attempt r = Some aid \<Longrightarrow>
    L_sessions L (lr_session r) = Some s \<Longrightarrow> L_workspaces L (lr_workspace r) = Some w \<Longrightarrow>
    L_attempts L aid = Some a \<Longrightarrow> lease_step L (finished L rid r st s w aid a)"

section \<open>The invariant\<close>

definition refs_ok :: "lease_state \<Rightarrow> bool" where
  "refs_ok L \<longleftrightarrow>
     (\<forall>rid r. L_runs L rid = Some r \<longrightarrow> (\<exists>s. L_sessions L (lr_session r) = Some s
        \<and> ls_scope s = lr_scope r \<and> ls_workspace s = lr_workspace r))
   \<and> (\<forall>sid s. L_sessions L sid = Some s \<longrightarrow> (\<exists>w. L_workspaces L (ls_workspace s) = Some w
        \<and> lw_scope w = ls_scope s))"

text \<open>A Run with an attempt is live, and holds exactly its Session, its workspace and that attempt.\<close>

definition holds :: "lease_state \<Rightarrow> string \<Rightarrow> lease_run \<Rightarrow> string \<Rightarrow> bool" where
  "holds L rid r aid \<longleftrightarrow> lr_status r \<notin> TERMINAL_STATUSES
     \<and> (\<exists>s. L_sessions L (lr_session r) = Some s \<and> ls_active s = Some rid)
     \<and> (\<exists>w. L_workspaces L (lr_workspace r) = Some w \<and> lw_active w = Some aid)
     \<and> (\<exists>a. L_attempts L aid = Some a \<and> la_scope a = lr_scope r \<and> la_run a = rid \<and> \<not> la_ended a)"

definition holders_ok :: "lease_state \<Rightarrow> bool" where
  "holders_ok L \<longleftrightarrow> (\<forall>rid r. L_runs L rid = Some r \<longrightarrow>
     (lr_status r = RUNNING \<longrightarrow> lr_attempt r \<noteq> None)
     \<and> (\<forall>aid. lr_attempt r = Some aid \<longrightarrow> holds L rid r aid))"

definition leases_ok :: "lease_state \<Rightarrow> bool" where
  "leases_ok L \<longleftrightarrow>
     (\<forall>sid s rid. L_sessions L sid = Some s \<longrightarrow> ls_active s = Some rid \<longrightarrow>
        (\<exists>r. L_runs L rid = Some r \<and> lr_session r = sid \<and> lr_attempt r \<noteq> None))
   \<and> (\<forall>wid w aid. L_workspaces L wid = Some w \<longrightarrow> lw_active w = Some aid \<longrightarrow>
        (\<exists>rid r. L_runs L rid = Some r \<and> lr_workspace r = wid \<and> lr_attempt r = Some aid))"

definition lease_inv :: "lease_state \<Rightarrow> bool" where
  "lease_inv L \<longleftrightarrow> refs_ok L \<and> holders_ok L \<and> leases_ok L"

lemma lease_inv_no_leases: "lease_inv no_leases"
  by (simp add: lease_inv_def refs_ok_def holders_ok_def leases_ok_def no_leases_def)

lemma refs_ok_frame:
  assumes "refs_ok L"
    and "\<And>rid r'. L_runs L' rid = Some r' \<Longrightarrow> \<exists>r. L_runs L rid = Some r \<and> lr_scope r' = lr_scope r
           \<and> lr_session r' = lr_session r \<and> lr_workspace r' = lr_workspace r"
    and "\<And>sid s. L_sessions L sid = Some s \<Longrightarrow> \<exists>s'. L_sessions L' sid = Some s'
           \<and> ls_scope s' = ls_scope s \<and> ls_workspace s' = ls_workspace s"
    and "\<And>sid s'. L_sessions L' sid = Some s' \<Longrightarrow> \<exists>s. L_sessions L sid = Some s
           \<and> ls_scope s' = ls_scope s \<and> ls_workspace s' = ls_workspace s"
    and "\<And>wid w. L_workspaces L wid = Some w \<Longrightarrow> \<exists>w'. L_workspaces L' wid = Some w'
           \<and> lw_scope w' = lw_scope w"
  shows "refs_ok L'"
  unfolding refs_ok_def
proof (intro conjI allI impI)
  fix rid r' assume "L_runs L' rid = Some r'"
  then obtain r where r: "L_runs L rid = Some r" "lr_scope r' = lr_scope r"
      "lr_session r' = lr_session r" "lr_workspace r' = lr_workspace r" using assms(2) by blast
  then obtain s where "L_sessions L (lr_session r) = Some s" "ls_scope s = lr_scope r"
      "ls_workspace s = lr_workspace r" using assms(1) unfolding refs_ok_def by blast
  then show "\<exists>s. L_sessions L' (lr_session r') = Some s \<and> ls_scope s = lr_scope r'
      \<and> ls_workspace s = lr_workspace r'" using r assms(3) by fastforce
next
  fix sid s' assume "L_sessions L' sid = Some s'"
  then obtain s where s: "L_sessions L sid = Some s" "ls_scope s' = ls_scope s"
      "ls_workspace s' = ls_workspace s" using assms(4) by blast
  then obtain w where "L_workspaces L (ls_workspace s) = Some w" "lw_scope w = ls_scope s"
    using assms(1) unfolding refs_ok_def by blast
  then show "\<exists>w. L_workspaces L' (ls_workspace s') = Some w \<and> lw_scope w = ls_scope s'"
    using s assms(5) by fastforce
qed

lemma refs_ok_step: "lease_step L L' \<Longrightarrow> refs_ok L \<Longrightarrow> refs_ok L'"
proof (induction rule: lease_step.induct)
  case (claim L rid r s w aid)
  then show ?case by (elim refs_ok_frame) (auto simp: claimed_def split: if_splits)
next
  case (change L rid r st)
  then show ?case by (elim refs_ok_frame) (auto split: if_splits)
next
  case (finish_idle L rid r st)
  then show ?case by (elim refs_ok_frame) (auto split: if_splits)
next
  case (finish L rid r st aid s w a)
  then show ?case by (elim refs_ok_frame) (auto simp: finished_def split: if_splits)
next
  case (add_workspace L wid scope)
  then show ?case unfolding refs_ok_def by (auto split: if_splits) force
next
  case (add_session L sid wid w scope)
  then show ?case unfolding refs_ok_def by (fastforce split: if_splits)
next
  case (add_run L rid sid s scope wid)
  then show ?case unfolding refs_ok_def by auto
qed simp

lemma holdersI:
  assumes "\<And>rid r. L_runs L rid = Some r \<Longrightarrow> lr_status r = RUNNING \<Longrightarrow> lr_attempt r \<noteq> None"
    and "\<And>rid r aid. L_runs L rid = Some r \<Longrightarrow> lr_attempt r = Some aid \<Longrightarrow> holds L rid r aid"
  shows "holders_ok L"
  using assms unfolding holders_ok_def by blast

lemma holderD: "holders_ok L \<Longrightarrow> L_runs L rid = Some r \<Longrightarrow> lr_attempt r = Some aid \<Longrightarrow> holds L rid r aid"
  and runningD: "holders_ok L \<Longrightarrow> L_runs L rid = Some r \<Longrightarrow> lr_status r = RUNNING \<Longrightarrow> lr_attempt r \<noteq> None"
  unfolding holders_ok_def by blast+

lemma holders_claim:
  assumes "holders_ok L" "L_sessions L (lr_session r) = Some s" "ls_active s = None"
    "L_workspaces L (lr_workspace r) = Some w" "lw_active w = None" "L_attempts L aid = None"
  shows "holders_ok (claimed L rid r s w aid)"
proof (rule holdersI)
  fix rid' r' assume "L_runs (claimed L rid r s w aid) rid' = Some r'" "lr_status r' = RUNNING"
  then show "lr_attempt r' \<noteq> None"
    using runningD [OF assms(1)] by (auto simp: claimed_def split: if_splits)
next
  fix rid' r' aid'
  assume r': "L_runs (claimed L rid r s w aid) rid' = Some r'" and a: "lr_attempt r' = Some aid'"
  show "holds (claimed L rid r s w aid) rid' r' aid'"
  proof (cases "rid' = rid")
    case True
    then show ?thesis using r' a by (auto simp: claimed_def holds_def TERMINAL_STATUSES_def)
  next
    case False
    then have "holds L rid' r' aid'" using r' holderD [OF assms(1) _ a] by (simp add: claimed_def)
    then show ?thesis using assms(2-) by (auto simp: claimed_def holds_def)
  qed
qed

lemma holders_finish:
  assumes "holders_ok L" "L_runs L rid = Some r" "lr_attempt r = Some aid"
    "L_workspaces L (lr_workspace r) = Some w" "L_attempts L aid = Some a"
    "L_sessions L (lr_session r) = Some s" "st \<in> TERMINAL_STATUSES"
  shows "holders_ok (finished L rid r st s w aid a)"
proof (rule holdersI)
  fix rid' r' assume "L_runs (finished L rid r st s w aid a) rid' = Some r'" "lr_status r' = RUNNING"
  then show "lr_attempt r' \<noteq> None" using runningD [OF assms(1)] assms(7)
    by (auto simp: finished_def TERMINAL_STATUSES_def split: if_splits)
next
  fix rid' r' aid'
  assume r': "L_runs (finished L rid r st s w aid a) rid' = Some r'" and a: "lr_attempt r' = Some aid'"
  have ne: "rid' \<noteq> rid" using r' a by (auto simp: finished_def)
  then have h': "holds L rid' r' aid'" using r' holderD [OF assms(1) _ a] by (simp add: finished_def)
  have h: "holds L rid r aid" by (rule holderD [OF assms(1-3)])
  have "aid' \<noteq> aid" using h h' ne unfolding holds_def by auto
  moreover have "lr_session r' \<noteq> lr_session r" using h h' ne unfolding holds_def by auto
  moreover have "lr_workspace r' \<noteq> lr_workspace r" using h h' \<open>aid' \<noteq> aid\<close> unfolding holds_def by auto
  ultimately show "holds (finished L rid r st s w aid a) rid' r' aid'"
    using h' by (simp add: finished_def holds_def)
qed

lemma allowed_not_terminal:
  "st \<in> allowed_transitions st' \<Longrightarrow> st' \<notin> TERMINAL_STATUSES"
  by (cases st') (auto simp: TERMINAL_STATUSES_def)

lemma holders_status:
  assumes "holders_ok L" "L_runs L rid = Some r" "st \<noteq> RUNNING"
    "st \<in> TERMINAL_STATUSES \<Longrightarrow> lr_attempt r = None"
  shows "holders_ok (L\<lparr>L_runs := (L_runs L)(rid \<mapsto> r\<lparr>lr_status := st\<rparr>)\<rparr>)" (is "holders_ok ?L")
proof (rule holdersI)
  fix rid' r' assume "L_runs ?L rid' = Some r'" "lr_status r' = RUNNING"
  then show "lr_attempt r' \<noteq> None"
    using assms(3) runningD [OF assms(1)] by (auto split: if_splits)
next
  fix rid' r' aid assume "L_runs ?L rid' = Some r'" "lr_attempt r' = Some aid"
  then show "holds ?L rid' r' aid"
    using holderD [OF assms(1,2)] holderD [OF assms(1), of rid' r' aid] assms(4)
    by (auto simp: holds_def split: if_splits)
qed

lemma holders_mono:
  assumes "holders_ok L" "L_runs L' = L_runs L"
    "\<And>k x. L_sessions L k = Some x \<Longrightarrow> L_sessions L' k = Some x"
    "\<And>k x. L_workspaces L k = Some x \<Longrightarrow> L_workspaces L' k = Some x"
    "L_attempts L' = L_attempts L"
  shows "holders_ok L'"
proof (rule holdersI)
  fix rid r assume "L_runs L' rid = Some r" "lr_status r = RUNNING"
  then show "lr_attempt r \<noteq> None" using runningD [OF assms(1)] assms(2) by simp
next
  fix rid r aid assume "L_runs L' rid = Some r" "lr_attempt r = Some aid"
  then have "holds L rid r aid" using holderD [OF assms(1)] assms(2) by simp
  then show "holds L' rid r aid" using assms(3-5) unfolding holds_def by fastforce
qed

lemma holders_ok_step: "lease_step L L' \<Longrightarrow> holders_ok L \<Longrightarrow> holders_ok L'"
proof (induction rule: lease_step.induct)
  case (add_workspace L wid scope)
  then show ?case by (elim holders_mono) auto
next
  case (add_session L sid wid w scope)
  then show ?case by (elim holders_mono) auto
next
  case (add_run L rid sid s scope wid)
  then show ?case unfolding holders_ok_def holds_def by auto
next
  case (claim L rid r s w aid)
  then show ?case by (intro holders_claim) auto
next
  case (change L rid r st)
  then show ?case by (intro holders_status) auto
next
  case (finish_idle L rid r st)
  then show ?case by (intro holders_status) (auto simp: TERMINAL_STATUSES_def)
next
  case (finish L rid r st aid s w a)
  then show ?case by (intro holders_finish)
qed simp

lemma leasesI:
  assumes "\<And>sid s rid. L_sessions L sid = Some s \<Longrightarrow> ls_active s = Some rid \<Longrightarrow>
        \<exists>r. L_runs L rid = Some r \<and> lr_session r = sid \<and> lr_attempt r \<noteq> None"
    and "\<And>wid w aid. L_workspaces L wid = Some w \<Longrightarrow> lw_active w = Some aid \<Longrightarrow>
        \<exists>rid r. L_runs L rid = Some r \<and> lr_workspace r = wid \<and> lr_attempt r = Some aid"
  shows "leases_ok L"
  using assms unfolding leases_ok_def by blast

lemma session_leaseD: "leases_ok L \<Longrightarrow> L_sessions L sid = Some s \<Longrightarrow> ls_active s = Some rid \<Longrightarrow>
    \<exists>r. L_runs L rid = Some r \<and> lr_session r = sid \<and> lr_attempt r \<noteq> None"
  and workspace_leaseD: "leases_ok L \<Longrightarrow> L_workspaces L wid = Some w \<Longrightarrow> lw_active w = Some aid \<Longrightarrow>
    \<exists>rid r. L_runs L rid = Some r \<and> lr_workspace r = wid \<and> lr_attempt r = Some aid"
  unfolding leases_ok_def by blast+

text \<open>Runs that keep their place and their attempt keep the leases matched.\<close>

lemma leases_keep:
  assumes "leases_ok L"
    "\<And>rid r. L_runs L rid = Some r \<Longrightarrow> lr_attempt r \<noteq> None \<Longrightarrow> \<exists>r'. L_runs L' rid = Some r'
       \<and> lr_session r' = lr_session r \<and> lr_workspace r' = lr_workspace r \<and> lr_attempt r' = lr_attempt r"
    "\<And>sid s rid. L_sessions L' sid = Some s \<Longrightarrow> ls_active s = Some rid \<Longrightarrow>
       \<exists>s0. L_sessions L sid = Some s0 \<and> ls_active s0 = Some rid"
    "\<And>wid w aid. L_workspaces L' wid = Some w \<Longrightarrow> lw_active w = Some aid \<Longrightarrow>
       \<exists>w0. L_workspaces L wid = Some w0 \<and> lw_active w0 = Some aid"
  shows "leases_ok L'"
proof (rule leasesI)
  fix sid s rid assume "L_sessions L' sid = Some s" "ls_active s = Some rid"
  then obtain s0 where "L_sessions L sid = Some s0" "ls_active s0 = Some rid" using assms(3) by blast
  then show "\<exists>r. L_runs L' rid = Some r \<and> lr_session r = sid \<and> lr_attempt r \<noteq> None"
    using session_leaseD [OF assms(1)] assms(2) by metis
next
  fix wid w aid assume "L_workspaces L' wid = Some w" "lw_active w = Some aid"
  then obtain w0 where "L_workspaces L wid = Some w0" "lw_active w0 = Some aid" using assms(4) by blast
  then show "\<exists>rid r. L_runs L' rid = Some r \<and> lr_workspace r = wid \<and> lr_attempt r = Some aid"
    using workspace_leaseD [OF assms(1)] assms(2) by (metis option.distinct(1))
qed

lemma leases_claim:
  assumes "leases_ok L" "L_runs L rid = Some r" "lr_attempt r = None"
  shows "leases_ok (claimed L rid r s w aid)"
proof (rule leasesI)
  fix sid s' rid' assume "L_sessions (claimed L rid r s w aid) sid = Some s'" "ls_active s' = Some rid'"
  then show "\<exists>r'. L_runs (claimed L rid r s w aid) rid' = Some r' \<and> lr_session r' = sid
      \<and> lr_attempt r' \<noteq> None"
    using session_leaseD [OF assms(1), of sid s' rid'] assms(2,3)
    by (auto simp: claimed_def split: if_splits)
next
  fix wid w' aid' assume w': "L_workspaces (claimed L rid r s w aid) wid = Some w'" "lw_active w' = Some aid'"
  show "\<exists>rid' r'. L_runs (claimed L rid r s w aid) rid' = Some r' \<and> lr_workspace r' = wid
      \<and> lr_attempt r' = Some aid'"
  proof (cases "wid = lr_workspace r")
    case True
    then show ?thesis using w' by (intro exI [of _ rid]) (auto simp: claimed_def)
  next
    case False
    then obtain rid' r' where "L_runs L rid' = Some r'" "lr_workspace r' = wid" "lr_attempt r' = Some aid'"
      using workspace_leaseD [OF assms(1), of wid w' aid'] w' by (auto simp: claimed_def)
    then show ?thesis using False assms(2) by (intro exI [of _ rid']) (auto simp: claimed_def)
  qed
qed

lemma leases_finish:
  assumes "leases_ok L" "L_runs L rid = Some r" "holds L rid r aid"
  shows "leases_ok (finished L rid r st s w aid a)"
proof (rule leasesI)
  fix sid s' rid' assume s': "L_sessions (finished L rid r st s w aid a) sid = Some s'"
    "ls_active s' = Some rid'"
  then have "L_sessions L sid = Some s'" "sid \<noteq> lr_session r"
    by (auto simp: finished_def split: if_splits)
  then obtain r' where "L_runs L rid' = Some r'" "lr_session r' = sid" "lr_attempt r' \<noteq> None"
    using session_leaseD [OF assms(1)] s'(2) by blast
  then show "\<exists>r'. L_runs (finished L rid r st s w aid a) rid' = Some r' \<and> lr_session r' = sid
      \<and> lr_attempt r' \<noteq> None"
    using \<open>sid \<noteq> lr_session r\<close> assms(2) by (auto simp: finished_def)
next
  fix wid w' aid' assume w': "L_workspaces (finished L rid r st s w aid a) wid = Some w'"
    "lw_active w' = Some aid'"
  then have "L_workspaces L wid = Some w'" "wid \<noteq> lr_workspace r"
    by (auto simp: finished_def split: if_splits)
  then obtain rid' r' where "L_runs L rid' = Some r'" "lr_workspace r' = wid" "lr_attempt r' = Some aid'"
    using workspace_leaseD [OF assms(1)] w'(2) by blast
  then show "\<exists>rid' r'. L_runs (finished L rid r st s w aid a) rid' = Some r' \<and> lr_workspace r' = wid
      \<and> lr_attempt r' = Some aid'"
    using \<open>wid \<noteq> lr_workspace r\<close> assms(2) by (intro exI [of _ rid']) (auto simp: finished_def)
qed

lemma leases_ok_step: "lease_step L L' \<Longrightarrow> holders_ok L \<Longrightarrow> leases_ok L \<Longrightarrow> leases_ok L'"
proof (induction rule: lease_step.induct)
  case (claim L rid r s w aid)
  have "lr_attempt r = None"
    using holderD [OF claim.prems(1) claim.hyps(1)] claim.hyps(3,4)
    by (cases "lr_attempt r") (auto simp: holds_def)
  then show ?case using claim by (intro leases_claim)
next
  case (finish L rid r st aid s w a)
  then show ?case by (intro leases_finish) (auto dest: holderD)
next
  case (change L rid r st)
  then show ?case by (elim leases_keep) auto
next
  case (finish_idle L rid r st)
  then show ?case by (elim leases_keep) auto
next
  case (add_workspace L wid scope)
  then show ?case by (elim leases_keep) (auto split: if_splits)
next
  case (add_session L sid wid w scope)
  then show ?case by (elim leases_keep) (auto split: if_splits)
next
  case (add_run L rid sid s scope wid)
  then show ?case by (elim leases_keep) auto
qed simp

theorem lease_inv_step: "lease_step L L' \<Longrightarrow> lease_inv L \<Longrightarrow> lease_inv L'"
  by (simp add: lease_inv_def refs_ok_step holders_ok_step leases_ok_step)

section \<open>What it gives\<close>

lemma one_runner_per_session:
  assumes "lease_inv L" "L_runs L i = Some r" "lr_attempt r \<noteq> None"
    "L_runs L j = Some q" "lr_attempt q \<noteq> None" "lr_session r = lr_session q"
  shows "i = j"
  using assms holderD [of L i r] holderD [of L j q] by (auto simp: lease_inv_def holds_def)

lemma one_runner_per_workspace:
  assumes "lease_inv L" "L_runs L i = Some r" "lr_attempt r \<noteq> None"
    "L_runs L j = Some q" "lr_attempt q \<noteq> None" "lr_workspace r = lr_workspace q"
  shows "i = j"
  using assms holderD [of L i r] holderD [of L j q] by (auto simp: lease_inv_def holds_def)

text \<open>A Run that still has an attempt blocks its own Session.\<close>

lemma holder_blocks_session:
  assumes "lease_inv L" "L_runs L i = Some r" "lr_attempt r \<noteq> None"
  shows "\<exists>s. L_sessions L (lr_session r) = Some s \<and> ls_active s = Some i"
  using assms holderD [of L i r] by (auto simp: lease_inv_def holds_def)

section \<open>Giving leases back\<close>

text \<open>
  The store gives leases back with four updates selected by their contents; on a state that
  satisfies the invariant they touch exactly what the Run held.
\<close>

definition released :: "lease_state \<Rightarrow> string \<Rightarrow> string \<Rightarrow> string \<Rightarrow> string option \<Rightarrow> lease_state" where
  "released L scope rid wid att =
     \<lparr>L_runs = (\<lambda>i. map_option (\<lambda>p. if lr_scope p = scope \<and> i = rid then p\<lparr>lr_attempt := None\<rparr> else p)
        (L_runs L i)),
      L_sessions = (\<lambda>i. map_option (\<lambda>p. if ls_scope p = scope \<and> ls_active p = Some rid
        then p\<lparr>ls_active := None\<rparr> else p) (L_sessions L i)),
      L_workspaces = (\<lambda>i. map_option (\<lambda>p. if lw_scope p = scope \<and> i = wid \<and> lw_active p \<noteq> None
        \<and> lw_active p = att then p\<lparr>lw_active := None\<rparr> else p) (L_workspaces L i)),
      L_attempts = (\<lambda>i. map_option (\<lambda>p. if la_scope p = scope \<and> Some i = att
        then p\<lparr>la_ended := True\<rparr> else p) (L_attempts L i))\<rparr>"

lemma released_holder:
  assumes inv: "lease_inv L" and r: "L_runs L rid = Some r" "lr_attempt r = Some aid"
    and L': "L' = L\<lparr>L_runs := (L_runs L)(rid \<mapsto> r\<lparr>lr_status := st\<rparr>)\<rparr>"
  shows "\<exists>s w a. L_sessions L (lr_session r) = Some s \<and> L_workspaces L (lr_workspace r) = Some w
    \<and> L_attempts L aid = Some a
    \<and> released L' (lr_scope r) rid (lr_workspace r) (Some aid) = finished L rid r st s w aid a"
proof -
  have h: "holds L rid r aid" using inv r by (simp add: lease_inv_def holderD)
  obtain s w a where s: "L_sessions L (lr_session r) = Some s" "ls_active s = Some rid"
    and w: "L_workspaces L (lr_workspace r) = Some w" "lw_active w = Some aid"
    and a: "L_attempts L aid = Some a" "la_scope a = lr_scope r" "la_run a = rid"
    using h unfolding holds_def by blast
  have scopes: "ls_scope s = lr_scope r" "lw_scope w = lr_scope r"
  proof -
    show ls: "ls_scope s = lr_scope r" using inv r(1) s(1) unfolding lease_inv_def refs_ok_def by fastforce
    have "ls_workspace s = lr_workspace r" using inv r(1) s(1) unfolding lease_inv_def refs_ok_def by fastforce
    then show "lw_scope w = lr_scope r"
      using inv s(1) w(1) ls unfolding lease_inv_def refs_ok_def by fastforce
  qed
  have only: "i = lr_session r" if "L_sessions L i = Some p" "ls_active p = Some rid" for i p
    using session_leaseD [of L i p rid] that inv r(1) by (auto simp: lease_inv_def)
  have "L_runs (released L' (lr_scope r) rid (lr_workspace r) (Some aid)) = L_runs (finished L rid r st s w aid a)"
    by (rule ext) (auto simp: released_def finished_def L' option.map_ident_strong)
  moreover have "L_sessions (released L' (lr_scope r) rid (lr_workspace r) (Some aid)) i
      = L_sessions (finished L rid r st s w aid a) i" for i
  proof (cases "i = lr_session r")
    case True then show ?thesis using s scopes by (simp add: released_def finished_def L')
  next
    case False
    then show ?thesis using only by (cases "L_sessions L i") (auto simp: released_def finished_def L')
  qed
  moreover have "L_workspaces (released L' (lr_scope r) rid (lr_workspace r) (Some aid)) i
      = L_workspaces (finished L rid r st s w aid a) i" for i
    using w scopes by (cases "L_workspaces L i") (auto simp: released_def finished_def L')
  moreover have "L_attempts (released L' (lr_scope r) rid (lr_workspace r) (Some aid)) i
      = L_attempts (finished L rid r st s w aid a) i" for i
    using a by (cases "L_attempts L i") (auto simp: released_def finished_def L')
  ultimately have "released L' (lr_scope r) rid (lr_workspace r) (Some aid) = finished L rid r st s w aid a"
    by (intro lease_state.equality) (auto simp: fun_eq_iff)
  then show ?thesis using s(1) w(1) a(1) by blast
qed

lemma released_idle:
  assumes "lease_inv L" "L_runs L rid = Some r" "lr_attempt r = None"
    and L': "L' = L\<lparr>L_runs := (L_runs L)(rid \<mapsto> r\<lparr>lr_status := st\<rparr>)\<rparr>"
  shows "released L' (lr_scope r) rid (lr_workspace r) None = L'"
proof -
  have "ls_active p \<noteq> Some rid" if "L_sessions L i = Some p" for i p
    using session_leaseD [of L i p rid] that assms(1-3) by (auto simp: lease_inv_def)
  then have "L_sessions (released L' (lr_scope r) rid (lr_workspace r) None) i = L_sessions L' i" for i
    by (cases "L_sessions L i") (auto simp: released_def L')
  moreover have "L_runs (released L' (lr_scope r) rid (lr_workspace r) None) i = L_runs L' i" for i
    using assms(3) by (cases "L_runs L i") (auto simp: released_def L')
  moreover have "L_workspaces (released L' (lr_scope r) rid (lr_workspace r) None) i = L_workspaces L' i"
    "L_attempts (released L' (lr_scope r) rid (lr_workspace r) None) i = L_attempts L' i" for i
    by (cases "L_workspaces L i"; cases "L_attempts L i"; auto simp: released_def L')+
  ultimately show ?thesis by (intro lease_state.equality) (auto simp: fun_eq_iff)
qed

end
