(* ===== verification/EventLog.thy ===== *)
theory EventLog
  imports Events
begin

text \<open>
  The event log, abstractly: the counters of Runs and Sessions and the list of events. Its steps
  are what the operations of the store may do to it, its invariant that each Run and each Session
  numbers its events 1, 2, 3 and so on without a gap. A reader that pages through a numbered log
  with a cursor is stated once, as a locale.
\<close>

record run_counter =
  g_scope :: string
  g_session :: string
  g_next :: int

record session_counter =
  c_scope :: string
  c_next :: int

record log_state =
  G_runs :: "string \<rightharpoonup> run_counter"
  G_sessions :: "string \<rightharpoonup> session_counter"
  G_events :: "event_row list"

inductive log_step :: "log_state \<Rightarrow> log_state \<Rightarrow> bool" where
  log_idle: "log_step G G"
| log_session: "G_sessions G sid = None \<Longrightarrow>
    log_step G (G\<lparr>G_sessions := (G_sessions G)(sid \<mapsto> \<lparr>c_scope = scope, c_next = 1\<rparr>)\<rparr>)"
| log_run: "G_runs G rid = None \<Longrightarrow> G_sessions G sid = Some s \<Longrightarrow> c_scope s = scope \<Longrightarrow>
    log_step G (G\<lparr>G_runs := (G_runs G)(rid \<mapsto> \<lparr>g_scope = scope, g_session = sid, g_next = 1\<rparr>)\<rparr>)"
| log_event: "G_runs G (e_run_id e) = Some r \<Longrightarrow> G_sessions G (e_session_id e) = Some s \<Longrightarrow>
    g_session r = e_session_id e \<Longrightarrow> g_scope r = e_scope_id e \<Longrightarrow>
    e_seq e = g_next r \<Longrightarrow> e_session_seq e = c_next s \<Longrightarrow>
    log_step G \<lparr>G_runs = (G_runs G)(e_run_id e \<mapsto> r\<lparr>g_next := g_next r + 1\<rparr>),
      G_sessions = (G_sessions G)(e_session_id e \<mapsto> s\<lparr>c_next := c_next s + 1\<rparr>),
      G_events = G_events G @ [e]\<rparr>"

definition run_log :: "string \<Rightarrow> event_row list \<Rightarrow> int list" where
  "run_log rid es = map e_seq (filter (\<lambda>e. e_run_id e = rid) es)"

definition session_log :: "string \<Rightarrow> event_row list \<Rightarrow> int list" where
  "session_log sid es = map e_session_seq (filter (\<lambda>e. e_session_id e = sid) es)"

definition events_known :: "log_state \<Rightarrow> bool" where
  "events_known G \<longleftrightarrow> (\<forall>e\<in>set (G_events G). \<exists>r. G_runs G (e_run_id e) = Some r
     \<and> g_scope r = e_scope_id e \<and> g_session r = e_session_id e)"

definition runs_known :: "log_state \<Rightarrow> bool" where
  "runs_known G \<longleftrightarrow> (\<forall>rid r. G_runs G rid = Some r \<longrightarrow>
     (\<exists>s. G_sessions G (g_session r) = Some s \<and> c_scope s = g_scope r))"

definition run_numbers :: "log_state \<Rightarrow> bool" where
  "run_numbers G \<longleftrightarrow> (\<forall>rid r. G_runs G rid = Some r \<longrightarrow>
     1 \<le> g_next r \<and> run_log rid (G_events G) = [1..g_next r - 1])"

definition session_numbers :: "log_state \<Rightarrow> bool" where
  "session_numbers G \<longleftrightarrow> (\<forall>sid s. G_sessions G sid = Some s \<longrightarrow>
     1 \<le> c_next s \<and> session_log sid (G_events G) = [1..c_next s - 1])"

definition log_inv :: "log_state \<Rightarrow> bool" where
  "log_inv G \<longleftrightarrow> events_known G \<and> runs_known G \<and> run_numbers G \<and> session_numbers G"

lemma run_log_snoc [simp]:
  "run_log rid (es @ [e]) = (if e_run_id e = rid then run_log rid es @ [e_seq e] else run_log rid es)"
  by (simp add: run_log_def)

lemma session_log_snoc [simp]: "session_log sid (es @ [e])
   = (if e_session_id e = sid then session_log sid es @ [e_session_seq e] else session_log sid es)"
  by (simp add: session_log_def)

lemma upto_snoc: "(1::int) \<le> n \<Longrightarrow> [1..n - 1] @ [n] = [1..n]"
  by (simp add: upto_rec2)

lemma events_known_step: "log_step G G' \<Longrightarrow> events_known G \<Longrightarrow> events_known G'"
proof (induction rule: log_step.induct)
  case (log_run G rid sid s scope)
  then show ?case unfolding events_known_def by auto
next
  case (log_event G e r s)
  then show ?case unfolding events_known_def by auto
qed (simp_all add: events_known_def)

lemma runs_known_step: "log_step G G' \<Longrightarrow> runs_known G \<Longrightarrow> runs_known G'"
proof (induction rule: log_step.induct)
  case (log_session G sid scope)
  then show ?case unfolding runs_known_def by fastforce
next
  case (log_run G rid sid s scope)
  then show ?case unfolding runs_known_def by auto
next
  case (log_event G e r s)
  show ?case unfolding runs_known_def
  proof (intro allI impI)
    fix rid q
    let ?G = "\<lparr>G_runs = (G_runs G)(e_run_id e \<mapsto> r\<lparr>g_next := g_next r + 1\<rparr>),
      G_sessions = (G_sessions G)(e_session_id e \<mapsto> s\<lparr>c_next := c_next s + 1\<rparr>),
      G_events = G_events G @ [e]\<rparr>"
    assume "G_runs ?G rid = Some q"
    then obtain q0 where "G_runs G rid = Some q0" "g_session q = g_session q0" "g_scope q = g_scope q0"
      using log_event.hyps(1) by (auto split: if_splits)
    then obtain s0 where "G_sessions G (g_session q) = Some s0" "c_scope s0 = g_scope q"
      using log_event.prems unfolding runs_known_def by metis
    then show "\<exists>s'. G_sessions ?G (g_session q) = Some s' \<and> c_scope s' = g_scope q"
      using log_event.hyps(2) by auto
  qed
qed simp

lemma fresh_run_log: "events_known G \<Longrightarrow> G_runs G rid = None \<Longrightarrow> run_log rid (G_events G) = []"
  unfolding events_known_def run_log_def by (fastforce simp: filter_empty_conv)

lemma fresh_session_log:
  "events_known G \<Longrightarrow> runs_known G \<Longrightarrow> G_sessions G sid = None \<Longrightarrow> session_log sid (G_events G) = []"
  unfolding events_known_def runs_known_def session_log_def by (fastforce simp: filter_empty_conv)

lemma run_numbers_step: "log_step G G' \<Longrightarrow> events_known G \<Longrightarrow> run_numbers G \<Longrightarrow> run_numbers G'"
proof (induction rule: log_step.induct)
  case (log_run G rid sid s scope)
  then show ?case using fresh_run_log [OF log_run.prems(1) log_run.hyps(1)]
    by (simp add: run_numbers_def)
next
  case (log_event G e r s)
  then have "1 \<le> g_next r" unfolding run_numbers_def by blast
  then have "0 \<le> g_next r" by simp
  with log_event show ?case by (simp add: run_numbers_def upto_snoc)
qed (simp_all add: run_numbers_def)

lemma session_numbers_step:
  "log_step G G' \<Longrightarrow> events_known G \<Longrightarrow> runs_known G \<Longrightarrow> session_numbers G \<Longrightarrow> session_numbers G'"
proof (induction rule: log_step.induct)
  case (log_session G sid scope)
  then show ?case using fresh_session_log [OF log_session.prems(1,2) log_session.hyps(1)]
    by (simp add: session_numbers_def)
next
  case (log_event G e r s)
  then have "1 \<le> c_next s" unfolding session_numbers_def by blast
  then have "0 \<le> c_next s" by simp
  with log_event show ?case by (simp add: session_numbers_def upto_snoc)
qed (simp_all add: session_numbers_def)

lemma log_inv_step: "log_step G G' \<Longrightarrow> log_inv G \<Longrightarrow> log_inv G'"
  using events_known_step runs_known_step run_numbers_step session_numbers_step by (auto simp: log_inv_def)

section \<open>Reading a log page by page\<close>

text \<open>
  A log whose entries are numbered, and pages of it after a cursor. The law: a page holds the next
  numbers in order, at most \<open>limit\<close> of them. The client reads pages until one comes back empty,
  with the number of the last entry it saw as its cursor, as the event stream of the transport and
  \<open>next_after\<close> of the store do.
\<close>

locale paged_log =
  fixes page :: "'s \<Rightarrow> int \<Rightarrow> nat \<Rightarrow> 'e list"
    and number :: "'e \<Rightarrow> int"
    and newest :: "'s \<Rightarrow> int"
    and ok :: "'s \<Rightarrow> bool"
  assumes page_law: "ok s \<Longrightarrow> 0 \<le> k \<Longrightarrow> map number (page s k limit) = take limit [k + 1..newest s]"
begin

fun drain :: "nat \<Rightarrow> 's \<Rightarrow> int \<Rightarrow> nat \<Rightarrow> 'e list" where
  "drain 0 s k limit = []"
| "drain (Suc fuel) s k limit =
     (let es = page s k limit in
      if es = [] then [] else es @ drain fuel s (number (last es)) limit)"

lemma page_empty_iff: "ok s \<Longrightarrow> 0 \<le> k \<Longrightarrow> 0 < limit \<Longrightarrow> page s k limit = [] \<longleftrightarrow> newest s \<le> k"
proof -
  assume a: "ok s" "0 \<le> k" "0 < limit"
  have "page s k limit = [] \<longleftrightarrow> take limit [k + 1..newest s] = []"
    using page_law [OF a(1,2), of limit] by (metis Nil_is_map_conv)
  also have "\<dots> \<longleftrightarrow> newest s \<le> k" using a(3) by simp
  finally show ?thesis .
qed

lemma take_upto: "take n [i..j] = [i..min j (i + int n - 1)]"
proof (induction n arbitrary: i)
  case 0 then show ?case by simp
next
  case (Suc n)
  then show ?case by (cases "i \<le> j") (simp_all add: upto.simps [of i] min_def algebra_simps)
qed

lemma page_last:
  assumes "ok s" "0 \<le> k" "page s k limit \<noteq> []"
  shows "k < number (last (page s k limit))"
    "map number (page s k limit) = [k + 1..number (last (page s k limit))]"
proof -
  let ?m = "min (newest s) (k + int limit)"
  have m: "map number (page s k limit) = [k + 1..?m]"
    using page_law [OF assms(1,2), of limit] by (simp add: take_upto)
  then have "k + 1 \<le> ?m" using assms(3) by (metis Nil_is_map_conv upto_Nil not_le)
  moreover from this have "number (last (page s k limit)) = ?m"
    using m assms(3) by (metis last_map last_snoc upto_rec2)
  ultimately show "k < number (last (page s k limit))"
    "map number (page s k limit) = [k + 1..number (last (page s k limit))]" using m by auto
qed

text \<open>Enough pages give every entry after the cursor once, in order.\<close>

lemma drain_complete:
  assumes "ok s" "0 \<le> k" "0 < limit" "nat (newest s - k) < fuel"
  shows "map number (drain fuel s k limit) = [k + 1..newest s]"
  using assms
proof (induction fuel arbitrary: k)
  case 0 then show ?case by simp
next
  case (Suc fuel)
  show ?case
  proof (cases "page s k limit = []")
    case True
    then show ?thesis using page_empty_iff [OF Suc.prems(1-3)] by (simp add: Let_def)
  next
    case False
    let ?n = "number (last (page s k limit))"
    note p = page_last [OF Suc.prems(1,2) False]
    have le: "?n \<le> newest s"
    proof -
      have "map number (page s k limit) = [k + 1..min (newest s) (k + int limit)]"
        using page_law [OF Suc.prems(1,2), of limit] by (simp add: take_upto)
      then have "set [k + 1..?n] = {k + 1..min (newest s) (k + int limit)}" using p(2) by simp
      then show ?thesis using p(1) by auto
    qed
    have "map number (drain fuel s ?n limit) = [?n + 1..newest s]"
      using Suc.IH [of ?n] Suc.prems p(1) le by auto
    moreover have "[k + 1..?n] @ [?n + 1..newest s] = [k + 1..newest s]"
      using p(1) le by (simp add: upto_split2 [of "k + 1" ?n "newest s"])
    ultimately show ?thesis using False p(2) by (simp add: Let_def)
  qed
qed

end

text \<open>Pages of a table whose numbers are 1, 2, 3, ..: the rows after the cursor, sorted, cut.\<close>

lemma sort_key_sorted: "sorted (map f xs) \<Longrightarrow> sort_key f xs = xs"
  by (simp add: sorted_sort_id sort_key_id_if_sorted)

end
