(* ===== verification/StoreSafety.thy ===== *)
theory StoreSafety
  imports Tools Leases EventLog
begin

text \<open>
  Every operation of the store refines the lease protocol of theory \<open>Leases\<close> and the event log of
  theory \<open>EventLog\<close>: the abstraction functions, the primitive changes of the database, one
  simulation lemma per transaction, and the invariants that follow for every history.
\<close>

section \<open>Abstraction\<close>

definition lrun_of :: "run_row \<Rightarrow> lease_run" where
  "lrun_of r = \<lparr>lr_scope = r_scope_id r, lr_session = r_session_id r, lr_workspace = r_workspace_id r,
     lr_status = r_status r, lr_attempt = r_active_attempt_id r\<rparr>"

definition lsession_of :: "session_row \<Rightarrow> lease_session" where
  "lsession_of s = \<lparr>ls_scope = s_scope_id s, ls_workspace = s_workspace_id s, ls_active = s_active_run_id s\<rparr>"

definition lworkspace_of :: "workspace_row \<Rightarrow> lease_workspace" where
  "lworkspace_of w = \<lparr>lw_scope = w_scope_id w, lw_active = w_active_attempt_id w\<rparr>"

definition lattempt_of :: "attempt_row \<Rightarrow> lease_attempt" where
  "lattempt_of a = \<lparr>la_scope = a_scope_id a, la_run = a_run_id a, la_ended = (a_ended_at a \<noteq> None)\<rparr>"

definition lease_of :: "db \<Rightarrow> lease_state" where
  "lease_of d = \<lparr>L_runs = table_map r_id lrun_of (runs d),
     L_sessions = table_map s_id lsession_of (sessions d),
     L_workspaces = table_map w_id lworkspace_of (workspaces d),
     L_attempts = table_map a_id lattempt_of (run_attempts d)\<rparr>"

definition gcounter_of :: "run_row \<Rightarrow> run_counter" where
  "gcounter_of r = \<lparr>g_scope = r_scope_id r, g_session = r_session_id r, g_next = r_next_event_seq r\<rparr>"

definition ccounter_of :: "session_row \<Rightarrow> session_counter" where
  "ccounter_of s = \<lparr>c_scope = s_scope_id s, c_next = s_next_event_seq s\<rparr>"

definition log_of :: "db \<Rightarrow> log_state" where
  "log_of d = \<lparr>G_runs = table_map r_id gcounter_of (runs d),
     G_sessions = table_map s_id ccounter_of (sessions d), G_events = run_events d\<rparr>"

text \<open>The primary keys and the unique constraints the lookups of the operations rely on.\<close>

definition run_key :: "run_row \<Rightarrow> string \<times> string \<times> string" where
  "run_key r = (r_scope_id r, r_session_id r, r_idempotency_key r)"

definition request_key :: "session_request_row \<Rightarrow> string \<times> string" where
  "request_key q = (q_scope_id q, q_idempotency_key q)"

definition keys_ok :: "db \<Rightarrow> bool" where
  "keys_ok d \<longleftrightarrow> distinct (map r_id (runs d)) \<and> distinct (map s_id (sessions d))
     \<and> distinct (map w_id (workspaces d)) \<and> distinct (map a_id (run_attempts d))
     \<and> distinct (map run_key (runs d)) \<and> distinct (map request_key (session_requests d))"

definition store_ok :: "db \<Rightarrow> bool" where
  "store_ok d \<longleftrightarrow> keys_ok d \<and> lease_inv (lease_of d) \<and> log_inv (log_of d)"

text \<open>What no operation changes once it is written: the identity of Runs, Sessions and Session
  requests, the events and the workspace revisions. These tables only grow at their end.\<close>

definition run_ident :: "run_row \<Rightarrow> string \<times> string \<times> string \<times> string \<times> int \<times> string \<times> string \<times> string" where
  "run_ident r = (r_id r, r_scope_id r, r_session_id r, r_workspace_id r, r_run_seq r,
     r_idempotency_key r, r_request_fingerprint r, r_input_ref r)"

definition session_ident :: "session_row \<Rightarrow> string \<times> string \<times> string" where
  "session_ident s = (s_id s, s_scope_id s, s_workspace_id s)"

definition grows :: "db \<Rightarrow> db \<Rightarrow> bool" where
  "grows d d' \<longleftrightarrow> (\<exists>xs. map run_ident (runs d') = map run_ident (runs d) @ xs)
     \<and> (\<exists>xs. map session_ident (sessions d') = map session_ident (sessions d) @ xs)
     \<and> (\<exists>xs. session_requests d' = session_requests d @ xs)
     \<and> (\<exists>xs. run_events d' = run_events d @ xs)
     \<and> (\<exists>xs. workspace_revisions d' = workspace_revisions d @ xs)"

lemma grows_refl [simp]: "grows d d"
  by (simp add: grows_def)

lemma grows_trans: "grows a b \<Longrightarrow> grows b c \<Longrightarrow> grows a c"
  unfolding grows_def by (elim conjE exE) (auto simp del: map_append)

text \<open>What a transaction may do to a database: keep the keys, take steps of both protocols, grow.\<close>

definition sim :: "db \<Rightarrow> db \<Rightarrow> bool" where
  "sim d d' \<longleftrightarrow> keys_ok d' \<and> lease_step\<^sup>*\<^sup>* (lease_of d) (lease_of d')
     \<and> log_step\<^sup>*\<^sup>* (log_of d) (log_of d') \<and> grows d d'"

lemma sim_refl: "keys_ok d \<Longrightarrow> sim d d"
  by (simp add: sim_def)

lemma sim_trans: "sim a b \<Longrightarrow> sim b c \<Longrightarrow> sim a c"
  unfolding sim_def by (blast intro: rtranclp_trans grows_trans)

lemma sim_eq: "keys_ok d' \<Longrightarrow> lease_of d' = lease_of d \<Longrightarrow> log_of d' = log_of d \<Longrightarrow> grows d d' \<Longrightarrow> sim d d'"
  by (simp add: sim_def)

lemma lease_inv_steps: "lease_step\<^sup>*\<^sup>* L L' \<Longrightarrow> lease_inv L \<Longrightarrow> lease_inv L'"
  by (induction rule: rtranclp_induct) (auto intro: lease_inv_step)

lemma log_inv_steps: "log_step\<^sup>*\<^sup>* G G' \<Longrightarrow> log_inv G \<Longrightarrow> log_inv G'"
  by (induction rule: rtranclp_induct) (auto intro: log_inv_step)

lemma sim_store_ok: "sim d d' \<Longrightarrow> store_ok d \<Longrightarrow> store_ok d'"
  using lease_inv_steps log_inv_steps by (auto simp: sim_def store_ok_def)

lemma store_ok_empty: "store_ok empty_db"
proof -
  have "lease_of empty_db = no_leases"
    by (simp add: lease_of_def no_leases_def empty_db_def table_map_def fun_eq_iff)
  moreover have "log_inv (log_of empty_db)"
    by (simp add: log_of_def log_inv_def empty_db_def table_map_def events_known_def
        runs_known_def run_numbers_def session_numbers_def)
  ultimately show ?thesis
    by (simp add: store_ok_def lease_inv_no_leases keys_ok_def empty_db_def)
qed

section \<open>Primitive changes\<close>

lemma update_simps [simp]:
  "runs (update_runs P f d) = update_where P f (runs d)"
  "sessions (update_runs P f d) = sessions d" "workspaces (update_runs P f d) = workspaces d"
  "run_attempts (update_runs P f d) = run_attempts d" "run_events (update_runs P f d) = run_events d"
  "runs (update_sessions P2 f2 d) = runs d"
  "sessions (update_sessions P2 f2 d) = update_where P2 f2 (sessions d)"
  "workspaces (update_sessions P2 f2 d) = workspaces d"
  "run_attempts (update_sessions P2 f2 d) = run_attempts d"
  "run_events (update_sessions P2 f2 d) = run_events d"
  "runs (update_workspaces P3 f3 d) = runs d"
  "sessions (update_workspaces P3 f3 d) = sessions d"
  "workspaces (update_workspaces P3 f3 d) = update_where P3 f3 (workspaces d)"
  "run_attempts (update_workspaces P3 f3 d) = run_attempts d"
  "run_events (update_workspaces P3 f3 d) = run_events d"
  "runs (update_attempts P4 f4 d) = runs d"
  "sessions (update_attempts P4 f4 d) = sessions d"
  "workspaces (update_attempts P4 f4 d) = workspaces d"
  "run_attempts (update_attempts P4 f4 d) = update_where P4 f4 (run_attempts d)"
  "run_events (update_attempts P4 f4 d) = run_events d"
  "runs (update_tools P5 f5 d) = runs d"
  "sessions (update_tools P5 f5 d) = sessions d"
  "workspaces (update_tools P5 f5 d) = workspaces d"
  "run_attempts (update_tools P5 f5 d) = run_attempts d"
  "run_events (update_tools P5 f5 d) = run_events d"
  "runs (update_pendings P6 f6 d) = runs d"
  "sessions (update_pendings P6 f6 d) = sessions d"
  "workspaces (update_pendings P6 f6 d) = workspaces d"
  "run_attempts (update_pendings P6 f6 d) = run_attempts d"
  "run_events (update_pendings P6 f6 d) = run_events d"
  by (simp_all add: update_runs_def update_sessions_def update_workspaces_def update_attempts_def
      update_tools_def update_pendings_def)

lemma update_other_simps [simp]:
  "session_requests (update_runs P f d) = session_requests d"
  "workspace_revisions (update_runs P f d) = workspace_revisions d"
  "session_requests (update_sessions P2 f2 d) = session_requests d"
  "workspace_revisions (update_sessions P2 f2 d) = workspace_revisions d"
  "session_requests (update_workspaces P3 f3 d) = session_requests d"
  "workspace_revisions (update_workspaces P3 f3 d) = workspace_revisions d"
  "session_requests (update_attempts P4 f4 d) = session_requests d"
  "workspace_revisions (update_attempts P4 f4 d) = workspace_revisions d"
  "session_requests (update_tools P5 f5 d) = session_requests d"
  "workspace_revisions (update_tools P5 f5 d) = workspace_revisions d"
  "session_requests (update_pendings P6 f6 d) = session_requests d"
  "workspace_revisions (update_pendings P6 f6 d) = workspace_revisions d"
  by (simp_all add: update_runs_def update_sessions_def update_workspaces_def update_attempts_def
      update_tools_def update_pendings_def)

lemma grows_update [simp]:
  "(\<And>x. P x \<Longrightarrow> run_ident (f x) = run_ident x) \<Longrightarrow> grows d0 (update_runs P f d) = grows d0 d"
  "(\<And>x. P2 x \<Longrightarrow> session_ident (f2 x) = session_ident x) \<Longrightarrow> grows d0 (update_sessions P2 f2 d) = grows d0 d"
  "grows d0 (update_workspaces P3 f3 d) = grows d0 d"
  "grows d0 (update_attempts P4 f4 d) = grows d0 d"
  "grows d0 (update_tools P5 f5 d) = grows d0 d"
  "grows d0 (update_pendings P6 f6 d) = grows d0 d"
  by (simp_all add: grows_def map_update_where_key)

lemma keys_update [simp]:
  "(\<And>x. P x \<Longrightarrow> run_ident (f x) = run_ident x) \<Longrightarrow> keys_ok (update_runs P f d) = keys_ok d"
  "(\<And>x. P2 x \<Longrightarrow> s_id (f2 x) = s_id x) \<Longrightarrow> keys_ok (update_sessions P2 f2 d) = keys_ok d"
  "(\<And>x. P3 x \<Longrightarrow> w_id (f3 x) = w_id x) \<Longrightarrow> keys_ok (update_workspaces P3 f3 d) = keys_ok d"
  "(\<And>x. P4 x \<Longrightarrow> a_id (f4 x) = a_id x) \<Longrightarrow> keys_ok (update_attempts P4 f4 d) = keys_ok d"
  "keys_ok (update_tools P5 f5 d) = keys_ok d"
  "keys_ok (update_pendings P6 f6 d) = keys_ok d"
  by (simp_all add: keys_ok_def map_update_where_key run_ident_def run_key_def)

text \<open>Updates that change nothing either protocol sees.\<close>

lemma lease_of_same [simp]:
  "(\<And>x. P x \<Longrightarrow> r_id (f x) = r_id x \<and> lrun_of (f x) = lrun_of x) \<Longrightarrow>
     lease_of (update_runs P f d) = lease_of d"
  "(\<And>x. P2 x \<Longrightarrow> s_id (f2 x) = s_id x \<and> lsession_of (f2 x) = lsession_of x) \<Longrightarrow>
     lease_of (update_sessions P2 f2 d) = lease_of d"
  "(\<And>x. P3 x \<Longrightarrow> w_id (f3 x) = w_id x \<and> lworkspace_of (f3 x) = lworkspace_of x) \<Longrightarrow>
     lease_of (update_workspaces P3 f3 d) = lease_of d"
  "lease_of (update_tools P5 f5 d) = lease_of d"
  "lease_of (update_pendings P6 f6 d) = lease_of d"
  by (simp_all add: lease_of_def table_map_same)

lemma log_of_same [simp]:
  "(\<And>x. P x \<Longrightarrow> r_id (f x) = r_id x \<and> gcounter_of (f x) = gcounter_of x) \<Longrightarrow>
     log_of (update_runs P f d) = log_of d"
  "(\<And>x. P2 x \<Longrightarrow> s_id (f2 x) = s_id x \<and> ccounter_of (f2 x) = ccounter_of x) \<Longrightarrow>
     log_of (update_sessions P2 f2 d) = log_of d"
  "log_of (update_workspaces P3 f3 d) = log_of d"
  "log_of (update_attempts P4 f4 d) = log_of d"
  "log_of (update_tools P5 f5 d) = log_of d"
  "log_of (update_pendings P6 f6 d) = log_of d"
  by (simp_all add: log_of_def table_map_same)

lemma touch_simps [simp]:
  "r_id (touch n a r) = r_id r" "lrun_of (touch n a r) = lrun_of r" "gcounter_of (touch n a r) = gcounter_of r"
  "s_id (touch n a s) = s_id s" "lsession_of (touch n a s) = lsession_of s"
  "ccounter_of (touch n a s) = ccounter_of s"
  "w_id (touch n a w) = w_id w" "lworkspace_of (touch n a w) = lworkspace_of w"
  "a_id (touch n a t) = a_id t" "lattempt_of (touch n a t) = lattempt_of t"
  "run_ident (touch n a r) = run_ident r" "session_ident (touch n a s) = session_ident s"
  by (simp_all add: touch_def lrun_of_def gcounter_of_def lsession_of_def ccounter_of_def
      lworkspace_of_def lattempt_of_def run_ident_def session_ident_def)

lemma clash_iff: "clash k x xs \<longleftrightarrow> (\<exists>y\<in>set xs. k y = k x)"
  by (auto simp: clash_def list_ex_iff)

lemma key_lookup:
  "keys_ok d \<Longrightarrow> r \<in> set (runs d) \<Longrightarrow> table_map r_id g1 (runs d) (r_id r) = Some (g1 r)"
  "keys_ok d \<Longrightarrow> s \<in> set (sessions d) \<Longrightarrow> table_map s_id g2 (sessions d) (s_id s) = Some (g2 s)"
  "keys_ok d \<Longrightarrow> w \<in> set (workspaces d) \<Longrightarrow> table_map w_id g3 (workspaces d) (w_id w) = Some (g3 w)"
  "keys_ok d \<Longrightarrow> a \<in> set (run_attempts d) \<Longrightarrow> table_map a_id g4 (run_attempts d) (a_id a) = Some (g4 a)"
  by (auto simp: keys_ok_def intro: table_mapI)

lemma key_update:
  assumes "keys_ok d"
  shows "r \<in> set (runs d) \<Longrightarrow> P r \<Longrightarrow> (\<And>x. P x \<Longrightarrow> r_id x = r_id r) \<Longrightarrow> (\<And>x. P x \<Longrightarrow> r_id (f x) = r_id x) \<Longrightarrow>
      table_map r_id g1 (update_where P f (runs d)) = (table_map r_id g1 (runs d))(r_id r \<mapsto> g1 (f r))"
    "s \<in> set (sessions d) \<Longrightarrow> P2 s \<Longrightarrow> (\<And>x. x \<in> set (sessions d) \<Longrightarrow> P2 x \<Longrightarrow> s_id x = s_id s) \<Longrightarrow>
      (\<And>x. P2 x \<Longrightarrow> s_id (f2 x) = s_id x) \<Longrightarrow> table_map s_id g2 (update_where P2 f2 (sessions d))
        = (table_map s_id g2 (sessions d))(s_id s \<mapsto> g2 (f2 s))"
    "w \<in> set (workspaces d) \<Longrightarrow> P3 w \<Longrightarrow> (\<And>x. P3 x \<Longrightarrow> w_id x = w_id w) \<Longrightarrow>
      (\<And>x. P3 x \<Longrightarrow> w_id (f3 x) = w_id x) \<Longrightarrow> table_map w_id g3 (update_where P3 f3 (workspaces d))
        = (table_map w_id g3 (workspaces d))(w_id w \<mapsto> g3 (f3 w))"
    "a \<in> set (run_attempts d) \<Longrightarrow> P4 a \<Longrightarrow> (\<And>x. P4 x \<Longrightarrow> a_id x = a_id a) \<Longrightarrow>
      (\<And>x. P4 x \<Longrightarrow> a_id (f4 x) = a_id x) \<Longrightarrow> table_map a_id g4 (update_where P4 f4 (run_attempts d))
        = (table_map a_id g4 (run_attempts d))(a_id a \<mapsto> g4 (f4 a))"
  using assms unfolding keys_ok_def by (intro table_map_update_one; blast)+

section \<open>Appending an event\<close>

text \<open>What \<open>_insert_event_locked\<close> does to the database when it returns.\<close>

definition event_added :: "string \<Rightarrow> string \<Rightarrow> event_type \<Rightarrow> db \<Rightarrow> db \<Rightarrow> bool" where
  "event_added scope rid et d d' \<longleftrightarrow> (\<exists>r s e now actor. (r, s) \<in> set (join_rs d)
     \<and> r_scope_id r = scope \<and> r_id r = rid \<and> e_scope_id e = scope \<and> e_run_id e = rid
     \<and> e_session_id e = r_session_id r \<and> e_seq e = r_next_event_seq r
     \<and> e_session_seq e = s_next_event_seq s \<and> e_type e = et \<and> record_event e now actor d = Inr d')"

lemma wp_event:
  assumes "\<And>d' ne fs. event_added scope rid et (wdb w) d' \<Longrightarrow> Q ne (w\<lparr>wfiles := fs, wdb := d'\<rparr>)"
  shows "wp (insert_event_locked h u n scope rid et data actor occurred) Q w"
proof (cases "select_one (\<lambda>(r, s). r_scope_id r = scope \<and> r_id r = rid) (join_rs (wdb w))")
  case None
  then show ?thesis by (simp add: insert_event_locked_def wp_simps)
next
  case (Some p)
  obtain r s where p: "p = (r, s)" by (cases p)
  have j: "(r, s) \<in> set (join_rs (wdb w))" "r_scope_id r = scope" "r_id r = rid"
    using select_one_SomeD [OF Some] p by auto
  have added: "event_added scope rid et (wdb w) d'"
    if "record_event (event_row_of eid scope rid (r_session_id r) (r_next_event_seq r)
          (s_next_event_seq s) et c occurred now actor) now actor (wdb w) = Inr d'" for eid c now d'
  proof -
    let ?e = "event_row_of eid scope rid (r_session_id r) (r_next_event_seq r)
          (s_next_event_seq s) et c occurred now actor"
    have "e_scope_id ?e = scope" "e_run_id ?e = rid" "e_session_id ?e = r_session_id r"
      "e_seq ?e = r_next_event_seq r" "e_session_seq ?e = s_next_event_seq s" "e_type ?e = et"
      by (simp_all add: event_row_of_def)
    then show ?thesis unfolding event_added_def using j that by blast
  qed
  show ?thesis
    by (simp add: insert_event_locked_def wp_simps Some p Let_def) (auto intro!: assms added)
qed

lemma join_rsD: "(r, s) \<in> set (join_rs d) \<Longrightarrow> r \<in> set (runs d) \<and> s \<in> set (sessions d)
    \<and> s_scope_id s = r_scope_id r \<and> s_id s = r_session_id r"
  by (auto simp: join_rs_def)

lemma join_swD: "(s, w) \<in> set (join_sw d) \<Longrightarrow> s \<in> set (sessions d) \<and> w \<in> set (workspaces d)
    \<and> w_scope_id w = s_scope_id s \<and> w_id w = s_workspace_id s"
  by (auto simp: join_sw_def)

lemma join_rswD: "(r, s, w) \<in> set (join_rsw d) \<Longrightarrow> (r, s) \<in> set (join_rs d) \<and> (s, w) \<in> set (join_sw d)"
  by (fastforce simp: join_rsw_def join_sw_def join_rs_def)

lemma insert_event_simps:
  assumes "insert_event e d = Inr d'"
  shows "runs d' = runs d" "sessions d' = sessions d" "workspaces d' = workspaces d"
    "run_attempts d' = run_attempts d" "run_events d' = run_events d @ [e]"
    "tool_executions d' = tool_executions d" "workspace_revisions d' = workspace_revisions d"
    "pending_responses d' = pending_responses d" "session_requests d' = session_requests d"
  using assms by (auto simp: insert_event_def split: if_splits)

lemma event_added_db:
  assumes "event_added scope rid et d d'"
  obtains r s e now actor where "(r, s) \<in> set (join_rs d)" "r_scope_id r = scope" "r_id r = rid"
    "e_scope_id e = scope" "e_run_id e = rid" "e_session_id e = r_session_id r"
    "e_seq e = r_next_event_seq r" "e_session_seq e = s_next_event_seq s" "e_type e = et"
    "run_events d' = run_events d @ [e]" "workspaces d' = workspaces d" "run_attempts d' = run_attempts d"
    "tool_executions d' = tool_executions d" "workspace_revisions d' = workspace_revisions d"
    "pending_responses d' = pending_responses d" "session_requests d' = session_requests d"
    "runs d' = update_where (\<lambda>x. r_scope_id x = scope \<and> r_id x = rid)
        (\<lambda>x. touch now actor (x\<lparr>r_next_event_seq := r_next_event_seq r + 1\<rparr>)) (runs d)"
    "sessions d' = update_where (\<lambda>x. s_scope_id x = scope \<and> s_id x = r_session_id r)
        (\<lambda>x. touch now actor (x\<lparr>s_next_event_seq := s_next_event_seq s + 1\<rparr>)) (sessions d)"
proof -
  obtain r s e now actor where e: "(r, s) \<in> set (join_rs d)" "r_scope_id r = scope" "r_id r = rid"
    "e_scope_id e = scope" "e_run_id e = rid" "e_session_id e = r_session_id r"
    "e_seq e = r_next_event_seq r" "e_session_seq e = s_next_event_seq s" "e_type e = et"
    and rec: "record_event e now actor d = Inr d'"
    using assms unfolding event_added_def by blast
  from rec obtain d1 where d1: "insert_event e d = Inr d1"
    and d': "d' = update_sessions (\<lambda>s. s_scope_id s = e_scope_id e \<and> s_id s = e_session_id e)
            (\<lambda>s. touch now actor (s\<lparr>s_next_event_seq := e_session_seq e + 1\<rparr>))
         (update_runs (\<lambda>r. r_scope_id r = e_scope_id e \<and> r_id r = e_run_id e)
            (\<lambda>r. touch now actor (r\<lparr>r_next_event_seq := e_seq e + 1\<rparr>)) d1)"
    by (auto simp: record_event_def elim!: bindE_InrE)
  show ?thesis
    by (rule that [OF e]) (simp_all add: d' insert_event_simps [OF d1] e
        update_sessions_def update_runs_def)
qed

lemma event_added_keys: "event_added scope rid et d d' \<Longrightarrow> keys_ok d \<Longrightarrow> keys_ok d'"
  by (erule event_added_db) (simp add: keys_ok_def map_update_where_key run_key_def touch_def)

lemma event_added_lease: "event_added scope rid et d d' \<Longrightarrow> lease_of d' = lease_of d"
  by (erule event_added_db) (simp add: lease_of_def table_map_same lrun_of_def lsession_of_def touch_def)

lemma event_added_grows: "event_added scope rid et d d' \<Longrightarrow> grows d d'"
  by (erule event_added_db) (simp add: grows_def map_update_where_key run_ident_def session_ident_def touch_def)

lemma event_added_log:
  assumes "event_added scope rid et d d'" "keys_ok d"
  shows "log_step (log_of d) (log_of d')"
proof -
  obtain r s e now actor where e: "(r, s) \<in> set (join_rs d)" "r_scope_id r = scope" "r_id r = rid"
    "e_scope_id e = scope" "e_run_id e = rid" "e_session_id e = r_session_id r"
    "e_seq e = r_next_event_seq r" "e_session_seq e = s_next_event_seq s"
    "run_events d' = run_events d @ [e]"
    "runs d' = update_where (\<lambda>x. r_scope_id x = scope \<and> r_id x = rid)
        (\<lambda>x. touch now actor (x\<lparr>r_next_event_seq := r_next_event_seq r + 1\<rparr>)) (runs d)"
    "sessions d' = update_where (\<lambda>x. s_scope_id x = scope \<and> s_id x = r_session_id r)
        (\<lambda>x. touch now actor (x\<lparr>s_next_event_seq := s_next_event_seq s + 1\<rparr>)) (sessions d)"
    by (rule event_added_db [OF assms(1)])
  note j = join_rsD [OF e(1)]
  have "table_map r_id gcounter_of (runs d') = (table_map r_id gcounter_of (runs d))
      (rid \<mapsto> (gcounter_of r)\<lparr>g_next := g_next (gcounter_of r) + 1\<rparr>)"
    unfolding e(10) using j e(2,3)
    by (subst key_update(1) [OF assms(2), of r]) (auto simp: gcounter_of_def touch_def)
  moreover have "table_map s_id ccounter_of (sessions d') = (table_map s_id ccounter_of (sessions d))
      (r_session_id r \<mapsto> (ccounter_of s)\<lparr>c_next := c_next (ccounter_of s) + 1\<rparr>)"
    unfolding e(11) using j e(2,3)
    by (subst key_update(2) [OF assms(2), of s]) (auto simp: ccounter_of_def touch_def)
  moreover have "table_map r_id gcounter_of (runs d) rid = Some (gcounter_of r)"
    "table_map s_id ccounter_of (sessions d) (r_session_id r) = Some (ccounter_of s)"
    using key_lookup(1) [OF assms(2), of r] key_lookup(2) [OF assms(2), of s] j e(3) by auto
  ultimately show ?thesis
    using log_event [of "log_of d" e "gcounter_of r" "ccounter_of s"] e(4-9) e(2)
    by (simp add: log_of_def gcounter_of_def ccounter_of_def)
qed

lemma event_added_sim: "event_added scope rid et d d' \<Longrightarrow> keys_ok d \<Longrightarrow> sim d d'"
  by (simp add: sim_def event_added_keys event_added_lease event_added_grows
      r_into_rtranclp [of log_step] event_added_log)

section \<open>Inserts\<close>

lemma sim_tables:
  assumes "keys_ok d" "runs d' = runs d" "sessions d' = sessions d" "workspaces d' = workspaces d"
    "run_attempts d' = run_attempts d" "run_events d' = run_events d"
    "\<exists>xs. session_requests d' = session_requests d @ xs"
    "distinct (map request_key (session_requests d'))"
    "\<exists>xs. workspace_revisions d' = workspace_revisions d @ xs"
  shows "sim d d'"
  using assms by (intro sim_eq) (simp_all add: keys_ok_def lease_of_def log_of_def grows_def)

lemma sim_unseen:
  assumes "keys_ok d"
  shows "insert_tool t d = Inr d' \<Longrightarrow> sim d d'" "insert_revision v d = Inr d' \<Longrightarrow> sim d d'"
    "insert_session_request q d = Inr d' \<Longrightarrow> sim d d'"
    "answer_pendings scope rid pid key digest ob resolved now actor d = Inr d' \<Longrightarrow> sim d d'"
    "finish_tools scope oid t2 status result err revision now actor d = Inr d' \<Longrightarrow> sim d d'"
    "sim d (update_tools P f d)"
  using assms by (auto simp: insert_tool_def insert_revision_def insert_session_request_def
      answer_pendings_def finish_tools_def keys_ok_def request_key_def clash_iff
      split: if_splits intro!: sim_tables, blast)

lemma sim_insert_workspace:
  assumes "insert_workspace w d = Inr d'" "keys_ok d" "w_active_attempt_id w = None"
  shows "sim d d'"
proof -
  have fresh: "\<forall>y\<in>set (workspaces d). w_id y \<noteq> w_id w" and d': "d' = d\<lparr>workspaces := workspaces d @ [w]\<rparr>"
    using assms(1) by (auto simp: insert_workspace_def clash_iff split: if_splits)
  have "lease_of d' = lease_of d\<lparr>L_workspaces := (L_workspaces (lease_of d))(w_id w
           \<mapsto> \<lparr>lw_scope = w_scope_id w, lw_active = None\<rparr>)\<rparr>"
    using assms(3) by (simp add: d' lease_of_def table_map_append [OF fresh] lworkspace_of_def)
  moreover have "L_workspaces (lease_of d) (w_id w) = None"
    using fresh by (simp add: lease_of_def table_map_None)
  ultimately have "lease_step (lease_of d) (lease_of d')" by (simp add: add_workspace)
  moreover have "keys_ok d'" using assms(2) fresh by (auto simp: keys_ok_def d')
  ultimately show ?thesis by (auto simp: sim_def log_of_def grows_def d')
qed

lemma sim_insert_session:
  assumes "insert_session s d = Inr d'" "keys_ok d" "s_active_run_id s = None" "s_next_event_seq s = 1"
  shows "sim d d'"
proof -
  have fresh: "\<forall>y\<in>set (sessions d). s_id y \<noteq> s_id s" and d': "d' = d\<lparr>sessions := sessions d @ [s]\<rparr>"
    and "\<exists>w\<in>set (workspaces d). w_scope_id w = s_scope_id s \<and> w_id w = s_workspace_id s"
    using assms(1) by (auto simp: insert_session_def clash_iff list_ex_iff split: if_splits)
  then obtain w where w: "w \<in> set (workspaces d)" "w_scope_id w = s_scope_id s" "w_id w = s_workspace_id s"
    by blast
  have l: "lease_of d' = lease_of d\<lparr>L_sessions := (L_sessions (lease_of d))(s_id s
           \<mapsto> \<lparr>ls_scope = s_scope_id s, ls_workspace = s_workspace_id s, ls_active = None\<rparr>)\<rparr>"
    using assms(3) by (simp add: d' lease_of_def table_map_append [OF fresh] lsession_of_def)
  have g: "log_of d' = log_of d\<lparr>G_sessions := (G_sessions (log_of d))(s_id s
           \<mapsto> \<lparr>c_scope = s_scope_id s, c_next = 1\<rparr>)\<rparr>"
    using assms(4) by (simp add: d' log_of_def table_map_append [OF fresh] ccounter_of_def)
  have "L_workspaces (lease_of d) (s_workspace_id s) = Some (lworkspace_of w)"
    using key_lookup(3) [OF assms(2) w(1)] w(3) by (simp add: lease_of_def)
  moreover have "L_sessions (lease_of d) (s_id s) = None" "G_sessions (log_of d) (s_id s) = None"
    using fresh by (simp_all add: lease_of_def log_of_def table_map_None)
  ultimately have "lease_step (lease_of d) (lease_of d')" "log_step (log_of d) (log_of d')"
    using w(2) unfolding l g by (auto intro!: add_session log_session simp: lworkspace_of_def)
  moreover have "keys_ok d'" using assms(2) fresh by (auto simp: keys_ok_def d')
  ultimately show ?thesis by (auto simp: sim_def grows_def d')
qed

lemma sim_insert_run:
  assumes "insert_run r d = Inr d'" "keys_ok d" "r_status r = QUEUED" "r_active_attempt_id r = None"
    "r_next_event_seq r = 1" "s \<in> set (sessions d)" "s_id s = r_session_id r"
    "s_scope_id s = r_scope_id r" "s_workspace_id s = r_workspace_id r"
  shows "sim d d'"
proof -
  have fresh: "\<forall>y\<in>set (runs d). r_id y \<noteq> r_id r" and fresh_key: "\<forall>y\<in>set (runs d). run_key y \<noteq> run_key r"
    and d': "d' = d\<lparr>runs := runs d @ [r]\<rparr>"
    using assms(1) by (auto simp: insert_run_def clash_iff run_key_def split: if_splits)
  have l: "lease_of d' = lease_of d\<lparr>L_runs := (L_runs (lease_of d))(r_id r
           \<mapsto> \<lparr>lr_scope = r_scope_id r, lr_session = r_session_id r, lr_workspace = r_workspace_id r,
              lr_status = QUEUED, lr_attempt = None\<rparr>)\<rparr>"
    using assms(3,4) by (simp add: d' lease_of_def table_map_append [OF fresh] lrun_of_def)
  have g: "log_of d' = log_of d\<lparr>G_runs := (G_runs (log_of d))(r_id r
           \<mapsto> \<lparr>g_scope = r_scope_id r, g_session = r_session_id r, g_next = 1\<rparr>)\<rparr>"
    using assms(5) by (simp add: d' log_of_def table_map_append [OF fresh] gcounter_of_def)
  have "L_sessions (lease_of d) (r_session_id r) = Some (lsession_of s)"
    "G_sessions (log_of d) (r_session_id r) = Some (ccounter_of s)"
    using key_lookup(2) [OF assms(2,6)] assms(7) by (simp_all add: lease_of_def log_of_def)
  moreover have "L_runs (lease_of d) (r_id r) = None" "G_runs (log_of d) (r_id r) = None"
    using fresh by (simp_all add: lease_of_def log_of_def table_map_None)
  ultimately have "lease_step (lease_of d) (lease_of d')" "log_step (log_of d) (log_of d')"
    using assms(8,9) unfolding l g
    by (auto intro!: add_run log_run simp: lsession_of_def ccounter_of_def)
  moreover have "keys_ok d'" using assms(2) fresh fresh_key by (auto simp: keys_ok_def d')
  ultimately show ?thesis by (auto simp: sim_def grows_def d')
qed

section \<open>Operations\<close>

definition simulates :: "'a act \<Rightarrow> bool" where
  "simulates m \<longleftrightarrow> (\<forall>w. store_ok (wdb w) \<longrightarrow> wp m (\<lambda>_ w'. sim (wdb w) (wdb w')) w)"

lemma simulatesI:
  "(\<And>w::world. store_ok (wdb w) \<Longrightarrow> keys_ok (wdb w) \<Longrightarrow> wp m (\<lambda>_ w'. sim (wdb w) (wdb w')) w) \<Longrightarrow> simulates m"
  by (simp add: simulates_def store_ok_def)

text \<open>An operation is safe when every outcome of it, an error included, is such a change.\<close>

definition safe :: "'a act \<Rightarrow> bool" where
  "safe m \<longleftrightarrow> (\<forall>w. store_ok (wdb w) \<longrightarrow> sim (wdb w) (wdb (snd (m w))))"

lemma simulates_safe: "simulates m \<Longrightarrow> safe (transaction m)"
  unfolding safe_def
proof (intro allI impI)
  fix w :: world assume sm: "simulates m" and ok: "store_ok (wdb w)"
  have "sim (wdb w) (wdb w)" using ok by (simp add: store_ok_def sim_refl)
  then show "sim (wdb w) (wdb (snd (transaction m w)))"
    using sm ok by (auto simp: simulates_def wp_def transaction_def split: prod.splits sum.splits)
qed

lemma safe_bindI:
  assumes "safe m" "\<And>x. safe (f x)" shows "safe (bindA m f)"
  unfolding safe_def
proof (intro allI impI)
  fix w :: world assume ok: "store_ok (wdb w)"
  obtain r w1 where m: "m w = (r, w1)" by (cases "m w")
  have s1: "sim (wdb w) (wdb w1)" using assms(1) ok m unfolding safe_def by (metis snd_conv)
  have ok1: "store_ok (wdb w1)" by (rule sim_store_ok [OF s1 ok])
  show "sim (wdb w) (wdb (snd (bindA m f w)))"
  proof (cases r)
    case (Inl e) then show ?thesis using s1 m by (simp add: bindA_def)
  next
    case (Inr x)
    have "sim (wdb w1) (wdb (snd (f x w1)))" using assms(2) ok1 unfolding safe_def by blast
    then show ?thesis using s1 m Inr by (auto simp: bindA_def intro: sim_trans)
  qed
qed

lemma safe_reads [simp]: "safe (ret x)" "safe (raise e)" "safe read_db" "safe (liftE r)"
  by (auto simp: safe_def ret_def raise_def read_db_def liftE_def store_ok_def sim_refl split: sum.splits)

lemma wp_event_sim:
  assumes "sim d (wdb w)"
  shows "wp (insert_event_locked h u n scope rid et data actor occurred) (\<lambda>_ w'. sim d (wdb w')) w"
proof (rule wp_event)
  fix d' ne fs assume "event_added scope rid et (wdb w) d'"
  then have "sim (wdb w) d'" using assms by (intro event_added_sim) (auto simp: sim_def)
  then show "sim d (wdb (w\<lparr>wfiles := fs, wdb := d'\<rparr>))" using assms by (auto intro: sim_trans)
qed

lemma append_event_safe: "safe (append_event h scope rid et data actor)"
  unfolding append_event_def
  by (intro simulates_safe simulatesI) (auto simp: wp_simps sim_refl intro!: wp_event_sim split: option.split)

lemma start_tool_safe: "safe (start_tool h scope oid actor)"
  unfolding start_tool_def Let_def
  by (intro simulates_safe simulatesI)
     (auto simp: wp_simps intro!: wp_event_sim sim_unseen(6) split: option.split)

lemma append_tool_output_safe: "safe (append_tool_output h scope oid stream text truncated actor)"
  unfolding append_tool_output_def
  by (intro simulates_safe simulatesI) (auto simp: wp_simps sim_refl intro!: wp_event_sim split: option.split)

lemma finish_tool_safe: "safe (finish_tool h scope oid status result err actor revision)"
  unfolding finish_tool_def Let_def
  by (intro simulates_safe simulatesI)
     (auto simp: wp_simps intro!: wp_event_sim elim!: sim_unseen(5) split: option.split)

lemma prepare_tool_safe: "safe (prepare_tool h scope rid tc actor)"
  unfolding prepare_tool_def Let_def
  by (intro simulates_safe simulatesI)
     (auto simp: wp_simps sim_refl intro!: wp_event_sim elim!: sim_unseen(1) split: option.split)

lemma record_revision_safe:
  "safe (record_workspace_revision h scope wid aid epoch c actor)"
  unfolding record_workspace_revision_def Let_def
proof (intro simulates_safe simulatesI)
  fix w :: world assume k: "keys_ok (wdb w)"
  have step: "sim (wdb w) (update_workspaces P (\<lambda>x. touch n a (x\<lparr>w_current_revision := v\<rparr>)) d)"
    if "insert_revision rv (wdb w) = Inr d" for rv d P n a v
  proof -
    have s: "sim (wdb w) d" by (rule sim_unseen(2) [OF k that])
    moreover have "sim d (update_workspaces P (\<lambda>x. touch n a (x\<lparr>w_current_revision := v\<rparr>)) d)"
      using s by (intro sim_eq) (auto simp: lworkspace_of_def touch_def sim_def)
    ultimately show ?thesis by (rule sim_trans)
  qed
  show "wp (bindA read_db (\<lambda>d. case get_workspace scope wid d of
          None \<Rightarrow> raise (DomainError RUN_NOT_FOUND ''Workspace not found'')
        | Some w \<Rightarrow>
            if w_active_attempt_id w \<noteq> Some aid \<or> w_workspace_epoch w \<noteq> epoch
            then raise (DomainError STATE_CONFLICT ''Workspace lease is stale'')
            else if \<not> falsy (w_lease_until w) \<and> the (w_lease_until w) \<le> h_now h 0
            then raise (DomainError STATE_CONFLICT ''Workspace lease has expired'')
            else
              bindA (insert_db (insert_revision (new_revision scope wid (w_current_revision w) c (h_now h 0) actor))) (\<lambda>_.
              cas (\<lambda>d. rowcount (lease_held scope wid (w_current_revision w) aid epoch) (workspaces d))
                (update_workspaces (lease_held scope wid (w_current_revision w) aid epoch)
                   (\<lambda>x. touch (h_now h 0) actor (x\<lparr>w_current_revision := Some (wc_revision_id c)\<rparr>)))
                ''Workspace revision CAS failed'')))
       (\<lambda>_ w'. sim (wdb w) (wdb w')) w"
    by (auto simp: wp_simps cas_def split: option.split intro: step)
qed

lemma wp_session_workspace:
  assumes "keys_ok (wdb w)" "\<And>wid d. sim (wdb w) d \<Longrightarrow> Q wid (w\<lparr>wdb := d\<rparr>)"
  shows "wp (session_workspace h scope ctx now actor) Q w"
proof -
  have moved: "sim (wdb w) (update_workspaces P (\<lambda>x. touch now actor (rebind_workspace b x)) (wdb w))" for P b
    using assms(1) by (intro sim_eq) (auto simp: rebind_workspace_def lworkspace_of_def touch_def)
  have same: "Q wid w" for wid using assms(2) [OF sim_refl [OF assms(1)]] by simp
  show ?thesis
    by (auto simp: session_workspace_def wp_simps Let_def legacy_workspace_def bound_workspace_def
        new_workspace_def intro!: assms(2) same moved split: option.split
        elim: sim_insert_workspace [OF _ assms(1)])
qed

lemma create_session_safe: "safe (create_session h scope key title external ctx)"
proof -
  have "safe (create_session_tx h scope key title external ctx)"
    unfolding create_session_tx_def Let_def
  proof (intro simulates_safe simulatesI)
    fix w :: world assume k: "keys_ok (wdb w)"
    have step: "sim (wdb w) d3" if "sim (wdb w) d1"
        "insert_session (new_session sid scope wid title external now actor) d1 = Inr d2"
        "insert_session_request q d2 = Inr d3" for sid wid now actor q d1 d2 d3
    proof -
      have s2: "sim d1 d2" using that(1,2)
        by (intro sim_insert_session [OF that(2)]) (auto simp: sim_def new_session_def)
      moreover have "sim d2 d3" using s2 that(3) by (intro sim_unseen(3)) (auto simp: sim_def)
      ultimately show ?thesis using that(1) by (blast intro: sim_trans)
    qed
    have fresh: "wp (bindA (session_workspace h scope ctx now actor) (\<lambda>wid.
            bindA (insert_db (insert_session (new_session sid scope wid title external now actor)))
              (\<lambda>_. bindA (insert_db (insert_session_request q)) (\<lambda>_. ret sid))))
        (\<lambda>_ w'. sim (wdb w) (wdb w')) w" for now actor sid q
      unfolding wp_bindA
      by (rule wp_session_workspace [OF k]) (simp add: wp_simps step)
    show "wp (bindA read_db (\<lambda>d. case select_one (\<lambda>q. q_scope_id q = scope \<and> q_idempotency_key q = key)
               (session_requests d) of
          None \<Rightarrow>
            bindA (session_workspace h scope ctx (h_now h 0) (actor_of ctx)) (\<lambda>wid.
            bindA (insert_db (insert_session (new_session (h_uuid h 0) scope wid title external (h_now h 0) (actor_of ctx))))
              (\<lambda>_. bindA (insert_db (insert_session_request
                     (new_session_request scope key (session_fingerprint h scope key title external ctx)
                        (h_uuid h 0) (h_now h 0) (actor_of ctx)))) (\<lambda>_. ret (h_uuid h 0))))
        | Some q \<Rightarrow>
            if q_request_fingerprint q \<noteq> session_fingerprint h scope key title external ctx
            then raise (DomainError IDEMPOTENCY_CONFLICT
                   ''Session key is already bound to a different request'')
            else ret (q_session_id q)))
      (\<lambda>_ w'. sim (wdb w) (wdb w')) w"
      using fresh [of "h_now h 0" "actor_of ctx" "h_uuid h 0"] k
      by (simp add: wp_read_db wp_ret wp_raise wp_if wp_option wp_bindA [of read_db] sim_refl
          split: option.split)
  qed
  then show ?thesis unfolding create_session_def by (intro safe_bindI) auto
qed

lemma update_title_safe: "safe (update_session_title h sid title actor)"
proof -
  have "sim d (update_sessions P (\<lambda>s. touch n a (s\<lparr>s_title := title\<rparr>)) d)" if "keys_ok d" for d P n a
    using that by (intro sim_eq) (auto simp: lsession_of_def ccounter_of_def session_ident_def touch_def)
  then have "safe (transaction (bindA read_db (\<lambda>d.
        bindA (mod_db (update_sessions (\<lambda>s. s_id s = sid)
                 (\<lambda>s. touch (h_now h 0) actor (s\<lparr>s_title := title\<rparr>)))) (\<lambda>_.
        if rowcount (\<lambda>s. s_id s = sid) (sessions d) \<noteq> 1
        then raise (DomainError SESSION_NOT_FOUND ''Session not found'') else ret ()))))"
    by (intro simulates_safe simulatesI) (auto simp: wp_simps)
  then show ?thesis unfolding update_session_title_def by (intro safe_bindI) auto
qed

lemma wp_insert_new_run:
  assumes "keys_ok (wdb w)" "(s, wk) \<in> set (join_sw (wdb w))"
    "s_scope_id s = ec_scope_id (rq_context rq)" "s_id s = rq_session_id rq"
  shows "wp (insert_new_run h rq key fp snap s wk) (\<lambda>_ w'. sim (wdb w) (wdb w')) w"
proof -
  have run: "sim (wdb w) d" if "insert_run (new_run rid rq (s_workspace_id s) n key fp i sn now actor) (wdb w) = Inr d"
    for rid n i sn now actor d
    using join_swD [OF assms(2)] assms(3,4)
    by (intro sim_insert_run [OF that assms(1), of s]) (auto simp: new_run_def)
  have count: "sim d (update_sessions P (\<lambda>x. touch n a (x\<lparr>s_next_run_seq := v\<rparr>)) d)"
    if "sim d0 d" for d0 d P n a v
    using that by (intro sim_eq) (auto simp: sim_def lsession_of_def ccounter_of_def session_ident_def touch_def)
  have event: "sim (wdb w) (update_sessions P (\<lambda>x. touch n a (x\<lparr>s_next_run_seq := v\<rparr>)) d')"
    if "insert_run (new_run rid rq (s_workspace_id s) m key fp i sn now actor) (wdb w) = Inr d"
       "event_added scope rid2 et d d'" for rid m i sn now actor d d' scope rid2 et P n a v
  proof -
    have a: "sim (wdb w) d" by (rule run [OF that(1)])
    moreover have b: "sim d d'" using a that(2) by (intro event_added_sim) (auto simp: sim_def)
    ultimately show ?thesis using count [OF b] by (blast intro: sim_trans)
  qed
  show ?thesis
    by (auto simp: insert_new_run_def Let_def write_message_def write_snapshot_def write_object_act_def
        wp_simps intro!: wp_event event)
qed

lemma accept_once_safe: "safe (accept_once os h rq key fp snap reject)"
  unfolding accept_once_def Let_def
  by (intro simulates_safe simulatesI)
     (auto simp: wp_simps sim_refl intro!: wp_insert_new_run split: option.split
       dest!: select_one_SomeD)

section \<open>Claiming\<close>

lemma claimableD:
  assumes "next_claim now scope d = Some (r, s, w)"
  shows "(r, s, w) \<in> set (join_rsw d)" "r_status r = QUEUED" "r_due_at r \<le> now"
    "s_active_run_id s = None" "w_active_attempt_id w = None" "\<not> prior_queued r d"
proof -
  have "(r, s, w) \<in> set (select (claimable now scope d) (join_rsw d))"
    using assms unfolding next_claim_def
    by (cases "sort_key claim_order (select (claimable now scope d) (join_rsw d))")
       (auto, metis list.set_intros(1) set_sort)
  then show "(r, s, w) \<in> set (join_rsw d)" "r_status r = QUEUED" "r_due_at r \<le> now"
    "s_active_run_id s = None" "w_active_attempt_id w = None" "\<not> prior_queued r d"
    by (auto simp: select_def claimable_def)
qed

definition claim_db :: "string \<Rightarrow> run_row \<Rightarrow> session_row \<Rightarrow> workspace_row \<Rightarrow> string \<Rightarrow> string \<Rightarrow> string
    \<Rightarrow> db \<Rightarrow> db" where
  "claim_db aid r s w lease_until now_iso actor d =
     start_run r aid lease_until now_iso actor
       (lease_workspace r s w aid lease_until now_iso actor (lease_session r s now_iso actor d))"

lemma insert_attempt_simps:
  assumes "insert_attempt a d = Inr d'"
  shows "runs d' = runs d" "sessions d' = sessions d" "workspaces d' = workspaces d"
    "run_attempts d' = run_attempts d @ [a]" "run_events d' = run_events d"
    "session_requests d' = session_requests d"
    "\<forall>y\<in>set (run_attempts d). a_id y \<noteq> a_id a"
  using assms by (auto simp: insert_attempt_def clash_iff split: if_splits)

lemma keys_insert_attempt:
  assumes "insert_attempt a d = Inr d'" "keys_ok d" shows "keys_ok d'"
  using assms(2) insert_attempt_simps(7) [OF assms(1)]
  by (auto simp: keys_ok_def insert_attempt_simps(1-6) [OF assms(1)])

lemma keys_claim: "keys_ok d \<Longrightarrow> keys_ok (claim_db aid r s w lease_until now_iso actor d)"
  by (simp add: claim_db_def start_run_def lease_workspace_def lease_session_def run_ident_def touch_def)

lemma log_claim: "log_of (claim_db aid r s w lease_until now_iso actor d) = log_of d"
  by (simp add: claim_db_def start_run_def lease_workspace_def lease_session_def gcounter_of_def
      ccounter_of_def touch_def)

lemma grows_claim: "grows d0 (claim_db aid r s w lease_until now_iso actor d) = grows d0 d"
  by (simp add: claim_db_def start_run_def lease_workspace_def lease_session_def run_ident_def
      session_ident_def touch_def)

lemma insert_attempt_grows: "insert_attempt a d = Inr d' \<Longrightarrow> grows d d'"
  by (auto simp: insert_attempt_def grows_def split: if_splits)

lemma run_workspace:
  assumes "store_ok d" "r \<in> set (runs d)" "s \<in> set (sessions d)" "s_id s = r_session_id r"
  shows "s_workspace_id s = r_workspace_id r" "s_scope_id s = r_scope_id r"
proof -
  have k: "keys_ok d" and l: "refs_ok (lease_of d)"
    using assms(1) by (auto simp: store_ok_def lease_inv_def)
  have "L_runs (lease_of d) (r_id r) = Some (lrun_of r)" "L_sessions (lease_of d) (r_session_id r) = Some (lsession_of s)"
    using key_lookup(1) [OF k assms(2)] key_lookup(2) [OF k assms(3)] assms(4) by (simp_all add: lease_of_def)
  then have "ls_scope (lsession_of s) = lr_scope (lrun_of r)
      \<and> ls_workspace (lsession_of s) = lr_workspace (lrun_of r)"
    using l unfolding refs_ok_def by (fastforce simp: lrun_of_def)
  then show "s_workspace_id s = r_workspace_id r" "s_scope_id s = r_scope_id r"
    by (auto simp: lrun_of_def lsession_of_def)
qed

lemma lease_claim:
  assumes ok: "store_ok d" and j: "(r, s, w) \<in> set (join_rsw d)" and q: "r_status r = QUEUED"
    and free: "w_active_attempt_id w = None"
    and ins: "insert_attempt (new_attempt aid r s w b worker lease_until now_iso actor) d = Inr d1"
  shows "lease_of (claim_db aid r s w lease_until now_iso actor d1)
       = claimed (lease_of d) (r_id r) (lrun_of r) (lsession_of s) (lworkspace_of w) aid"
proof -
  have k: "keys_ok d" using ok by (simp add: store_ok_def)
  note m = join_rswD [OF j]
  note rs = join_rsD [OF m [THEN conjunct1]] and sw = join_swD [OF m [THEN conjunct2]]
  have ws: "s_workspace_id s = r_workspace_id r" using run_workspace(1) [OF ok] rs by blast
  note i = insert_attempt_simps [OF ins]
  have "table_map a_id lattempt_of (run_attempts (claim_db aid r s w lease_until now_iso actor d1))
      = (table_map a_id lattempt_of (run_attempts d))(aid \<mapsto> \<lparr>la_scope = r_scope_id r, la_run = r_id r, la_ended = False\<rparr>)"
    using table_map_append [OF i(7), of lattempt_of]
    by (simp add: claim_db_def start_run_def lease_workspace_def lease_session_def i(4)
        new_attempt_def lattempt_of_def)
  moreover have "table_map s_id lsession_of (sessions (claim_db aid r s w lease_until now_iso actor d1))
      = (table_map s_id lsession_of (sessions d))(r_session_id r \<mapsto> (lsession_of s)\<lparr>ls_active := Some (r_id r)\<rparr>)"
  proof -
    have "table_map s_id lsession_of (update_where (\<lambda>x. s_scope_id x = r_scope_id r \<and> s_id x = r_session_id r)
       (\<lambda>x. touch now_iso actor (x\<lparr>s_active_run_id := Some (r_id r), s_execution_epoch := s_execution_epoch s + 1\<rparr>)) (sessions d))
      = (table_map s_id lsession_of (sessions d))(s_id s \<mapsto> lsession_of (touch now_iso actor (s\<lparr>s_active_run_id := Some (r_id r), s_execution_epoch := s_execution_epoch s + 1\<rparr>)))"
      by (rule key_update(2) [OF k]) (use rs in auto)
    then show ?thesis using rs
      by (simp add: claim_db_def start_run_def lease_workspace_def lease_session_def i(2) lsession_of_def touch_def)
  qed
  moreover have "table_map w_id lworkspace_of (workspaces (claim_db aid r s w lease_until now_iso actor d1))
      = (table_map w_id lworkspace_of (workspaces d))(r_workspace_id r \<mapsto> (lworkspace_of w)\<lparr>lw_active := Some aid\<rparr>)"
  proof -
    let ?f = "\<lambda>x. touch now_iso actor (x\<lparr>w_active_attempt_id := Some aid,
              w_workspace_epoch := w_workspace_epoch w + 1, w_lease_until := Some lease_until,
              w_heartbeat_at := Some now_iso\<rparr>)"
    have "table_map w_id lworkspace_of (update_where (workspace_free r s w) ?f (workspaces d))
      = (table_map w_id lworkspace_of (workspaces d))(w_id w \<mapsto> lworkspace_of (?f w))"
      by (rule key_update(3) [OF k]) (use rs sw free in \<open>auto simp: workspace_free_def\<close>)
    then show ?thesis using sw ws
      by (simp add: claim_db_def start_run_def lease_workspace_def lease_session_def i(3) lworkspace_of_def touch_def)
  qed
  moreover have "table_map r_id lrun_of (runs (claim_db aid r s w lease_until now_iso actor d1))
      = (table_map r_id lrun_of (runs d))(r_id r \<mapsto> (lrun_of r)\<lparr>lr_status := RUNNING, lr_attempt := Some aid\<rparr>)"
  proof -
    let ?f = "\<lambda>x. touch now_iso actor (x\<lparr>r_status := RUNNING, r_active_attempt_id := Some aid,
              r_state_version := r_state_version x + 1, r_due_at := lease_until\<rparr>)"
    have "table_map r_id lrun_of (update_where (run_at_version (r_scope_id r) (r_id r) (r_state_version r)) ?f (runs d))
      = (table_map r_id lrun_of (runs d))(r_id r \<mapsto> lrun_of (?f r))"
      by (rule key_update(1) [OF k]) (use rs in \<open>auto simp: run_at_version_def\<close>)
    then show ?thesis
      by (simp add: claim_db_def start_run_def lease_workspace_def lease_session_def i(1) lrun_of_def touch_def)
  qed
  ultimately show ?thesis using ws
    by (simp add: lease_of_def claimed_def lrun_of_def)
qed

lemma sim_claim:
  assumes ok: "store_ok d" and j: "(r, s, w) \<in> set (join_rsw d)" and q: "r_status r = QUEUED"
    and free: "s_active_run_id s = None" "w_active_attempt_id w = None"
    and ins: "insert_attempt (new_attempt aid r s w b worker lease_until now_iso actor) d = Inr d1"
  shows "sim d (claim_db aid r s w lease_until now_iso actor d1)"
proof -
  have k: "keys_ok d" using ok by (simp add: store_ok_def)
  note m = join_rswD [OF j]
  note rs = join_rsD [OF m [THEN conjunct1]] and sw = join_swD [OF m [THEN conjunct2]]
  have ws: "s_workspace_id s = r_workspace_id r" using run_workspace(1) [OF ok] rs by blast
  have "L_attempts (lease_of d) aid = None"
    using insert_attempt_simps(7) [OF ins] by (simp add: lease_of_def table_map_None new_attempt_def)
  then have "lease_step (lease_of d) (claimed (lease_of d) (r_id r) (lrun_of r) (lsession_of s) (lworkspace_of w) aid)"
    using key_lookup(1) [OF k, where r = r and ?g1.0 = lrun_of] key_lookup(2) [OF k, where s = s and ?g2.0 = lsession_of]
      key_lookup(3) [OF k, where w = w and ?g3.0 = lworkspace_of] rs sw ws q free
    by (intro claim) (auto simp: lease_of_def lrun_of_def lsession_of_def lworkspace_of_def)
  moreover have "log_of (claim_db aid r s w lease_until now_iso actor d1) = log_of d"
    unfolding log_claim by (simp add: log_of_def insert_attempt_simps [OF ins])
  moreover have "grows d (claim_db aid r s w lease_until now_iso actor d1)"
    using insert_attempt_grows [OF ins] by (simp add: grows_claim)
  ultimately show ?thesis
    using keys_claim [OF keys_insert_attempt [OF ins k]] lease_claim [OF ok j q free(2) ins]
    by (simp add: sim_def r_into_rtranclp [of lease_step])
qed

lemma claim_tx_safe: "safe (claim_tx os h scope worker lease now)"
  unfolding claim_tx_def Let_def
proof (intro simulates_safe simulatesI)
  fix w :: world assume ok: "store_ok (wdb w)" and k: "keys_ok (wdb w)"
  have row: "wp (claim_row os h worker now_iso lease_until actor p) (\<lambda>_ w'. sim (wdb w) (wdb w')) w"
    if "next_claim n scope (wdb w) = Some p" for n p now_iso lease_until actor
  proof -
    obtain r s wk where p: "p = (r, s, wk)" by (cases p)
    note c = claimableD [OF that [unfolded p]]
    show ?thesis unfolding p
      by (auto simp: claim_row_def Let_def cas_def wp_simps claim_db_def [symmetric]
          intro!: wp_event_sim sim_claim [OF ok c(1,2,4,5)])
  qed
  show "wp (bindA read_db (\<lambda>d. case next_claim (iso (case now of None \<Rightarrow> h_clock h 0 | Some t \<Rightarrow> t)) scope d of
          None \<Rightarrow> ret None
        | Some rsw \<Rightarrow> bindA (claim_row os h worker (iso (case now of None \<Rightarrow> h_clock h 0 | Some t \<Rightarrow> t))
             (iso ((case now of None \<Rightarrow> h_clock h 0 | Some t \<Rightarrow> t) + lease * 1000000))
             (''system:runtime/'' @ worker) rsw) (\<lambda>ci. ret (Some ci))))
     (\<lambda>_ w'. sim (wdb w) (wdb w')) w"
    using row sim_refl [OF k]
    by (simp add: wp_read_db wp_ret wp_option wp_bindA split: option.split)
qed

lemma safe_read_run [simp]: "safe (read_run h scope rid)"
  by (simp add: safe_def read_run_def store_ok_def sim_refl)

lemma claim_next_run_safe: "safe (claim_next_run os h scope worker lease now)"
  unfolding claim_next_run_def
  by (intro safe_bindI claim_tx_safe) (auto split: option.split intro!: safe_bindI)

section \<open>Changing the status\<close>

lemma lease_change:
  assumes "keys_ok d" "r \<in> set (runs d)" "run_at_version scope rid v r"
  shows "lease_of (update_runs (run_at_version scope rid v) (apply_change ch after out now actor) d)
       = lease_of d\<lparr>L_runs := (L_runs (lease_of d))(rid \<mapsto> (lrun_of r)\<lparr>lr_status := rs_status after\<rparr>)\<rparr>"
proof -
  have "table_map r_id lrun_of (update_where (run_at_version scope rid v) (apply_change ch after out now actor) (runs d))
      = (table_map r_id lrun_of (runs d))(r_id r \<mapsto> lrun_of (apply_change ch after out now actor r))"
    by (rule key_update(1) [OF assms(1)])
       (use assms in \<open>auto simp: run_at_version_def apply_change_def touch_def\<close>)
  then show ?thesis using assms(3)
    by (simp add: lease_of_def run_at_version_def apply_change_def touch_def lrun_of_def)
qed

lemma keys_change [simp]:
  "keys_ok (update_runs P (apply_change ch after out now actor) d) = keys_ok d"
  "log_of (update_runs P (apply_change ch after out now actor) d) = log_of d"
  "grows d0 (update_runs P (apply_change ch after out now actor) d) = grows d0 d"
  by (simp_all add: apply_change_def gcounter_of_def run_ident_def touch_def)

lemma lease_release:
  "lease_of (release_leases r scope rid now actor d)
   = released (lease_of d) scope rid (r_workspace_id r) (r_active_attempt_id r)"
proof -
  have r: "table_map r_id lrun_of (update_where (\<lambda>x. r_scope_id x = scope \<and> r_id x = rid)
        (\<lambda>x. touch now actor (x\<lparr>r_active_attempt_id := None\<rparr>)) (runs d))
     = (\<lambda>i. map_option (\<lambda>p. if lr_scope p = scope \<and> i = rid then p\<lparr>lr_attempt := None\<rparr> else p)
         (table_map r_id lrun_of (runs d) i))"
    by (rule table_map_abs) (auto simp: lrun_of_def touch_def)
  have s: "table_map s_id lsession_of (update_where (\<lambda>x. s_scope_id x = scope \<and> sql_eq (s_active_run_id x) (Some rid))
        (\<lambda>x. touch now actor (x\<lparr>s_active_run_id := None\<rparr>)) (sessions d))
     = (\<lambda>i. map_option (\<lambda>p. if ls_scope p = scope \<and> ls_active p = Some rid
           then p\<lparr>ls_active := None\<rparr> else p) (table_map s_id lsession_of (sessions d) i))"
    by (rule table_map_abs [where A = "\<lambda>_ p. ls_scope p = scope \<and> ls_active p = Some rid"
          and F = "\<lambda>p. p\<lparr>ls_active := None\<rparr>"]) (auto simp: lsession_of_def touch_def sql_eq_def)
  have w: "table_map w_id lworkspace_of (update_where (\<lambda>x. w_scope_id x = scope \<and> w_id x = r_workspace_id r
           \<and> sql_eq (w_active_attempt_id x) (r_active_attempt_id r))
        (\<lambda>x. touch now actor (x\<lparr>w_active_attempt_id := None, w_lease_until := None,
              w_heartbeat_at := None\<rparr>)) (workspaces d))
     = (\<lambda>i. map_option (\<lambda>p. if lw_scope p = scope \<and> i = r_workspace_id r \<and> lw_active p \<noteq> None
           \<and> lw_active p = r_active_attempt_id r then p\<lparr>lw_active := None\<rparr> else p)
         (table_map w_id lworkspace_of (workspaces d) i))"
    by (rule table_map_abs [where A = "\<lambda>i p. lw_scope p = scope \<and> i = r_workspace_id r
          \<and> lw_active p \<noteq> None \<and> lw_active p = r_active_attempt_id r"
          and F = "\<lambda>p. p\<lparr>lw_active := None\<rparr>"]) (auto simp: lworkspace_of_def touch_def sql_eq_def)
  have a: "table_map a_id lattempt_of (update_where (\<lambda>x. a_scope_id x = scope
           \<and> sql_eq (Some (a_id x)) (r_active_attempt_id r))
        (\<lambda>x. touch now actor (x\<lparr>a_ended_at := Some now\<rparr>)) (run_attempts d))
     = (\<lambda>i. map_option (\<lambda>p. if la_scope p = scope \<and> Some i = r_active_attempt_id r
           then p\<lparr>la_ended := True\<rparr> else p) (table_map a_id lattempt_of (run_attempts d) i))"
    by (rule table_map_abs [where A = "\<lambda>i p. la_scope p = scope \<and> Some i = r_active_attempt_id r"
          and F = "\<lambda>p. p\<lparr>la_ended := True\<rparr>"]) (auto simp: lattempt_of_def touch_def sql_eq_def)
  show ?thesis by (simp add: lease_of_def release_leases_def released_def r s w a)
qed

lemma log_release: "log_of (release_leases r scope rid now actor d) = log_of d"
  by (simp add: release_leases_def gcounter_of_def ccounter_of_def touch_def)

lemma grows_release: "grows d0 (release_leases r scope rid now actor d) = grows d0 d"
  by (simp add: release_leases_def run_ident_def session_ident_def touch_def)

lemma keys_release: "keys_ok (release_leases r scope rid now actor d) = keys_ok d"
  by (simp add: release_leases_def run_ident_def touch_def)

lemma sim_change:
  assumes ok: "store_ok d" and r: "r \<in> set (runs d)" "run_at_version scope rid v r"
    and st: "rs_status after \<in> allowed_transitions (r_status r)" "rs_status after \<noteq> RUNNING"
      "rs_status after \<notin> TERMINAL_STATUSES"
  shows "sim d (update_runs (run_at_version scope rid v) (apply_change ch after out now actor) d)"
proof -
  have k: "keys_ok d" using ok by (simp add: store_ok_def)
  have "L_runs (lease_of d) rid = Some (lrun_of r)"
    using key_lookup(1) [OF k r(1), where ?g1.0 = lrun_of] r(2) by (simp add: lease_of_def run_at_version_def)
  then have "lease_step (lease_of d) (lease_of d\<lparr>L_runs := (L_runs (lease_of d))(rid
        \<mapsto> (lrun_of r)\<lparr>lr_status := rs_status after\<rparr>)\<rparr>)"
    using st by (intro change) (auto simp: lrun_of_def)
  then show ?thesis using k by (simp add: sim_def lease_change [OF k r] r_into_rtranclp [of lease_step])
qed

lemma sim_finish:
  assumes ok: "store_ok d" and r: "r \<in> set (runs d)" "run_at_version scope rid v r"
    and st: "rs_status after \<in> allowed_transitions (r_status r)" "rs_status after \<in> TERMINAL_STATUSES"
    and e: "event_added scope rid et
      (update_runs (run_at_version scope rid v) (apply_change ch after out now actor) d) d2"
  shows "sim d (release_leases r scope rid now2 actor2 d2)"
proof -
  let ?d1 = "update_runs (run_at_version scope rid v) (apply_change ch after out now actor) d"
  let ?L = "lease_of d" and ?q = "lrun_of r"
  have k: "keys_ok d" and inv: "lease_inv ?L" using ok by (simp_all add: store_ok_def)
  have k1: "keys_ok ?d1" using k by simp
  have q: "L_runs ?L rid = Some ?q"
    using key_lookup(1) [OF k r(1), where ?g1.0 = lrun_of] r(2) by (simp add: lease_of_def run_at_version_def)
  have L1: "lease_of d2 = ?L\<lparr>L_runs := (L_runs ?L)(rid \<mapsto> ?q\<lparr>lr_status := rs_status after\<rparr>)\<rparr>"
    using event_added_lease [OF e] lease_change [OF k r] by simp
  have rel: "lease_of (release_leases r scope rid now2 actor2 d2)
      = released (lease_of d2) (lr_scope ?q) rid (lr_workspace ?q) (lr_attempt ?q)"
    using r(2) by (simp add: lease_release lrun_of_def run_at_version_def)
  have st': "rs_status after \<in> allowed_transitions (lr_status ?q)" using st(1) by (simp add: lrun_of_def)
  have "lease_step ?L (lease_of (release_leases r scope rid now2 actor2 d2))"
  proof (cases "lr_attempt ?q")
    case None
    have "lease_step ?L (?L\<lparr>L_runs := (L_runs ?L)(rid \<mapsto> ?q\<lparr>lr_status := rs_status after\<rparr>)\<rparr>)"
      by (rule finish_idle [OF q st' st(2) None])
    then show ?thesis using released_idle [OF inv q None L1] by (simp add: rel L1 None)
  next
    case (Some aid)
    obtain s w a where swa: "L_sessions ?L (lr_session ?q) = Some s" "L_workspaces ?L (lr_workspace ?q) = Some w"
      "L_attempts ?L aid = Some a"
      and f: "released (lease_of d2) (lr_scope ?q) rid (lr_workspace ?q) (Some aid)
         = finished ?L rid ?q (rs_status after) s w aid a"
      using released_holder [OF inv q Some L1] by blast
    show ?thesis using finish [OF q st' st(2) Some swa] by (simp add: rel Some f)
  qed
  moreover have "log_step (log_of d) (log_of (release_leases r scope rid now2 actor2 d2))"
    using event_added_log [OF e k1] by (simp add: log_release)
  moreover have "grows d d2" using event_added_grows [OF e] by (auto intro: grows_trans [of d ?d1])
  ultimately show ?thesis
    using event_added_keys [OF e k1] by (simp add: sim_def keys_release grows_release r_into_rtranclp [of lease_step] r_into_rtranclp [of log_step])
qed

lemma wp_write_output: "(\<And>x fs. Q x (w\<lparr>wfiles := fs\<rparr>)) \<Longrightarrow> wp (write_output h r rid out d) Q w"
  by (auto simp: write_output_def write_message_def write_object_act_def wp_simps split: option.split
      intro: allI) (metis (full_types) unit.exhaust world.surjective world.update_convs(2))

lemma wp_apply_transition:
  assumes ok: "store_ok (wdb w)" and target: "ch_target ch \<noteq> RUNNING"
    and sel: "select_one (\<lambda>r. r_scope_id r = scope \<and> r_id r = rid) (runs (wdb w)) = Some r"
    and tr: "transition (run_state_of r) (ch_target ch) (ch_expected_version ch)
                            (ch_task_outcome ch) (ch_reason ch) = Inr t"
  shows "wp (apply_transition h scope rid ch actor r t (wdb w)) (\<lambda>_ w'. sim (wdb w) (wdb w')) w"
proof -
  note T = transition_InrD [OF tr]
  have r: "r \<in> set (runs (wdb w))" "run_at_version scope rid (ch_expected_version ch) r"
    using select_one_SomeD [OF sel] T(1) by (auto simp: run_at_version_def run_state_of_def)
  have st: "rs_status (tr_after t) \<in> allowed_transitions (r_status r)" "rs_status (tr_after t) = ch_target ch"
    using T(2,7) by (simp_all add: run_state_of_def)
  show ?thesis
  proof (cases "rs_status (tr_after t) \<in> TERMINAL_STATUSES")
    case True
    show ?thesis
      by (simp add: apply_transition_def Let_def wp_simps True T(6))
         (intro wp_write_output wp_event; simp; rule sim_finish [OF ok r st(1) True]; simp)
  next
    case False
    have "sim (wdb w) (update_runs (run_at_version scope rid (ch_expected_version ch))
        (apply_change ch (tr_after t) out (h_now h 0) actor) (wdb w))" for out
      using sim_change [OF ok r st(1) _ False] st(2) target by simp
    then show ?thesis
      by (simp add: apply_transition_def Let_def wp_simps False T(6))
         (intro wp_write_output wp_event_sim; simp)
  qed
qed

lemma transition_tx_safe:
  assumes "ch_target ch \<noteq> RUNNING"
  shows "safe (transition_tx h scope rid ch actor_ref)"
  unfolding transition_tx_def Let_def
  by (intro simulates_safe simulatesI)
     (auto simp: wp_read_db wp_raise wp_liftE wp_option wp_bindA split: option.split
        intro: wp_apply_transition [OF _ assms])

lemma transition_run_safe:
  "ch_target ch \<noteq> RUNNING \<Longrightarrow> safe (transition_run h scope rid ch actor_ref)"
  unfolding transition_run_def by (intro safe_bindI transition_tx_safe) simp_all

lemma cancel_run_safe: "safe (cancel_run h scope rid actor_ref)"
proof -
  have "safe (read_run_state h scope rid)" by (simp add: safe_def read_run_state_def store_ok_def sim_refl)
  then show ?thesis unfolding cancel_run_def Let_def
    by (intro safe_bindI)
       (auto intro!: safe_bindI transition_run_safe simp: cancel_change_def)
qed

lemma wp_transition_locked:
  assumes "store_ok d0" "sim d0 (wdb w)" "ch_target ch \<noteq> RUNNING" "ch_target ch \<notin> TERMINAL_STATUSES"
  shows "wp (transition_run_locked h u n scope rid ch actor) (\<lambda>_ w'. sim d0 (wdb w')) w"
proof -
  have ok: "store_ok (wdb w)" using sim_store_ok assms(1,2) by blast
  have step: "sim d0 (update_runs (run_at_version scope rid (ch_expected_version ch))
        (apply_change ch (tr_after t) out now actor) (wdb w))"
    if "select_one (\<lambda>r. r_scope_id r = scope \<and> r_id r = rid) (runs (wdb w)) = Some r"
      "transition (run_state_of r) (ch_target ch) (ch_expected_version ch)
                            (ch_task_outcome ch) (ch_reason ch) = Inr t" for r t out now
  proof -
    note T = transition_InrD [OF that(2)]
    have "sim (wdb w) (update_runs (run_at_version scope rid (ch_expected_version ch))
        (apply_change ch (tr_after t) out now actor) (wdb w))"
      by (rule sim_change [OF ok, where r = r])
         (use select_one_SomeD [OF that(1)] T(1,2,7) assms(3,4) in
           \<open>auto simp: run_at_version_def run_state_of_def\<close>)
    then show ?thesis using assms(2) by (blast intro: sim_trans)
  qed
  show ?thesis
    by (auto simp: transition_run_locked_def Let_def wp_simps assms(2) step
        intro!: wp_write_output wp_event_sim split: option.split)
qed

lemma respond_safe: "safe (respond_to_run h scope rid pid key v text actor)"
proof -
  have "safe (respond_tx h scope rid pid key v text actor)"
    unfolding respond_tx_def Let_def
  proof (intro simulates_safe simulatesI)
    fix w :: world assume ok: "store_ok (wdb w)" and k: "keys_ok (wdb w)"
    have rd: "wp (read_run h scope rid) (\<lambda>x w'. sim (wdb w) (wdb w')) w"
      using sim_refl [OF k] by (simp add: wp_def read_run_def split: sum.splits)
    have locked: "wp (transition_run_locked h 0 2 scope rid (respond_change v') actor)
        (\<lambda>_ w'. sim (wdb w) (wdb w')) (w\<lparr>wfiles := fs, wdb := d\<rparr>)" if "sim (wdb w) d" for fs d v'
      by (rule wp_transition_locked [OF ok])
         (use that in \<open>simp_all add: respond_change_def TERMINAL_STATUSES_def\<close>)
    show "wp (bindA read_db (\<lambda>d.
        case select_one (\<lambda>(p, r). this_pending scope rid pid p) (join_pr d) of
          None \<Rightarrow> raise (DomainError RUN_NOT_FOUND ''Pending response not found'')
        | Some (p, pr) \<Rightarrow>
            if \<not> falsy (p_resolved_at p) then
              (if p_response_key p = Some key \<and> p_response_digest p = Some (fingerprint h (response_json text))
               then bindA (read_run h scope rid) (\<lambda>_. ret ())
               else raise (DomainError STATE_CONFLICT ''Response is already resolved''))
            else
              bindA (write_object_act h (base_for_session h (r_session_id pr) d)
                       (''sessions/'' @ r_session_id pr @ ''/pending/'' @ pid @ ''-response.json'')
                       (utf8_encode (dumps_sorted (response_json text)))) (\<lambda>ob.
              bindA (insert_db (answer_pendings scope rid pid key (fingerprint h (response_json text)) ob (h_now h 0) (h_now h 1)
                                  actor)) (\<lambda>_.
              bindA read_db (\<lambda>d1.
              case select_one (\<lambda>r. r_scope_id r = scope \<and> r_id r = rid) (runs d1) of
                None \<Rightarrow> raise (DomainError RUN_NOT_FOUND ''Run not found'')
              | Some r \<Rightarrow>
                  if r_state_version r \<noteq> v
                  then raise (DomainError STATE_CONFLICT ''Expected state version mismatch'')
                  else transition_run_locked h 0 2 scope rid (respond_change v) actor)))))
      (\<lambda>_ w'. sim (wdb w) (wdb w')) w"
      using rd by (auto simp: wp_simps write_object_act_def split: option.split
          intro!: locked sim_unseen(4) [OF k])
  qed
  then show ?thesis unfolding respond_to_run_def by (intro safe_bindI) simp_all
qed

end
