(* ===== verification/StoreHistory.thy ===== *)
theory StoreHistory
  imports StoreSafety
begin

text \<open>
  Histories of the store: any sequence of its operations, with any arguments, hosts and failures,
  from an empty database. The properties of theory \<open>StoreSafety\<close> hold after every history, bodies
  once written stay readable, and the event logs can be paged through without a gap.
\<close>

datatype store_op =
    CreateSession host string string string "string option" execution_context
  | RenameSession host string string string
  | AcceptRun host run_request string string run_snapshot bool
  | ClaimRun host "string option" string int "int option"
  | RecordRevision host string string string int workspace_commit string
  | TransitionRun host string string change "string option"
  | CancelRun host string string "string option"
  | AppendEvent host string string event_type json string
  | RespondRun host string string string string int string string
  | PrepareTool host string string tool_call string
  | StartTool host string string string
  | ToolOutput host string string string string bool string
  | FinishTool host string string tool_status "string option" "json_dict option" string "string option"

fun apply_op :: "os_env \<Rightarrow> store_op \<Rightarrow> world \<Rightarrow> world" where
  "apply_op os (CreateSession h scope key title ext ctx) w = snd (create_session h scope key title ext ctx w)"
| "apply_op os (RenameSession h sid title actor) w = snd (update_session_title h sid title actor w)"
| "apply_op os (AcceptRun h rq key fp snap reject) w = snd (accept_once os h rq key fp snap reject w)"
| "apply_op os (ClaimRun h scope worker lease now) w = snd (claim_next_run os h scope worker lease now w)"
| "apply_op os (RecordRevision h scope wid aid epoch c actor) w =
     snd (record_workspace_revision h scope wid aid epoch c actor w)"
| "apply_op os (TransitionRun h scope rid ch actor) w = snd (transition_run h scope rid ch actor w)"
| "apply_op os (CancelRun h scope rid actor) w = snd (cancel_run h scope rid actor w)"
| "apply_op os (AppendEvent h scope rid et data actor) w = snd (append_event h scope rid et data actor w)"
| "apply_op os (RespondRun h scope rid pid key v text actor) w =
     snd (respond_to_run h scope rid pid key v text actor w)"
| "apply_op os (PrepareTool h scope rid tc actor) w = snd (prepare_tool h scope rid tc actor w)"
| "apply_op os (StartTool h scope oid actor) w = snd (start_tool h scope oid actor w)"
| "apply_op os (ToolOutput h scope oid stream text truncated actor) w =
     snd (append_tool_output h scope oid stream text truncated actor w)"
| "apply_op os (FinishTool h scope oid status result err actor revision) w =
     snd (finish_tool h scope oid status result err actor revision w)"

text \<open>Runs start by being claimed: no caller of \<open>transition_run\<close> asks for \<open>RUNNING\<close>.\<close>

fun via_claim :: "store_op \<Rightarrow> bool" where
  "via_claim (TransitionRun h scope rid ch actor) = (ch_target ch \<noteq> RUNNING)"
| "via_claim _ = True"

definition run_ops :: "os_env \<Rightarrow> store_op list \<Rightarrow> world \<Rightarrow> world" where
  "run_ops os ops w = foldl (\<lambda>w op. apply_op os op w) w ops"

definition history :: "os_env \<Rightarrow> store_op list \<Rightarrow> db" where
  "history os ops = wdb (run_ops os ops \<lparr>wdb = empty_db, wfiles = []\<rparr>)"

lemma safeD: "safe m \<Longrightarrow> store_ok (wdb w) \<Longrightarrow> sim (wdb w) (wdb (snd (m w)))"
  by (simp add: safe_def)

lemma apply_op_sim: "via_claim op \<Longrightarrow> store_ok (wdb w) \<Longrightarrow> sim (wdb w) (wdb (apply_op os op w))"
  by (cases op)
     (simp_all add: safeD create_session_safe update_title_safe accept_once_safe claim_next_run_safe
       record_revision_safe transition_run_safe cancel_run_safe append_event_safe respond_safe
       prepare_tool_safe start_tool_safe append_tool_output_safe finish_tool_safe)

lemma run_ops_sim:
  "\<forall>op\<in>set ops. via_claim op \<Longrightarrow> store_ok (wdb w) \<Longrightarrow> sim (wdb w) (wdb (run_ops os ops w))"
proof (induction ops arbitrary: w)
  case Nil then show ?case by (simp add: run_ops_def store_ok_def sim_refl)
next
  case (Cons op ops)
  have s: "sim (wdb w) (wdb (apply_op os op w))" using Cons.prems by (simp add: apply_op_sim)
  then have "store_ok (wdb (apply_op os op w))" using Cons.prems(2) by (rule sim_store_ok)
  then have "sim (wdb (apply_op os op w)) (wdb (run_ops os ops (apply_op os op w)))"
    using Cons by simp
  then show ?case using s by (auto simp: run_ops_def intro: sim_trans)
qed

lemma history_ok: "\<forall>op\<in>set ops. via_claim op \<Longrightarrow> store_ok (history os ops)"
  unfolding history_def
  by (rule sim_store_ok [OF run_ops_sim]) (simp_all add: store_ok_empty)

text \<open>The reads an operation ends with leave the world of its transaction.\<close>

lemma claim_world: "snd (claim_next_run os h scope worker lease now w) = snd (claim_tx os h scope worker lease now w)"
  by (auto simp: claim_next_run_def bindA_def read_run_def ret_def split: prod.split sum.split option.split)

lemma transition_world: "snd (transition_run h scope rid ch actor w) = snd (transition_tx h scope rid ch actor w)"
  by (auto simp: transition_run_def bindA_def read_run_def split: prod.split sum.split)

lemma respond_world:
  "snd (respond_to_run h scope rid pid key v text actor w) = snd (respond_tx h scope rid pid key v text actor w)"
  by (auto simp: respond_to_run_def bindA_def read_run_def split: prod.split sum.split)

lemma create_world:
  "snd (create_session h scope key title ext ctx w) = snd (create_session_tx h scope key title ext ctx w)"
  by (auto simp: create_session_def bindA_def read_db_def ret_def split: prod.split sum.split)

section \<open>Leases\<close>

lemma run_lease:
  assumes "store_ok d" "r \<in> set (runs d)" "r_active_attempt_id r = Some aid"
  shows "holds (lease_of d) (r_id r) (lrun_of r) aid"
proof -
  have "L_runs (lease_of d) (r_id r) = Some (lrun_of r)"
    using key_lookup(1) [OF _ assms(2), where ?g1.0 = lrun_of] assms(1) by (simp add: store_ok_def lease_of_def)
  then show ?thesis using assms(1,3) by (auto simp: store_ok_def lease_inv_def lrun_of_def intro!: holderD)
qed

lemma running_attempt:
  assumes "store_ok d" "r \<in> set (runs d)" "r_status r = RUNNING"
  obtains aid where "r_active_attempt_id r = Some aid"
proof -
  have "L_runs (lease_of d) (r_id r) = Some (lrun_of r)"
    using key_lookup(1) [OF _ assms(2), where ?g1.0 = lrun_of] assms(1) by (simp add: store_ok_def lease_of_def)
  then have "lr_attempt (lrun_of r) \<noteq> None"
    using assms(1,3) by (intro runningD) (auto simp: store_ok_def lease_inv_def lrun_of_def)
  then show ?thesis using that by (auto simp: lrun_of_def)
qed

lemma session_row: "table_map s_id lsession_of (sessions d) i = Some s \<Longrightarrow>
    \<exists>x\<in>set (sessions d). s_id x = i \<and> s = lsession_of x"
  and workspace_row: "table_map w_id lworkspace_of (workspaces d) i = Some v \<Longrightarrow>
    \<exists>x\<in>set (workspaces d). w_id x = i \<and> v = lworkspace_of x"
  and attempt_row: "table_map a_id lattempt_of (run_attempts d) i = Some a \<Longrightarrow>
    \<exists>x\<in>set (run_attempts d). a_id x = i \<and> a = lattempt_of x"
  and run_row: "table_map r_id lrun_of (runs d) i = Some r \<Longrightarrow>
    \<exists>x\<in>set (runs d). r_id x = i \<and> r = lrun_of x"
  by (auto dest: table_mapD)

text \<open>A Run with an attempt, in rows.\<close>

lemma run_lease_rows:
  assumes "store_ok d" "r \<in> set (runs d)" "r_active_attempt_id r = Some aid"
  shows "r_status r \<notin> TERMINAL_STATUSES"
    "\<exists>s\<in>set (sessions d). s_id s = r_session_id r \<and> s_active_run_id s = Some (r_id r)"
    "\<exists>w\<in>set (workspaces d). w_id w = r_workspace_id r \<and> w_active_attempt_id w = Some aid"
    "\<exists>a\<in>set (run_attempts d). a_id a = aid \<and> a_run_id a = r_id r \<and> a_ended_at a = None"
proof -
  note h = run_lease [OF assms, unfolded holds_def]
  show "r_status r \<notin> TERMINAL_STATUSES" using h by (simp add: lrun_of_def)
  obtain s where "table_map s_id lsession_of (sessions d) (r_session_id r) = Some s"
      "ls_active s = Some (r_id r)" using h by (auto simp: lease_of_def lrun_of_def)
  then show "\<exists>s\<in>set (sessions d). s_id s = r_session_id r \<and> s_active_run_id s = Some (r_id r)"
    by (auto dest!: session_row simp: lsession_of_def)
  obtain w where "table_map w_id lworkspace_of (workspaces d) (r_workspace_id r) = Some w"
      "lw_active w = Some aid" using h by (auto simp: lease_of_def lrun_of_def)
  then show "\<exists>w\<in>set (workspaces d). w_id w = r_workspace_id r \<and> w_active_attempt_id w = Some aid"
    by (auto dest!: workspace_row simp: lworkspace_of_def)
  obtain a where "table_map a_id lattempt_of (run_attempts d) aid = Some a" "la_run a = r_id r"
      "\<not> la_ended a" using h by (auto simp: lease_of_def lrun_of_def)
  then show "\<exists>a\<in>set (run_attempts d). a_id a = aid \<and> a_run_id a = r_id r \<and> a_ended_at a = None"
    by (auto dest!: attempt_row simp: lattempt_of_def)
qed

lemma one_holder:
  assumes "store_ok d" "r \<in> set (runs d)" "q \<in> set (runs d)"
    "r_active_attempt_id r \<noteq> None" "r_active_attempt_id q \<noteq> None"
    "r_session_id r = r_session_id q \<or> r_workspace_id r = r_workspace_id q"
  shows "r = q"
proof -
  have k: "keys_ok d" and inv: "lease_inv (lease_of d)" using assms(1) by (simp_all add: store_ok_def)
  have L: "L_runs (lease_of d) (r_id r) = Some (lrun_of r)" "L_runs (lease_of d) (r_id q) = Some (lrun_of q)"
    using key_lookup(1) [OF k, where ?g1.0 = lrun_of] assms(2,3) by (simp_all add: lease_of_def)
  have "r_id r = r_id q"
    using one_runner_per_session [OF inv L(1) _ L(2)] one_runner_per_workspace [OF inv L(1) _ L(2)]
      assms(4-6) by (auto simp: lrun_of_def)
  then show ?thesis using k assms(2,3) by (auto simp: keys_ok_def dest: distinct_map_inj)
qed

text \<open>A Session or workspace whose lease a Run holds cannot give another claim.\<close>

lemma holder_blocks_claim:
  assumes "store_ok d" "r \<in> set (runs d)" "r_active_attempt_id r \<noteq> None"
    "next_claim now scope d = Some (q, s, w)"
  shows "r_session_id q \<noteq> r_session_id r" "r_workspace_id q \<noteq> r_workspace_id r"
proof -
  obtain aid where aid: "r_active_attempt_id r = Some aid" using assms(3) by auto
  note c = claimableD [OF assms(4)] and rows = run_lease_rows [OF assms(1,2) aid]
  note m = join_rswD [OF c(1)]
  note qs = join_rsD [OF m [THEN conjunct1]] and sw = join_swD [OF m [THEN conjunct2]]
  have k: "keys_ok d" using assms(1) by (simp add: store_ok_def)
  show "r_session_id q \<noteq> r_session_id r"
  proof
    assume e: "r_session_id q = r_session_id r"
    obtain s' where "s' \<in> set (sessions d)" "s_id s' = r_session_id r" "s_active_run_id s' = Some (r_id r)"
      using rows(2) by blast
    then have "s' = s" using qs e k by (metis keys_ok_def distinct_map_inj)
    then show False using c(4) \<open>s_active_run_id s' = Some (r_id r)\<close> by simp
  qed
  show "r_workspace_id q \<noteq> r_workspace_id r"
  proof
    assume e: "r_workspace_id q = r_workspace_id r"
    have "s_workspace_id s = r_workspace_id q" using run_workspace(1) [OF assms(1)] qs by blast
    obtain w' where "w' \<in> set (workspaces d)" "w_id w' = r_workspace_id r" "w_active_attempt_id w' = Some aid"
      using rows(3) by blast
    then have "w' = w" using sw e k \<open>s_workspace_id s = r_workspace_id q\<close> by (metis keys_ok_def distinct_map_inj)
    then show False using c(5) \<open>w_active_attempt_id w' = Some aid\<close> by simp
  qed
qed

section \<open>Event numbers\<close>

lemma session_log_rows: "session_log sid es = map e_session_seq (filter (\<lambda>e. e_session_id e = sid) es)"
  by (simp add: session_log_def)

lemma run_log_scope:
  assumes "store_ok d" "r \<in> set (runs d)"
  shows "filter (\<lambda>e. e_scope_id e = r_scope_id r \<and> e_run_id e = r_id r) (run_events d)
       = filter (\<lambda>e. e_run_id e = r_id r) (run_events d)"
proof (rule filter_cong)
  fix e assume e: "e \<in> set (run_events d)"
  have g: "G_runs (log_of d) (r_id r) = Some (gcounter_of r)"
    using key_lookup(1) [OF _ assms(2), where ?g1.0 = gcounter_of] assms(1) by (simp add: store_ok_def log_of_def)
  have "\<exists>q. G_runs (log_of d) (e_run_id e) = Some q \<and> g_scope q = e_scope_id e"
    using assms(1) e unfolding store_ok_def log_inv_def events_known_def by (fastforce simp: log_of_def)
  then show "(e_scope_id e = r_scope_id r \<and> e_run_id e = r_id r) = (e_run_id e = r_id r)"
    using g by (auto simp: gcounter_of_def)
qed simp

lemma run_events_numbered:
  assumes "store_ok d" "r \<in> set (runs d)"
  shows "map e_seq (filter (\<lambda>e. e_scope_id e = r_scope_id r \<and> e_run_id e = r_id r) (run_events d))
       = [1..r_next_event_seq r - 1] \<and> 1 \<le> r_next_event_seq r"
proof -
  have g: "G_runs (log_of d) (r_id r) = Some (gcounter_of r)"
    using key_lookup(1) [OF _ assms(2), where ?g1.0 = gcounter_of] assms(1) by (simp add: store_ok_def log_of_def)
  have "run_numbers (log_of d)" using assms(1) by (simp add: store_ok_def log_inv_def)
  then have "1 \<le> g_next (gcounter_of r) \<and> run_log (r_id r) (G_events (log_of d)) = [1..g_next (gcounter_of r) - 1]"
    using g unfolding run_numbers_def by blast
  then show ?thesis by (simp add: run_log_scope [OF assms] run_log_def log_of_def gcounter_of_def)
qed

lemma session_events_numbered:
  assumes "store_ok d" "s \<in> set (sessions d)"
  shows "map e_session_seq (filter (\<lambda>e. e_session_id e = s_id s) (run_events d))
       = [1..s_next_event_seq s - 1] \<and> 1 \<le> s_next_event_seq s"
proof -
  have g: "G_sessions (log_of d) (s_id s) = Some (ccounter_of s)"
    using key_lookup(2) [OF _ assms(2), where ?g2.0 = ccounter_of] assms(1) by (simp add: store_ok_def log_of_def)
  have "session_numbers (log_of d)" using assms(1) by (simp add: store_ok_def log_inv_def)
  then have "1 \<le> c_next (ccounter_of s) \<and> session_log (s_id s) (G_events (log_of d)) = [1..c_next (ccounter_of s) - 1]"
    using g unfolding session_numbers_def by blast
  then show ?thesis by (simp add: session_log_def log_of_def ccounter_of_def)
qed

text \<open>So the numbers of any Session, known or not, are an initial segment.\<close>

lemma session_segment:
  assumes "store_ok d"
  obtains m where "0 \<le> m" "map e_session_seq (filter (\<lambda>e. e_session_id e = sid) (run_events d)) = [1..m]"
proof (cases "\<exists>s\<in>set (sessions d). s_id s = sid")
  case True
  then obtain s where "s \<in> set (sessions d)" "s_id s = sid" by blast
  then show ?thesis using session_events_numbered [OF assms, of s] that [of "s_next_event_seq s - 1"] by auto
next
  case False
  then have "G_sessions (log_of d) sid = None" by (auto simp: log_of_def table_map_None)
  then have "session_log sid (G_events (log_of d)) = []"
    using assms by (intro fresh_session_log) (auto simp: store_ok_def log_inv_def)
  then show ?thesis using that [of 0] by (simp add: session_log_def log_of_def)
qed

lemma foldl_max_upto: "a \<le> m \<Longrightarrow> foldl max a [a + 1..m] = (m::int)"
proof (induction "nat (m - a)" arbitrary: a)
  case 0 then show ?case by simp
next
  case (Suc n)
  then have "[a + 1..m] = (a + 1) # [a + 1 + 1..m]" by (simp add: upto.simps)
  then show ?case using Suc(1) [of "a + 1"] Suc(2,3) by (simp add: max_def)
qed

lemma coalesce_max_upto: "0 \<le> m \<Longrightarrow> coalesce_max [1..m] = m"
  using foldl_max_upto [of 1 m] by (cases "1 \<le> m") (auto simp: upto.simps [of 1 m])

lemma filter_upto: "0 \<le> k \<Longrightarrow> filter (\<lambda>i. k < i) [1..m] = [k + 1..(m::int)]"
proof (cases "k < m")
  case True
  assume "0 \<le> k"
  then have "[1..m] = [1..k] @ [k + 1..m]" using True
    by (cases "k = 0") (auto intro: upto_split2)
  then show ?thesis by (simp add: filter_empty_conv)
next
  case False
  assume "0 \<le> k"
  then show ?thesis using False by (simp add: filter_empty_conv)
qed

text \<open>Rows whose numbers are an initial segment: the page after a cursor.\<close>

lemma page_of_segment:
  assumes "map f (filter P xs) = [1..m]" "0 \<le> k"
  shows "map f (take n (sort_key f (filter (\<lambda>x. P x \<and> k < f x) xs))) = take n [k + 1..m]"
proof -
  have "map f (filter (\<lambda>x. P x \<and> k < f x) xs) = filter (\<lambda>i. k < i) (map f (filter P xs))"
    by (simp add: filter_map comp_def conj_commute)
  also have "\<dots> = [k + 1..m]" unfolding assms(1) by (rule filter_upto [OF assms(2)])
  finally have e: "map f (filter (\<lambda>x. P x \<and> k < f x) xs) = [k + 1..m]" .
  then have "sort_key f (filter (\<lambda>x. P x \<and> k < f x) xs) = filter (\<lambda>x. P x \<and> k < f x) xs"
    by (intro sort_key_id_if_sorted) simp
  then show ?thesis by (simp only: take_map [symmetric] e)
qed

interpretation session_pages: paged_log
  "\<lambda>(sid, d) k limit. session_event_rows sid k limit d" e_session_seq
  "\<lambda>(sid, d). session_event_cursor sid d" "\<lambda>(sid, d). store_ok d"
proof (unfold_locales, clarify)
  fix sid d and k :: int and limit assume ok: "store_ok d" and k: "0 \<le> k"
  obtain m where m: "0 \<le> m" "map e_session_seq (filter (\<lambda>e. e_session_id e = sid) (run_events d)) = [1..m]"
    by (rule session_segment [OF ok])
  show "map e_session_seq (session_event_rows sid k limit d) = take limit [k + 1..session_event_cursor sid d]"
    using page_of_segment [OF m(2) k] m
    by (simp add: session_event_rows_def session_event_cursor_def select_def coalesce_max_upto)
qed

lemma run_segment:
  assumes "store_ok d"
  obtains m where "0 \<le> m"
    "map e_seq (filter (\<lambda>e. e_scope_id e = scope \<and> e_run_id e = rid) (run_events d)) = [1..m]"
proof (cases "\<exists>r\<in>set (runs d). r_scope_id r = scope \<and> r_id r = rid")
  case True
  then obtain r where "r \<in> set (runs d)" "r_scope_id r = scope" "r_id r = rid" by blast
  then show ?thesis using run_events_numbered [OF assms, of r] that [of "r_next_event_seq r - 1"] by auto
next
  case False
  have "\<not> (e_scope_id e = scope \<and> e_run_id e = rid)" if "e \<in> set (run_events d)" for e
  proof -
    have "\<exists>q. G_runs (log_of d) (e_run_id e) = Some q \<and> g_scope q = e_scope_id e"
      using assms that unfolding store_ok_def log_inv_def events_known_def by (fastforce simp: log_of_def)
    then obtain r where "r \<in> set (runs d)" "r_id r = e_run_id e" "r_scope_id r = e_scope_id e"
      by (auto simp: log_of_def gcounter_of_def dest!: table_mapD)
    then show ?thesis using False by auto
  qed
  then show ?thesis using that [of 0] by (simp add: filter_empty_conv)
qed

definition run_event_cursor :: "string \<Rightarrow> string \<Rightarrow> db \<Rightarrow> int" where
  "run_event_cursor scope rid d = coalesce_max (map e_seq
     (select (\<lambda>e. e_scope_id e = scope \<and> e_run_id e = rid) (run_events d)))"

interpretation run_pages: paged_log
  "\<lambda>(scope, rid, d) k limit. event_rows scope rid k limit d" e_seq
  "\<lambda>(scope, rid, d). run_event_cursor scope rid d" "\<lambda>(scope, rid, d). store_ok d"
proof (unfold_locales, clarify)
  fix scope rid d and k :: int and limit assume ok: "store_ok d" and k: "0 \<le> k"
  obtain m where m: "0 \<le> m"
      "map e_seq (filter (\<lambda>e. e_scope_id e = scope \<and> e_run_id e = rid) (run_events d)) = [1..m]"
    by (rule run_segment [OF ok])
  show "map e_seq (event_rows scope rid k limit d) = take limit [k + 1..run_event_cursor scope rid d]"
    using page_of_segment [OF m(2) k] m
    by (simp add: event_rows_def run_event_cursor_def select_def coalesce_max_upto conj_assoc)
qed

end
