(* ===== verification/StoreFiles.thy ===== *)
theory StoreFiles
  imports StoreHistory
begin

text \<open>
  Bodies survive: no operation of the store, committed or rolled back, removes or rewrites a byte
  of a body file, so whatever an event row points to can be read back and verified after every
  later history.
\<close>

definition files_grow :: "'a act \<Rightarrow> bool" where
  "files_grow m \<longleftrightarrow> (\<forall>w. extends (wfiles w) (wfiles (snd (m w))))"

named_theorems grow_intros \<open>how file growth composes\<close>

lemma fg_ret [grow_intros]: "files_grow (ret x)"
  and fg_raise [grow_intros]: "files_grow (raise e)"
  and fg_read [grow_intros]: "files_grow read_db"
  and fg_mod [grow_intros]: "files_grow (mod_db f)"
  and fg_insert [grow_intros]: "files_grow (insert_db g)"
  and fg_lift [grow_intros]: "files_grow (liftE r)"
  and fg_read_run [grow_intros]: "files_grow (read_run h scope rid)"
  and fg_read_state [grow_intros]: "files_grow (read_run_state h scope rid)"
  by (auto simp: files_grow_def ret_def raise_def read_db_def mod_db_def insert_db_def liftE_def
      read_run_def read_run_state_def split: sum.splits)

lemma fg_bind [grow_intros]:
  assumes "files_grow m" "\<And>x. files_grow (f x)" shows "files_grow (bindA m f)"
  unfolding files_grow_def
proof
  fix w
  obtain r w1 where m: "m w = (r, w1)" by (cases "m w")
  have s: "extends (wfiles w) (wfiles w1)" using assms(1) m unfolding files_grow_def by (metis snd_conv)
  show "extends (wfiles w) (wfiles (snd (bindA m f w)))"
  proof (cases r)
    case (Inl e) then show ?thesis using s m by (simp add: bindA_def)
  next
    case (Inr x)
    have "extends (wfiles w1) (wfiles (snd (f x w1)))" using assms(2) unfolding files_grow_def by blast
    then show ?thesis using s m Inr by (auto simp: bindA_def intro: extends_trans)
  qed
qed

lemma fg_transaction [grow_intros]: "files_grow m \<Longrightarrow> files_grow (transaction m)"
  unfolding files_grow_def
proof
  fix w assume g: "\<forall>w. extends (wfiles w) (wfiles (snd (m w)))"
  obtain r w1 where m: "m w = (r, w1)" by (cases "m w")
  have "extends (wfiles w) (wfiles w1)" using g m by (metis snd_conv)
  then show "extends (wfiles w) (wfiles (snd (transaction m w)))"
    using m by (simp add: transaction_def split: sum.split)
qed

lemma fg_with_files: "(\<And>fs. extends fs (snd (f fs))) \<Longrightarrow> files_grow (with_files f)"
  by (simp add: files_grow_def with_files_def split: prod.splits) (metis snd_conv)

lemma fg_append [grow_intros]: "files_grow (with_files (\<lambda>fs. append_record mx sha fs base dir rec prefix))"
  by (rule fg_with_files) (rule extends_append)

lemma fg_write [grow_intros]: "files_grow (write_object_act h base path payload)"
  unfolding write_object_act_def by (rule fg_with_files) (rule extends_write)

lemma fg_if [grow_intros]: "files_grow m \<Longrightarrow> files_grow k \<Longrightarrow> files_grow (if b then m else k)"
  by simp

lemma fg_option [grow_intros]:
  "files_grow m \<Longrightarrow> (\<And>y. files_grow (f y)) \<Longrightarrow> files_grow (case x of None \<Rightarrow> m | Some y \<Rightarrow> f y)"
  by (cases x) simp_all

lemma fg_prod [grow_intros]: "(\<And>a b. files_grow (f a b)) \<Longrightarrow> files_grow (case p of (a, b) \<Rightarrow> f a b)"
  by (cases p) simp

lemma fg_event [grow_intros]: "files_grow (insert_event_locked h u n scope rid et data actor occurred)"
  unfolding insert_event_locked_def Let_def by (intro grow_intros)

lemma fg_session_workspace [grow_intros]: "files_grow (session_workspace h scope ctx now actor)"
  unfolding session_workspace_def Let_def by (intro grow_intros)

lemma fg_new_run [grow_intros]: "files_grow (insert_new_run h rq key fp snap s w)"
  unfolding insert_new_run_def Let_def write_message_def write_snapshot_def by (intro grow_intros)

lemma fg_cas [grow_intros]: "files_grow (cas count upd msg)"
  unfolding cas_def by (intro grow_intros)

lemma fg_claim_row [grow_intros]: "files_grow (claim_row os h worker now lease actor p)"
  unfolding claim_row_def Let_def by (intro grow_intros)

lemma fg_write_output [grow_intros]: "files_grow (write_output h r rid out d)"
  unfolding write_output_def write_message_def by (intro grow_intros)

lemma fg_apply_transition [grow_intros]: "files_grow (apply_transition h scope rid ch actor r t d)"
  unfolding apply_transition_def Let_def by (intro grow_intros)

lemma fg_transition_run [grow_intros]: "files_grow (transition_run h scope rid ch actor)"
  unfolding transition_run_def transition_tx_def Let_def by (intro grow_intros)

lemma fg_locked [grow_intros]: "files_grow (transition_run_locked h u n scope rid ch actor)"
  unfolding transition_run_locked_def Let_def by (intro grow_intros)

lemma fg_operations:
  "files_grow (create_session h scope key title ext ctx)" "files_grow (update_session_title h sid title actor)"
  "files_grow (accept_once os h rq key fp snap reject)" "files_grow (claim_next_run os h scope2 worker lease now)"
  "files_grow (record_workspace_revision h scope wid aid epoch c actor)"
  "files_grow (cancel_run h scope rid actor_ref)" "files_grow (append_event h scope rid et data actor)"
  "files_grow (respond_to_run h scope rid pid key v text actor)" "files_grow (prepare_tool h scope rid tc actor)"
  "files_grow (start_tool h scope oid actor)" "files_grow (append_tool_output h scope oid stream text tr actor)"
  "files_grow (finish_tool h scope oid status result err actor revision)"
  unfolding create_session_def create_session_tx_def update_session_title_def accept_once_def
    claim_next_run_def claim_tx_def record_workspace_revision_def cancel_run_def append_event_def
    respond_to_run_def respond_tx_def prepare_tool_def start_tool_def append_tool_output_def
    finish_tool_def Let_def
  by (intro grow_intros)+

lemma apply_op_files: "extends (wfiles w) (wfiles (apply_op os op w))"
  using fg_operations fg_transition_run unfolding files_grow_def by (cases op) simp_all

lemma run_ops_files: "extends (wfiles w) (wfiles (run_ops os ops w))"
proof (induction ops arbitrary: w)
  case Nil then show ?case by (simp add: run_ops_def)
next
  case (Cons op ops)
  show ?case using Cons [of "apply_op os op w"] apply_op_files [of w os op]
    by (auto simp: run_ops_def intro: extends_trans)
qed

end
