(* ===== verification/StoreDemo.thy ===== *)
theory StoreDemo
  imports StoreFiles
begin

text \<open>
  One concrete history the witnesses share: a Session without a binding, a Run accepted in it and
  claimed by a worker, on a host with a constant digest, counted UUIDs and a stopped clock.
\<close>

definition demo_host :: "string \<Rightarrow> host" where
  "demo_host n = \<lparr>h_sha256 = (\<lambda>s. ''digest''),
     h_uuid = (\<lambda>k. n @ (if k = 0 then ''0'' else if k = 1 then ''1'' else ''2'')),
     h_clock = (\<lambda>k. 0), h_max_file_bytes = 1000, h_legacy_root = ''/data''\<rparr>"

definition demo_os :: os_env where
  "demo_os = \<lparr>os_expanduser = (\<lambda>p. p), os_resolve = (\<lambda>p. Some p)\<rparr>"

definition demo_context :: execution_context where
  "demo_context = \<lparr>ec_scope_id = ''u'', ec_actor_ref = None, ec_external_ref = None,
     ec_user_binding = None\<rparr>"

definition demo_request :: run_request where
  "demo_request = \<lparr>rq_session_id = ''10'', rq_input = ''hi'', rq_agent_ref = ''g'', rq_skills = [],
     rq_context = demo_context, rq_skill_paths = None\<rparr>"

definition demo_snapshot :: run_snapshot where
  "demo_snapshot = \<lparr>sn_agent_digest = ''a'', sn_runtime_ref = ''r'', sn_model_profile_ref = ''m'',
     sn_execution_profile_ref = ''e'', sn_skills = [], sn_tool_refs = [], sn_user_binding = None,
     sn_effective_skill_paths = [], sn_skill_path_source = ''LEGACY'', sn_path_digest = ''''\<rparr>"

definition demo_create :: store_op where
  "demo_create = CreateSession (demo_host ''1'') ''u'' ''k'' ''t'' None demo_context"

definition demo_accept :: store_op where
  "demo_accept = AcceptRun (demo_host ''2'') demo_request ''k1'' ''f1'' demo_snapshot False"

definition demo_claim :: store_op where
  "demo_claim = ClaimRun (demo_host ''3'') None ''w'' 60 None"

definition demo_ops :: "store_op list" where
  "demo_ops = [demo_create, demo_accept, demo_claim]"

text \<open>What the witnesses need to see of the database after it.\<close>

definition demo_view :: "db \<Rightarrow> (string \<times> string \<times> string \<times> run_status \<times> string option \<times> int) list
    \<times> (string \<times> string option \<times> int) list \<times> (string \<times> string option) list \<times> (int \<times> int \<times> string) list" where
  "demo_view d = (map (\<lambda>r. (r_id r, r_session_id r, r_workspace_id r, r_status r,
         r_active_attempt_id r, r_next_event_seq r)) (runs d),
     map (\<lambda>s. (s_id s, s_active_run_id s, s_next_event_seq s)) (sessions d),
     map (\<lambda>w. (w_id w, w_active_attempt_id w)) (workspaces d),
     map (\<lambda>e. (e_seq e, e_session_seq e, e_run_id e)) (run_events d))"

lemmas demo_act = bindA_def ret_def raise_def read_db_def mod_db_def insert_db_def with_files_def
  liftE_def transaction_def Let_def demo_host_def demo_context_def

definition demo_start :: "world \<Rightarrow> bool" where
  "demo_start w \<longleftrightarrow> (\<exists>q s k. wdb w = empty_db\<lparr>workspaces := [k], sessions := [s], session_requests := [q]\<rparr>
     \<and> s_id s = ''10'' \<and> s_scope_id s = ''u'' \<and> s_workspace_id s = ''11'' \<and> s_next_run_seq s = 1
     \<and> s_next_event_seq s = 1 \<and> s_active_run_id s = None \<and> w_id k = ''11'' \<and> w_scope_id k = ''u''
     \<and> w_project_path k = '''' \<and> w_active_attempt_id k = None \<and> w_current_revision k = None)"

lemma demo_created: "demo_start (apply_op os demo_create \<lparr>wdb = empty_db, wfiles = fs\<rparr>)"
  by (simp add: demo_create_def create_session_def create_session_tx_def demo_act empty_db_def
      demo_start_def session_workspace_def insert_workspace_def clash_def insert_session_def
      new_session_def legacy_workspace_def new_workspace_def insert_session_request_def
      new_session_request_def)

definition demo_queued :: "world \<Rightarrow> bool" where
  "demo_queued w \<longleftrightarrow> (\<exists>q s k r e. wdb w = empty_db\<lparr>workspaces := [k], sessions := [s], session_requests := [q],
       runs := [r], run_events := [e]\<rparr>
     \<and> s_id s = ''10'' \<and> s_scope_id s = ''u'' \<and> s_workspace_id s = ''11''
     \<and> s_next_event_seq s = 2 \<and> s_active_run_id s = None \<and> w_id k = ''11'' \<and> w_scope_id k = ''u''
     \<and> w_project_path k = '''' \<and> w_active_attempt_id k = None
     \<and> r_id r = ''20'' \<and> r_scope_id r = ''u'' \<and> r_session_id r = ''10'' \<and> r_workspace_id r = ''11''
     \<and> r_status r = QUEUED \<and> r_due_at r = iso 0 \<and> r_next_event_seq r = 2 \<and> r_active_attempt_id r = None
     \<and> r_idempotency_key r = ''k1'' \<and> r_request_fingerprint r = ''f1''
     \<and> e_event_id e = ''21'' \<and> e_scope_id e = ''u'' \<and> e_run_id e = ''20'' \<and> e_session_id e = ''10''
     \<and> e_seq e = 1 \<and> e_session_seq e = 1 \<and> w_current_revision k = None)"

lemma demo_accepted:
  assumes "demo_start w"
  shows "demo_queued (apply_op os demo_accept w)"
    "fst (accept_once os (demo_host ''2'') demo_request ''k1'' ''f1'' demo_snapshot False w)
       = Inr \<lparr>ar_id = ''20'', ar_session_id = ''10'', ar_status = QUEUED, ar_state_version = 0,
              ar_reused = False\<rparr>"
proof -
  obtain q s k where w: "wdb w = empty_db\<lparr>workspaces := [k], sessions := [s], session_requests := [q]\<rparr>"
    and f: "s_id s = ''10''" "s_scope_id s = ''u''" "s_workspace_id s = ''11''" "s_next_run_seq s = 1"
     "s_next_event_seq s = 1" "s_active_run_id s = None" "w_id k = ''11''" "w_scope_id k = ''u''"
     "w_project_path k = ''''" "w_active_attempt_id k = None" "w_current_revision k = None"
    using assms unfolding demo_start_def by blast
  show "demo_queued (apply_op os demo_accept w)"
    "fst (accept_once os (demo_host ''2'') demo_request ''k1'' ''f1'' demo_snapshot False w)
       = Inr \<lparr>ar_id = ''20'', ar_session_id = ''10'', ar_status = QUEUED, ar_state_version = 0,
              ar_reused = False\<rparr>"
    by (simp_all add: demo_queued_def demo_accept_def accept_once_def demo_act w f empty_db_def demo_request_def
        join_sw_def require_session_binding_def insert_new_run_def write_message_def write_snapshot_def
        write_object_act_def write_object_def insert_run_def new_run_def insert_event_locked_def
        join_rs_def append_record_def record_event_def insert_event_def event_row_of_def clash_def
        update_runs_def update_sessions_def touch_def h_now_def)
qed

definition demo_running :: "world \<Rightarrow> bool" where
  "demo_running w \<longleftrightarrow> demo_view (wdb w)
   = ([(''20'', ''10'', ''11'', RUNNING, Some ''30'', 3)], [(''10'', Some ''20'', 3)],
      [(''11'', Some ''30'')], [(1, 1, ''20''), (2, 2, ''20'')])"

lemma demo_claimed:
  assumes "demo_queued w" shows "demo_running (apply_op os demo_claim w)"
proof -
  obtain q s k r e where w: "wdb w = empty_db\<lparr>workspaces := [k], sessions := [s], session_requests := [q],
       runs := [r], run_events := [e]\<rparr>"
    and f: "s_id s = ''10''" "s_scope_id s = ''u''" "s_workspace_id s = ''11''"
     "s_next_event_seq s = 2" "s_active_run_id s = None" "w_id k = ''11''" "w_scope_id k = ''u''"
     "w_project_path k = ''''" "w_active_attempt_id k = None"
    "r_id r = ''20''" "r_scope_id r = ''u''" "r_session_id r = ''10''" "r_workspace_id r = ''11''"
    "r_status r = QUEUED" "r_due_at r = iso 0" "r_next_event_seq r = 2" "r_active_attempt_id r = None"
    "e_event_id e = ''21''" "e_scope_id e = ''u''" "e_run_id e = ''20''" "e_session_id e = ''10''"
    "e_seq e = 1" "e_session_seq e = 1"
    using assms unfolding demo_queued_def by blast
  show ?thesis
    by (simp add: demo_running_def demo_view_def demo_claim_def claim_world claim_tx_def next_claim_def
        join_rsw_def join_rs_def join_sw_def select_def claimable_def w f demo_act empty_db_def
        prior_queued_def h_now_def claim_row_def claim_binding_def insert_attempt_def new_attempt_def
        lease_session_def cas_def workspace_free_def rowcount_def lease_workspace_def update_workspaces_def
        run_at_version_def start_run_def insert_event_locked_def append_record_def
        record_event_def insert_event_def event_row_of_def clash_def update_runs_def update_sessions_def
        touch_def)
qed

lemma demo_after:
  "demo_view (history demo_os demo_ops)
   = ([(''20'', ''10'', ''11'', RUNNING, Some ''30'', 3)], [(''10'', Some ''20'', 3)],
      [(''11'', Some ''30'')], [(1, 1, ''20''), (2, 2, ''20'')])"
  using demo_claimed [OF demo_accepted(1) [OF demo_created], of demo_os demo_os demo_os "[]"]
  by (simp add: demo_running_def history_def run_ops_def demo_ops_def)

lemma demo_via_claim [simp]: "\<forall>op\<in>set demo_ops. via_claim op"
  by (simp add: demo_ops_def demo_create_def demo_accept_def demo_claim_def)

lemma demo_run:
  obtains r where "runs (history demo_os demo_ops) = [r]" "r_id r = ''20''" "r_session_id r = ''10''"
    "r_workspace_id r = ''11''" "r_status r = RUNNING" "r_active_attempt_id r = Some ''30''"
  using demo_after by (auto simp: demo_view_def)

lemma demo_next:
  assumes "demo_queued w"
  shows "\<exists>r s k. next_claim (iso 0) None (wdb w) = Some (r, s, k) \<and> r_id r = ''20''"
proof -
  obtain q s k r e where w: "wdb w = empty_db\<lparr>workspaces := [k], sessions := [s], session_requests := [q],
       runs := [r], run_events := [e]\<rparr>"
    and f: "s_id s = ''10''" "s_scope_id s = ''u''" "s_workspace_id s = ''11''"
     "s_active_run_id s = None" "w_id k = ''11''" "w_scope_id k = ''u''" "w_active_attempt_id k = None"
    "r_id r = ''20''" "r_scope_id r = ''u''" "r_session_id r = ''10''" "r_workspace_id r = ''11''"
    "r_status r = QUEUED" "r_due_at r = iso 0"
    using assms unfolding demo_queued_def by blast
  show ?thesis
    by (simp add: next_claim_def join_rsw_def join_rs_def select_def claimable_def w f empty_db_def
        prior_queued_def)
qed

lemma demo_next_claim:
  "\<exists>r s k. next_claim (iso 0) None (history demo_os [demo_create, demo_accept]) = Some (r, s, k)
     \<and> r_id r = ''20''"
  using demo_next [OF demo_accepted(1) [OF demo_created], of demo_os demo_os "[]"]
  by (simp add: history_def run_ops_def)

lemma demo_event:
  assumes "demo_queued w"
  shows "\<exists>ne w1. insert_event_locked (demo_host ''4'') 0 1 ''u'' ''20'' MESSAGE_DELTA (JObj []) ''a'' ''t'' w
      = (Inr ne, w1) \<and> ne_event_id ne = ''40''"
proof -
  obtain q s k r e where w: "wdb w = empty_db\<lparr>workspaces := [k], sessions := [s], session_requests := [q],
       runs := [r], run_events := [e]\<rparr>"
    and f: "s_id s = ''10''" "s_scope_id s = ''u''" "s_workspace_id s = ''11''"
     "s_next_event_seq s = 2" "w_id k = ''11''" "w_scope_id k = ''u''"
    "r_id r = ''20''" "r_scope_id r = ''u''" "r_session_id r = ''10''" "r_next_event_seq r = 2"
    "e_event_id e = ''21''" "e_scope_id e = ''u''" "e_run_id e = ''20''" "e_session_id e = ''10''"
    "e_seq e = 1" "e_session_seq e = 1"
    using assms unfolding demo_queued_def by blast
  show ?thesis
    by (simp add: insert_event_locked_def demo_act w f empty_db_def join_rs_def append_record_def
        record_event_def insert_event_def event_row_of_def clash_def update_runs_def update_sessions_def touch_def)
qed

definition demo_world :: world where
  "demo_world = run_ops demo_os [demo_create, demo_accept] \<lparr>wdb = empty_db, wfiles = []\<rparr>"

lemma demo_world_queued: "demo_queued demo_world"
  using demo_accepted(1) [OF demo_created, of demo_os demo_os "[]"] by (simp add: demo_world_def run_ops_def)

lemma demo_world_ok: "store_ok (wdb demo_world)"
  unfolding demo_world_def by (rule history_ok [unfolded history_def]) (simp add: demo_create_def demo_accept_def)

end
