(* ===== verification/StoreProperties.thy ===== *)
theory StoreProperties
  imports StoreDemo
begin

text \<open>
  The properties of the store: mutual exclusion, exact leases, gap-free event numbers, append-only
  tables, readable bodies and idempotent acceptance, each for every history of operations.
\<close>

section \<open>Leases\<close>

lemma demo_lease:
  obtains r where "r \<in> set (runs (history demo_os demo_ops))" "r_status r = RUNNING"
    "r_active_attempt_id r = Some ''30''" "r_session_id r = ''10''" "r_workspace_id r = ''11''"
  using demo_run that by (metis list.set_intros(1))

text \<open>C3: After any history of store operations in which Runs are started by claiming them, at most
  one Run of a Session, and at most one Run of a workspace, is \<open>RUNNING\<close>.\<close>

theorem one_running_run:
  assumes "\<forall>op\<in>set ops. via_claim op"
    and "r \<in> set (runs (history os ops))" "q \<in> set (runs (history os ops))"
    and "r_status r = RUNNING" "r_status q = RUNNING"
    and "r_session_id r = r_session_id q \<or> r_workspace_id r = r_workspace_id q"
  shows "r = q"
proof -
  note ok = history_ok [OF assms(1), of os]
  obtain a b where "r_active_attempt_id r = Some a" "r_active_attempt_id q = Some b"
    using running_attempt [OF ok assms(2,4)] running_attempt [OF ok assms(3,5)] by metis
  then show ?thesis by (intro one_holder [OF ok assms(2,3) _ _ assms(6)]) simp_all
qed

theorem one_running_run_witness:
  "\<exists>r\<in>set (runs (history demo_os demo_ops)). r_status r = RUNNING \<and> hd (runs (history demo_os demo_ops)) = r"
proof (rule demo_run)
  fix r assume r: "runs (history demo_os demo_ops) = [r]" "r_status r = RUNNING"
  have "hd (runs (history demo_os demo_ops)) = r"
    by (rule one_running_run [OF demo_via_claim, of _ demo_os]) (use r in simp_all)
  then show ?thesis using r by auto
qed

text \<open>C4: After any such history, a \<open>RUNNING\<close> Run is the active Run of its Session, its attempt is
  the active attempt of its workspace, and that attempt has not ended.\<close>

theorem running_run_holds_leases:
  assumes "\<forall>op\<in>set ops. via_claim op" "r \<in> set (runs (history os ops))" "r_status r = RUNNING"
  shows "\<exists>aid. r_active_attempt_id r = Some aid
    \<and> (\<exists>s\<in>set (sessions (history os ops)). s_id s = r_session_id r \<and> s_active_run_id s = Some (r_id r))
    \<and> (\<exists>w\<in>set (workspaces (history os ops)). w_id w = r_workspace_id r \<and> w_active_attempt_id w = Some aid)
    \<and> (\<exists>a\<in>set (run_attempts (history os ops)). a_id a = aid \<and> a_run_id a = r_id r \<and> a_ended_at a = None)"
proof -
  note ok = history_ok [OF assms(1), of os]
  obtain aid where "r_active_attempt_id r = Some aid" by (rule running_attempt [OF ok assms(2,3)])
  then show ?thesis using run_lease_rows(2-4) [OF ok assms(2)] by blast
qed

theorem running_run_holds_leases_witness:
  "\<exists>w\<in>set (workspaces (history demo_os demo_ops)). w_id w = ''11'' \<and> w_active_attempt_id w = Some ''30''"
proof (rule demo_lease)
  fix r assume r: "r \<in> set (runs (history demo_os demo_ops))" "r_status r = RUNNING"
    "r_active_attempt_id r = Some ''30''" "r_session_id r = ''10''" "r_workspace_id r = ''11''"
  show ?thesis using running_run_holds_leases [OF demo_via_claim r(1,2)] r(3,5) by auto
qed

text \<open>C6: No lease leaks: after any such history, the active Run of a Session exists, belongs to that
  Session and has not ended, and the active attempt of a workspace is that of such a Run.\<close>

theorem leases_belong_to_live_runs:
  assumes "\<forall>op\<in>set ops. via_claim op"
  shows "(\<forall>s\<in>set (sessions (history os ops)). \<forall>rid. s_active_run_id s = Some rid \<longrightarrow>
      (\<exists>r\<in>set (runs (history os ops)). r_id r = rid \<and> r_session_id r = s_id s
         \<and> r_status r \<notin> TERMINAL_STATUSES))
    \<and> (\<forall>w\<in>set (workspaces (history os ops)). \<forall>aid. w_active_attempt_id w = Some aid \<longrightarrow>
      (\<exists>r\<in>set (runs (history os ops)). r_active_attempt_id r = Some aid \<and> r_workspace_id r = w_id w
         \<and> r_status r \<notin> TERMINAL_STATUSES))"
proof -
  let ?d = "history os ops"
  have ok: "store_ok ?d" by (rule history_ok [OF assms])
  then have k: "keys_ok ?d" and l: "leases_ok (lease_of ?d)" by (auto simp: store_ok_def lease_inv_def)
  have live: "r_status r \<notin> TERMINAL_STATUSES" if "r \<in> set (runs ?d)" "r_active_attempt_id r \<noteq> None" for r
    using run_lease_rows(1) [OF ok that(1)] that(2) by blast
  have "\<exists>r\<in>set (runs ?d). r_id r = rid \<and> r_session_id r = s_id s \<and> r_status r \<notin> TERMINAL_STATUSES"
    if s: "s \<in> set (sessions ?d)" "s_active_run_id s = Some rid" for s rid
  proof -
    have "L_sessions (lease_of ?d) (s_id s) = Some (lsession_of s)"
      using key_lookup(2) [OF k s(1), where ?g2.0 = lsession_of] by (simp add: lease_of_def)
    then obtain r where "L_runs (lease_of ?d) rid = Some r" "lr_session r = s_id s" "lr_attempt r \<noteq> None"
      using session_leaseD [OF l, of "s_id s" "lsession_of s" rid] s(2) by (auto simp: lsession_of_def)
    moreover from this(1) obtain x where "x \<in> set (runs ?d)" "r_id x = rid" "r = lrun_of x"
      unfolding lease_of_def using run_row by fastforce
    ultimately show ?thesis using live [of x] by (intro bexI [of _ x]) (simp_all add: lrun_of_def)
  qed
  moreover have "\<exists>r\<in>set (runs ?d). r_active_attempt_id r = Some aid \<and> r_workspace_id r = w_id w
      \<and> r_status r \<notin> TERMINAL_STATUSES"
    if w: "w \<in> set (workspaces ?d)" "w_active_attempt_id w = Some aid" for w aid
  proof -
    have "L_workspaces (lease_of ?d) (w_id w) = Some (lworkspace_of w)"
      using key_lookup(3) [OF k w(1), where ?g3.0 = lworkspace_of] by (simp add: lease_of_def)
    then obtain rid r where "L_runs (lease_of ?d) rid = Some r" "lr_workspace r = w_id w" "lr_attempt r = Some aid"
      using workspace_leaseD [OF l, of "w_id w" "lworkspace_of w" aid] w(2) by (auto simp: lworkspace_of_def)
    moreover from this(1) obtain x where "x \<in> set (runs ?d)" "r = lrun_of x"
      unfolding lease_of_def using run_row by fastforce
    ultimately show ?thesis using live [of x] by (intro bexI [of _ x]) (simp_all add: lrun_of_def)
  qed
  ultimately show ?thesis by blast
qed

theorem leases_belong_to_live_runs_witness:
  "\<exists>r\<in>set (runs (history demo_os demo_ops)). r_id r = ''20'' \<and> r_session_id r = ''10''
     \<and> r_status r \<notin> TERMINAL_STATUSES"
proof -
  obtain s where "s \<in> set (sessions (history demo_os demo_ops))" "s_id s = ''10''" "s_active_run_id s = Some ''20''"
    using demo_after by (auto simp: demo_view_def)
  then show ?thesis using leases_belong_to_live_runs [OF demo_via_claim, of demo_os] by metis
qed

section \<open>Claiming\<close>

text \<open>C7: The Run a worker claims is due, is the first queued Run of its Session, its Session and
  workspace are free, and no other claimable Run comes before it by due time, creation time and
  number. A Run that still has an attempt is never claimed, nor any Run of its Session or workspace.\<close>

theorem claim_takes_first_free_run:
  assumes "\<forall>op\<in>set ops. via_claim op" "next_claim now scope (history os ops) = Some (r, s, w)"
  shows "r_status r = QUEUED \<and> r_due_at r \<le> now \<and> s_active_run_id s = None
    \<and> w_active_attempt_id w = None \<and> w_id w = r_workspace_id r \<and> s_id s = r_session_id r
    \<and> (\<forall>q\<in>set (runs (history os ops)). r_session_id q = r_session_id r \<and> r_scope_id q = r_scope_id r
         \<and> r_status q = QUEUED \<longrightarrow> r_run_seq r \<le> r_run_seq q)
    \<and> (\<forall>p\<in>set (join_rsw (history os ops)). claimable now scope (history os ops) p
         \<longrightarrow> claim_order (r, s, w) \<le> claim_order p)
    \<and> (\<forall>q\<in>set (runs (history os ops)). r_active_attempt_id q \<noteq> None
         \<longrightarrow> r_session_id q \<noteq> r_session_id r \<and> r_workspace_id q \<noteq> r_workspace_id r)"
proof -
  let ?d = "history os ops"
  have ok: "store_ok ?d" by (rule history_ok [OF assms(1)])
  note c = claimableD [OF assms(2)]
  note m = join_rswD [OF c(1)]
  note rs = join_rsD [OF m [THEN conjunct1]] and sw = join_swD [OF m [THEN conjunct2]]
  have first: "\<forall>p\<in>set (join_rsw ?d). claimable now scope ?d p \<longrightarrow> claim_order (r, s, w) \<le> claim_order p"
  proof -
    let ?xs = "sort_key claim_order (select (claimable now scope ?d) (join_rsw ?d))"
    obtain ys where xs: "?xs = (r, s, w) # ys"
      using assms(2) unfolding next_claim_def by (cases ?xs) auto
    have "sorted (map claim_order ?xs)" by simp
    then have "\<forall>p\<in>set ?xs. claim_order (r, s, w) \<le> claim_order p" unfolding xs by auto
    then show ?thesis by (auto simp: select_def)
  qed
  have queue: "\<forall>q\<in>set (runs ?d). r_session_id q = r_session_id r \<and> r_scope_id q = r_scope_id r
         \<and> r_status q = QUEUED \<longrightarrow> r_run_seq r \<le> r_run_seq q"
    using c(6) by (auto simp: prior_queued_def list_ex_iff not_less)
  have held: "\<forall>q\<in>set (runs ?d). r_active_attempt_id q \<noteq> None
         \<longrightarrow> r_session_id q \<noteq> r_session_id r \<and> r_workspace_id q \<noteq> r_workspace_id r"
    using holder_blocks_claim [OF ok _ _ assms(2)] by metis
  show ?thesis using c(2-5) rs sw run_workspace(1) [OF ok] first queue held by auto
qed

theorem claim_takes_first_free_run_witness:
  "\<exists>r s w. next_claim (iso 0) None (history demo_os [demo_create, demo_accept]) = Some (r, s, w)
     \<and> r_id r = ''20'' \<and> r_due_at r \<le> iso 0 \<and> w_active_attempt_id w = None"
proof -
  obtain r s w where n: "next_claim (iso 0) None (history demo_os [demo_create, demo_accept]) = Some (r, s, w)"
      "r_id r = ''20''" using demo_next_claim by blast
  have "\<forall>op\<in>set [demo_create, demo_accept]. via_claim op" by (simp add: demo_create_def demo_accept_def)
  from claim_takes_first_free_run [OF this n(1)] n show ?thesis by blast
qed

section \<open>Events\<close>

text \<open>C8: After any such history, the events of a Run carry the numbers 1, 2, 3, .. in the order they
  were appended and the Run's counter is the next one, and so do the events of a Session.\<close>

theorem events_numbered_without_gaps:
  assumes "\<forall>op\<in>set ops. via_claim op"
  shows "(\<forall>r\<in>set (runs (history os ops)).
      map e_seq (filter (\<lambda>e. e_scope_id e = r_scope_id r \<and> e_run_id e = r_id r) (run_events (history os ops)))
        = [1..r_next_event_seq r - 1])
    \<and> (\<forall>s\<in>set (sessions (history os ops)).
      map e_session_seq (filter (\<lambda>e. e_session_id e = s_id s) (run_events (history os ops)))
        = [1..s_next_event_seq s - 1])"
  using run_events_numbered session_events_numbered history_ok [OF assms] by blast

theorem events_numbered_without_gaps_witness:
  "\<exists>s\<in>set (sessions (history demo_os demo_ops)). s_next_event_seq s = 3 \<and>
      map e_session_seq (filter (\<lambda>e. e_session_id e = s_id s) (run_events (history demo_os demo_ops)))
        = [1..s_next_event_seq s - 1]"
proof -
  obtain s where "s \<in> set (sessions (history demo_os demo_ops))" "s_next_event_seq s = 3"
    using demo_after by (auto simp: demo_view_def)
  then show ?thesis using events_numbered_without_gaps [OF demo_via_claim, of demo_os] by blast
qed

text \<open>Reading pages until one is empty, each after the last number seen.\<close>

definition drain_session :: "nat \<Rightarrow> string \<Rightarrow> db \<Rightarrow> int \<Rightarrow> nat \<Rightarrow> event_row list" where
  "drain_session fuel sid d = session_pages.drain fuel (sid, d)"

text \<open>C9: A client that reads the event stream of a Session in pages of any positive size, each after
  the last number it saw, receives every later event once and in order, up to the newest.\<close>

theorem session_stream_complete:
  assumes "\<forall>op\<in>set ops. via_claim op" "0 \<le> k" "0 < limit"
    and "nat (session_event_cursor sid (history os ops) - k) < fuel"
  shows "map e_session_seq (drain_session fuel sid (history os ops) k limit)
       = [k + 1..session_event_cursor sid (history os ops)]"
  using session_pages.drain_complete [of "(sid, history os ops)" k limit fuel] assms history_ok
  by (simp add: drain_session_def)

theorem session_stream_complete_witness:
  "map e_session_seq (drain_session 5 ''10'' (history demo_os demo_ops) 0 1)
     = [1..session_event_cursor ''10'' (history demo_os demo_ops)]"
proof -
  have "map (\<lambda>e. (e_seq e, e_session_seq e, e_run_id e)) (run_events (history demo_os demo_ops))
      = [(1, 1, ''20''), (2, 2, ''20'')]"
    using demo_after by (simp add: demo_view_def)
  then obtain a b where ab: "run_events (history demo_os demo_ops) = [a, b]" "e_session_seq a = 1" "e_session_seq b = 2"
    by (auto simp: map_eq_Cons_conv)
  have le: "session_event_cursor ''10'' (history demo_os demo_ops) \<le> 2"
    by (simp add: session_event_cursor_def select_def ab)
  show ?thesis
    using session_stream_complete [OF demo_via_claim, where k = 0 and limit = 1 and fuel = 5
        and sid = "''10''" and os = demo_os] le by simp
qed

text \<open>C10: Nothing that was written is taken back: continuing any history keeps every Run's and
  Session's identity (ids, scope, Session, workspace, number, request key and fingerprint), every
  event and every workspace revision, in their order, and every byte of every body file.\<close>

theorem history_only_grows:
  assumes "\<forall>op\<in>set ops. via_claim op" "\<forall>op\<in>set later_ops. via_claim op"
  shows "grows (history os ops) (history os (ops @ later_ops))
    \<and> extends (wfiles (run_ops os ops \<lparr>wdb = empty_db, wfiles = []\<rparr>))
        (wfiles (run_ops os (ops @ later_ops) \<lparr>wdb = empty_db, wfiles = []\<rparr>))"
proof -
  let ?w = "run_ops os ops \<lparr>wdb = empty_db, wfiles = []\<rparr>"
  have app: "run_ops os (ops @ later_ops) v = run_ops os later_ops (run_ops os ops v)" for v
    by (simp add: run_ops_def)
  have "store_ok (wdb ?w)" using history_ok [OF assms(1)] by (simp add: history_def)
  then have "grows (wdb ?w) (wdb (run_ops os later_ops ?w))"
    using run_ops_sim [OF assms(2)] by (simp add: sim_def)
  then show ?thesis by (simp add: history_def app run_ops_files)
qed

theorem history_only_grows_witness:
  "grows (history demo_os demo_ops) (history demo_os (demo_ops @ demo_ops))"
  by (rule history_only_grows [THEN conjunct1]) simp_all



section \<open>Idempotent acceptance\<close>

definition accepted_in :: "db \<Rightarrow> string \<times> string \<times> string \<Rightarrow> string \<Rightarrow> string \<Rightarrow> bool" where
  "accepted_in d key fp rid \<longleftrightarrow> (\<exists>r\<in>set (runs d). run_key r = key \<and> r_request_fingerprint r = fp \<and> r_id r = rid)"

lemma accepted_in_grows: "grows d d' \<Longrightarrow> accepted_in d key fp rid \<Longrightarrow> accepted_in d' key fp rid"
proof -
  assume g: "grows d d'" and "accepted_in d key fp rid"
  then obtain r where r: "r \<in> set (runs d)" "run_key r = key" "r_request_fingerprint r = fp" "r_id r = rid"
    by (auto simp: accepted_in_def)
  obtain xs where "map run_ident (runs d') = map run_ident (runs d) @ xs" using g unfolding grows_def by blast
  then have "run_ident r \<in> set (map run_ident (runs d'))" using r(1) by (simp only:) simp
  then obtain x where "x \<in> set (runs d')" "run_ident x = run_ident r" by auto
  then show ?thesis using r unfolding accepted_in_def
    by (intro bexI [of _ x]) (auto simp: run_ident_def run_key_def)
qed

lemma wp_accept_once:
  "wp (accept_once os h rq key fp snap reject)
     (\<lambda>a w'. accepted_in (wdb w') (ec_scope_id (rq_context rq), rq_session_id rq, key) fp (ar_id a)) w"
proof -
  let ?key = "(ec_scope_id (rq_context rq), rq_session_id rq, key)"
  have new: "accepted_in (update_sessions P (\<lambda>x. touch n a (x\<lparr>s_next_run_seq := v\<rparr>)) d') ?key fp rid"
    if "insert_run (new_run rid rq wid m key fp i sn now actor) d0 = Inr d" "event_added scope rid2 et d d'"
    for rid wid m i sn now actor d0 d d' scope rid2 et P n a v
  proof -
    have "accepted_in d ?key fp rid" using that(1)
      by (auto simp: accepted_in_def insert_run_def new_run_def run_key_def split: if_splits)
    then have "accepted_in d' ?key fp rid" by (rule accepted_in_grows [OF event_added_grows [OF that(2)]])
    then show ?thesis by (simp add: accepted_in_def)
  qed
  have old: "accepted_in (wdb w) ?key (r_request_fingerprint r) (r_id r)"
    if "select_one (\<lambda>r. r_scope_id r = ec_scope_id (rq_context rq) \<and> r_session_id r = rq_session_id rq
          \<and> r_idempotency_key r = key) (runs (wdb w)) = Some r" for r
    using select_one_SomeD [OF that] by (auto simp: accepted_in_def run_key_def)
  show ?thesis
    by (auto simp: accept_once_def Let_def insert_new_run_def write_message_def write_snapshot_def
        write_object_act_def wp_simps split: option.split intro!: wp_event new old)
qed

lemma find_accepted:
  assumes "keys_ok d" "accepted_in d (scope, sid, key) fp rid"
  obtains r where "select_one (\<lambda>r. r_scope_id r = scope \<and> r_session_id r = sid \<and> r_idempotency_key r = key) (runs d) = Some r"
    "r_request_fingerprint r = fp" "r_id r = rid"
proof -
  obtain r where r: "r \<in> set (runs d)" "run_key r = (scope, sid, key)" "r_request_fingerprint r = fp" "r_id r = rid"
    using assms(2) by (auto simp: accepted_in_def)
  have "select_one (\<lambda>r. r_scope_id r = scope \<and> r_session_id r = sid \<and> r_idempotency_key r = key) (runs d) = Some r"
  proof (rule select_one_unique [OF r(1)])
    show "r_scope_id r = scope \<and> r_session_id r = sid \<and> r_idempotency_key r = key"
      using r(2) by (simp add: run_key_def)
    fix y assume "y \<in> set (runs d)" "r_scope_id y = scope \<and> r_session_id y = sid \<and> r_idempotency_key y = key"
    then show "y = r" using assms(1) r(1,2)
      by (intro distinct_map_inj [of run_key "runs d"]) (auto simp: keys_ok_def run_key_def)
  qed
  then show ?thesis using r that by blast
qed

text \<open>Accepting is idempotent: once a request was accepted under a key, then after any later
  history the same key with the same fingerprint returns the same Run, marked as reused, and
  changes nothing; with another fingerprint it is refused with \<open>IDEMPOTENCY_CONFLICT\<close>.\<close>

theorem accept_is_idempotent:
  assumes "accept_once os h rq key fp snap reject w = (Inr a, w1)"
    and "store_ok (wdb w)" "\<forall>op\<in>set ops. via_claim op" "w2 = run_ops os ops w1"
    and "ec_scope_id (rq_context rq2) = ec_scope_id (rq_context rq)" "rq_session_id rq2 = rq_session_id rq"
  shows "(fp2 = fp \<longrightarrow> (\<exists>b. accept_once os h2 rq2 key fp2 snap2 reject2 w2 = (Inr b, w2)
            \<and> ar_id b = ar_id a \<and> ar_reused b))
    \<and> (fp2 \<noteq> fp \<longrightarrow> accept_once os h2 rq2 key fp2 snap2 reject2 w2
         = (Inl (DomainError IDEMPOTENCY_CONFLICT ''Key is already bound to different input''), w2))"
proof -
  let ?key = "(ec_scope_id (rq_context rq), rq_session_id rq, key)"
  have "sim (wdb w) (wdb w1)" using safeD [OF accept_once_safe assms(2)] assms(1) by (metis snd_conv)
  then have ok1: "store_ok (wdb w1)" using assms(2) sim_store_ok by blast
  then have s: "sim (wdb w1) (wdb w2)" using run_ops_sim [OF assms(3)] assms(4) by simp
  have "accepted_in (wdb w1) ?key fp (ar_id a)" using wpD [OF wp_accept_once assms(1)] .
  then have acc: "accepted_in (wdb w2) ?key fp (ar_id a)" using accepted_in_grows s unfolding sim_def by blast
  have k2: "keys_ok (wdb w2)" using s by (simp add: sim_def)
  obtain r where r: "select_one (\<lambda>r. r_scope_id r = ec_scope_id (rq_context rq2)
        \<and> r_session_id r = rq_session_id rq2 \<and> r_idempotency_key r = key) (runs (wdb w2)) = Some r"
      "r_request_fingerprint r = fp" "r_id r = ar_id a"
    unfolding assms(5,6) by (rule find_accepted [OF k2 acc])
  show ?thesis
    using r(2,3) by (auto simp: accept_once_def Let_def transaction_def bindA_def read_db_def r(1) ret_def raise_def)
qed

theorem accept_is_idempotent_witness:
  "\<exists>w a b. accept_once demo_os (demo_host ''2'') demo_request ''k1'' ''f1'' demo_snapshot False w = (Inr a, demo_world)
    \<and> accept_once demo_os (demo_host ''5'') demo_request ''k1'' ''f1'' demo_snapshot True demo_world = (Inr b, demo_world)
    \<and> ar_id b = ''20'' \<and> ar_reused b"
proof -
  let ?w = "apply_op demo_os demo_create \<lparr>wdb = empty_db, wfiles = []\<rparr>"
  have ok: "store_ok (wdb ?w)"
    using history_ok [of "[demo_create]" demo_os] by (simp add: history_def run_ops_def demo_create_def)
  obtain a where a: "accept_once demo_os (demo_host ''2'') demo_request ''k1'' ''f1'' demo_snapshot False ?w
      = (Inr a, demo_world)" "ar_id a = ''20''"
    using demo_accepted(2) [OF demo_created, of demo_os demo_os "[]"]
    by (cases "accept_once demo_os (demo_host ''2'') demo_request ''k1'' ''f1'' demo_snapshot False ?w")
       (auto simp: demo_world_def run_ops_def demo_accept_def)
  have "\<exists>b. accept_once demo_os (demo_host ''5'') demo_request ''k1'' ''f1'' demo_snapshot True demo_world
      = (Inr b, demo_world) \<and> ar_id b = ar_id a \<and> ar_reused b"
    using accept_is_idempotent [OF a(1) ok, of "[]" demo_world demo_request "''f1''" "demo_host ''5''" demo_snapshot True]
    by (simp add: run_ops_def)
  then show ?thesis using a by auto
qed

end
