(* ===== verification/FileTree.thy ===== *)
theory FileTree
  imports Bindings "HOL-Library.AList" "HOL-Library.Sublist"
begin

text \<open>
  The directory tree the workspace store and the Skill resolver work on, with the operations of
  \<open>pathlib\<close> and \<open>shutil\<close> they use. A tree is a list of entries, each a location (the names
  below \<open>/\<close>) with its node; the root is a directory that needs no entry. There are no symbolic
  links, permissions, times or sizes beyond the bytes; a relative path starts at \<open>/\<close>.

  An operation that can fail half way is a function of the tree into a result and the tree it
  leaves.
\<close>

section \<open>Steps that can fail\<close>

type_synonym ('s, 'a) io = "'s \<Rightarrow> (exn + 'a) \<times> 's"

definition returnS :: "'a \<Rightarrow> ('s, 'a) io" where
  "returnS x s = (Inr x, s)"

definition raiseS :: "exn \<Rightarrow> ('s, 'a) io" where
  "raiseS e s = (Inl e, s)"

definition thenS :: "('s, 'a) io \<Rightarrow> ('a \<Rightarrow> ('s, 'b) io) \<Rightarrow> ('s, 'b) io" where
  "thenS m f s = (case m s of (Inl e, s') \<Rightarrow> (Inl e, s') | (Inr x, s') \<Rightarrow> f x s')"

definition readS :: "('s \<Rightarrow> 'a) \<Rightarrow> ('s, 'a) io" where
  "readS f s = (Inr (f s), s)"

definition liftS :: "exn + 'a \<Rightarrow> ('s, 'a) io" where
  "liftS r s = (r, s)"

definition changeS :: "('s \<Rightarrow> exn + 's) \<Rightarrow> ('s, unit) io" where
  "changeS f s = (case f s of Inl e \<Rightarrow> (Inl e, s) | Inr s' \<Rightarrow> (Inr (), s'))"

fun eachS :: "('a \<Rightarrow> ('s, unit) io) \<Rightarrow> 'a list \<Rightarrow> ('s, unit) io" where
  "eachS f [] = returnS ()"
| "eachS f (x # xs) = thenS (f x) (\<lambda>_. eachS f xs)"

lemmas io_defs = returnS_def raiseS_def thenS_def readS_def liftS_def changeS_def

lemma thenS_InrE:
  assumes "thenS m f s = (Inr y, s')"
  obtains x s1 where "m s = (Inr x, s1)" "f x s1 = (Inr y, s')"
  using assms by (auto simp: thenS_def split: prod.splits sum.splits)

lemma io_Inr [simp]:
  "returnS x s = (Inr y, s') \<longleftrightarrow> y = x \<and> s' = s"
  "raiseS e s = (Inr y, s') \<longleftrightarrow> False"
  "readS g s = (Inr z, s') \<longleftrightarrow> z = g s \<and> s' = s"
  "liftS r s = (Inr z, s') \<longleftrightarrow> r = Inr z \<and> s' = s"
  "changeS h s = (Inr u, s') \<longleftrightarrow> h s = Inr s'"
  by (auto simp: io_defs split: sum.splits)

section \<open>Trees\<close>

datatype node = Dir | File string

type_synonym loc = "string list"
type_synonym tree = "(loc \<times> node) list"

definition node_at :: "tree \<Rightarrow> loc \<Rightarrow> node option" where
  "node_at t l = (if l = [] then Some Dir else map_of t l)"

text \<open>Looking a path up: every name but the last must be a directory, \<open>..\<close> goes to the parent.\<close>

fun walk :: "tree \<Rightarrow> loc \<Rightarrow> string list \<Rightarrow> loc option" where
  "walk t cur [] = Some cur"
| "walk t cur (p # ps) =
     (if node_at t cur = Some Dir
      then walk t (if p = ''..'' then butlast cur else cur @ [p]) ps else None)"

definition location :: "tree \<Rightarrow> ppath \<Rightarrow> loc option" where
  "location t p = walk t [] (pp_parts p)"

definition stat :: "tree \<Rightarrow> ppath \<Rightarrow> node option" where
  "stat t p = Option.bind (location t p) (node_at t)"

definition path_exists :: "tree \<Rightarrow> ppath \<Rightarrow> bool" where
  "path_exists t p = (stat t p \<noteq> None)"

definition path_is_dir :: "tree \<Rightarrow> ppath \<Rightarrow> bool" where
  "path_is_dir t p = (stat t p = Some Dir)"

definition path_is_file :: "tree \<Rightarrow> ppath \<Rightarrow> bool" where
  "path_is_file t p = (case stat t p of Some (File _) \<Rightarrow> True | _ \<Rightarrow> False)"

definition path_bytes :: "tree \<Rightarrow> ppath \<Rightarrow> exn + string" where
  "path_bytes t p = (case stat t p of
     Some (File c) \<Rightarrow> Inr c
   | Some Dir \<Rightarrow> Inl (OSErr ''IsADirectoryError'')
   | None \<Rightarrow> Inl (OSErr ''FileNotFoundError''))"

text \<open>\<open>iterdir\<close> and \<open>rglob("*")\<close>, as names and locations below the directory.\<close>

definition child_names :: "tree \<Rightarrow> loc \<Rightarrow> string list" where
  "child_names t l = map last (filter (\<lambda>k. k \<noteq> [] \<and> butlast k = l) (map fst t))"

definition below :: "tree \<Rightarrow> loc \<Rightarrow> loc list" where
  "below t l = map (drop (length l)) (filter (strict_prefix l) (map fst t))"

text \<open>The files below a directory, as relative locations with their bytes.\<close>

definition files_below :: "tree \<Rightarrow> loc \<Rightarrow> (loc \<times> string) list" where
  "files_below t l = List.map_filter (\<lambda>k. case node_at t (l @ k) of
     Some (File c) \<Rightarrow> Some (k, c) | _ \<Rightarrow> None) (below t l)"

section \<open>Changing a tree\<close>

text \<open>\<open>mkdir(parents=True, exist_ok=True)\<close>, from the shortest missing prefix on.\<close>

definition mkdir_one :: "loc \<Rightarrow> tree \<Rightarrow> exn + tree" where
  "mkdir_one l t = (case node_at t l of
     None \<Rightarrow> Inr (AList.update l Dir t)
   | Some Dir \<Rightarrow> Inr t
   | Some (File _) \<Rightarrow> Inl (OSErr ''FileExistsError''))"

fun mkdirs_from :: "loc \<Rightarrow> string list \<Rightarrow> tree \<Rightarrow> exn + tree" where
  "mkdirs_from done [] t = Inr t"
| "mkdirs_from done (p # ps) t = bindE (mkdir_one (done @ [p]) t) (mkdirs_from (done @ [p]) ps)"

definition mkdirs :: "loc \<Rightarrow> tree \<Rightarrow> exn + tree" where
  "mkdirs l t = mkdirs_from [] l t"

definition write_file :: "loc \<Rightarrow> string \<Rightarrow> tree \<Rightarrow> exn + tree" where
  "write_file l c t = (
     if node_at t l = Some Dir then Inl (OSErr ''IsADirectoryError'')
     else if node_at t (butlast l) \<noteq> Some Dir then Inl (OSErr ''FileNotFoundError'')
     else Inr (AList.update l (File c) t))"

definition unlink :: "loc \<Rightarrow> tree \<Rightarrow> exn + tree" where
  "unlink l t = (case node_at t l of
     Some (File _) \<Rightarrow> Inr (filter (\<lambda>(k, _). k \<noteq> l) t)
   | Some Dir \<Rightarrow> Inl (OSErr ''IsADirectoryError'')
   | None \<Rightarrow> Inl (OSErr ''FileNotFoundError''))"

definition rmtree :: "loc \<Rightarrow> tree \<Rightarrow> exn + tree" where
  "rmtree l t = Inr (filter (\<lambda>(k, _). \<not> prefix l k) t)"

text \<open>\<open>shutil.copy2(source, target)\<close>: a target that is a directory receives the file.\<close>

definition copy2 :: "loc \<Rightarrow> loc \<Rightarrow> tree \<Rightarrow> exn + tree" where
  "copy2 src dst t = (case node_at t src of
     Some (File c) \<Rightarrow> write_file (if node_at t dst = Some Dir then dst @ [last src] else dst) c t
   | Some Dir \<Rightarrow> Inl (OSErr ''IsADirectoryError'')
   | None \<Rightarrow> Inl (OSErr ''FileNotFoundError''))"

text \<open>
  \<open>shutil.copytree\<close>: the directory and everything below it that \<open>ignore\<close> keeps, a directory
  before its entries. The entries are read before anything is written.
\<close>

definition copy_node :: "loc \<Rightarrow> node \<Rightarrow> tree \<Rightarrow> exn + tree" where
  "copy_node dst n t = (case n of
     Dir \<Rightarrow> mkdir_one dst t
   | File c \<Rightarrow> write_file dst c t)"

fun copy_nodes :: "loc \<Rightarrow> (loc \<times> node) list \<Rightarrow> tree \<Rightarrow> exn + tree" where
  "copy_nodes dst [] t = Inr t"
| "copy_nodes dst ((k, n) # kns) t = bindE (copy_node (dst @ k) n t) (copy_nodes dst kns)"

definition copytree :: "(string \<Rightarrow> bool) \<Rightarrow> bool \<Rightarrow> loc \<Rightarrow> loc \<Rightarrow> tree \<Rightarrow> exn + tree" where
  "copytree ignored dirs_exist_ok src dst t =
     (if node_at t src \<noteq> Some Dir then Inl (OSErr ''NotADirectoryError'')
      else if node_at t dst \<noteq> None \<and> \<not> dirs_exist_ok then Inl (OSErr ''FileExistsError'')
      else bindE (mkdirs dst t) (copy_nodes dst (List.map_filter
             (\<lambda>k. map_option (Pair k) (node_at t (src @ k)))
             (sort (filter (\<lambda>k. \<not> list_ex ignored k) (below t src))))))"


section \<open>What the operations do to a tree\<close>

named_theorems tree_simps \<open>the node at a location after an operation\<close>

lemma node_at_Nil [simp]: "node_at t [] = Some Dir"
  by (simp add: node_at_def)

lemma node_at_update [tree_simps]:
  "l \<noteq> [] \<Longrightarrow> node_at (AList.update l n t) = (node_at t)(l \<mapsto> n)"
  by (rule ext) (simp add: node_at_def update_conv')

lemma map_of_filter_key: "map_of (filter (\<lambda>(k, _). P k) t) = (\<lambda>k. if P k then map_of t k else None)"
  by (induction t) (auto simp: fun_eq_iff)

lemma node_at_filter [tree_simps]:
  "P [] \<Longrightarrow> node_at (filter (\<lambda>(k, _). P k) t) = (\<lambda>k. if P k then node_at t k else None)"
  by (rule ext) (simp add: node_at_def map_of_filter_key)

lemma mkdir_one_node:
  assumes "mkdir_one l t = Inr t'"
  shows "node_at t' = (node_at t)(l \<mapsto> Dir)"
  using assms by (cases "l = []")
    (auto simp: mkdir_one_def node_at_update fun_eq_iff split: option.splits node.splits)

lemma mkdirs_from_node:
  assumes "mkdirs_from done ps t = Inr t'" "node_at t done = Some Dir"
  shows "node_at t' k = (if \<exists>j\<le>length ps. k = done @ take j ps then Some Dir else node_at t k)"
  using assms
proof (induction ps arbitrary: "done" t)
  case Nil then show ?case by auto
next
  case (Cons p ps)
  obtain t1 where t1: "mkdir_one (done @ [p]) t = Inr t1" "mkdirs_from (done @ [p]) ps t1 = Inr t'"
    using Cons.prems(1) by (auto elim!: bindE_InrE)
  note n = mkdir_one_node [OF t1(1)]
  have ih: "node_at t' k = (if \<exists>j\<le>length ps. k = (done @ [p]) @ take j ps then Some Dir else node_at t1 k)"
    by (rule Cons.IH [OF t1(2)]) (simp add: n)
  have "(\<exists>j\<le>length (p # ps). k = done @ take j (p # ps))
      \<longleftrightarrow> k = done \<or> (\<exists>j\<le>length ps. k = done @ p # take j ps)"
  proof
    assume "\<exists>j\<le>length (p # ps). k = done @ take j (p # ps)"
    then obtain j where "j \<le> Suc (length ps)" "k = done @ take j (p # ps)" by auto
    then show "k = done \<or> (\<exists>j\<le>length ps. k = done @ p # take j ps)" by (cases j) auto
  next
    assume "k = done \<or> (\<exists>j\<le>length ps. k = done @ p # take j ps)"
    then show "\<exists>j\<le>length (p # ps). k = done @ take j (p # ps)"
      by (auto intro: exI [of _ 0] exI [of _ "Suc _"])
  qed
  then show ?case using ih Cons.prems(2) by (auto simp: n)
qed

lemma prefix_iff_take: "prefix k l \<longleftrightarrow> (\<exists>j\<le>length l. k = take j l)"
  by (metis append_eq_conv_conj nat_le_linear prefix_def prefix_length_le take_all take_is_prefix)

lemma mkdirs_node [tree_simps]:
  "mkdirs l t = Inr t' \<Longrightarrow> node_at t' k = (if prefix k l then Some Dir else node_at t k)"
  using mkdirs_from_node [of "[]" l t t' k] by (simp add: mkdirs_def prefix_iff_take)

lemma write_file_node [tree_simps]:
  "write_file l c t = Inr t' \<Longrightarrow> node_at t' = (node_at t)(l \<mapsto> File c)"
  by (cases "l = []") (auto simp: write_file_def node_at_update split: if_splits)

lemma write_file_ok:
  "node_at t l \<noteq> Some Dir \<Longrightarrow> node_at t (butlast l) = Some Dir \<Longrightarrow>
    write_file l c t = Inr (AList.update l (File c) t)"
  by (simp add: write_file_def)

lemma unlink_node [tree_simps]:
  "unlink l t = Inr t' \<Longrightarrow> node_at t' = (node_at t)(l := None)"
  by (cases "l = []") (auto simp: unlink_def node_at_filter fun_eq_iff split: option.splits node.splits)

lemma copy_node_node:
  "copy_node dst n t = Inr t' \<Longrightarrow> node_at t' = (node_at t)(dst \<mapsto> n)"
  by (auto simp: copy_node_def write_file_node mkdir_one_node split: node.splits)

lemma copy_nodes_node:
  assumes "copy_nodes dst kns t = Inr t'" "distinct (map fst kns)"
  shows "node_at t' l = (if prefix dst l \<and> drop (length dst) l \<in> set (map fst kns)
    then map_of kns (drop (length dst) l) else node_at t l)"
  using assms
proof (induction kns arbitrary: t)
  case Nil then show ?case by simp
next
  case (Cons kn kns)
  obtain k n where kn: "kn = (k, n)" by force
  obtain t1 where t1: "copy_node (dst @ k) n t = Inr t1" "copy_nodes dst kns t1 = Inr t'"
    using Cons.prems(1) by (auto simp: kn elim!: bindE_InrE)
  have l: "l = dst @ k \<longleftrightarrow> prefix dst l \<and> drop (length dst) l = k"
    by (auto simp: prefix_def)
  show ?case using Cons.IH [OF t1(2)] Cons.prems(2) l
    by (auto simp: copy_node_node [OF t1(1)] kn)
qed

text \<open>A tree whose entries have distinct valid locations, each in a directory.\<close>

definition valid_name :: "string \<Rightarrow> bool" where
  "valid_name p \<longleftrightarrow> p \<noteq> [] \<and> p \<noteq> ''.'' \<and> p \<noteq> ''..'' \<and> CHR ''/'' \<notin> set p"

definition wf_tree :: "tree \<Rightarrow> bool" where
  "wf_tree t \<longleftrightarrow> distinct (map fst t) \<and> (\<forall>l\<in>set (map fst t). l \<noteq> [] \<and> list_all valid_name l
     \<and> node_at t (butlast l) = Some Dir)"

lemma node_at_key: "l \<noteq> [] \<Longrightarrow> node_at t l \<noteq> None \<longleftrightarrow> l \<in> set (map fst t)"
  by (auto simp: node_at_def map_of_eq_None_iff)

lemma wf_tree_parent:
  "wf_tree t \<Longrightarrow> node_at t l = Some n \<Longrightarrow> l \<noteq> [] \<Longrightarrow> node_at t (butlast l) = Some Dir"
  unfolding wf_tree_def by (metis node_at_key option.distinct(1))

lemma wf_tree_prefix:
  assumes "wf_tree t" "node_at t l = Some n" "strict_prefix k l"
  shows "node_at t k = Some Dir"
  using assms(2,3)
proof (induction l arbitrary: n rule: rev_induct)
  case Nil then show ?case by simp
next
  case (snoc x l)
  have "node_at t l = Some Dir" using wf_tree_parent [OF assms(1) snoc.prems(1)] by simp
  then show ?case using snoc by (cases "k = l") (auto simp: strict_prefix_def prefix_snoc)
qed

lemma walk_plain:
  assumes "''..'' \<notin> set ps" "\<And>j. j < length ps \<Longrightarrow> node_at t (cur @ take j ps) = Some Dir"
  shows "walk t cur ps = Some (cur @ ps)"
  using assms
proof (induction ps arbitrary: cur)
  case Nil then show ?case by simp
next
  case (Cons p ps)
  have "node_at t cur = Some Dir" using Cons.prems(2) [of 0] by simp
  moreover have "node_at t ((cur @ [p]) @ take j ps) = Some Dir" if "j < length ps" for j
    using Cons.prems(2) [of "Suc j"] that by simp
  ultimately show ?case using Cons by force
qed

lemma walk_SomeD:
  "''..'' \<notin> set ps \<Longrightarrow> walk t cur ps = Some l \<Longrightarrow> l = cur @ ps"
  by (induction ps arbitrary: cur) (force split: if_splits)+

text \<open>A node at a location without \<open>..\<close> is found by its path.\<close>

lemma stat_wf:
  assumes "wf_tree t" "''..'' \<notin> set (pp_parts p)"
  shows "stat t p = node_at t (pp_parts p)"
proof (cases "node_at t (pp_parts p)")
  case (Some n)
  have "walk t [] (pp_parts p) = Some (pp_parts p)"
  proof -
    have "node_at t (take j (pp_parts p)) = Some Dir" if "j < length (pp_parts p)" for j
      using that by (intro wf_tree_prefix [OF assms(1) Some])
        (auto simp: strict_prefix_def take_is_prefix dest: arg_cong [of _ _ length])
    then show ?thesis using walk_plain [OF assms(2), of t "[]"] by simp
  qed
  then show ?thesis by (simp add: stat_def location_def)
next
  case None
  then show ?thesis using walk_SomeD [OF assms(2), of t "[]"]
    by (cases "walk t [] (pp_parts p)") (auto simp: stat_def location_def)
qed

end
