(* ===== verification/Service.thy ===== *)
theory Service
  imports StoreProperties FileTree
begin

text \<open>
  Accepting a message: \<open>RunService.submit\<close> of \<open>src/code_forge/service.py\<close> over the
  \<open>RunRepository\<close> interface of \<open>ports.py\<close>, and the SQLite repository that implements it
  (\<open>SqliteRunRepository\<close>).

  The repository is an interface, stated as a locale over its three calls; the resolver and the
  authorization are arguments. What other clients do while \<open>submit\<close> awaits the resolver is part
  of what the resolver does to the state.
\<close>

section \<open>Submitting\<close>

definition binding_ref_json :: "skill_binding \<Rightarrow> json" where
  "binding_ref_json b = JObj [(''name'', JStr (sb_name b)), (''version'', opt_str (sb_version b))]"

definition request_json :: "run_request \<Rightarrow> json" where
  "request_json rq = JObj [(''session_id'', JStr (rq_session_id rq)), (''input'', JStr (rq_input rq)),
     (''agent_ref'', JStr (rq_agent_ref rq)), (''skills'', JArr (map binding_ref_json (rq_skills rq))),
     (''context'', context_json (rq_context rq)),
     (''skill_paths'', case rq_skill_paths rq of None \<Rightarrow> JNull | Some ps \<Rightarrow> JArr (map JStr ps))]"

definition request_fingerprint :: "host \<Rightarrow> run_request \<Rightarrow> string" where
  "request_fingerprint h rq = fingerprint h (request_json rq)"

abbreviation scope_of :: "run_request \<Rightarrow> string" where
  "scope_of rq \<equiv> ec_scope_id (rq_context rq)"

type_synonym 'w finder = "'w \<Rightarrow> string \<Rightarrow> string \<Rightarrow> string \<Rightarrow> existing_request option"
type_synonym 'w acceptor =
  "run_request \<Rightarrow> string \<Rightarrow> string \<Rightarrow> run_snapshot \<Rightarrow> bool \<Rightarrow> ('w, accepted_run) io"

definition valid_sizes :: "run_request \<Rightarrow> string \<Rightarrow> bool" where
  "valid_sizes rq key \<longleftrightarrow> 1 \<le> length key \<and> length key \<le> 200
     \<and> 1 \<le> length (rq_input rq) \<and> length (rq_input rq) \<le> 100000"

definition submit_run :: "'w finder \<Rightarrow> ('w \<Rightarrow> string \<Rightarrow> string \<Rightarrow> exn + unit) \<Rightarrow> 'w acceptor
    \<Rightarrow> (run_request \<Rightarrow> ('w, run_snapshot) io)
    \<Rightarrow> (execution_context \<Rightarrow> string \<Rightarrow> string \<Rightarrow> exn + unit)
    \<Rightarrow> host \<Rightarrow> run_request \<Rightarrow> string \<Rightarrow> bool \<Rightarrow> ('w, accepted_run) io" where
  "submit_run find_req require_ses accept_req resolve auth h rq key reject_if_active =
     (if \<not> valid_sizes rq key
      then raiseS (DomainError INVALID_REQUEST ''Invalid request key or input size'')
      else thenS (liftS (auth (rq_context rq) ''run.submit'' (rq_session_id rq))) (\<lambda>_.
      thenS (\<lambda>w. liftS (require_ses w (scope_of rq) (rq_session_id rq)) w) (\<lambda>_.
      let fp = request_fingerprint h rq in
      thenS (readS (\<lambda>w. find_req w (scope_of rq) (rq_session_id rq) key)) (\<lambda>existing.
      case existing of
        Some e \<Rightarrow>
          if er_fingerprint e \<noteq> fp
          then raiseS (DomainError IDEMPOTENCY_CONFLICT ''Key is already bound to different input'')
          else returnS ((er_run e)\<lparr>ar_reused := True\<rparr>)
      | None \<Rightarrow> thenS (resolve rq) (\<lambda>snapshot. accept_req rq key fp snapshot reject_if_active)))))"

section \<open>The repository interface\<close>

text \<open>
  \<open>later w w2\<close>: the repository in state \<open>w\<close> may be in \<open>w2\<close> after more calls. What a repository
  promises: an accepted or found key stays bound to its fingerprint and its Run, a Session stays,
  and accepting leads to a later state.
\<close>

locale run_repository =
  fixes find_req :: "'w finder"
    and require_ses :: "'w \<Rightarrow> string \<Rightarrow> string \<Rightarrow> exn + unit"
    and accept_req :: "'w acceptor"
    and valid :: "'w \<Rightarrow> bool"
    and later_state :: "'w \<Rightarrow> 'w \<Rightarrow> bool"
  assumes accepted_found: "valid w \<Longrightarrow> accept_req rq key fp snap rej w = (Inr a, w1) \<Longrightarrow>
      \<exists>e. find_req w1 (scope_of rq) (rq_session_id rq) key = Some e \<and> er_fingerprint e = fp
        \<and> ar_id (er_run e) = ar_id a"
    and found_stays: "valid w \<Longrightarrow> later_state w w2 \<Longrightarrow> find_req w scope sid key = Some e \<Longrightarrow>
      \<exists>e2. find_req w2 scope sid key = Some e2 \<and> er_fingerprint e2 = er_fingerprint e
        \<and> ar_id (er_run e2) = ar_id (er_run e)"
    and session_stays: "valid w \<Longrightarrow> later_state w w2 \<Longrightarrow> require_ses w scope sid = Inr () \<Longrightarrow>
      require_ses w2 scope sid = Inr ()"
    and accept_later: "valid w \<Longrightarrow> later_state w (snd (accept_req rq key fp snap rej w))"
    and later_valid: "valid w \<Longrightarrow> later_state w w2 \<Longrightarrow> valid w2"
    and later_trans: "later_state u v \<Longrightarrow> later_state v x \<Longrightarrow> later_state u x"
begin

definition lawful :: "(run_request \<Rightarrow> ('w, run_snapshot) io) \<Rightarrow> bool" where
  "lawful resolve \<longleftrightarrow> (\<forall>rq w. valid w \<longrightarrow> later_state w (snd (resolve rq w)))"

lemma submit_bound:
  assumes "valid w" "lawful resolve"
    and "submit_run find_req require_ses accept_req resolve auth h rq key rej w = (Inr a, w1)"
  shows "valid_sizes rq key \<and> valid w1 \<and> require_ses w1 (scope_of rq) (rq_session_id rq) = Inr ()
    \<and> (\<exists>e. find_req w1 (scope_of rq) (rq_session_id rq) key = Some e
        \<and> er_fingerprint e = request_fingerprint h rq \<and> ar_id (er_run e) = ar_id a)"
proof -
  have v: "valid_sizes rq key" and ses: "require_ses w (scope_of rq) (rq_session_id rq) = Inr ()"
    using assms(3) by (auto simp: submit_run_def Let_def liftS_def raiseS_def thenS_def split: if_splits sum.splits)
  show ?thesis
  proof (cases "find_req w (scope_of rq) (rq_session_id rq) key")
    case (Some e)
    then show ?thesis using assms(1,3) ses v
      by (auto simp: submit_run_def Let_def io_defs split: if_splits sum.splits)
  next
    case None
    obtain snap w0 where s: "resolve rq w = (Inr snap, w0)"
      "accept_req rq key (request_fingerprint h rq) snap rej w0 = (Inr a, w1)"
      using assms(3) None v ses
      by (auto simp: submit_run_def Let_def liftS_def readS_def thenS_def split: sum.splits prod.splits)
    have l0: "later_state w w0" using assms(1,2) s(1) unfolding lawful_def by (metis snd_conv)
    have v0: "valid w0" by (rule later_valid [OF assms(1) l0])
    have l1: "later_state w0 w1" using accept_later [OF v0] s(2) by (metis snd_conv)
    show ?thesis using v later_valid [OF v0 l1] accepted_found [OF v0 s(2)]
        session_stays [OF assms(1) later_trans [OF l0 l1] ses] by blast
  qed
qed

lemma resubmit:
  assumes "valid w" "lawful resolve"
    and "submit_run find_req require_ses accept_req resolve auth h rq key rej w = (Inr a, w1)"
    and "later_state w1 w2" "scope_of rq2 = scope_of rq" "rq_session_id rq2 = rq_session_id rq"
    and "1 \<le> length (rq_input rq2)" "length (rq_input rq2) \<le> 100000"
    and "auth2 (rq_context rq2) ''run.submit'' (rq_session_id rq2) = Inr ()"
  shows "if request_fingerprint h rq2 = request_fingerprint h rq
    then \<exists>b. submit_run find_req require_ses accept2 resolve2 auth2 h rq2 key rej2 w2 = (Inr b, w2)
      \<and> ar_id b = ar_id a \<and> ar_reused b
    else submit_run find_req require_ses accept2 resolve2 auth2 h rq2 key rej2 w2
      = (Inl (DomainError IDEMPOTENCY_CONFLICT ''Key is already bound to different input''), w2)"
proof -
  obtain e where w1: "valid_sizes rq key" "valid w1"
    "require_ses w1 (scope_of rq) (rq_session_id rq) = Inr ()"
    "find_req w1 (scope_of rq) (rq_session_id rq) key = Some e"
    "er_fingerprint e = request_fingerprint h rq" "ar_id (er_run e) = ar_id a"
    using submit_bound [OF assms(1-3)] by blast
  obtain e2 where "find_req w2 (scope_of rq) (rq_session_id rq) key = Some e2"
    "er_fingerprint e2 = request_fingerprint h rq" "ar_id (er_run e2) = ar_id a"
    using found_stays [OF w1(2) assms(4) w1(4)] w1(5,6) by auto
  moreover have "require_ses w2 (scope_of rq) (rq_session_id rq) = Inr ()"
    by (rule session_stays [OF w1(2) assms(4) w1(3)])
  moreover have "valid_sizes rq2 key" using w1(1) assms(7,8) by (simp add: valid_sizes_def)
  ultimately show ?thesis using assms(5,6,9)
    by (auto simp: submit_run_def Let_def io_defs)
qed

end

section \<open>The SQLite repository\<close>

definition sqlite_find :: "world finder" where
  "sqlite_find w scope sid key = find_request scope sid key (wdb w)"

definition sqlite_require :: "world \<Rightarrow> string \<Rightarrow> string \<Rightarrow> exn + unit" where
  "sqlite_require w scope sid = require_session scope sid (wdb w)"

definition sqlite_accept :: "os_env \<Rightarrow> host \<Rightarrow> world acceptor" where
  "sqlite_accept os h rq key fp snap reject_if_active = accept_once os h rq key fp snap reject_if_active"

definition store_later :: "world \<Rightarrow> world \<Rightarrow> bool" where
  "store_later w w2 \<longleftrightarrow> sim (wdb w) (wdb w2)"

lemma get_session_some:
  assumes "store_ok d" "s \<in> set (sessions d)" "s_scope_id s = scope" "s_id s = sid"
  shows "get_session scope sid d \<noteq> None"
proof -
  have ref: "refs_ok (lease_of d)" using assms(1) by (simp add: store_ok_def lease_inv_def)
  have "L_sessions (lease_of d) (s_id s) = Some (lsession_of s)"
    using assms(1,2) by (auto simp: lease_of_def store_ok_def keys_ok_def intro: table_mapI)
  then obtain w where "L_workspaces (lease_of d) (ls_workspace (lsession_of s)) = Some w"
      "lw_scope w = ls_scope (lsession_of s)"
    using ref unfolding refs_ok_def by blast
  then obtain x where x: "x \<in> set (workspaces d)" "w_id x = s_workspace_id s" "w_scope_id x = s_scope_id s"
    by (auto simp: lease_of_def lsession_of_def lworkspace_of_def dest!: table_mapD)
  then have "(s, x) \<in> set (join_sw d)" using assms(2) by (auto simp: join_sw_def)
  then obtain y where "select_one (\<lambda>(s, w). s_scope_id s = scope \<and> s_id s = sid) (join_sw d) = Some y"
    using select_one_ex [of "(s, x)" "join_sw d" "\<lambda>(s, w). s_scope_id s = scope \<and> s_id s = sid"] assms(3,4) by auto
  then show ?thesis by (simp add: get_session_def)
qed

lemma session_grows:
  assumes "sim d d'" "store_ok d" "get_session scope sid d \<noteq> None"
  shows "get_session scope sid d' \<noteq> None"
proof -
  obtain s where s: "s \<in> set (sessions d)" "s_scope_id s = scope" "s_id s = sid"
    using assms(3) by (auto simp: get_session_def join_sw_def dest!: select_one_SomeD)
  obtain xs where "map session_ident (sessions d') = map session_ident (sessions d) @ xs"
    using assms(1) by (auto simp: sim_def grows_def)
  then have "session_ident s \<in> set (map session_ident (sessions d'))" using s(1) by (simp only:) simp
  then obtain x where "x \<in> set (sessions d')" "session_ident x = session_ident s" by auto
  then show ?thesis using get_session_some [OF sim_store_ok [OF assms(1,2)]] s(2,3)
    by (auto simp: session_ident_def)
qed

interpretation sqlite: run_repository sqlite_find sqlite_require "sqlite_accept os h"
    "\<lambda>w. store_ok (wdb w)" store_later
  for os h
proof
  fix w w1 :: world and rq key fp snap rej a
  assume ok: "store_ok (wdb w)" and acc: "sqlite_accept os h rq key fp snap rej w = (Inr a, w1)"
  have s: "sim (wdb w) (wdb w1)"
    using safeD [OF accept_once_safe ok] acc unfolding sqlite_accept_def by (metis snd_conv)
  have "accepted_in (wdb w1) (scope_of rq, rq_session_id rq, key) fp (ar_id a)"
    using wpD [OF wp_accept_once] acc unfolding sqlite_accept_def by blast
  moreover have "keys_ok (wdb w1)" using s by (simp add: sim_def)
  ultimately show "\<exists>e. sqlite_find w1 (scope_of rq) (rq_session_id rq) key = Some e \<and> er_fingerprint e = fp
      \<and> ar_id (er_run e) = ar_id a"
    by (elim find_accepted) (auto simp: sqlite_find_def find_request_def)
next
  fix w w2 :: world and scope sid key e
  assume ok: "store_ok (wdb w)" and l: "store_later w w2" and f: "sqlite_find w scope sid key = Some e"
  obtain r where r: "select_one (\<lambda>r. r_scope_id r = scope \<and> r_session_id r = sid
      \<and> r_idempotency_key r = key) (runs (wdb w)) = Some r"
    "er_fingerprint e = r_request_fingerprint r" "ar_id (er_run e) = r_id r"
    using f by (auto simp: sqlite_find_def find_request_def)
  then have "accepted_in (wdb w) (scope, sid, key) (er_fingerprint e) (ar_id (er_run e))"
    by (auto simp: accepted_in_def run_key_def dest: select_one_SomeD)
  then have "accepted_in (wdb w2) (scope, sid, key) (er_fingerprint e) (ar_id (er_run e))"
    using l accepted_in_grows by (auto simp: store_later_def sim_def)
  moreover have "keys_ok (wdb w2)" using l by (simp add: store_later_def sim_def)
  ultimately show "\<exists>e2. sqlite_find w2 scope sid key = Some e2 \<and> er_fingerprint e2 = er_fingerprint e
      \<and> ar_id (er_run e2) = ar_id (er_run e)"
    by (elim find_accepted) (auto simp: sqlite_find_def find_request_def)
next
  fix w w2 :: world and scope sid
  assume "store_ok (wdb w)" "store_later w w2" "sqlite_require w scope sid = Inr ()"
  then show "sqlite_require w2 scope sid = Inr ()"
    using session_grows [of "wdb w" "wdb w2" scope sid]
    by (auto simp: sqlite_require_def store_later_def require_session_def split: if_splits)
next
  fix w :: world and rq key fp snap rej
  assume "store_ok (wdb w)"
  then show "store_later w (snd (sqlite_accept os h rq key fp snap rej w))"
    using safeD [OF accept_once_safe] by (simp add: store_later_def sqlite_accept_def)
qed (auto simp: store_later_def dest: sim_store_ok sim_trans)

definition submit_message :: "os_env \<Rightarrow> host \<Rightarrow> (run_request \<Rightarrow> (world, run_snapshot) io)
    \<Rightarrow> (execution_context \<Rightarrow> string \<Rightarrow> string \<Rightarrow> exn + unit)
    \<Rightarrow> run_request \<Rightarrow> string \<Rightarrow> bool \<Rightarrow> (world, accepted_run) io" where
  "submit_message os h resolve auth rq key reject_if_active =
     submit_run sqlite_find sqlite_require (sqlite_accept os h) resolve auth h rq key reject_if_active"

text \<open>C26: Submitting is idempotent over the SQLite store: once a message was accepted under a key,
  then in any state the store reaches later the same request under the key returns the same Run,
  marked as reused, and a different request is refused as a conflict; either way nothing changes
  and no Skill is resolved, whatever the resolver would do.\<close>

theorem submit_is_idempotent:
  assumes "store_ok (wdb w)" "\<And>r v. store_ok (wdb v) \<Longrightarrow> sim (wdb v) (wdb (snd (resolve r v)))"
    and "submit_message os h resolve auth rq key rej w = (Inr a, w1)"
    and "sim (wdb w1) (wdb w2)" "scope_of rq2 = scope_of rq" "rq_session_id rq2 = rq_session_id rq"
    and "1 \<le> length (rq_input rq2)" "length (rq_input rq2) \<le> 100000"
    and "auth2 (rq_context rq2) ''run.submit'' (rq_session_id rq2) = Inr ()"
  shows "if request_fingerprint h rq2 = request_fingerprint h rq
    then \<exists>b. submit_message os h resolve2 auth2 rq2 key rej2 w2 = (Inr b, w2)
      \<and> ar_id b = ar_id a \<and> ar_reused b
    else submit_message os h resolve2 auth2 rq2 key rej2 w2
      = (Inl (DomainError IDEMPOTENCY_CONFLICT ''Key is already bound to different input''), w2)"
  unfolding submit_message_def
proof (rule sqlite.resubmit [where w = w and resolve = resolve and auth = auth and rej = rej and ?w1.0 = w1
      and os = os and ha = h])
  show "submit_run sqlite_find sqlite_require (sqlite_accept os h) resolve auth h rq key rej w = (Inr a, w1)"
    using assms(3) by (simp only: submit_message_def)
  show "sqlite.lawful resolve" using assms(2) by (simp add: sqlite.lawful_def store_later_def)
  show "store_later w1 w2" using assms(4) by (simp add: store_later_def)
qed (rule assms)+

text \<open>A submission changes the state only after all its checks: if it left the store different,
  the sizes were valid, the authorization allowed it, the Session exists and the key was free. A
  request refused earlier, or answered with an earlier Run, leaves no trace.\<close>

theorem submission_changes_after_checks:
  assumes "submit_message os h resolve auth rq key rej w = (r, w')" "w' \<noteq> w"
  shows "valid_sizes rq key \<and> auth (rq_context rq) ''run.submit'' (rq_session_id rq) = Inr ()
     \<and> get_session (scope_of rq) (rq_session_id rq) (wdb w) \<noteq> None
     \<and> find_request (scope_of rq) (rq_session_id rq) key (wdb w) = None"
  using assms
  by (auto simp: submit_message_def submit_run_def Let_def io_defs sqlite_require_def sqlite_find_def
      require_session_def split: if_splits sum.splits option.splits)

section \<open>On a concrete store\<close>

definition demo_resolve :: "run_request \<Rightarrow> (world, run_snapshot) io" where
  "demo_resolve rq w = (Inr demo_snapshot, w)"

definition demo_auth :: "execution_context \<Rightarrow> string \<Rightarrow> string \<Rightarrow> exn + unit" where
  "demo_auth ctx action ref = Inr ()"

definition demo_session_world :: world where
  "demo_session_world = apply_op demo_os demo_create \<lparr>wdb = empty_db, wfiles = []\<rparr>"

lemma demo_session_ok: "store_ok (wdb demo_session_world)"
  using history_ok [of "[demo_create]" demo_os]
  by (simp add: history_def run_ops_def demo_create_def demo_session_world_def)

lemma demo_accept_message:
  assumes "demo_start w"
  shows "fst (accept_once os (demo_host ''2'') demo_request ''k1'' fp demo_snapshot rej w)
       = Inr \<lparr>ar_id = ''20'', ar_session_id = ''10'', ar_status = QUEUED, ar_state_version = 0,
              ar_reused = False\<rparr>"
    "find_request ''u'' ''10'' ''k1'' (wdb w) = None" "get_session ''u'' ''10'' (wdb w) \<noteq> None"
proof -
  obtain q s k where w: "wdb w = empty_db\<lparr>workspaces := [k], sessions := [s], session_requests := [q]\<rparr>"
    and f: "s_id s = ''10''" "s_scope_id s = ''u''" "s_workspace_id s = ''11''" "s_next_run_seq s = 1"
     "s_next_event_seq s = 1" "s_active_run_id s = None" "w_id k = ''11''" "w_scope_id k = ''u''"
     "w_project_path k = ''''" "w_active_attempt_id k = None"
    using assms unfolding demo_start_def by blast
  show "fst (accept_once os (demo_host ''2'') demo_request ''k1'' fp demo_snapshot rej w)
       = Inr \<lparr>ar_id = ''20'', ar_session_id = ''10'', ar_status = QUEUED, ar_state_version = 0,
              ar_reused = False\<rparr>"
    by (simp add: accept_once_def demo_act w f empty_db_def demo_request_def busy_def
        join_sw_def require_session_binding_def insert_new_run_def write_message_def write_snapshot_def
        write_object_act_def write_object_def insert_run_def new_run_def insert_event_locked_def
        join_rs_def append_record_def record_event_def insert_event_def event_row_of_def clash_def
        update_runs_def update_sessions_def touch_def h_now_def)
  show "find_request ''u'' ''10'' ''k1'' (wdb w) = None" by (simp add: find_request_def w empty_db_def)
  show "get_session ''u'' ''10'' (wdb w) \<noteq> None"
    by (simp add: get_session_def join_sw_def w f empty_db_def)
qed

lemma demo_submitted: "\<exists>a w1. submit_message demo_os (demo_host ''2'') demo_resolve demo_auth demo_request
    ''k1'' True demo_session_world = (Inr a, w1) \<and> ar_id a = ''20'' \<and> \<not> ar_reused a"
proof -
  have start: "demo_start demo_session_world" unfolding demo_session_world_def by (rule demo_created)
  have "valid_sizes demo_request ''k1''" by (simp add: valid_sizes_def demo_request_def)
  moreover have ids: "scope_of demo_request = ''u''" "rq_session_id demo_request = ''10''"
    by (simp_all add: demo_request_def demo_context_def)
  ultimately have "submit_message demo_os (demo_host ''2'') demo_resolve demo_auth demo_request ''k1'' True demo_session_world
      = accept_once demo_os (demo_host ''2'') demo_request ''k1'' (request_fingerprint (demo_host ''2'') demo_request)
          demo_snapshot True demo_session_world"
    using demo_accept_message(2,3) [OF start]
    by (auto simp: submit_message_def submit_run_def io_defs demo_auth_def demo_resolve_def sqlite_require_def
        sqlite_find_def sqlite_accept_def require_session_def Let_def)
  then show ?thesis using demo_accept_message(1) [OF start]
    by (metis (no_types, lifting) accepted_run.select_convs(1,5) prod.collapse)
qed

lemma demo_lawful: "sqlite.lawful demo_resolve"
  by (simp add: sqlite.lawful_def store_later_def demo_resolve_def) (auto simp: store_ok_def sim_refl)

theorem submit_is_idempotent_witness:
  "\<exists>w1 a b. submit_message demo_os (demo_host ''2'') demo_resolve demo_auth demo_request ''k1'' True
      demo_session_world = (Inr a, w1)
     \<and> submit_message demo_os (demo_host ''2'') demo_resolve demo_auth demo_request ''k1'' True w1 = (Inr b, w1)
     \<and> ar_id b = ''20'' \<and> ar_reused b"
proof -
  obtain a w1 where a: "submit_message demo_os (demo_host ''2'') demo_resolve demo_auth demo_request
    ''k1'' True demo_session_world = (Inr a, w1)" "ar_id a = ''20''"
    using demo_submitted by blast
  have res: "sim (wdb v) (wdb (snd (demo_resolve r v)))" if "store_ok (wdb v)" for r v
    using that by (simp add: demo_resolve_def sim_refl store_ok_def)
  have "store_ok (wdb w1)"
    using sqlite.submit_bound [OF demo_session_ok demo_lawful a(1) [unfolded submit_message_def]] by blast
  then have "keys_ok (wdb w1)" by (simp add: store_ok_def)
  then have "sim (wdb w1) (wdb w1)" by (rule sim_refl)
  from submit_is_idempotent [where ?auth2.0 = demo_auth and ?rq2.0 = demo_request, OF demo_session_ok res a(1) this refl refl]
  show ?thesis using a by (auto simp: demo_request_def demo_auth_def)
qed

theorem submission_changes_after_checks_witness:
  "valid_sizes demo_request ''k1'' \<and> find_request ''u'' ''10'' ''k1'' (wdb demo_session_world) = None"
proof -
  obtain a w1 where a: "submit_message demo_os (demo_host ''2'') demo_resolve demo_auth demo_request
    ''k1'' True demo_session_world = (Inr a, w1)" "\<not> ar_reused a"
    using demo_submitted by blast
  have "w1 \<noteq> demo_session_world"
  proof
    assume "w1 = demo_session_world"
    then have "\<exists>e. sqlite_find demo_session_world (scope_of demo_request) (rq_session_id demo_request) ''k1'' = Some e"
      using sqlite.submit_bound [OF demo_session_ok demo_lawful a(1) [unfolded submit_message_def]] by blast
    moreover have "demo_start demo_session_world" unfolding demo_session_world_def by (rule demo_created)
    ultimately show False using demo_accept_message(2)
      by (simp add: sqlite_find_def demo_request_def demo_context_def)
  qed
  from submission_changes_after_checks [OF a(1) this]
  show ?thesis by (simp add: demo_request_def demo_context_def)
qed

end
