(* ===== verification/PyText.thy ===== *)
theory PyText
  imports Json
begin

text \<open>
  Text operations of Python's standard library the workspace store and the Skill resolver use:
  text files with universal newlines, \<open>splitlines\<close>, stripping of given characters, \<open>str\<close> of a
  JSON value, \<open>split()\<close> on white space.
\<close>

text \<open>Reading a file in text mode: \<open>\\r\\n\<close> and \<open>\\r\<close> become \<open>\\n\<close>.\<close>

fun skip_lf :: "string \<Rightarrow> string" where
  "skip_lf [] = []"
| "skip_lf (c # cs) = (if c = CHR 0x0A then cs else c # cs)"

lemma length_skip_lf [termination_simp]: "length (skip_lf s) \<le> length s"
  by (cases s) auto

function universal_newlines :: "string \<Rightarrow> string" where
  "universal_newlines [] = []"
| "universal_newlines (c # cs) =
     (if c = CHR 0x0D
      then CHR 0x0A # universal_newlines (skip_lf cs)
      else c # universal_newlines cs)"
  by pat_completeness auto

termination by (relation "measure length") (simp_all add: length_skip_lf le_imp_less_Suc)

definition read_text_file :: "string \<Rightarrow> exn + string" where
  "read_text_file bytes = (case utf8_decode bytes of
     None \<Rightarrow> Inl (ValueErr ''UnicodeDecodeError'')
   | Some s \<Rightarrow> Inr (universal_newlines s))"

text \<open>The line ends of \<open>str.splitlines\<close> below 256.\<close>

definition line_end :: "char \<Rightarrow> bool" where
  "line_end c = (let n = of_char c :: nat in (10 \<le> n \<and> n \<le> 13) \<or> (28 \<le> n \<and> n \<le> 30) \<or> n = 133)"

function split_lines_from :: "string \<Rightarrow> string \<Rightarrow> string list" where
  "split_lines_from line [] = (if line = [] then [] else [line])"
| "split_lines_from line (c # cs) =
     (if line_end c
      then line # split_lines_from [] (if c = CHR 0x0D then skip_lf cs else cs)
      else split_lines_from (line @ [c]) cs)"
  by pat_completeness auto

termination by (relation "measure (length \<circ> snd)") (simp_all add: length_skip_lf le_imp_less_Suc)

definition py_splitlines :: "string \<Rightarrow> string list" where
  "py_splitlines s = split_lines_from [] s"

text \<open>The lines a text file iterates over, each without its line end.\<close>

definition file_lines :: "string \<Rightarrow> string list" where
  "file_lines s = (let ls = py_split CHR 0x0A s in if last ls = [] then butlast ls else ls)"

text \<open>\<open>s.strip(chars)\<close>\<close>

definition strip_chars :: "char set \<Rightarrow> string \<Rightarrow> string" where
  "strip_chars cs s = rev (dropWhile (\<lambda>c. c \<in> cs) (rev (dropWhile (\<lambda>c. c \<in> cs) s)))"

text \<open>\<open>s.split()\<close>: the words between runs of white space.\<close>

fun words_from :: "string \<Rightarrow> string \<Rightarrow> string list" where
  "words_from w [] = (if w = [] then [] else [w])"
| "words_from w (c # cs) =
     (if py_isspace c then (if w = [] then [] else [w]) @ words_from [] cs
      else words_from (w @ [c]) cs)"

definition py_words :: "string \<Rightarrow> string list" where
  "py_words s = words_from [] s"

text \<open>\<open>repr\<close> of a string, and \<open>str\<close> of a JSON value.\<close>

definition repr_char :: "char \<Rightarrow> char \<Rightarrow> string" where
  "repr_char q c = (let n = of_char c :: nat in
     if c = q then [CHR 0x5C, q] else if n = 92 then [CHR 0x5C, CHR 0x5C]
     else if n = 10 then [CHR 0x5C, CHR ''n''] else if n = 13 then [CHR 0x5C, CHR ''r'']
     else if n = 9 then [CHR 0x5C, CHR ''t'']
     else if n < 32 \<or> (127 \<le> n \<and> n \<le> 160) \<or> n = 173
       then [CHR 0x5C, CHR ''x'', hex_digit (n div 16), hex_digit (n mod 16)]
     else [c])"

definition repr_str :: "string \<Rightarrow> string" where
  "repr_str s = (let q = (if CHR 0x27 \<in> set s \<and> CHR 0x22 \<notin> set s then CHR 0x22 else CHR 0x27) in
     q # concat (map (repr_char q) s) @ [q])"

fun py_repr :: "json \<Rightarrow> string" where
  "py_repr JNull = ''None''"
| "py_repr (JBool b) = (if b then ''True'' else ''False'')"
| "py_repr (JInt i) = py_str_int i"
| "py_repr (JStr s) = repr_str s"
| "py_repr (JArr xs) = ''['' @ py_join '', '' (map py_repr xs) @ '']''"
| "py_repr (JObj kvs) = ''{'' @ py_join '', '' (map (\<lambda>(k, v). repr_str k @ '': '' @ py_repr v) kvs) @ ''}''"

definition py_str :: "json \<Rightarrow> string" where
  "py_str j = (case j of JStr s \<Rightarrow> s | _ \<Rightarrow> py_repr j)"

text \<open>A word has no white space and is not empty.\<close>

lemma py_words_words: "w \<in> set (py_words s) \<Longrightarrow> w \<noteq> [] \<and> (\<forall>c\<in>set w. \<not> py_isspace c)"
proof -
  have "w \<in> set (words_from v s) \<Longrightarrow> \<forall>c\<in>set v. \<not> py_isspace c
      \<Longrightarrow> w \<noteq> [] \<and> (\<forall>c\<in>set w. \<not> py_isspace c)" for v
    by (induction v s rule: words_from.induct) (auto split: if_splits)
  then show "w \<in> set (py_words s) \<Longrightarrow> ?thesis" by (simp add: py_words_def)
qed

end
