(* ===== verification/Workspace.thy ===== *)
theory Workspace
  imports FileTree PyText Sessions
begin

text \<open>
  \<open>WorkspaceStore\<close> of \<open>src/code_forge/workspace/store.py\<close>: where a workspace, an attempt and a
  user's files lie, staging and committing an attempt, the bound project's revisions, the
  transcript log, and reading and writing single files. The store works on a \<open>tree\<close>; its
  \<open>root\<close> and the paths of bindings are resolved paths, and identifiers are single names, so the
  directories it makes are named by their parts.
\<close>

definition internal_dirname :: string where "internal_dirname = ''.forge''"
definition manifest_name :: string where "manifest_name = ''.forge-manifest.json''"

abbreviation sub :: "ppath \<Rightarrow> string \<Rightarrow> ppath" where
  "sub p name \<equiv> path_join p (mk_path name)"

definition file_digest :: "host \<Rightarrow> string \<Rightarrow> string" where
  "file_digest h content = h_sha256 h content"

definition mkdir_path :: "ppath \<Rightarrow> (tree, unit) io" where
  "mkdir_path p = changeS (mkdirs (pp_parts p))"

definition write_path :: "ppath \<Rightarrow> string \<Rightarrow> (tree, unit) io" where
  "write_path p c = changeS (write_file (pp_parts p) c)"

section \<open>Places\<close>

definition user_root :: "user_binding \<Rightarrow> ppath" where
  "user_root b = mk_path (ub_user_path b)"

definition workspace_root :: "ppath \<Rightarrow> string \<Rightarrow> user_binding option \<Rightarrow> ppath" where
  "workspace_root root wid ub = (case ub of
     Some b \<Rightarrow> mk_path (ub_project_path b)
   | None \<Rightarrow> sub (sub root ''current'') wid)"

definition ensure_workspace :: "ppath \<Rightarrow> string \<Rightarrow> user_binding option \<Rightarrow> (tree, ppath) io" where
  "ensure_workspace root wid ub =
     (let path = workspace_root root wid ub in
      thenS (mkdir_path path) (\<lambda>_.
      thenS (case ub of
               None \<Rightarrow> returnS ()
             | Some _ \<Rightarrow> thenS (mkdir_path (sub (sub path internal_dirname) ''revisions'')) (\<lambda>_.
                         mkdir_path (sub (sub path internal_dirname) ''manifests''))) (\<lambda>_.
      returnS path)))"

definition ensure_user_layout :: "ppath \<Rightarrow> string \<Rightarrow> user_binding \<Rightarrow> (tree, ppath) io" where
  "ensure_user_layout root wid b =
     thenS (eachS (\<lambda>rel. mkdir_path (sub (user_root b) rel))
       [''workspace/projects'', ''sessions'', ''config/agents'', ''config/skills'',
        ''tool-output'', ''snapshots'']) (\<lambda>_. ensure_workspace root wid (Some b))"

definition session_dir :: "user_binding \<Rightarrow> string \<Rightarrow> ppath" where
  "session_dir b sid = sub (sub (user_root b) ''sessions'') sid"

definition tool_output_dir :: "user_binding \<Rightarrow> string \<Rightarrow> string \<Rightarrow> string \<Rightarrow> (tree, ppath) io" where
  "tool_output_dir b sid rid opid =
     (let path = sub (sub (sub (sub (user_root b) ''tool-output'') sid) rid) opid in
      thenS (mkdir_path path) (\<lambda>_. returnS path))"

definition attempt_dir ::
  "ppath \<Rightarrow> string \<Rightarrow> string \<Rightarrow> user_binding option \<Rightarrow> (tree, ppath) io" where
  "attempt_dir root wid aid ub = (case ub of
     Some _ \<Rightarrow> ensure_workspace root wid ub
   | None \<Rightarrow> returnS (sub (sub (sub root ''attempts'') wid) aid))"

definition prepare_attempt ::
  "ppath \<Rightarrow> string \<Rightarrow> string \<Rightarrow> user_binding option \<Rightarrow> (tree, ppath) io" where
  "prepare_attempt root wid aid ub =
     thenS (ensure_workspace root wid ub) (\<lambda>current.
     thenS (attempt_dir root wid aid ub) (\<lambda>attempt.
     if ub \<noteq> None then returnS attempt
     else thenS (readS (\<lambda>t. path_exists t attempt)) (\<lambda>there.
          thenS (if there then changeS (rmtree (pp_parts attempt)) else returnS ()) (\<lambda>_.
          thenS (changeS (mkdirs (butlast (pp_parts attempt)))) (\<lambda>_.
          thenS (changeS (copytree (\<lambda>_. False) False (pp_parts current) (pp_parts attempt))) (\<lambda>_.
          returnS attempt))))))"

section \<open>Sessions on disk\<close>

text \<open>\<open>json.dumps(record, ensure_ascii=False, sort_keys=True, indent=2)\<close> of an object of strings.\<close>

definition dumps_indented :: "(string \<times> string) list \<Rightarrow> string" where
  "dumps_indented kvs = ''{'' @ [CHR 0x0A] @ py_join ('','' @ [CHR 0x0A])
     (map (\<lambda>(k, v). ''  '' @ quote_str k @ '': '' @ quote_str v) (sort_key fst kvs))
     @ [CHR 0x0A] @ ''}''"

definition session_metadata :: "session_view \<Rightarrow> user_binding \<Rightarrow> (string \<times> string) list" where
  "session_metadata v b =
     [(''session_id'', sv_id v), (''title'', sv_title v), (''workspace_id'', sv_workspace_id v),
      (''user_ref'', ub_user_ref b), (''tenant_ref'', ub_tenant_ref b),
      (''user_rel_path'', ub_user_rel_path b), (''project_ref'', ub_project_ref b),
      (''project_rel_path'', ub_project_rel_path b), (''project_path'', ub_project_path b),
      (''thread_id'', sv_thread_id v), (''date_created'', date_created v),
      (''date_updated'', date_updated v)]"

definition ensure_session_storage :: "session_view \<Rightarrow> user_binding \<Rightarrow> (tree, ppath) io" where
  "ensure_session_storage v b =
     (let dir = session_dir b (sv_id v);
          text = dumps_indented (session_metadata v b) @ [CHR 0x0A];
          transcript = sub dir ''transcript-000001.jsonl'' in
      thenS (mkdir_path dir) (\<lambda>_.
      thenS (write_path (sub dir ''session.json'') (utf8_encode text)) (\<lambda>_.
      thenS (readS (\<lambda>t. stat t transcript = None)) (\<lambda>missing.
      thenS (if missing then write_path transcript '''' else returnS ()) (\<lambda>_.
      returnS dir)))))"

text \<open>Does a transcript file hold a record with this id? Lines that are not JSON are skipped.\<close>

fun lines_contain :: "string \<Rightarrow> string list \<Rightarrow> exn + bool" where
  "lines_contain rid [] = Inr False"
| "lines_contain rid (line # lines) =
     (if py_strip line = [] then lines_contain rid lines
      else case loads line of
        None \<Rightarrow> lines_contain rid lines
      | Some (JObj kvs) \<Rightarrow>
          if map_of kvs ''record_id'' = Some (JStr rid) then Inr True else lines_contain rid lines
      | Some _ \<Rightarrow> Inl (ValueErr ''AttributeError''))"

definition transcript_contains :: "tree \<Rightarrow> ppath \<Rightarrow> string \<Rightarrow> exn + bool" where
  "transcript_contains t path rid = (case stat t path of
     Some (File bytes) \<Rightarrow> bindE (read_text_file bytes) (\<lambda>s. lines_contain rid (file_lines s))
   | _ \<Rightarrow> Inr False)"

fun find_transcript :: "tree \<Rightarrow> string \<Rightarrow> ppath list \<Rightarrow> exn + ppath option" where
  "find_transcript t rid [] = Inr None"
| "find_transcript t rid (p # ps) =
     (if rid = [] then find_transcript t rid ps
      else bindE (transcript_contains t p rid)
             (\<lambda>found. if found then Inr (Some p) else find_transcript t rid ps))"

definition transcript_names :: "tree \<Rightarrow> ppath \<Rightarrow> string list" where
  "transcript_names t dir =
     sort (filter (glob_jsonl ''transcript'') (child_names t (pp_parts dir)))"

definition transcript_record_id :: "(string \<times> json) list \<Rightarrow> string" where
  "transcript_record_id record = (case map_of record ''record_id'' of
     None \<Rightarrow> '''' | Some j \<Rightarrow> if json_truthy j then py_str j else '''')"

definition transcript_bytes :: "(string \<times> json) list \<Rightarrow> string" where
  "transcript_bytes record = utf8_encode (canonical_json (JObj record) @ [CHR 0x0A])"

text \<open>The file a new record goes to: the last one, or the next when the record does not fit.\<close>

definition transcript_target :: "tree \<Rightarrow> ppath \<Rightarrow> string list \<Rightarrow> nat \<Rightarrow> nat \<Rightarrow> ppath" where
  "transcript_target t dir names incoming max_file_bytes =
     (let target = sub dir (last names) in
      case stat t target of
        Some (File c) \<Rightarrow>
          if length c \<noteq> 0 \<and> length c + incoming > max_file_bytes
          then sub dir (''transcript-'' @ pad6 (length names + 1) @ ''.jsonl'') else target
      | _ \<Rightarrow> target)"

definition append_bytes :: "ppath \<Rightarrow> string \<Rightarrow> (tree, unit) io" where
  "append_bytes p bytes = thenS (readS (\<lambda>t. stat t p)) (\<lambda>n.
     write_path p ((case n of Some (File c) \<Rightarrow> c | _ \<Rightarrow> '''') @ bytes))"

definition append_transcript ::
  "user_binding \<Rightarrow> string \<Rightarrow> (string \<times> json) list \<Rightarrow> nat \<Rightarrow> (tree, ppath) io" where
  "append_transcript b sid record max_file_bytes =
     (let dir = session_dir b sid; rid = transcript_record_id record;
          encoded = transcript_bytes record in
      thenS (mkdir_path dir) (\<lambda>_.
      thenS (readS (\<lambda>t. let names = transcript_names t dir in
              if names = [] then [''transcript-000001.jsonl''] else names)) (\<lambda>names.
      thenS (\<lambda>t. liftS (find_transcript t rid (map (sub dir) names)) t) (\<lambda>found.
      case found of
        Some p \<Rightarrow> returnS p
      | None \<Rightarrow>
          thenS (readS (\<lambda>t. transcript_target t dir names (length encoded) max_file_bytes))
            (\<lambda>target. thenS (append_bytes target encoded) (\<lambda>_. returnS target))))))"

section \<open>Manifests and commits\<close>

type_synonym manifest = "(string \<times> json) list"

text \<open>The text of a location relative to a directory, and the files a manifest lists.\<close>

definition rel_text :: "loc \<Rightarrow> string" where
  "rel_text k = path_as_posix \<lparr>pp_root = [], pp_parts = k\<rparr>"

definition listed :: "loc \<Rightarrow> bool" where
  "listed k \<longleftrightarrow> hd k \<noteq> internal_dirname \<and> last k \<noteq> manifest_name"

definition manifest_files :: "tree \<Rightarrow> loc \<Rightarrow> (loc \<times> string) list" where
  "manifest_files t l = filter (\<lambda>(k, c). listed k) (files_below t l)"

definition manifest_of :: "host \<Rightarrow> tree \<Rightarrow> ppath \<Rightarrow> manifest" where
  "manifest_of h t root =
     map (\<lambda>(k, c). (rel_text k, JStr (file_digest h c))) (manifest_files t (pp_parts root))"

definition changed_between :: "manifest \<Rightarrow> manifest \<Rightarrow> string list" where
  "changed_between prior after =
     filter (\<lambda>p. map_of prior p \<noteq> map_of after p)
       (sort (remdups (map fst prior @ map fst after)))"

definition load_manifest :: "tree \<Rightarrow> ppath \<Rightarrow> exn + manifest" where
  "load_manifest t path = (case stat t path of
     Some (File bytes) \<Rightarrow>
       bindE (read_text_file bytes) (\<lambda>s. case loads s of
         None \<Rightarrow> Inr []
       | Some (JObj kvs) \<Rightarrow> Inr (case map_of kvs ''files'' of Some (JObj files) \<Rightarrow> files | _ \<Rightarrow> [])
       | Some _ \<Rightarrow> Inl (ValueErr ''AttributeError''))
   | _ \<Rightarrow> Inr [])"

definition write_manifest :: "host \<Rightarrow> ppath \<Rightarrow> manifest \<Rightarrow> (tree, string \<times> string) io" where
  "write_manifest h root manifest =
     (let encoded = dumps_sorted (JObj [(''files'', JObj manifest), (''schema_version'', JInt 1)]);
          path = sub root manifest_name in
      thenS (write_path path (utf8_encode encoded)) (\<lambda>_.
      returnS (h_sha256 h (utf8_encode encoded), path_as_posix path)))"

definition commit_bound_project ::
  "host \<Rightarrow> string \<Rightarrow> ppath \<Rightarrow> (tree, workspace_commit) io" where
  "commit_bound_project h rid project =
     (let internal = sub project internal_dirname;
          manifest_dir = sub internal ''manifests'';
          revision_dir = sub (sub internal ''revisions'') rid;
          previous = sub manifest_dir ''current.json'' in
      thenS (readS (\<lambda>t. path_exists t revision_dir)) (\<lambda>there.
      if there then raiseS (DomainError IDEMPOTENCY_CONFLICT ''Revision already exists'')
      else
      thenS (\<lambda>t. liftS (load_manifest t previous) t) (\<lambda>prior.
      thenS (readS (\<lambda>t. manifest_of h t project)) (\<lambda>after.
      thenS (changeS (mkdirs (butlast (pp_parts revision_dir)))) (\<lambda>_.
      thenS (changeS (copytree (\<lambda>name. name = internal_dirname) False
               (pp_parts project) (pp_parts revision_dir))) (\<lambda>_.
      (let encoded = utf8_encode (canonical_json (JObj [(''files'', JObj after),
                       (''schema_version'', JInt 2)]));
           manifest_path = sub manifest_dir (rid @ ''.json'') in
       thenS (write_path manifest_path encoded) (\<lambda>_.
       thenS (write_path previous encoded) (\<lambda>_.
       returnS \<lparr>wc_revision_id = rid, wc_manifest_digest = h_sha256 h encoded,
         wc_manifest_ref = path_as_posix manifest_path, wc_storage_ref = path_as_posix revision_dir,
         wc_changed_paths = changed_between prior after\<rparr>)))))))))"

text \<open>Publishing an attempt: files it no longer has go, files it has are copied over.\<close>

definition remove_file :: "ppath \<Rightarrow> string \<Rightarrow> (tree, unit) io" where
  "remove_file current path = thenS (readS (\<lambda>t. path_exists t (sub current path))) (\<lambda>there.
     if there then changeS (unlink (pp_parts (sub current path))) else returnS ())"

definition publish_file :: "ppath \<Rightarrow> ppath \<Rightarrow> string \<Rightarrow> (tree, unit) io" where
  "publish_file attempt current path =
     thenS (changeS (mkdirs (butlast (pp_parts (sub current path))))) (\<lambda>_.
     changeS (copy2 (pp_parts (sub attempt path)) (pp_parts (sub current path))))"

definition commit_staged ::
  "host \<Rightarrow> ppath \<Rightarrow> string \<Rightarrow> string \<Rightarrow> ppath \<Rightarrow> ppath \<Rightarrow> (tree, workspace_commit) io" where
  "commit_staged h root wid rid attempt current =
     thenS (readS (\<lambda>t. manifest_of h t current)) (\<lambda>prior.
     thenS (readS (\<lambda>t. manifest_of h t attempt)) (\<lambda>after.
     (let revision_dir = sub (sub (sub root ''revisions'') wid) rid in
      thenS (changeS (mkdirs (butlast (pp_parts revision_dir)))) (\<lambda>_.
      thenS (changeS (copytree (\<lambda>_. False) True (pp_parts attempt) (pp_parts revision_dir))) (\<lambda>_.
      thenS (eachS (remove_file current)
        (sort (remdups (filter (\<lambda>p. p \<notin> fst ` set after) (map fst prior))))) (\<lambda>_.
      thenS (eachS (publish_file attempt current) (sort (map fst after))) (\<lambda>_.
      thenS (write_manifest h current after) (\<lambda>(digest, ref).
      returnS \<lparr>wc_revision_id = rid, wc_manifest_digest = digest, wc_manifest_ref = ref,
         wc_storage_ref = path_as_posix current,
         wc_changed_paths = changed_between prior after\<rparr>))))))))"

definition commit_attempt :: "host \<Rightarrow> ppath \<Rightarrow> string \<Rightarrow> string \<Rightarrow> string \<Rightarrow> user_binding option
    \<Rightarrow> (tree, workspace_commit) io" where
  "commit_attempt h root wid aid rid ub =
     thenS (attempt_dir root wid aid ub) (\<lambda>attempt.
     thenS (readS (\<lambda>t. path_exists t attempt)) (\<lambda>there.
     if \<not> there then raiseS (DomainError EXECUTION_FAILED ''Attempt directory is missing'')
     else thenS (ensure_workspace root wid ub) (\<lambda>current.
       if ub \<noteq> None then commit_bound_project h rid current
       else commit_staged h root wid rid attempt current)))"

section \<open>Single files\<close>

definition safe_relative :: "os_env \<Rightarrow> ppath \<Rightarrow> string \<Rightarrow> exn + ppath" where
  "safe_relative os root rel =
     (case os_resolve os (sub root rel) of
        None \<Rightarrow> Inl (OSErr ''resolve'')
      | Some candidate \<Rightarrow>
          (case os_resolve os root of
             None \<Rightarrow> Inl (OSErr ''resolve'')
           | Some root_resolved \<Rightarrow>
               if candidate \<noteq> root_resolved
                  \<and> \<not> (pp_root candidate = pp_root root_resolved
                       \<and> strict_prefix (pp_parts root_resolved) (pp_parts candidate))
               then Inl (DomainError INVALID_REQUEST ''Path escapes workspace'')
               else Inr candidate))"

definition write_text :: "os_env \<Rightarrow> ppath \<Rightarrow> string \<Rightarrow> string \<Rightarrow> string \<Rightarrow> string
    \<Rightarrow> user_binding option \<Rightarrow> (tree, ppath) io" where
  "write_text os root wid aid rel content ub =
     thenS (attempt_dir root wid aid ub) (\<lambda>attempt.
     thenS (liftS (safe_relative os attempt rel)) (\<lambda>target.
     thenS (changeS (mkdirs (butlast (pp_parts target)))) (\<lambda>_.
     thenS (write_path target (utf8_encode content)) (\<lambda>_. returnS target))))"

text \<open>
  \<open>read_text\<close> returns the bytes undecoded: the replacement character of
  \<open>errors="replace"\<close> is no character of \<^typ>\<open>string\<close>.
\<close>

definition read_text :: "os_env \<Rightarrow> host \<Rightarrow> ppath \<Rightarrow> string \<Rightarrow> string \<Rightarrow> nat \<Rightarrow> user_binding option
    \<Rightarrow> (tree, string \<times> string \<times> bool) io" where
  "read_text os h root wid rel limit ub =
     (if rel = internal_dirname \<or> py_startswith rel (internal_dirname @ ''/'')
      then raiseS (DomainError INVALID_REQUEST ''Runtime metadata is not readable'')
      else thenS (ensure_workspace root wid ub) (\<lambda>current.
           thenS (liftS (safe_relative os current rel)) (\<lambda>target.
           thenS (readS (\<lambda>t. stat t target)) (\<lambda>n. case n of
             Some (File data) \<Rightarrow>
               returnS (take limit data, file_digest h data, limit < length data)
           | _ \<Rightarrow> raiseS (DomainError INVALID_REQUEST ''File not found'')))))"

record file_entry =
  fe_path :: string
  fe_size_bytes :: nat
  fe_digest :: string

definition list_files :: "host \<Rightarrow> ppath \<Rightarrow> string \<Rightarrow> user_binding option
    \<Rightarrow> (tree, file_entry list) io" where
  "list_files h root wid ub = thenS (ensure_workspace root wid ub) (\<lambda>current.
     readS (\<lambda>t. sort_key fe_path (map (\<lambda>(k, c). \<lparr>fe_path = rel_text k,
       fe_size_bytes = length c, fe_digest = file_digest h c\<rparr>)
       (manifest_files t (pp_parts current)))))"

definition changed_paths :: "string list \<Rightarrow> string list" where
  "changed_paths paths = sort (remdups paths)"

end
