(* ===== verification/GatewayBindings.thy ===== *)
theory GatewayBindings
  imports Runs
begin

text \<open>
  How the HTTP adapter of \<open>src/code_forge/transport/server.py\<close> reads paths and references from
  a request, builds the \<open>UserBinding\<close> of a new Session, and rebuilds it from the stored Session
  for every later request (\<open>_absolute_path\<close> to \<open>_binding_from_session\<close>). A value of a request
  body is a \<open>json\<close>; a missing key reads as \<open>JNull\<close>.
\<close>

definition resolve_path :: "os_env \<Rightarrow> ppath \<Rightarrow> exn + ppath" where
  "resolve_path os p = (case os_resolve os p of None \<Rightarrow> Inl (OSErr ''resolve'') | Some q \<Rightarrow> Inr q)"

definition absolute_path :: "os_env \<Rightarrow> json \<Rightarrow> string \<Rightarrow> exn + string" where
  "absolute_path os value field = (case value of
     JStr s \<Rightarrow>
       if py_strip s = [] then Inl (DomainError INVALID_REQUEST (field @ '' is required''))
       else if \<not> path_is_absolute (mk_path s)
         then Inl (DomainError INVALID_REQUEST (field @ '' must be an absolute path''))
       else bindE (resolve_path os (mk_path s)) (\<lambda>q. Inr (path_as_posix q))
   | _ \<Rightarrow> Inl (DomainError INVALID_REQUEST (field @ '' is required'')))"

definition relative_path :: "json \<Rightarrow> string \<Rightarrow> exn + string" where
  "relative_path value field = (case value of
     JStr s \<Rightarrow>
       if py_strip s = [] then Inl (DomainError INVALID_REQUEST (field @ '' is required''))
       else let path = mk_path s in
         if path_is_absolute path
         then Inl (DomainError INVALID_REQUEST (field @ '' must be relative''))
         else let parts = filter (\<lambda>p. p \<noteq> [] \<and> p \<noteq> ''.'') (pp_parts path) in
           if parts = [] \<or> ''..'' \<in> set parts
           then Inl (DomainError INVALID_REQUEST (field @ '' escapes its logical root''))
           else Inr (path_as_posix \<lparr>pp_root = [], pp_parts = parts\<rparr>)
   | _ \<Rightarrow> Inl (DomainError INVALID_REQUEST (field @ '' is required'')))"

definition absent :: "json \<Rightarrow> bool" where
  "absent value \<longleftrightarrow> value = JNull \<or> value = JStr ''''"

definition reference :: "json \<Rightarrow> string \<Rightarrow> bool \<Rightarrow> exn + string" where
  "reference value field allow_empty =
     (if absent value \<and> allow_empty then Inr ''''
      else case value of
        JStr s \<Rightarrow> if stable_reference s then Inr s
                  else Inl (DomainError INVALID_REQUEST (field @ '' is invalid''))
      | _ \<Rightarrow> Inl (DomainError INVALID_REQUEST (field @ '' is invalid'')))"

definition user_ref_of :: "host \<Rightarrow> string \<Rightarrow> string" where
  "user_ref_of h user_rel_path = ''u-'' @ take 32 (h_sha256 h (utf8_encode user_rel_path))"

definition derived_project_ref :: "host \<Rightarrow> string option \<Rightarrow> string" where
  "derived_project_ref h project_rel_path = (case project_rel_path of
     None \<Rightarrow> ''__default__''
   | Some rel \<Rightarrow> ''__derived_'' @ take 24 (h_sha256 h (utf8_encode rel)))"

text \<open>The directory of the project: its own path, its reference, or the user's workspace.\<close>

definition project_dir :: "os_env \<Rightarrow> ppath \<Rightarrow> string option \<Rightarrow> string \<Rightarrow> exn + ppath" where
  "project_dir os user_path project_relative public_ref = (case project_relative of
     Some rel \<Rightarrow> resolve_path os (path_join user_path (mk_path rel))
   | None \<Rightarrow>
       if public_ref \<noteq> []
       then Inr (path_join (path_join (path_join user_path (mk_path ''workspace''))
              (mk_path ''projects'')) (mk_path public_ref))
       else Inr (path_join user_path (mk_path ''workspace'')))"

definition binding_from_payload ::
  "os_env \<Rightarrow> host \<Rightarrow> json \<Rightarrow> json \<Rightarrow> json \<Rightarrow> json \<Rightarrow> exn + user_binding" where
  "binding_from_payload os h storage_root user_rel_path project_ref project_rel_path =
     bindE (absolute_path os storage_root ''storage_root'') (\<lambda>root.
     bindE (relative_path user_rel_path ''user_rel_path'') (\<lambda>user_relative.
     bindE (if absent project_rel_path then Inr None
            else bindE (relative_path project_rel_path ''project_rel_path'') (\<lambda>p. Inr (Some p)))
       (\<lambda>project_relative.
     bindE (reference project_ref ''project_ref'' True) (\<lambda>public_ref.
     bindE (resolve_path os (path_join (mk_path root) (mk_path user_relative))) (\<lambda>user_path.
     bindE (project_dir os user_path project_relative public_ref) (\<lambda>project.
     bindE (resolve_path os project) (\<lambda>project_path.
       let user_ref = user_ref_of h user_relative in
       make_user_binding os user_ref ''platform'' user_ref (path_as_posix user_path)
         (if public_ref \<noteq> [] then public_ref else derived_project_ref h project_relative)
         (Some (path_as_posix project_path)) root user_relative
         (case project_relative of None \<Rightarrow> '''' | Some p \<Rightarrow> p))))))))"

definition binding_from_session :: "os_env \<Rightarrow> host \<Rightarrow> session_view \<Rightarrow> exn + user_binding option" where
  "binding_from_session os h v =
     (if sv_project_path v = [] \<or> sv_user_path v = [] then Inr None
      else case path_relative_to (mk_path (sv_project_path v)) (mk_path (sv_user_path v)) of
        None \<Rightarrow> Inr None
      | Some rel \<Rightarrow>
          if sv_storage_root v = [] then Inr None
          else bindE (binding_from_payload os h (JStr (sv_storage_root v))
                 (JStr (sv_user_rel_path v))
                 (if py_startswith (sv_project_ref v) ''__'' then JNull else JStr (sv_project_ref v))
                 (JStr (path_as_posix rel))) (\<lambda>b. Inr (Some b)))"

section \<open>Paths the operating system leaves alone\<close>

text \<open>
  \<open>canonical_abs\<close>: an absolute path without \<open>..\<close>. On a file system without symbolic links
  \<open>resolve\<close> returns such paths, and returns each of them unchanged.
\<close>

definition canonical_abs :: "ppath \<Rightarrow> bool" where
  "canonical_abs p \<longleftrightarrow> wf_ppath p \<and> path_is_absolute p \<and> ''..'' \<notin> set (pp_parts p)
     \<and> nul \<notin> set (path_as_posix p)"

definition no_links :: "os_env \<Rightarrow> bool" where
  "no_links os \<longleftrightarrow> (\<forall>p q. os_resolve os p = Some q \<longrightarrow> canonical_abs q)
     \<and> (\<forall>p. canonical_abs p \<longrightarrow> os_resolve os p = Some p \<and> os_expanduser os p = p)"

text \<open>The environment in which \<open>..\<close> removes the part before it and nothing else changes.\<close>

fun drop_dots :: "string list \<Rightarrow> string list \<Rightarrow> string list" where
  "drop_dots acc [] = rev acc"
| "drop_dots acc (p # ps) = drop_dots (if p = ''..'' then tl acc else p # acc) ps"

definition lexical_os :: os_env where
  "lexical_os = \<lparr>os_expanduser = (\<lambda>p. p),
     os_resolve = (\<lambda>p. if nul \<in> set (path_as_posix p) \<or> \<not> wf_ppath p \<or> \<not> path_is_absolute p then None
                      else Some (p\<lparr>pp_parts := drop_dots [] (pp_parts p)\<rparr>))\<rparr>"


section \<open>Paths under a canonical root\<close>

lemma canonicalD:
  assumes "canonical_abs p"
  shows "wf_ppath p" "path_is_absolute p" "''..'' \<notin> set (pp_parts p)" "nul \<notin> set (path_as_posix p)"
  using assms by (simp_all add: canonical_abs_def)

lemma no_linksD:
  assumes "no_links os"
  shows "os_resolve os p = Some q \<Longrightarrow> canonical_abs q"
    and "canonical_abs p \<Longrightarrow> os_resolve os p = Some p"
    and "canonical_abs p \<Longrightarrow> os_expanduser os p = p"
  using assms by (simp_all add: no_links_def)

lemma resolve_path_Inr: "resolve_path os p = Inr q \<longleftrightarrow> os_resolve os p = Some q"
  by (simp add: resolve_path_def split: option.splits)

lemma posix_abs_not_blank:
  assumes "wf_ppath p" "path_is_absolute p"
  shows "py_strip (path_as_posix p) \<noteq> []"
proof -
  obtain r where r: "pp_root p = CHR ''/'' # r"
    using assms by (auto simp: wf_ppath_def path_is_absolute_def)
  have "\<not> py_isspace (CHR ''/'')" by (simp add: py_isspace_def)
  then show ?thesis using r by (auto simp: path_as_posix_def py_strip_empty_iff)
qed

lemma canonical_path_id:
  assumes "no_links os" "canonical_abs p"
  shows "canonical_path os (path_as_posix p) field = Inr (path_as_posix p)"
  using canonicalD [OF assms(2)] no_linksD [OF assms(1)] assms(2)
  by (simp add: canonical_path_def posix_abs_not_blank mk_path_as_posix Let_def)

lemma canonical_path_Inr:
  assumes "no_links os" "canonical_path os v field = Inr t"
  obtains p where "canonical_abs p" "t = path_as_posix p"
  using assms no_linksD(1) [OF assms(1)]
  by (auto simp: canonical_path_def Let_def split: if_splits option.splits)

lemma wf_parts_filter:
  "wf_ppath p \<Longrightarrow> filter (\<lambda>p. p \<noteq> [] \<and> p \<noteq> ''.'') (pp_parts p) = pp_parts p"
  by (auto simp: wf_ppath_def filter_id_conv)

text \<open>A relative path without \<open>..\<close>.\<close>

definition canonical_rel :: "ppath \<Rightarrow> bool" where
  "canonical_rel p \<longleftrightarrow> wf_ppath p \<and> \<not> path_is_absolute p \<and> pp_parts p \<noteq> []
     \<and> ''..'' \<notin> set (pp_parts p)"

lemma canonical_relD: "canonical_rel p \<Longrightarrow> wf_ppath p" "canonical_rel p \<Longrightarrow> pp_root p = []"
  by (simp_all add: canonical_rel_def path_is_absolute_def)

lemma relative_path_Inr:
  assumes "relative_path v field = Inr t"
  obtains p where "canonical_rel p" "t = path_as_posix p"
proof -
  obtain s where s: "v = JStr s" using assms by (cases v) (auto simp: relative_path_def)
  let ?p = "\<lparr>pp_root = [], pp_parts = pp_parts (mk_path s)\<rparr>"
  have w: "wf_ppath (mk_path s)" by simp
  then have f: "filter (\<lambda>p. p \<noteq> [] \<and> p \<noteq> ''.'') (pp_parts (mk_path s)) = pp_parts (mk_path s)"
    by (rule wf_parts_filter)
  have "canonical_rel ?p \<and> t = path_as_posix ?p" using assms w
    by (auto simp: relative_path_def s f Let_def canonical_rel_def wf_ppath_def path_is_absolute_def
        split: if_splits)
  then show thesis using that by blast
qed

lemma canonical_rel_nonempty: "canonical_rel p \<Longrightarrow> path_as_posix p \<noteq> []"
  by (cases "pp_parts p" rule: remdups_adj.cases)
     (auto simp: canonical_rel_def path_as_posix_def wf_ppath_def)

lemma rel_posix_not_blank:
  assumes "canonical_rel p" "py_strip (path_as_posix p) \<noteq> []"
  shows "relative_path (JStr (path_as_posix p)) field = Inr (path_as_posix p)"
proof -
  have p: "p = \<lparr>pp_root = [], pp_parts = pp_parts p\<rparr>"
    using canonical_relD(2) [OF assms(1)] by (cases p) simp
  show ?thesis using assms p
    by (simp add: relative_path_def mk_path_as_posix canonical_rel_def wf_parts_filter Let_def)
qed


lemma set_py_join: "set (py_join ''/'' ps) \<union> {CHR ''/''} = (\<Union>x\<in>set ps. set x) \<union> {CHR ''/''}"
proof (induction "''/''" ps rule: py_join.induct)
  case (3 x y xs)
  have "set (py_join ''/'' (x # y # xs)) \<union> {CHR ''/''}
      = set x \<union> (set (py_join ''/'' (y # xs)) \<union> {CHR ''/''})" by auto
  also have "\<dots> = set x \<union> ((\<Union>z\<in>set (y # xs). set z) \<union> {CHR ''/''})" unfolding 3 ..
  finally show ?case by auto
qed simp_all

lemma nul_posix:
  assumes "wf_ppath p"
  shows "nul \<in> set (path_as_posix p) \<longleftrightarrow> (\<exists>x\<in>set (pp_parts p). nul \<in> set x)"
proof -
  have z: "of_char nul = (0::nat)" by (simp add: nul_def)
  have n: "nul \<noteq> CHR ''/''" "nul \<noteq> CHR ''.''" 
  proof -
    have "of_char (CHR ''/'') \<noteq> (0::nat)" "of_char (CHR ''.'') \<noteq> (0::nat)" by simp_all
    then show "nul \<noteq> CHR ''/''" "nul \<noteq> CHR ''.''" using z by metis+
  qed
  have "nul \<in> set (py_join ''/'' (pp_parts p)) \<longleftrightarrow> (\<exists>x\<in>set (pp_parts p). nul \<in> set x)"
    using set_py_join [of "pp_parts p"] n by auto
  then show ?thesis using assms n by (auto simp: path_as_posix_def wf_ppath_def)
qed

lemma canonical_join:
  assumes "canonical_abs a" "canonical_rel p" "nul \<notin> set (path_as_posix p)"
  shows "canonical_abs (path_join a p)"
proof -
  have w: "wf_ppath a" "wf_ppath p" "\<not> path_is_absolute p"
    using assms by (simp_all add: canonical_abs_def canonical_rel_def)
  have j: "path_join a p = a\<lparr>pp_parts := pp_parts a @ pp_parts p\<rparr>" using w by (simp add: path_join_def)
  have "nul \<notin> set (path_as_posix (path_join a p))"
    using assms w wf_path_join [OF w(1,2)] by (simp add: nul_posix canonical_abs_def j ball_Un)
  then show ?thesis using assms wf_path_join [OF w(1,2)]
    by (auto simp: canonical_abs_def canonical_rel_def j path_is_absolute_def)
qed

lemma relative_to_joined:
  assumes "canonical_rel p"
  shows "path_relative_to (path_join a p) a = Some p"
  using assms by (cases p) (simp add: path_join_def canonical_rel_def path_relative_to_def path_is_absolute_def)

lemma canonical_rel_text:
  assumes "canonical_rel p"
  shows "canonical_relative_path (path_as_posix p) field = Inr t \<Longrightarrow>
      t = path_as_posix p \<and> py_strip t \<noteq> [] \<and> nul \<notin> set t"
    and "py_strip (path_as_posix p) \<noteq> [] \<Longrightarrow> nul \<notin> set (path_as_posix p) \<Longrightarrow>
      canonical_relative_path (path_as_posix p) field = Inr (path_as_posix p)"
proof -
  have p: "\<lparr>pp_root = [], pp_parts = pp_parts p\<rparr> = p"
    using canonical_relD(2) [OF assms] by (cases p) simp
  have m: "mk_path (path_as_posix p) = p" "\<not> path_is_absolute p" "pp_parts p \<noteq> []"
    "''..'' \<notin> set (pp_parts p)"
    "filter (\<lambda>p. p \<noteq> [] \<and> p \<noteq> ''.'') (pp_parts p) = pp_parts p"
    using assms by (simp_all add: canonical_rel_def mk_path_as_posix wf_parts_filter)
  show "canonical_relative_path (path_as_posix p) field = Inr t \<Longrightarrow>
      t = path_as_posix p \<and> py_strip t \<noteq> [] \<and> nul \<notin> set t"
    by (auto simp: canonical_relative_path_def m p Let_def split: if_splits)
  show "py_strip (path_as_posix p) \<noteq> [] \<Longrightarrow> nul \<notin> set (path_as_posix p) \<Longrightarrow>
      canonical_relative_path (path_as_posix p) field = Inr (path_as_posix p)"
    by (simp add: canonical_relative_path_def m p Let_def)
qed

section \<open>Constructing a binding from canonical paths\<close>

lemma make_binding_canonical:
  assumes "no_links os" "canonical_abs root" "canonical_abs user" "canonical_abs project"
  shows "make_user_binding os s t u (path_as_posix user) pr (Some (path_as_posix project))
           (path_as_posix root) ur prl =
     bindE (check_references [(''scope_id'', s), (''tenant_ref'', t), (''user_ref'', u),
              (''project_ref'', pr)]) (\<lambda>_.
     if s \<noteq> u then Inl (DomainError INVALID_REQUEST
            ''scope_id must equal user_ref for a user execution scope'')
     else bindE (check_user_path os (path_as_posix user) (path_as_posix root) ur) (\<lambda>(sr, rel).
       case path_relative_to project user of
         None \<Rightarrow> Inl (DomainError INVALID_REQUEST ''project_path must be located below user_path'')
       | Some r \<Rightarrow>
           if path_as_posix project = path_as_posix user
           then Inl (DomainError INVALID_REQUEST ''project_path must not equal user_path'')
           else bindE (check_project_rel os (path_as_posix user) (path_as_posix project) prl r)
             (\<lambda>prel. Inr \<lparr>ub_scope_id = s, ub_tenant_ref = t, ub_user_ref = u,
                  ub_user_path = path_as_posix user, ub_project_ref = pr,
                  ub_project_path = path_as_posix project, ub_storage_root = sr,
                  ub_user_rel_path = rel, ub_project_rel_path = prel\<rparr>)))"
  using assms canonicalD(1)
  by (simp add: make_user_binding_def canonical_path_id mk_path_as_posix)

text \<open>The project path a binding keeps is the project's path relative to the user's, however
  the binding was told of it.\<close>

lemma check_project_rel_text:
  assumes "no_links os" "canonical_abs user" "canonical_abs project"
    "prl = '''' \<or> (\<exists>p. canonical_rel p \<and> prl = path_as_posix p)"
    "path_relative_to project user = Some r"
    "check_project_rel os (path_as_posix user) (path_as_posix project) prl r = Inr t"
  shows "t = path_as_posix r"
proof (cases "prl = ''''")
  case True then show ?thesis using assms(6) by (simp add: check_project_rel_def)
next
  case False
  then obtain p where p: "canonical_rel p" "prl = path_as_posix p" using assms(4) by blast
  from assms(6) False obtain c e where
    c: "canonical_relative_path prl ''project_rel_path'' = Inr c"
    and e: "resolve_or_raise os (path_join (mk_path (path_as_posix user)) (mk_path c)) = Inr e"
      "path_as_posix project = e" and t: "t = c"
    by (auto simp: check_project_rel_def elim!: bindE_InrE split: if_splits)
  have cp: "c = path_as_posix p" "nul \<notin> set (path_as_posix p)"
    using canonical_rel_text(1) [OF p(1)] c p(2) by auto
  have m: "mk_path (path_as_posix user) = user" "mk_path c = p"
    using canonicalD(1) [OF assms(2)] canonical_relD(1) [OF p(1)] cp by (simp_all add: mk_path_as_posix)
  have can: "canonical_abs (path_join user p)" by (rule canonical_join [OF assms(2) p(1) cp(2)])
  have "e = path_as_posix (path_join user p)"
    using e no_linksD(2) [OF assms(1) can] by (simp add: m resolve_or_raise_def)
  then have "project = path_join user p"
    using e(2) canonicalD(1) [OF assms(3)] canonicalD(1) [OF can] path_as_posix_inj by metis
  then show ?thesis using assms(5) relative_to_joined [OF p(1)] t cp by simp
qed


text \<open>Where a binding built from a request lies: its storage root, user directory and project.\<close>

definition laid_out ::
  "host \<Rightarrow> user_binding \<Rightarrow> ppath \<Rightarrow> ppath \<Rightarrow> ppath \<Rightarrow> ppath \<Rightarrow> ppath \<Rightarrow> bool" where
  "laid_out h b root up user project r \<longleftrightarrow>
     canonical_abs root \<and> canonical_rel up \<and> canonical_abs user \<and> canonical_abs project
     \<and> canonical_rel r \<and> nul \<notin> set (path_as_posix r)
     \<and> user = path_join root up \<and> py_strip (path_as_posix up) \<noteq> [] \<and> nul \<notin> set (path_as_posix up)
     \<and> path_relative_to project user = Some r \<and> path_join user r = project \<and> project \<noteq> user
     \<and> ub_storage_root b = path_as_posix root \<and> ub_user_rel_path b = path_as_posix up
     \<and> ub_user_path b = path_as_posix user \<and> ub_project_path b = path_as_posix project
     \<and> ub_project_rel_path b = path_as_posix r
     \<and> ub_user_ref b = user_ref_of h (path_as_posix up) \<and> ub_scope_id b = ub_user_ref b
     \<and> ub_tenant_ref b = ''platform''
     \<and> list_all stable_reference [ub_user_ref b, ub_tenant_ref b, ub_project_ref b]"

lemma check_references_ok: "check_references xs = Inr () \<longleftrightarrow> list_all stable_reference (map snd xs)"
  by (induction xs) (auto split: if_splits)

lemma check_user_path_rel:
  assumes "no_links os" "canonical_abs root" "canonical_rel up" "canonical_abs user"
  shows "check_user_path os (path_as_posix user) (path_as_posix root) (path_as_posix up) = Inr (sr, rel)
     \<longleftrightarrow> sr = path_as_posix root \<and> rel = path_as_posix up \<and> user = path_join root up
       \<and> py_strip (path_as_posix up) \<noteq> [] \<and> nul \<notin> set (path_as_posix up)" (is "?L \<longleftrightarrow> ?R")
proof -
  note w = canonicalD(1) [OF assms(2)] canonical_relD(1) [OF assms(3)] canonicalD(1) [OF assms(4)]
  have ne: "path_as_posix root \<noteq> []"
    using posix_abs_not_blank [OF canonicalD(1,2) [OF assms(2)]] by (metis py_strip_Nil)
  have c: "canonical_path os (path_as_posix root) f = Inr (path_as_posix root)" for f
    by (rule canonical_path_id [OF assms(1,2)])
  show ?thesis
  proof
    assume ?L
    then obtain t where t: "canonical_relative_path (path_as_posix up) ''user_rel_path'' = Inr t"
      and e: "resolve_or_raise os (path_join root (mk_path t)) = Inr (path_as_posix user)"
        "sr = path_as_posix root" "rel = t"
      using ne w by (auto simp: check_user_path_def c mk_path_as_posix elim!: bindE_InrE split: if_splits)
    then have cp: "t = path_as_posix up" "py_strip t \<noteq> []" "nul \<notin> set t"
      using canonical_rel_text(1) [OF assms(3)] by auto
    have can: "canonical_abs (path_join root up)" using canonical_join [OF assms(2,3)] cp by simp
    then have "path_as_posix (path_join root up) = path_as_posix user"
      using e no_linksD(2) [OF assms(1) can] cp w by (simp add: resolve_or_raise_def mk_path_as_posix)
    then have "user = path_join root up"
      using path_as_posix_inj canonicalD(1) [OF can] w(3) by metis
    then show ?R using cp e by simp
  next
    assume r: ?R
    then have can: "canonical_abs (path_join root up)" using canonical_join [OF assms(2,3)] by simp
    show ?L using r ne w no_linksD(2) [OF assms(1) can]
      by (simp add: check_user_path_def c canonical_rel_text(2) [OF assms(3)] mk_path_as_posix
          resolve_or_raise_def)
  qed
qed

lemma relative_canonical:
  assumes "canonical_abs project" "path_relative_to project user = Some r" "project \<noteq> user"
  shows "canonical_rel r" "nul \<notin> set (path_as_posix r)"
proof -
  note c = canonicalD [OF assms(1)]
  have r: "r = \<lparr>pp_root = [], pp_parts = drop (length (pp_parts user)) (pp_parts project)\<rparr>"
    and e: "pp_root project = pp_root user"
      "take (length (pp_parts user)) (pp_parts project) = pp_parts user"
    using assms(2) by (auto simp: path_relative_to_def split: if_splits)
  have s: "set (pp_parts r) \<subseteq> set (pp_parts project)" using set_drop_subset by (simp add: r) fast
  have "pp_parts r \<noteq> []"
  proof
    assume "pp_parts r = []"
    then have "pp_parts project = pp_parts user" using e(2) by (simp add: r)
    then show False using e(1) assms(3) by (cases project; cases user) simp
  qed
  then show "canonical_rel r" using c s
    by (auto simp: canonical_rel_def wf_ppath_def path_is_absolute_def r)
  then have "wf_ppath r" by (rule canonical_relD(1))
  then show "nul \<notin> set (path_as_posix r)" using c s by (auto simp: nul_posix)
qed

lemma payload_laid_out:
  assumes os: "no_links os" and b: "binding_from_payload os h a ur pref prel = Inr b"
  shows "\<exists>root up user project r. laid_out h b root up user project r"
    and "absent pref \<Longrightarrow> \<not> absent prel \<Longrightarrow>
      ub_project_ref b = derived_project_ref h (Some (ub_project_rel_path b))"
proof -
  from b obtain rootT upT rel pub user proj project where
    1: "absolute_path os a ''storage_root'' = Inr rootT"
    and 2: "relative_path ur ''user_rel_path'' = Inr upT"
    and 3: "(if absent prel then Inr None
             else bindE (relative_path prel ''project_rel_path'') (\<lambda>p. Inr (Some p))) = Inr rel"
    and 4: "reference pref ''project_ref'' True = Inr pub"
    and 5: "resolve_path os (path_join (mk_path rootT) (mk_path upT)) = Inr user"
    and 6: "project_dir os user rel pub = Inr proj" "resolve_path os proj = Inr project"
    and 7: "make_user_binding os (user_ref_of h upT) ''platform'' (user_ref_of h upT)
              (path_as_posix user) (if pub \<noteq> [] then pub else derived_project_ref h rel)
              (Some (path_as_posix project)) rootT upT (case rel of None \<Rightarrow> '''' | Some p \<Rightarrow> p) = Inr b"
    unfolding binding_from_payload_def Let_def by (elim bindE_InrE)
  obtain root where root: "canonical_abs root" "rootT = path_as_posix root"
    using 1 no_linksD(1) [OF os]
    by (cases a) (fastforce simp: absolute_path_def resolve_path_Inr elim!: bindE_InrE split: if_splits)+
  obtain up where up: "canonical_rel up" "upT = path_as_posix up" by (rule relative_path_Inr [OF 2])
  have can: "canonical_abs user" "canonical_abs project"
    using 5 6(2) no_linksD(1) [OF os] by (auto simp: resolve_path_Inr)
  let ?prl = "case rel of None \<Rightarrow> '''' | Some p \<Rightarrow> p"
  have prl: "?prl = '''' \<or> (\<exists>p. canonical_rel p \<and> ?prl = path_as_posix p)"
    using 3 by (auto split: if_splits elim!: bindE_InrE relative_path_Inr)
  from 7 obtain sr ul r pl where
    refs: "check_references [(''scope_id'', user_ref_of h upT), (''tenant_ref'', ''platform''),
             (''user_ref'', user_ref_of h upT),
             (''project_ref'', if pub \<noteq> [] then pub else derived_project_ref h rel)] = Inr ()"
    and up': "check_user_path os (path_as_posix user) (path_as_posix root) upT = Inr (sr, ul)"
    and r: "path_relative_to project user = Some r" "path_as_posix project \<noteq> path_as_posix user"
    and pl: "check_project_rel os (path_as_posix user) (path_as_posix project) ?prl r = Inr pl"
    and bb: "b = \<lparr>ub_scope_id = user_ref_of h upT, ub_tenant_ref = ''platform'',
        ub_user_ref = user_ref_of h upT, ub_user_path = path_as_posix user,
        ub_project_ref = (if pub \<noteq> [] then pub else derived_project_ref h rel),
        ub_project_path = path_as_posix project, ub_storage_root = sr, ub_user_rel_path = ul,
        ub_project_rel_path = pl\<rparr>"
    unfolding root(2) make_binding_canonical [OF os root(1) can]
    by (auto elim!: bindE_InrE split: if_splits option.splits prod.splits)
  note up'' = up' [unfolded up(2) check_user_path_rel [OF os root(1) up(1) can(1)]]
  have pne: "project \<noteq> user" using r(2) by auto
  note rc = relative_canonical [OF can(2) r(1) pne]
  have plr: "pl = path_as_posix r" by (rule check_project_rel_text [OF os can prl r(1) pl])
  have refs': "list_all stable_reference [ub_user_ref b, ub_tenant_ref b, ub_project_ref b]"
    using refs [unfolded check_references_ok] by (simp add: bb)
  have "laid_out h b root up user project r"
    using root up can rc up'' r pne plr refs' path_relative_to_join [OF r(1)]
    by (simp add: laid_out_def bb)
  then show "\<exists>root up user project r. laid_out h b root up user project r" by blast
  show "ub_project_ref b = derived_project_ref h (Some (ub_project_rel_path b))"
    if ab: "absent pref" "\<not> absent prel"
  proof -
    have "pub = []" using 4 ab(1) by (auto simp: reference_def absent_def)
    moreover obtain t where t: "rel = Some t" using 3 ab(2) by (auto elim!: bindE_InrE)
    moreover have "t \<noteq> []"
      using 3 t ab(2) canonical_rel_nonempty
      by (auto elim!: bindE_InrE relative_path_Inr)
    moreover have "t = pl" using pl t \<open>t \<noteq> []\<close>
      by (auto simp: check_project_rel_def elim!: bindE_InrE split: if_splits)
         (metis canonical_rel_text(1) option.simps(5) prl t)
    ultimately show ?thesis by (simp add: bb)
  qed
qed


section \<open>Rebuilding the binding\<close>

lemma laid_outD:
  assumes "laid_out h b root up user project r"
  shows laid_out_canonical: "canonical_abs root" "canonical_abs user" "canonical_abs project"
      "canonical_rel up" "canonical_rel r"
    and laid_out_paths: "path_relative_to project user = Some r" "path_join user r = project"
      "project \<noteq> user" "nul \<notin> set (path_as_posix r)"
    and laid_out_user: "path_join root up = user" "py_strip (path_as_posix up) \<noteq> []"
      "nul \<notin> set (path_as_posix up)"
    and laid_out_fields: "ub_storage_root b = path_as_posix root"
      "ub_user_rel_path b = path_as_posix up" "ub_user_path b = path_as_posix user"
      "ub_project_path b = path_as_posix project" "ub_project_rel_path b = path_as_posix r"
      "ub_user_ref b = user_ref_of h (path_as_posix up)" "ub_scope_id b = ub_user_ref b"
      "ub_tenant_ref b = ''platform''"
    and laid_out_refs: "stable_reference (ub_user_ref b)" "stable_reference (ub_tenant_ref b)"
      "stable_reference (ub_project_ref b)"
  using assms unfolding laid_out_def by auto

text \<open>What the store reads back from the Session's workspace row.\<close>

lemma stored_binding:
  assumes "no_links os" "laid_out h b root up user project r"
    "prl = '''' \<or> prl = ub_project_rel_path b \<and> py_strip prl \<noteq> []"
  shows "make_user_binding os (ub_user_ref b) (ub_tenant_ref b) (ub_user_ref b) (ub_user_path b)
           (ub_project_ref b) (Some (ub_project_path b)) (ub_storage_root b) (ub_user_rel_path b) prl
         = Inr b"
proof -
  note can = laid_out_canonical [OF assms(2)] and f = laid_out_fields [OF assms(2)]
    and pt = laid_out_paths [OF assms(2)] and us = laid_out_user [OF assms(2)]
    and rf = laid_out_refs [OF assms(2)]
  have w: "wf_ppath user" "wf_ppath r" "wf_ppath project"
    using canonicalD(1) canonical_relD(1) can by blast+
  have refs: "check_references [(''scope_id'', ub_user_ref b), (''tenant_ref'', ub_tenant_ref b),
      (''user_ref'', ub_user_ref b), (''project_ref'', ub_project_ref b)] = Inr ()"
    using rf by (simp add: check_references_ok)
  have up: "check_user_path os (path_as_posix user) (path_as_posix root) (path_as_posix up)
      = Inr (path_as_posix root, path_as_posix up)"
    using us by (simp add: check_user_path_rel [OF assms(1) can(1,4,2)])
  have pr: "check_project_rel os (path_as_posix user) (path_as_posix project) prl r = Inr (path_as_posix r)"
  proof (cases "prl = ''''")
    case True then show ?thesis by (simp add: check_project_rel_def)
  next
    case False
    then have p: "prl = path_as_posix r" "py_strip (path_as_posix r) \<noteq> []" "nul \<notin> set (path_as_posix r)"
      using assms(3) pt f by auto
    show ?thesis
      using p False pt(2) canonical_rel_text(2) [OF can(5)] no_linksD(2) [OF assms(1) can(3)] w
      by (simp add: check_project_rel_def resolve_or_raise_def mk_path_as_posix)
  qed
  have ne: "path_as_posix project \<noteq> path_as_posix user"
    using pt(3) path_as_posix_inj [OF w(3,1)] by blast
  have b: "b = \<lparr>ub_scope_id = ub_user_ref b, ub_tenant_ref = ub_tenant_ref b,
      ub_user_ref = ub_user_ref b, ub_user_path = path_as_posix user,
      ub_project_ref = ub_project_ref b, ub_project_path = path_as_posix project,
      ub_storage_root = path_as_posix root, ub_user_rel_path = path_as_posix up,
      ub_project_rel_path = path_as_posix r\<rparr>"
    using f by (cases b) simp
  show ?thesis using f pt refs up pr ne
    by (subst (6) b) (simp add: make_binding_canonical [OF assms(1) can(1-3)])
qed

lemma stored_binding_of_row:
  assumes "no_links os" "laid_out h b root up user project r"
  shows "require_session_binding os (bound_workspace wid scope b now actor) (Some b2)
    = (if b2 = b then Inr ()
       else Inl (DomainError IDEMPOTENCY_CONFLICT ''Run user binding does not match its Session''))"
proof -
  have "ub_project_path b \<noteq> []"
    using assms(2) posix_abs_not_blank canonicalD(1,2) unfolding laid_out_def by (metis py_strip_Nil)
  then show ?thesis using stored_binding [OF assms, of "''''"]
    by (simp add: require_session_binding_def bound_workspace_def new_workspace_def)
qed

text \<open>What a request rebuilds from the Session.\<close>

lemma rebuilt_binding:
  assumes os: "no_links os" and l: "laid_out h b root up user project r"
    and r: "py_strip (ub_project_rel_path b) \<noteq> []"
    and pr: "pr = (if py_startswith (ub_project_ref b) ''__''
                   then derived_project_ref h (Some (ub_project_rel_path b)) else ub_project_ref b)"
    and ok: "stable_reference pr"
  shows "binding_from_session os h (session_view_of (s, bound_workspace wid scope b now actor))
    = Inr (Some (b\<lparr>ub_project_ref := pr\<rparr>))"
proof -
  note can = laid_out_canonical [OF l] and f = laid_out_fields [OF l]
    and pt = laid_out_paths [OF l] and us = laid_out_user [OF l] and rf = laid_out_refs [OF l]
  have w: "wf_ppath root" "wf_ppath user" "wf_ppath r" "wf_ppath project" "wf_ppath up"
    using canonicalD(1) canonical_relD(1) can by blast+
  have ne: "path_as_posix project \<noteq> []" "path_as_posix user \<noteq> []" "path_as_posix root \<noteq> []"
    using posix_abs_not_blank canonicalD(1,2) can by (metis py_strip_Nil)+
  let ?b = "b\<lparr>ub_project_ref := pr\<rparr>"
  have lb: "laid_out h ?b root up user project r" using l ok unfolding laid_out_def by auto
  have m: "make_user_binding os (user_ref_of h (path_as_posix up)) ''platform''
      (user_ref_of h (path_as_posix up)) (path_as_posix user) pr (Some (path_as_posix project))
      (path_as_posix root) (path_as_posix up) (path_as_posix r) = Inr ?b"
    using stored_binding [OF os lb, of "path_as_posix r"] f r by simp
  have refo: "stable_reference (ub_project_ref b)" "ub_project_ref b \<noteq> []"
    using rf by (auto simp: stable_reference_def)
  have rp: "relative_path (JStr (path_as_posix r)) ''project_rel_path'' = Inr (path_as_posix r)"
    "relative_path (JStr (path_as_posix up)) ''user_rel_path'' = Inr (path_as_posix up)"
    using rel_posix_not_blank can us f r by auto
  have ap: "absolute_path os (JStr (path_as_posix root)) ''storage_root'' = Inr (path_as_posix root)"
    using w(1) canonicalD(2) [OF can(1)] posix_abs_not_blank [OF w(1)] no_linksD(2) [OF os can(1)]
    by (simp add: absolute_path_def mk_path_as_posix resolve_path_def)
  have dir: "project_dir os user (Some (path_as_posix r)) pub = Inr project" for pub
    using w no_linksD(2) [OF os can(3)] pt by (simp add: project_dir_def mk_path_as_posix resolve_path_def)
  have rne: "path_as_posix r \<noteq> []" by (rule canonical_rel_nonempty [OF can(5)])
  have pay: "binding_from_payload os h (JStr (path_as_posix root)) (JStr (path_as_posix up))
      (if py_startswith (ub_project_ref b) ''__'' then JNull else JStr (ub_project_ref b))
      (JStr (path_as_posix r)) = Inr ?b"
    using rp ap dir m refo pr rne w us f(5) no_linksD(2) [OF os] can
    by (auto simp: binding_from_payload_def absent_def reference_def resolve_path_def
        mk_path_as_posix Let_def)
  show ?thesis using f pt ne pay w
    by (cases "py_startswith (ub_project_ref b) ''__''")
      (simp_all add: binding_from_session_def session_view_of_def bound_workspace_def new_workspace_def
        mk_path_as_posix)
qed


section \<open>The environment of the witnesses\<close>

lemma set_drop_dots: "set (drop_dots acc ps) \<subseteq> set acc \<union> (set ps - {''..''})"
proof (induction acc ps rule: drop_dots.induct)
  case (2 acc p ps)
  moreover have "set (tl acc) \<subseteq> set acc" by (cases acc) auto
  ultimately show ?case by (cases "p = ''..''") auto
qed simp

lemma drop_dots_plain: "''..'' \<notin> set ps \<Longrightarrow> drop_dots acc ps = rev acc @ ps"
  by (induction acc ps rule: drop_dots.induct) auto

lemma no_links_lexical: "no_links lexical_os"
proof -
  have "canonical_abs (p\<lparr>pp_parts := drop_dots [] (pp_parts p)\<rparr>)"
    if p: "nul \<notin> set (path_as_posix p)" "wf_ppath p" "path_is_absolute p" for p
  proof -
    have s: "set (drop_dots [] (pp_parts p)) \<subseteq> set (pp_parts p) - {''..''}"
      using set_drop_dots [of "[]" "pp_parts p"] by simp
    have w: "wf_ppath (p\<lparr>pp_parts := drop_dots [] (pp_parts p)\<rparr>)"
      using p(2) s by (auto simp: wf_ppath_def)
    show ?thesis using p s w by (auto simp: canonical_abs_def nul_posix path_is_absolute_def)
  qed
  moreover have "os_resolve lexical_os p = Some p \<and> os_expanduser lexical_os p = p"
    if "canonical_abs p" for p
    using canonicalD [OF that] by (simp add: lexical_os_def drop_dots_plain)
  ultimately show ?thesis by (auto simp: no_links_def lexical_os_def split: if_splits)
qed

definition plain_host :: host where
  "plain_host = \<lparr>h_sha256 = (\<lambda>s. ''0a1b2c''), h_uuid = (\<lambda>n. ''id-'' @ py_str_nat n),
     h_clock = (\<lambda>n. 1700000000000000), h_max_file_bytes = 1000, h_legacy_root = ''/r''\<rparr>"

abbreviation a_binding :: "path_text \<Rightarrow> path_text \<Rightarrow> ident \<Rightarrow> path_text \<Rightarrow> user_binding" where
  "a_binding user_rel project ref project_rel \<equiv>
     \<lparr>ub_scope_id = ''u-0a1b2c'', ub_tenant_ref = ''platform'', ub_user_ref = ''u-0a1b2c'',
      ub_user_path = ''/nas/'' @ user_rel, ub_project_ref = ref, ub_project_path = project,
      ub_storage_root = ''/nas'', ub_user_rel_path = user_rel, ub_project_rel_path = project_rel\<rparr>"

lemma payload_project:
  "binding_from_payload lexical_os plain_host (JStr ''/nas'') (JStr ''u1'') (JStr ''P001'') JNull
     = Inr (a_binding ''u1'' ''/nas/u1/workspace/projects/P001'' ''P001'' ''workspace/projects/P001'')"
  by code_simp

lemma payload_default:
  "binding_from_payload lexical_os plain_host (JStr ''/nas'') (JStr ''u1'') JNull JNull
     = Inr (a_binding ''u1'' ''/nas/u1/workspace'' ''__default__'' ''workspace'')"
  by code_simp

lemma payload_dots:
  "binding_from_payload lexical_os plain_host (JStr ''/nas'') (JStr ''u1'') (JStr ''..'') JNull
     = Inr (a_binding ''u1'' ''/nas/u1/workspace'' ''..'' ''workspace'')"
  by code_simp


text \<open>The reference \<open>..\<close> names the directory of the user's default project: two projects, each
  with a workspace row and a lease of its own, over one directory.\<close>

lemma dots_alias_default_project:
  "\<exists>b1 b2. binding_from_payload lexical_os plain_host (JStr ''/nas'') (JStr ''u1'') JNull JNull = Inr b1
     \<and> binding_from_payload lexical_os plain_host (JStr ''/nas'') (JStr ''u1'') (JStr ''..'') JNull = Inr b2
     \<and> ub_project_ref b1 \<noteq> ub_project_ref b2 \<and> ub_project_path b1 = ub_project_path b2"
  by (simp add: payload_default payload_dots)

section \<open>Sessions keep their binding, except the default project\<close>





end
