(* ===== verification/WorkspaceCommit.thy ===== *)
theory WorkspaceCommit
  imports Workspace GatewayBindings
begin

text \<open>
  What committing a staged attempt leaves in the workspace: exactly the attempt's files, as long
  as no file of the attempt takes the place of a directory. The proof follows the steps of
  \<open>commit_attempt\<close>: each step's effect on the node at a location, then the loops.
\<close>

section \<open>Locations and their texts\<close>

lemma wf_valid: "list_all valid_name k \<Longrightarrow> wf_ppath \<lparr>pp_root = [], pp_parts = k\<rparr>"
  by (auto simp: wf_ppath_def valid_name_def list_all_iff)

lemma mk_path_rel_text: "list_all valid_name k \<Longrightarrow> mk_path (rel_text k) = \<lparr>pp_root = [], pp_parts = k\<rparr>"
  unfolding rel_text_def by (rule mk_path_as_posix [OF wf_valid])

lemma parts_sub_rel_text [simp]:
  "list_all valid_name k \<Longrightarrow> pp_parts (sub p (rel_text k)) = pp_parts p @ k"
  by (simp add: mk_path_rel_text path_join_def path_is_absolute_def)

lemma rel_text_inj: "list_all valid_name k \<Longrightarrow> list_all valid_name j \<Longrightarrow> rel_text k = rel_text j \<Longrightarrow> k = j"
  by (metis mk_path_rel_text ppath.select_convs(2))

lemma mk_path_name: "valid_name x \<Longrightarrow> mk_path x = \<lparr>pp_root = [], pp_parts = [x]\<rparr>"
  using mk_path_rel_text [of "[x]"] by (simp add: rel_text_def path_as_posix_def)

lemma parts_sub_name [simp]: "valid_name x \<Longrightarrow> pp_parts (sub p x) = pp_parts p @ [x]"
  by (simp add: mk_path_name path_join_def path_is_absolute_def)

lemma valid_names [simp]: "valid_name ''attempts''" "valid_name ''current''" "valid_name ''revisions''"
  "valid_name ''manifests''" "valid_name ''sessions''" "valid_name ''tool-output''"
  "valid_name internal_dirname" "valid_name manifest_name" "valid_name ''current.json''"
  by (simp_all add: valid_name_def internal_dirname_def manifest_name_def)

section \<open>The files below a directory\<close>

definition file_at :: "tree \<Rightarrow> loc \<Rightarrow> string option" where
  "file_at t l = (case node_at t l of Some (File c) \<Rightarrow> Some c | _ \<Rightarrow> None)"

lemma file_at_Some: "file_at t l = Some c \<longleftrightarrow> node_at t l = Some (File c)"
  by (auto simp: file_at_def split: option.splits node.splits)

lemma set_below: "k \<in> set (below t l) \<longleftrightarrow> k \<noteq> [] \<and> l @ k \<in> set (map fst t)"
proof
  assume "k \<in> set (below t l)"
  then obtain j where "j \<in> set (map fst t)" "strict_prefix l j" "k = drop (length l) j"
    by (auto simp: below_def)
  then show "k \<noteq> [] \<and> l @ k \<in> set (map fst t)"
    by (auto simp: strict_prefix_def prefix_def simp del: set_map)
next
  assume k: "k \<noteq> [] \<and> l @ k \<in> set (map fst t)"
  then have "l @ k \<in> set (filter (strict_prefix l) (map fst t))" by (simp add: strict_prefix_def)
  then show "k \<in> set (below t l)" unfolding below_def set_map
    by (metis (no_types, lifting) append_eq_conv_conj image_eqI)
qed

lemma set_map_filter: "y \<in> set (List.map_filter f xs) \<longleftrightarrow> (\<exists>x\<in>set xs. f x = Some y)"
  by (induction xs) (auto simp: List.map_filter_simps split: option.splits)

lemma set_files_below: "kc \<in> set (files_below t l) \<longleftrightarrow>
    fst kc \<noteq> [] \<and> file_at t (l @ fst kc) = Some (snd kc)"
proof -
  obtain k c where kc: "kc = (k, c)" by force
  have f: "(case node_at t (l @ x) of Some (File c) \<Rightarrow> Some (x, c) | _ \<Rightarrow> None) = Some (k, c)
      \<longleftrightarrow> x = k \<and> node_at t (l @ x) = Some (File c)" for x
    by (auto split: option.splits node.splits)
  have "kc \<in> set (files_below t l) \<longleftrightarrow> k \<in> set (below t l) \<and> node_at t (l @ k) = Some (File c)"
    unfolding files_below_def set_map_filter kc f by auto
  also have "\<dots> \<longleftrightarrow> k \<noteq> [] \<and> node_at t (l @ k) = Some (File c)"
    using node_at_key [of "l @ k" t] by (auto simp: set_below simp del: set_map)
  finally show ?thesis by (simp add: kc file_at_Some)
qed

lemma set_manifest_files: "(k, c) \<in> set (manifest_files t l) \<longleftrightarrow>
    k \<noteq> [] \<and> file_at t (l @ k) = Some c \<and> listed k"
  by (auto simp: manifest_files_def set_files_below)

lemma wf_tree_valid: "wf_tree t \<Longrightarrow> node_at t l = Some n \<Longrightarrow> list_all valid_name l"
  unfolding wf_tree_def by (metis list.pred_inject(1) node_at_key option.distinct(1))

lemma wf_tree_file_below:
  assumes "wf_tree t" "file_at t (l @ k) = Some c" "strict_prefix k j"
  shows "node_at t (l @ j) = None"
proof (rule ccontr)
  assume "node_at t (l @ j) \<noteq> None"
  then obtain n where "node_at t (l @ j) = Some n" by blast
  moreover have "strict_prefix (l @ k) (l @ j)" using assms(3) by (auto simp: strict_prefix_def)
  ultimately have "node_at t (l @ k) = Some Dir" by (rule wf_tree_prefix [OF assms(1)])
  then show False using assms(2) by (simp add: file_at_Some)
qed

lemma copytree_node:
  assumes "copytree ign ok src dst t = Inr t'" "\<not> prefix dst l"
  shows "node_at t' l = (if prefix l dst then Some Dir else node_at t l)"
proof -
  let ?kns = "List.map_filter (\<lambda>k. map_option (Pair k) (node_at t (src @ k)))
    (sort (filter (\<lambda>k. \<not> list_ex ign k) (below t src)))"
  obtain t1 where t1: "mkdirs dst t = Inr t1" "copy_nodes dst ?kns t1 = Inr t'"
    using assms(1) by (auto simp: copytree_def elim!: bindE_InrE split: if_splits)
  have frame: "node_at t' l = node_at t1 l" if "copy_nodes dst kns t1 = Inr t'" for kns t1 t'
    using that
  proof (induction kns arbitrary: t1)
    case Nil then show ?case by simp
  next
    case (Cons kn kns)
    then obtain t2 where t2: "copy_node (dst @ fst kn) (snd kn) t1 = Inr t2" "node_at t' l = node_at t2 l"
      by (cases kn) (auto elim!: bindE_InrE)
    have "l \<noteq> dst @ fst kn" using assms(2) by (auto simp: prefix_def)
    then show ?case using copy_node_node [OF t2(1)] t2(2) by simp
  qed
  show ?thesis using frame [OF t1(2)] mkdirs_node [OF t1(1)] by simp
qed


section \<open>The two loops\<close>

lemma remove_step:
  assumes "remove_file current (rel_text k) t = (Inr (), t')" "list_all valid_name k" "k \<noteq> []"
    and "\<And>j. strict_prefix j (pp_parts current @ k) \<Longrightarrow> node_at t j = Some Dir"
    and "''..'' \<notin> set (pp_parts current)"
  shows "node_at t' = (node_at t)(pp_parts current @ k := None)"
proof -
  let ?l = "pp_parts current @ k"
  have d: "''..'' \<notin> set ?l" using assms(2,5) by (auto simp: list_all_iff valid_name_def)
  have "node_at t ([] @ take j ?l) = Some Dir" if "j < length ?l" for j
    using that take_is_prefix [of j ?l]
    by (intro assms(4)) (auto simp: strict_prefix_def simp del: take_append dest: arg_cong [of _ _ length])
  then have "walk t [] ?l = Some ?l" using walk_plain [OF d, of t "[]"] by simp
  then have s: "stat t (sub current (rel_text k)) = node_at t ?l"
    using assms(2) by (simp add: stat_def location_def)
  show ?thesis using assms(1,2) s
    by (auto simp: remove_file_def path_exists_def unlink_node fun_eq_iff
        elim!: thenS_InrE split: if_splits)
qed

lemma remove_loop:
  assumes "eachS (remove_file current) ps t = (Inr (), t')"
    and "\<And>p. p \<in> set ps \<Longrightarrow> \<exists>k\<in>D. p = rel_text k"
    and "\<And>k. k \<in> D \<Longrightarrow> list_all valid_name k \<and> k \<noteq> []"
    and "\<And>k j. k \<in> D \<Longrightarrow> strict_prefix j (pp_parts current @ k) \<Longrightarrow>
          node_at t j = Some Dir \<and> (\<forall>i\<in>D. j \<noteq> pp_parts current @ i)"
    and "''..'' \<notin> set (pp_parts current)"
  shows "node_at t' l = (if \<exists>k. rel_text k \<in> set ps \<and> k \<in> D \<and> l = pp_parts current @ k
                         then None else node_at t l)"
  using assms(1,2,4)
proof (induction ps arbitrary: t)
  case Nil then show ?case by simp
next
  case (Cons p ps)
  obtain t1 where t1: "remove_file current p t = (Inr (), t1)"
    "eachS (remove_file current) ps t1 = (Inr (), t')"
    using Cons.prems(1) by (auto elim: thenS_InrE)
  obtain k where k: "k \<in> D" "p = rel_text k" using Cons.prems(2) by auto
  note v = assms(3) [OF k(1)]
  have n: "node_at t1 = (node_at t)(pp_parts current @ k := None)"
    by (rule remove_step [OF t1(1) [unfolded k(2)]]) (use v Cons.prems(3) [OF k(1)] assms(5) in auto)
  have "node_at t' l = (if \<exists>k. rel_text k \<in> set ps \<and> k \<in> D \<and> l = pp_parts current @ k
                         then None else node_at t1 l)"
  proof (rule Cons.IH [OF t1(2)])
    show "\<exists>k\<in>D. q = rel_text k" if "q \<in> set ps" for q using Cons.prems(2) that by simp
    show "node_at t1 j = Some Dir \<and> (\<forall>i\<in>D. j \<noteq> pp_parts current @ i)"
      if "i \<in> D" "strict_prefix j (pp_parts current @ i)" for i j
      using Cons.prems(3) [OF that] k(1) by (simp add: n)
  qed
  moreover have "i = k" if "i \<in> D" "rel_text i = rel_text k" for i
    using rel_text_inj assms(3) k(1) that by blast
  ultimately show ?case using k by (auto simp: n)
qed

lemma publish_step:
  assumes "publish_file attempt current (rel_text k) t = (Inr (), t')"
    and "list_all valid_name k" "k \<noteq> []" "file_at t (pp_parts attempt @ k) = Some c"
    and "pp_parts attempt \<parallel> pp_parts current" "node_at t (pp_parts current @ k) \<noteq> Some Dir"
  shows "node_at t' l = (if l = pp_parts current @ k then Some (File c)
    else if prefix l (pp_parts current @ butlast k) then Some Dir else node_at t l)"
proof -
  let ?cur = "pp_parts current"
  obtain t1 where t1: "mkdirs (?cur @ butlast k) t = Inr t1"
    "copy2 (pp_parts attempt @ k) (?cur @ k) t1 = Inr t'"
    using assms(1-3) by (auto simp: publish_file_def butlast_append elim!: thenS_InrE)
  have nk: "\<not> prefix (?cur @ k) (?cur @ butlast k)"
    using assms(3) by (cases k rule: rev_cases) (auto dest!: prefix_length_le)
  have na: "\<not> prefix (pp_parts attempt @ k) (?cur @ butlast k)"
    using parallelD1 [OF parallel_append [OF assms(5)]] by blast
  have "node_at t1 (pp_parts attempt @ k) = Some (File c)"
    using assms(4) na mkdirs_node [OF t1(1)] by (simp add: file_at_Some)
  moreover have "node_at t1 (?cur @ k) \<noteq> Some Dir"
    using assms(6) nk mkdirs_node [OF t1(1)] by simp
  ultimately have "write_file (?cur @ k) c t1 = Inr t'" using t1(2) by (simp add: copy2_def)
  then show ?thesis using write_file_node mkdirs_node [OF t1(1)] by auto
qed

text \<open>What has been published, what is still to publish, and what is nobody's.\<close>

definition publishing :: "loc \<Rightarrow> loc \<Rightarrow> loc set \<Rightarrow> (loc \<Rightarrow> string option) \<Rightarrow> loc set \<Rightarrow> tree \<Rightarrow> bool" where
  "publishing att cur A cont S t \<longleftrightarrow>
     (\<forall>k\<in>A. file_at t (att @ k) = cont k) \<and> (\<forall>k\<in>S. file_at t (cur @ k) = cont k)
     \<and> (\<forall>k. k \<noteq> [] \<longrightarrow> listed k \<longrightarrow> k \<notin> A \<longrightarrow> file_at t (cur @ k) = None)
     \<and> (\<forall>k\<in>A. node_at t (cur @ k) \<noteq> Some Dir)"

lemma publish_loop:
  assumes "eachS (publish_file attempt current) ps t = (Inr (), t')"
    and "\<And>p. p \<in> set ps \<Longrightarrow> \<exists>k\<in>A. p = rel_text k"
    and A: "\<And>k. k \<in> A \<Longrightarrow> list_all valid_name k \<and> k \<noteq> [] \<and> cont k \<noteq> None"
    and free: "\<And>k j. k \<in> A \<Longrightarrow> j \<in> A \<Longrightarrow> \<not> strict_prefix k j"
    and par: "pp_parts attempt \<parallel> pp_parts current"
    and "publishing (pp_parts attempt) (pp_parts current) A cont S t" "S \<subseteq> A"
  shows "publishing (pp_parts attempt) (pp_parts current) A cont (S \<union> {k \<in> A. rel_text k \<in> set ps}) t'"
  using assms(1,2,6,7)
proof (induction ps arbitrary: t S)
  case Nil then show ?case by simp
next
  case (Cons p ps)
  let ?att = "pp_parts attempt" and ?cur = "pp_parts current"
  obtain t1 where t1: "publish_file attempt current p t = (Inr (), t1)"
    "eachS (publish_file attempt current) ps t1 = (Inr (), t')"
    using Cons.prems(1) by (auto elim: thenS_InrE)
  obtain k where k: "k \<in> A" "p = rel_text k" using Cons.prems(2) by auto
  obtain c where c: "cont k = Some c" "file_at t (?att @ k) = Some c"
    using A [OF k(1)] Cons.prems(3) k(1) by (auto simp: publishing_def)
  have "node_at t (?cur @ k) \<noteq> Some Dir" using Cons.prems(3) k(1) by (simp add: publishing_def)
  note n = publish_step [OF t1(1) [unfolded k(2)] _ _ c(2) par this]
  have n: "node_at t1 l = (if l = ?cur @ k then Some (File c)
      else if prefix l (?cur @ butlast k) then Some Dir else node_at t l)" for l
    using n A [OF k(1)] by blast
  have notp: "\<not> prefix (?cur @ j) (?cur @ butlast k)" if "j \<in> A" for j
  proof
    assume "prefix (?cur @ j) (?cur @ butlast k)"
    then have "prefix j (butlast k)" by simp
    moreover have "strict_prefix (butlast k) k" using A [OF k(1)]
      by (metis append_butlast_last_id append_self_conv not_Cons_self2 prefixI strict_prefix_def)
    ultimately have "strict_prefix j k" by (rule prefix_order.le_less_trans)
    then show False using free that k(1) by blast
  qed
  have para: "\<not> prefix (?att @ j) (?cur @ i)" for j i
    using parallelD1 [OF parallel_append [OF par]] by blast
  have para': "?att @ j \<noteq> ?cur @ i" for j i using para [of j i] by (metis prefix_order.refl)
  have "publishing ?att ?cur A cont (insert k S) t1"
    using Cons.prems(3,4) k(1) c notp para para'
    by (auto simp: publishing_def file_at_def n)
  then have "publishing ?att ?cur A cont (insert k S \<union> {j \<in> A. rel_text j \<in> set ps}) t'"
    using Cons.prems(2,4) k(1) by (intro Cons.IH [OF t1(2)]) auto
  moreover have "insert k S \<union> {j \<in> A. rel_text j \<in> set ps} = S \<union> {j \<in> A. rel_text j \<in> set (p # ps)}"
    using k A rel_text_inj by auto
  ultimately show ?case by simp
qed


section \<open>The whole commit\<close>

lemma manifest_keys:
  "rel_text k \<in> fst ` set (manifest_of h t p) \<longleftrightarrow>
     (\<exists>j. rel_text j = rel_text k \<and> j \<noteq> [] \<and> file_at t (pp_parts p @ j) \<noteq> None \<and> listed j)"
proof -
  have "rel_text k \<in> fst ` set (manifest_of h t p)
      \<longleftrightarrow> (\<exists>j c. (j, c) \<in> set (manifest_files t (pp_parts p)) \<and> rel_text k = rel_text j)"
    by (force simp: manifest_of_def)
  then show ?thesis by (auto simp: set_manifest_files)
qed

lemma manifest_texts:
  "q \<in> set (map fst (manifest_of h t p)) \<Longrightarrow>
     \<exists>k c. q = rel_text k \<and> k \<noteq> [] \<and> file_at t (pp_parts p @ k) = Some c \<and> listed k"
  by (auto simp: manifest_of_def set_manifest_files)

lemma commit_staged_files:
  assumes run: "commit_staged h root wid rid attempt current t = (Inr wc, t')"
    and wf: "\<And>l n. node_at t l = Some n \<Longrightarrow> list_all valid_name l"
      "\<And>l k. node_at t l \<noteq> None \<Longrightarrow> strict_prefix k l \<Longrightarrow> node_at t k = Some Dir"
    and par: "pp_parts attempt \<parallel> pp_parts current" "revl = pp_parts root @ [''revisions'', wid, rid]"
      "revl \<parallel> pp_parts attempt" "revl \<parallel> pp_parts current"
    and names: "valid_name wid" "valid_name rid" "''..'' \<notin> set (pp_parts current)"
    and nodir: "\<And>k c. file_at t (pp_parts attempt @ k) = Some c \<Longrightarrow> listed k \<Longrightarrow> k \<noteq> [] \<Longrightarrow>
      node_at t (pp_parts current @ k) \<noteq> Some Dir"
    and k: "k \<noteq> []" "listed k"
  shows "file_at t' (pp_parts current @ k) = file_at t (pp_parts attempt @ k)"
proof -
  let ?att = "pp_parts attempt" and ?cur = "pp_parts current"
  let ?prior = "manifest_of h t current" and ?after = "manifest_of h t attempt"
  let ?gone = "sort (remdups (filter (\<lambda>p. p \<notin> fst ` set ?after) (map fst ?prior)))"
  have revp: "pp_parts (sub (sub (sub root ''revisions'') wid) rid) = revl"
    using names by (simp add: par(2))
  obtain t2 t3 t4 t5 where
    t2: "mkdirs (butlast revl) t = Inr t2" and
    t3: "copytree (\<lambda>_. False) True ?att revl t2 = Inr t3" and
    t4: "eachS (remove_file current) ?gone t3 = (Inr (), t4)" and
    t5: "eachS (publish_file attempt current) (sort (map fst ?after)) t4 = (Inr (), t5)" and
    t6: "\<exists>d. write_manifest h current ?after t5 = (Inr d, t')"
    using run by (auto simp: commit_staged_def Let_def revp split: prod.splits elim!: thenS_InrE)
  have frame: "node_at t3 (x @ j) = node_at t (x @ j)" if "x \<in> {?att, ?cur}" for x j
  proof -
    have "revl \<parallel> x" using that par(3,4) by auto
    then have "revl @ [] \<parallel> x @ j" by (rule parallel_append)
    then have p: "\<not> prefix revl (x @ j)" "\<not> prefix (x @ j) revl" by (auto simp: parallel_def)
    then have "\<not> prefix (x @ j) (butlast revl)"
      by (metis append_butlast_last_id butlast.simps(1) prefixI prefix_order.trans)
    then show ?thesis using p by (simp add: copytree_node [OF t3] mkdirs_node [OF t2])
  qed
  define D where "D = {j. j \<noteq> [] \<and> file_at t (?cur @ j) \<noteq> None \<and> listed j}"
  define A where "A = {j. j \<noteq> [] \<and> file_at t (?att @ j) \<noteq> None \<and> listed j}"
  have val: "list_all valid_name j" if f: "file_at t (x @ j) \<noteq> None" for x j
  proof -
    obtain n where "node_at t (x @ j) = Some n"
      using f by (cases "node_at t (x @ j)") (auto simp: file_at_def)
    then show ?thesis using wf(1) by (metis list_all_append)
  qed
  have inj: "j = i" if "rel_text j = rel_text i" "file_at t (x @ j) \<noteq> None" "file_at t (y @ i) \<noteq> None"
    for x y i j using rel_text_inj val that by blast
  have gone: "set ?gone = rel_text ` {j \<in> D. j \<notin> A}" (is "?L = ?R")
  proof (intro set_eqI iffI)
    fix p assume p: "p \<in> ?L"
    then have "p \<in> set (map fst ?prior)" by auto
    then obtain j where j: "p = rel_text j" "j \<in> D" using manifest_texts unfolding D_def by blast
    moreover have "j \<notin> A"
    proof
      assume "j \<in> A"
      then have "rel_text j \<in> fst ` set ?after" unfolding manifest_keys A_def by auto
      then show False using p j(1) by auto
    qed
    ultimately show "p \<in> ?R" by blast
  next
    fix p assume "p \<in> ?R"
    then obtain j where j: "p = rel_text j" "j \<in> D" "j \<notin> A" by auto
    then have "p \<in> fst ` set ?prior" unfolding j(1) manifest_keys D_def by auto
    moreover have "p \<notin> fst ` set ?after"
    proof
      assume "p \<in> fst ` set ?after"
      then obtain i where i: "rel_text i = rel_text j" "i \<in> A"
        unfolding j(1) manifest_keys A_def by auto
      then have "i = j" using inj j(2) unfolding A_def D_def by blast
      then show False using i j(3) by simp
    qed
    ultimately show "p \<in> ?L" by auto
  qed
  have n4: "node_at t4 l = (if \<exists>j. j \<in> D \<and> j \<notin> A \<and> l = ?cur @ j then None else node_at t3 l)" for l
  proof -
    have "node_at t4 l = (if \<exists>j. rel_text j \<in> set ?gone \<and> j \<in> D \<and> l = ?cur @ j
        then None else node_at t3 l)"
    proof (rule remove_loop [OF t4])
      show "\<exists>j\<in>D. p = rel_text j" if "p \<in> set ?gone" for p using that gone by auto
      show "list_all valid_name j \<and> j \<noteq> []" if "j \<in> D" for j using that val by (auto simp: D_def)
      show "node_at t3 j = Some Dir \<and> (\<forall>i\<in>D. j \<noteq> ?cur @ i)"
        if "i \<in> D" "strict_prefix j (?cur @ i)" for i j
      proof -
        have "node_at t (?cur @ i) \<noteq> None" using that(1) by (auto simp: D_def file_at_def split: option.splits)
        then have d: "node_at t j = Some Dir" using wf(2) that(2) by blast
        have "\<not> prefix revl j"
        proof
          assume "prefix revl j"
          then have "prefix revl (?cur @ i)" using that(2) by (auto simp: strict_prefix_def)
          then show False using parallelD1 [OF parallel_append [OF par(4)], of "[]" i] by simp
        qed
        then have "node_at t3 j = Some Dir"
          using d by (simp add: copytree_node [OF t3] mkdirs_node [OF t2])
        moreover have "j \<noteq> ?cur @ m" if "m \<in> D" for m
          using d that by (auto simp: D_def file_at_def)
        ultimately show ?thesis by blast
      qed
      show "''..'' \<notin> set (pp_parts current)" by (rule names(3))
    qed
    moreover have "(\<exists>j. rel_text j \<in> set ?gone \<and> j \<in> D \<and> l = ?cur @ j)
        \<longleftrightarrow> (\<exists>j. j \<in> D \<and> j \<notin> A \<and> l = ?cur @ j)"
      unfolding gone using inj by (fastforce simp: D_def)
    ultimately show ?thesis by simp
  qed
  have pa: "?att @ j \<noteq> ?cur @ i" for i j
    using parallelD1 [OF parallel_append [OF par(1)]] by (metis prefix_order.refl)
  have "publishing ?att ?cur A (\<lambda>j. file_at t (?att @ j)) {} t4"
    unfolding publishing_def
  proof (intro conjI ballI allI impI)
    show "file_at t4 (?att @ j) = file_at t (?att @ j)" for j
      using frame pa by (auto simp: file_at_def n4)
    show "file_at t4 (?cur @ j) = None" if "j \<noteq> []" "listed j" "j \<notin> A" for j
    proof (cases "j \<in> D")
      case True then show ?thesis using that by (auto simp: file_at_def n4)
    next
      case False
      then have "file_at t (?cur @ j) = None" using that by (simp add: D_def)
      then show ?thesis using frame by (auto simp: file_at_def n4)
    qed
    show "node_at t4 (?cur @ j) \<noteq> Some Dir" if "j \<in> A" for j
      using that nodir frame by (auto simp: A_def n4)
  qed simp
  then have "publishing ?att ?cur A (\<lambda>j. file_at t (?att @ j))
      ({} \<union> {j \<in> A. rel_text j \<in> set (sort (map fst ?after))}) t5"
  proof (rule publish_loop [OF t5, rotated 4])
    show "\<exists>j\<in>A. p = rel_text j" if "p \<in> set (sort (map fst ?after))" for p
      using that manifest_texts [of p h t attempt] by (auto simp: A_def)
    show "list_all valid_name j \<and> j \<noteq> [] \<and> file_at t (?att @ j) \<noteq> None" if "j \<in> A" for j
      using that val by (auto simp: A_def)
    show "\<not> strict_prefix i j" if "i \<in> A" "j \<in> A" for i j
    proof
      assume "strict_prefix i j"
      then have "strict_prefix (?att @ i) (?att @ j)" by (auto simp: strict_prefix_def)
      moreover have "node_at t (?att @ j) \<noteq> None" using that(2) by (auto simp: A_def file_at_def split: option.splits)
      ultimately have "node_at t (?att @ i) = Some Dir" using wf(2) by blast
      then show False using that(1) by (auto simp: A_def file_at_def)
    qed
    show "?att \<parallel> ?cur" by (rule par(1))
  qed simp
  moreover have "{j \<in> A. rel_text j \<in> set (sort (map fst ?after))} = A"
    using manifest_keys [of _ h t attempt] by (auto simp: A_def)
  ultimately have p5: "publishing ?att ?cur A (\<lambda>j. file_at t (?att @ j)) A t5" by simp
  have "file_at t5 (?cur @ k) = file_at t (?att @ k)"
    using p5 k by (cases "k \<in> A") (auto simp: publishing_def A_def)
  moreover have "file_at t' (?cur @ k) = file_at t5 (?cur @ k)"
  proof -
    obtain c where "write_file (?cur @ [manifest_name]) c t5 = Inr t'"
      using t6 by (auto simp: write_manifest_def write_path_def Let_def elim!: thenS_InrE)
    moreover have "k \<noteq> [manifest_name]" using k(2) by (auto simp: listed_def)
    ultimately show ?thesis using write_file_node by (simp add: file_at_def)
  qed
  ultimately show ?thesis by simp
qed

lemma commit_attempt_steps:
  assumes "commit_attempt h root wid aid rid None t = (Inr wc, t')"
  obtains t1 where "mkdirs (pp_parts (sub (sub root ''current'') wid)) t = Inr t1"
    "commit_staged h root wid rid (sub (sub (sub root ''attempts'') wid) aid)
       (sub (sub root ''current'') wid) t1 = (Inr wc, t')"
  using assms
  by (auto simp: commit_attempt_def attempt_dir_def ensure_workspace_def workspace_root_def
      mkdir_path_def Let_def elim!: thenS_InrE split: if_splits)


text \<open>A workspace \<open>w\<close> with the attempt \<open>a\<close>, which changed one file, removed one and added one.\<close>

definition demo_tree :: tree where
  "demo_tree = [([''r''], Dir), ([''r'', ''current''], Dir), ([''r'', ''current'', ''w''], Dir),
     ([''r'', ''current'', ''w'', ''m.py''], File ''old''),
     ([''r'', ''current'', ''w'', ''gone''], File ''g''),
     ([''r'', ''attempts''], Dir), ([''r'', ''attempts'', ''w''], Dir),
     ([''r'', ''attempts'', ''w'', ''a''], Dir),
     ([''r'', ''attempts'', ''w'', ''a'', ''m.py''], File ''new''),
     ([''r'', ''attempts'', ''w'', ''a'', ''d''], Dir),
     ([''r'', ''attempts'', ''w'', ''a'', ''d'', ''x''], File ''added'')]"

definition demo_commit :: "(exn + workspace_commit) \<times> tree" where
  "demo_commit = commit_attempt (plain_host\<lparr>h_sha256 := (\<lambda>s. s)\<rparr>) (mk_path ''/r'') ''w'' ''a'' ''v1''
     None demo_tree"


lemma demo_tree_dirs: "node_at demo_tree ([''r'', ''current'', ''w''] @ j) = Some Dir \<Longrightarrow> j = []"
  by (auto simp: node_at_def demo_tree_def split: if_splits)

lemma demo_attempt: "file_at demo_tree [''r'', ''attempts'', ''w'', ''a''] = None"
  "file_at demo_tree [''r'', ''attempts'', ''w'', ''a'', ''d'', ''x''] = Some ''added''"
  "file_at demo_tree [''r'', ''attempts'', ''w'', ''a'', ''gone''] = None"
  by code_simp+

lemma demo_commit_ok: "wf_tree demo_tree" "is_ok (fst demo_commit)"
  by code_simp+


text \<open>A file that replaces a directory of the workspace is copied into the directory: the manifest
  lists \<open>a\<close>, the workspace holds \<open>a/a\<close>.\<close>

definition clash_tree :: tree where
  "clash_tree = [([''r''], Dir), ([''r'', ''current''], Dir), ([''r'', ''current'', ''w''], Dir),
     ([''r'', ''current'', ''w'', ''a''], Dir), ([''r'', ''current'', ''w'', ''a'', ''x''], File ''old''),
     ([''r'', ''attempts''], Dir), ([''r'', ''attempts'', ''w''], Dir),
     ([''r'', ''attempts'', ''w'', ''t''], Dir), ([''r'', ''attempts'', ''w'', ''t'', ''a''], File ''new'')]"

lemma commit_file_over_directory:
  "(case commit_attempt plain_host (mk_path ''/r'') ''w'' ''t'' ''v1'' None clash_tree of (r, t') \<Rightarrow>
     is_ok r \<and> file_at t' [''r'', ''current'', ''w'', ''a''] = None
     \<and> file_at t' [''r'', ''current'', ''w'', ''a'', ''a''] = Some ''new'')"
  by code_simp

text \<open>A bound project's revision leaves out directories named \<open>.forge\<close> at every depth, while its
  manifest leaves out the one at the top only: here the manifest lists \<open>d/.forge/x\<close>, the revision
  does not have it.\<close>

definition nested_tree :: tree where
  "nested_tree = [([''p''], Dir), ([''p'', ''d''], Dir), ([''p'', ''d'', ''.forge''], Dir),
     ([''p'', ''d'', ''.forge'', ''x''], File ''data''), ([''p'', ''y''], File ''other''),
     ([''p'', ''.forge''], Dir), ([''p'', ''.forge'', ''manifests''], Dir),
     ([''p'', ''.forge'', ''revisions''], Dir)]"

lemma revision_misses_listed_file:
  "(case commit_bound_project plain_host ''v1'' (mk_path ''/p'') nested_tree of (r, t') \<Rightarrow>
     (case r of Inl e \<Rightarrow> False | Inr wc \<Rightarrow> ''d/.forge/x'' \<in> set (wc_changed_paths wc))
     \<and> file_at t' [''p'', ''.forge'', ''revisions'', ''v1'', ''y''] = Some ''other''
     \<and> file_at t' [''p'', ''.forge'', ''revisions'', ''v1'', ''d'', ''.forge'', ''x''] = None)"
  by code_simp

end
