(* ===== verification/Transcript.thy ===== *)
theory Transcript
  imports WorkspaceCommit
begin

text \<open>
  The transcript of a Session on disk: a record is a line of canonical JSON, the log is read back
  line by line, and a record whose id is already there is not appended again. Reading a single
  file of the workspace stays inside it.
\<close>

section \<open>Lines of canonical JSON\<close>

definition breaks :: "char set" where
  "breaks = {CHR 0x0A, CHR 0x0D}"

lemma breaks_code: "c \<in> breaks \<longleftrightarrow> of_char c = (10::nat) \<or> of_char c = (13::nat)"
proof -
  have "of_char c = (of_char (CHR 0x0A) :: nat) \<longleftrightarrow> c = CHR 0x0A"
    "of_char c = (of_char (CHR 0x0D) :: nat) \<longleftrightarrow> c = CHR 0x0D"
    by (simp_all only: of_char_eq_iff)
  then show ?thesis by (auto simp: breaks_def)
qed

definition no_break :: "string \<Rightarrow> bool" where
  "no_break s \<longleftrightarrow> (\<forall>c\<in>set s. c \<notin> breaks)"

lemma no_break_simps [simp]:
  "no_break []" "no_break (a @ b) \<longleftrightarrow> no_break a \<and> no_break b"
  "no_break (c # a) \<longleftrightarrow> c \<notin> breaks \<and> no_break a" "no_break (concat ss) \<longleftrightarrow> (\<forall>s\<in>set ss. no_break s)"
  by (auto simp: no_break_def)

lemma hex_digit_not_break: "n < 16 \<Longrightarrow> hex_digit n \<notin> breaks"
  by (simp add: hex_digit_def breaks_code of_char_of)

lemma esc_char_no_break: "no_break (esc_char c)"
proof -
  have "hex_digit (n div 16) \<notin> breaks" "hex_digit (n mod 16) \<notin> breaks" if "n < 32" for n
    using that by (auto intro!: hex_digit_not_break)
  then show ?thesis by (simp add: esc_char_def Let_def breaks_code)
qed

lemma quote_str_no_break: "no_break (quote_str s)"
  by (simp add: quote_str_def esc_char_no_break breaks_code)

lemma py_str_nat_no_break: "no_break (py_str_nat n)"
proof -
  have "c \<notin> breaks" if "is_digit c" for c using that by (auto simp: breaks_code is_digit_def Let_def)
  then show ?thesis using py_str_nat_digits [of n] by (auto simp: no_break_def)
qed

lemma py_str_int_no_break: "no_break (py_str_int i)"
  by (simp add: py_str_int_def py_str_nat_no_break breaks_code)

lemma py_join_no_break: "no_break sep \<Longrightarrow> \<forall>x\<in>set xs. no_break x \<Longrightarrow> no_break (py_join sep xs)"
  by (induction sep xs rule: py_join.induct) auto

lemma dumps_no_break: "no_break (dumps True '','' '':'' j)"
proof (induction j)
  case (JArr xs)
  then show ?case by (auto simp: breaks_code intro!: py_join_no_break)
next
  case (JObj kvs)
  have "no_break (member_text True '','' '':'' kv)" if "kv \<in> set kvs" for kv
    using JObj that quote_str_no_break by (cases kv) (auto simp: breaks_code)
  then show ?case unfolding dumps_JObj by (auto simp: breaks_code intro!: py_join_no_break)
qed (simp_all add: quote_str_no_break py_str_int_no_break breaks_code)

text \<open>A log of records and the lines it is read as.\<close>

type_synonym record_log = "(string \<times> json) list list"

definition log_text :: "record_log \<Rightarrow> string" where
  "log_text recs = concat (map (\<lambda>r. canonical_json (JObj r) @ [CHR 0x0A]) recs)"

lemma log_bytes: "concat (map transcript_bytes recs) = utf8_encode (log_text recs)"
  by (induction recs) (simp_all add: log_text_def transcript_bytes_def utf8_encode_append utf8_encode_def)

lemma universal_newlines_id: "CHR 0x0D \<notin> set s \<Longrightarrow> universal_newlines s = s"
  by (induction s rule: universal_newlines.induct) auto

lemma canonical_no_break:
  "CHR 0x0A \<notin> set (canonical_json j)" "CHR 0x0D \<notin> set (canonical_json j)"
  using dumps_no_break [of j] by (auto simp: canonical_json_def breaks_def no_break_def)

lemma read_log: "read_text_file (concat (map transcript_bytes recs)) = Inr (log_text recs)"
proof -
  have "CHR 0x0D \<notin> set (log_text recs)"
    using canonical_no_break by (induction recs) (auto simp: log_text_def)
  then show ?thesis by (simp add: log_bytes read_text_file_def utf8_roundtrip universal_newlines_id)
qed

lemma split_log: "py_split CHR 0x0A (log_text recs) = map (\<lambda>r. canonical_json (JObj r)) recs @ [[]]"
proof (induction recs)
  case Nil then show ?case by (simp add: log_text_def)
next
  case (Cons r recs)
  have "log_text (r # recs) = canonical_json (JObj r) @ CHR 0x0A # log_text recs"
    by (simp add: log_text_def)
  then show ?case using Cons canonical_no_break(1) by (simp add: py_split_append)
qed

lemma file_lines_log: "file_lines (log_text recs) = map (\<lambda>r. canonical_json (JObj r)) recs"
  by (simp add: file_lines_def split_log)

definition holds_id :: "string \<Rightarrow> (string \<times> json) list \<Rightarrow> bool" where
  "holds_id rid r \<longleftrightarrow> map_of r ''record_id'' = Some (JStr rid)"

lemma lines_contain_log:
  assumes "\<forall>r\<in>set recs. wf_json (JObj r)"
  shows "lines_contain rid (map (\<lambda>r. canonical_json (JObj r)) recs) = Inr (\<exists>r\<in>set recs. holds_id rid r)"
  using assms
proof (induction recs)
  case Nil then show ?case by simp
next
  case (Cons r recs)
  have "loads (canonical_json (JObj r)) = Some (norm_json True (JObj r))"
    unfolding canonical_json_def using Cons.prems
    by (intro loads_dumps) (auto simp: item_seps_def key_seps_def)
  note l = this [unfolded norm_json_JObj if_True]
  have b: "py_strip (canonical_json (JObj r)) \<noteq> []"
    unfolding canonical_json_def dumps_JObj py_strip_empty_iff by (simp add: py_isspace_def)
  have d: "distinct (map fst r)" using Cons.prems by simp
  have "map_of (map (\<lambda>(k, v). (k, norm_json True v)) (sort_key fst r)) ''record_id''
      = map_option (norm_json True) (map_of (sort_key fst r) ''record_id'')"
    by (simp add: map_of_map)
  also have "map_of (sort_key fst r) = map_of r"
    using d by (intro map_of_inject_set [THEN iffD2]) (auto simp: distinct_map)
  finally have e: "map_of (map (\<lambda>(k, v). (k, norm_json True v)) (sort_key fst r)) ''record_id''
      = map_option (norm_json True) (map_of r ''record_id'')" .
  have "norm_json True j = JStr rid \<longleftrightarrow> j = JStr rid" for j by (cases j) (simp_all add: Let_def)
  then have m: "map_of (map (\<lambda>(k, v). (k, norm_json True v)) (sort_key fst r)) ''record_id''
      = Some (JStr rid) \<longleftrightarrow> holds_id rid r"
    unfolding e by (cases "map_of r ''record_id''") (simp_all add: holds_id_def)
  show ?case using Cons b l m by simp
qed


section \<open>Appending twice\<close>

text \<open>Every transcript file of the Session is a log of well-formed records.\<close>

definition log_file :: "node option \<Rightarrow> record_log \<Rightarrow> bool" where
  "log_file n recs \<longleftrightarrow> n = Some (File (concat (map transcript_bytes recs)))
     \<and> (\<forall>r\<in>set recs. wf_json (JObj r))"

definition transcripts_ok :: "tree \<Rightarrow> ppath \<Rightarrow> bool" where
  "transcripts_ok t dir \<longleftrightarrow> (\<forall>name\<in>set (transcript_names t dir). valid_name name
     \<and> (\<exists>recs. log_file (node_at t (pp_parts dir @ [name])) recs))"

text \<open>The directory of the Session exists with all its parents, and is named without dots.\<close>

definition reachable_dir :: "tree \<Rightarrow> ppath \<Rightarrow> bool" where
  "reachable_dir t dir \<longleftrightarrow> ''..'' \<notin> set (pp_parts dir)
     \<and> (\<forall>l. prefix l (pp_parts dir) \<longrightarrow> node_at t l = Some Dir)"

lemma stat_in_dir:
  assumes "reachable_dir t dir" "valid_name name"
  shows "stat t (sub dir name) = node_at t (pp_parts dir @ [name])"
proof -
  have d: "''..'' \<notin> set (pp_parts dir @ [name])"
    using assms by (auto simp: reachable_dir_def valid_name_def)
  have "node_at t ([] @ take j (pp_parts dir @ [name])) = Some Dir"
    if "j < length (pp_parts dir @ [name])" for j
    using that assms(1) by (auto simp: reachable_dir_def take_is_prefix)
  then show ?thesis using walk_plain [OF d, of t "[]"] assms(2) by (simp add: stat_def location_def)
qed

lemma transcript_file:
  assumes "reachable_dir t dir" "valid_name name" "log_file (node_at t (pp_parts dir @ [name])) recs"
  shows "transcript_contains t (sub dir name) rid = Inr (\<exists>r\<in>set recs. holds_id rid r)"
  using assms(3)
  by (simp add: log_file_def transcript_contains_def stat_in_dir [OF assms(1,2)] read_log
      file_lines_log lines_contain_log)

lemma find_transcript_result:
  assumes "rid \<noteq> []" "\<And>p. p \<in> set ps \<Longrightarrow> transcript_contains t p rid = Inr (c p)"
  shows "find_transcript t rid ps = Inr (find c ps)"
  using assms(2) by (induction ps) (simp_all add: assms(1))

lemma set_transcript_names:
  "name \<in> set (transcript_names t dir) \<longleftrightarrow>
     glob_jsonl ''transcript'' name \<and> node_at t (pp_parts dir @ [name]) \<noteq> None"
proof -
  have "name \<in> set (child_names t l) \<longleftrightarrow> l @ [name] \<in> set (map fst t)" for l
    by (auto simp: child_names_def image_iff) (metis append_butlast_last_id fst_conv, force)
  then show ?thesis using node_at_key [of "pp_parts dir @ [name]" t]
    by (auto simp: transcript_names_def simp del: set_map)
qed

text \<open>A record that is in some transcript file is found, without an error.\<close>

lemma find_transcript_present:
  assumes "reachable_dir t dir" "transcripts_ok t dir" "rid \<noteq> []"
    "name \<in> set (transcript_names t dir)" "log_file (node_at t (pp_parts dir @ [name])) recs"
    "r \<in> set recs" "holds_id rid r"
  shows "\<exists>p. find_transcript t rid (map (sub dir) (transcript_names t dir)) = Inr (Some p)"
proof -
  let ?c = "\<lambda>p. transcript_contains t p rid = Inr True"
  have ok: "transcript_contains t p rid = Inr (?c p)"
    if pin: "p \<in> set (map (sub dir) (transcript_names t dir))" for p
  proof -
    obtain x qs where "x \<in> set (transcript_names t dir)" "p = sub dir x" "valid_name x"
      "log_file (node_at t (pp_parts dir @ [x])) qs"
      using pin assms(2) by (auto simp: transcripts_ok_def)
    then show ?thesis using transcript_file [OF assms(1)] by auto
  qed
  have "?c (sub dir name)"
    using transcript_file [OF assms(1) _ assms(5)] assms(2,4,6,7) by (auto simp: transcripts_ok_def)
  then obtain q where "find ?c (map (sub dir) (transcript_names t dir)) = Some q"
    using assms(4) by (cases "find ?c (map (sub dir) (transcript_names t dir))") (auto simp: find_None_iff)
  moreover have "find_transcript t rid (map (sub dir) (transcript_names t dir))
      = Inr (find ?c (map (sub dir) (transcript_names t dir)))"
    by (rule find_transcript_result [OF assms(3) ok])
  ultimately show ?thesis by simp
qed

lemma mkdirs_from_same:
  assumes "\<And>j. 0 < j \<Longrightarrow> j \<le> length ps \<Longrightarrow> node_at t (done @ take j ps) = Some Dir"
  shows "mkdirs_from done ps t = Inr t"
  using assms
proof (induction ps arbitrary: "done")
  case Nil then show ?case by simp
next
  case (Cons p ps)
  have "node_at t (done @ [p]) = Some Dir" using Cons.prems [of 1] by simp
  moreover have "mkdirs_from (done @ [p]) ps t = Inr t"
    using Cons.prems [of "Suc _"] by (intro Cons.IH) simp
  ultimately show ?case by (simp add: mkdir_one_def)
qed

lemma mkdirs_same: "\<forall>l. prefix l d \<longrightarrow> node_at t l = Some Dir \<Longrightarrow> mkdirs d t = Inr t"
  unfolding mkdirs_def by (rule mkdirs_from_same) (simp add: take_is_prefix)


section \<open>The file a record goes to\<close>

lemma numbered_name:
  "glob_jsonl ''transcript'' (''transcript-'' @ pad6 n @ ''.jsonl'')"
  "valid_name (''transcript-'' @ pad6 n @ ''.jsonl'')"
proof -
  have d: "CHR ''/'' \<notin> set (pad6 n)" using py_str_nat_digits [of n]
    by (auto simp: pad6_def Let_def is_digit_def)
  have l: "6 \<le> length (pad6 n)" by (simp add: pad6_def Let_def)
  show "glob_jsonl ''transcript'' (''transcript-'' @ pad6 n @ ''.jsonl'')"
    by (simp add: glob_jsonl_def py_startswith_def)
  show "valid_name (''transcript-'' @ pad6 n @ ''.jsonl'')" using d by (simp add: valid_name_def)
qed

lemma first_name: "''transcript-000001.jsonl'' = ''transcript-'' @ pad6 1 @ ''.jsonl''"
  by code_simp

text \<open>The names an append looks through: the present ones, or the first if there is none.\<close>

definition names_or_first :: "tree \<Rightarrow> ppath \<Rightarrow> string list" where
  "names_or_first t dir = (let names = transcript_names t dir in
     if names = [] then [''transcript-000001.jsonl''] else names)"

lemma names_or_first_ok:
  assumes "transcripts_ok t dir" "name \<in> set (names_or_first t dir)"
  shows "glob_jsonl ''transcript'' name" "valid_name name"
    "\<exists>recs. log_file (node_at t (pp_parts dir @ [name])) recs \<or> node_at t (pp_parts dir @ [name]) = None"
proof -
  consider "name \<in> set (transcript_names t dir)"
    | "transcript_names t dir = []" "name = ''transcript-'' @ pad6 1 @ ''.jsonl''"
    using assms(2) first_name by (auto simp: names_or_first_def Let_def split: if_splits)
  then have "glob_jsonl ''transcript'' name \<and> valid_name name
    \<and> (\<exists>recs. log_file (node_at t (pp_parts dir @ [name])) recs \<or> node_at t (pp_parts dir @ [name]) = None)"
  proof cases
    case 1 then show ?thesis using assms(1) by (auto simp: transcripts_ok_def set_transcript_names)
  next
    case 2
    then have "name \<notin> set (transcript_names t dir)" by simp
    then show ?thesis using numbered_name [of 1] unfolding 2(2) set_transcript_names by blast
  qed
  then show "glob_jsonl ''transcript'' name" "valid_name name"
    "\<exists>recs. log_file (node_at t (pp_parts dir @ [name])) recs \<or> node_at t (pp_parts dir @ [name]) = None"
    by blast+
qed

lemma target_name:
  assumes "transcripts_ok t dir"
  shows "\<exists>name. transcript_target t dir (names_or_first t dir) k mx = sub dir name
    \<and> glob_jsonl ''transcript'' name \<and> valid_name name
    \<and> (\<exists>recs. log_file (node_at t (pp_parts dir @ [name])) recs \<or> node_at t (pp_parts dir @ [name]) = None)"
proof -
  have last: "last (names_or_first t dir) \<in> set (names_or_first t dir)"
    by (simp add: names_or_first_def Let_def)
  note l = names_or_first_ok [OF assms last]
  let ?new = "''transcript-'' @ pad6 (length (names_or_first t dir) + 1) @ ''.jsonl''"
  have n: "\<exists>recs. log_file (node_at t (pp_parts dir @ [?new])) recs \<or> node_at t (pp_parts dir @ [?new]) = None"
    using numbered_name assms set_transcript_names unfolding transcripts_ok_def by blast
  have "transcript_target t dir (names_or_first t dir) k mx \<in> {sub dir (last (names_or_first t dir)), sub dir ?new}"
    by (auto simp: transcript_target_def Let_def split: option.splits node.splits)
  then show ?thesis using l n numbered_name by blast
qed

lemma append_transcript_eq:
  "append_transcript b sid record mx t =
     (let dir = session_dir b sid; rid = transcript_record_id record in
      thenS (mkdir_path dir) (\<lambda>_ t.
        case find_transcript t rid (map (sub dir) (names_or_first t dir)) of
          Inl e \<Rightarrow> (Inl e, t)
        | Inr (Some p) \<Rightarrow> (Inr p, t)
        | Inr None \<Rightarrow>
            thenS (append_bytes (transcript_target t dir (names_or_first t dir)
                     (length (transcript_bytes record)) mx) (transcript_bytes record))
              (\<lambda>_. returnS (transcript_target t dir (names_or_first t dir)
                     (length (transcript_bytes record)) mx)) t) t)"
  by (simp add: append_transcript_def Let_def io_defs names_or_first_def
      split: sum.splits option.splits prod.splits)

text \<open>Appending a transcript record again changes nothing: the record's id is found in the file
  that holds it, whichever of the rotated files that is, and the directory stays a log of
  well-formed records.\<close>

theorem append_transcript_idempotent:
  assumes "append_transcript b sid record mx t = (Inr p, t1)" "transcripts_ok t (session_dir b sid)"
    and "''..'' \<notin> set (pp_parts (session_dir b sid))" "wf_json (JObj record)"
    and "map_of record ''record_id'' = Some (JStr rid)" "rid \<noteq> []"
  shows "transcripts_ok t1 (session_dir b sid)
    \<and> (\<exists>q. append_transcript b sid record mx t1 = (Inr q, t1))"
proof -
  let ?dir = "session_dir b sid" and ?enc = "transcript_bytes record"
  have rid: "transcript_record_id record = rid"
    using assms(5,6) by (simp add: transcript_record_id_def py_str_def)
  obtain t0 where t0: "mkdirs (pp_parts ?dir) t = Inr t0"
    using assms(1) by (auto simp: append_transcript_eq Let_def mkdir_path_def elim!: thenS_InrE)
  have n0: "node_at t0 l = (if prefix l (pp_parts ?dir) then Some Dir else node_at t l)" for l
    by (rule mkdirs_node [OF t0])
  have name0: "node_at t0 (pp_parts ?dir @ [x]) = node_at t (pp_parts ?dir @ [x])" for x
    by (simp add: n0)
  have ok0: "transcripts_ok t0 ?dir"
    using assms(2) by (simp add: transcripts_ok_def set_transcript_names name0)
  have r0: "reachable_dir t0 ?dir" using assms(3) by (simp add: reachable_dir_def n0)
  let ?res = "find_transcript t0 rid (map (sub ?dir) (names_or_first t0 ?dir))"
  let ?target = "transcript_target t0 ?dir (names_or_first t0 ?dir) (length ?enc) mx"
  have again: "append_transcript b sid record mx s = (Inr q, s)"
    if "reachable_dir s ?dir" "find_transcript s rid (map (sub ?dir) (names_or_first s ?dir)) = Inr (Some q)"
    for s q
  proof -
    have "mkdirs (pp_parts ?dir) s = Inr s" using that(1) by (intro mkdirs_same) (simp add: reachable_dir_def)
    then show ?thesis using that(2)
      by (simp add: append_transcript_eq Let_def rid mkdir_path_def thenS_def changeS_def)
  qed
  show ?thesis
  proof (cases "\<exists>q. ?res = Inr (Some q)")
    case True
    then have "t1 = t0" using assms(1) t0
      by (auto simp: append_transcript_eq Let_def rid mkdir_path_def thenS_def changeS_def)
    then show ?thesis using True again [OF r0] ok0 by blast
  next
    case False
    have "(case ?res of Inl e \<Rightarrow> (Inl e, t0) | Inr (Some q) \<Rightarrow> (Inr q, t0)
        | Inr None \<Rightarrow> thenS (append_bytes ?target ?enc) (\<lambda>_. returnS ?target) t0) = (Inr p, t1)"
      using assms(1) t0 by (simp add: append_transcript_eq Let_def rid mkdir_path_def thenS_def changeS_def)
    then have w: "append_bytes ?target ?enc t0 = (Inr (), t1)"
      using False by (auto elim!: thenS_InrE split: sum.splits option.splits)
    obtain name recs where name: "?target = sub ?dir name" "glob_jsonl ''transcript'' name" "valid_name name"
      "log_file (node_at t0 (pp_parts ?dir @ [name])) recs \<or> node_at t0 (pp_parts ?dir @ [name]) = None"
      using target_name [OF ok0] by blast
    let ?l = "pp_parts ?dir @ [name]"
    let ?recs = "if node_at t0 ?l = None then [] else recs"
    have old: "(case node_at t0 ?l of Some (File c) \<Rightarrow> c | _ \<Rightarrow> '''') = concat (map transcript_bytes ?recs)"
      "\<forall>r\<in>set ?recs. wf_json (JObj r)"
      using name(4) by (auto simp: log_file_def)
    have n1: "node_at t1 = (node_at t0)(?l \<mapsto> File (concat (map transcript_bytes (?recs @ [record]))))"
      using w write_file_node stat_in_dir [OF r0 name(3)] name(1,3) old(1)
      by (auto simp: append_bytes_def write_path_def elim!: thenS_InrE)
    have log1: "log_file (node_at t1 ?l) (?recs @ [record])"
      unfolding log_file_def n1 using old(2) assms(4) by auto
    have ok1: "transcripts_ok t1 ?dir"
      using ok0 log1 name(3)
      by (auto simp: transcripts_ok_def set_transcript_names n1)
    have r1: "reachable_dir t1 ?dir" using r0
      by (auto simp: reachable_dir_def n1 dest: prefix_length_le)
    have in1: "name \<in> set (transcript_names t1 ?dir)" using name(2) by (simp add: set_transcript_names n1)
    then have "names_or_first t1 ?dir = transcript_names t1 ?dir"
      by (auto simp: names_or_first_def Let_def)
    moreover have "holds_id rid record" using assms(5) by (simp add: holds_id_def)
    ultimately obtain q where "find_transcript t1 rid (map (sub ?dir) (names_or_first t1 ?dir)) = Inr (Some q)"
      using find_transcript_present [OF r1 ok1 assms(6) in1 log1, of "record"] by auto
    then show ?thesis using again r1 ok1 by blast
  qed
qed


abbreviation demo_binding :: user_binding where
  "demo_binding \<equiv> a_binding ''u1'' ''/nas/u1/workspace/projects/P001'' ''P001'' ''workspace/projects/P001''"

abbreviation demo_record :: "(string \<times> json) list" where
  "demo_record \<equiv> [(''record_id'', JStr ''r1:user''), (''content'', JStr ''hi''), (''message_seq'', JInt 1)]"

lemma demo_append: "is_ok (fst (append_transcript demo_binding ''s1'' demo_record 1000 []))"
  "pp_parts (session_dir demo_binding ''s1'') = [''nas'', ''u1'', ''sessions'', ''s1'']"
  by code_simp+

theorem append_transcript_idempotent_witness:
  "\<exists>q. append_transcript demo_binding ''s1'' demo_record 1000
       (snd (append_transcript demo_binding ''s1'' demo_record 1000 []))
     = (Inr q, snd (append_transcript demo_binding ''s1'' demo_record 1000 []))"
proof -
  let ?run = "append_transcript demo_binding ''s1'' demo_record 1000 []"
  obtain p where "fst ?run = Inr p" using demo_append(1) by (cases "fst ?run") auto
  then have run: "?run = (Inr p, snd ?run)" by (metis prod.collapse)
  have d: "''..'' \<notin> set (pp_parts (session_dir demo_binding ''s1''))"
    unfolding demo_append(2) by simp
  have ok: "transcripts_ok [] (session_dir demo_binding ''s1'')"
    unfolding transcripts_ok_def Ball_def set_transcript_names by (simp add: node_at_def)
  then show ?thesis
    using append_transcript_idempotent [OF run ok d, of "''r1:user''"] by simp
qed

section \<open>Reading inside the workspace\<close>

lemma ensure_workspace_bound:
  assumes "ensure_workspace root wid (Some b) t = (Inr p, t')"
  shows "p = mk_path (ub_project_path b)"
  using assms by (auto simp: ensure_workspace_def workspace_root_def Let_def elim!: thenS_InrE)

lemma stat_SomeD: "''..'' \<notin> set (pp_parts p) \<Longrightarrow> stat t p = Some n \<Longrightarrow> node_at t (pp_parts p) = Some n"
  using walk_SomeD [of "pp_parts p" t "[]"]
  by (cases "location t p") (auto simp: stat_def location_def)


text \<open>Called with a path the gateway did not normalise, the store's own guard compares text and
  misses the metadata behind a leading dot.\<close>

definition metadata_tree :: tree where
  "metadata_tree = [([''nas''], Dir), ([''nas'', ''p''], Dir), ([''nas'', ''p'', ''.forge''], Dir),
     ([''nas'', ''p'', ''.forge'', ''secret''], File ''metadata''), ([''nas'', ''p'', ''a.txt''], File ''hello'')]"

lemma metadata_guard_misses_dot:
  "fst (read_text lexical_os plain_host (mk_path ''/r'') ''w'' ''./.forge/secret'' 100
     (Some (a_binding ''u1'' ''/nas/p'' ''P'' ''p'')) metadata_tree)
   = Inr (''metadata'', ''0a1b2c'', False)"
  by code_simp

lemma demo_read:
  "fst (read_text lexical_os plain_host (mk_path ''/r'') ''w'' ''a.txt'' 3
     (Some (a_binding ''u1'' ''/nas/p'' ''P'' ''p'')) metadata_tree) = Inr (''hel'', ''0a1b2c'', True)"
  "relative_path (JStr ''./a.txt'') ''path'' = Inr ''a.txt''"
  "canonical_abs (mk_path ''/nas/p'')" "nul \<notin> set ''a.txt''"
  by code_simp+


end
