(* ===== verification/Skills.thy ===== *)
theory Skills
  imports Transcript
begin

text \<open>
  \<open>ManualSkillResolver\<close> of \<open>src/code_forge/skills/manual_skill_resolver.py\<close>: the frontmatter of
  a \<open>SKILL.md\<close>, the directories a Skill is looked up in, resolving a Skill with everything it
  requires, and storing its bundle under the digest of its bytes.

  Skill sources and stored bundles are two trees, \<open>sources\<close> and \<open>bundles\<close>: the resolver reads
  the one and writes the other, which lie apart (\<open>config/skills\<close> or a user's roots, and
  \<open>skill-snapshots\<close>).
\<close>

section \<open>Frontmatter\<close>

text \<open>
  The regular expression \<open>\A---\s*\n(.*?)\n---\s*\n?\<close> over \<open>re.S\<close>: white space up to a line end,
  the last one that lets the rest match; then the text up to the first line starting with three
  dashes; then the white space after it.
\<close>

fun find_fence :: "string \<Rightarrow> string \<Rightarrow> (string \<times> string) option" where
  "find_fence seen [] = None"
| "find_fence seen (c # cs) =
     (if py_startswith (c # cs) (CHR 0x0A # ''---'') then Some (rev seen, drop 3 cs)
      else find_fence (c # seen) cs)"

fun match_after :: "string \<Rightarrow> string \<Rightarrow> (string \<times> string) option" where
  "match_after [] rest = None"
| "match_after (c # ws) rest =
     (if c = CHR 0x0A
      then (case find_fence [] rest of Some r \<Rightarrow> Some r | None \<Rightarrow> match_after ws (c # rest))
      else match_after ws (c # rest))"

definition frontmatter_match :: "string \<Rightarrow> (string \<times> string) option" where
  "frontmatter_match text =
     (if \<not> py_startswith text ''---'' then None
      else let body = drop 3 text; ws = takeWhile py_isspace body in
        map_option (\<lambda>(front, rest). (front, dropWhile py_isspace rest))
          (match_after (rev ws) (dropWhile py_isspace body)))"

datatype meta_value = Text string | Names "string list"

definition parse_requires :: "string \<Rightarrow> string list" where
  "parse_requires value =
     (if py_startswith value ''['' then
        (case loads value of
           Some (JArr items) \<Rightarrow> filter (\<lambda>s. s \<noteq> []) (map (\<lambda>j. py_strip (py_str j)) items)
         | _ \<Rightarrow> [])
      else filter (\<lambda>s. s \<noteq> []) (map py_strip (py_split CHR '','' value)))"

definition parse_line :: "string \<Rightarrow> (string \<times> meta_value) option" where
  "parse_line line = (case dropWhile (\<lambda>c. c \<noteq> CHR '':'') line of
     [] \<Rightarrow> None
   | _ # value0 \<Rightarrow>
       let key = py_strip (takeWhile (\<lambda>c. c \<noteq> CHR '':'') line);
           value = strip_chars {CHR 0x27, CHR 0x22} (py_strip value0) in
       Some (key, if key = ''requires'' then Names (parse_requires value) else Text value))"

definition parse_frontmatter :: "string \<Rightarrow> (string \<times> meta_value) list" where
  "parse_frontmatter text = (case frontmatter_match text of
     None \<Rightarrow> []
   | Some (front, _) \<Rightarrow> dict_of (List.map_filter parse_line (py_splitlines front)))"

section \<open>Reading a Skill\<close>

record skill_meta =
  sm_name :: string
  sm_version :: string
  sm_description :: string
  sm_requires :: "string list"
  sm_digest :: string
  sm_dir :: ppath

record found_skill = skill_meta +
  fs_source_kind :: string
  fs_source_path :: string

definition path_name :: "ppath \<Rightarrow> string" where
  "path_name p = (if pp_parts p = [] then '''' else last (pp_parts p))"

definition meta_text :: "(string \<times> meta_value) list \<Rightarrow> string \<Rightarrow> string \<Rightarrow> string" where
  "meta_text meta key fallback = (case map_of meta key of Some (Text s) \<Rightarrow> s | _ \<Rightarrow> fallback)"

definition meta_names :: "(string \<times> meta_value) list \<Rightarrow> string \<Rightarrow> string list" where
  "meta_names meta key = (case map_of meta key of Some (Names ns) \<Rightarrow> ns | _ \<Rightarrow> [])"

text \<open>The bytes hashed for a bundle: each file's path, a zero byte, its content, a zero byte.\<close>

definition bundle_stream :: "(loc \<times> string) list \<Rightarrow> string" where
  "bundle_stream files =
     concat (map (\<lambda>(k, c). utf8_encode (rel_text k) @ [nul] @ c @ [nul]) (sort_key fst files))"

definition files_under :: "tree \<Rightarrow> ppath \<Rightarrow> (loc \<times> string) list" where
  "files_under t root = (case location t root of None \<Rightarrow> [] | Some l \<Rightarrow> files_below t l)"

definition bundle_digest :: "host \<Rightarrow> tree \<Rightarrow> ppath \<Rightarrow> string" where
  "bundle_digest h t root = h_sha256 h (bundle_stream (files_under t root))"

definition read_skill :: "host \<Rightarrow> tree \<Rightarrow> ppath \<Rightarrow> exn + skill_meta" where
  "read_skill h t skill_dir = (case stat t (sub skill_dir ''SKILL.md'') of
     Some (File bytes) \<Rightarrow>
       bindE (read_text_file bytes) (\<lambda>text.
       let meta = parse_frontmatter text;
           name = meta_text meta ''name'' (path_name skill_dir);
           version = meta_text meta ''version'' '''' in
       if name = [] \<or> version = []
       then Inl (DomainError SKILL_INCOMPATIBLE
              (''Skill '' @ path_name skill_dir @ '' requires name/version frontmatter''))
       else Inr \<lparr>sm_name = name, sm_version = version,
              sm_description = meta_text meta ''description'' '''',
              sm_requires = meta_names meta ''requires'',
              sm_digest = bundle_digest h t skill_dir, sm_dir = skill_dir\<rparr>)
   | _ \<Rightarrow> Inl (DomainError SKILL_NOT_FOUND (''Missing SKILL.md for '' @ path_name skill_dir)))"

section \<open>Where Skills are looked for\<close>

definition skill_roots :: "tree \<Rightarrow> ppath \<Rightarrow> user_binding option \<Rightarrow> string list option
    \<Rightarrow> (string \<times> ppath) list" where
  "skill_roots t skills_root binding skill_paths = (case binding of
     None \<Rightarrow> [(''LEGACY'', skills_root)]
   | Some b \<Rightarrow> (case skill_paths of
       None \<Rightarrow> [(''USER_DEFAULT'', mk_path (default_skill_path b))]
     | Some paths \<Rightarrow> map (\<lambda>path. let root = mk_path path in
         (if path_is_file t (sub root ''SKILL.md'') then ''DIRECT_PACKAGE'' else ''EXPLICIT'', root))
         paths))"

definition skill_dirs :: "tree \<Rightarrow> ppath \<Rightarrow> ppath list" where
  "skill_dirs t root =
     (if path_is_file t (sub root ''SKILL.md'') then [root]
      else if \<not> path_is_dir t root then []
      else map (sub root) (sort (filter (\<lambda>name. path_is_dir t (sub root name)
             \<and> path_is_file t (sub (sub root name) ''SKILL.md''))
             (case location t root of None \<Rightarrow> [] | Some l \<Rightarrow> child_names t l))))"

definition effective_paths ::
  "user_binding option \<Rightarrow> string list option \<Rightarrow> string list \<times> string" where
  "effective_paths binding skill_paths = (case binding of
     None \<Rightarrow> ([], ''LEGACY'')
   | Some b \<Rightarrow> (case skill_paths of
       None \<Rightarrow> ([default_skill_path b], ''USER_DEFAULT'')
     | Some paths \<Rightarrow> (paths, ''EXPLICIT'')))"

record skill_item =
  si_name :: string
  si_version :: string
  si_digest :: string
  si_description :: string
  si_source_path :: string

text \<open>A Skill that cannot be read is left out of a listing; other exceptions end it.\<close>

fun list_root_dirs :: "host \<Rightarrow> tree \<Rightarrow> ppath \<Rightarrow> ppath list \<Rightarrow> exn + skill_item list" where
  "list_root_dirs h t root [] = Inr []"
| "list_root_dirs h t root (d # ds) = (case read_skill h t d of
     Inl (DomainError c m) \<Rightarrow> list_root_dirs h t root ds
   | Inl e \<Rightarrow> Inl e
   | Inr meta \<Rightarrow> bindE (list_root_dirs h t root ds) (\<lambda>items.
       Inr (\<lparr>si_name = sm_name meta, si_version = sm_version meta, si_digest = sm_digest meta,
             si_description = sm_description meta, si_source_path = path_as_posix root\<rparr> # items)))"

definition list_root :: "host \<Rightarrow> tree \<Rightarrow> ppath \<Rightarrow> exn + skill_item list" where
  "list_root h t root = (if \<not> path_exists t root then Inr []
     else list_root_dirs h t root (skill_dirs t root))"

text \<open>The first root that has a name wins.\<close>

fun list_roots :: "host \<Rightarrow> tree \<Rightarrow> (string \<times> (string \<times> skill_item)) list \<Rightarrow> (string \<times> ppath) list
    \<Rightarrow> exn + (string \<times> (string \<times> skill_item)) list" where
  "list_roots h t by_name [] = Inr by_name"
| "list_roots h t by_name ((kind, root) # roots) =
     bindE (list_root h t root) (\<lambda>items.
     list_roots h t (foldl (\<lambda>d item. if map_of d (si_name item) = None
         then d @ [(si_name item, (kind, item))] else d) by_name items) roots)"

definition list_skills :: "host \<Rightarrow> tree \<Rightarrow> ppath \<Rightarrow> user_binding option \<Rightarrow> string list option
    \<Rightarrow> exn + (string \<times> skill_item) list" where
  "list_skills h t skills_root binding skill_paths =
     bindE (list_roots h t [] (skill_roots t skills_root binding skill_paths)) (\<lambda>by_name.
     Inr (map snd (sort_key fst by_name)))"

section \<open>Finding the Skill a binding names\<close>

record resolver =
  rs_host :: host
  rs_sources :: tree
  rs_skills_root :: ppath
  rs_snapshot_root :: ppath
  rs_binding :: "user_binding option"
  rs_skill_paths :: "string list option"

definition found_in :: "string \<Rightarrow> ppath \<Rightarrow> skill_meta \<Rightarrow> found_skill" where
  "found_in kind root meta = skill_meta.extend meta
     \<lparr>fs_source_kind = kind, fs_source_path = path_as_posix root\<rparr>"

fun find_in_roots :: "host \<Rightarrow> tree \<Rightarrow> string \<Rightarrow> (string \<times> ppath) list \<Rightarrow> exn + found_skill option" where
  "find_in_roots h t name [] = Inr None"
| "find_in_roots h t name ((kind, root) # roots) =
     (if path_is_file t (sub root ''SKILL.md'') then
        bindE (read_skill h t root) (\<lambda>meta.
        if sm_name meta \<noteq> name then find_in_roots h t name roots
        else Inr (Some (found_in kind root meta)))
      else if \<not> path_is_dir t (sub root name) then find_in_roots h t name roots
      else bindE (read_skill h t (sub root name)) (\<lambda>meta. Inr (Some (found_in kind root meta))))"

definition roots_of :: "resolver \<Rightarrow> (string \<times> ppath) list" where
  "roots_of R = skill_roots (rs_sources R) (rs_skills_root R) (rs_binding R) (rs_skill_paths R)"

definition read_binding_meta :: "resolver \<Rightarrow> skill_binding \<Rightarrow> exn + found_skill" where
  "read_binding_meta R binding =
     bindE (find_in_roots (rs_host R) (rs_sources R) (sb_name binding) (roots_of R)) (\<lambda>found.
     case found of
       None \<Rightarrow> Inl (DomainError SKILL_NOT_FOUND (''Skill not found: '' @ sb_name binding))
     | Some meta \<Rightarrow>
         if \<not> falsy (sb_version binding) \<and> sb_version binding \<noteq> Some (sm_version meta)
         then Inl (DomainError SKILL_INCOMPATIBLE (''Skill '' @ sb_name binding @ '' requested ''
                @ the (sb_version binding) @ '', found '' @ sm_version meta))
         else Inr meta)"

definition path_digest :: "host \<Rightarrow> user_binding option \<Rightarrow> string list \<Rightarrow> string" where
  "path_digest h binding skill_paths = (case binding of
     None \<Rightarrow> ''''
   | Some b \<Rightarrow> h_sha256 h (utf8_encode (py_join [nul]
       ([ub_user_path b, ub_project_path b] @ skill_paths))))"

section \<open>Storing a bundle\<close>

definition bundle_dir :: "resolver \<Rightarrow> string \<Rightarrow> ppath" where
  "bundle_dir R digest = sub (case rs_binding R of
       None \<Rightarrow> rs_snapshot_root R
     | Some b \<Rightarrow> sub (rs_snapshot_root R) (h_sha256 (rs_host R) (utf8_encode (ub_scope_id b)))) digest"

definition copy_in :: "loc \<Rightarrow> loc \<times> string \<Rightarrow> (tree, unit) io" where
  "copy_in dst = (\<lambda>(k, c).
     thenS (changeS (mkdirs (butlast (dst @ k)))) (\<lambda>_.
     changeS (\<lambda>t. write_file (if node_at t (dst @ k) = Some Dir then dst @ k @ [last k]
                              else dst @ k) c t)))"

text \<open>An empty directory is removed, a bundle that is there is left alone, a missing one is copied.\<close>

definition drop_empty :: "loc \<Rightarrow> (tree, unit) io" where
  "drop_empty dst =
     thenS (readS (\<lambda>t. node_at t dst = Some Dir \<and> child_names t dst = [])) (\<lambda>empty.
     if empty then changeS (rmtree dst) else returnS ())"

definition fill_bundle :: "loc \<Rightarrow> (loc \<times> string) list \<Rightarrow> (tree, unit) io" where
  "fill_bundle dst files = thenS (readS (\<lambda>t. node_at t dst)) (\<lambda>there. case there of
     Some (File _) \<Rightarrow> raiseS (OSErr ''NotADirectoryError'')
   | Some Dir \<Rightarrow> returnS ()
   | None \<Rightarrow> thenS (changeS (mkdirs dst)) (\<lambda>_. eachS (copy_in dst) files))"

definition store_bundle :: "resolver \<Rightarrow> found_skill \<Rightarrow> (tree, skill_ref) io" where
  "store_bundle R meta =
     (let destination = bundle_dir R (sm_digest meta); dst = pp_parts destination in
      thenS (drop_empty dst) (\<lambda>_.
      thenS (fill_bundle dst (files_under (rs_sources R) (sm_dir meta))) (\<lambda>_.
      returnS \<lparr>sr_name = sm_name meta, sr_version = sm_version meta,
        sr_digest = sm_digest meta, sr_bundle_ref = path_as_posix destination,
        sr_source_kind = fs_source_kind meta, sr_source_path = fs_source_path meta,
        sr_user_ref = (case rs_binding R of Some b \<Rightarrow> ub_user_ref b | None \<Rightarrow> ''''),
        sr_project_ref = (case rs_binding R of Some b \<Rightarrow> ub_project_ref b | None \<Rightarrow> '''')\<rparr>)))"

section \<open>Resolving a Skill with everything it requires\<close>

type_synonym resolved = "(string \<times> skill_ref) list"

text \<open>
  The recursion over \<open>requires\<close>, bounded by \<open>fuel\<close>. Running out is Python's
  \<open>RecursionError\<close>; \<open>Skill_resolution_ends\<close> below shows it needs no more fuel than there are
  Skills.
\<close>

definition recursion_error :: exn where
  "recursion_error = ValueErr ''RecursionError''"

fun resolve_tree :: "nat \<Rightarrow> resolver \<Rightarrow> string list \<Rightarrow> skill_binding \<Rightarrow> resolved
    \<Rightarrow> (tree, resolved) io"
  and resolve_all :: "nat \<Rightarrow> resolver \<Rightarrow> string list \<Rightarrow> string list \<Rightarrow> resolved
    \<Rightarrow> (tree, resolved) io" where
  "resolve_tree 0 R visiting binding resolved = raiseS recursion_error"
| "resolve_tree (Suc fuel) R visiting binding resolved =
     thenS (liftS (read_binding_meta R binding)) (\<lambda>meta.
     case map_of resolved (sm_name meta) of
       Some ref \<Rightarrow>
         if sr_version ref \<noteq> sm_version meta
         then raiseS (DomainError SKILL_INCOMPATIBLE
                (''Skill '' @ sm_name meta @ '' is requested with conflicting versions''))
         else returnS resolved
     | None \<Rightarrow>
         if sm_name meta \<in> set visiting
         then raiseS (DomainError SKILL_INCOMPATIBLE
                (''Skill dependency cycle detected at '' @ sm_name meta))
         else thenS (resolve_all fuel R (sm_name meta # visiting) (sm_requires meta) resolved)
                (\<lambda>resolved'. thenS (store_bundle R meta)
                (\<lambda>ref. returnS (AList.update (sm_name meta) ref resolved'))))"
| "resolve_all fuel R visiting [] resolved = returnS resolved"
| "resolve_all fuel R visiting (n # ns) resolved =
     thenS (resolve_tree fuel R visiting \<lparr>sb_name = n, sb_version = None\<rparr> resolved)
       (resolve_all fuel R visiting ns)"

fun resolve_bindings :: "nat \<Rightarrow> resolver \<Rightarrow> skill_binding list \<Rightarrow> resolved \<Rightarrow> (tree, resolved) io" where
  "resolve_bindings fuel R [] resolved = returnS resolved"
| "resolve_bindings fuel R (b # bs) resolved =
     thenS (resolve_tree fuel R [] b resolved) (resolve_bindings fuel R bs)"

text \<open>Without named Skills, every Skill of the roots is taken.\<close>

fun resolve_dirs :: "nat \<Rightarrow> resolver \<Rightarrow> string \<Rightarrow> ppath \<Rightarrow> ppath list \<Rightarrow> resolved
    \<Rightarrow> (tree, resolved) io" where
  "resolve_dirs fuel R kind root [] resolved = returnS resolved"
| "resolve_dirs fuel R kind root (d # ds) resolved =
     thenS (liftS (read_skill (rs_host R) (rs_sources R) d)) (\<lambda>meta.
     thenS (resolve_tree fuel R []
              \<lparr>sb_name = sm_name meta, sb_version = Some (sm_version meta)\<rparr> resolved) (\<lambda>resolved'.
     resolve_dirs fuel R kind root ds (case map_of resolved' (sm_name meta) of
         None \<Rightarrow> resolved'
       | Some ref \<Rightarrow> AList.update (sm_name meta)
           (ref\<lparr>sr_source_kind := kind, sr_source_path := path_as_posix root\<rparr>) resolved')))"

fun resolve_roots :: "nat \<Rightarrow> resolver \<Rightarrow> (string \<times> ppath) list \<Rightarrow> resolved \<Rightarrow> (tree, resolved) io" where
  "resolve_roots fuel R [] resolved = returnS resolved"
| "resolve_roots fuel R ((kind, root) # roots) resolved =
     thenS (resolve_dirs fuel R kind root (skill_dirs (rs_sources R) root) resolved)
       (resolve_roots fuel R roots)"

definition resolver_for :: "resolver \<Rightarrow> run_request \<Rightarrow> resolver" where
  "resolver_for R request = R\<lparr>rs_binding := ec_user_binding (rq_context request),
     rs_skill_paths := rq_skill_paths request\<rparr>"

definition snapshot_of :: "resolver \<Rightarrow> run_request \<Rightarrow> resolved \<Rightarrow> run_snapshot" where
  "snapshot_of R request resolved =
     (case effective_paths (rs_binding R) (rs_skill_paths R) of (paths, source) \<Rightarrow>
      \<lparr>sn_agent_digest = h_sha256 (rs_host R) (utf8_encode (rq_agent_ref request)),
       sn_runtime_ref = ''runtime@local'', sn_model_profile_ref = ''deterministic@local'',
       sn_execution_profile_ref = ''local@1'', sn_skills = map snd resolved,
       sn_tool_refs = [''python'', ''command'', ''file_read'', ''file_write''],
       sn_user_binding = rs_binding R, sn_effective_skill_paths = paths,
       sn_skill_path_source = source, sn_path_digest = path_digest (rs_host R) (rs_binding R) paths\<rparr>)"

definition resolve_and_store :: "nat \<Rightarrow> resolver \<Rightarrow> run_request \<Rightarrow> (tree, run_snapshot) io" where
  "resolve_and_store fuel R0 request =
     (let R = resolver_for R0 request in
      thenS (resolve_bindings fuel R (rq_skills request) []) (\<lambda>resolved.
      thenS (if rs_binding R \<noteq> None \<and> rq_skills request = [] \<and> rq_skill_paths request \<noteq> Some []
             then resolve_roots fuel R (roots_of R) resolved else returnS resolved) (\<lambda>resolved'.
      returnS (snapshot_of R request resolved'))))"

section \<open>Reading a stored Skill\<close>

definition load_skill_body :: "tree \<Rightarrow> skill_ref \<Rightarrow> exn + string" where
  "load_skill_body bundles ref =
     (case stat bundles (sub (mk_path (sr_bundle_ref ref)) ''SKILL.md'') of
        Some (File bytes) \<Rightarrow> bindE (read_text_file bytes) (\<lambda>text.
          Inr (case frontmatter_match text of
                 Some (_, body) \<Rightarrow> py_strip body
               | None \<Rightarrow> py_strip text))
      | _ \<Rightarrow> Inl (DomainError SKILL_NOT_FOUND (''Missing snapshot for '' @ sr_name ref)))"

end
