(* ===== verification/SkillResolution.thy ===== *)
theory SkillResolution
  imports Skills
begin

text \<open>
  Resolving Skills ends, lists dependencies before the Skills that require them, and leaves the
  files of stored bundles as they are.
\<close>

section \<open>The recursion ends\<close>

text \<open>Every name a Skill can be read under: a part of a path, \<open>..\<close>, or a name in frontmatter.\<close>

definition frontmatter_names :: "node \<Rightarrow> string list" where
  "frontmatter_names n = (case n of Dir \<Rightarrow> []
   | File bytes \<Rightarrow> (case read_text_file bytes of Inl _ \<Rightarrow> []
       | Inr text \<Rightarrow> [meta_text (parse_frontmatter text) ''name'' '''']))"

definition skill_names :: "tree \<Rightarrow> string list" where
  "skill_names t = ''..'' # concat (map (\<lambda>(k, n). k @ frontmatter_names n) t)"

lemma skill_names_file:
  assumes "node_at t l = Some (File bytes)"
  shows "set l \<subseteq> set (skill_names t)" "set (frontmatter_names (File bytes)) \<subseteq> set (skill_names t)"
proof -
  have "(l, File bytes) \<in> set t"
    using assms by (auto simp: node_at_def split: if_splits dest: map_of_SomeD)
  then show "set l \<subseteq> set (skill_names t)" "set (frontmatter_names (File bytes)) \<subseteq> set (skill_names t)"
    by (force simp: skill_names_def)+
qed

lemma walk_append: "walk t cur (ps @ qs) = Option.bind (walk t cur ps) (\<lambda>l. walk t l qs)"
  by (induction ps arbitrary: cur) auto

lemma path_name_known:
  assumes "stat t (sub p ''SKILL.md'') = Some (File bytes)" "pp_parts p \<noteq> []"
  shows "path_name p \<in> set (skill_names t)"
proof (cases "path_name p = ''..''")
  case True then show ?thesis by (simp add: skill_names_def)
next
  case False
  obtain ps where ps: "pp_parts p = ps @ [path_name p]"
    using assms(2) by (metis append_butlast_last_id path_name_def)
  have v: "valid_name ''SKILL.md''" by (simp add: valid_name_def)
  obtain l where l: "walk t [] (ps @ [path_name p, ''SKILL.md'']) = Some l" "node_at t l = Some (File bytes)"
    using assms(1) by (auto simp: stat_def location_def parts_sub_name [OF v] ps bind_eq_Some_conv)
  then obtain l0 where "l = l0 @ [path_name p, ''SKILL.md'']"
    using False by (auto simp: walk_append bind_eq_Some_conv split: if_splits)
  then show ?thesis using skill_names_file(1) [OF l(2)] by auto
qed

lemma read_skill_name:
  assumes "read_skill h t d = Inr m"
  shows "sm_name m \<in> set (skill_names t)"
proof -
  obtain bytes where b: "stat t (sub d ''SKILL.md'') = Some (File bytes)"
    using assms by (auto simp: read_skill_def split: option.splits node.splits)
  obtain body where x: "read_text_file bytes = Inr body"
    and n: "sm_name m = meta_text (parse_frontmatter body) ''name'' (path_name d)" "sm_name m \<noteq> []"
    using assms b by (auto simp: read_skill_def Let_def elim!: bindE_InrE split: if_splits)
  obtain l where l: "node_at t l = Some (File bytes)"
    using b by (auto simp: stat_def bind_eq_Some_conv)
  show ?thesis
  proof (cases "sm_name m = path_name d")
    case True
    then have "pp_parts d \<noteq> []" using n(2) by (auto simp: path_name_def)
    then show ?thesis using path_name_known [OF b] True by simp
  next
    case False
    then have "sm_name m = meta_text (parse_frontmatter body) ''name'' ''''"
      using n(1) by (auto simp: meta_text_def split: option.splits meta_value.splits)
    then show ?thesis using skill_names_file(2) [OF l] x by (simp add: frontmatter_names_def)
  qed
qed

lemma find_in_roots_name:
  "find_in_roots h t name roots = Inr (Some m) \<Longrightarrow> sm_name m \<in> set (skill_names t)"
  by (induction h t name roots rule: find_in_roots.induct)
    (auto simp: found_in_def skill_meta.extend_def split: if_splits
      elim!: bindE_InrE dest!: read_skill_name)

lemma binding_meta_name:
  "read_binding_meta R b = Inr m \<Longrightarrow> sm_name m \<in> set (skill_names (rs_sources R))"
  by (auto simp: read_binding_meta_def elim!: bindE_InrE dest!: find_in_roots_name
      split: option.splits if_splits)

lemma read_skill_error: "read_skill h t d \<noteq> Inl recursion_error"
  by (auto simp: read_skill_def recursion_error_def Let_def bindE_def read_text_file_def
      split: option.splits node.splits sum.splits)

lemma find_in_roots_error: "find_in_roots h t name roots \<noteq> Inl recursion_error"
  by (induction h t name roots rule: find_in_roots.induct)
    (auto simp: bindE_def read_skill_error split: sum.splits)

lemma binding_meta_error: "read_binding_meta R b \<noteq> Inl recursion_error"
  using find_in_roots_error
  by (auto simp: read_binding_meta_def bindE_def recursion_error_def split: sum.splits option.splits)

text \<open>A step fails for want of fuel.\<close>

definition starved :: "('s, 'a) io \<Rightarrow> 's \<Rightarrow> bool" where
  "starved m s \<longleftrightarrow> fst (m s) = Inl recursion_error"

lemma starved_simps [simp]:
  "\<not> starved (returnS x) s" "starved (raiseS e) s \<longleftrightarrow> e = recursion_error"
  "starved (liftS r) s \<longleftrightarrow> r = Inl recursion_error" "\<not> starved (readS f) s"
  by (auto simp: starved_def io_defs)

lemma recursion_error_neq [simp]: "DomainError c m \<noteq> recursion_error" "OSErr m \<noteq> recursion_error"
  by (simp_all add: recursion_error_def)

lemma starved_thenS:
  "starved (thenS m f) s \<Longrightarrow> starved m s \<or> (\<exists>x s'. m s = (Inr x, s') \<and> starved (f x) s')"
  by (cases "m s") (auto simp: starved_def thenS_def split: sum.splits prod.splits)

lemma starved_changeS: "\<not> starved (changeS (mkdirs l)) s" "\<not> starved (changeS (rmtree l)) s"
  "\<not> starved (changeS (\<lambda>t. write_file (g t) c t)) s"
proof -
  have "mkdirs_from d l s \<noteq> Inl recursion_error" for d
    by (induction l arbitrary: d s)
      (auto simp: mkdir_one_def recursion_error_def bindE_def split: sum.splits option.splits node.splits)
  then show "\<not> starved (changeS (mkdirs l)) s"
    by (auto simp: starved_def changeS_def mkdirs_def split: sum.splits)
qed (auto simp: starved_def changeS_def rmtree_def write_file_def recursion_error_def split: sum.splits)

lemma starved_copies: "\<not> starved (eachS (copy_in dst) kcs) s"
  by (induction kcs arbitrary: s)
    (auto simp: copy_in_def starved_changeS dest!: starved_thenS)

lemma starved_store: "\<not> starved (store_bundle R m) s"
  unfolding store_bundle_def drop_empty_def fill_bundle_def Let_def
  by (rule notI) (auto simp: starved_changeS starved_copies dest!: starved_thenS
      split: if_splits option.splits node.splits)

text \<open>Each level adds a name to \<open>visiting\<close>, so the levels are bounded by the names.\<close>

abbreviation names_of :: "resolver \<Rightarrow> string set" where
  "names_of R \<equiv> set (skill_names (rs_sources R))"

lemma resolve_not_starved:
  "card (names_of R - set visiting) < fuel \<Longrightarrow> \<not> starved (resolve_tree fuel R visiting b resolved) s"
  "card (names_of R - set visiting) < fuel \<Longrightarrow> \<not> starved (resolve_all fuel R visiting ns resolved) s"
proof (induction fuel R visiting b resolved and fuel R visiting ns resolved arbitrary: s and s
    rule: resolve_tree_resolve_all.induct)
  case (2 fuel R visiting binding resolved)
  show ?case
  proof
    assume "starved (resolve_tree (Suc fuel) R visiting binding resolved) s"
    then obtain m s' where m: "read_binding_meta R binding = Inr m" "sm_name m \<notin> set visiting"
      "map_of resolved (sm_name m) = None"
      and st: "starved (resolve_all fuel R (sm_name m # visiting) (sm_requires m) resolved) s'"
      by (auto simp: binding_meta_error starved_store dest!: starved_thenS
          split: option.splits if_splits)
    have "names_of R - set (sm_name m # visiting) \<subset> names_of R - set visiting"
      using m(2) binding_meta_name [OF m(1)] by auto
    then have "card (names_of R - set (sm_name m # visiting)) < card (names_of R - set visiting)"
      by (intro psubset_card_mono) auto
    then have "card (names_of R - set (sm_name m # visiting)) < fuel" using 2(2) by linarith
    then show False using 2(1) [OF m(3,2)] st by simp
  qed
qed (auto dest!: starved_thenS)

text \<open>A level that is not starved does the same with more fuel.\<close>

lemma thenS_cong:
  "m s = m' s \<Longrightarrow> (\<And>x s'. m s = (Inr x, s') \<Longrightarrow> f x s' = f' x s') \<Longrightarrow> thenS m f s = thenS m' f' s"
  by (auto simp: thenS_def split: prod.splits sum.splits)

lemma starved_first: "starved m s \<Longrightarrow> starved (thenS m f) s"
  by (auto simp: starved_def thenS_def split: prod.splits)

lemma not_starved_thenS:
  assumes "\<not> starved (thenS m f) s"
  shows "\<not> starved m s" "m s = (Inr x, s') \<Longrightarrow> \<not> starved (f x) s'"
  using assms by (auto simp: starved_def thenS_def split: prod.splits sum.splits)

lemma resolve_more_fuel:
  "\<not> starved (resolve_tree fuel R visiting b resolved) s \<Longrightarrow>
     resolve_tree (Suc fuel) R visiting b resolved s = resolve_tree fuel R visiting b resolved s"
  "\<not> starved (resolve_all fuel R visiting ns resolved) s \<Longrightarrow>
     resolve_all (Suc fuel) R visiting ns resolved s = resolve_all fuel R visiting ns resolved s"
proof (induction fuel R visiting b resolved and fuel R visiting ns resolved arbitrary: s and s
    rule: resolve_tree_resolve_all.induct)
  case (2 fuel R visiting binding resolved)
  show ?case
    unfolding resolve_tree.simps(2) [of "Suc fuel"] resolve_tree.simps(2) [of fuel]
  proof (rule thenS_cong, rule refl, goal_cases)
    case (1 m s')
    note ns = not_starved_thenS(2) [OF 2(2) [unfolded resolve_tree.simps(2)] 1]
    have "thenS (resolve_all (Suc fuel) R (sm_name m # visiting) (sm_requires m) resolved) f s'
        = thenS (resolve_all fuel R (sm_name m # visiting) (sm_requires m) resolved) f s'"
      if "map_of resolved (sm_name m) = None" "sm_name m \<notin> set visiting" for f
      using 2(1) [OF that] ns that by (intro thenS_cong) (auto dest: starved_first)
    then show ?case by (auto split: option.split)
  qed
next
  case (4 fuel R visiting n ns resolved)
  have ns: "\<not> starved (thenS (resolve_tree fuel R visiting \<lparr>sb_name = n, sb_version = None\<rparr> resolved)
      (resolve_all fuel R visiting ns)) s" using 4(3) by simp
  note head = 4(1) [OF not_starved_thenS(1) [OF ns]]
  show ?case unfolding resolve_all.simps(2)
  proof (rule thenS_cong, rule head, goal_cases)
    case (1 x s')
    then have "resolve_tree fuel R visiting \<lparr>sb_name = n, sb_version = None\<rparr> resolved s = (Inr x, s')"
      by (simp only: head)
    then show ?case by (intro 4(2) not_starved_thenS(2) [OF ns])
  qed
qed auto

definition enough_fuel :: "resolver \<Rightarrow> nat \<Rightarrow> bool" where
  "enough_fuel R fuel \<longleftrightarrow> length (skill_names (rs_sources R)) < fuel"

lemma enough_not_starved:
  assumes "enough_fuel R fuel"
  shows "\<not> starved (resolve_tree fuel R [] b resolved) s"
proof -
  have "card (names_of R - set []) < fuel"
    using assms card_length [of "skill_names (rs_sources R)"] by (simp add: enough_fuel_def)
  then show ?thesis by (rule resolve_not_starved(1))
qed

lemma enough_fuel_eq:
  assumes "enough_fuel R fuel" "fuel \<le> fuel'"
  shows "resolve_tree fuel' R [] b resolved s = resolve_tree fuel R [] b resolved s"
  using assms(2)
proof (induction fuel' rule: dec_induct)
  case (step n)
  have "enough_fuel R n" using assms(1) step(1) by (simp add: enough_fuel_def)
  then show ?case using step resolve_more_fuel(1) [OF enough_not_starved] by metis
qed simp

lemma bindings_fuel:
  assumes "enough_fuel R fuel"
  shows "\<not> starved (resolve_bindings fuel R bs resolved) s"
    "fuel \<le> fuel' \<Longrightarrow> resolve_bindings fuel' R bs resolved s = resolve_bindings fuel R bs resolved s"
proof (induction bs arbitrary: resolved s)
  case (Cons b bs)
  { case 1 show ?case using Cons(1) enough_not_starved [OF assms] by (auto dest!: starved_thenS) }
  { case 2 show ?case using Cons(2) [OF 2] enough_fuel_eq [OF assms 2] by (auto intro: thenS_cong) }
qed auto

lemma dirs_fuel:
  assumes "enough_fuel R fuel"
  shows "\<not> starved (resolve_dirs fuel R kind root ds resolved) s"
    "fuel \<le> fuel' \<Longrightarrow>
      resolve_dirs fuel' R kind root ds resolved s = resolve_dirs fuel R kind root ds resolved s"
proof (induction ds arbitrary: resolved s)
  case (Cons d ds)
  { case 1 show ?case using Cons(1) enough_not_starved [OF assms]
      by (auto simp: read_skill_error dest!: starved_thenS) }
  { case 2 show ?case using Cons(2) [OF 2] enough_fuel_eq [OF assms 2] by (auto intro!: thenS_cong) }
qed auto

lemma roots_fuel:
  assumes "enough_fuel R fuel"
  shows "\<not> starved (resolve_roots fuel R roots resolved) s"
    "fuel \<le> fuel' \<Longrightarrow> resolve_roots fuel' R roots resolved s = resolve_roots fuel R roots resolved s"
proof (induction roots arbitrary: resolved s)
  case (Cons r roots)
  obtain kind root where r: "r = (kind, root)" by force
  { case 1 show ?case using Cons(1) dirs_fuel(1) [OF assms] by (auto simp: r dest!: starved_thenS) }
  { case 2 show ?case using Cons(2) [OF 2] dirs_fuel(2) [OF assms 2] by (auto simp: r intro!: thenS_cong) }
qed auto

text \<open>C18: Resolving a request's Skills ends: with more fuel than the source tree has names the
  recursion never exhausts it, and more fuel gives the same result.\<close>

theorem skill_resolution_ends:
  assumes "length (skill_names (rs_sources R)) < fuel" "fuel \<le> fuel'"
  shows "fst (resolve_and_store fuel R request t) \<noteq> Inl recursion_error
    \<and> resolve_and_store fuel' R request t = resolve_and_store fuel R request t"
proof
  have e: "enough_fuel (resolver_for R request) fuel"
    using assms(1) by (simp add: enough_fuel_def resolver_for_def)
  note b = bindings_fuel [OF e] and r = roots_fuel [OF e]
  have "\<not> starved (resolve_and_store fuel R request) t"
    unfolding resolve_and_store_def Let_def
    using b(1) r(1) by (intro notI) (drule starved_thenS, auto dest!: starved_thenS split: if_splits)
  then show "fst (resolve_and_store fuel R request t) \<noteq> Inl recursion_error"
    by (simp add: starved_def)
  show "resolve_and_store fuel' R request t = resolve_and_store fuel R request t"
    unfolding resolve_and_store_def Let_def
    by (rule thenS_cong [OF b(2) [OF assms(2)] thenS_cong]) (auto simp: r(2) [OF assms(2)])
qed

section \<open>Dependencies come first\<close>

text \<open>Entry \<open>i\<close> is a Skill that was read, and what it requires is among the entries before it.\<close>

definition entry_ok :: "resolver \<Rightarrow> string list \<Rightarrow> string \<times> skill_ref \<Rightarrow> bool" where
  "entry_ok R earlier e \<longleftrightarrow> sr_name (snd e) = fst e \<and> (\<exists>b m. read_binding_meta R b = Inr m
     \<and> fst e = sm_name m \<and> sr_version (snd e) = sm_version m \<and> sr_digest (snd e) = sm_digest m
     \<and> (\<forall>n\<in>set (sm_requires m). \<exists>m'. read_binding_meta R \<lparr>sb_name = n, sb_version = None\<rparr> = Inr m'
          \<and> sm_name m' \<in> set earlier))"

definition in_order :: "resolver \<Rightarrow> resolved \<Rightarrow> bool" where
  "in_order R rs \<longleftrightarrow> distinct (map fst rs)
     \<and> (\<forall>i<length rs. entry_ok R (map fst (take i rs)) (rs ! i))"

lemma in_order_Nil [simp]: "in_order R []"
  by (simp add: in_order_def)

lemma in_order_snoc:
  "in_order R (rs @ [e]) \<longleftrightarrow> in_order R rs \<and> fst e \<notin> set (map fst rs) \<and> entry_ok R (map fst rs) e"
  by (auto simp: in_order_def less_Suc_eq nth_append)

lemma update_new: "k \<notin> fst ` set rs \<Longrightarrow> AList.update k v rs = rs @ [(k, v)]"
  by (induction rs) auto

lemma store_bundle_ref:
  assumes "store_bundle R m t = (Inr ref, t')"
  shows "sr_name ref = sm_name m" "sr_version ref = sm_version m" "sr_digest ref = sm_digest m"
    "sr_bundle_ref ref = path_as_posix (bundle_dir R (sm_digest m))"
  using assms by (auto simp: store_bundle_def Let_def elim!: thenS_InrE split: option.splits node.splits)

lemma resolve_in_order:
  "resolve_tree fuel R visiting b rs t = (Inr rs', t') \<Longrightarrow> in_order R rs \<Longrightarrow>
     set visiting \<inter> fst ` set rs = {} \<Longrightarrow>
     in_order R rs' \<and> set visiting \<inter> fst ` set rs' = {} \<and> prefix rs rs'
     \<and> (\<exists>m. read_binding_meta R b = Inr m \<and> sm_name m \<in> fst ` set rs')"
  "resolve_all fuel R visiting ns rs t = (Inr rs', t') \<Longrightarrow> in_order R rs \<Longrightarrow>
     set visiting \<inter> fst ` set rs = {} \<Longrightarrow>
     in_order R rs' \<and> set visiting \<inter> fst ` set rs' = {} \<and> prefix rs rs'
     \<and> (\<forall>n\<in>set ns. \<exists>m. read_binding_meta R \<lparr>sb_name = n, sb_version = None\<rparr> = Inr m
          \<and> sm_name m \<in> fst ` set rs')"
proof (induction fuel R visiting b rs and fuel R visiting ns rs arbitrary: t rs' t' and t rs' t'
    rule: resolve_tree_resolve_all.induct)
  case (2 fuel R visiting binding resolved)
  obtain m where m: "read_binding_meta R binding = Inr m"
    and step: "(case map_of resolved (sm_name m) of
       Some ref \<Rightarrow>
         if sr_version ref \<noteq> sm_version m
         then raiseS (DomainError SKILL_INCOMPATIBLE
                (''Skill '' @ sm_name m @ '' is requested with conflicting versions''))
         else returnS resolved
     | None \<Rightarrow>
         if sm_name m \<in> set visiting
         then raiseS (DomainError SKILL_INCOMPATIBLE
                (''Skill dependency cycle detected at '' @ sm_name m))
         else thenS (resolve_all fuel R (sm_name m # visiting) (sm_requires m) resolved)
                (\<lambda>resolved'. thenS (store_bundle R m)
                (\<lambda>ref. returnS (AList.update (sm_name m) ref resolved')))) t = (Inr rs', t')"
    using 2(2) by (auto elim!: thenS_InrE)
  show ?case
  proof (cases "map_of resolved (sm_name m)")
    case (Some ref)
    then have "rs' = resolved" "sm_name m \<in> fst ` set resolved"
      using step by (auto split: if_splits dest: map_of_SomeD intro: rev_image_eqI)
    then show ?thesis using 2 m by simp
  next
    case None
    then have new: "sm_name m \<notin> fst ` set resolved" by (simp add: map_of_eq_None_iff)
    obtain rs1 t1 ref t2 where out: "sm_name m \<notin> set visiting"
      "resolve_all fuel R (sm_name m # visiting) (sm_requires m) resolved t = (Inr rs1, t1)"
      "store_bundle R m t1 = (Inr ref, t2)" "rs' = AList.update (sm_name m) ref rs1"
      using step None by (auto elim!: thenS_InrE split: if_splits)
    have ih: "in_order R rs1 \<and> set (sm_name m # visiting) \<inter> fst ` set rs1 = {} \<and> prefix resolved rs1
      \<and> (\<forall>n\<in>set (sm_requires m). \<exists>m. read_binding_meta R \<lparr>sb_name = n, sb_version = None\<rparr> = Inr m
          \<and> sm_name m \<in> fst ` set rs1)"
      using 2(1) [OF None out(1,2)] 2(3,4) new by auto
    have rs': "rs' = rs1 @ [(sm_name m, ref)]"
      using out(4) ih by (simp add: update_new)
    have "entry_ok R (map fst rs1) (sm_name m, ref)"
      using m ih store_bundle_ref [OF out(3)] unfolding entry_ok_def by auto
    then have "in_order R rs'" using ih by (simp add: rs' in_order_snoc)
    then show ?thesis using ih out(1) m by (auto simp: rs')
  qed
next
  case (4 fuel R visiting n ns resolved)
  obtain rs1 t1 where s: "resolve_tree fuel R visiting \<lparr>sb_name = n, sb_version = None\<rparr> resolved t = (Inr rs1, t1)"
    "resolve_all fuel R visiting ns rs1 t1 = (Inr rs', t')"
    using 4(3) by (auto elim: thenS_InrE)
  note a = 4(1) [OF s(1) 4(4,5)]
  then have b: "in_order R rs' \<and> set visiting \<inter> fst ` set rs' = {} \<and> prefix rs1 rs'
     \<and> (\<forall>n\<in>set ns. \<exists>m. read_binding_meta R \<lparr>sb_name = n, sb_version = None\<rparr> = Inr m
          \<and> sm_name m \<in> fst ` set rs')" using 4(2) [OF s(2)] by blast
  then have "fst ` set rs1 \<subseteq> fst ` set rs'" by (intro image_mono set_mono_prefix) simp
  then have "\<exists>m. read_binding_meta R \<lparr>sb_name = n, sb_version = None\<rparr> = Inr m
      \<and> sm_name m \<in> fst ` set rs'" using a by blast
  then show ?case using a b by (auto intro: prefix_order.trans)
qed auto

lemma update_in_place:
  "distinct (map fst rs) \<Longrightarrow> k \<in> fst ` set rs \<Longrightarrow>
     AList.update k v rs = map (\<lambda>e. if fst e = k then (k, v) else e) rs"
proof (induction rs)
  case (Cons e rs)
  obtain a b where e: "e = (a, b)" by force
  show ?case using Cons
    by (cases "a = k") (auto simp: e intro!: map_idI [symmetric], force)
qed simp

lemma relabel_in_order:
  assumes "in_order R rs" "map_of rs k = Some ref"
  shows "in_order R (AList.update k (ref\<lparr>sr_source_kind := kind, sr_source_path := path\<rparr>) rs)"
proof -
  let ?new = "ref\<lparr>sr_source_kind := kind, sr_source_path := path\<rparr>"
  let ?f = "\<lambda>e. if fst e = k then (k, ?new) else e"
  have d: "distinct (map fst rs)" and k: "k \<in> fst ` set rs"
    using assms by (auto simp: in_order_def dest: map_of_SomeD intro: rev_image_eqI)
  have keys: "map fst (map ?f rs) = map fst rs" by (induction rs) auto
  have tk: "map fst (take i (map ?f rs)) = map fst (take i rs)" for i
    by (simp add: take_map [symmetric] keys del: map_map flip: take_map)
  have "entry_ok R ks (?f e)" if "entry_ok R ks e" "e \<in> set rs" for ks e
  proof (cases "fst e = k")
    case True
    then have "snd e = ref" using that(2) d assms(2) by (cases e) auto
    then show ?thesis using that(1) True by (simp add: entry_ok_def)
  qed (simp add: that)
  then have "\<forall>i<length rs. entry_ok R (map fst (take i rs)) (map ?f rs ! i)"
    using assms(1) by (auto simp: in_order_def)
  then show ?thesis unfolding update_in_place [OF d k] in_order_def tk keys using d by simp
qed

lemma bindings_in_order:
  "resolve_bindings fuel R bs rs t = (Inr rs', t') \<Longrightarrow> in_order R rs \<Longrightarrow> in_order R rs'"
  by (induction bs arbitrary: rs t) (auto elim!: thenS_InrE dest: resolve_in_order(1))

lemma dirs_in_order:
  "resolve_dirs fuel R kind root ds rs t = (Inr rs', t') \<Longrightarrow> in_order R rs \<Longrightarrow> in_order R rs'"
proof (induction ds arbitrary: rs t)
  case (Cons d ds)
  obtain m :: skill_meta and rs1 t1 where s: "resolve_tree fuel R []
      \<lparr>sb_name = sm_name m, sb_version = Some (sm_version m)\<rparr> rs t = (Inr rs1, t1)"
    "resolve_dirs fuel R kind root ds (case map_of rs1 (sm_name m) of None \<Rightarrow> rs1
       | Some ref \<Rightarrow> AList.update (sm_name m)
           (ref\<lparr>sr_source_kind := kind, sr_source_path := path_as_posix root\<rparr>) rs1) t1 = (Inr rs', t')"
    using Cons.prems(1) by (auto elim!: thenS_InrE)
  have "in_order R rs1" using resolve_in_order(1) [OF s(1) Cons.prems(2)] by simp
  then show ?case by (intro Cons.IH [OF s(2)]) (auto intro: relabel_in_order split: option.split)
qed simp

lemma roots_in_order:
  "resolve_roots fuel R roots rs t = (Inr rs', t') \<Longrightarrow> in_order R rs \<Longrightarrow> in_order R rs'"
proof (induction roots arbitrary: rs t)
  case (Cons r roots)
  then show ?case by (cases r) (auto elim!: thenS_InrE dest!: dirs_in_order)
qed simp

lemma resolved_in_order:
  assumes "resolve_and_store fuel R0 request t = (Inr snap, t')"
  shows "\<exists>rs. in_order (resolver_for R0 request) rs \<and> sn_skills snap = map snd rs"
proof -
  obtain rs where "in_order (resolver_for R0 request) rs" "snap = snapshot_of (resolver_for R0 request) request rs"
    using assms unfolding resolve_and_store_def Let_def
    by (auto elim!: thenS_InrE dest!: bindings_in_order roots_in_order split: if_splits)
  then show ?thesis by (auto simp: snapshot_of_def split: prod.splits)
qed

text \<open>C19: In a snapshot no two Skills share a name, and each was read from the roots under its name
  with the version and digest recorded; every name it requires is read as a Skill listed earlier,
  so a dependency never follows, and never depends on, a Skill that requires it.\<close>

theorem dependencies_come_first:
  assumes "resolve_and_store fuel R0 request t = (Inr snap, t')"
    and "skills = sn_skills snap" "R = resolver_for R0 request"
  shows "distinct (map sr_name skills) \<and> (\<forall>i<length skills. \<exists>b m. read_binding_meta R b = Inr m
     \<and> sr_name (skills ! i) = sm_name m \<and> sr_version (skills ! i) = sm_version m
     \<and> sr_digest (skills ! i) = sm_digest m
     \<and> (\<forall>n\<in>set (sm_requires m). \<exists>m'. read_binding_meta R \<lparr>sb_name = n, sb_version = None\<rparr> = Inr m'
          \<and> sm_name m' \<in> sr_name ` set (take i skills)))"
proof -
  obtain rs where rs: "in_order R rs" "skills = map snd rs"
    using resolved_in_order [OF assms(1)] assms(2,3) by auto
  have names: "sr_name (snd (rs ! i)) = fst (rs ! i)" if "i < length rs" for i
    using rs(1) that by (simp add: in_order_def entry_ok_def)
  then have m: "map sr_name skills = map fst rs" by (auto simp: rs(2) list_eq_iff_nth_eq)
  then have tk: "sr_name ` set (take i skills) = set (map fst (take i rs))" for i
    by (metis list.set_map take_map)
  show ?thesis using rs(1) unfolding in_order_def m tk
    by (simp add: rs(2) entry_ok_def)
qed

end
