(* ===== verification/SkillBundles.thy ===== *)
theory SkillBundles
  imports SkillResolution
begin

text \<open>
  Stored bundles: no resolution changes a file of the bundle tree that was there before, and a
  bundle stored afresh holds the files of its source.
\<close>

section \<open>Steps that keep every file\<close>

text \<open>Every location on the way to a node is a directory.\<close>

definition closed_dirs :: "tree \<Rightarrow> bool" where
  "closed_dirs t \<longleftrightarrow> (\<forall>l k. node_at t l \<noteq> None \<longrightarrow> strict_prefix k l \<longrightarrow> node_at t k = Some Dir)"

lemma closed_dirsD: "closed_dirs t \<Longrightarrow> node_at t l = Some n \<Longrightarrow> strict_prefix k l \<Longrightarrow> node_at t k = Some Dir"
  unfolding closed_dirs_def by (metis option.distinct(1))

lemma wf_closed: "wf_tree t \<Longrightarrow> closed_dirs t"
  unfolding closed_dirs_def using wf_tree_prefix by blast

text \<open>From a closed tree, a step ends in a closed tree with every file outside \<open>d\<close> unchanged.\<close>

definition keeps_outside :: "(loc \<Rightarrow> bool) \<Rightarrow> tree \<Rightarrow> tree \<Rightarrow> bool" where
  "keeps_outside d t t' \<longleftrightarrow> closed_dirs t' \<and>
     (\<forall>l c. node_at t l = Some (File c) \<longrightarrow> \<not> d l \<longrightarrow> node_at t' l = Some (File c))"

definition steady :: "(loc \<Rightarrow> bool) \<Rightarrow> (tree, 'a) io \<Rightarrow> bool" where
  "steady d m \<longleftrightarrow> (\<forall>t. closed_dirs t \<longrightarrow> keeps_outside d t (snd (m t)))"

named_theorems steady_rules \<open>steps that keep every file outside a place\<close>

lemma keeps_refl: "closed_dirs t \<Longrightarrow> keeps_outside d t t"
  by (simp add: keeps_outside_def)

lemma keeps_trans: "keeps_outside d t1 t2 \<Longrightarrow> keeps_outside d t2 t3 \<Longrightarrow> keeps_outside d t1 t3"
  by (simp add: keeps_outside_def)

lemma steady_pure [steady_rules]:
  "steady d (returnS x)" "steady d (raiseS e)" "steady d (liftS r)" "steady d (readS f)"
  by (simp_all add: steady_def io_defs keeps_refl)

lemma steady_thenS [steady_rules]:
  assumes "steady d m" "\<And>x. steady d (f x)"
  shows "steady d (thenS m f)"
  unfolding steady_def
proof (intro allI impI)
  fix t assume t: "closed_dirs t"
  obtain r t1 where m: "m t = (r, t1)" by force
  then have k: "keeps_outside d t t1" using assms(1) t by (force simp: steady_def)
  then have "closed_dirs t1" by (simp add: keeps_outside_def)
  then show "keeps_outside d t (snd (thenS m f t))"
    using assms(2) k keeps_trans [OF k] by (auto simp: thenS_def m steady_def split: sum.splits)
qed

lemma steady_changeS:
  assumes "\<And>t t'. closed_dirs t \<Longrightarrow> f t = Inr t' \<Longrightarrow> keeps_outside d t t'"
  shows "steady d (changeS f)"
  using assms by (auto simp: steady_def changeS_def keeps_refl split: sum.splits)

lemma mkdirs_dir:
  assumes "mkdirs l t = Inr t'" "prefix k l"
  shows "node_at t k \<noteq> Some (File c)"
proof
  assume f: "node_at t k = Some (File c)"
  have from_file: "mkdirs_from d ps s \<noteq> Inr s'"
    if "j < length ps" "node_at s (d @ take (Suc j) ps) = Some (File c)" for j d ps s s'
    using that
  proof (induction ps arbitrary: j d s)
    case (Cons p ps)
    show ?case
    proof (cases j)
      case 0 then show ?thesis using Cons.prems by (simp add: mkdir_one_def)
    next
      case (Suc i)
      show ?thesis
      proof
        assume "mkdirs_from d (p # ps) s = Inr s'"
        then obtain s1 where s1: "mkdir_one (d @ [p]) s = Inr s1" "mkdirs_from (d @ [p]) ps s1 = Inr s'"
          by (auto elim!: bindE_InrE)
        have "node_at s1 ((d @ [p]) @ take (Suc i) ps) = Some (File c)"
          using Cons.prems Suc by (cases ps) (auto simp: mkdir_one_node [OF s1(1)])
        then show False using Cons.IH [of i s1 "d @ [p]"] s1(2) Cons.prems(1) Suc by simp
      qed
    qed
  qed simp
  obtain j where j: "j \<le> length l" "k = take j l" using assms(2) by (auto simp: prefix_iff_take)
  then obtain i where "j = Suc i" using f by (cases j) auto
  then show False using from_file [of i l t "[]" t'] j f assms(1) by (simp add: mkdirs_def)
qed

lemma mkdirs_keeps:
  assumes "closed_dirs t" "mkdirs l t = Inr t'"
  shows "keeps_outside d t t'"
proof -
  have "closed_dirs t'" unfolding closed_dirs_def
    using assms(1) by (auto simp: mkdirs_node [OF assms(2)] dest: closed_dirsD
        intro: prefix_order.trans prefix_order.less_imp_le split: if_splits)
  then show ?thesis using mkdirs_dir [OF assms(2)] by (auto simp: keeps_outside_def mkdirs_node [OF assms(2)])
qed

lemma steady_mkdirs [steady_rules]: "steady d (changeS (mkdirs l))"
  by (intro steady_changeS mkdirs_keeps)

lemma write_keeps:
  assumes "closed_dirs t" "write_file l c t = Inr t'" "d l"
  shows "keeps_outside d t t'"
proof -
  have p: "node_at t (butlast l) = Some Dir" "node_at t l \<noteq> Some Dir" "l \<noteq> []"
    using assms(2) by (auto simp: write_file_def split: if_splits)
  have "strict_prefix k l \<Longrightarrow> node_at t k = Some Dir" for k
    using closed_dirsD [OF assms(1) p(1), of k] p(1,3)
    by (cases l rule: rev_cases) (auto simp: strict_prefix_def prefix_snoc)
  then have "closed_dirs t'"
    using assms(1) p(2) unfolding closed_dirs_def write_file_node [OF assms(2)]
    by (auto simp: strict_prefix_def)
  then show ?thesis using assms(3) by (auto simp: keeps_outside_def write_file_node [OF assms(2)])
qed

lemma steady_copy_in [steady_rules]: "steady (prefix dst) (copy_in dst kc)"
proof -
  have "steady (prefix dst) (changeS (\<lambda>t. write_file
      (if node_at t (dst @ k) = Some Dir then dst @ k @ [last k] else dst @ k) c t))" for k c
    by (rule steady_changeS, rule write_keeps) (auto split: if_splits)
  then show ?thesis unfolding copy_in_def by (cases kc) (auto intro!: steady_rules)
qed

lemma steady_copies [steady_rules]: "steady (prefix dst) (eachS (copy_in dst) kcs)"
  by (induction kcs) (auto intro!: steady_rules)

lemma rmtree_node: "rmtree d t = Inr t' \<Longrightarrow>
    node_at t' l = (if l = [] then Some Dir else if prefix d l then None else node_at t l)"
  by (auto simp: rmtree_def node_at_def map_of_filter_key)

text \<open>Removing a directory without entries loses no file.\<close>

lemma no_children:
  assumes "closed_dirs t" "child_names t d = []" "node_at t l = Some n"
  shows "\<not> strict_prefix d l"
proof
  assume "strict_prefix d l"
  then obtain x xs where l: "l = d @ x # xs" by (metis append_Nil2 neq_Nil_conv prefix_def strict_prefix_def)
  have "node_at t (d @ [x]) \<noteq> None"
  proof (cases xs)
    case Nil then show ?thesis using assms(3) l by simp
  next
    case (Cons y ys)
    then have "strict_prefix (d @ [x]) l" using l by (simp add: strict_prefix_def)
    then show ?thesis using closed_dirsD [OF assms(1,3)] by simp
  qed
  then have "d @ [x] \<in> set (map fst t)" using node_at_key [of "d @ [x]" t] by blast
  then have "x \<in> set (child_names t d)" unfolding child_names_def by (force intro: rev_image_eqI)
  then show False using assms(2) by simp
qed

lemma rmtree_keeps:
  assumes "closed_dirs t" "node_at t l = Some Dir" "child_names t l = []" "rmtree l t = Inr t'"
  shows "keeps_outside d t t'"
proof -
  note n = rmtree_node [OF assms(4)]
  have p: "k = l" if "prefix l k" "node_at t k = Some x" for k x
    using no_children [OF assms(1,3) that(2)] that(1) by (auto simp: strict_prefix_def)
  have "closed_dirs t'" unfolding closed_dirs_def n
    using assms(1) by (auto dest: closed_dirsD prefix_order.less_imp_le
        intro: prefix_order.trans split: if_splits)
  moreover have "\<not> prefix l k" if "node_at t k = Some (File c)" for k c
    using p [OF _ that] that assms(2) by auto
  ultimately show ?thesis by (auto simp: keeps_outside_def n)
qed

lemma fresh_files:
  assumes "closed_dirs t" "node_at t d = None" "node_at t l = Some n"
  shows "\<not> prefix d l"
  using closed_dirsD [OF assms(1,3), of d] assms(2,3) by (cases "d = l") (auto simp: strict_prefix_def)

lemma steady_on:
  assumes "steady d m" "closed_dirs t" "\<And>l c. node_at t l = Some (File c) \<Longrightarrow> \<not> d l"
  shows "keeps_outside e t (snd (m t))"
  using assms by (auto simp: steady_def keeps_outside_def)

lemma steady_drop_empty [steady_rules]: "steady d (drop_empty dst)"
  unfolding drop_empty_def
  by (auto simp: steady_def thenS_def readS_def changeS_def returnS_def keeps_refl
        split: sum.splits intro: rmtree_keeps)

lemma steady_fill [steady_rules]: "steady d (fill_bundle dst files)"
  unfolding steady_def
proof (intro allI impI)
  fix t assume t: "closed_dirs t"
  let ?copy = "thenS (changeS (mkdirs dst)) (\<lambda>_. eachS (copy_in dst) files)"
  have "steady (prefix dst) ?copy" by (intro steady_rules)
  from steady_on [OF this t] fresh_files [OF t]
  have "node_at t dst = None \<Longrightarrow> keeps_outside d t (snd (?copy t))" by blast
  then show "keeps_outside d t (snd (fill_bundle dst files t))"
    using t by (auto simp: fill_bundle_def thenS_def [of "readS _"] readS_def returnS_def raiseS_def keeps_refl
        split: option.split node.split)
qed

lemma steady_store [steady_rules]: "steady d (store_bundle R m)"
  unfolding store_bundle_def Let_def by (intro steady_rules)

lemma steady_resolve [steady_rules]:
  "steady d (resolve_tree fuel R visiting b rs)" "steady d (resolve_all fuel R visiting ns rs)"
proof (induction fuel R visiting b rs and fuel R visiting ns rs rule: resolve_tree_resolve_all.induct)
  case (2 fuel R visiting binding resolved)
  then show ?case by (auto intro!: steady_rules split: option.split)
qed (auto intro!: steady_rules)

lemma steady_bindings [steady_rules]: "steady d (resolve_bindings fuel R bs rs)"
  by (induction bs arbitrary: rs) (auto intro!: steady_rules)

lemma steady_dirs [steady_rules]: "steady d (resolve_dirs fuel R kind root ds rs)"
  by (induction ds arbitrary: rs) (auto intro!: steady_rules)

lemma steady_roots [steady_rules]: "steady d (resolve_roots fuel R roots rs)"
  by (induction roots arbitrary: rs) (auto intro!: steady_rules)

lemma steady_resolve_and_store [steady_rules]: "steady d (resolve_and_store fuel R request)"
  unfolding resolve_and_store_def Let_def by (auto intro!: steady_rules)

text \<open>C20: Resolving Skills, whether it returns or fails and whatever is requested, leaves every
  file of the bundle tree with its bytes: a bundle a Run's snapshot refers to is immutable.\<close>

theorem stored_bundles_immutable:
  assumes "wf_tree t" "resolve_and_store fuel R request t = (r, t')" "file_at t l = Some c"
  shows "file_at t' l = Some c"
  using steady_resolve_and_store [of "\<lambda>_. False" fuel R request] assms wf_closed
  by (force simp: steady_def keeps_outside_def file_at_Some)

section \<open>A fresh bundle holds the files of its source\<close>

lemma mkdirs_file_at: "mkdirs l t = Inr t' \<Longrightarrow> file_at t' k = file_at t k"
  using mkdirs_dir [of l t t' k] by (auto simp: file_at_def mkdirs_node split: option.splits node.splits)

lemma copy_in_node:
  assumes "copy_in dst (k, c) t = (Inr u, t')" "k \<noteq> []" "node_at t (dst @ k) \<noteq> Some Dir"
  shows "file_at t' l = (if l = dst @ k then Some c else file_at t l)"
    "node_at t' (dst @ j) = Some Dir \<Longrightarrow> node_at t (dst @ j) = Some Dir \<or> strict_prefix j k"
proof -
  obtain t1 where t1: "mkdirs (butlast (dst @ k)) t = Inr t1"
    and t2: "write_file (if node_at t1 (dst @ k) = Some Dir then dst @ k @ [last k] else dst @ k) c t1 = Inr t'"
    using assms(1) by (auto simp: copy_in_def elim!: thenS_InrE)
  have b: "butlast (dst @ k) = dst @ butlast k" using assms(2) by (simp add: butlast_append)
  have k: "prefix j (butlast k) \<Longrightarrow> strict_prefix j k" for j
    using assms(2) by (cases k rule: rev_cases) (auto simp: strict_prefix_def prefix_snoc dest: prefix_length_le)
  then have "\<not> prefix (dst @ k) (dst @ butlast k)" by auto
  then have "node_at t1 (dst @ k) = node_at t (dst @ k)" using mkdirs_node [OF t1] by (simp add: b)
  then have w: "write_file (dst @ k) c t1 = Inr t'" using t2 assms(3) by simp
  show "file_at t' l = (if l = dst @ k then Some c else file_at t l)"
    using mkdirs_file_at [OF t1, of l] by (auto simp: file_at_def write_file_node [OF w])
  show "node_at t' (dst @ j) = Some Dir \<Longrightarrow> node_at t (dst @ j) = Some Dir \<or> strict_prefix j k"
    using k [of j] by (simp add: write_file_node [OF w] mkdirs_node [OF t1] b split: if_splits)
qed

lemma copies_files:
  assumes "eachS (copy_in dst) kcs t = (Inr u, t')" "distinct (map fst kcs)" "fst ` set kcs \<subseteq> S"
    and S: "\<And>j k. j \<in> S \<Longrightarrow> k \<in> S \<Longrightarrow> k \<noteq> [] \<and> \<not> strict_prefix k j"
    and "\<And>k. node_at t (dst @ k) = Some Dir \<Longrightarrow> k = [] \<or> (\<exists>j\<in>S. strict_prefix k j)"
  shows "file_at t' (dst @ k) = (case map_of kcs k of None \<Rightarrow> file_at t (dst @ k) | Some c \<Rightarrow> Some c)"
  using assms(1-3,5)
proof (induction kcs arbitrary: t)
  case (Cons kc kcs)
  obtain j c where kc: "kc = (j, c)" by force
  obtain u1 t1 where t1: "copy_in dst (j, c) t = (Inr u1, t1)" "eachS (copy_in dst) kcs t1 = (Inr u, t')"
    using Cons.prems(1) by (auto simp: kc elim!: thenS_InrE)
  have j: "j \<in> S" using Cons.prems(3) kc by simp
  have "node_at t (dst @ j) \<noteq> Some Dir" "j \<noteq> []" using Cons.prems(4) [of j] S [OF _ j] j by auto
  note n = copy_in_node [OF t1(1) this(2,1)]
  have dirs: "k = [] \<or> (\<exists>j\<in>S. strict_prefix k j)" if "node_at t1 (dst @ k) = Some Dir" for k
    using n(2) [OF that] Cons.prems(4) j by blast
  have "file_at t' (dst @ k) = (case map_of kcs k of None \<Rightarrow> file_at t1 (dst @ k) | Some c \<Rightarrow> Some c)"
    using Cons.prems(2,3) by (intro Cons.IH [OF t1(2) _ _ dirs]) (auto simp: kc)
  moreover have "map_of kcs j = None" using Cons.prems(2) by (simp add: kc map_of_eq_None_iff)
  ultimately show ?case by (simp add: kc n(1) split: option.split)
qed simp

lemma distinct_below: "distinct (map fst t) \<Longrightarrow> distinct (below t l)"
  unfolding below_def by (auto simp: distinct_map inj_on_def strict_prefix_def prefix_def)

lemma map_fst_files_below: "map fst (files_below t l) =
    filter (\<lambda>k. file_at t (l @ k) \<noteq> None) (below t l)"
proof -
  have "map fst (List.map_filter (\<lambda>k. case node_at t (l @ k) of Some (File c) \<Rightarrow> Some (k, c) | _ \<Rightarrow> None) ks)
      = filter (\<lambda>k. file_at t (l @ k) \<noteq> None) ks" for ks
    by (induction ks) (auto simp: List.map_filter_simps file_at_def split: option.splits node.splits)
  then show ?thesis by (simp add: files_below_def)
qed

lemma files_below_map:
  assumes "wf_tree t" "k \<noteq> []"
  shows "distinct (map fst (files_below t l))" "map_of (files_below t l) k = file_at t (l @ k)"
proof -
  show d: "distinct (map fst (files_below t l))"
    using assms(1) by (simp add: map_fst_files_below distinct_below wf_tree_def)
  show "map_of (files_below t l) k = file_at t (l @ k)"
  proof (cases "file_at t (l @ k)")
    case None
    then have "k \<notin> fst ` set (files_below t l)" by (auto simp: set_files_below)
    then show ?thesis using None by (simp add: map_of_eq_None_iff)
  next
    case (Some c)
    then have "(k, c) \<in> set (files_below t l)" using assms(2) by (simp add: set_files_below)
    then show ?thesis using d Some by simp
  qed
qed

lemma files_prefix_free:
  assumes "wf_tree t" "file_at t (l @ j) = Some c" "file_at t (l @ k) = Some c'"
  shows "\<not> strict_prefix k j"
  using wf_tree_prefix [OF assms(1), of "l @ j" "File c" "l @ k"] assms(2,3)
  by (auto simp: file_at_Some strict_prefix_def)

lemma fresh_bundle_files:
  assumes "store_bundle R m t = (Inr ref, t')" "closed_dirs t"
    and "dst = pp_parts (bundle_dir R (sm_digest m))" "node_at t dst = None"
    and "wf_tree (rs_sources R)" "location (rs_sources R) (sm_dir m) = Some src" "k \<noteq> []"
  shows "file_at t' (dst @ k) = file_at (rs_sources R) (src @ k)"
proof -
  let ?files = "files_below (rs_sources R) src"
  obtain t1 where t1: "mkdirs dst t = Inr t1" "eachS (copy_in dst) ?files t1 = (Inr (), t')"
    using assms(1,3,4,6) by (auto simp: store_bundle_def Let_def drop_empty_def fill_bundle_def
        files_under_def elim!: thenS_InrE)
  have old: "node_at t (dst @ j) = None" for j
    using fresh_files [OF assms(2,4), of "dst @ j"] by fastforce
  have dir: "j = []" if "node_at t1 (dst @ j) = Some Dir" for j
    using that old [of j] mkdirs_node [OF t1(1), of "dst @ j"] by (auto split: if_splits)
  have "file_at t' (dst @ k) = (case map_of ?files k of None \<Rightarrow> file_at t1 (dst @ k) | Some c \<Rightarrow> Some c)"
    using files_prefix_free [OF assms(5)] dir
    by (intro copies_files [OF t1(2) files_below_map(1) [OF assms(5,7)] order_refl])
      (auto simp: set_files_below)
  moreover have "file_at t1 (dst @ k) = None"
    using mkdirs_file_at [OF t1(1)] old [of k] by (simp add: file_at_def)
  ultimately show ?thesis using files_below_map(2) [OF assms(5,7)] by (simp split: option.split)
qed

text \<open>The place a bundle lies in, when digests are single names.\<close>

definition plain_bundles :: "resolver \<Rightarrow> bool" where
  "plain_bundles R \<longleftrightarrow> wf_ppath (rs_snapshot_root R) \<and> ''..'' \<notin> set (pp_parts (rs_snapshot_root R))"

lemma bundle_dir_plain:
  assumes "plain_bundles R" "\<And>s. valid_name (h_sha256 (rs_host R) s)" "valid_name digest"
  shows "wf_ppath (bundle_dir R digest)" "''..'' \<notin> set (pp_parts (bundle_dir R digest))"
proof -
  have ne: "''..'' \<noteq> h_sha256 (rs_host R) s" "''..'' \<noteq> digest" for s
    using assms(2) [of s] assms(3) by (metis valid_name_def)+
  show "wf_ppath (bundle_dir R digest)"
    using assms(1) by (auto simp: plain_bundles_def bundle_dir_def intro!: wf_path_join split: option.split)
  show "''..'' \<notin> set (pp_parts (bundle_dir R digest))"
    using assms ne by (auto simp: plain_bundles_def bundle_dir_def split: option.split)
qed

lemma closed_stat:
  assumes "closed_dirs t" "''..'' \<notin> set (pp_parts p)"
  shows "stat t p = node_at t (pp_parts p)"
proof (cases "node_at t (pp_parts p)")
  case (Some n)
  have "node_at t (take j (pp_parts p)) = Some Dir" if "j < length (pp_parts p)" for j
    using that by (intro closed_dirsD [OF assms(1) Some])
      (auto simp: strict_prefix_def take_is_prefix dest: arg_cong [of _ _ length])
  then have "walk t [] (pp_parts p) = Some (pp_parts p)"
    using walk_plain [OF assms(2), of t "[]"] by simp
  then show ?thesis by (simp add: stat_def location_def)
next
  case None
  then show ?thesis using walk_SomeD [OF assms(2), of t "[]"]
    by (cases "walk t [] (pp_parts p)") (auto simp: stat_def location_def)
qed

lemma stat_sub:
  assumes "location t p = Some l" "valid_name x" "node_at t l = Some Dir"
  shows "stat t (sub p x) = node_at t (l @ [x])"
  using assms by (auto simp: stat_def location_def walk_append valid_name_def)

text \<open>C21: Reading back a Skill that was stored afresh gives the body of its \<open>SKILL.md\<close>: the
  reference a snapshot records leads to the text the Skill had when it was resolved.\<close>

theorem stored_skill_reads_back:
  assumes "store_bundle R m t = (Inr ref, t')" "wf_tree t" "wf_tree (rs_sources R)"
    and "read_skill (rs_host R) (rs_sources R) (sm_dir m) = Inr meta" "sm_digest m = sm_digest meta"
    and "plain_bundles R" "\<And>s. valid_name (h_sha256 (rs_host R) s)"
    and "node_at t (pp_parts (bundle_dir R (sm_digest m))) = None"
    and "stat (rs_sources R) (sub (sm_dir m) ''SKILL.md'') = Some (File bytes)"
    and "read_text_file bytes = Inr content"
  shows "load_skill_body t' ref = Inr (py_strip (case frontmatter_match content of
           Some (_, body) \<Rightarrow> body | None \<Rightarrow> content))"
proof -
  let ?dir = "bundle_dir R (sm_digest m)"
  have v: "valid_name ''SKILL.md''" by (simp add: valid_name_def)
  have "sm_digest meta = bundle_digest (rs_host R) (rs_sources R) (sm_dir m)"
    using assms(4) by (auto simp: read_skill_def Let_def elim!: bindE_InrE split: option.splits node.splits if_splits)
  then have "valid_name (sm_digest m)" using assms(5,7) by (simp add: bundle_digest_def)
  note dir = bundle_dir_plain [OF assms(6,7) this]
  obtain src where src: "location (rs_sources R) (sm_dir m) = Some src"
      "node_at (rs_sources R) src = Some Dir"
      "node_at (rs_sources R) (src @ [''SKILL.md'']) = Some (File bytes)"
    using assms(9) v by (auto simp: stat_def location_def walk_append bind_eq_Some_conv valid_name_def split: if_splits)
  have "file_at t' (pp_parts ?dir @ [''SKILL.md'']) = Some bytes"
    using fresh_bundle_files [OF assms(1) wf_closed [OF assms(2)] refl assms(8,3) src(1), of "[''SKILL.md'']"]
      src(3) by (simp add: file_at_def)
  moreover have "closed_dirs t'"
    using steady_store [of "\<lambda>_. False" R m] wf_closed [OF assms(2)] assms(1)
    by (force simp: steady_def keeps_outside_def)
  ultimately have "stat t' (sub ?dir ''SKILL.md'') = Some (File bytes)"
    using closed_stat [of t' "sub ?dir ''SKILL.md''"] dir(2) v by (auto simp: file_at_Some)
  moreover have "mk_path (sr_bundle_ref ref) = ?dir"
    using store_bundle_ref(4) [OF assms(1)] mk_path_as_posix [OF dir(1)] by simp
  ultimately show ?thesis using assms(10)
    by (simp add: load_skill_body_def split: option.split prod.split)
qed

section \<open>On concrete trees\<close>

definition size_digest :: "string \<Rightarrow> string" where
  "size_digest s = CHR ''d'' # py_str_nat (length s)"

lemma size_digest_valid: "valid_name (size_digest s)"
proof -
  have "CHR ''/'' \<notin> set (py_str_nat n)" for n
    using py_str_nat_digits [of n] by (auto simp: is_digit_def)
  then show ?thesis by (simp add: size_digest_def valid_name_def)
qed

definition demo_skill :: "string \<Rightarrow> string \<Rightarrow> string" where
  "demo_skill requires body = concat (map (\<lambda>l. l @ [CHR 0x0A])
     [''---'', ''version: 1'', ''requires: '' @ requires, ''---'', body])"

definition demo_sources :: tree where
  "demo_sources = [([''k''], Dir), ([''k'', ''b''], Dir),
     ([''k'', ''b'', ''SKILL.md''], File (demo_skill '''' ''Base skill'')), ([''k'', ''a''], Dir),
     ([''k'', ''a'', ''SKILL.md''], File (demo_skill ''b'' ''Uses b''))]"

definition skill_demo :: resolver where
  "skill_demo = \<lparr>rs_host = plain_host\<lparr>h_sha256 := size_digest\<rparr>, rs_sources = demo_sources,
     rs_skills_root = mk_path ''/k'', rs_snapshot_root = mk_path ''/s'', rs_binding = None,
     rs_skill_paths = None\<rparr>"

definition skill_request :: run_request where
  "skill_request = \<lparr>rq_session_id = ''s'', rq_input = ''go'', rq_agent_ref = ''agent'',
     rq_skills = [\<lparr>sb_name = ''a'', sb_version = Some ''1''\<rparr>],
     rq_context = \<lparr>ec_scope_id = ''t'', ec_actor_ref = None, ec_external_ref = None,
       ec_user_binding = None\<rparr>, rq_skill_paths = None\<rparr>"

definition demo_bundles :: tree where
  "demo_bundles = [([''s''], Dir), ([''s'', ''old''], Dir), ([''s'', ''old'', ''x''], File ''kept'')]"

definition demo_resolution :: "(exn + run_snapshot) \<times> tree" where
  "demo_resolution = resolve_and_store 20 skill_demo skill_request demo_bundles"

lemma demo_resolution_skills:
  "map_sum (\<lambda>e. e) (\<lambda>s. map (\<lambda>r. (sr_name r, sr_version r)) (sn_skills s)) (fst demo_resolution)
     = Inr [(''b'', ''1''), (''a'', ''1'')]"
  by code_simp

lemma demo_wf: "wf_tree demo_bundles" "wf_tree demo_sources"
  by code_simp+

theorem skill_resolution_ends_witness:
  "fst (resolve_and_store 20 skill_demo skill_request demo_bundles) \<noteq> Inl recursion_error
   \<and> resolve_and_store 900 skill_demo skill_request demo_bundles
     = resolve_and_store 20 skill_demo skill_request demo_bundles"
proof -
  have "length (skill_names (rs_sources skill_demo)) < 20" by code_simp
  then show ?thesis by (rule skill_resolution_ends) simp
qed

lemma demo_resolution_ok: "\<exists>snap t'. demo_resolution = (Inr snap, t')
    \<and> map sr_name (sn_skills snap) = [''b'', ''a'']"
proof -
  obtain r t' where r: "demo_resolution = (r, t')" by force
  have "map_sum (\<lambda>e. e) (\<lambda>s. map (\<lambda>r. (sr_name r, sr_version r)) (sn_skills s)) r
      = Inr [(''b'', ''1''), (''a'', ''1'')]"
    using demo_resolution_skills unfolding r by simp
  then show ?thesis using r by (cases r) auto
qed

theorem dependencies_come_first_witness:
  "\<exists>snap t' m b. demo_resolution = (Inr snap, t') \<and> distinct (map sr_name (sn_skills snap))
     \<and> sr_name (sn_skills snap ! 1) = sm_name m
     \<and> read_binding_meta (resolver_for skill_demo skill_request) b = Inr m"
proof -
  obtain snap t' where s: "demo_resolution = (Inr snap, t')" "map sr_name (sn_skills snap) = [''b'', ''a'']"
    using demo_resolution_ok by auto
  then have "1 < length (sn_skills snap)" by (auto dest: arg_cong [of _ _ length])
  then show ?thesis
    using dependencies_come_first [OF s(1) [unfolded demo_resolution_def] refl refl] s(1) by blast
qed

theorem stored_bundles_immutable_witness:
  "file_at (snd demo_resolution) [''s'', ''old'', ''x''] = Some ''kept''"
proof (rule stored_bundles_immutable [OF demo_wf(1)])
  show "resolve_and_store 20 skill_demo skill_request demo_bundles
      = (fst demo_resolution, snd demo_resolution)" by (simp add: demo_resolution_def)
qed code_simp

definition skill_found :: found_skill where
  "skill_found = (case read_skill (rs_host skill_demo) demo_sources (mk_path ''/k/b'') of
     Inr m \<Rightarrow> found_in ''LEGACY'' (mk_path ''/k'') m
   | Inl _ \<Rightarrow> found_in '''' (mk_path '''') \<lparr>sm_name = '''', sm_version = '''', sm_description = '''',
       sm_requires = [], sm_digest = '''', sm_dir = mk_path ''''\<rparr>)"

theorem stored_skill_reads_back_witness:
  "\<exists>ref t'. store_bundle skill_demo skill_found demo_bundles = (Inr ref, t')
     \<and> load_skill_body t' ref = Inr ''Base skill''"
proof -
  let ?r = "store_bundle skill_demo skill_found demo_bundles"
  obtain ref where r: "fst ?r = Inr ref"
  proof -
    have "is_ok (fst ?r)" by code_simp
    then show ?thesis using that by (cases "fst ?r") auto
  qed
  obtain meta where m: "read_skill (rs_host skill_demo) (rs_sources skill_demo) (sm_dir skill_found) = Inr meta"
    "sm_digest skill_found = sm_digest meta"
  proof -
    have "(case read_skill (rs_host skill_demo) (rs_sources skill_demo) (sm_dir skill_found) of
        Inr m \<Rightarrow> sm_digest skill_found = sm_digest m | Inl _ \<Rightarrow> False)" by code_simp
    then show ?thesis using that by (auto split: sum.splits)
  qed
  have s: "?r = (Inr ref, snd ?r)" using r by (metis prod.collapse)
  have "load_skill_body (snd ?r) ref = Inr (py_strip (case frontmatter_match (demo_skill '''' ''Base skill'') of
      Some (_, body) \<Rightarrow> body | None \<Rightarrow> demo_skill '''' ''Base skill''))"
  proof (rule stored_skill_reads_back [OF s demo_wf(1) _ m])
    show "wf_tree (rs_sources skill_demo)" using demo_wf(2) by (simp add: skill_demo_def)
    show "plain_bundles skill_demo" by (simp add: plain_bundles_def skill_demo_def) code_simp
    show "valid_name (h_sha256 (rs_host skill_demo) x)" for x
      by (simp add: skill_demo_def size_digest_valid)
  qed code_simp+
  moreover have "py_strip (case frontmatter_match (demo_skill '''' ''Base skill'') of
      Some (_, body) \<Rightarrow> body | None \<Rightarrow> demo_skill '''' ''Base skill'') = ''Base skill''" by code_simp
  ultimately show ?thesis using s by auto
qed

section \<open>One digest for two bundles\<close>

text \<open>
  Paths and contents are both ended by a zero byte, so a file whose content has zero bytes hashes
  like two files: a stored bundle that is left alone because of its digest need not have the
  bytes of the Skill at hand.
\<close>

lemma bundle_stream_ambiguous:
  "bundle_stream [([''a''], [CHR ''x'', nul, CHR ''b'', nul, CHR ''y''])]
   = bundle_stream [([''a''], ''x''), ([''b''], ''y'')]"
  by code_simp

end
