(* ===== verification/ProcessBackend.thy ===== *)
theory ProcessBackend
  imports Transcript
begin

text \<open>
  \<open>LocalProcessBackend\<close> of \<open>src/code_forge/execution/local_process_backend.py\<close>: submitting an
  operation, reading its output up to a limit, waiting for it, committing its workspace, polling,
  cancelling and releasing it.

  \<open>asyncio\<close> runs one task at a time and switches only at an \<open>await\<close>. \<open>_run_operation\<close> is
  therefore a sequence of three steps that other calls can come between: it waits for the process
  and the readers, it gathers the readers' results, it commits. The operations the backend created
  stay objects after \<open>release\<close>, so the backend keeps all of them (\<open>pb_objects\<close>) and the index
  from identifiers to the current ones (\<open>pb_index\<close>), which is \<open>_operations\<close>.
\<close>

section \<open>Reading a stream up to a limit\<close>

record ('s, 't) decoder =
  dec_step :: "'s \<Rightarrow> string \<Rightarrow> 't list \<times> 's"
  dec_final :: "'s \<Rightarrow> 't list"

record ('s, 't) reader =
  rd_file :: string
  rd_total :: int
  rd_truncated :: bool
  rd_notified :: bool
  rd_state :: 's
  rd_sent :: "('t list \<times> bool) list"

definition send :: "bool \<Rightarrow> 't list \<Rightarrow> bool \<Rightarrow> ('s, 't) reader \<Rightarrow> ('s, 't) reader" where
  "send sink text was_cut r = (if sink then r\<lparr>rd_sent := rd_sent r @ [(text, was_cut)]\<rparr> else r)"

text \<open>One chunk: nothing is left of the limit, a part of the chunk fits, or all of it.\<close>

definition read_chunk ::
  "('s, 't) decoder \<Rightarrow> bool \<Rightarrow> int \<Rightarrow> string \<Rightarrow> ('s, 't) reader \<Rightarrow> ('s, 't) reader" where
  "read_chunk D sink limit chunk r =
     (let remaining = limit - rd_total r in
      if remaining \<le> 0 then
        (if sink \<and> \<not> rd_notified r
         then send sink [] True (r\<lparr>rd_truncated := True, rd_notified := True\<rparr>)
         else r\<lparr>rd_truncated := True\<rparr>)
      else
        let written = take (nat (min (int (length chunk)) remaining)) chunk;
            r1 = r\<lparr>rd_file := rd_file r @ written, rd_total := rd_total r + int (length written)\<rparr> in
        if length written < length chunk then
          (if sink \<and> \<not> rd_notified r1
           then (case dec_step D (rd_state r1) written of (text, s) \<Rightarrow>
                  send sink text True (r1\<lparr>rd_truncated := True, rd_notified := True, rd_state := s\<rparr>))
           else r1\<lparr>rd_truncated := True\<rparr>)
        else if sink then
          (case dec_step D (rd_state r1) written of (text, s) \<Rightarrow>
             if text \<noteq> [] then send sink text False (r1\<lparr>rd_state := s\<rparr>) else r1\<lparr>rd_state := s\<rparr>)
        else r1)"

text \<open>The chunks \<open>stream.read(4096)\<close> returns, in order; an empty one is the end of the stream.\<close>

fun read_chunks ::
  "('s, 't) decoder \<Rightarrow> bool \<Rightarrow> int \<Rightarrow> string list \<Rightarrow> ('s, 't) reader \<Rightarrow> ('s, 't) reader" where
  "read_chunks D sink limit [] r = r"
| "read_chunks D sink limit (chunk # chunks) r =
     (if chunk = [] then r else read_chunks D sink limit chunks (read_chunk D sink limit chunk r))"

definition read_bounded ::
  "('s, 't) decoder \<Rightarrow> 's \<Rightarrow> bool \<Rightarrow> int \<Rightarrow> string list \<Rightarrow> ('s, 't) reader" where
  "read_bounded D s0 sink limit chunks =
     (let r = read_chunks D sink limit chunks \<lparr>rd_file = '''', rd_total = 0, rd_truncated = False,
                rd_notified = False, rd_state = s0, rd_sent = []\<rparr> in
      if sink \<and> \<not> rd_truncated r \<and> dec_final D (rd_state r) \<noteq> []
      then send sink (dec_final D (rd_state r)) False r else r)"

section \<open>Operations\<close>

datatype stage = Waiting | Gathering | Ended | Crashed

record running_op =
  po_spec :: operation_spec
  po_status :: tool_status
  po_exit_code :: "int option"
  po_stdout_ref :: string
  po_stderr_ref :: string
  po_revision :: "string option"
  po_commit :: "workspace_commit option"
  po_error_code :: "error_code option"
  po_error_message :: "string option"
  po_stdout_truncated :: bool
  po_stderr_truncated :: bool
  po_cancelled :: bool
  po_stage :: stage

record backend =
  pb_tree :: tree
  pb_objects :: "running_op list"
  pb_index :: "string \<rightharpoonup> nat"

text \<open>What the backend is given: its directories, and whether the system can start a process.\<close>

record backend_env =
  be_root :: ppath
  be_workspaces :: ppath
  be_os :: os_env
  be_host :: host
  be_spawn :: "operation_spec \<Rightarrow> ppath \<Rightarrow> exn + unit"

definition on_tree :: "(tree, 'a) io \<Rightarrow> (backend, 'a) io" where
  "on_tree m s = (case m (pb_tree s) of (r, t) \<Rightarrow> (r, s\<lparr>pb_tree := t\<rparr>))"

definition validate_working_directory :: "operation_spec \<Rightarrow> ppath \<Rightarrow> exn + unit" where
  "validate_working_directory spec cwd = (case os_user_binding spec of
     None \<Rightarrow> (case os_mount_spec spec of
         Some _ \<Rightarrow> Inl (DomainError INVALID_REQUEST ''MountSpec requires a UserBinding'')
       | None \<Rightarrow> Inr ())
   | Some b \<Rightarrow> (case path_relative_to cwd (mk_path (ub_project_path b)) of
         None \<Rightarrow> Inl (DomainError INVALID_REQUEST ''working_directory must be below project_path'')
       | Some _ \<Rightarrow> (case os_mount_spec spec of
           None \<Rightarrow> Inr ()
         | Some ms \<Rightarrow>
             let expected = (if ms_granularity ms = PROJECT then ub_project_ref b
                             else ms_source_ref ms) in
             if ms_source_ref ms \<noteq> expected \<and> ms_granularity ms \<noteq> REVISION
             then Inl (DomainError INVALID_REQUEST
                    ''MountSpec source does not match the execution scope'')
             else Inr ())))"

definition working_dir :: "backend_env \<Rightarrow> operation_spec \<Rightarrow> ppath \<Rightarrow> exn + ppath" where
  "working_dir E spec cwd = (case os_working_directory spec of
     None \<Rightarrow> Inr cwd
   | Some d \<Rightarrow> (case os_resolve (be_os E) (mk_path d) of
       None \<Rightarrow> Inl (OSErr ''resolve'')
     | Some p \<Rightarrow> bindE (validate_working_directory spec p) (\<lambda>_. Inr p)))"

definition operation_dir :: "backend_env \<Rightarrow> operation_spec \<Rightarrow> (tree, ppath) io" where
  "operation_dir E spec = (case os_user_binding spec of
     Some b \<Rightarrow>
       if falsy (os_session_id spec)
       then returnS (sub (be_root E) (os_operation_id spec))
       else thenS (ensure_user_layout (be_workspaces E) (os_workspace_ref spec) b) (\<lambda>_.
            tool_output_dir b (the (os_session_id spec)) (os_run_id spec) (os_operation_id spec))
   | None \<Rightarrow> returnS (sub (be_root E) (os_operation_id spec)))"

definition started_operation :: "operation_spec \<Rightarrow> ppath \<Rightarrow> running_op" where
  "started_operation spec dir = \<lparr>po_spec = spec, po_status = Tool_RUNNING, po_exit_code = None,
     po_stdout_ref = path_as_posix (sub dir ''stdout.log''),
     po_stderr_ref = path_as_posix (sub dir ''stderr.log''), po_revision = None, po_commit = None,
     po_error_code = None, po_error_message = None, po_stdout_truncated = False,
     po_stderr_truncated = False, po_cancelled = False, po_stage = Waiting\<rparr>"

definition register :: "running_op \<Rightarrow> backend \<Rightarrow> backend" where
  "register op s = s\<lparr>pb_objects := pb_objects s @ [op],
     pb_index := (pb_index s)(os_operation_id (po_spec op) \<mapsto> length (pb_objects s))\<rparr>"

definition start_operation :: "backend_env \<Rightarrow> operation_spec \<Rightarrow> (backend, string) io" where
  "start_operation E spec =
     thenS (on_tree (attempt_dir (be_workspaces E) (os_workspace_ref spec) (os_attempt_id spec)
              (os_user_binding spec))) (\<lambda>attempt.
     thenS (readS (\<lambda>s. path_exists (pb_tree s) attempt)) (\<lambda>there.
     thenS (if there then returnS attempt
            else on_tree (prepare_attempt (be_workspaces E) (os_workspace_ref spec)
                   (os_attempt_id spec) (os_user_binding spec))) (\<lambda>_.
     thenS (liftS (working_dir E spec attempt)) (\<lambda>cwd.
     thenS (on_tree (operation_dir E spec)) (\<lambda>dir.
     thenS (on_tree (mkdir_path dir)) (\<lambda>_.
     thenS (case os_stdin_text spec of
              None \<Rightarrow> returnS ()
            | Some stdin \<Rightarrow> on_tree (write_path (sub dir ''input.txt'') (utf8_encode stdin))) (\<lambda>_.
     thenS (liftS (be_spawn E spec cwd)) (\<lambda>_.
     thenS (changeS (\<lambda>s. Inr (register (started_operation spec dir) s))) (\<lambda>_.
     returnS (os_operation_id spec))))))))))"

definition current_op :: "backend \<Rightarrow> string \<Rightarrow> running_op option" where
  "current_op s opid = (case pb_index s opid of
     None \<Rightarrow> None
   | Some i \<Rightarrow> if i < length (pb_objects s) then Some (pb_objects s ! i) else None)"

definition submit :: "backend_env \<Rightarrow> operation_spec \<Rightarrow> (backend, string) io" where
  "submit E spec = thenS (readS (\<lambda>s. current_op s (os_operation_id spec))) (\<lambda>existing.
     case existing of
       Some op \<Rightarrow>
         if os_argv (po_spec op) \<noteq> os_argv spec \<or> os_stdin_text (po_spec op) \<noteq> os_stdin_text spec
         then raiseS (DomainError IDEMPOTENCY_CONFLICT
                ''Operation id is already bound to different input'')
         else returnS (os_operation_id spec)
     | None \<Rightarrow> start_operation E spec)"

definition result_of :: "running_op \<Rightarrow> operation_result" where
  "result_of op = \<lparr>or_operation_id = os_operation_id (po_spec op), or_status = po_status op,
     or_exit_code = po_exit_code op, or_stdout_ref = Some (po_stdout_ref op),
     or_stderr_ref = Some (po_stderr_ref op), or_workspace_revision = po_revision op,
     or_error_code = po_error_code op,
     or_manifest_digest = map_option wc_manifest_digest (po_commit op),
     or_manifest_ref = map_option wc_manifest_ref (po_commit op),
     or_storage_ref = map_option wc_storage_ref (po_commit op),
     or_changed_paths = (case po_commit op of None \<Rightarrow> [] | Some c \<Rightarrow> wc_changed_paths c)\<rparr>"

definition get_status :: "string \<Rightarrow> (backend, operation_result) io" where
  "get_status opid = thenS (readS (\<lambda>s. current_op s opid)) (\<lambda>op. case op of
     None \<Rightarrow> raiseS (DomainError RUN_NOT_FOUND ''Operation not found'')
   | Some op \<Rightarrow> returnS (result_of op))"

definition update_op :: "nat \<Rightarrow> (running_op \<Rightarrow> running_op) \<Rightarrow> backend \<Rightarrow> backend" where
  "update_op i f s = s\<lparr>pb_objects := (pb_objects s)[i := f (pb_objects s ! i)]\<rparr>"

text \<open>
  \<open>cancel\<close> up to its await: the flag, and a signal to the process group, whose effect is that
  the process may exit. It then waits at most ten seconds and returns the operation's result.
\<close>

definition cancel :: "string \<Rightarrow> (backend, nat) io" where
  "cancel opid = thenS (readS (\<lambda>s. pb_index s opid)) (\<lambda>i. case i of
     None \<Rightarrow> raiseS (DomainError RUN_NOT_FOUND ''Operation not found'')
   | Some i \<Rightarrow> thenS (changeS (\<lambda>s. Inr (update_op i (\<lambda>op. op\<lparr>po_cancelled := True\<rparr>) s))) (\<lambda>_.
       returnS i))"

definition release :: "string \<Rightarrow> (backend, unit) io" where
  "release opid = changeS (\<lambda>s. Inr (s\<lparr>pb_index := (pb_index s)(opid := None)\<rparr>))"

section \<open>The task of an operation\<close>

text \<open>How the wait for the process, the readers and the writer ends, and how a reader ends.\<close>

datatype wait_result = AllDone int | TimedOut | WaitRaised string

datatype reader_result = ReadDone bool | ReadCancelled | ReadRaised exn

definition exn_text :: "exn \<Rightarrow> string" where
  "exn_text e = (case e of DomainError c m \<Rightarrow> m | IntegrityError m \<Rightarrow> m | ContentUnavailable m \<Rightarrow> m
     | ValueErr m \<Rightarrow> m | KeyErr m \<Rightarrow> m | OSErr m \<Rightarrow> m)"

definition fail_op :: "string \<Rightarrow> running_op \<Rightarrow> running_op" where
  "fail_op message op = op\<lparr>po_status := Tool_FAILED, po_error_code := Some EXECUTION_FAILED,
     po_error_message := Some message\<rparr>"

definition timeout_message :: "running_op \<Rightarrow> string" where
  "timeout_message op = ''Operation timed out after ''
     @ py_str_int (os_timeout_seconds (po_spec op)) @ '' seconds''"

definition wait_over :: "wait_result \<Rightarrow> running_op \<Rightarrow> running_op" where
  "wait_over w op0 = (let op = op0\<lparr>po_stage := Gathering\<rparr> in case w of
     TimedOut \<Rightarrow>
       if po_cancelled op then op\<lparr>po_status := Tool_CANCELLED\<rparr>
       else fail_op (timeout_message op) op
   | AllDone code \<Rightarrow>
       if po_cancelled op then op\<lparr>po_status := Tool_CANCELLED\<rparr>
       else if code = 0 then op\<lparr>po_exit_code := Some code, po_status := Tool_SUCCEEDED\<rparr>
       else fail_op (''Process exited with '' @ py_str_int code) (op\<lparr>po_exit_code := Some code\<rparr>)
   | WaitRaised message \<Rightarrow> fail_op message op)"

text \<open>The diagnostic line that goes to the error log, and appending it; an \<open>OSError\<close> is ignored.\<close>

definition diagnostic :: "wait_result \<Rightarrow> running_op \<Rightarrow> string option" where
  "diagnostic w op = (case w of
     TimedOut \<Rightarrow> if po_cancelled op then None else Some (timeout_message op)
   | AllDone _ \<Rightarrow> None
   | WaitRaised message \<Rightarrow> Some message)"

definition append_diagnostic :: "string \<Rightarrow> string \<Rightarrow> tree \<Rightarrow> tree" where
  "append_diagnostic path message t =
     snd (append_bytes (mk_path path) (utf8_encode (message @ [CHR 0x0A])) t)"

definition wait_step :: "nat \<Rightarrow> wait_result \<Rightarrow> backend \<Rightarrow> backend" where
  "wait_step i w s =
     (let op = pb_objects s ! i; s1 = update_op i (wait_over w) s in
      case diagnostic w op of
        None \<Rightarrow> s1
      | Some message \<Rightarrow> s1\<lparr>pb_tree := append_diagnostic (po_stderr_ref op) message (pb_tree s1)\<rparr>)"

text \<open>After the gather: a reader that raised ends the task, a success is committed.\<close>

definition truncated_flag :: "reader_result \<Rightarrow> bool" where
  "truncated_flag r = (case r of ReadDone b \<Rightarrow> b | _ \<Rightarrow> True)"

definition raised :: "reader_result \<Rightarrow> bool" where
  "raised r = (case r of ReadRaised _ \<Rightarrow> True | _ \<Rightarrow> False)"

definition commit_op :: "backend_env \<Rightarrow> string \<Rightarrow> running_op \<Rightarrow> tree \<Rightarrow> running_op \<times> tree" where
  "commit_op E rid op t =
     (case commit_attempt (be_host E) (be_workspaces E) (os_workspace_ref (po_spec op))
             (os_attempt_id (po_spec op)) rid (os_user_binding (po_spec op)) t of
        (Inr c, t') \<Rightarrow> (op\<lparr>po_commit := Some c, po_revision := Some (wc_revision_id c)\<rparr>, t')
      | (Inl e, t') \<Rightarrow> (fail_op (''Workspace commit failed: '' @ exn_text e) op, t'))"

definition finish_op :: "backend_env \<Rightarrow> string \<Rightarrow> reader_result \<Rightarrow> reader_result \<Rightarrow> running_op \<Rightarrow> tree
    \<Rightarrow> running_op \<times> tree" where
  "finish_op E rid r1 r2 op t =
     (if raised r1 then (op\<lparr>po_stage := Crashed\<rparr>, t)
      else let op1 = op\<lparr>po_stdout_truncated := truncated_flag r1\<rparr> in
      if raised r2 then (op1\<lparr>po_stage := Crashed\<rparr>, t)
      else let op2 = op1\<lparr>po_stderr_truncated := truncated_flag r2, po_stage := Ended\<rparr> in
      if po_status op2 = Tool_SUCCEEDED then commit_op E rid op2 t else (op2, t))"

definition finish_step :: "backend_env \<Rightarrow> nat \<Rightarrow> string \<Rightarrow> reader_result \<Rightarrow> reader_result \<Rightarrow> backend \<Rightarrow> backend"
  where
  "finish_step E i rid r1 r2 s = (case finish_op E rid r1 r2 (pb_objects s ! i) (pb_tree s) of
     (op, t) \<Rightarrow> (update_op i (\<lambda>_. op) s)\<lparr>pb_tree := t\<rparr>)"

text \<open>
  The steps of the backend in any order: the calls of its clients, the steps of its tasks, and
  whatever child processes and readers write to the file system.
\<close>

inductive backend_step :: "backend_env \<Rightarrow> backend \<Rightarrow> backend \<Rightarrow> bool" for E where
  submit_call: "backend_step E s (snd (submit E spec s))"
| cancel_call: "backend_step E s (snd (cancel opid s))"
| release_call: "backend_step E s (snd (release opid s))"
| files_change: "backend_step E s (s\<lparr>pb_tree := t\<rparr>)"
| waited: "i < length (pb_objects s) \<Longrightarrow> po_stage (pb_objects s ! i) = Waiting \<Longrightarrow>
    backend_step E s (wait_step i w s)"
| finished: "i < length (pb_objects s) \<Longrightarrow> po_stage (pb_objects s ! i) = Gathering \<Longrightarrow>
    backend_step E s (finish_step E i rid r1 r2 s)"

inductive reachable_backend :: "backend_env \<Rightarrow> backend \<Rightarrow> bool" for E where
  started: "reachable_backend E \<lparr>pb_tree = t, pb_objects = [], pb_index = Map.empty\<rparr>"
| stepped: "reachable_backend E s \<Longrightarrow> backend_step E s s' \<Longrightarrow> reachable_backend E s'"

end
