(* ===== verification/ProcessSafety.thy ===== *)
theory ProcessSafety
  imports ProcessBackend
begin

text \<open>
  The local process backend: what it keeps of a stream, what the result of an operation can be at
  any moment, and how an operation's status moves.
\<close>

section \<open>The kept output is a prefix of the stream\<close>

definition rd_inv :: "bool \<Rightarrow> int \<Rightarrow> string \<Rightarrow> ('s, 't) reader \<Rightarrow> bool" where
  "rd_inv sink limit seen r \<longleftrightarrow> rd_file r = take (nat limit) seen \<and> rd_total r = int (length (rd_file r))
     \<and> rd_truncated r = (nat limit < length seen) \<and> rd_notified r = (sink \<and> rd_truncated r)
     \<and> length (filter snd (rd_sent r)) = (if rd_notified r then 1 else 0)"

lemma send_simps [simp]:
  "rd_file (send k x b r) = rd_file r" "rd_total (send k x b r) = rd_total r"
  "rd_truncated (send k x b r) = rd_truncated r" "rd_notified (send k x b r) = rd_notified r"
  "rd_state (send k x b r) = rd_state r"
  "rd_sent (send k x b r) = (if k then rd_sent r @ [(x, b)] else rd_sent r)"
  by (simp_all add: send_def)

lemma read_chunk_full:
  assumes "limit - rd_total r \<le> 0"
  shows "read_chunk D sink limit chunk r =
     (if sink \<and> \<not> rd_notified r
      then send sink [] True (r\<lparr>rd_truncated := True, rd_notified := True\<rparr>)
      else r\<lparr>rd_truncated := True\<rparr>)"
  unfolding read_chunk_def Let_def if_P [OF assms] ..

lemma read_chunk_room:
  assumes "\<not> limit - rd_total r \<le> 0" "\<not> rd_notified r" "dec_step D (rd_state r) w = (text', s')"
    and "w = take (nat (min (int (length chunk)) (limit - rd_total r))) chunk"
    and "r1 = r\<lparr>rd_file := rd_file r @ w, rd_total := rd_total r + int (length w)\<rparr>"
  shows "read_chunk D sink limit chunk r =
     (if length w < length chunk then
        (if sink then send sink text' True (r1\<lparr>rd_truncated := True, rd_notified := True, rd_state := s'\<rparr>)
         else r1\<lparr>rd_truncated := True\<rparr>)
      else if sink then
        (if text' \<noteq> [] then send sink text' False (r1\<lparr>rd_state := s'\<rparr>) else r1\<lparr>rd_state := s'\<rparr>)
      else r1)"
proof -
  have n: "rd_notified r1 = False" "rd_state r1 = rd_state r" using assms(2,5) by simp_all
  show ?thesis
    unfolding read_chunk_def Let_def if_not_P [OF assms(1)] assms(4) [symmetric] assms(5) [symmetric]
      n assms(3) prod.case by simp
qed

lemma read_chunk_fields:
  assumes "rd_inv sink limit seen r" "chunk \<noteq> []"
  shows "rd_inv sink limit (seen @ chunk) (read_chunk D sink limit chunk r)"
proof -
  have t: "rd_total r = int (min (nat limit) (length seen))"
    using assms(1) by (simp add: rd_inv_def min.commute)
  show ?thesis
  proof (cases "limit - rd_total r \<le> 0")
    case True
    then have "nat limit \<le> length seen" using t by linarith
    then show ?thesis using assms True by (auto simp: rd_inv_def read_chunk_full)
  next
    case False
    then have l: "length seen < nat limit" "rd_total r = int (length seen)" using t by linarith+
    define w where "w = take (nat (min (int (length chunk)) (limit - rd_total r))) chunk"
    have "nat (min (int (length chunk)) (limit - rd_total r)) = min (length chunk) (nat limit - length seen)"
      using l False by linarith
    then have w: "w = take (nat limit - length seen) chunk" by (simp add: w_def min_def)
    have f: "rd_file r @ w = take (nat limit) (seen @ chunk)"
      using assms(1) l(1) w by (simp add: rd_inv_def)
    have c: "length w < length chunk \<longleftrightarrow> nat limit < length (seen @ chunk)"
      using l(1) unfolding w by auto
    have nt: "\<not> rd_truncated r" "\<not> rd_notified r" using assms(1) l(1) by (auto simp: rd_inv_def)
    obtain text' s' where d: "dec_step D (rd_state r) w = (text', s')" by force
    have k: "rd_total r + int (length w) = int (length (rd_file r @ w))" "filter snd (rd_sent r) = []"
      using assms(1) nt by (auto simp: rd_inv_def)
    show ?thesis unfolding read_chunk_room [OF False nt(2) d w_def refl] rd_inv_def c
      using nt k by (simp add: f del: length_append take_append)
  qed
qed

lemma read_chunks_fields:
  "rd_inv sink limit seen r \<Longrightarrow>
     rd_inv sink limit (seen @ concat (takeWhile (\<lambda>c. c \<noteq> []) chunks)) (read_chunks D sink limit chunks r)"
proof (induction chunks arbitrary: seen r)
  case (Cons c cs)
  show ?case
  proof (cases "c = []")
    case True then show ?thesis using Cons.prems by simp
  next
    case False
    then show ?thesis using Cons.IH [OF read_chunk_fields [OF Cons.prems False]] by simp
  qed
qed simp

text \<open>C22: However the system splits a stream into chunks, reading it bounded keeps what reading it
  in one piece and cutting it at the limit keeps, reports truncation exactly when bytes were lost,
  and announces truncation to the client at most once, only then, and always when a client
  listens.\<close>

theorem bounded_read_is_prefix:
  fixes D :: "('s, 't) decoder"
  defines "stream chunks \<equiv> concat (takeWhile (\<lambda>c. c \<noteq> []) chunks)"
  shows "rd_file (read_bounded D s0 sink limit chunks) = take (nat limit) (stream chunks)
     \<and> rd_truncated (read_bounded D s0 sink limit chunks) = (nat limit < length (stream chunks))
     \<and> length (filter snd (rd_sent (read_bounded D s0 sink limit chunks)))
         = (if sink \<and> nat limit < length (stream chunks) then 1 else 0)"
proof -
  let ?r0 = "\<lparr>rd_file = '''', rd_total = 0, rd_truncated = False, rd_notified = False, rd_state = s0,
    rd_sent = []\<rparr> :: ('s, 't) reader"
  have "rd_inv sink limit '''' ?r0" by (simp add: rd_inv_def)
  from read_chunks_fields [OF this]
  obtain r where i: "rd_inv sink limit (stream chunks) r" "r = read_chunks D sink limit chunks ?r0"
    by (simp add: stream_def)
  have "read_bounded D s0 sink limit chunks = (if sink \<and> \<not> rd_truncated r \<and> dec_final D (rd_state r) \<noteq> []
      then send sink (dec_final D (rd_state r)) False r else r)"
    by (simp add: read_bounded_def Let_def i(2))
  then show ?thesis using i(1) by (auto simp: rd_inv_def)
qed

text \<open>What the client was told is what one decoding of the kept bytes says.\<close>

definition rd_told :: "('s, 't) decoder \<Rightarrow> 's \<Rightarrow> ('s, 't) reader \<Rightarrow> bool" where
  "rd_told D s0 r \<longleftrightarrow> (\<not> rd_truncated r \<longrightarrow> rd_state r = snd (dec_step D s0 (rd_file r)))
     \<and> concat (map fst (rd_sent r)) = fst (dec_step D s0 (rd_file r))"
definition incremental :: "('s, 't) decoder \<Rightarrow> bool" where
  "incremental D \<longleftrightarrow> (\<forall>s. dec_step D s '''' = ([], s)) \<and> (\<forall>s a b. dec_step D s (a @ b) =
     (fst (dec_step D s a) @ fst (dec_step D (snd (dec_step D s a)) b),
      snd (dec_step D (snd (dec_step D s a)) b)))"

lemma read_chunk_told:
  assumes "incremental D" "rd_inv True limit seen r" "rd_told D s0 r"
  shows "rd_told D s0 (read_chunk D True limit chunk r)"
proof (cases "limit - rd_total r \<le> 0")
  case True
  then show ?thesis using assms(3) by (auto simp: rd_told_def read_chunk_full)
next
  case False
  have t: "rd_total r = int (min (nat limit) (length seen))"
    using assms(2) by (simp add: rd_inv_def min.commute)
  then have "length seen < nat limit" using False by linarith
  then have nt: "\<not> rd_truncated r" "\<not> rd_notified r"
    using assms(2) by (simp_all add: rd_inv_def)
  define w where "w = take (nat (min (int (length chunk)) (limit - rd_total r))) chunk"
  obtain text' s' where d: "dec_step D (rd_state r) w = (text', s')" by force
  have st: "rd_state r = snd (dec_step D s0 (rd_file r))"
    using assms(3) nt(1) by (simp only: rd_told_def not_False_eq_True if_True simp_thms)
  have "dec_step D s0 (rd_file r @ w) = (fst (dec_step D s0 (rd_file r)) @ fst (dec_step D (rd_state r) w),
      snd (dec_step D (rd_state r) w))"
    using assms(1) [unfolded incremental_def, THEN conjunct2, rule_format, of s0 "rd_file r" w]
    by (simp only: st)
  then have all: "dec_step D s0 (rd_file r @ w) = (fst (dec_step D s0 (rd_file r)) @ text', s')"
    by (simp only: d fst_conv snd_conv)
  have "concat (map fst (rd_sent r)) = fst (dec_step D s0 (rd_file r))"
    using assms(3) by (simp add: rd_told_def)
  then show ?thesis unfolding read_chunk_room [OF False nt(2) d w_def refl]
    by (simp add: rd_told_def all)
qed

lemma read_chunks_told:
  "incremental D \<Longrightarrow> rd_inv True limit seen r \<Longrightarrow> rd_told D s0 r \<Longrightarrow>
     rd_told D s0 (read_chunks D True limit chunks r)"
  by (induction chunks arbitrary: seen r) (auto intro: read_chunk_told read_chunk_fields)

text \<open>A client that listens is told, piece by piece, the text of exactly the kept bytes: the
  concatenation of the pieces is the decoding of the kept file in one go, with the decoder's last
  output when nothing was cut off.\<close>

theorem told_text_is_kept_text:
  fixes D :: "('s, 't) decoder"
  assumes "incremental D"
  shows "concat (map fst (rd_sent (read_bounded D s0 True limit chunks)))
     = (case dec_step D s0 (rd_file (read_bounded D s0 True limit chunks)) of (text, s) \<Rightarrow>
          text @ (if rd_truncated (read_bounded D s0 True limit chunks) then [] else dec_final D s))"
proof -
  let ?r0 = "\<lparr>rd_file = '''', rd_total = 0, rd_truncated = False, rd_notified = False, rd_state = s0,
    rd_sent = []\<rparr> :: ('s, 't) reader"
  have z: "rd_inv True limit '''' ?r0" "rd_told D s0 ?r0"
    using assms by (auto simp: rd_inv_def rd_told_def incremental_def)
  obtain r where r: "rd_told D s0 r" "r = read_chunks D True limit chunks ?r0"
    using read_chunks_told [OF assms z] by simp
  have "read_bounded D s0 True limit chunks = (if \<not> rd_truncated r \<and> dec_final D (rd_state r) \<noteq> []
      then send True (dec_final D (rd_state r)) False r else r)"
    by (simp add: read_bounded_def Let_def r(2))
  then show ?thesis using r(1) by (auto simp: rd_told_def split: prod.split)
qed

definition byte_decoder :: "(unit, char) decoder" where
  "byte_decoder = \<lparr>dec_step = (\<lambda>s b. (b, s)), dec_final = (\<lambda>s. [])\<rparr>"

theorem told_text_is_kept_text_witness:
  "concat (map fst (rd_sent (read_bounded byte_decoder () True 5 [''abc'', ''def'', ''g'']))) = ''abcde''"
proof -
  have "incremental byte_decoder" by (simp add: incremental_def byte_decoder_def)
  from told_text_is_kept_text [OF this, of "()" 5 "[''abc'', ''def'', ''g'']"]
  show ?thesis by (rule trans) code_simp
qed

section \<open>What an operation is at each stage\<close>

inductive_cases backend_stepE: "backend_step E s s'"

definition unfinished :: "running_op \<Rightarrow> bool" where
  "unfinished op \<longleftrightarrow> po_commit op = None \<and> po_revision op = None"

definition failed :: "running_op \<Rightarrow> bool" where
  "failed op \<longleftrightarrow> po_status op = Tool_FAILED \<and> po_error_code op = Some EXECUTION_FAILED"

definition stopped :: "running_op \<Rightarrow> bool" where
  "stopped op \<longleftrightarrow> po_status op = Tool_CANCELLED \<and> po_cancelled op \<and> po_exit_code op = None
     \<and> po_error_code op = None"

definition exited_zero :: "running_op \<Rightarrow> bool" where
  "exited_zero op \<longleftrightarrow> po_status op = Tool_SUCCEEDED \<and> po_exit_code op = Some 0 \<and> po_error_code op = None"

fun op_ok_at :: "stage \<Rightarrow> running_op \<Rightarrow> bool" where
  "op_ok_at Waiting op = (po_status op = Tool_RUNNING \<and> po_exit_code op = None
     \<and> po_error_code op = None \<and> unfinished op)"
| "op_ok_at Gathering op = (unfinished op \<and> (exited_zero op \<or> failed op \<or> stopped op))"
| "op_ok_at Crashed op = (unfinished op \<and> (exited_zero op \<or> failed op \<or> stopped op))"
| "op_ok_at Ended op = ((unfinished op \<and> (failed op \<or> stopped op))
     \<or> (exited_zero op \<and> (\<exists>c. po_commit op = Some c \<and> po_revision op = Some (wc_revision_id c))))"

definition op_ok :: "running_op \<Rightarrow> bool" where
  "op_ok op = op_ok_at (po_stage op) op"

lemmas op_facts = op_ok_def unfinished_def failed_def stopped_def exited_zero_def

lemma fail_op_simps [simp]:
  "po_stage (fail_op m op) = po_stage op" "po_spec (fail_op m op) = po_spec op"
  "po_commit (fail_op m op) = po_commit op" "po_revision (fail_op m op) = po_revision op"
  "po_status (fail_op m op) = Tool_FAILED" "po_error_code (fail_op m op) = Some EXECUTION_FAILED"
  by (simp_all add: fail_op_def)

lemma wait_over_ok: "op_ok op \<Longrightarrow> po_stage op = Waiting \<Longrightarrow> op_ok (wait_over w op)"
  by (cases w) (auto simp: op_facts wait_over_def Let_def)

lemma wait_over_fields [simp]:
  "po_spec (wait_over w op) = po_spec op" "po_stage (wait_over w op) = Gathering"
  by (auto simp: wait_over_def Let_def split: wait_result.split)

lemma finish_op_ok:
  assumes "op_ok op" "po_stage op = Gathering"
  shows "op_ok (fst (finish_op E rid r1 r2 op t)) \<and> po_spec (fst (finish_op E rid r1 r2 op t)) = po_spec op"
  using assms by (auto simp: op_facts finish_op_def commit_op_def Let_def split: prod.split sum.split)

definition index_ok :: "backend \<Rightarrow> bool" where
  "index_ok s \<longleftrightarrow> (\<forall>opid i. pb_index s opid = Some i \<longrightarrow> i < length (pb_objects s)
     \<and> os_operation_id (po_spec (pb_objects s ! i)) = opid)"

definition backend_ok :: "backend \<Rightarrow> bool" where
  "backend_ok s \<longleftrightarrow> (\<forall>op\<in>set (pb_objects s). op_ok op) \<and> index_ok s"

text \<open>A step that starts nothing, and one that may start one operation.\<close>

definition quiet :: "(backend, 'a) io \<Rightarrow> bool" where
  "quiet m \<longleftrightarrow> (\<forall>s. pb_objects (snd (m s)) = pb_objects s \<and> pb_index (snd (m s)) = pb_index s)"

definition may_start :: "operation_spec \<Rightarrow> (backend, 'a) io \<Rightarrow> bool" where
  "may_start spec m \<longleftrightarrow> (\<forall>s. (pb_objects (snd (m s)) = pb_objects s \<and> pb_index (snd (m s)) = pb_index s)
     \<or> (\<exists>dir. pb_objects (snd (m s)) = pb_objects s @ [started_operation spec dir]
          \<and> pb_index (snd (m s)) = (pb_index s)(os_operation_id spec \<mapsto> length (pb_objects s))))"

lemma quiet_simps [simp]: "quiet (returnS x)" "quiet (raiseS e)" "quiet (liftS r)" "quiet (readS f)"
  "quiet (on_tree m)"
  by (auto simp: quiet_def io_defs on_tree_def split: prod.split)

lemma quiet_thenS: "quiet m \<Longrightarrow> (\<And>x. quiet (f x)) \<Longrightarrow> quiet (thenS m f)"
  by (auto simp: quiet_def thenS_def split: prod.splits sum.splits) (metis snd_conv)+

lemma may_start_thenS: "quiet m \<Longrightarrow> (\<And>x. may_start spec (f x)) \<Longrightarrow> may_start spec (thenS m f)"
  unfolding quiet_def may_start_def thenS_def
  by (intro allI) (rename_tac s, case_tac "m s", case_tac "fst (m s)", auto, (metis snd_conv)+)

lemma may_start_register: "may_start spec
    (thenS (changeS (\<lambda>s. Inr (register (started_operation spec dir) s))) (\<lambda>_. returnS x))"
  by (auto simp: may_start_def io_defs register_def started_operation_def)

lemma start_operation_starts: "may_start spec (start_operation E spec)"
  unfolding start_operation_def
  by (intro may_start_thenS may_start_register) (auto split: option.split)

lemma submit_starts: "may_start spec (submit E spec)"
proof -
  have q: "may_start spec (raiseS e)" "may_start spec (returnS x)" for e and x :: string
    by (simp_all add: may_start_def io_defs)
  show ?thesis unfolding submit_def
    by (intro may_start_thenS) (auto split: option.split simp: q start_operation_starts)
qed

lemma started_ok: "op_ok (started_operation spec dir)"
  by (simp add: op_facts started_operation_def)

lemma submit_ok: "backend_ok s \<Longrightarrow> backend_ok (snd (submit E spec s))"
proof -
  assume ok: "backend_ok s"
  from submit_starts [of spec E] consider
      "pb_objects (snd (submit E spec s)) = pb_objects s" "pb_index (snd (submit E spec s)) = pb_index s"
    | dir where "pb_objects (snd (submit E spec s)) = pb_objects s @ [started_operation spec dir]"
        "pb_index (snd (submit E spec s)) = (pb_index s)(os_operation_id spec \<mapsto> length (pb_objects s))"
    unfolding may_start_def by blast
  then show ?thesis
  proof cases
    case 2
    then show ?thesis using ok
      by (auto simp: backend_ok_def index_ok_def started_ok nth_append less_SucI)
         (simp_all add: started_operation_def)
  qed (use ok in \<open>simp add: backend_ok_def index_ok_def\<close>)
qed

lemma update_op_fields [simp]:
  "pb_objects (update_op i f s) = (pb_objects s)[i := f (pb_objects s ! i)]"
  "pb_index (update_op i f s) = pb_index s" "pb_tree (update_op i f s) = pb_tree s"
  by (simp_all add: update_op_def)

lemma update_op_ok:
  assumes "backend_ok s" "i < length (pb_objects s) \<Longrightarrow> op_ok (f (pb_objects s ! i))"
    and "i < length (pb_objects s) \<Longrightarrow> po_spec (f (pb_objects s ! i)) = po_spec (pb_objects s ! i)"
    and "pb_objects s' = (pb_objects s)[i := f (pb_objects s ! i)]" "pb_index s' = pb_index s"
  shows "backend_ok s'"
proof (cases "i < length (pb_objects s)")
  case True
  then show ?thesis using assms
    by (auto simp: backend_ok_def index_ok_def nth_list_update dest!: set_update_subset_insert [THEN subsetD])
next
  case False
  then show ?thesis using assms(1,4,5) by (simp add: backend_ok_def index_ok_def list_update_beyond)
qed

lemma cancel_state: "snd (cancel opid s) = (case pb_index s opid of
    None \<Rightarrow> s | Some i \<Rightarrow> update_op i (\<lambda>op. op\<lparr>po_cancelled := True\<rparr>) s)"
  by (simp add: cancel_def io_defs split: option.split)

lemma cancelled_ok: "op_ok op \<Longrightarrow> op_ok (op\<lparr>po_cancelled := True\<rparr>)"
  by (cases "po_stage op") (auto simp: op_facts)

lemma wait_step_fields:
  "pb_objects (wait_step i w s) = (pb_objects s)[i := wait_over w (pb_objects s ! i)]"
  "pb_index (wait_step i w s) = pb_index s"
  by (auto simp: wait_step_def Let_def split: option.split)

lemma finish_step_fields:
  "pb_objects (finish_step E i rid r1 r2 s)
     = (pb_objects s)[i := fst (finish_op E rid r1 r2 (pb_objects s ! i) (pb_tree s))]"
  "pb_index (finish_step E i rid r1 r2 s) = pb_index s"
  by (auto simp: finish_step_def split: prod.split)

lemma backend_step_ok: "backend_step E s s' \<Longrightarrow> backend_ok s \<Longrightarrow> backend_ok s'"
proof (induction rule: backend_step.induct)
  case (cancel_call s opid)
  have "backend_ok (update_op i (\<lambda>op. op\<lparr>po_cancelled := True\<rparr>) s)" for i
  proof (rule update_op_ok [OF cancel_call])
    assume "i < length (pb_objects s)"
    then show "op_ok ((pb_objects s ! i)\<lparr>po_cancelled := True\<rparr>)"
      using cancel_call by (auto simp: backend_ok_def intro: cancelled_ok)
  qed simp_all
  then show ?case using cancel_call unfolding cancel_state by (simp split: option.split)
next
  case (waited i s w)
  then show ?case
    by (intro update_op_ok [where f = "wait_over w", OF waited.prems _ _ wait_step_fields])
      (auto simp: backend_ok_def intro: wait_over_ok)
next
  case (finished i s rid r1 r2)
  then show ?case
    by (intro update_op_ok [where f = "\<lambda>op. fst (finish_op E rid r1 r2 op (pb_tree s))",
          OF finished.prems _ _ finish_step_fields])
      (use finish_op_ok finished in \<open>auto simp: backend_ok_def\<close>)
qed (auto simp: submit_ok release_def changeS_def, auto simp: backend_ok_def index_ok_def)

lemma reachable_ok: "reachable_backend E s \<Longrightarrow> backend_ok s"
proof (induction rule: reachable_backend.induct)
  case (started t) then show ?case by (simp add: backend_ok_def index_ok_def)
qed (rule backend_step_ok)

section \<open>What clients see\<close>

lemma get_status_op:
  assumes "get_status opid s = (Inr r, s')"
  obtains i where "s' = s" "pb_index s opid = Some i" "i < length (pb_objects s)"
    "r = result_of (pb_objects s ! i)"
  using assms by (auto simp: get_status_def current_op_def elim!: thenS_InrE split: option.splits if_splits)

text \<open>C23: Whenever an operation is polled, its result is that of the operation asked for and
  consistent: it is running, or it succeeded with exit code 0 and no error, or it failed with an
  error code, or it was cancelled; it names a published revision, with its manifest, only when the
  process ended with exit code 0, was not cancelled and the commit succeeded.\<close>

theorem operation_results_consistent:
  assumes "reachable_backend E s" "get_status opid s = (Inr r, s')"
  shows "s' = s \<and> or_operation_id r = opid
     \<and> ((or_status r = Tool_RUNNING \<and> or_exit_code r = None \<and> or_error_code r = None)
        \<or> (or_status r = Tool_SUCCEEDED \<and> or_exit_code r = Some 0 \<and> or_error_code r = None)
        \<or> (or_status r = Tool_FAILED \<and> or_error_code r = Some EXECUTION_FAILED)
        \<or> (or_status r = Tool_CANCELLED \<and> or_exit_code r = None \<and> or_error_code r = None))
     \<and> (or_workspace_revision r \<noteq> None \<longrightarrow> or_status r = Tool_SUCCEEDED
        \<and> or_manifest_digest r \<noteq> None \<and> or_storage_ref r \<noteq> None)
     \<and> (or_workspace_revision r = None \<longrightarrow> or_manifest_digest r = None \<and> or_changed_paths r = [])"
proof -
  obtain i where i: "s' = s" "pb_index s opid = Some i" "i < length (pb_objects s)"
    "r = result_of (pb_objects s ! i)"
    by (rule get_status_op [OF assms(2)])
  have ok: "op_ok (pb_objects s ! i)" "os_operation_id (po_spec (pb_objects s ! i)) = opid"
    using reachable_ok [OF assms(1)] i(2,3) by (auto simp: backend_ok_def index_ok_def)
  then show ?thesis using i(1)
    by (cases "po_stage (pb_objects s ! i)") (auto simp: i(4) result_of_def op_facts)
qed

text \<open>The life of an operation, as a client may rely on it.\<close>

inductive lifecycle :: "tool_status \<Rightarrow> tool_status \<Rightarrow> bool" where
  ends_well: "lifecycle Tool_RUNNING Tool_SUCCEEDED"
| ends_badly: "lifecycle Tool_RUNNING Tool_FAILED"
| is_stopped: "lifecycle Tool_RUNNING Tool_CANCELLED"
| not_committed: "lifecycle Tool_SUCCEEDED Tool_FAILED"

inductive_simps lifecycle_from [simp]: "lifecycle Tool_RUNNING st" "lifecycle Tool_SUCCEEDED st"
  "lifecycle Tool_FAILED st" "lifecycle Tool_CANCELLED st"

text \<open>What one step does to one operation.\<close>

lemma step_on_op:
  assumes "backend_step E s s'" "backend_ok s" "i < length (pb_objects s)"
  shows "i < length (pb_objects s') \<and> po_spec (pb_objects s' ! i) = po_spec (pb_objects s ! i) \<and>
     lifecycle\<^sup>=\<^sup>= (po_status (pb_objects s ! i)) (po_status (pb_objects s' ! i)) \<and>
     (po_stage (pb_objects s ! i) = Ended \<longrightarrow>
        (pb_objects s' ! i)\<lparr>po_cancelled := True\<rparr> = (pb_objects s ! i)\<lparr>po_cancelled := True\<rparr>)"
  using assms
proof (induction rule: backend_step.induct)
  case (submit_call s spec)
  then show ?case using submit_starts [of spec E]
    by (auto simp: may_start_def nth_append dest: spec [of _ s])
next
  case (cancel_call s opid)
  then have "pb_index s opid = Some j \<Longrightarrow> j < length (pb_objects s)" for j
    by (simp add: backend_ok_def index_ok_def)
  then show ?case using cancel_call unfolding cancel_state
    by (auto simp: nth_list_update split: option.split)
next
  case (waited j s w)
  have "op_ok (pb_objects s ! j)" using waited by (auto simp: backend_ok_def)
  then have "po_status (pb_objects s ! j) = Tool_RUNNING" using waited(2) by (simp add: op_ok_def)
  moreover have "po_status (wait_over w (pb_objects s ! j)) \<noteq> Tool_RUNNING"
      "po_status (wait_over w (pb_objects s ! j)) \<in> {Tool_SUCCEEDED, Tool_FAILED, Tool_CANCELLED}"
    by (auto simp: wait_over_def Let_def split: wait_result.split)
  ultimately show ?case using waited by (auto simp: wait_step_fields nth_list_update)
next
  case (finished j s rid r1 r2)
  have ok: "op_ok (pb_objects s ! j)" using finished by (auto simp: backend_ok_def)
  let ?op = "fst (finish_op E rid r1 r2 (pb_objects s ! j) (pb_tree s))"
  have "lifecycle\<^sup>=\<^sup>= (po_status (pb_objects s ! j)) (po_status ?op)"
    by (auto simp: finish_op_def commit_op_def Let_def split: prod.split sum.split)
  then show ?case using finished finish_op_ok [OF ok finished(2), of E rid r1 r2 "pb_tree s"]
    by (auto simp: finish_step_fields nth_list_update)
qed (auto simp: release_def changeS_def)

text \<open>C24: The backend refines the life cycle RUNNING to SUCCEEDED, FAILED or CANCELLED, and
  SUCCEEDED to FAILED: whatever calls, tasks and processes do, one step keeps an operation's
  specification and moves its status along the cycle or leaves it.\<close>

theorem operation_refines_lifecycle:
  assumes "reachable_backend E s" "backend_step E s s'" "i < length (pb_objects s)"
  shows "i < length (pb_objects s') \<and> po_spec (pb_objects s' ! i) = po_spec (pb_objects s ! i)
     \<and> lifecycle\<^sup>=\<^sup>= (po_status (pb_objects s ! i)) (po_status (pb_objects s' ! i))"
  using step_on_op [OF assms(2) reachable_ok [OF assms(1)] assms(3)] by blast

lemma reachable_steps: "(backend_step E)\<^sup>*\<^sup>* s s' \<Longrightarrow> reachable_backend E s \<Longrightarrow> reachable_backend E s'"
  by (induction rule: rtranclp_induct) (auto intro: stepped)

text \<open>Once its task has ended, an operation's result never changes again, whatever is submitted,
  cancelled or released later.\<close>

theorem ended_result_is_final:
  assumes "reachable_backend E s" "(backend_step E)\<^sup>*\<^sup>* s s'" "i < length (pb_objects s)"
    and "po_stage (pb_objects s ! i) = Ended"
  shows "result_of (pb_objects s' ! i) = result_of (pb_objects s ! i)"
proof -
  have same: "result_of (op\<lparr>po_cancelled := True\<rparr>) = result_of op" "po_stage (op\<lparr>po_cancelled := True\<rparr>) = po_stage op"
    for op by (simp_all add: result_of_def)
  have "i < length (pb_objects s') \<and>
      (pb_objects s' ! i)\<lparr>po_cancelled := True\<rparr> = (pb_objects s ! i)\<lparr>po_cancelled := True\<rparr>"
    using assms(2)
  proof (induction rule: rtranclp_induct)
    case (step y z)
    have "po_stage (pb_objects y ! i) = Ended" using step.IH same(2) assms(4) by metis
    then show ?case
      using step_on_op [OF step.hyps(2) reachable_ok [OF reachable_steps [OF step.hyps(1) assms(1)]]] step.IH
      by simp
  qed (simp add: assms(3))
  then show ?thesis by (metis same(1))
qed

text \<open>Submitting the same operation again starts nothing and returns its identifier; submitting
  other arguments or other input under the identifier is a conflict and changes nothing.\<close>

theorem submit_idempotent:
  assumes "submit E spec s = (Inr opid, s')" "os_operation_id spec2 = os_operation_id spec"
  shows "opid = os_operation_id spec \<and> submit E spec2 s' =
     (if os_argv spec2 = os_argv spec \<and> os_stdin_text spec2 = os_stdin_text spec then (Inr opid, s')
      else (Inl (DomainError IDEMPOTENCY_CONFLICT ''Operation id is already bound to different input''), s'))"
proof (cases "current_op s (os_operation_id spec)")
  case (Some op)
  then show ?thesis using assms by (auto simp: submit_def io_defs split: if_splits)
next
  case None
  have s: "start_operation E spec s = (Inr opid, s')" using assms(1) None by (simp add: submit_def io_defs)
  then obtain dir s1 where d: "opid = os_operation_id spec" "s' = register (started_operation spec dir) s1"
    unfolding start_operation_def by (auto elim!: thenS_InrE)
  have "current_op s' (os_operation_id spec) = Some (started_operation spec dir)"
    by (simp add: current_op_def d(2) register_def) (simp add: started_operation_def)
  then show ?thesis using assms(2) d(1)
    by (simp add: submit_def io_defs) (auto simp: started_operation_def)
qed

section \<open>One operation from submission to commit\<close>

definition demo_env :: backend_env where
  "demo_env = \<lparr>be_root = mk_path ''/o'', be_workspaces = mk_path ''/r'', be_os = lexical_os,
     be_host = plain_host\<lparr>h_sha256 := (\<lambda>s. s)\<rparr>, be_spawn = (\<lambda>_ _. Inr ())\<rparr>"

definition demo_spec :: operation_spec where
  "demo_spec = \<lparr>os_operation_id = ''op'', os_run_id = ''run'', os_session_id = Some ''s'',
     os_attempt_id = ''a'', os_workspace_ref = ''w'', os_argv = [''python3'', ''-''],
     os_timeout_seconds = 30, os_output_limit_bytes = 10, os_environment_profile_ref = ''local@1'',
     os_credential_refs = [], os_user_binding = None, os_workspace_epoch = 1, os_mount_spec = None,
     os_working_directory = None, os_stdin_text = Some ''print(1)''\<rparr>"

definition demo_empty :: backend where
  "demo_empty = \<lparr>pb_tree = [], pb_objects = [], pb_index = Map.empty\<rparr>"

definition demo_submitted :: backend where
  "demo_submitted = snd (submit demo_env demo_spec demo_empty)"

definition demo_settled :: backend where
  "demo_settled = wait_step 0 (AllDone 0) demo_submitted"

definition demo_done :: backend where
  "demo_done = finish_step demo_env 0 ''v1'' (ReadDone False) (ReadDone False) demo_settled"

lemma demo_stages: "length (pb_objects demo_submitted) = 1" "length (pb_objects demo_settled) = 1"
  "length (pb_objects demo_done) = 1" "po_stage (pb_objects demo_submitted ! 0) = Waiting"
  "po_stage (pb_objects demo_settled ! 0) = Gathering" "po_stage (pb_objects demo_done ! 0) = Ended"
  by code_simp+

lemma demo_reachable: "reachable_backend demo_env demo_submitted"
  "reachable_backend demo_env demo_settled" "reachable_backend demo_env demo_done"
  "backend_step demo_env demo_settled demo_done"
proof -
  have "reachable_backend demo_env demo_empty" unfolding demo_empty_def by (rule started)
  then show a: "reachable_backend demo_env demo_submitted"
    unfolding demo_submitted_def by (rule stepped) (rule submit_call)
  show b: "reachable_backend demo_env demo_settled"
    unfolding demo_settled_def by (rule stepped [OF a waited]) (simp_all add: demo_stages)
  show s: "backend_step demo_env demo_settled demo_done"
    unfolding demo_done_def by (rule finished) (simp_all add: demo_stages)
  show "reachable_backend demo_env demo_done" by (rule stepped [OF b s])
qed

lemma demo_polls: "\<exists>r. get_status ''op'' demo_settled = (Inr r, demo_settled)
      \<and> or_status r = Tool_SUCCEEDED \<and> or_workspace_revision r = None"
  "\<exists>r. get_status ''op'' demo_done = (Inr r, demo_done)
      \<and> or_status r = Tool_SUCCEEDED \<and> or_workspace_revision r = Some ''v1''"
proof -
  have i: "pb_index demo_settled ''op'' = Some 0" "pb_index demo_done ''op'' = Some 0" by code_simp+
  have "po_status (pb_objects demo_settled ! 0) = Tool_SUCCEEDED"
    "po_revision (pb_objects demo_settled ! 0) = None" by code_simp+
  then show "\<exists>r. get_status ''op'' demo_settled = (Inr r, demo_settled)
      \<and> or_status r = Tool_SUCCEEDED \<and> or_workspace_revision r = None"
    using i by (simp add: get_status_def current_op_def io_defs demo_stages result_of_def)
  have "po_status (pb_objects demo_done ! 0) = Tool_SUCCEEDED"
    "po_revision (pb_objects demo_done ! 0) = Some ''v1''" by code_simp+
  then show "\<exists>r. get_status ''op'' demo_done = (Inr r, demo_done)
      \<and> or_status r = Tool_SUCCEEDED \<and> or_workspace_revision r = Some ''v1''"
    using i by (simp add: get_status_def current_op_def io_defs demo_stages result_of_def)
qed

text \<open>
  A poll between the wait and the commit sees SUCCEEDED without a revision: a client that takes the
  first status other than RUNNING as final, as \<open>_wait_for_operation\<close> of both harnesses does,
  misses the revision the backend then publishes.
\<close>

lemma success_seen_before_commit:
  "\<exists>s s' r r'. reachable_backend demo_env s \<and> backend_step demo_env s s'
     \<and> get_status ''op'' s = (Inr r, s) \<and> or_status r = Tool_SUCCEEDED \<and> or_workspace_revision r = None
     \<and> get_status ''op'' s' = (Inr r', s') \<and> or_workspace_revision r' = Some ''v1''"
  using demo_polls demo_reachable(2,4) by blast

theorem operation_results_consistent_witness:
  "\<exists>r. get_status ''op'' demo_done = (Inr r, demo_done) \<and> or_operation_id r = ''op''
     \<and> or_manifest_digest r \<noteq> None"
proof -
  obtain r where r: "get_status ''op'' demo_done = (Inr r, demo_done)" "or_workspace_revision r = Some ''v1''"
    using demo_polls(2) by auto
  then show ?thesis using operation_results_consistent [OF demo_reachable(3) r(1)] by auto
qed

theorem operation_refines_lifecycle_witness:
  "lifecycle\<^sup>=\<^sup>= (po_status (pb_objects demo_settled ! 0)) (po_status (pb_objects demo_done ! 0))"
  using operation_refines_lifecycle [OF demo_reachable(2,4), of 0] by (simp add: demo_stages)

theorem ended_result_is_final_witness:
  "result_of (pb_objects (snd (cancel ''op'' demo_done)) ! 0) = result_of (pb_objects demo_done ! 0)"
proof (rule ended_result_is_final [OF demo_reachable(3)])
  show "(backend_step demo_env)\<^sup>*\<^sup>* demo_done (snd (cancel ''op'' demo_done))"
    by (intro r_into_rtranclp cancel_call)
qed (simp_all add: demo_stages)

theorem submit_idempotent_witness:
  "submit demo_env (demo_spec\<lparr>os_argv := [''/bin/bash'', ''-s'']\<rparr>) demo_submitted
     = (Inl (DomainError IDEMPOTENCY_CONFLICT ''Operation id is already bound to different input''),
        demo_submitted)"
proof -
  have "is_ok (fst (submit demo_env demo_spec demo_empty))" by code_simp
  then obtain opid where "submit demo_env demo_spec demo_empty = (Inr opid, demo_submitted)"
    unfolding demo_submitted_def by (cases "submit demo_env demo_spec demo_empty"; cases "fst (submit demo_env demo_spec demo_empty)") auto
  from submit_idempotent [OF this, of "demo_spec\<lparr>os_argv := [''/bin/bash'', ''-s'']\<rparr>"]
  show ?thesis by (simp add: demo_spec_def)
qed

end
