(* ===== verification/Tooling.thy ===== *)
theory Tooling
  imports Service ProcessSafety
begin

text \<open>
  The helpers both harnesses share (\<open>src/code_forge/harness/tooling.py\<close>): the Skills frozen in a
  Run's snapshot, the specification of an operation, and recording the revision an operation
  published. \<open>run.get("config_snapshot", {}).get("skills", [])\<close> is a list of objects.
\<close>

section \<open>Active Skills\<close>

definition snapshot_skills :: "json option \<Rightarrow> json_dict list" where
  "snapshot_skills snapshot = (case snapshot of
     Some (JObj kvs) \<Rightarrow> (case map_of kvs ''skills'' of
         Some (JArr items) \<Rightarrow> List.map_filter (\<lambda>j. case j of JObj o1 \<Rightarrow> Some o1 | _ \<Rightarrow> None) items
       | _ \<Rightarrow> [])
   | _ \<Rightarrow> [])"

definition text_field :: "string \<Rightarrow> json_dict \<Rightarrow> string" where
  "text_field key kvs = (case map_of kvs key of Some (JStr s) \<Rightarrow> s | _ \<Rightarrow> '''')"

definition active_skill_names :: "json option \<Rightarrow> string list" where
  "active_skill_names snapshot =
     filter (\<lambda>n. n \<noteq> []) (map (text_field ''name'') (snapshot_skills snapshot))"

text \<open>The Skill name a tool call is recorded under, or the error the model is told.\<close>

definition select_active_skill :: "json option \<Rightarrow> json option \<Rightarrow> string + string" where
  "select_active_skill snapshot requested =
     (let names = active_skill_names snapshot;
          shown = (case requested of None \<Rightarrow> ''None'' | Some j \<Rightarrow> py_str j) in
      if names = [] then Inr ''''
      else case requested of
        Some (JStr s) \<Rightarrow> if s \<in> set names then Inr s
          else Inl (''Skill '' @ [CHR 0x27] @ shown @ [CHR 0x27]
                 @ '' is not active for this Run. Active skills: '' @ py_join '', '' names)
      | _ \<Rightarrow> Inl (''Skill '' @ [CHR 0x27] @ shown @ [CHR 0x27]
                 @ '' is not active for this Run. Active skills: '' @ py_join '', '' names))"

section \<open>Operations\<close>

record tool_scope =
  ts_scope_id :: string
  ts_run_id :: string
  ts_session_id :: string
  ts_attempt_id :: string
  ts_workspace_id :: string
  ts_workspace_epoch :: int
  ts_user_binding :: "user_binding option"
  ts_working_directory :: "string option"
  ts_actor :: string

definition operation_cwd :: "tool_scope \<Rightarrow> string option" where
  "operation_cwd sc = (if \<not> falsy (ts_working_directory sc) then ts_working_directory sc
     else map_option ub_project_path (ts_user_binding sc))"

definition build_operation_spec ::
  "tool_scope \<Rightarrow> string \<Rightarrow> string list \<Rightarrow> string option \<Rightarrow> int \<Rightarrow> int \<Rightarrow> exn + operation_spec" where
  "build_operation_spec sc opid argv stdin timeout_seconds output_limit_bytes =
     (let cwd = operation_cwd sc;
          spec = (\<lambda>mount. \<lparr>os_operation_id = opid, os_run_id = ts_run_id sc,
            os_session_id = Some (ts_session_id sc), os_attempt_id = ts_attempt_id sc,
            os_workspace_ref = ts_workspace_id sc, os_argv = argv,
            os_timeout_seconds = timeout_seconds, os_output_limit_bytes = output_limit_bytes,
            os_environment_profile_ref = ''local@1'', os_credential_refs = [],
            os_user_binding = ts_user_binding sc, os_workspace_epoch = ts_workspace_epoch sc,
            os_mount_spec = mount, os_working_directory = cwd, os_stdin_text = stdin\<rparr>) in
      case ts_user_binding sc of
        None \<Rightarrow> Inr (spec None)
      | Some b \<Rightarrow> (case cwd of
          None \<Rightarrow> Inl (DomainError INVALID_REQUEST ''Bound execution requires a cwd'')
        | Some dir \<Rightarrow> Inr (spec (Some \<lparr>ms_spec_version = ''1'', ms_granularity = PROJECT,
            ms_source_ref = ub_project_ref b, ms_target = ''/workspace'', ms_mode = ''rw'',
            ms_cwd = dir\<rparr>))))"

definition persist_workspace_commit ::
  "host \<Rightarrow> tool_scope \<Rightarrow> operation_result \<Rightarrow> workspace_commit option act" where
  "persist_workspace_commit h sc r = (case or_workspace_revision r of
     None \<Rightarrow> ret None
   | Some rev_id \<Rightarrow>
       if or_manifest_digest r = None \<or> or_manifest_ref r = None \<or> or_storage_ref r = None
       then raise (DomainError EXECUTION_FAILED ''Tool committed files without revision metadata'')
       else let c = \<lparr>wc_revision_id = rev_id, wc_manifest_digest = the (or_manifest_digest r),
                     wc_manifest_ref = the (or_manifest_ref r), wc_storage_ref = the (or_storage_ref r),
                     wc_changed_paths = or_changed_paths r\<rparr> in
         bindA (record_workspace_revision h (ts_scope_id sc) (ts_workspace_id sc) (ts_attempt_id sc)
                  (ts_workspace_epoch sc) c (ts_actor sc)) (\<lambda>_. ret (Some c)))"

section \<open>The parts fit together\<close>

lemma revision_has_metadata:
  assumes "reachable_backend E s" "get_status opid s = (Inr r, s')" "or_workspace_revision r \<noteq> None"
  shows "or_manifest_digest r \<noteq> None \<and> or_manifest_ref r \<noteq> None \<and> or_storage_ref r \<noteq> None"
proof -
  obtain i where i: "i < length (pb_objects s)" "r = result_of (pb_objects s ! i)"
    by (rule get_status_op [OF assms(2)])
  have "op_ok (pb_objects s ! i)" using reachable_ok [OF assms(1)] i(1) by (simp add: backend_ok_def)
  then show ?thesis using assms(3)
    by (cases "po_stage (pb_objects s ! i)") (auto simp: i(2) result_of_def op_facts)
qed

lemma bound_spec_accepted:
  assumes "build_operation_spec sc opid argv stdin timeout out_limit = Inr spec" "ts_user_binding sc = Some b"
    and "operation_cwd sc = Some cwd" "os_resolve (be_os E) (mk_path cwd) = Some p"
    and "path_relative_to p (mk_path (ub_project_path b)) = Some rel"
  shows "working_dir E spec attempt = Inr p"
proof -
  have "os_user_binding spec = Some b" "os_working_directory spec = Some cwd"
    "\<exists>ms. os_mount_spec spec = Some ms \<and> ms_granularity ms = PROJECT \<and> ms_source_ref ms = ub_project_ref b"
    using assms(1-3) by (auto simp: build_operation_spec_def Let_def)
  then show ?thesis using assms(4,5) by (auto simp: working_dir_def validate_working_directory_def Let_def)
qed

text \<open>The two ends agree. A specification built for a bound Run whose directory resolves to one
  at or below the project passes the backend's check of the working directory; and recording the
  revision of any result the backend reports never fails for missing metadata: when it fails, the
  result names a revision and the store itself refused it.\<close>

theorem harness_and_backend_agree:
  assumes "build_operation_spec sc opid argv stdin timeout out_limit = Inr spec"
    and "ts_user_binding sc = Some b" "operation_cwd sc = Some cwd"
    and "os_resolve (be_os E) (mk_path cwd) = Some p"
    and "path_relative_to p (mk_path (ub_project_path b)) = Some rel"
    and "reachable_backend E s" "get_status opid s = (Inr r, s')"
  shows "working_dir E spec attempt = Inr p
    \<and> (fst (persist_workspace_commit h sc r w) = Inl e \<longrightarrow> (\<exists>c. or_workspace_revision r = Some (wc_revision_id c)
        \<and> fst (record_workspace_revision h (ts_scope_id sc) (ts_workspace_id sc) (ts_attempt_id sc)
            (ts_workspace_epoch sc) c (ts_actor sc) w) = Inl e))"
proof (intro conjI impI)
  show "working_dir E spec attempt = Inr p" by (rule bound_spec_accepted [OF assms(1-5)])
  assume f: "fst (persist_workspace_commit h sc r w) = Inl e"
  show "\<exists>c. or_workspace_revision r = Some (wc_revision_id c)
        \<and> fst (record_workspace_revision h (ts_scope_id sc) (ts_workspace_id sc) (ts_attempt_id sc)
            (ts_workspace_epoch sc) c (ts_actor sc) w) = Inl e"
  proof (cases "or_workspace_revision r")
    case None
    then show ?thesis using f by (simp add: persist_workspace_commit_def ret_def)
  next
    case (Some rev_id)
    then obtain d m st where "or_manifest_digest r = Some d" "or_manifest_ref r = Some m"
        "or_storage_ref r = Some st"
      using revision_has_metadata [OF assms(6,7)] by auto
    then show ?thesis using f Some
      by (intro exI [of _ "\<lparr>wc_revision_id = rev_id, wc_manifest_digest = d, wc_manifest_ref = m,
          wc_storage_ref = st, wc_changed_paths = or_changed_paths r\<rparr>"])
        (auto simp: persist_workspace_commit_def Let_def bindA_def ret_def split: prod.splits sum.splits)
  qed
qed

definition demo_binding :: user_binding where
  "demo_binding = \<lparr>ub_scope_id = ''u-1'', ub_tenant_ref = ''platform'', ub_user_ref = ''u-1'',
     ub_user_path = ''/d/u'', ub_project_ref = ''p'', ub_project_path = ''/d/u/w'',
     ub_storage_root = ''/d'', ub_user_rel_path = ''u'', ub_project_rel_path = ''w''\<rparr>"

definition demo_scope :: tool_scope where
  "demo_scope = \<lparr>ts_scope_id = ''u-1'', ts_run_id = ''run'', ts_session_id = ''s'',
     ts_attempt_id = ''a'', ts_workspace_id = ''w'', ts_workspace_epoch = 1,
     ts_user_binding = Some demo_binding, ts_working_directory = Some ''/d/u/w/sub'',
     ts_actor = ''system:runtime/w''\<rparr>"

theorem harness_and_backend_agree_witness:
  "\<exists>spec. build_operation_spec demo_scope ''op'' [''python3'', ''-''] (Some ''x'') 30 10 = Inr spec
     \<and> working_dir demo_env spec (mk_path ''/r'') = Inr (mk_path ''/d/u/w/sub'')"
proof -
  obtain spec where s: "build_operation_spec demo_scope ''op'' [''python3'', ''-''] (Some ''x'') 30 10 = Inr spec"
    by (simp add: build_operation_spec_def demo_scope_def operation_cwd_def)
  obtain r where r: "get_status ''op'' demo_done = (Inr r, demo_done)" using demo_polls(2) by auto
  have "operation_cwd demo_scope = Some ''/d/u/w/sub''" by (simp add: operation_cwd_def demo_scope_def)
  moreover have "os_resolve (be_os demo_env) (mk_path ''/d/u/w/sub'') = Some (mk_path ''/d/u/w/sub'')" by code_simp
  moreover have "path_relative_to (mk_path ''/d/u/w/sub'') (mk_path (ub_project_path demo_binding))
      = Some (mk_path ''sub'')" by code_simp
  ultimately have "working_dir demo_env spec (mk_path ''/r'') = Inr (mk_path ''/d/u/w/sub'')"
    using harness_and_backend_agree [OF s _ _ _ _ demo_reachable(3) r] by (simp add: demo_scope_def)
  then show ?thesis using s by blast
qed

end
