(* ===== verification/Context.thy ===== *)
theory Context
  imports PyText
begin

text \<open>
  \<open>ConversationContextManager\<close> of \<open>src/code_forge/harness/context.py\<close>: the messages a model gets
  for a new input, with recent turns kept verbatim and older ones summarized when the
  conversation is longer than \<open>max_chars\<close>. A message without the keys \<open>role\<close> or \<open>content\<close> is not
  built anywhere, so both are fields.
\<close>

record chat_message =
  cm_role :: string
  cm_content :: string

definition effective_max :: "nat \<Rightarrow> nat" where
  "effective_max max_chars = max 2000 max_chars"

definition chat_size :: "chat_message list \<Rightarrow> nat" where
  "chat_size history = sum_list (map (\<lambda>msg. length (cm_content msg)) history)"

text \<open>\<open>" ".join(content.split())\<close>, and the summary of messages cut to \<open>limit\<close> characters.\<close>

definition one_line :: "string \<Rightarrow> string" where
  "one_line s = py_join '' '' (py_words s)"

definition summary_lines :: "chat_message list \<Rightarrow> string list" where
  "summary_lines messages = List.map_filter (\<lambda>msg. let content = one_line (cm_content msg) in
     if content = [] then None else Some (cm_role msg @ '': '' @ take 500 content)) messages"

definition summarize :: "chat_message list \<Rightarrow> nat \<Rightarrow> string" where
  "summarize messages limit = take limit (py_join [CHR 0x0A] (summary_lines messages))"

text \<open>The newest messages that fit the budget, newest first; the newest is always kept.\<close>

fun take_recent :: "nat \<Rightarrow> nat \<Rightarrow> chat_message list \<Rightarrow> chat_message list \<Rightarrow> chat_message list" where
  "take_recent budget used recent [] = recent"
| "take_recent budget used recent (msg # older) =
     (if recent \<noteq> [] \<and> used + length (cm_content msg) > budget then recent
      else take_recent budget (used + length (cm_content msg)) (msg # recent) older)"

definition summary_message :: "string \<Rightarrow> chat_message list" where
  "summary_message summary = (if summary = [] then []
     else [\<lparr>cm_role = ''system'',
            cm_content = ''Earlier conversation summary:'' @ [CHR 0x0A] @ summary\<rparr>])"

definition build_context :: "nat \<Rightarrow> string \<Rightarrow> chat_message list \<Rightarrow> string \<Rightarrow> chat_message list" where
  "build_context max_chars system_prompt history current_input =
     (let current = \<lparr>cm_role = ''user'', cm_content = current_input\<rparr>;
          system = \<lparr>cm_role = ''system'', cm_content = system_prompt\<rparr>;
          limit = effective_max max_chars in
      if chat_size history + length current_input \<le> limit then system # history @ [current]
      else let recent = take_recent (limit div 2) 0 [] (rev history);
               older = take (length history - length recent) history;
               summary = summarize older (max 500 (limit div 3)) in
           system # summary_message summary @ recent @ [current])"

section \<open>What is kept\<close>

lemma take_recent_suffix:
  "\<exists>k\<le>length older. take_recent budget used recent older = rev (take k older) @ recent
     \<and> (recent \<noteq> [] \<or> older = [] \<or> 1 \<le> k)
     \<and> (used = chat_size recent \<longrightarrow> chat_size recent \<le> budget \<longrightarrow>
          chat_size (rev (take k older) @ recent) \<le> budget \<or> (recent = [] \<and> k = 1))"
proof (induction older arbitrary: used recent)
  case Nil then show ?case by simp
next
  case (Cons msg older)
  show ?case
  proof (cases "recent \<noteq> [] \<and> used + length (cm_content msg) > budget")
    case True
    then show ?thesis by (intro exI [of _ 0]) auto
  next
    case False
    obtain k where k: "k \<le> length older"
      "take_recent budget (used + length (cm_content msg)) (msg # recent) older
         = rev (take k older) @ msg # recent"
      "used + length (cm_content msg) = chat_size (msg # recent) \<Longrightarrow> chat_size (msg # recent) \<le> budget \<Longrightarrow>
         chat_size (rev (take k older) @ msg # recent) \<le> budget"
      using Cons.IH [of "used + length (cm_content msg)" "msg # recent"] by auto
    have stop: "k = 0" if "budget < used + length (cm_content msg)"
    proof (cases older)
      case Nil then show ?thesis using k(1) by simp
    next
      case (Cons m2 rest)
      then have "take_recent budget (used + length (cm_content msg)) (msg # recent) older = msg # recent"
        using that by simp
      then show ?thesis using k(1,2) Cons by auto
    qed
    show ?thesis
    proof (cases "budget < used + length (cm_content msg)")
      case True
      then show ?thesis using k(1,2) False stop by (intro exI [of _ "Suc 0"]) (auto simp: chat_size_def)
    next
      case fits: False
      then show ?thesis using k False by (intro exI [of _ "Suc k"]) (auto simp: chat_size_def)
    qed
  qed
qed


end
