(* ===== verification/LocalHarness.thy ===== *)
theory LocalHarness
  imports Tooling Context SkillBundles
begin

text \<open>
  \<open>LocalDeterministicHarness\<close> of \<open>src/code_forge/harness/local.py\<close>: executing the fenced Python and
  shell blocks of a message, or a model's tool calls, and ending the Run.

  Running an operation (submit, then poll until it is no longer RUNNING, then read its two logs),
  the model, the Impala dispatcher and preparing the attempt directory are arguments. Each is an
  action on the store: what other clients do while the harness awaits them happens in it. Every
  store call has its own host, numbered by the step and the call. The fixed texts that are not
  Latin-1 are arguments too.
\<close>

record tool_run =
  tr_result :: operation_result
  tr_stdout :: string
  tr_stderr :: string

record harness_texts =
  ht_no_model :: string
  ht_no_text :: string
  ht_max_steps :: string
  ht_prompt :: string

record harness_env =
  he_host :: "nat \<Rightarrow> nat \<Rightarrow> host"
  he_worker :: string
  he_prepare :: "tool_scope \<Rightarrow> unit act"
  he_operation :: "nat \<Rightarrow> operation_spec \<Rightarrow> tool_run act"
  he_bundles :: "tree option"
  he_model :: "(nat \<Rightarrow> json list \<Rightarrow> json_dict act) option"
  he_impala :: "(nat \<Rightarrow> json_dict \<Rightarrow> json_dict act) option"
  he_max_steps :: nat
  he_texts :: harness_texts

definition claimed_scope :: "harness_env \<Rightarrow> run_view \<Rightarrow> claim_info \<Rightarrow> tool_scope" where
  "claimed_scope E v ci = \<lparr>ts_scope_id = r_scope_id (rv_row v), ts_run_id = r_id (rv_row v),
     ts_session_id = r_session_id (rv_row v), ts_attempt_id = ci_attempt_id ci,
     ts_workspace_id = ci_workspace_id ci, ts_workspace_epoch = ci_workspace_epoch ci,
     ts_user_binding = ci_user_binding ci, ts_working_directory = ci_working_directory ci,
     ts_actor = ''system:runtime/'' @ he_worker E\<rparr>"

section \<open>The blocks of a message\<close>

text \<open>
  \<open>```(?:python|py)\s*\n(.*?)```\<close>: the fence with a label, white space up to its last line end,
  then the text up to the next fence.
\<close>

definition fence :: string where "fence = ''```''"

fun split_fence :: "string \<Rightarrow> string \<Rightarrow> (string \<times> string) option" where
  "split_fence seen [] = None"
| "split_fence seen (c # cs) =
     (if py_startswith (c # cs) fence then Some (rev seen, drop 3 (c # cs))
      else split_fence (c # seen) cs)"

text \<open>The text after a label: past the last line end of the white space that follows.\<close>

definition fence_body :: "string \<Rightarrow> string" where
  "fence_body body = rev (takeWhile (\<lambda>c. c \<noteq> CHR 0x0A) (rev (takeWhile py_isspace body)))
     @ dropWhile py_isspace body"

definition labelled :: "string \<Rightarrow> string \<Rightarrow> bool" where
  "labelled text l \<longleftrightarrow> py_startswith (drop 3 text) l
     \<and> CHR 0x0A \<in> set (takeWhile py_isspace (drop (3 + length l) text))"

definition after_label :: "string list \<Rightarrow> string \<Rightarrow> string option" where
  "after_label labels text =
     (if \<not> py_startswith text fence then None
      else map_option (\<lambda>l. fence_body (drop (3 + length l) text)) (List.find (labelled text) labels))"

definition block_at :: "string list \<Rightarrow> string \<Rightarrow> (string \<times> string) option" where
  "block_at labels text = Option.bind (after_label labels text) (split_fence [])"

lemma split_fence_length: "split_fence seen s = Some (code, rest) \<Longrightarrow> length rest < length s"
  by (induction seen s rule: split_fence.induct) (auto split: if_splits)

lemma fence_body_length: "length (fence_body b) \<le> length b"
proof -
  have "length (takeWhile (\<lambda>c. c \<noteq> CHR 0x0A) (rev (takeWhile py_isspace b))) \<le> length (takeWhile py_isspace b)"
    using length_takeWhile_le [of "\<lambda>c. c \<noteq> CHR 0x0A" "rev (takeWhile py_isspace b)"] by simp
  moreover have "length (takeWhile py_isspace b) + length (dropWhile py_isspace b) = length b"
    by (metis length_append takeWhile_dropWhile_id)
  ultimately show ?thesis by (simp add: fence_body_def)
qed

lemma after_label_length: "after_label labels s = Some t \<Longrightarrow> length t \<le> length s"
proof -
  assume "after_label labels s = Some t"
  then obtain l :: string where "t = fence_body (drop (3 + length l) s)"
    by (auto simp: after_label_def split: if_splits)
  then show ?thesis using fence_body_length [of "drop (3 + length l) s"] by simp
qed

function find_blocks :: "string list \<Rightarrow> string \<Rightarrow> string list" where
  "find_blocks labels text = (case block_at labels text of
     Some (code, rest) \<Rightarrow> code # find_blocks labels rest
   | None \<Rightarrow> (case text of [] \<Rightarrow> [] | c # cs \<Rightarrow> find_blocks labels cs))"
  by pat_completeness auto

termination
proof (relation "measure (length \<circ> snd)")
  fix labels s p code rest
  assume "block_at labels s = Some p" "(code, rest) = p"
  then show "((labels, rest), (labels, s)) \<in> measure (length \<circ> snd)"
    using split_fence_length after_label_length
    by (force simp: block_at_def bind_eq_Some_conv)
qed simp_all

declare find_blocks.simps [simp del]

definition plan_actions :: "string \<Rightarrow> (string \<times> string) list" where
  "plan_actions text = map (Pair ''python'') (find_blocks [''python'', ''py''] text)
     @ map (Pair ''command'') (find_blocks [''bash'', ''sh'', ''shell''] text)"

section \<open>Running one block\<close>

definition tool_argv :: "string \<Rightarrow> string list option" where
  "tool_argv tool_ref = (if tool_ref = ''python'' then Some [''python3'', ''-'']
     else if tool_ref = ''command'' then Some [''/bin/bash'', ''-s''] else None)"

definition code_digest :: "host \<Rightarrow> string \<Rightarrow> string \<Rightarrow> string" where
  "code_digest h tool_ref code = h_sha256 h (utf8_encode (tool_ref @ [nul] @ code))"

definition code_call :: "host \<Rightarrow> tool_scope \<Rightarrow> string \<Rightarrow> string \<Rightarrow> string \<Rightarrow> string \<Rightarrow> tool_call" where
  "code_call h sc logical_key tool_ref code summary = \<lparr>tc_logical_call_key = logical_key,
     tc_tool_ref = tool_ref, tc_params_digest = code_digest h tool_ref code,
     tc_input_ref = ''local-stdin:'' @ ts_attempt_id sc @ '':'' @ logical_key,
     tc_execution_profile_ref = ''local@1'', tc_input_summary = summary,
     tc_workspace_id = Some (ts_workspace_id sc), tc_input_revision_id = None, tc_input_text = code\<rparr>"

text \<open>\<open>try .. except DomainError\<close>\<close>

definition catch_domain :: "'a act \<Rightarrow> ((error_code \<times> string) + 'a) act" where
  "catch_domain m w = (case m w of
     (Inl (DomainError c msg), w') \<Rightarrow> (Inr (Inl (c, msg)), w')
   | (Inl e, w') \<Rightarrow> (Inl e, w')
   | (Inr x, w') \<Rightarrow> (Inr (Inr x), w'))"

definition error_dict :: "error_code \<Rightarrow> string \<Rightarrow> json_dict" where
  "error_dict c msg = [(''code'', JStr (error_code_value c)), (''message'', JStr msg)]"

text \<open>What the result of an operation amounts to, once its revision is recorded.\<close>

record settled =
  st_status :: tool_status
  st_error :: "json_dict option"
  st_revision :: "string option"

definition settle :: "host \<Rightarrow> tool_scope \<Rightarrow> operation_result \<Rightarrow> settled act" where
  "settle h sc r = (if or_status r = Tool_SUCCEEDED then
       bindA (catch_domain (persist_workspace_commit h sc r)) (\<lambda>p. case p of
         Inl (c, msg) \<Rightarrow> ret \<lparr>st_status = Tool_FAILED, st_error = Some (error_dict c msg), st_revision = None\<rparr>
       | Inr commit \<Rightarrow> ret \<lparr>st_status = Tool_SUCCEEDED, st_error = None,
                            st_revision = map_option wc_revision_id commit\<rparr>)
     else ret \<lparr>st_status = or_status r, st_error = None, st_revision = None\<rparr>)"

definition tool_error :: "tool_run \<Rightarrow> settled \<Rightarrow> json_dict option" where
  "tool_error tr st = (if st_status st = Tool_SUCCEEDED \<or> st_error st \<noteq> None then st_error st
     else Some [(''code'', JStr (case or_error_code (tr_result tr) of
                   Some c \<Rightarrow> error_code_value c | None \<Rightarrow> ''EXECUTION_FAILED'')),
                (''message'', JStr (if py_strip (tr_stderr tr) = [] then ''Tool failed''
                   else py_strip (tr_stderr tr)))])"

definition announce_revision :: "host \<Rightarrow> tool_scope \<Rightarrow> operation_result \<Rightarrow> settled \<Rightarrow> unit act" where
  "announce_revision h sc r st =
     (if st_status st = Tool_SUCCEEDED \<and> \<not> falsy (st_revision st)
      then bindA (append_event h (ts_scope_id sc) (ts_run_id sc) WORKSPACE_COMMITTED
             (JObj [(''revision_id'', JStr (the (st_revision st))),
                    (''changed_paths'', JArr (map JStr (or_changed_paths r)))]) (ts_actor sc)) (\<lambda>_. ret ())
      else ret ())"

record progress =
  pg_successes :: nat
  pg_failures :: nat
  pg_parts :: "string list"

definition add_part :: "string \<Rightarrow> progress \<Rightarrow> progress" where
  "add_part log p = (if py_strip log = [] then p else p\<lparr>pg_parts := pg_parts p @ [py_strip log]\<rparr>)"

definition count_result :: "tool_run \<Rightarrow> settled \<Rightarrow> progress \<Rightarrow> progress" where
  "count_result tr st p = (if st_status st = Tool_SUCCEEDED
     then add_part (tr_stdout tr) (p\<lparr>pg_successes := pg_successes p + 1\<rparr>)
     else add_part (tr_stderr tr) (p\<lparr>pg_failures := pg_failures p + 1\<rparr>))"

text \<open>The block \<open>i\<close> of a message: journal it, run it, record its revision, journal its end.\<close>

definition run_block ::
  "harness_env \<Rightarrow> tool_scope \<Rightarrow> nat \<Rightarrow> string \<Rightarrow> string \<Rightarrow> string list \<Rightarrow> progress \<Rightarrow> progress act" where
  "run_block E sc i tool_ref code argv p =
     (let h = he_host E i; scope = ts_scope_id sc; actor = ts_actor sc;
          key = tool_ref @ '':'' @ ts_attempt_id sc @ '':'' @ py_str_nat i in
      bindA (prepare_tool (h 1) scope (ts_run_id sc)
               (code_call (h 1) sc key tool_ref code (tool_ref @ '' block '' @ py_str_nat i)) actor)
        (\<lambda>(opid, _).
      bindA (start_tool (h 2) scope opid actor) (\<lambda>_.
      bindA (liftE (build_operation_spec sc opid argv (Some code) 30 (256 * 1024))) (\<lambda>spec.
      bindA (he_operation E i spec) (\<lambda>tr.
      bindA (settle (h 3) sc (tr_result tr)) (\<lambda>st.
      bindA (announce_revision (h 4) sc (tr_result tr) st) (\<lambda>_.
      bindA (finish_tool (h 5) scope opid (st_status st) (or_stdout_ref (tr_result tr))
               (tool_error tr st) actor (st_revision st)) (\<lambda>_.
      ret (count_result tr st p)))))))))"

text \<open>The blocks in order, until the Run is gone or being cancelled.\<close>

fun run_blocks ::
  "harness_env \<Rightarrow> tool_scope \<Rightarrow> nat \<Rightarrow> (string \<times> string) list \<Rightarrow> progress \<Rightarrow> progress act" where
  "run_blocks E sc i [] p = ret p"
| "run_blocks E sc i ((tool_ref, code) # actions) p =
     bindA (read_run (he_host E i 0) (ts_scope_id sc) (ts_run_id sc)) (\<lambda>current.
     case current of
       None \<Rightarrow> ret p
     | Some v \<Rightarrow>
         if r_status (rv_row v) = CANCELLING then ret p
         else (case tool_argv tool_ref of
             None \<Rightarrow> run_blocks E sc (i + 1) actions p
           | Some argv \<Rightarrow> bindA (run_block E sc i tool_ref code argv p) (\<lambda>p'.
               run_blocks E sc (i + 1) actions p')))"

text \<open>The answer and the outcome of the Run.\<close>

definition blocks_answer :: "progress \<Rightarrow> string \<times> task_outcome" where
  "blocks_answer p = (let out = py_join [CHR 0x0A] (pg_parts p) in
     if pg_failures p \<noteq> 0 \<and> pg_successes p = 0
       then (if out = [] then ''Tool execution failed.'' else out, BLOCKED)
     else if pg_failures p \<noteq> 0 then (out, PARTIAL)
     else (if out = [] then ''Tool execution completed.'' else out, COMPLETED))"

section \<open>Skills of the Run\<close>

text \<open>A snapshot item without one of the keys raises \<open>KeyError\<close>; a value that is not a string is not
  stored by any resolver.\<close>

definition skill_ref_of :: "json_dict \<Rightarrow> exn + skill_ref" where
  "skill_ref_of item =
     (case List.find (\<lambda>key. map_of item key = None) [''name'', ''version'', ''digest'', ''bundle_ref''] of
        Some key \<Rightarrow> Inl (KeyErr key)
      | None \<Rightarrow> Inr \<lparr>sr_name = text_field ''name'' item, sr_version = text_field ''version'' item,
          sr_digest = text_field ''digest'' item, sr_bundle_ref = text_field ''bundle_ref'' item,
          sr_source_kind = '''', sr_source_path = '''', sr_user_ref = '''', sr_project_ref = ''''\<rparr>)"

fun activate_skills :: "harness_env \<Rightarrow> tool_scope \<Rightarrow> nat \<Rightarrow> json_dict list \<Rightarrow> string list act" where
  "activate_skills E sc k [] = ret []"
| "activate_skills E sc k (item # items) =
     bindA (liftE (skill_ref_of item)) (\<lambda>ref.
      bindA (append_event (he_host E k 6) (ts_scope_id sc) (ts_run_id sc) SKILL_ACTIVATED
               (JObj [(''name'', JStr (sr_name ref)), (''version'', JStr (sr_version ref)),
                      (''digest'', JStr (sr_digest ref))]) (ts_actor sc)) (\<lambda>_.
      bindA (case he_bundles E of
               None \<Rightarrow> ret []
             | Some t \<Rightarrow> bindA (liftE (load_skill_body t ref)) (\<lambda>body.
                 ret [''## '' @ sr_name ref @ ''@'' @ sr_version ref @ [CHR 0x0A] @ body])) (\<lambda>block.
      bindA (activate_skills E sc (k + 1) items) (\<lambda>blocks. ret (block @ blocks)))))"

definition system_prompt :: "string \<Rightarrow> string list \<Rightarrow> string" where
  "system_prompt base skill_context = (if skill_context = [] then base
     else base @ [CHR 0x0A, CHR 0x0A] @ ''## Active Skills'' @ [CHR 0x0A]
        @ py_join [CHR 0x0A, CHR 0x0A] skill_context)"

definition skill_version :: "json option \<Rightarrow> string \<Rightarrow> string" where
  "skill_version snapshot name =
     (case List.find (\<lambda>item. map_of item ''name'' = Some (JStr name)) (snapshot_skills snapshot) of
        Some item \<Rightarrow> text_field ''version'' item
      | None \<Rightarrow> '''')"

section \<open>Running a model's code\<close>

definition skill_event :: "host \<Rightarrow> tool_scope \<Rightarrow> event_type \<Rightarrow> json option \<Rightarrow> string \<Rightarrow> string
    \<Rightarrow> json_dict \<Rightarrow> unit act" where
  "skill_event h sc et snapshot skill opid extra = (if skill = [] then ret ()
     else bindA (append_event h (ts_scope_id sc) (ts_run_id sc) et
            (JObj ([(''name'', JStr skill), (''version'', JStr (skill_version snapshot skill)),
                    (''operation_id'', JStr opid)] @ extra)) (ts_actor sc)) (\<lambda>_. ret ()))"

definition finished_status :: "tool_status \<Rightarrow> string" where
  "finished_status st = (if st \<in> {Tool_SUCCEEDED, Tool_FAILED, Tool_CANCELLED}
     then tool_status_value st else tool_status_value Tool_FAILED)"

text \<open>The journalled part of a code tool, from \<open>prepare_tool\<close> to the last event.\<close>

definition journalled_code :: "harness_env \<Rightarrow> tool_scope \<Rightarrow> json option \<Rightarrow> nat \<Rightarrow> string \<Rightarrow> string
    \<Rightarrow> string \<Rightarrow> string list \<Rightarrow> string \<Rightarrow> (tool_run \<times> settled) act" where
  "journalled_code E sc snapshot i summary tool_ref code argv skill =
     (let h = he_host E i; scope = ts_scope_id sc; actor = ts_actor sc;
          key = tool_ref @ '':'' @ ts_attempt_id sc @ '':'' @ h_uuid (h 7) 0 in
      bindA (prepare_tool (h 1) scope (ts_run_id sc) (code_call (h 1) sc key tool_ref code summary) actor)
        (\<lambda>(opid, _).
      bindA (start_tool (h 2) scope opid actor) (\<lambda>_.
      bindA (skill_event (h 8) sc SKILL_STARTED snapshot skill opid []) (\<lambda>_.
      bindA (liftE (build_operation_spec sc opid argv (Some code) 30 (256 * 1024))) (\<lambda>spec.
      bindA (he_operation E i spec) (\<lambda>tr.
      bindA (settle (h 3) sc (tr_result tr)) (\<lambda>st.
      bindA (announce_revision (h 4) sc (tr_result tr) st) (\<lambda>_.
      bindA (finish_tool (h 5) scope opid (st_status st) (or_stdout_ref (tr_result tr))
               (tool_error tr st) actor (st_revision st)) (\<lambda>_.
      bindA (skill_event (h 9) sc SKILL_FINISHED snapshot skill opid
               [(''status'', JStr (finished_status (st_status st)))]) (\<lambda>_.
      ret (tr, st)))))))))))"

definition execute_model_code :: "harness_env \<Rightarrow> tool_scope \<Rightarrow> json option \<Rightarrow> nat \<Rightarrow> string \<Rightarrow> string
    \<Rightarrow> string \<Rightarrow> (tool_status \<times> string \<times> string) act" where
  "execute_model_code E sc snapshot i tool_ref code skill =
     (if py_strip code = [] then ret (Tool_FAILED, '''', ''Tool arguments are empty'')
      else bindA (read_run (he_host E i 0) (ts_scope_id sc) (ts_run_id sc)) (\<lambda>current.
        if (case current of None \<Rightarrow> True | Some v \<Rightarrow> r_status (rv_row v) = CANCELLING)
        then ret (Tool_CANCELLED, '''', ''Run was cancelled'')
        else (case tool_argv tool_ref of
            None \<Rightarrow> ret (Tool_FAILED, '''', ''Unsupported tool: '' @ tool_ref)
          | Some argv \<Rightarrow>
              bindA (journalled_code E sc snapshot i (''model '' @ tool_ref @ '' call'') tool_ref code argv skill)
                (\<lambda>(tr, st). ret (st_status st, py_strip (tr_stdout tr), py_strip (tr_stderr tr))))))"

section \<open>The model loop\<close>

definition dict_of_json :: "json option \<Rightarrow> json_dict" where
  "dict_of_json j = (case j of Some (JObj kvs) \<Rightarrow> kvs | _ \<Rightarrow> [])"

text \<open>\<open>json.loads(function.get("arguments") or "\{\}")\<close>, then \<open>.get\<close> on the result.\<close>

definition call_arguments :: "json_dict \<Rightarrow> exn + json_dict" where
  "call_arguments fn = (case map_of fn ''arguments'' of
     Some (JStr s) \<Rightarrow> if s = [] then Inr [] else
       (case loads s of None \<Rightarrow> Inr []
        | Some (JObj kvs) \<Rightarrow> Inr kvs
        | Some _ \<Rightarrow> Inl (ValueErr ''AttributeError''))
   | Some j \<Rightarrow> if json_truthy j then Inl (ValueErr ''TypeError'') else Inr []
   | None \<Rightarrow> Inr [])"

definition code_argument :: "string \<Rightarrow> json_dict \<Rightarrow> exn + string" where
  "code_argument key arguments = (case map_of arguments key of
     None \<Rightarrow> Inr '''' | Some (JStr s) \<Rightarrow> Inr s | Some _ \<Rightarrow> Inl (ValueErr ''AttributeError''))"

definition tool_message :: "json_dict \<Rightarrow> string \<Rightarrow> json" where
  "tool_message call content = JObj [(''role'', JStr ''tool''),
     (''tool_call_id'', (case map_of call ''id'' of None \<Rightarrow> JNull | Some j \<Rightarrow> j)),
     (''content'', JStr content)]"

definition tool_content :: "tool_status \<Rightarrow> string \<Rightarrow> string \<Rightarrow> string" where
  "tool_content status out err = (if out \<noteq> [] then out else if err \<noteq> [] then err
     else if status = Tool_SUCCEEDED then ''Tool executed successfully.'' else ''Tool failed.'')"

text \<open>An Impala call that may still run, or was cancelled, ends the loop.\<close>

definition impala_ends :: "string \<Rightarrow> json_dict \<Rightarrow> bool" where
  "impala_ends tool_name result \<longleftrightarrow>
     (map_of result ''status'' = Some (JStr ''UNKNOWN'')
        \<and> tool_name \<notin> {''impala_query_status'', ''impala_cancel_query''})
     \<or> map_of result ''status'' = Some (JStr ''CANCELLED'')"

definition run_call :: "harness_env \<Rightarrow> tool_scope \<Rightarrow> json option \<Rightarrow> nat \<Rightarrow> json_dict
    \<Rightarrow> ((string \<times> task_outcome) + json) act" where
  "run_call E sc snapshot i call =
     (let fn = dict_of_json (map_of call ''function''); tool_name = text_field ''name'' fn;
          answer = (\<lambda>(status, out, err). ret (Inr (tool_message call
                      (take 16000 (tool_content status out err))))) in
      bindA (liftE (call_arguments fn)) (\<lambda>arguments.
      case select_active_skill snapshot (map_of arguments ''skill'') of
        Inl problem \<Rightarrow> answer (Tool_FAILED, '''', problem)
      | Inr skill \<Rightarrow>
          if py_startswith tool_name ''impala_'' \<and> he_impala E \<noteq> None then
            bindA (the (he_impala E) i call) (\<lambda>result.
            let content = dumps False '','' '':'' (JObj result) in
            if impala_ends tool_name result then ret (Inl (content, BLOCKED))
            else ret (Inr (tool_message call content)))
          else if tool_name = ''execute_python'' then
            bindA (liftE (code_argument ''code'' arguments)) (\<lambda>code.
            bindA (execute_model_code E sc snapshot i ''python'' code skill) answer)
          else if tool_name = ''execute_command'' then
            bindA (liftE (code_argument ''command'' arguments)) (\<lambda>code.
            bindA (execute_model_code E sc snapshot i ''command'' code skill) answer)
          else answer (Tool_FAILED, '''', ''Unsupported tool: '' @ tool_name)))"

fun run_calls :: "harness_env \<Rightarrow> tool_scope \<Rightarrow> json option \<Rightarrow> nat \<Rightarrow> json list
    \<Rightarrow> ((string \<times> task_outcome) + json list) act" where
  "run_calls E sc snapshot i [] = ret (Inr [])"
| "run_calls E sc snapshot i (call # calls) =
     bindA (run_call E sc snapshot i (dict_of_json (Some call))) (\<lambda>r. case r of
       Inl final \<Rightarrow> ret (Inl final)
     | Inr msg \<Rightarrow> bindA (run_calls E sc snapshot (i + 1) calls) (\<lambda>rest. case rest of
         Inl final \<Rightarrow> ret (Inl final) | Inr msgs \<Rightarrow> ret (Inr (msg # msgs))))"

definition json_items :: "json \<Rightarrow> json list" where
  "json_items j = (case j of JArr xs \<Rightarrow> xs | _ \<Rightarrow> [])"

definition message_text :: "harness_env \<Rightarrow> json_dict \<Rightarrow> string" where
  "message_text E msg = (if text_field ''content'' msg = [] then ht_no_text (he_texts E)
     else text_field ''content'' msg)"

fun model_loop :: "harness_env \<Rightarrow> (nat \<Rightarrow> json list \<Rightarrow> json_dict act) \<Rightarrow> tool_scope \<Rightarrow> json option
    \<Rightarrow> nat \<Rightarrow> json list \<Rightarrow> (string \<times> task_outcome) act" where
  "model_loop E model sc snapshot 0 messages = ret (ht_max_steps (he_texts E), PARTIAL)"
| "model_loop E model sc snapshot (Suc steps) messages =
     bindA (read_run (he_host E steps 10) (ts_scope_id sc) (ts_run_id sc)) (\<lambda>current.
     if (case current of None \<Rightarrow> True | Some v \<Rightarrow> r_status (rv_row v) \<noteq> RUNNING)
     then ret (''Message is no longer executing.'', BLOCKED)
     else bindA (model steps messages) (\<lambda>msg.
       case map_of msg ''tool_calls'' of
         None \<Rightarrow> ret (message_text E msg, COMPLETED)
       | Some calls \<Rightarrow>
           if \<not> json_truthy calls then ret (message_text E msg, COMPLETED)
           else bindA (run_calls E sc snapshot (1000 * (steps + 1)) (json_items calls)) (\<lambda>r. case r of
               Inl final \<Rightarrow> ret final
             | Inr answers \<Rightarrow>
                 model_loop E model sc snapshot steps (messages @ [JObj msg] @ answers))))"

definition role_message :: "string \<Rightarrow> string \<Rightarrow> json" where
  "role_message role content = JObj [(''role'', JStr role), (''content'', JStr content)]"

section \<open>Executing a Run\<close>

definition input_text :: "run_view \<Rightarrow> string" where
  "input_text v = (case rv_input v of Some (JStr s) \<Rightarrow> s | _ \<Rightarrow> '''')"

definition answer_of :: "harness_env \<Rightarrow> tool_scope \<Rightarrow> run_view \<Rightarrow> string list
    \<Rightarrow> (string \<times> task_outcome) act" where
  "answer_of E sc v skill_context =
     (let actions = plan_actions (input_text v) in
      bindA (run_blocks E sc 0 actions \<lparr>pg_successes = 0, pg_failures = 0, pg_parts = []\<rparr>) (\<lambda>p.
      if actions \<noteq> [] then ret (blocks_answer p)
      else case he_model E of
          None \<Rightarrow> ret (ht_no_model (he_texts E), BLOCKED)
        | Some model \<Rightarrow> model_loop E model sc (rv_config_snapshot v) (he_max_steps E)
            [role_message ''system'' (system_prompt (ht_prompt (he_texts E)) skill_context),
             role_message ''user'' (input_text v)]))"

definition success_change :: "int \<Rightarrow> task_outcome \<Rightarrow> string \<Rightarrow> change" where
  "success_change v outcome answer = \<lparr>ch_target = SUCCEEDED, ch_expected_version = v,
     ch_task_outcome = Some outcome, ch_reason = None, ch_output = Some answer, ch_error = None,
     ch_extra_data = None\<rparr>"

text \<open>The last step: a Run cancelled or being cancelled is left as it is, any other succeeds.\<close>

definition end_run :: "harness_env \<Rightarrow> tool_scope \<Rightarrow> string \<Rightarrow> task_outcome \<Rightarrow> run_view option act" where
  "end_run E sc answer outcome =
     bindA (read_run (he_host E 0 11) (ts_scope_id sc) (ts_run_id sc)) (\<lambda>current.
     case current of
       None \<Rightarrow> transition_run (he_host E 0 12) (ts_scope_id sc) (ts_run_id sc)
                 (success_change 1 outcome answer) (Some (ts_actor sc))
     | Some v \<Rightarrow>
         if r_status (rv_row v) = CANCELLED \<or> r_status (rv_row v) = CANCELLING then ret current
         else transition_run (he_host E 0 12) (ts_scope_id sc) (ts_run_id sc)
                (success_change (r_state_version (rv_row v)) outcome answer) (Some (ts_actor sc)))"

definition execute_local :: "harness_env \<Rightarrow> run_view \<Rightarrow> claim_info \<Rightarrow> run_view option act" where
  "execute_local E v ci =
     (let sc = claimed_scope E v ci in
      bindA (he_prepare E sc) (\<lambda>_.
      bindA (activate_skills E sc 0 (snapshot_skills (rv_config_snapshot v))) (\<lambda>skill_context.
      bindA (answer_of E sc v skill_context) (\<lambda>(answer, outcome).
      bindA (append_event (he_host E 0 13) (ts_scope_id sc) (ts_run_id sc) MESSAGE_COMPLETED
               (JObj [(''message_id'', JStr (h_uuid (he_host E 0 14) 0)), (''text'', JStr answer)])
               (ts_actor sc)) (\<lambda>_.
      end_run E sc answer outcome)))))"

end
