(* ===== verification/HarnessJournal.thy ===== *)
theory HarnessJournal
  imports LocalHarness
begin

text \<open>
  What the harness reports against the journal of \<open>src/code_forge/persistence/sqlite_store.py\<close>: after a
  block ran, the row of its call carries the status the harness counted it under.
\<close>

lemma event_keeps_tools: "event_added scope rid et d d' \<Longrightarrow> tool_executions d' = tool_executions d"
  by (auto simp: event_added_def record_event_def Let_def update_runs_def update_sessions_def
      dest!: bindE_InrD dest: insert_event_simps)

lemma find_updated:
  assumes "find_tool scope oid d = Some t"
    and "\<And>x. t_scope_id (f x) = t_scope_id x \<and> t_id (f x) = t_id x"
  shows "find_tool scope oid (update_tools (\<lambda>x. t_scope_id x = scope \<and> t_id x = oid) f d) = Some (f t)"
proof -
  have "select_one (\<lambda>t. t_scope_id t = scope \<and> t_id t = oid) ts = Some t \<Longrightarrow>
      select_one (\<lambda>t. t_scope_id t = scope \<and> t_id t = oid)
        (update_where (\<lambda>x. t_scope_id x = scope \<and> t_id x = oid) f ts) = Some (f t)" for ts
    by (induction ts) (auto simp: update_where_def assms(2) split: if_splits)
  then show ?thesis using assms(1) by (simp add: find_tool_def update_tools_def)
qed

lemma finish_row_facts: "t_scope_id (finish_tool_row st ref err revision now actor x) = t_scope_id x"
  "t_id (finish_tool_row st ref err revision now actor x) = t_id x"
  "t_status (finish_tool_row st ref err revision now actor x) = st"
  "t_result_revision_id (finish_tool_row st ref err revision now actor x) = revision"
  by (simp_all add: finish_tool_row_def touch_def)

text \<open>The row a returning \<open>finish_tool\<close> leaves.\<close>

lemma wp_finish_tool:
  assumes "\<And>w' t. find_tool scope oid (wdb w') = Some t \<Longrightarrow> t_status t = status \<Longrightarrow>
      t_result_revision_id t = revision \<Longrightarrow> Q () w'"
  shows "wp (finish_tool h scope oid status result_ref err actor revision) Q w"
proof (cases "find_tool scope oid (wdb w)")
  case None
  then show ?thesis by (simp add: finish_tool_def wp_simps Let_def)
next
  case (Some t)
  have row: "find_tool scope oid d' = Some (finish_tool_row status result_ref err revision now actor t)"
    if "finish_tools scope oid t status result_ref err revision now actor (wdb w) = Inr d"
      "event_added scope (t_run_id t) et d d'" for d d' now et
    using that find_updated [OF Some, of "finish_tool_row status result_ref err revision now actor"]
      event_keeps_tools [OF that(2)]
    by (auto simp: finish_tools_def find_tool_def finish_row_facts split: if_splits)
  have "Q () (w\<lparr>wfiles := fs, wdb := d'\<rparr>)"
    if "finish_tools scope oid t status result_ref err revision now actor (wdb w) = Inr d"
      "event_added scope (t_run_id t) et d d'" for d d' now et fs
    using row [OF that] by (auto intro!: assms simp: finish_row_facts)
  then show ?thesis
    by (simp add: finish_tool_def wp_simps Let_def Some) (auto intro!: wp_event simp: wp_simps)
qed

lemma wp_any: "(\<And>x w'. Q x w') \<Longrightarrow> wp m Q w"
  by (simp add: wp_def split: prod.splits sum.splits)

lemma wp_bindA_step: "m w = (Inr x, w1) \<Longrightarrow> wp (f x) Q w1 \<Longrightarrow> wp (bindA m f) Q w"
  by (simp add: wp_def bindA_def)

lemma settle_revision: "wp (settle h sc r) (\<lambda>st w'. st_status st \<noteq> Tool_SUCCEEDED \<longrightarrow> st_revision st = None) w"
proof (cases "or_status r = Tool_SUCCEEDED")
  case True
  show ?thesis using True
    by (simp add: settle_def wp_bindA) (rule wp_any, auto simp: wp_simps split: sum.splits)
qed (simp add: settle_def wp_simps)

lemma add_part_counts [simp]: "pg_successes (add_part l p) = pg_successes p"
  "pg_failures (add_part l p) = pg_failures p"
  by (simp_all add: add_part_def)

text \<open>The counts and the journal of one block.\<close>

definition counted :: "tool_row \<Rightarrow> progress \<Rightarrow> progress \<Rightarrow> bool" where
  "counted t p p' \<longleftrightarrow> (if t_status t = Tool_SUCCEEDED
     then pg_successes p' = Suc (pg_successes p) \<and> pg_failures p' = pg_failures p
     else pg_failures p' = Suc (pg_failures p) \<and> pg_successes p' = pg_successes p
        \<and> t_result_revision_id t = None)"

lemma counted_result:
  assumes "t_status t = st_status st" "t_result_revision_id t = st_revision st"
    and "st_status st \<noteq> Tool_SUCCEEDED \<longrightarrow> st_revision st = None"
  shows "counted t p (count_result tr st p)"
  using assms by (simp add: counted_def count_result_def)

text \<open>What the harness counts is what the journal says. When running a block returns, exactly one
  of its two counters went up by one: the successes when the journal row of the call it prepared
  ends SUCCEEDED, the failures otherwise, and a failed call names no revision. So an answer is
  BLOCKED, PARTIAL or COMPLETED according to the rows the journal keeps.\<close>

theorem counted_as_journalled:
  assumes "run_block E sc i tool_ref code argv p w = (Inr p', w')"
  shows "\<exists>opid st t. fst (prepare_tool (he_host E i 1) (ts_scope_id sc) (ts_run_id sc)
        (code_call (he_host E i 1) sc (tool_ref @ '':'' @ ts_attempt_id sc @ '':'' @ py_str_nat i) tool_ref
          code (tool_ref @ '' block '' @ py_str_nat i)) (ts_actor sc) w) = Inr (opid, st)
     \<and> find_tool (ts_scope_id sc) opid (wdb w') = Some t
     \<and> (if t_status t = Tool_SUCCEEDED
        then pg_successes p' = Suc (pg_successes p) \<and> pg_failures p' = pg_failures p
        else pg_failures p' = Suc (pg_failures p) \<and> pg_successes p' = pg_successes p
          \<and> t_result_revision_id t = None)"
proof -
  let ?prepare = "prepare_tool (he_host E i 1) (ts_scope_id sc) (ts_run_id sc)
        (code_call (he_host E i 1) sc (tool_ref @ '':'' @ ts_attempt_id sc @ '':'' @ py_str_nat i) tool_ref
          code (tool_ref @ '' block '' @ py_str_nat i)) (ts_actor sc)"
  obtain opid st w1 where prep: "?prepare w = (Inr (opid, st), w1)"
    using assms by (auto simp: run_block_def Let_def bindA_def split: prod.splits sum.splits)
  have ran: "wp (run_block E sc i tool_ref code argv p) (\<lambda>q v. \<exists>t. find_tool (ts_scope_id sc) opid (wdb v) = Some t
      \<and> counted t p q) w"
    unfolding run_block_def Let_def
    by (rule wp_bindA_step, rule prep)
      (auto simp: wp_simps intro!: wp_any wp_mono [OF settle_revision] wp_finish_tool counted_result)
  have "\<exists>t. find_tool (ts_scope_id sc) opid (wdb w') = Some t \<and> counted t p p'"
    using ran assms by (rule wpD)
  then show ?thesis using prep unfolding counted_def by auto
qed

text \<open>A shell block in the queued demo Run whose process fails.\<close>

definition demo_run_result :: operation_result where
  "demo_run_result = \<lparr>or_operation_id = ''50'', or_status = Tool_FAILED, or_exit_code = Some 1, or_stdout_ref = None,
     or_stderr_ref = None, or_workspace_revision = None, or_error_code = None, or_manifest_digest = None,
     or_manifest_ref = None, or_storage_ref = None, or_changed_paths = []\<rparr>"

definition demo_harness :: harness_env where
  "demo_harness = \<lparr>he_host = (\<lambda>i k. demo_host (if k = 1 then ''51'' else if k = 2 then ''52'' else ''53'')),
     he_worker = ''w'',
     he_prepare = (\<lambda>sc. ret ()),
     he_operation = (\<lambda>i spec. ret \<lparr>tr_result = demo_run_result, tr_stdout = '''', tr_stderr = ''oops''\<rparr>),
     he_bundles = None, he_model = None, he_impala = None, he_max_steps = 12,
     he_texts = \<lparr>ht_no_model = '''', ht_no_text = '''', ht_max_steps = '''', ht_prompt = ''''\<rparr>\<rparr>"

definition demo_block_scope :: tool_scope where
  "demo_block_scope = \<lparr>ts_scope_id = ''u'', ts_run_id = ''20'', ts_session_id = ''10'', ts_attempt_id = ''30'',
     ts_workspace_id = ''11'', ts_workspace_epoch = 1, ts_user_binding = None,
     ts_working_directory = None, ts_actor = ''a''\<rparr>"

text \<open>The demo Run after \<open>n - 1\<close> events, with the tool rows \<open>ts\<close>.\<close>

definition demo_stage :: "string list \<Rightarrow> int \<Rightarrow> tool_row list \<Rightarrow> world \<Rightarrow> bool" where
  "demo_stage ids n ts w \<longleftrightarrow> (\<exists>q s k r es. wdb w = empty_db\<lparr>workspaces := [k], sessions := [s],
       session_requests := [q], runs := [r], run_events := es, tool_executions := ts\<rparr>
     \<and> s_id s = ''10'' \<and> s_scope_id s = ''u'' \<and> s_next_event_seq s = n \<and> w_id k = ''11'' \<and> w_scope_id k = ''u''
     \<and> r_workspace_id r = ''11'' \<and> r_id r = ''20'' \<and> r_scope_id r = ''u'' \<and> r_session_id r = ''10''
     \<and> r_next_event_seq r = n \<and> map e_event_id es = ids \<and> (\<forall>e\<in>set es. e_seq e < n \<and> e_session_seq e < n)
     \<and> w_current_revision k = None)"

lemma demo_stage_event:
  assumes "demo_stage ids n ts w" "h_uuid h u \<notin> set ids"
  shows "\<exists>ne w'. insert_event_locked h u m ''u'' ''20'' et data actor now w = (Inr ne, w')
     \<and> demo_stage (ids @ [h_uuid h u]) (n + 1) ts w'"
proof -
  obtain q s k r es where w: "wdb w = empty_db\<lparr>workspaces := [k], sessions := [s],
       session_requests := [q], runs := [r], run_events := es, tool_executions := ts\<rparr>"
     and f: "s_id s = ''10''" "s_scope_id s = ''u''" "s_next_event_seq s = n" "w_id k = ''11''" "w_scope_id k = ''u''"
     "r_workspace_id r = ''11''" "r_id r = ''20''" "r_scope_id r = ''u''" "r_session_id r = ''10''"
     "r_next_event_seq r = n" and es: "map e_event_id es = ids" "\<forall>e\<in>set es. e_seq e < n \<and> e_session_seq e < n"
     and rev: "w_current_revision k = None"
    using assms(1) unfolding demo_stage_def by blast
  have id: "e_event_id e \<noteq> h_uuid h u" if "e \<in> set es" for e
    using assms(2) imageI [OF that, of e_event_id] es(1) [symmetric] by auto
  have old: "e_seq e \<noteq> n" "e_session_seq e \<noteq> n" if "e \<in> set es" for e using es(2) that by auto
  have ins: "insert_event (event_row_of (h_uuid h u) ''u'' ''20'' ''10'' n n et c occ at actor) (wdb w)
      = Inr ((wdb w)\<lparr>run_events := es @ [event_row_of (h_uuid h u) ''u'' ''20'' ''10'' n n et c occ at actor]\<rparr>)"
    for c occ at
    using id old by (auto simp: insert_event_def w f clash_def list_ex_iff event_row_of_def empty_db_def)
  show ?thesis
    unfolding insert_event_locked_def bindA_def ret_def read_db_def insert_db_def with_files_def Let_def
    using ins es rev
    by (simp add: w f join_rs_def record_event_def update_runs_def update_sessions_def update_where_def touch_def
        demo_stage_def event_row_of_def empty_db_def split: prod.split) fastforce
qed

lemma demo_stage_set:
  assumes "demo_stage ids n ts w"
  shows "demo_stage ids n ts' (w\<lparr>wdb := (wdb w)\<lparr>tool_executions := ts'\<rparr>\<rparr>)"
proof -
  obtain q s k r es where w: "wdb w = empty_db\<lparr>workspaces := [k], sessions := [s],
       session_requests := [q], runs := [r], run_events := es, tool_executions := ts\<rparr>"
     and f: "s_id s = ''10''" "s_scope_id s = ''u''" "s_next_event_seq s = n" "w_id k = ''11''" "w_scope_id k = ''u''"
     "r_workspace_id r = ''11''" "r_id r = ''20''" "r_scope_id r = ''u''" "r_session_id r = ''10''"
     "r_next_event_seq r = n" "map e_event_id es = ids" "\<forall>e\<in>set es. e_seq e < n \<and> e_session_seq e < n"
     "w_current_revision k = None"
    using assms unfolding demo_stage_def by blast
  show ?thesis unfolding demo_stage_def
    by (intro exI [of _ q] exI [of _ s] exI [of _ k] exI [of _ r] exI [of _ es]) (simp add: w f)
qed

lemma demo_stage_tools: "demo_stage ids n ts w \<Longrightarrow> tool_executions (wdb w) = ts"
  by (auto simp: demo_stage_def)

lemma demo_stage_update:
  "demo_stage ids n ts w \<Longrightarrow> demo_stage ids n (update_where P g ts) (w\<lparr>wdb := update_tools P g (wdb w)\<rparr>)"
  using demo_stage_set [of ids n ts w "update_where P g ts"] by (simp add: update_tools_def demo_stage_tools)

lemma demo_stage_insert:
  assumes "demo_stage ids n [] w" "t_scope_id t = ''u''" "t_run_id t = ''20''" "t_workspace_id t = ''11''"
    and "t_input_revision_id t = None" "t_result_revision_id t = None"
  shows "\<exists>d. insert_tool t (wdb w) = Inr d \<and> demo_stage ids n [t] (w\<lparr>wdb := d\<rparr>)"
proof -
  have "tool_executions (wdb w) = []" "list_ex (\<lambda>r. r_scope_id r = ''u'' \<and> r_id r = ''20'') (runs (wdb w))"
    "list_ex (\<lambda>w. w_scope_id w = ''u'' \<and> w_id w = ''11'') (workspaces (wdb w))"
    using assms(1) by (auto simp: demo_stage_def)
  then have "insert_tool t (wdb w) = Inr ((wdb w)\<lparr>tool_executions := [t]\<rparr>)"
    using assms(2-6) by (simp add: insert_tool_def clash_def revision_exists_def)
  then show ?thesis using demo_stage_set [OF assms(1), of "[t]"] by auto
qed

lemma demo_stage_prepare:
  assumes "demo_stage [''21''] 2 [] w" "tc_workspace_id tc = Some ''11''" "tc_input_revision_id tc = None"
  shows "\<exists>w' t. prepare_tool (demo_host ''51'') ''u'' ''20'' tc actor w = (Inr (''510'', Tool_PREPARED), w')
     \<and> demo_stage [''21'', ''511''] 3 [t] w' \<and> t_id t = ''510'' \<and> t_scope_id t = ''u'' \<and> t_run_id t = ''20''
     \<and> t_workspace_id t = ''11''"
proof -
  obtain q s k r es where w: "wdb w = empty_db\<lparr>workspaces := [k], sessions := [s],
       session_requests := [q], runs := [r], run_events := es, tool_executions := []\<rparr>"
     and f: "w_id k = ''11''" "w_scope_id k = ''u''"
     "r_workspace_id r = ''11''" "r_id r = ''20''" "r_scope_id r = ''u''" "w_current_revision k = None"
    using assms(1) unfolding demo_stage_def by blast
  define t where "t = new_tool (demo_host ''51'') ''510'' ''u'' ''20'' ''11'' tc None (h_now (demo_host ''51'') 0) actor"
  have t: "t_id t = ''510''" "t_scope_id t = ''u''" "t_run_id t = ''20''" "t_workspace_id t = ''11''"
    "t_input_revision_id t = None" "t_result_revision_id t = None"
    by (simp_all add: t_def new_tool_def)
  obtain d where d: "insert_tool t (wdb w) = Inr d" "demo_stage [''21''] 2 [t] (w\<lparr>wdb := d\<rparr>)"
    using demo_stage_insert [OF assms(1) t(2-6)] by blast
  obtain ne w' where e: "insert_event_locked (demo_host ''51'') 1 1 ''u'' ''20'' TOOL_PREPARED
        (JObj [(''operation_id'', JStr ''510''), (''tool_ref'', JStr (tc_tool_ref tc)),
          (''input_summary'', JStr (tc_input_summary tc)), (''input'', JStr (tc_input_text tc))])
        actor (h_now (demo_host ''51'') 0) (w\<lparr>wdb := d\<rparr>) = (Inr ne, w')"
      "demo_stage [''21'', ''511''] 3 [t] w'"
    using demo_stage_event [OF d(2), of "demo_host ''51''" 1] by (fastforce simp: demo_host_def)
  have "select_one (\<lambda>(r, w). r_scope_id r = ''u'' \<and> r_id r = ''20'') (join_rw (wdb w)) = Some (r, k)"
    "select_one P (tool_executions (wdb w)) = None" for P
    by (simp_all add: w f join_rw_def empty_db_def)
  moreover have "h_uuid (demo_host ''51'') 0 = ''510''" by (simp add: demo_host_def)
  ultimately have "prepare_tool (demo_host ''51'') ''u'' ''20'' tc actor w = (Inr (''510'', Tool_PREPARED), w')"
    using d(1) e(1) unfolding t_def
    by (simp add: prepare_tool_def Let_def transaction_def bindA_def read_db_def insert_db_def ret_def
        assms(2,3) or_else_def f)
  then show ?thesis using e(2) t by blast
qed

lemma demo_stage_start:
  assumes "demo_stage ids n [t] w" "t_id t = oid" "t_scope_id t = ''u''" "t_run_id t = ''20''"
    and "h_uuid h 0 \<notin> set ids"
  shows "\<exists>w' t'. start_tool h ''u'' oid actor w = (Inr (), w') \<and> demo_stage (ids @ [h_uuid h 0]) (n + 1) [t'] w'
     \<and> t_id t' = oid \<and> t_scope_id t' = ''u'' \<and> t_run_id t' = ''20''"
proof -
  let ?g = "\<lambda>x. touch (h_now h 0) actor (x\<lparr>t_status := Tool_RUNNING\<rparr>)"
  let ?w = "w\<lparr>wdb := update_tools (\<lambda>x. t_scope_id x = ''u'' \<and> t_id x = oid) ?g (wdb w)\<rparr>"
  have st: "demo_stage ids n [?g t] ?w"
    using demo_stage_update [OF assms(1), of "\<lambda>x. t_scope_id x = ''u'' \<and> t_id x = oid" ?g] assms(2,3)
    by (simp add: update_where_def)
  obtain ne w' where e: "insert_event_locked h 0 1 ''u'' ''20'' TOOL_STARTED
        (JObj [(''operation_id'', JStr oid), (''tool_ref'', JStr (t_tool_ref t))]) actor (h_now h 0) ?w = (Inr ne, w')"
      "demo_stage (ids @ [h_uuid h 0]) (n + 1) [?g t] w'"
    using demo_stage_event [OF st assms(5), where m = 1 and et = TOOL_STARTED] by blast
  have "find_tool ''u'' oid (wdb w) = Some t" using assms by (simp add: find_tool_def demo_stage_tools)
  then have "start_tool h ''u'' oid actor w = (Inr (), w')" using e(1) assms(4)
    by (simp add: start_tool_def Let_def transaction_def bindA_def read_db_def mod_db_def ret_def)
  moreover have "t_id (?g t) = oid" "t_scope_id (?g t) = ''u''" "t_run_id (?g t) = ''20''"
    using assms by (simp_all add: touch_def)
  ultimately show ?thesis using e(2) by blast
qed

lemma demo_stage_finish:
  assumes "demo_stage ids n [t] w" "t_id t = oid" "t_scope_id t = ''u''" "t_run_id t = ''20''"
    and "h_uuid h 0 \<notin> set ids"
  shows "\<exists>w'. finish_tool h ''u'' oid status result_ref err actor None w = (Inr (), w')"
proof -
  let ?g = "finish_tool_row status result_ref err None (h_now h 0) actor"
  let ?w = "w\<lparr>wdb := update_tools (\<lambda>x. t_scope_id x = ''u'' \<and> t_id x = oid) ?g (wdb w)\<rparr>"
  have st: "demo_stage ids n [?g t] ?w"
    using demo_stage_update [OF assms(1), of "\<lambda>x. t_scope_id x = ''u'' \<and> t_id x = oid" ?g] assms(2,3)
    by (simp add: update_where_def)
  obtain ne w' where e: "insert_event_locked h 0 1 ''u'' ''20''
        (if status = Tool_UNKNOWN then TOOL_UNKNOWN else TOOL_FINISHED)
        (finish_data oid status err) actor (h_now h 0) ?w = (Inr ne, w')"
    using demo_stage_event [OF st assms(5), where m = 1] by metis
  have "find_tool ''u'' oid (wdb w) = Some t" using assms by (simp add: find_tool_def demo_stage_tools)
  then show ?thesis using e(1) assms(4)
    by (simp add: finish_tool_def finish_tools_def revision_exists_def Let_def transaction_def bindA_def
        read_db_def insert_db_def ret_def)
qed

lemma demo_queued_stage: "demo_queued w \<Longrightarrow> demo_stage [''21''] 2 [] w"
  unfolding demo_queued_def demo_stage_def
  by (elim exE, rename_tac q s k r e, rule_tac x = q in exI, rule_tac x = s in exI, rule_tac x = k in exI,
      rule_tac x = r in exI, rule_tac x = "[e]" in exI) (simp add: empty_db_def)

lemma demo_block_returns:
  assumes "demo_queued w"
  shows "\<exists>p' w'. run_block demo_harness demo_block_scope 0 ''command'' ''ls'' [''/bin/bash'', ''-s'']
      \<lparr>pg_successes = 0, pg_failures = 0, pg_parts = []\<rparr> w = (Inr p', w')"
proof -
  let ?call = "code_call (demo_host ''51'') demo_block_scope
      (''command'' @ '':'' @ ''30'' @ '':'' @ py_str_nat 0) ''command'' ''ls''
      (''command'' @ '' block '' @ py_str_nat 0)"
  have call: "tc_workspace_id ?call = Some ''11''" "tc_input_revision_id ?call = None"
    by (simp_all add: code_call_def demo_block_scope_def)
  obtain w1 t where p: "prepare_tool (demo_host ''51'') ''u'' ''20'' ?call ''a'' w = (Inr (''510'', Tool_PREPARED), w1)"
      "demo_stage [''21'', ''511''] 3 [t] w1" "t_id t = ''510''" "t_scope_id t = ''u''" "t_run_id t = ''20''"
    using demo_stage_prepare [OF demo_queued_stage [OF assms] call] by blast
  obtain w2 t2 where s: "start_tool (demo_host ''52'') ''u'' ''510'' ''a'' w1 = (Inr (), w2)"
      "demo_stage [''21'', ''511'', ''520''] 4 [t2] w2" "t_id t2 = ''510''" "t_scope_id t2 = ''u''" "t_run_id t2 = ''20''"
    using demo_stage_start [OF p(2-5), of "demo_host ''52''" "''a''"] by (auto simp: demo_host_def)
  have f: "x = Inr ()" if "finish_tool (demo_host ''53'') ''u'' ''510'' status r err ''a'' None w2 = (x, w')"
    for status r err x w'
    using demo_stage_finish [OF s(2-5), of "demo_host ''53''" status r err "''a''"] that by (auto simp: demo_host_def)
  show ?thesis using p(1) s(1)
    by (auto simp: run_block_def Let_def demo_harness_def demo_block_scope_def bindA_def ret_def liftE_def
        build_operation_spec_def settle_def demo_run_result_def announce_revision_def
        dest: f split: prod.split sum.split)
qed

theorem counted_as_journalled_witness:
  "\<exists>opid t p' w'. run_block demo_harness demo_block_scope 0 ''command'' ''ls'' [''/bin/bash'', ''-s'']
      \<lparr>pg_successes = 0, pg_failures = 0, pg_parts = []\<rparr> demo_world = (Inr p', w')
     \<and> find_tool ''u'' opid (wdb w') = Some t \<and> pg_successes p' + pg_failures p' = 1
     \<and> (pg_successes p' = 1 \<longleftrightarrow> t_status t = Tool_SUCCEEDED)"
proof -
  obtain p' w' where r: "run_block demo_harness demo_block_scope 0 ''command'' ''ls'' [''/bin/bash'', ''-s'']
      \<lparr>pg_successes = 0, pg_failures = 0, pg_parts = []\<rparr> demo_world = (Inr p', w')"
    using demo_block_returns [OF demo_world_queued] by blast
  have u: "ts_scope_id demo_block_scope = ''u''" by (simp add: demo_block_scope_def)
  show ?thesis using counted_as_journalled [OF r] r unfolding u by (fastforce split: if_splits)
qed


end
