(* ===== verification/GraphHarness.thy ===== *)
theory GraphHarness
  imports LocalHarness
begin

text \<open>
  \<open>LangGraphHarness\<close> of \<open>src/code_forge/harness/langgraph_harness.py\<close>: the two nodes of its graph, the
  edge out of the agent node, and \<open>execute\<close>. What \<open>graph.ainvoke\<close> does with them is the library's:
  \<open>ge_invoke\<close> gets the agent node, the tools node, the edge, the first messages and the recursion
  limit, and returns the messages of the final state. A node gets the number of its superstep,
  which picks the host of its store calls.

  A streaming model adapter yields events one at a time, each an action; \<open>print\<close> is left out.
\<close>

datatype stream_event = Content_event json | Message_event json_dict | Other_event

type_synonym graph_node = "nat \<Rightarrow> json list \<Rightarrow> json list act"

datatype model_adapter =
    Streaming "nat \<Rightarrow> json list \<Rightarrow> stream_event act list"
  | Complete "nat \<Rightarrow> json list \<Rightarrow> json_dict act"

record graph_env = harness_env +
  ge_invoke :: "graph_node \<Rightarrow> graph_node \<Rightarrow> (json list \<Rightarrow> bool) \<Rightarrow> json list \<Rightarrow> nat \<Rightarrow> json list act"
  ge_adapter :: model_adapter
  ge_max_chars :: nat

abbreviation base_env :: "graph_env \<Rightarrow> harness_env" where
  "base_env G \<equiv> harness_env.truncate G"

section \<open>The agent node\<close>

definition value_of :: "string \<Rightarrow> json_dict \<Rightarrow> json" where
  "value_of key kvs = (case map_of kvs key of Some j \<Rightarrow> j | None \<Rightarrow> JNull)"

definition completed_event :: "host \<Rightarrow> tool_scope \<Rightarrow> string \<Rightarrow> json_dict \<Rightarrow> unit act" where
  "completed_event h sc message_id msg =
     (if json_truthy (value_of ''content'' msg)
      then bindA (append_event h (ts_scope_id sc) (ts_run_id sc) MESSAGE_COMPLETED
             (JObj [(''message_id'', JStr message_id), (''text'', value_of ''content'' msg)])
             (ts_actor sc)) (\<lambda>_. ret ())
      else ret ())"

text \<open>\<open>async for event in complete_stream(..)\<close>: the text of each content event is recorded as it
  comes, the last whole message is kept.\<close>

fun consume_stream :: "(nat \<Rightarrow> host) \<Rightarrow> tool_scope \<Rightarrow> string \<Rightarrow> nat \<Rightarrow> stream_event act list
    \<Rightarrow> json_dict option \<Rightarrow> json_dict option act" where
  "consume_stream hosts sc message_id k [] msg = ret msg"
| "consume_stream hosts sc message_id k (step # steps) msg = bindA step (\<lambda>event. case event of
     Content_event piece \<Rightarrow>
       bindA (append_event (hosts k) (ts_scope_id sc) (ts_run_id sc) MESSAGE_DELTA
                (JObj [(''message_id'', JStr message_id), (''text'', piece)]) (ts_actor sc)) (\<lambda>_.
       consume_stream hosts sc message_id (k + 1) steps msg)
   | Message_event m \<Rightarrow> consume_stream hosts sc message_id (k + 1) steps (Some m)
   | Other_event \<Rightarrow> consume_stream hosts sc message_id (k + 1) steps msg)"

definition empty_message :: json_dict where
  "empty_message = [(''role'', JStr ''assistant''), (''content'', JStr '''')]"

definition agent_node :: "graph_env \<Rightarrow> tool_scope \<Rightarrow> graph_node" where
  "agent_node G sc i messages =
     (let message_id = h_uuid (he_host G i 20) 0;
          finish = (\<lambda>msg. bindA (completed_event (he_host G i 21) sc message_id msg)
                      (\<lambda>_. ret [JObj msg])) in
      case ge_adapter G of
        Streaming events \<Rightarrow>
          bindA (consume_stream (\<lambda>k. he_host G i (22 + k)) sc message_id 0 (events i messages) None) (\<lambda>m.
          finish (case m of None \<Rightarrow> empty_message | Some msg \<Rightarrow> msg))
      | Complete complete \<Rightarrow> bindA (complete i messages) finish)"

section \<open>The tools node\<close>

definition run_code_tool :: "harness_env \<Rightarrow> tool_scope \<Rightarrow> json option \<Rightarrow> nat \<Rightarrow> string \<Rightarrow> string
    \<Rightarrow> string \<Rightarrow> string act" where
  "run_code_tool E sc snapshot i tool_ref code skill =
     (if py_strip code = [] then ret ''Tool arguments are empty''
      else bindA (read_run (he_host E i 0) (ts_scope_id sc) (ts_run_id sc)) (\<lambda>current.
        if (case current of None \<Rightarrow> True | Some v \<Rightarrow> r_status (rv_row v) \<in> {CANCELLING, CANCELLED})
        then ret ''Run was cancelled''
        else (case tool_argv tool_ref of
            None \<Rightarrow> ret (''Unsupported tool: '' @ tool_ref)
          | Some argv \<Rightarrow>
              bindA (journalled_code E sc snapshot i (''langgraph '' @ tool_ref @ '' call'') tool_ref code argv skill)
                (\<lambda>(tr, st). ret (tool_content (or_status (tr_result tr))
                   (py_strip (tr_stdout tr)) (py_strip (tr_stderr tr)))))))"

definition execute_tool_call :: "harness_env \<Rightarrow> tool_scope \<Rightarrow> json option \<Rightarrow> nat \<Rightarrow> json_dict \<Rightarrow> string act" where
  "execute_tool_call E sc snapshot i call =
     (let fn = dict_of_json (map_of call ''function''); tool_name = text_field ''name'' fn in
      bindA (read_run (he_host E i 15) (ts_scope_id sc) (ts_run_id sc)) (\<lambda>current.
      if (case current of None \<Rightarrow> True | Some v \<Rightarrow> r_status (rv_row v) \<noteq> RUNNING)
      then raise (DomainError STATE_CONFLICT ''Message is no longer executing'')
      else if py_startswith tool_name ''impala_'' \<and> he_impala E \<noteq> None then
        bindA (the (he_impala E) i call) (\<lambda>result.
        if map_of result ''status'' = Some (JStr ''UNKNOWN'')
             \<and> tool_name \<notin> {''impala_query_status'', ''impala_cancel_query''}
        then raise (DomainError EXECUTION_FAILED ''Impala remote state unknown; verify before retry'')
        else if map_of result ''status'' = Some (JStr ''CANCELLED'')
        then raise (DomainError STATE_CONFLICT ''Impala query cancelled'')
        else ret (dumps False '','' '':'' (JObj result)))
      else bindA (liftE (call_arguments fn)) (\<lambda>arguments.
        case select_active_skill snapshot (map_of arguments ''skill'') of
          Inl problem \<Rightarrow> ret problem
        | Inr skill \<Rightarrow>
            if tool_name = ''execute_python'' then
              bindA (liftE (code_argument ''code'' arguments)) (\<lambda>code.
              run_code_tool E sc snapshot i ''python'' code skill)
            else if tool_name = ''execute_command'' then
              bindA (liftE (code_argument ''command'' arguments)) (\<lambda>code.
              run_code_tool E sc snapshot i ''command'' code skill)
            else ret (''Unsupported tool: '' @ tool_name))))"

definition shown_content :: "json_dict \<Rightarrow> string \<Rightarrow> string" where
  "shown_content call content =
     (if py_startswith (text_field ''name'' (dict_of_json (map_of call ''function''))) ''impala_''
      then content else take 16000 content)"

fun answer_calls :: "harness_env \<Rightarrow> tool_scope \<Rightarrow> json option \<Rightarrow> nat \<Rightarrow> json list \<Rightarrow> json list act" where
  "answer_calls E sc snapshot i [] = ret []"
| "answer_calls E sc snapshot i (c # calls) =
     (let call = dict_of_json (Some c) in
      bindA (execute_tool_call E sc snapshot i call) (\<lambda>content.
      bindA (answer_calls E sc snapshot (i + 1) calls) (\<lambda>rest.
      ret (tool_message call (shown_content call content) # rest))))"

definition tool_calls_of :: "json list \<Rightarrow> json list" where
  "tool_calls_of messages = json_items (value_of ''tool_calls'' (dict_of_json (Some (last messages))))"

definition tools_node :: "graph_env \<Rightarrow> tool_scope \<Rightarrow> json option \<Rightarrow> graph_node" where
  "tools_node G sc snapshot i messages =
     answer_calls (base_env G) sc snapshot (1000 * (i + 1)) (tool_calls_of messages)"

text \<open>The edge out of the agent node: to the tools node, or to the end.\<close>

definition routes_to_tools :: "json list \<Rightarrow> bool" where
  "routes_to_tools messages \<longleftrightarrow>
     json_truthy (value_of ''tool_calls'' (dict_of_json (Some (last messages))))"

section \<open>Executing a Run\<close>

definition history_messages :: "history_item list \<Rightarrow> chat_message list" where
  "history_messages items = concat (map (\<lambda>item.
     \<lparr>cm_role = ''user'', cm_content = (case hi_input item of Some (JStr s) \<Rightarrow> s | _ \<Rightarrow> '''')\<rparr>
       # (case hi_output item of Some (JStr s) \<Rightarrow>
            if s = [] then [] else [\<lparr>cm_role = ''assistant'', cm_content = s\<rparr>] | _ \<Rightarrow> [])) items)"

definition read_history :: "host \<Rightarrow> tool_scope \<Rightarrow> chat_message list act" where
  "read_history h sc w =
     (case conversation_history h w (ts_scope_id sc) (ts_session_id sc) (ts_run_id sc) 200 of
        Inl e \<Rightarrow> (Inl e, w) | Inr items \<Rightarrow> (Inr (history_messages items), w))"

definition message_json_of :: "chat_message \<Rightarrow> json" where
  "message_json_of m = role_message (cm_role m) (cm_content m)"

definition failure_change :: "int \<Rightarrow> error_code \<Rightarrow> string \<Rightarrow> change" where
  "failure_change v c msg = \<lparr>ch_target = FAILED, ch_expected_version = v, ch_task_outcome = None,
     ch_reason = None, ch_output = None, ch_error = Some (error_dict c msg), ch_extra_data = None\<rparr>"

definition finish_failed :: "graph_env \<Rightarrow> tool_scope \<Rightarrow> error_code \<Rightarrow> string \<Rightarrow> unit act" where
  "finish_failed G sc c msg =
     bindA (read_run (he_host G 0 16) (ts_scope_id sc) (ts_run_id sc)) (\<lambda>current. case current of
       None \<Rightarrow> ret ()
     | Some v \<Rightarrow>
         if r_status (rv_row v) \<in> {CANCELLING, CANCELLED} then ret ()
         else bindA (transition_run (he_host G 0 17) (ts_scope_id sc) (ts_run_id sc)
                (failure_change (r_state_version (rv_row v)) c msg) (Some (ts_actor sc))) (\<lambda>_. ret ()))"

text \<open>\<open>try .. except DomainError .. except Exception\<close>: the code and message the failure is recorded
  with.\<close>

definition failure_of :: "exn \<Rightarrow> error_code \<times> string" where
  "failure_of e = (case e of DomainError c msg \<Rightarrow> (c, msg)
     | _ \<Rightarrow> (DEPENDENCY_UNAVAILABLE, if exn_text e = [] then ''Exception'' else exn_text e))"

definition catch_all :: "'a act \<Rightarrow> (exn + 'a) act" where
  "catch_all m w = (case m w of (r, w') \<Rightarrow> (Inr r, w'))"

definition final_answer :: "graph_env \<Rightarrow> json list \<Rightarrow> string \<times> task_outcome" where
  "final_answer G messages =
     (let content = value_of ''content'' (dict_of_json (Some (last messages))) in
      if json_truthy content then (text_field ''content'' (dict_of_json (Some (last messages))), COMPLETED)
      else (ht_no_text (he_texts G), BLOCKED))"

definition execute_graph :: "graph_env \<Rightarrow> run_view \<Rightarrow> claim_info \<Rightarrow> run_view option act" where
  "execute_graph G v ci =
     (let E = base_env G; sc = claimed_scope E v ci; snapshot = rv_config_snapshot v in
      bindA (he_prepare G sc) (\<lambda>_.
      bindA (activate_skills E sc 0 (snapshot_skills snapshot)) (\<lambda>skill_context.
      bindA (read_history (he_host G 0 18) sc) (\<lambda>history.
      let messages = map message_json_of (build_context (ge_max_chars G)
            (system_prompt (ht_prompt (he_texts G)) skill_context) history (input_text v)) in
      bindA (catch_all (ge_invoke G (agent_node G sc) (tools_node G sc snapshot) routes_to_tools
                messages (he_max_steps G + 2))) (\<lambda>r. case r of
        Inl e \<Rightarrow> (case failure_of e of (c, msg) \<Rightarrow>
          bindA (finish_failed G sc c msg) (\<lambda>_.
          read_run (he_host G 0 19) (ts_scope_id sc) (ts_run_id sc)))
      | Inr final \<Rightarrow> (case final_answer G final of (answer, outcome) \<Rightarrow>
          end_run E sc answer outcome))))))"

end
