(* ===== verification/AgentRuntime.thy ===== *)
theory AgentRuntime
  imports Service Transcript
begin

text \<open>
  \<open>AgentRuntime\<close> of \<open>src/code_forge/runtime/app.py\<close>: the calls the gateway makes, the projection of
  Sessions and messages into the user's directory, and the worker loop. The state is the store's
  world and the file tree of the workspace store, which share nothing here: the store's body files
  are part of its world. The harness and the resolver are arguments, actions on that state. The
  thread and its stop flag are left out: a worker that is stopped between two rounds is a shorter
  list of rounds.
\<close>

record app =
  ap_world :: world
  ap_tree :: tree

definition in_store :: "'a act \<Rightarrow> (app, 'a) io" where
  "in_store m a = (case m (ap_world a) of (r, w') \<Rightarrow> (r, a\<lparr>ap_world := w'\<rparr>))"

definition in_tree :: "(tree, 'a) io \<Rightarrow> (app, 'a) io" where
  "in_tree m a = (case m (ap_tree a) of (r, t') \<Rightarrow> (r, a\<lparr>ap_tree := t'\<rparr>))"

definition ask :: "(world \<Rightarrow> exn + 'a) \<Rightarrow> (app, 'a) io" where
  "ask f a = (f (ap_world a), a)"

record runtime =
  rt_os :: os_env
  rt_root :: ppath
  rt_host :: "nat \<Rightarrow> host"
  rt_max_file_bytes :: nat
  rt_worker :: string
  rt_lease_seconds :: int
  rt_harness :: "run_view \<Rightarrow> claim_info \<Rightarrow> (app, run_view option) io"
  rt_resolve :: "run_request \<Rightarrow> (app, run_snapshot) io"
  rt_auth :: "execution_context \<Rightarrow> string \<Rightarrow> string \<Rightarrow> exn + unit"

section \<open>The projection into the user's directory\<close>

definition stored_binding :: "os_env \<Rightarrow> session_view \<Rightarrow> user_binding option" where
  "stored_binding os v =
     (if sv_user_path v = [] \<or> sv_project_path v = [] then None
      else case make_user_binding os (sv_user_ref v) (sv_tenant_ref v) (sv_user_ref v) (sv_user_path v)
             (sv_project_ref v) (Some (sv_project_path v)) (sv_storage_root v) (sv_user_rel_path v) '''' of
        Inr b \<Rightarrow> Some b
      | Inl _ \<Rightarrow> None)"

definition session_storage :: "runtime \<Rightarrow> session_view \<Rightarrow> (tree, unit) io" where
  "session_storage R v = (case stored_binding (rt_os R) v of
     None \<Rightarrow> returnS ()
   | Some b \<Rightarrow> thenS (ensure_user_layout (rt_root R) (sv_workspace_id v) b) (\<lambda>_.
              thenS (ensure_session_storage v b) (\<lambda>_. returnS ())))"

definition sync_session_storage :: "runtime \<Rightarrow> session_view \<Rightarrow> (tree, unit) io" where
  "sync_session_storage R v = session_storage R v"

definition or_null :: "json option \<Rightarrow> json" where
  "or_null j = (case j of None \<Rightarrow> JNull | Some x \<Rightarrow> x)"

definition user_record :: "run_view \<Rightarrow> json_dict" where
  "user_record v = (let r = rv_row v in
     [(''record_id'', JStr (r_id r @ '':user'')), (''session_id'', JStr (r_session_id r)),
      (''run_id'', JStr (r_id r)), (''message_seq'', JInt (r_run_seq r)), (''role'', JStr ''user''),
      (''content'', or_null (rv_input v)), (''created_at'', JStr (date_created r))])"

definition result_record :: "run_view \<Rightarrow> json_dict" where
  "result_record v = (let r = rv_row v in
     [(''record_id'', JStr (r_id r @ '':assistant'')), (''session_id'', JStr (r_session_id r)),
      (''run_id'', JStr (r_id r)), (''message_seq'', JInt (r_run_seq r)), (''role'', JStr ''assistant''),
      (''content'', or_null (rv_output v)), (''status'', JStr (run_status_value (r_status r))),
      (''task_outcome'', case r_task_outcome r of None \<Rightarrow> JNull | Some o1 \<Rightarrow> JStr (task_outcome_value o1)),
      (''created_at'', JStr (date_updated r))])"

definition transcript_user :: "runtime \<Rightarrow> run_view \<Rightarrow> user_binding \<Rightarrow> (tree, unit) io" where
  "transcript_user R v b =
     thenS (append_transcript b (r_session_id (rv_row v)) (user_record v) (rt_max_file_bytes R))
       (\<lambda>_. returnS ())"

text \<open>\<open>run.get\<close> on a harness result of \<open>None\<close> raises \<open>AttributeError\<close>.\<close>

definition transcript_result :: "runtime \<Rightarrow> run_view option \<Rightarrow> session_view option \<Rightarrow> (tree, unit) io" where
  "transcript_result R run session = (case session of
     None \<Rightarrow> returnS ()
   | Some s \<Rightarrow> (case stored_binding (rt_os R) s of
       None \<Rightarrow> returnS ()
     | Some b \<Rightarrow> (case run of
         None \<Rightarrow> raiseS (ValueErr ''AttributeError'')
       | Some v \<Rightarrow>
           if or_null (rv_output v) = JNull then returnS ()
           else thenS (append_transcript b (r_session_id (rv_row v)) (result_record v) (rt_max_file_bytes R))
                  (\<lambda>_. returnS ()))))"

definition project_run :: "runtime \<Rightarrow> session_view \<Rightarrow> user_binding \<Rightarrow> run_view \<Rightarrow> (tree, unit) io" where
  "project_run R s b v = thenS (transcript_user R v b) (\<lambda>_. transcript_result R (Some v) (Some s))"

definition materialize_session :: "runtime \<Rightarrow> session_view \<Rightarrow> (app, unit) io" where
  "materialize_session R s = (case stored_binding (rt_os R) s of
     None \<Rightarrow> returnS ()
   | Some b \<Rightarrow>
       thenS (in_tree (thenS (ensure_user_layout (rt_root R) (sv_workspace_id s) b)
                         (\<lambda>_. ensure_session_storage s b))) (\<lambda>_.
       thenS (readS (\<lambda>a. list_messages_public (rt_host R 0) (ap_world a) (sv_id s) None 10000)) (\<lambda>page.
       case page of
         Inl (DomainError c msg) \<Rightarrow> returnS ()
       | Inl e \<Rightarrow> raiseS e
       | Inr (items, _) \<Rightarrow> in_tree (eachS (project_run R s b) items))))"

definition materialize_user_storage :: "runtime \<Rightarrow> (app, unit) io" where
  "materialize_user_storage R =
     thenS (readS (\<lambda>a. list_bound_sessions (wdb (ap_world a)))) (\<lambda>views.
     eachS (materialize_session R) views)"

section \<open>The calls of the gateway\<close>

text \<open>The \<open>assert\<close> of the code never fails on the SQLite store, which always finds the row it wrote.\<close>

definition app_create_session :: "runtime \<Rightarrow> string \<Rightarrow> string \<Rightarrow> string \<Rightarrow> string option
    \<Rightarrow> execution_context \<Rightarrow> (app, session_view) io" where
  "app_create_session R scope key title external ctx =
     thenS (in_store (create_session (rt_host R 1) scope key title external ctx)) (\<lambda>created.
     case created of
       None \<Rightarrow> raiseS (ValueErr ''AssertionError'')
     | Some s \<Rightarrow>
         thenS (in_tree (ensure_workspace (rt_root R) (sv_workspace_id s) (ec_user_binding ctx))) (\<lambda>_.
         thenS (in_tree (session_storage R s)) (\<lambda>_. returnS s)))"

definition app_accept :: "runtime \<Rightarrow> app acceptor" where
  "app_accept R rq key fp snap reject_if_active =
     in_store (accept_once (rt_os R) (rt_host R 1) rq key fp snap reject_if_active)"

definition app_submit_run :: "runtime \<Rightarrow> string \<Rightarrow> string \<Rightarrow> string \<Rightarrow> skill_binding list
    \<Rightarrow> string list option \<Rightarrow> string \<Rightarrow> execution_context \<Rightarrow> bool \<Rightarrow> (app, accepted_run) io" where
  "app_submit_run R sid input agent skills skill_paths key ctx reject_if_active =
     thenS (liftS (make_run_request (rt_os R) \<lparr>rq_session_id = sid, rq_input = input, rq_agent_ref = agent,
              rq_skills = skills, rq_context = ctx, rq_skill_paths = skill_paths\<rparr>)) (\<lambda>rq.
     thenS (submit_run (\<lambda>a. sqlite_find (ap_world a)) (\<lambda>a. sqlite_require (ap_world a)) (app_accept R)
              (rt_resolve R) (rt_auth R) (rt_host R 1) rq key reject_if_active) (\<lambda>accepted.
     thenS (readS (\<lambda>a. get_session_unscoped sid (wdb (ap_world a)))) (\<lambda>session.
     thenS (case (ec_user_binding ctx, session) of
              (Some b, Some s) \<Rightarrow>
                thenS (ask (\<lambda>w. get_run (rt_host R 2) w (ec_scope_id ctx) (ar_id accepted))) (\<lambda>run.
                case run of None \<Rightarrow> returnS () | Some v \<Rightarrow> in_tree (transcript_user R v b))
            | _ \<Rightarrow> returnS ()) (\<lambda>_.
     returnS accepted))))"

definition app_cancel_run :: "runtime \<Rightarrow> string \<Rightarrow> string \<Rightarrow> string \<Rightarrow> (app, run_view option) io" where
  "app_cancel_run R scope rid actor =
     thenS (ask (\<lambda>w. get_run (rt_host R 2) w scope rid)) (\<lambda>run. case run of
       None \<Rightarrow> raiseS (DomainError RUN_NOT_FOUND ''Run not found'')
     | Some _ \<Rightarrow> in_store (cancel_run (rt_host R 1) scope rid (Some actor)))"

definition app_respond :: "runtime \<Rightarrow> string \<Rightarrow> string \<Rightarrow> string \<Rightarrow> string \<Rightarrow> int \<Rightarrow> string
    \<Rightarrow> (app, run_view option) io" where
  "app_respond R scope rid pid key expected_version input =
     in_store (respond_to_run (rt_host R 1) scope rid pid key expected_version input ''system:runtime/api'')"

section \<open>The worker\<close>

text \<open>
  One round of \<open>_worker_loop\<close>; \<open>False\<close> when there was nothing to claim. A Run that vanished between
  the claim and its reading raises \<open>TypeError\<close>, like any other exception out of the thread.
\<close>

definition worker_round :: "runtime \<Rightarrow> host \<Rightarrow> (app, bool) io" where
  "worker_round R h =
     thenS (in_store (claim_next_run (rt_os R) h None (rt_worker R) (rt_lease_seconds R) (Some (h_clock h 9))))
       (\<lambda>claimed. case claimed of
       None \<Rightarrow> returnS False
     | Some (None, ci) \<Rightarrow> raiseS (ValueErr ''TypeError'')
     | Some (Some v, ci) \<Rightarrow>
         thenS (readS (\<lambda>a. get_session_unscoped (r_session_id (rv_row v)) (wdb (ap_world a)))) (\<lambda>session.
         thenS (case session of None \<Rightarrow> returnS () | Some s \<Rightarrow> in_tree (session_storage R s)) (\<lambda>_.
         thenS (rt_harness R v ci) (\<lambda>result.
         thenS (in_tree (transcript_result R result session)) (\<lambda>_.
         returnS True)))))"

text \<open>The rounds of the thread, with what other clients do between them; an exception ends it.\<close>

fun worker_loop :: "runtime \<Rightarrow> (host \<times> (app \<Rightarrow> app)) list \<Rightarrow> (app, unit) io" where
  "worker_loop R [] = returnS ()"
| "worker_loop R ((h, others) # rounds) =
     thenS (worker_round R h) (\<lambda>_. \<lambda>a. worker_loop R rounds (others a))"

lemma worker_dies: "worker_round R h a = (Inl e, a') \<Longrightarrow> worker_loop R ((h, others) # rounds) a = (Inl e, a')"
  by (simp add: thenS_def)

end
