(* ===== verification/Gateway.thy ===== *)
theory Gateway
  imports AgentRuntime
begin

text \<open>
  The HTTP adapter of \<open>src/code_forge/transport/server.py\<close>: reading a request, the views of Sessions,
  messages and events, the handlers, and the answers errors become. A request is its path with the
  parsed query (\<open>parse_qs\<close>) or the body; an answer is a status and a JSON object, or the event
  stream \<open>_stream\<close> then writes. Writing to the socket is not modelled.

  The parameters beside the runtime: the title of a new Session (not Latin-1), what \<open>/health\<close> reads
  from the environment, and \<open>bytes.decode("utf-8", errors="replace")\<close>.
\<close>

record gateway = runtime +
  gw_new_title :: string
  gw_model_configured :: bool
  gw_decode :: "string \<Rightarrow> string"

type_synonym query = "(string \<times> string list) list"

record stream_request =
  sq_scope_id :: string
  sq_session_id :: string
  sq_message_id :: "string option"
  sq_after_seq :: int

datatype response = Reply nat json | Stream stream_request

section \<open>Reading a request\<close>

definition body_value :: "string \<Rightarrow> json_dict \<Rightarrow> json" where
  "body_value key body = or_null (map_of body key)"

definition required_string :: "json_dict \<Rightarrow> string \<Rightarrow> exn + string" where
  "required_string body key = (case map_of body key of
     Some (JStr s) \<Rightarrow> if py_strip s = [] then Inl (DomainError INVALID_REQUEST (key @ '' is required''))
                     else Inr s
   | _ \<Rightarrow> Inl (DomainError INVALID_REQUEST (key @ '' is required'')))"

definition query_value :: "query \<Rightarrow> string \<Rightarrow> string option" where
  "query_value q key = (case map_of q key of
     None \<Rightarrow> None
   | Some [] \<Rightarrow> None
   | Some (v # _) \<Rightarrow> if v = [] then None else Some v)"

definition required_query :: "query \<Rightarrow> string \<Rightarrow> exn + string" where
  "required_query q key = (case query_value q key of
     None \<Rightarrow> Inl (DomainError INVALID_REQUEST (key @ '' is required''))
   | Some v \<Rightarrow> Inr v)"

text \<open>A list of query values is never empty.\<close>

definition int_query :: "query \<Rightarrow> string \<Rightarrow> int \<Rightarrow> int \<Rightarrow> exn + int" where
  "int_query q key default_value maximum = (case map_of q key of
     None \<Rightarrow> Inr default_value
   | Some vs \<Rightarrow> (case py_int (hd vs) of
       None \<Rightarrow> Inl (DomainError INVALID_REQUEST (key @ '' must be an integer''))
     | Some v \<Rightarrow> if v < 0 then Inl (DomainError INVALID_REQUEST (key @ '' must not be negative''))
                else Inr (min v maximum)))"

text \<open>\<open>int(self.headers.get("Content-Length") or 0)\<close> and the body; a negative length reads all.\<close>

definition read_body :: "string option \<Rightarrow> string \<Rightarrow> exn + json_dict" where
  "read_body content_length input =
     bindE (if falsy content_length then Inr 0 else
              case py_int (the content_length) of None \<Rightarrow> Inl (ValueErr ''invalid literal for int()'') | Some n \<Rightarrow> Inr n)
       (\<lambda>n. if n > 1000000 then Inl (DomainError INVALID_REQUEST ''Request body too large'')
        else if n = 0 then Inr []
        else let raw = (if n < 0 then input else take (nat n) input) in
          case Option.bind (utf8_decode raw) loads of
            None \<Rightarrow> Inl (ValueErr ''JSONDecodeError'')
          | Some (JObj kvs) \<Rightarrow> Inr kvs
          | Some _ \<Rightarrow> Inl (DomainError INVALID_REQUEST ''Request body must be an object''))"

definition require_session_id :: "string \<Rightarrow> world \<Rightarrow> exn + session_view" where
  "require_session_id sid w =
     (if sid = [] then Inl (DomainError INVALID_REQUEST ''session_id is required'')
      else case get_session_unscoped sid (wdb w) of
        None \<Rightarrow> Inl (DomainError SESSION_NOT_FOUND ''Session not found'')
      | Some s \<Rightarrow> Inr s)"

definition session_of_query :: "query \<Rightarrow> (app, session_view) io" where
  "session_of_query q = thenS (liftS (required_query q ''session_id'')) (\<lambda>sid. ask (require_session_id sid))"

fun skill_path_items :: "os_env \<Rightarrow> tree \<Rightarrow> user_binding \<Rightarrow> nat \<Rightarrow> string list \<Rightarrow> json list \<Rightarrow> exn + string list" where
  "skill_path_items os t b i paths [] = Inr paths"
| "skill_path_items os t b i paths (item # items) = (case item of
     JStr s \<Rightarrow>
       if py_strip s = [] then Inl (DomainError INVALID_REQUEST
            (''skill_paths['' @ py_str_nat i @ ''] must be a non-empty string''))
       else bindE (if path_is_absolute (mk_path s) then Inr (mk_path s)
                   else bindE (resolve_path os (path_join (mk_path (ub_storage_root b)) (mk_path s))) (\<lambda>storage.
                        bindE (resolve_path os (path_join (mk_path (ub_user_path b)) (mk_path s))) (\<lambda>user.
                        Inr (if path_exists t storage then storage else user)))) (\<lambda>path.
            bindE (resolve_path os path) (\<lambda>p. let canonical = path_as_posix p in
            skill_path_items os t b (i + 1)
              (if canonical \<in> set paths then paths else paths @ [canonical]) items))
   | _ \<Rightarrow> Inl (DomainError INVALID_REQUEST (''skill_paths['' @ py_str_nat i @ ''] must be a non-empty string'')))"

definition skill_paths_of :: "os_env \<Rightarrow> tree \<Rightarrow> user_binding \<Rightarrow> json \<Rightarrow> exn + string list option" where
  "skill_paths_of os t b value = (case value of
     JNull \<Rightarrow> Inr None
   | JArr items \<Rightarrow>
       if length items > 30 then Inl (DomainError INVALID_REQUEST ''skill_paths must be an array'')
       else bindE (skill_path_items os t b 0 [] items) (\<lambda>ps. Inr (Some ps))
   | _ \<Rightarrow> Inl (DomainError INVALID_REQUEST ''skill_paths must be an array''))"

section \<open>Answers\<close>

definition ok_reply :: "nat \<Rightarrow> json \<Rightarrow> response" where
  "ok_reply status data = Reply status (JObj [(''code'', JStr (business_code_value B_OK)),
     (''message'', JStr ''success''), (''data'', data)])"

definition business_error :: "business_code \<Rightarrow> nat \<Rightarrow> string \<Rightarrow> response" where
  "business_error code status msg = Reply status (JObj [(''code'', JStr (business_code_value code)),
     (''message'', JStr msg), (''data'', JObj [])])"

fun domain_error_answer :: "error_code \<Rightarrow> business_code \<times> nat" where
  "domain_error_answer INVALID_REQUEST = (B_INVALID_REQUEST, 400)"
| "domain_error_answer SESSION_NOT_FOUND = (B_SESSION_NOT_FOUND, 404)"
| "domain_error_answer RUN_NOT_FOUND = (B_MESSAGE_NOT_FOUND, 404)"
| "domain_error_answer IDEMPOTENCY_CONFLICT = (B_STATE_CONFLICT, 409)"
| "domain_error_answer STATE_CONFLICT = (B_STATE_CONFLICT, 409)"
| "domain_error_answer INVALID_TRANSITION = (B_STATE_CONFLICT, 409)"
| "domain_error_answer MESSAGE_BUSY = (B_MESSAGE_BUSY, 409)"
| "domain_error_answer SKILL_NOT_FOUND = (B_SKILL_INVALID, 422)"
| "domain_error_answer SKILL_INCOMPATIBLE = (B_SKILL_INVALID, 422)"
| "domain_error_answer MODEL_NOT_CONFIGURED = (B_MODEL_UNAVAILABLE, 503)"
| "domain_error_answer EXECUTION_FAILED = (B_EXECUTION_FAILED, 503)"
| "domain_error_answer EXECUTION_UNKNOWN = (B_EXECUTION_UNKNOWN, 503)"
| "domain_error_answer DEPENDENCY_UNAVAILABLE = (B_DEPENDENCY_UNAVAILABLE, 503)"
| "domain_error_answer _ = (B_INTERNAL_ERROR, 500)"

definition domain_error_reply :: "error_code \<Rightarrow> string \<Rightarrow> response" where
  "domain_error_reply c msg = (case domain_error_answer c of (code, status) \<Rightarrow> business_error code status msg)"

text \<open>
  The three \<open>except\<close> clauses: \<open>AttributeError\<close> and \<open>AssertionError\<close>, which the model carries as
  values of \<^term>\<open>ValueErr\<close>, are neither \<open>TypeError\<close> nor \<open>ValueError\<close>.
\<close>

definition error_reply :: "exn \<Rightarrow> response" where
  "error_reply e = (case e of
     DomainError c msg \<Rightarrow> domain_error_reply c msg
   | ValueErr msg \<Rightarrow>
       if msg \<in> {''AttributeError'', ''AssertionError''}
       then business_error B_INTERNAL_ERROR 500 ''Runtime internal error''
       else business_error B_INVALID_REQUEST 400 msg
   | _ \<Rightarrow> business_error B_INTERNAL_ERROR 500 ''Runtime internal error'')"

section \<open>Views\<close>

fun message_status_value :: "message_status \<Rightarrow> string" where
  "message_status_value Msg_QUEUED = ''QUEUED''"
| "message_status_value Msg_RUNNING = ''RUNNING''"
| "message_status_value Msg_WAITING_USER = ''WAITING_USER''"
| "message_status_value Msg_WAITING_EXTERNAL = ''WAITING_EXTERNAL''"
| "message_status_value Msg_RECOVERING = ''RECOVERING''"
| "message_status_value Msg_CANCELLING = ''CANCELLING''"
| "message_status_value Msg_SUCCEEDED = ''SUCCEEDED''"
| "message_status_value Msg_FAILED = ''FAILED''"
| "message_status_value Msg_CANCELLED = ''CANCELLED''"
| "message_status_value Msg_TIMED_OUT = ''TIMED_OUT''"

fun message_status_of :: "run_status \<Rightarrow> message_status" where
  "message_status_of QUEUED = Msg_QUEUED"
| "message_status_of RUNNING = Msg_RUNNING"
| "message_status_of WAITING_USER = Msg_WAITING_USER"
| "message_status_of WAITING_EXTERNAL = Msg_WAITING_EXTERNAL"
| "message_status_of RECOVERING = Msg_RECOVERING"
| "message_status_of CANCELLING = Msg_CANCELLING"
| "message_status_of SUCCEEDED = Msg_SUCCEEDED"
| "message_status_of FAILED = Msg_FAILED"
| "message_status_of CANCELLED = Msg_CANCELLED"
| "message_status_of TIMED_OUT = Msg_TIMED_OUT"

text \<open>The dictionary \<open>mapping\<close> of \<open>_message_status\<close>; \<open>Enum.value\<close> keys are distinct.\<close>

definition status_table :: "(string \<times> string) list" where
  "status_table = map (\<lambda>s. (run_status_value s, message_status_value (message_status_of s)))
     [QUEUED, RUNNING, WAITING_USER, WAITING_EXTERNAL, RECOVERING, CANCELLING, SUCCEEDED, FAILED,
      CANCELLED, TIMED_OUT]"

definition message_status_text :: "string \<Rightarrow> string" where
  "message_status_text status = (case map_of status_table status of
     Some s \<Rightarrow> s | None \<Rightarrow> message_status_value Msg_FAILED)"

definition error_table :: "string \<Rightarrow> business_code" where
  "error_table code =
     (if code = error_code_value INVALID_REQUEST then B_INVALID_REQUEST
      else if code = error_code_value SKILL_INCOMPATIBLE then B_SKILL_INVALID
      else if code = error_code_value SKILL_NOT_FOUND then B_SKILL_INVALID
      else if code = error_code_value MODEL_NOT_CONFIGURED then B_MODEL_UNAVAILABLE
      else if code = error_code_value EXECUTION_FAILED then B_EXECUTION_FAILED
      else if code = error_code_value EXECUTION_UNKNOWN then B_EXECUTION_UNKNOWN
      else if code = error_code_value DEPENDENCY_UNAVAILABLE then B_DEPENDENCY_UNAVAILABLE
      else B_EXECUTION_FAILED)"

text \<open>\<open>str(kvs.get(key) or fallback)\<close>\<close>

definition text_or :: "json_dict \<Rightarrow> string \<Rightarrow> string \<Rightarrow> string" where
  "text_or kvs key fallback = (case map_of kvs key of
     None \<Rightarrow> fallback | Some j \<Rightarrow> if json_truthy j then py_str j else fallback)"

definition public_error :: "json \<Rightarrow> string \<Rightarrow> exn + json" where
  "public_error error message_id =
     (if \<not> json_truthy error then Inr JNull
      else bindE (case error of JStr s \<Rightarrow> Inr [(''message'', JStr s)] | JObj kvs \<Rightarrow> Inr kvs
                    | _ \<Rightarrow> Inl (ValueErr ''AttributeError'')) (\<lambda>kvs.
        Inr (JObj [(''code'', JStr (business_code_value (error_table (text_or kvs ''code'' '''')))),
          (''message'', JStr (text_or kvs ''message'' ''Execution failed'')),
          (''retryable'', JBool (case map_of kvs ''retryable'' of None \<Rightarrow> False | Some j \<Rightarrow> json_truthy j)),
          (''request_id'', JStr (text_or kvs ''request_id'' message_id))])))"

definition project_rel_path_text :: "session_view \<Rightarrow> string" where
  "project_rel_path_text v =
     (if sv_user_path v = [] \<or> sv_project_path v = [] then ''''
      else case path_relative_to (mk_path (sv_project_path v)) (mk_path (sv_user_path v)) of
        None \<Rightarrow> '''' | Some rel \<Rightarrow> path_as_posix rel)"

definition session_json :: "session_view \<Rightarrow> json" where
  "session_json v = JObj [(''session_id'', JStr (sv_id v)), (''title'', JStr (sv_title v)),
     (''user_rel_path'', JStr (sv_user_rel_path v)),
     (''project_ref'', if py_startswith (sv_project_ref v) ''__'' then JNull else JStr (sv_project_ref v)),
     (''project_rel_path'', JStr (project_rel_path_text v)),
     (''date_created'', JStr (date_created v)), (''date_updated'', JStr (date_updated v))]"

definition outcome_json :: "task_outcome option \<Rightarrow> json" where
  "outcome_json x = (case x of None \<Rightarrow> JNull | Some t \<Rightarrow> JStr (task_outcome_value t))"

definition message_json_view :: "run_view \<Rightarrow> exn + json" where
  "message_json_view v = (let r = rv_row v in
     bindE (public_error (or_null (rv_error v)) (r_id r)) (\<lambda>err.
     Inr (JObj [(''message_id'', JStr (r_id r)), (''session_id'', JStr (r_session_id r)),
       (''message_seq'', JInt (r_run_seq r)), (''input'', or_null (rv_input v)),
       (''status'', JStr (message_status_text (run_status_value (r_status r)))),
       (''task_outcome'', outcome_json (r_task_outcome r)), (''output'', or_null (rv_output v)),
       (''error'', err), (''date_created'', JStr (date_created r)), (''date_updated'', JStr (date_updated r))])))"

definition pending_json :: "pending_reply option \<Rightarrow> json" where
  "pending_json p = (case p of None \<Rightarrow> JNull
   | Some x \<Rightarrow> JObj [(''pending_id'', JStr (pr_pending_id x)), (''message_id'', JStr (pr_message_id x)),
       (''kind'', JStr (pr_kind x)), (''prompt'', pr_prompt x)])"

end
