(* ===== verification/GatewayHandlers.thy ===== *)
theory GatewayHandlers
  imports Gateway
begin

text \<open>
  The handlers of \<open>RuntimeRequestHandler\<close> and their dispatch (\<open>do_GET\<close>, \<open>do_POST\<close>), the public view of
  an event, and the event stream (\<open>src/code_forge/transport/server.py\<close>).
\<close>

section \<open>Public events\<close>

fun platform_event_value :: "platform_event_type \<Rightarrow> string" where
  "platform_event_value P_MESSAGE_ACCEPTED = ''message.accepted''"
| "platform_event_value P_MESSAGE_STARTED = ''message.started''"
| "platform_event_value P_MESSAGE_WAITING = ''message.waiting''"
| "platform_event_value P_MESSAGE_RESUMED = ''message.resumed''"
| "platform_event_value P_MESSAGE_RECOVERING = ''message.recovering''"
| "platform_event_value P_MESSAGE_CANCEL_REQUESTED = ''message.cancel_requested''"
| "platform_event_value P_MESSAGE_FINISHED = ''message.finished''"
| "platform_event_value P_MESSAGE_DELTA = ''message.delta''"
| "platform_event_value P_MESSAGE_COMPLETED = ''message.completed''"
| "platform_event_value P_TOOL_PREPARED = ''tool.prepared''"
| "platform_event_value P_TOOL_STARTED = ''tool.started''"
| "platform_event_value P_TOOL_OUTPUT = ''tool.output''"
| "platform_event_value P_TOOL_FINISHED = ''tool.finished''"
| "platform_event_value P_TOOL_UNKNOWN = ''tool.unknown''"
| "platform_event_value P_SKILL_ACTIVATED = ''skill.activated''"
| "platform_event_value P_SKILL_STARTED = ''skill.started''"
| "platform_event_value P_SKILL_FINISHED = ''skill.finished''"
| "platform_event_value P_WORKSPACE_COMMITTED = ''workspace.committed''"

text \<open>The dictionary \<open>EVENT_TYPE_MAP\<close> has every event type.\<close>

fun event_type_map :: "event_type \<Rightarrow> platform_event_type" where
  "event_type_map RUN_ACCEPTED = P_MESSAGE_ACCEPTED"
| "event_type_map RUN_STARTED = P_MESSAGE_STARTED"
| "event_type_map RUN_WAITING = P_MESSAGE_WAITING"
| "event_type_map RUN_RESUMED = P_MESSAGE_RESUMED"
| "event_type_map RUN_RECOVERING = P_MESSAGE_RECOVERING"
| "event_type_map RUN_CANCEL_REQUESTED = P_MESSAGE_CANCEL_REQUESTED"
| "event_type_map RUN_FINISHED = P_MESSAGE_FINISHED"
| "event_type_map MESSAGE_DELTA = P_MESSAGE_DELTA"
| "event_type_map MESSAGE_COMPLETED = P_MESSAGE_COMPLETED"
| "event_type_map TOOL_PREPARED = P_TOOL_PREPARED"
| "event_type_map TOOL_STARTED = P_TOOL_STARTED"
| "event_type_map TOOL_OUTPUT = P_TOOL_OUTPUT"
| "event_type_map TOOL_FINISHED = P_TOOL_FINISHED"
| "event_type_map TOOL_UNKNOWN = P_TOOL_UNKNOWN"
| "event_type_map SKILL_ACTIVATED = P_SKILL_ACTIVATED"
| "event_type_map SKILL_STARTED = P_SKILL_STARTED"
| "event_type_map SKILL_FINISHED = P_SKILL_FINISHED"
| "event_type_map WORKSPACE_COMMITTED = P_WORKSPACE_COMMITTED"

text \<open>\<open>event.get("data") or \{\}\<close>; a value that is no object has no \<open>get\<close>.\<close>

definition event_dict :: "string \<Rightarrow> event_view \<Rightarrow> exn + json_dict" where
  "event_dict failure ev = (if \<not> json_truthy (ev_data ev) then Inr []
     else case ev_data ev of JObj kvs \<Rightarrow> Inr kvs | _ \<Rightarrow> Inl (ValueErr failure))"

definition value_or_empty :: "string \<Rightarrow> json_dict \<Rightarrow> json" where
  "value_or_empty key kvs = (case map_of kvs key of None \<Rightarrow> JStr '''' | Some j \<Rightarrow> j)"

definition status_payload :: "string \<Rightarrow> string \<Rightarrow> json_dict" where
  "status_payload message_id status = [(''message_id'', JStr message_id), (''status'', JStr status)]"

text \<open>The data of a public event; \<open>pending\<close> reads the Session's open question when one is asked.\<close>

definition public_payload :: "(string \<Rightarrow> exn + pending_reply option) \<Rightarrow> event_view \<Rightarrow> exn + json_dict" where
  "public_payload pending ev =
     (let message_id = ev_run_id ev; data = event_dict ''AttributeError'' ev in
     case ev_type ev of
       RUN_ACCEPTED \<Rightarrow> Inr (status_payload message_id (message_status_value Msg_QUEUED))
     | RUN_STARTED \<Rightarrow> Inr (status_payload message_id (message_status_value Msg_RUNNING))
     | RUN_RESUMED \<Rightarrow> Inr (status_payload message_id (message_status_value Msg_QUEUED))
     | RUN_WAITING \<Rightarrow> bindE (pending (ev_session_id ev)) (\<lambda>p. bindE data (\<lambda>kvs.
         Inr (status_payload message_id (message_status_text (text_or kvs ''status'' ''''))
              @ [(''pending_reply'', pending_json p)])))
     | RUN_RECOVERING \<Rightarrow> bindE data (\<lambda>kvs. Inr [(''message_id'', JStr message_id),
         (''reason'', value_or_empty ''reason'' kvs)])
     | RUN_CANCEL_REQUESTED \<Rightarrow> Inr (status_payload message_id (message_status_value Msg_CANCELLING))
     | RUN_FINISHED \<Rightarrow> bindE data (\<lambda>kvs. bindE (public_error (body_value ''error'' kvs) message_id) (\<lambda>err.
         Inr (status_payload message_id (message_status_text (text_or kvs ''status'' ''''))
              @ [(''task_outcome'', body_value ''task_outcome'' kvs), (''output'', body_value ''output'' kvs),
                 (''error'', err)])))
     | MESSAGE_DELTA \<Rightarrow> bindE data (\<lambda>kvs. Inr [(''text'', value_or_empty ''text'' kvs)])
     | MESSAGE_COMPLETED \<Rightarrow> bindE data (\<lambda>kvs. Inr [(''text'', value_or_empty ''text'' kvs)])
     | _ \<Rightarrow> event_dict ''TypeError'' ev)"

record public_event =
  pe_event_id :: string
  pe_session_id :: string
  pe_message_id :: string
  pe_seq :: int
  pe_type :: platform_event_type
  pe_occurred_at :: string
  pe_data :: json_dict

text \<open>\<open>int(event["session_seq"])\<close>: the Session's event pages always carry it.\<close>

definition public_event_of :: "(string \<Rightarrow> exn + pending_reply option) \<Rightarrow> event_view \<Rightarrow> exn + public_event" where
  "public_event_of pending ev = bindE (public_payload pending ev) (\<lambda>payload.
     case ev_session_seq ev of
       None \<Rightarrow> Inl (KeyErr ''session_seq'')
     | Some n \<Rightarrow> Inr \<lparr>pe_event_id = ev_event_id ev, pe_session_id = ev_session_id ev, pe_message_id = ev_run_id ev,
         pe_seq = n, pe_type = event_type_map (ev_type ev), pe_occurred_at = ev_occurred_at ev, pe_data = payload\<rparr>)"

definition public_event_json :: "public_event \<Rightarrow> json" where
  "public_event_json e = JObj [(''event_id'', JStr (pe_event_id e)), (''session_id'', JStr (pe_session_id e)),
     (''message_id'', JStr (pe_message_id e)), (''seq'', JInt (pe_seq e)),
     (''type'', JStr (platform_event_value (pe_type e))), (''occurred_at'', JStr (pe_occurred_at e)),
     (''data'', JObj (pe_data e))]"

text \<open>What is written to the client: the frame of an event, and the body of an answer.\<close>

definition frame_text :: "string \<Rightarrow> public_event \<Rightarrow> string" where
  "frame_text sid p = utf8_encode (''id: '' @ sid @ '':'' @ py_str_int (pe_seq p) @ [CHR 0x0A]
     @ ''event: '' @ platform_event_value (pe_type p) @ [CHR 0x0A]
     @ ''data: '' @ dumps True '', '' '': '' (JObj [(''code'', JStr (business_code_value B_OK)),
         (''message'', JStr ''success''), (''data'', public_event_json p)]) @ [CHR 0x0A, CHR 0x0A])"

definition reply_bytes :: "json \<Rightarrow> string" where
  "reply_bytes payload = utf8_encode (dumps True '', '' '': '' payload)"

section \<open>Handlers\<close>

definition health :: "gateway \<Rightarrow> (app, response) io" where
  "health G = returnS (ok_reply 200 (JObj [(''status'', JStr ''ok''), (''api_version'', JStr ''1''),
     (''model_configured'', JBool (gw_model_configured G)), (''execution_backend'', JStr ''local_process''),
     (''permission_mode'', JStr ''default_allow''), (''isolation_mode'', JStr ''trusted_logical'')]))"

abbreviation run_time :: "gateway \<Rightarrow> runtime" where
  "run_time G \<equiv> runtime.truncate G"

definition platform_context :: "user_binding \<Rightarrow> exn + execution_context" where
  "platform_context b = make_execution_context (ub_scope_id b) (Some ''platform:api'') None (Some b)"

definition handle_create_session :: "gateway \<Rightarrow> json_dict \<Rightarrow> (app, response) io" where
  "handle_create_session G body =
     thenS (liftS (binding_from_payload (rt_os G) (rt_host G 0) (body_value ''storage_root'' body)
              (body_value ''user_rel_path'' body) (body_value ''project_ref'' body)
              (body_value ''project_rel_path'' body))) (\<lambda>b.
     thenS (liftS (platform_context b)) (\<lambda>ctx.
     thenS (app_create_session (run_time G) (ub_scope_id b) (''platform-session:'' @ h_uuid (rt_host G 3) 0)
              (gw_new_title G) None ctx) (\<lambda>s.
     returnS (ok_reply 201 (session_json s)))))"

definition handle_update_session :: "gateway \<Rightarrow> json_dict \<Rightarrow> (app, response) io" where
  "handle_update_session G body =
     thenS (liftS (required_string body ''session_id'')) (\<lambda>sid.
     thenS (liftS (required_string body ''title'')) (\<lambda>title.
     if \<not> (1 \<le> length title \<and> length title \<le> 200)
     then raiseS (DomainError INVALID_REQUEST ''title must be 1-200 characters'')
     else thenS (readS (\<lambda>a. get_session_unscoped sid (wdb (ap_world a)))) (\<lambda>found.
          if found = None then raiseS (DomainError SESSION_NOT_FOUND ''Session not found'')
          else thenS (in_store (update_session_title (rt_host G 1) sid title ''system:runtime/api'')) (\<lambda>updated.
               case updated of
                 None \<Rightarrow> raiseS (ValueErr ''AttributeError'')
               | Some s \<Rightarrow> thenS (in_tree (sync_session_storage (run_time G) s)) (\<lambda>_.
                          returnS (ok_reply 200 (session_json s)))))))"

definition handle_get_session :: "query \<Rightarrow> (app, response) io" where
  "handle_get_session q = thenS (session_of_query q) (\<lambda>s. returnS (ok_reply 200 (session_json s)))"

definition page_json :: "json list \<Rightarrow> string option \<Rightarrow> json" where
  "page_json items cursor = JObj [(''items'', JArr items), (''next_cursor'', opt_str cursor)]"

definition handle_list_sessions :: "query \<Rightarrow> (app, response) io" where
  "handle_list_sessions q =
     thenS (liftS (int_query q ''limit'' 50 100)) (\<lambda>limit.
     thenS (ask (\<lambda>w. list_sessions_public (query_value q ''user_rel_path'') (query_value q ''project_ref'')
                      (query_value q ''cursor'') (nat limit) (wdb w))) (\<lambda>(items, next_cursor).
     returnS (ok_reply 200 (page_json (map session_json items) next_cursor))))"

definition current_message_json :: "run_view option \<Rightarrow> json" where
  "current_message_json v = (case v of None \<Rightarrow> JNull
   | Some m \<Rightarrow> JObj [(''message_id'', JStr (r_id (rv_row m))),
       (''status'', JStr (message_status_text (run_status_value (r_status (rv_row m)))))])"

definition handle_get_session_state :: "gateway \<Rightarrow> query \<Rightarrow> (app, response) io" where
  "handle_get_session_state G q =
     thenS (session_of_query q) (\<lambda>s.
     thenS (ask (\<lambda>w. get_current_message (rt_host G 0) w (sv_id s))) (\<lambda>current.
     thenS (ask (\<lambda>w. get_pending_reply (rt_host G 0) w (sv_id s))) (\<lambda>pending.
     thenS (readS (\<lambda>a. session_event_cursor (sv_id s) (wdb (ap_world a)))) (\<lambda>cursor.
     returnS (ok_reply 200 (JObj [(''session'', session_json s), (''current_message'', current_message_json current),
       (''pending_reply'', pending_json pending),
       (''event_cursor'', JStr (sv_id s @ '':'' @ py_str_int cursor))]))))))"

definition found_message :: "gateway \<Rightarrow> string \<Rightarrow> (app, run_view) io" where
  "found_message G message_id =
     thenS (ask (\<lambda>w. get_run_unscoped (rt_host G 0) w message_id)) (\<lambda>found. case found of
       None \<Rightarrow> raiseS (DomainError RUN_NOT_FOUND ''Message not found'') | Some v \<Rightarrow> returnS v)"

definition handle_get_message :: "gateway \<Rightarrow> query \<Rightarrow> (app, response) io" where
  "handle_get_message G q =
     thenS (liftS (required_query q ''message_id'')) (\<lambda>message_id.
     thenS (found_message G message_id) (\<lambda>v.
     thenS (liftS (message_json_view v)) (\<lambda>j. returnS (ok_reply 200 j))))"

definition handle_list_session_messages :: "gateway \<Rightarrow> query \<Rightarrow> (app, response) io" where
  "handle_list_session_messages G q =
     thenS (session_of_query q) (\<lambda>s.
     thenS (liftS (int_query q ''limit'' 50 100)) (\<lambda>limit.
     thenS (ask (\<lambda>w. list_messages_public (rt_host G 0) w (sv_id s) (query_value q ''cursor'') (nat limit)))
       (\<lambda>(items, next_cursor).
     thenS (liftS (mapE message_json_view items)) (\<lambda>js.
     returnS (ok_reply 200 (page_json js next_cursor))))))"

definition message_stream :: "string \<Rightarrow> string \<Rightarrow> string \<Rightarrow> int \<Rightarrow> response" where
  "message_stream scope sid message_id after_seq = Stream \<lparr>sq_scope_id = scope, sq_session_id = sid,
     sq_message_id = Some message_id, sq_after_seq = after_seq\<rparr>"

definition managed_binding :: "gateway \<Rightarrow> session_view \<Rightarrow> (app, user_binding) io" where
  "managed_binding G s =
     thenS (liftS (binding_from_session (rt_os G) (rt_host G 0) s)) (\<lambda>b. case b of
       None \<Rightarrow> raiseS (DomainError STATE_CONFLICT ''Session has no managed workspace'')
     | Some x \<Rightarrow> returnS x)"

definition handle_send_message :: "gateway \<Rightarrow> json_dict \<Rightarrow> (app, response) io" where
  "handle_send_message G body =
     thenS (ask (require_session_id (text_or body ''session_id'' ''''))) (\<lambda>s.
     thenS (liftS (required_string body ''input'')) (\<lambda>input.
     if \<not> (1 \<le> length input \<and> length input \<le> 100000)
     then raiseS (DomainError INVALID_REQUEST ''input must be 1-100000 characters'')
     else thenS (managed_binding G s) (\<lambda>b.
          thenS (\<lambda>a. (skill_paths_of (rt_os G) (ap_tree a) b (body_value ''skill_paths'' body), a)) (\<lambda>skill_paths.
          thenS (readS (\<lambda>a. session_event_cursor (sv_id s) (wdb (ap_world a)))) (\<lambda>seen.
          thenS (liftS (platform_context b)) (\<lambda>ctx.
          thenS (app_submit_run (run_time G) (sv_id s) input (text_or body ''agent_ref'' ''general@1'') []
                   skill_paths (''platform-message:'' @ h_uuid (rt_host G 3) 0) ctx True) (\<lambda>accepted.
          returnS (message_stream (ub_scope_id b) (sv_id s) (ar_id accepted) seen))))))))"

definition handle_reply :: "gateway \<Rightarrow> json_dict \<Rightarrow> (app, response) io" where
  "handle_reply G body =
     thenS (liftS (required_string body ''message_id'')) (\<lambda>message_id.
     thenS (liftS (required_string body ''pending_id'')) (\<lambda>pending_id.
     thenS (liftS (required_string body ''text'')) (\<lambda>input.
     if \<not> (1 \<le> length input \<and> length input \<le> 100000)
     then raiseS (DomainError INVALID_REQUEST ''text must be 1-100000 characters'')
     else thenS (found_message G message_id) (\<lambda>v. let r = rv_row v in
          thenS (readS (\<lambda>a. session_event_cursor (r_session_id r) (wdb (ap_world a)))) (\<lambda>seen.
          thenS (app_respond (run_time G) (r_scope_id r) message_id pending_id (''platform:'' @ pending_id)
                   (r_state_version r) input) (\<lambda>_.
          returnS (message_stream (r_scope_id r) (r_session_id r) message_id seen)))))))"

definition handle_cancel_message :: "gateway \<Rightarrow> json_dict \<Rightarrow> (app, response) io" where
  "handle_cancel_message G body =
     thenS (liftS (required_string body ''message_id'')) (\<lambda>message_id.
     thenS (found_message G message_id) (\<lambda>v.
     thenS (app_cancel_run (run_time G) (r_scope_id (rv_row v)) message_id ''platform:api'') (\<lambda>cancelled.
     case cancelled of
       None \<Rightarrow> raiseS (ValueErr ''TypeError'')
     | Some c \<Rightarrow> thenS (liftS (message_json_view c)) (\<lambda>j. returnS (ok_reply 200 j)))))"

definition handle_stream_session_events :: "query \<Rightarrow> (app, response) io" where
  "handle_stream_session_events q =
     thenS (session_of_query q) (\<lambda>s.
     thenS (liftS (int_query q ''after_seq'' 0 (10 ^ 9))) (\<lambda>after_seq.
     returnS (Stream \<lparr>sq_scope_id = sv_scope_id s, sq_session_id = sv_id s, sq_message_id = None,
       sq_after_seq = after_seq\<rparr>)))"

definition pending_in :: "host \<Rightarrow> world \<Rightarrow> string \<Rightarrow> exn + pending_reply option" where
  "pending_in h w sid = get_pending_reply h w sid"

definition handle_list_session_events :: "gateway \<Rightarrow> query \<Rightarrow> (app, response) io" where
  "handle_list_session_events G q =
     thenS (session_of_query q) (\<lambda>s.
     thenS (liftS (int_query q ''after_seq'' 0 (10 ^ 9))) (\<lambda>after_seq.
     thenS (liftS (int_query q ''limit'' 200 1000)) (\<lambda>limit.
     thenS (ask (\<lambda>w. list_session_events (rt_host G 0) w (sv_id s) after_seq (nat limit))) (\<lambda>(events, next_after).
     thenS (ask (\<lambda>w. mapE (public_event_of (pending_in (rt_host G 0) w)) events)) (\<lambda>items.
     returnS (ok_reply 200 (JObj [(''items'', JArr (map public_event_json items)),
       (''next_after_seq'', JInt next_after)])))))))"

definition file_json :: "file_entry \<Rightarrow> json" where
  "file_json f = JObj [(''path'', JStr (fe_path f)), (''size_bytes'', JInt (int (fe_size_bytes f))),
     (''digest'', JStr (''sha256:'' @ fe_digest f))]"

definition handle_list_session_files :: "gateway \<Rightarrow> query \<Rightarrow> (app, response) io" where
  "handle_list_session_files G q =
     thenS (session_of_query q) (\<lambda>s.
     thenS (managed_binding G s) (\<lambda>b.
     thenS (in_tree (list_files (rt_host G 0) (rt_root G) (sv_workspace_id s) (Some b))) (\<lambda>files.
     returnS (ok_reply 200 (page_json (map file_json files) None)))))"

definition handle_read_session_file :: "gateway \<Rightarrow> query \<Rightarrow> (app, response) io" where
  "handle_read_session_file G q =
     thenS (session_of_query q) (\<lambda>s.
     thenS (liftS (bindE (required_query q ''path'') (\<lambda>p. relative_path (JStr p) ''path''))) (\<lambda>rel.
     thenS (managed_binding G s) (\<lambda>b.
     thenS (in_tree (read_text (rt_os G) (rt_host G 0) (rt_root G) (sv_workspace_id s) rel (1024 * 1024) (Some b)))
       (\<lambda>(data, digest, truncated).
     returnS (ok_reply 200 (JObj [(''path'', JStr rel), (''content'', JStr (gw_decode G data)),
       (''digest'', JStr (''sha256:'' @ digest)), (''truncated'', JBool truncated)]))))))"

section \<open>Dispatch\<close>

definition get_handlers :: "gateway \<Rightarrow> query \<Rightarrow> (string \<times> (app, response) io) list" where
  "get_handlers G q =
     [(''/health'', health G), (''/v1/get-session'', handle_get_session q),
      (''/v1/list-sessions'', handle_list_sessions q),
      (''/v1/get-session-state'', handle_get_session_state G q), (''/v1/get-message'', handle_get_message G q),
      (''/v1/list-session-messages'', handle_list_session_messages G q),
      (''/v1/stream-session-events'', handle_stream_session_events q),
      (''/v1/list-session-events'', handle_list_session_events G q),
      (''/v1/list-session-files'', handle_list_session_files G q),
      (''/v1/read-session-file'', handle_read_session_file G q)]"

definition post_handlers :: "gateway \<Rightarrow> json_dict \<Rightarrow> (string \<times> (app, response) io) list" where
  "post_handlers G body =
     [(''/v1/create-session'', handle_create_session G body), (''/v1/update-session'', handle_update_session G body),
      (''/v1/send-message'', handle_send_message G body), (''/v1/cancel-message'', handle_cancel_message G body),
      (''/v1/reply'', handle_reply G body)]"

definition dispatch :: "(string \<times> (app, response) io) list \<Rightarrow> string \<Rightarrow> (app, response) io" where
  "dispatch handlers path = (case map_of handlers path of
     None \<Rightarrow> returnS (business_error B_INVALID_REQUEST 404 ''Not found'') | Some handler \<Rightarrow> handler)"

definition answer_errors :: "(app, response) io \<Rightarrow> app \<Rightarrow> response \<times> app" where
  "answer_errors m a = (case m a of (Inr r, a') \<Rightarrow> (r, a') | (Inl e, a') \<Rightarrow> (error_reply e, a'))"

definition do_GET :: "gateway \<Rightarrow> string \<Rightarrow> query \<Rightarrow> app \<Rightarrow> response \<times> app" where
  "do_GET G path q = answer_errors (dispatch (get_handlers G q) path)"

definition do_POST :: "gateway \<Rightarrow> string \<Rightarrow> string option \<Rightarrow> string \<Rightarrow> app \<Rightarrow> response \<times> app" where
  "do_POST G path content_length input =
     answer_errors (thenS (liftS (read_body content_length input)) (\<lambda>body. dispatch (post_handlers G body) path))"

section \<open>The event stream\<close>

text \<open>
  One turn of the loop of \<open>_stream\<close> sees the store at several moments: when it reads the page of
  events, when an event's open question is read, when it reads the message, and when it reads the
  cursor. What others do between them makes these worlds differ.
\<close>

record turn =
  tn_page :: world
  tn_pending :: "event_view \<Rightarrow> world"
  tn_message :: world
  tn_cursor :: world

text \<open>The events a turn writes, for one message or for all; a failing view stops the writing.\<close>

fun write_events :: "host \<Rightarrow> (event_view \<Rightarrow> world) \<Rightarrow> string option \<Rightarrow> event_view list
    \<Rightarrow> public_event list \<times> exn option" where
  "write_events h pending only [] = ([], None)"
| "write_events h pending only (ev # evs) =
     (if \<not> falsy only \<and> ev_run_id ev \<noteq> the only then write_events h pending only evs
      else case public_event_of (pending_in h (pending ev)) ev of
        Inl e \<Rightarrow> ([], Some e)
      | Inr p \<Rightarrow> (case write_events h pending only evs of (ps, r) \<Rightarrow> (p # ps, r)))"

definition terminal_view :: "run_view \<Rightarrow> bool" where
  "terminal_view v \<longleftrightarrow> r_status (rv_row v) \<in> TERMINAL_STATUSES"

definition stream_over :: "host \<Rightarrow> stream_request \<Rightarrow> turn \<Rightarrow> int \<Rightarrow> exn + bool" where
  "stream_over h sq t cursor =
     (let caught_up = cursor \<ge> session_event_cursor (sq_session_id sq) (wdb (tn_cursor t)) in
      if \<not> falsy (sq_message_id sq)
      then bindE (get_run h (tn_message t) (sq_scope_id sq) (the (sq_message_id sq))) (\<lambda>m.
           Inr (case m of None \<Rightarrow> False | Some v \<Rightarrow> terminal_view v \<and> caught_up))
      else bindE (get_current_message h (tn_message t) (sq_session_id sq)) (\<lambda>m.
           Inr (case m of None \<Rightarrow> True | Some v \<Rightarrow> terminal_view v \<and> caught_up)))"

datatype stream_end = Finished | Failed_with exn | Still_open

text \<open>What the client has received after the given turns, the cursor, and whether the loop ended.\<close>

fun stream_loop :: "host \<Rightarrow> stream_request \<Rightarrow> int \<Rightarrow> turn list \<Rightarrow> public_event list \<times> int \<times> stream_end" where
  "stream_loop h sq cursor [] = ([], cursor, Still_open)"
| "stream_loop h sq cursor (t # turns) =
     (case list_session_events h (tn_page t) (sq_session_id sq) cursor 200 of
        Inl e \<Rightarrow> ([], cursor, Failed_with e)
      | Inr (events, next_cursor) \<Rightarrow>
          (case write_events h (tn_pending t) (sq_message_id sq) events of
             (sent, Some e) \<Rightarrow> (sent, next_cursor, Failed_with e)
           | (sent, None) \<Rightarrow>
               (case stream_over h sq t next_cursor of
                  Inl e \<Rightarrow> (sent, next_cursor, Failed_with e)
                | Inr True \<Rightarrow> (sent, next_cursor, Finished)
                | Inr False \<Rightarrow>
                    (case stream_loop h sq next_cursor turns of
                       (tail, c, r) \<Rightarrow> (sent @ tail, c, r)))))"

end
