(* ===== verification/GatewayStream.thy ===== *)
theory GatewayStream
  imports GatewayHandlers
begin

text \<open>
  What a client of the event stream receives (\<open>_stream\<close> in \<open>src/code_forge/transport/server.py\<close>):
  the pages of the store put together, filtered to one message, projected to public events.
\<close>

section \<open>Pages of the log\<close>

definition in_window :: "string \<Rightarrow> string option \<Rightarrow> int \<Rightarrow> int \<Rightarrow> event_row \<Rightarrow> bool" where
  "in_window sid only k c e \<longleftrightarrow> e_session_id e = sid \<and> k < e_session_seq e \<and> e_session_seq e \<le> c
     \<and> (falsy only \<or> e_run_id e = the only)"

lemma page_rows:
  fixes sid :: string and n :: nat
  assumes "store_ok d" "0 \<le> k"
  defines "rows \<equiv> session_event_rows sid k n d"
  defines "c \<equiv> (if rows = [] then k else e_session_seq (last rows))"
  shows "k \<le> c \<and> rows = filter (in_window sid None k c) (run_events d) \<and> (k < c \<longrightarrow> c \<le> session_event_cursor sid d)"
proof -
  define es where "es = filter (\<lambda>e. e_session_id e = sid \<and> k < e_session_seq e) (run_events d)"
  define j where "j = min n (length es)"
  obtain m where m: "0 \<le> m" "map e_session_seq (filter (\<lambda>e. e_session_id e = sid) (run_events d)) = [1..m]"
    by (rule session_segment [OF assms(1)])
  have cur: "session_event_cursor sid d = m"
    using m by (simp add: session_event_cursor_def select_def coalesce_max_upto)
  have "map e_session_seq es = filter (\<lambda>i. k < i) (map e_session_seq (filter (\<lambda>e. e_session_id e = sid) (run_events d)))"
    by (simp add: es_def filter_map comp_def conj_commute)
  also have "\<dots> = [k + 1..m]" unfolding m(2) by (rule filter_upto [OF assms(2)])
  finally have nums: "map e_session_seq es = [k + 1..m]" .
  have "sort_key e_session_seq es = es" by (intro sort_key_id_if_sorted) (simp add: nums)
  then have rows: "rows = take j es" by (simp add: rows_def session_event_rows_def select_def es_def j_def min_def)
  have len: "length es = nat (m - k)" using arg_cong [OF nums, of length] by simp
  have num: "e_session_seq (es ! i) = k + 1 + int i" if "i < length es" for i
    using arg_cong [OF nums, of "\<lambda>l. l ! i"] that len by (simp add: nth_map)
  have j: "j \<le> length es" by (simp add: j_def)
  have c: "c = k + int j"
  proof (cases "rows = []")
    case True
    then show ?thesis using rows j by (auto simp: c_def)
  next
    case False
    then have "0 < j" using rows by auto
    moreover have "last rows = es ! (j - 1)" using False rows j by (simp add: last_conv_nth)
    ultimately show ?thesis using num [of "j - 1"] j False by (simp add: c_def of_nat_diff)
  qed
  have "filter (\<lambda>e. e_session_seq e \<le> c) (take j es @ drop j es) = take j es"
  proof -
    have "e_session_seq e \<le> c" if "e \<in> set (take j es)" for e
      using that num c by (auto simp: in_set_conv_nth)
    moreover have "\<not> e_session_seq e \<le> c" if "e \<in> set (drop j es)" for e
      using that num c by (auto simp: in_set_conv_nth)
    ultimately show ?thesis unfolding filter_append by (simp add: filter_id_conv filter_empty_conv)
  qed
  then have "rows = filter (\<lambda>e. e_session_seq e \<le> c) es" by (simp add: rows)
  also have "\<dots> = filter (in_window sid None k c) (run_events d)"
    unfolding es_def filter_filter by (rule filter_cong) (auto simp: in_window_def)
  finally show ?thesis using c j len cur by auto
qed

lemma window_later:
  assumes "store_ok d" "sim d d2" "c \<le> session_event_cursor sid d"
  shows "filter (in_window sid None k c) (run_events d2) = filter (in_window sid None k c) (run_events d)"
proof -
  let ?S = "\<lambda>e. e_session_id e = sid"
  obtain xs where xs: "run_events d2 = run_events d @ xs" using assms(2) by (auto simp: sim_def grows_def)
  obtain m where m: "0 \<le> m" "map e_session_seq (filter ?S (run_events d)) = [1..m]"
    by (rule session_segment [OF assms(1)])
  obtain m2 where m2: "0 \<le> m2" "map e_session_seq (filter ?S (run_events d2)) = [1..m2]"
    by (rule session_segment [OF sim_store_ok [OF assms(2,1)]])
  have cur: "session_event_cursor sid d = m"
    using m by (simp add: session_event_cursor_def select_def coalesce_max_upto)
  have dist: "distinct ([1..m] @ map e_session_seq (filter ?S xs))"
    using m2(2) xs m(2) by (metis distinct_upto filter_append map_append)
  have "1 \<le> e_session_seq e" if "e \<in> set (filter ?S xs)" for e
  proof -
    have "e_session_seq e \<in> set [1..m2]" using that xs m2(2) [symmetric] by simp
    then show ?thesis by simp
  qed
  then have "m < e_session_seq e" if "e \<in> set xs" "e_session_id e = sid" for e
    using that dist by (force simp: not_less)
  then have "filter (in_window sid None k c) xs = []" using assms(3) cur
    by (fastforce simp: filter_empty_conv in_window_def)
  then show ?thesis by (simp add: xs)
qed

lemma sorted_filter_split:
  fixes f :: "'a \<Rightarrow> int"
  assumes "sorted (map f (filter P xs))" "k \<le> c" "c \<le> c2"
  shows "filter (\<lambda>x. P x \<and> k < f x \<and> f x \<le> c2) xs
    = filter (\<lambda>x. P x \<and> k < f x \<and> f x \<le> c) xs @ filter (\<lambda>x. P x \<and> c < f x \<and> f x \<le> c2) xs"
  using assms(1)
proof (induction xs)
  case Nil then show ?case by simp
next
  case (Cons x xs)
  show ?case
  proof (cases "P x \<and> c < f x")
    case True
    then have "filter (\<lambda>x. P x \<and> k < f x \<and> f x \<le> c) xs = []"
      using Cons.prems by (fastforce simp: filter_empty_conv)
    then show ?thesis using Cons True assms(2) by auto
  next
    case False
    have "sorted (map f (filter P xs))" using Cons.prems by (cases "P x") auto
    from Cons.IH [OF this] False show ?thesis using assms(2,3) by auto
  qed
qed

lemma window_split:
  assumes "store_ok d" "k \<le> c" "c \<le> c2"
  shows "filter (in_window sid None k c2) (run_events d)
    = filter (in_window sid None k c) (run_events d) @ filter (in_window sid None c c2) (run_events d)"
proof -
  obtain m where m: "map e_session_seq (filter (\<lambda>e. e_session_id e = sid) (run_events d)) = [1..m]"
    using session_segment [OF assms(1)] by blast
  have w: "in_window sid None a b = (\<lambda>e. e_session_id e = sid \<and> a < e_session_seq e \<and> e_session_seq e \<le> b)" for a b
    by (auto simp: in_window_def)
  show ?thesis unfolding w by (rule sorted_filter_split [OF _ assms(2,3)]) (simp add: m)
qed

lemma window_only: "filter (in_window sid only k c) es
    = filter (\<lambda>e. falsy only \<or> e_run_id e = the only) (filter (in_window sid None k c) es)"
  unfolding filter_filter by (rule filter_cong) (auto simp: in_window_def)

section \<open>One turn\<close>

lemma mapE_views:
  "mapE (event_view h w True) rows = Inr evs \<Longrightarrow>
    map (\<lambda>v. (ev_event_id v, ev_run_id v, ev_session_seq v)) evs
      = map (\<lambda>e. (e_event_id e, e_run_id e, Some (e_session_seq e))) rows"
  by (induction rows arbitrary: evs) (auto simp: event_view_def elim!: bindE_InrE)

lemma public_event_facts:
  "public_event_of pending ev = Inr p \<Longrightarrow> pe_event_id p = ev_event_id ev \<and> ev_session_seq ev = Some (pe_seq p)"
  by (auto simp: public_event_of_def elim!: bindE_InrE split: option.splits)

lemma write_events_sent:
  assumes "write_events h pending only evs = (ps, None)"
    and "map (\<lambda>v. (ev_event_id v, ev_run_id v, ev_session_seq v)) evs
      = map (\<lambda>e. (e_event_id e, e_run_id e, Some (e_session_seq e))) rows"
  shows "map (\<lambda>p. (pe_event_id p, pe_seq p)) ps = map (\<lambda>e. (e_event_id e, e_session_seq e))
      (filter (\<lambda>e. falsy only \<or> e_run_id e = the only) rows)"
  using assms
proof (induction evs arbitrary: ps rows)
  case Nil then show ?case by simp
next
  case (Cons ev evs)
  obtain e rest where r: "rows = e # rest" using Cons.prems(2) by (cases rows) auto
  have ids: "ev_event_id ev = e_event_id e" "ev_run_id ev = e_run_id e" "ev_session_seq ev = Some (e_session_seq e)"
    "map (\<lambda>v. (ev_event_id v, ev_run_id v, ev_session_seq v)) evs
      = map (\<lambda>e. (e_event_id e, e_run_id e, Some (e_session_seq e))) rest"
    using Cons.prems(2) by (simp_all add: r)
  show ?case
  proof (cases "\<not> falsy only \<and> ev_run_id ev \<noteq> the only")
    case True
    then show ?thesis using Cons.IH [of ps rest] Cons.prems(1) ids by (simp add: r)
  next
    case False
    then obtain p qs where p: "public_event_of (pending_in h (pending ev)) ev = Inr p"
        "write_events h pending only evs = (qs, None)" "ps = p # qs"
      using Cons.prems(1) by (auto split: sum.splits prod.splits)
    then show ?thesis using Cons.IH [OF p(2) ids(4)] public_event_facts [OF p(1)] ids(1-3) False by (auto simp: r)
  qed
qed

lemma turn_sent:
  assumes "list_session_events h w sid k n = Inr (evs, c)" "store_ok (wdb w)" "0 \<le> k" "sim (wdb w) d"
    and "write_events h pending only evs = (ps, None)"
  shows "k \<le> c \<and> map (\<lambda>p. (pe_event_id p, pe_seq p)) ps
    = map (\<lambda>e. (e_event_id e, e_session_seq e)) (filter (in_window sid only k c) (run_events d))"
proof -
  let ?rows = "session_event_rows sid k n (wdb w)"
  have views: "mapE (event_view h w True) ?rows = Inr evs"
    and c: "c = (if ?rows = [] then k else e_session_seq (last ?rows))"
    using assms(1) by (auto simp: list_session_events_def Let_def elim!: bindE_InrE)
  note rows = page_rows [OF assms(2,3), where n = n and sid = sid, folded c]
  have "?rows = filter (in_window sid None k c) (run_events d)"
  proof (cases "k < c")
    case True
    then show ?thesis using rows window_later [OF assms(2,4), of c sid k] by simp
  next
    case False
    then show ?thesis using rows by (auto simp: in_window_def filter_empty_conv)
  qed
  then show ?thesis using rows write_events_sent [OF assms(5) mapE_views [OF views]]
    by (simp add: window_only [of sid only])
qed

section \<open>The whole stream\<close>

lemma stream_loop_sent:
  assumes "stream_loop h sq k turns = (sent, cursor, result)" "0 \<le> k"
    and "\<forall>t\<in>set turns. store_ok (wdb (tn_page t)) \<and> sim (wdb (tn_page t)) d"
    and "\<forall>e. result \<noteq> Failed_with e" "store_ok d"
  shows "k \<le> cursor \<and> map (\<lambda>p. (pe_event_id p, pe_seq p)) sent = map (\<lambda>e. (e_event_id e, e_session_seq e))
      (filter (in_window (sq_session_id sq) (sq_message_id sq) k cursor) (run_events d))
    \<and> (result = Finished \<longrightarrow> (\<exists>t\<in>set turns. stream_over h sq t cursor = Inr True))"
  using assms(1-4)
proof (induction h sq k turns arbitrary: sent cursor result rule: stream_loop.induct)
  case (1 h sq k)
  then show ?case by (auto simp: in_window_def filter_empty_conv)
next
  case (2 h sq k t turns)
  let ?sid = "sq_session_id sq"
  let ?only = "sq_message_id sq"
  note run = "2.prems"(1) and opn = "2.prems"(4)
  obtain r where r: "list_session_events h (tn_page t) ?sid k 200 = r" by blast
  obtain evs c where page: "list_session_events h (tn_page t) ?sid k 200 = Inr (evs, c)"
    using run opn by (cases r) (auto simp: r)
  obtain ps f where psf: "write_events h (tn_pending t) ?only evs = (ps, f)" by fastforce
  have w: "write_events h (tn_pending t) ?only evs = (ps, None)"
    using run opn by (cases f) (auto simp: page psf)
  have ok: "store_ok (wdb (tn_page t))" "sim (wdb (tn_page t)) d" using "2.prems"(3) by auto
  note first = turn_sent [OF page ok(1) "2.prems"(2) ok(2) w]
  obtain q where q: "stream_over h sq t c = q" by blast
  obtain over where over: "stream_over h sq t c = Inr over"
    using run opn by (cases q) (auto simp: page w q)
  show ?case
  proof (cases over)
    case True
    then have "sent = ps" "cursor = c" "result = Finished" using "2.prems"(1) page w over by auto
    then show ?thesis using first over True by auto
  next
    case False
    obtain rest where rest: "stream_loop h sq c turns = (rest, cursor, result)" "sent = ps @ rest"
      using "2.prems"(1) page w over False by (auto split: prod.splits)
    have "c \<le> cursor \<and> map (\<lambda>p. (pe_event_id p, pe_seq p)) rest = map (\<lambda>e. (e_event_id e, e_session_seq e))
        (filter (in_window ?sid ?only c cursor) (run_events d))
      \<and> (result = Finished \<longrightarrow> (\<exists>t\<in>set turns. stream_over h sq t cursor = Inr True))"
      using "2.IH" [OF page refl w [symmetric] refl over] False rest(1) first "2.prems"(2-4) by auto
    then show ?thesis
      using first rest(2) window_split [OF assms(5), of k c cursor ?sid]
      by (auto simp: window_only [of ?sid ?only])
  qed
qed


section \<open>On a concrete store\<close>

lemma demo_page:
  assumes "demo_queued w"
  shows "\<exists>w1 e0 e. run_events (wdb w1) = [e0, e] \<and> e_session_id e0 = ''10'' \<and> e_session_id e = ''10'' \<and> e_event_id e = ''40''
    \<and> e_session_seq e0 = 1 \<and> e_session_seq e = 2 \<and> e_run_id e = ''20'' \<and> e_type e = MESSAGE_DELTA
    \<and> event_added ''u'' ''20'' MESSAGE_DELTA (wdb w) (wdb w1) \<and> event_payload (demo_host ''4'') w1 e = Inr (JObj [])"
proof -
  obtain q s k r e0 where w: "wdb w = empty_db\<lparr>workspaces := [k], sessions := [s], session_requests := [q],
       runs := [r], run_events := [e0]\<rparr>"
    and f: "s_id s = ''10''" "s_scope_id s = ''u''" "s_workspace_id s = ''11''"
     "s_next_event_seq s = 2" "w_id k = ''11''" "w_scope_id k = ''u''"
    "r_id r = ''20''" "r_scope_id r = ''u''" "r_session_id r = ''10''" "r_next_event_seq r = 2"
    "e_event_id e0 = ''21''" "e_scope_id e0 = ''u''" "e_run_id e0 = ''20''" "e_session_id e0 = ''10''"
    "e_seq e0 = 1" "e_session_seq e0 = 1"
    using assms unfolding demo_queued_def by blast
  let ?h = "demo_host ''4''" let ?base = "user_base ?h (w_user_path k)"
  let ?rec = "event_record ''40'' r ''20'' 2 MESSAGE_DELTA ''t'' ''a'' (JObj [])"
  obtain c fs1 where ap: "append_record (h_max_file_bytes ?h) (h_sha256 ?h) (wfiles w) ?base
      ''sessions/10'' ?rec ''content'' = (c, fs1)" by fastforce
  define e where "e = event_row_of ''40'' ''u'' ''20'' ''10'' 2 2 MESSAGE_DELTA c ''t'' ''now'' ''a''"
  obtain d1 where rec: "record_event e ''now'' ''a'' (wdb w) = Inr d1" and ev: "run_events d1 = [e0, e]"
     and ws: "workspaces d1 = [k]" "\<exists>x. sessions d1 = [x] \<and> s_id x = ''10'' \<and> s_scope_id x = ''u'' \<and> s_workspace_id x = ''11''"
    by (simp add: e_def record_event_def insert_event_def event_row_of_def clash_def w f empty_db_def
        update_runs_def update_sessions_def update_where_def touch_def)
  have base: "base_for_session ?h ''10'' d1 = ?base"
    using ws f by (auto simp: base_for_session_def join_sw_def)
  have j: "(r, s) \<in> set (join_rs (wdb w))" by (simp add: w f join_rs_def empty_db_def)
  have "event_added ''u'' ''20'' MESSAGE_DELTA (wdb w) d1"
    unfolding event_added_def using j f rec
    by (intro exI [of _ r] exI [of _ s] exI [of _ e]) (auto simp: event_row_of_def e_def)
  moreover have "event_payload ?h \<lparr>wdb = d1, wfiles = fs1\<rparr> e = Inr (JObj [])"
  proof -
    have "read_verified (h_sha256 ?h) fs1 ?base (e_data_ref e) (e_data_offset e) (e_data_bytes e) (Some (e_data_digest e))
        = Inr (norm_json True ?rec)"
      using read_after_append [OF _ ap, of fs1] by (simp add: event_row_of_def event_record_def e_def)
    then show ?thesis
      by (simp add: event_payload_def base e_def event_row_of_def event_record_def norm_json_JObj data_dict_def)
  qed
  ultimately show ?thesis using ev f
    by (intro exI [of _ "\<lparr>wdb = d1, wfiles = fs1\<rparr>"] exI [of _ e0] exI [of _ e]) (simp add: e_def event_row_of_def)
qed


end
