(* ===== verification/GatewayAnswers.thy ===== *)
theory GatewayAnswers
  imports GatewayStream
begin

text \<open>
  What a client can rely on whatever it sends (\<open>src/code_forge/transport/server.py\<close>): the form of every
  answer, and that a GET request leaves the store alone.
\<close>

named_theorems reply_rules \<open>actions whose answers are well formed and that keep the store\<close>

section \<open>The form of an answer\<close>

definition error_statuses :: "nat set" where
  "error_statuses = {400, 404, 409, 422, 500, 503}"

definition well_formed :: "response \<Rightarrow> bool" where
  "well_formed r \<longleftrightarrow> (case r of
     Stream _ \<Rightarrow> True
   | Reply status body \<Rightarrow> \<exists>code msg data. body = JObj [(''code'', JStr (business_code_value code)),
         (''message'', JStr msg), (''data'', data)]
       \<and> (if code = B_OK then status \<in> {200, 201} \<and> msg = ''success''
          else status \<in> error_statuses \<and> data = JObj []))"

definition replies :: "(app, response) io \<Rightarrow> bool" where
  "replies m \<longleftrightarrow> (\<forall>a r a'. m a = (Inr r, a') \<longrightarrow> well_formed r)"

lemma well_formed_ok: "status \<in> {200, 201} \<Longrightarrow> well_formed (ok_reply status j)"
  unfolding well_formed_def ok_reply_def by (auto intro!: exI [of _ B_OK])

lemma well_formed_error: "code \<noteq> B_OK \<Longrightarrow> status \<in> error_statuses \<Longrightarrow> well_formed (business_error code status msg)"
  unfolding well_formed_def business_error_def by (auto intro!: exI [of _ code])

lemma well_formed_error_reply: "well_formed (error_reply e)"
proof (cases e)
  case (DomainError c msg)
  have "fst (domain_error_answer c) \<noteq> B_OK \<and> snd (domain_error_answer c) \<in> error_statuses"
    by (cases c) (simp_all add: error_statuses_def)
  then show ?thesis
    by (auto simp: DomainError error_reply_def domain_error_reply_def split: prod.split intro!: well_formed_error)
qed (auto simp: error_reply_def error_statuses_def intro!: well_formed_error)

lemma replies_then [reply_rules]: "(\<And>x. replies (f x)) \<Longrightarrow> replies (thenS m f)"
  unfolding replies_def by (blast elim: thenS_InrE)

lemma replies_raise [reply_rules]: "replies (raiseS e)"
  by (simp add: replies_def raiseS_def)

lemma replies_ok [reply_rules]: "replies (returnS (ok_reply 200 j))" "replies (returnS (ok_reply 201 j))"
  by (simp_all add: replies_def returnS_def well_formed_ok)

lemma replies_stream [reply_rules]: "replies (returnS (Stream s))"
  by (simp add: replies_def returnS_def well_formed_def)

lemma replies_if [reply_rules]: "replies m \<Longrightarrow> replies k \<Longrightarrow> replies (if b then m else k)"
  by simp

lemma replies_option [reply_rules]:
  "replies m \<Longrightarrow> (\<And>x. replies (f x)) \<Longrightarrow> replies (case y of None \<Rightarrow> m | Some x \<Rightarrow> f x)"
  by (simp split: option.split)

lemma replies_pair [reply_rules]: "(\<And>x y. replies (f x y)) \<Longrightarrow> replies (case p of (x, y) \<Rightarrow> f x y)"
  by (simp split: prod.split)

lemmas handlers = health_def handle_create_session_def handle_update_session_def handle_get_session_def
  handle_list_sessions_def handle_get_session_state_def handle_get_message_def handle_list_session_messages_def
  handle_send_message_def handle_reply_def handle_cancel_message_def handle_stream_session_events_def
  handle_list_session_events_def handle_list_session_files_def handle_read_session_file_def message_stream_def

lemma replies_dispatch: "(\<forall>(p, m) \<in> set hs. replies m) \<Longrightarrow> replies (dispatch hs path)"
proof (cases "map_of hs path")
  case None
  then show ?thesis by (simp add: dispatch_def replies_def returnS_def well_formed_error error_statuses_def)
next
  case (Some m)
  assume "\<forall>(p, m) \<in> set hs. replies m"
  then show ?thesis using map_of_SomeD [OF Some] by (auto simp: dispatch_def Some)
qed

lemma get_replies: "\<forall>(p, m) \<in> set (get_handlers G q). replies m"
  by (simp add: get_handlers_def handlers Let_def reply_rules)

lemma post_replies: "\<forall>(p, m) \<in> set (post_handlers G body). replies m"
  by (simp add: post_handlers_def handlers Let_def reply_rules)

lemma answered: "replies m \<Longrightarrow> well_formed (fst (answer_errors m a))"
  by (auto simp: replies_def answer_errors_def well_formed_error_reply split: prod.split sum.split)

text \<open>C28: Every request is answered, and every answer has one form: an object of a code, a message and
  data. The code is 0000 exactly for the statuses 200 and 201; every other code comes with one of the
  error statuses and empty data. What an unexpected error says never reaches the client: its answer
  is the constant 500 one.\<close>

theorem gateway_answers_well_formed:
  "well_formed (fst (do_GET G path q a)) \<and> well_formed (fst (do_POST G path content_length input a))
   \<and> error_reply (KeyErr m1) = error_reply (OSErr m2) \<and> error_reply (IntegrityError m3) = error_reply (KeyErr m1)
   \<and> error_reply (ContentUnavailable m4) = error_reply (KeyErr m1)"
proof (intro conjI)
  show "well_formed (fst (do_GET G path q a))"
    unfolding do_GET_def by (intro answered replies_dispatch get_replies)
  show "well_formed (fst (do_POST G path content_length input a))"
    unfolding do_POST_def by (intro answered replies_then replies_dispatch post_replies)
qed (simp_all add: error_reply_def)

section \<open>Reading requests\<close>

text \<open>\<open>g\<close> is what the action keeps: the store, or the whole state.\<close>

definition keeps :: "(app \<Rightarrow> 'g) \<Rightarrow> (app, 'a) io \<Rightarrow> bool" where
  "keeps g m \<longleftrightarrow> (\<forall>a. g (snd (m a)) = g a)"

named_theorems keep_rules \<open>actions that keep a part of the state\<close>

lemma keeps_then [keep_rules]:
  assumes "keeps g m" "\<And>x. keeps g (f x)"
  shows "keeps g (thenS m f)"
  unfolding keeps_def
proof
  fix a
  obtain r a' where m: "m a = (r, a')" by (cases "m a") auto
  have "g a' = g a" using assms(1) m unfolding keeps_def by (metis snd_conv)
  then show "g (snd (thenS m f a)) = g a"
    using assms(2) by (cases r) (simp_all add: thenS_def m keeps_def)
qed

lemma keeps_plain [keep_rules]: "keeps g (returnS x)" "keeps g (raiseS e)" "keeps g (ask f)"
  "keeps g (readS k)" "keeps g (liftS r)"
  by (simp_all add: keeps_def returnS_def raiseS_def ask_def readS_def liftS_def)

lemma keeps_tree [keep_rules]: "keeps ap_world (in_tree t)"
  by (simp add: keeps_def in_tree_def split: prod.split)

lemma keeps_if [keep_rules]: "keeps g m \<Longrightarrow> keeps g k \<Longrightarrow> keeps g (if b then m else k)"
  by simp

lemma keeps_option [keep_rules]:
  "keeps g m \<Longrightarrow> (\<And>x. keeps g (f x)) \<Longrightarrow> keeps g (case y of None \<Rightarrow> m | Some x \<Rightarrow> f x)"
  by (simp split: option.split)

lemma keeps_pair [keep_rules]: "(\<And>x y. keeps g (f x y)) \<Longrightarrow> keeps g (case p of (x, y) \<Rightarrow> f x y)"
  by (simp split: prod.split)

definition file_paths :: "string set" where
  "file_paths = {''/v1/list-session-files'', ''/v1/read-session-file''}"

lemma get_keeps_store: "\<forall>(p, m) \<in> set (get_handlers G q). keeps ap_world m"
  by (simp add: get_handlers_def handlers session_of_query_def found_message_def managed_binding_def keep_rules)

lemma get_keeps_all: "\<forall>(p, m) \<in> set (get_handlers G q). p \<in> file_paths \<or> keeps (\<lambda>a. a) m"
  by (simp add: get_handlers_def handlers session_of_query_def found_message_def managed_binding_def keep_rules
      file_paths_def)

lemma dispatch_keeps:
  assumes "\<forall>(p, m) \<in> set hs. p \<in> S \<or> keeps g m" "path \<notin> S"
  shows "g (snd (answer_errors (dispatch hs path) a)) = g a"
proof -
  have "keeps g (dispatch hs path)"
  proof (cases "map_of hs path")
    case None
    then show ?thesis by (simp add: dispatch_def keep_rules)
  next
    case (Some m)
    then show ?thesis using map_of_SomeD [OF Some] assms by (auto simp: dispatch_def)
  qed
  then show ?thesis unfolding keeps_def answer_errors_def
    by (metis (no_types, lifting) Inl_Inr_False old.sum.simps(5,6) prod.case_eq_if snd_conv sum.exhaust)
qed

text \<open>A GET request never changes the store, whatever it asks for and however it ends; and only the
  two requests for files can change anything: they make the directories of the workspace.\<close>

theorem reading_keeps_the_store:
  "ap_world (snd (do_GET G path q a)) = ap_world a \<and> (path \<in> file_paths \<or> snd (do_GET G path q a) = a)"
proof
  show "ap_world (snd (do_GET G path q a)) = ap_world a"
    using dispatch_keeps [of "get_handlers G q" "{}" ap_world] get_keeps_store [of G q] by (simp add: do_GET_def)
  show "path \<in> file_paths \<or> snd (do_GET G path q a) = a"
    using dispatch_keeps [of "get_handlers G q" file_paths "\<lambda>a. a"] get_keeps_all [of G q] by (auto simp: do_GET_def)
qed

end
