(* ===== verification/DeepSeek.thy ===== *)
theory DeepSeek
  imports GraphHarness AgentRuntime
begin

text \<open>
  The OpenAI-compatible adapter of \<open>src/code_forge/integrations/deepseek_chat.py\<close>: the request it
  sends, the message it takes from an answer, and the merging of a streamed answer's deltas. The
  HTTP exchange is an argument: the body or the lines that came back, or the error it raised.
  \<open>temperature\<close> is left out of the request, because the model's JSON has no fractions. An error's
  text is that of the model's exceptions.
\<close>

definition chat_payload :: "string \<Rightarrow> json list \<Rightarrow> json list option \<Rightarrow> bool \<Rightarrow> json" where
  "chat_payload model messages tools streaming = JObj ([(''model'', JStr model), (''messages'', JArr messages),
     (''max_tokens'', JInt 1024), (''stream'', JBool streaming)]
     @ (case tools of None \<Rightarrow> []
        | Some ts \<Rightarrow> if ts = [] then [] else [(''tools'', JArr ts), (''tool_choice'', JStr ''auto'')]))"

section \<open>Subscripts\<close>

definition item_of :: "string \<Rightarrow> json \<Rightarrow> exn + json" where
  "item_of key j = (case j of
     JObj kvs \<Rightarrow> (case map_of kvs key of None \<Rightarrow> Inl (KeyErr key) | Some v \<Rightarrow> Inr v)
   | _ \<Rightarrow> Inl (ValueErr ''TypeError''))"

text \<open>\<open>value[0]\<close>: an object is looked up by the key 0, which JSON objects do not have.\<close>

definition first_of :: "json \<Rightarrow> exn + json" where
  "first_of j = (case j of
     JArr xs \<Rightarrow> (case xs of [] \<Rightarrow> Inl (KeyErr ''IndexError'') | x # _ \<Rightarrow> Inr x)
   | JStr s \<Rightarrow> (case s of [] \<Rightarrow> Inl (KeyErr ''IndexError'') | c # _ \<Rightarrow> Inr (JStr [c]))
   | JObj _ \<Rightarrow> Inl (KeyErr ''0'')
   | _ \<Rightarrow> Inl (ValueErr ''TypeError''))"

definition unavailable :: "string \<Rightarrow> exn" where
  "unavailable msg = DomainError DEPENDENCY_UNAVAILABLE msg"

definition chat_message_of :: "string \<Rightarrow> exn + json" where
  "chat_message_of body = (case loads body of
     None \<Rightarrow> Inl (unavailable ''DeepSeek returned invalid JSON'')
   | Some data \<Rightarrow>
       (case bindE (item_of ''choices'' data) (\<lambda>cs. bindE (first_of cs) (item_of ''message'')) of
          Inl _ \<Rightarrow> Inl (unavailable ''DeepSeek response did not contain a message'')
        | Inr msg \<Rightarrow> Inr msg))"

section \<open>The exchange\<close>

record adapter =
  ad_api_key :: string
  ad_model :: string
  ad_base_url :: string
  ad_verify_ssl :: bool

record chat_request =
  cq_url :: string
  cq_data :: string
  cq_headers :: "(string \<times> string) list"
  cq_verified :: bool

definition chat_request_of :: "adapter \<Rightarrow> json list \<Rightarrow> json list option \<Rightarrow> bool \<Rightarrow> chat_request" where
  "chat_request_of a messages tools streaming =
     \<lparr>cq_url = ad_base_url a @ ''/chat/completions'',
      cq_data = utf8_encode (dumps False '', '' '': '' (chat_payload (ad_model a) messages tools streaming)),
      cq_headers = [(''Authorization'', ''Bearer '' @ ad_api_key a), (''Content-Type'', ''application/json'')],
      cq_verified = ad_verify_ssl a\<rparr>"

text \<open>
  What \<open>urlopen\<close> and reading the answer come to: the bytes of a body, an HTTP error with its decoded
  detail, an error of the connection, or another exception, which nothing here catches.
\<close>

datatype exchange = Answered string | Http_error int string | Url_error string | Broken exn

definition complete_sync :: "(chat_request \<Rightarrow> exchange) \<Rightarrow> adapter \<Rightarrow> json list \<Rightarrow> json list option \<Rightarrow> exn + json" where
  "complete_sync http a messages tools = (case http (chat_request_of a messages tools False) of
     Answered bytes \<Rightarrow> (case utf8_decode bytes of
         None \<Rightarrow> Inl (ValueErr ''UnicodeDecodeError'')
       | Some body \<Rightarrow> chat_message_of body)
   | Http_error code detail \<Rightarrow> Inl (unavailable
       (''DeepSeek request failed with HTTP '' @ py_str_int code @ '': '' @ take 300 detail))
   | Url_error text \<Rightarrow> Inl (unavailable (''DeepSeek request failed: '' @ text))
   | Broken e \<Rightarrow> Inl e)"

section \<open>Merging a stream\<close>

record call_parts =
  cp_id :: json
  cp_name :: string
  cp_arguments :: string

record merged =
  mg_content :: "json list"
  mg_reasoning :: "json list"
  mg_calls :: "(int \<times> call_parts) list"

definition no_deltas :: merged where
  "no_deltas = \<lparr>mg_content = [], mg_reasoning = [], mg_calls = []\<rparr>"

text \<open>\<open>json.get(key)\<close> on an object; anything else has no \<open>get\<close>.\<close>

definition got :: "string \<Rightarrow> json \<Rightarrow> exn + json" where
  "got key j = bindE (json_get key j) (\<lambda>v. Inr (or_null v))"

definition or_empty :: "json \<Rightarrow> json" where
  "or_empty j = (if json_truthy j then j else JObj [])"

text \<open>\<open>text += value\<close> for a truthy value.\<close>

definition add_text :: "string \<Rightarrow> json \<Rightarrow> exn + string" where
  "add_text s j = (if \<not> json_truthy j then Inr s
     else case j of JStr t \<Rightarrow> Inr (s @ t) | _ \<Rightarrow> Inl (ValueErr ''TypeError''))"

definition call_index :: "json \<Rightarrow> exn + int" where
  "call_index call = bindE (json_get ''index'' call) (\<lambda>v. case v of
     None \<Rightarrow> Inr 0
   | Some (JInt i) \<Rightarrow> Inr i
   | Some (JBool b) \<Rightarrow> Inr (if b then 1 else 0)
   | Some (JStr s) \<Rightarrow> (case py_int s of None \<Rightarrow> Inl (ValueErr ''invalid literal for int()'') | Some i \<Rightarrow> Inr i)
   | Some _ \<Rightarrow> Inl (ValueErr ''TypeError''))"

definition merge_call :: "json \<Rightarrow> merged \<Rightarrow> exn + merged" where
  "merge_call call m =
     bindE (call_index call) (\<lambda>i.
     let current = (case map_of (mg_calls m) i of Some c \<Rightarrow> c
                    | None \<Rightarrow> \<lparr>cp_id = JStr '''', cp_name = '''', cp_arguments = ''''\<rparr>) in
     bindE (got ''id'' call) (\<lambda>ident.
     bindE (got ''function'' call) (\<lambda>fn.
     bindE (bindE (got ''name'' (or_empty fn)) (add_text (cp_name current))) (\<lambda>name.
     bindE (bindE (got ''arguments'' (or_empty fn)) (add_text (cp_arguments current))) (\<lambda>args.
     Inr (m\<lparr>mg_calls := AList.update i
            \<lparr>cp_id = (if json_truthy ident then ident else cp_id current), cp_name = name, cp_arguments = args\<rparr>
            (mg_calls m)\<rparr>))))))"

fun merge_calls :: "json list \<Rightarrow> merged \<Rightarrow> exn + merged" where
  "merge_calls [] m = Inr m"
| "merge_calls (call # calls) m = bindE (merge_call call m) (merge_calls calls)"

text \<open>Iterating over what is no list: a string's characters or an object's keys have no \<open>get\<close>.\<close>

definition call_items :: "json \<Rightarrow> exn + json list" where
  "call_items j = (if \<not> json_truthy j then Inr []
     else case j of JArr xs \<Rightarrow> Inr xs | _ \<Rightarrow> Inl (ValueErr ''AttributeError''))"

definition merge_delta :: "json \<Rightarrow> merged \<Rightarrow> exn + (stream_event list \<times> merged)" where
  "merge_delta delta m =
     bindE (got ''content'' delta) (\<lambda>content.
     bindE (got ''reasoning_content'' delta) (\<lambda>reasoning.
     bindE (bindE (got ''tool_calls'' delta) call_items) (\<lambda>calls.
     let m1 = (if json_truthy content then m\<lparr>mg_content := mg_content m @ [content]\<rparr> else m);
         m2 = (if json_truthy reasoning then m1\<lparr>mg_reasoning := mg_reasoning m1 @ [reasoning]\<rparr> else m1) in
     bindE (merge_calls calls m2) (\<lambda>m3.
     Inr (if json_truthy content then [Content_event content] else [], m3)))))"

definition delta_of :: "string \<Rightarrow> exn + json" where
  "delta_of raw_data = (case loads raw_data of
     None \<Rightarrow> Inl (ValueErr ''JSONDecodeError'')
   | Some chunk \<Rightarrow> bindE (item_of ''choices'' chunk) (\<lambda>cs. bindE (first_of cs) (\<lambda>c.
       bindE (got ''delta'' c) (\<lambda>d. Inr (or_empty d)))))"

text \<open>
  The lines, decoded: the events they gave before the end of the stream or the first error. A delta
  whose calls are malformed has already sent its content event.
\<close>

definition content_events :: "json \<Rightarrow> stream_event list" where
  "content_events delta = (case got ''content'' delta of
     Inr content \<Rightarrow> if json_truthy content then [Content_event content] else [] | Inl _ \<Rightarrow> [])"

fun merge_lines :: "string list \<Rightarrow> merged \<Rightarrow> stream_event list \<times> (exn + merged)" where
  "merge_lines [] m = ([], Inr m)"
| "merge_lines (raw # lines) m =
     (let line = py_strip raw in
      if \<not> py_startswith line ''data:'' then merge_lines lines m
      else let raw_data = py_strip (drop 5 line) in
        if raw_data = ''[DONE]'' then ([], Inr m)
        else case delta_of raw_data of
          Inl e \<Rightarrow> ([], Inl e)
        | Inr delta \<Rightarrow>
            (case merge_delta delta m of
               Inl e \<Rightarrow> (content_events delta, Inl e)
             | Inr (events, m') \<Rightarrow>
                 (case merge_lines lines m' of (more_events, r) \<Rightarrow> (events @ more_events, r))))"

definition call_json :: "call_parts \<Rightarrow> json" where
  "call_json c = JObj [(''id'', cp_id c), (''type'', JStr ''function''),
     (''function'', JObj [(''name'', JStr (cp_name c)), (''arguments'', JStr (cp_arguments c))])]"

fun join_text :: "json list \<Rightarrow> exn + string" where
  "join_text [] = Inr ''''"
| "join_text (JStr s # js) = bindE (join_text js) (\<lambda>t. Inr (s @ t))"
| "join_text (_ # js) = Inl (ValueErr ''TypeError'')"

definition merged_message :: "merged \<Rightarrow> exn + json_dict" where
  "merged_message m =
     bindE (join_text (mg_content m)) (\<lambda>content.
     bindE (join_text (mg_reasoning m)) (\<lambda>reasoning.
     Inr ([(''role'', JStr ''assistant''), (''content'', JStr content)]
       @ (if mg_reasoning m = [] then [] else [(''reasoning_content'', JStr reasoning)])
       @ (if mg_calls m = [] then []
          else [(''tool_calls'', JArr (map (\<lambda>(i, c). call_json c) (sort_key fst (mg_calls m))))]))))"

text \<open>The events of a streamed answer and how it ended; \<open>exchange\<close> is the HTTP exchange.\<close>

definition streamed_events :: "exn + string list \<Rightarrow> stream_event list \<times> exn option" where
  "streamed_events exchange = (case exchange of
     Inl e \<Rightarrow> ([], Some e)
   | Inr lines \<Rightarrow> (case merge_lines lines no_deltas of
       (events, Inl e) \<Rightarrow> (events, Some e)
     | (events, Inr m) \<Rightarrow> (case merged_message m of
           Inl e \<Rightarrow> (events, Some e)
         | Inr msg \<Rightarrow> (events @ [Message_event msg], None))))"

definition complete_stream :: "exn + string list \<Rightarrow> stream_event act list" where
  "complete_stream exchange = (case streamed_events exchange of
     (events, failure) \<Rightarrow> map ret events
       @ (case failure of None \<Rightarrow> []
          | Some e \<Rightarrow> [raise (unavailable (''DeepSeek streaming failed: '' @ exn_text e))]))"

text \<open>\<open>complete_stream\<close> with the request it makes; the lines are decoded with replacement characters.\<close>

definition stream_completion ::
  "(chat_request \<Rightarrow> exn + string list) \<Rightarrow> adapter \<Rightarrow> json list \<Rightarrow> json list option \<Rightarrow> stream_event act list" where
  "stream_completion http a messages tools = complete_stream (http (chat_request_of a messages tools True))"

section \<open>The parts of a streamed message\<close>

definition event_text :: "stream_event \<Rightarrow> json list" where
  "event_text e = (case e of Content_event j \<Rightarrow> [j] | _ \<Rightarrow> [])"

lemma merge_call_content: "merge_call call m = Inr m' \<Longrightarrow> mg_content m' = mg_content m"
  by (auto simp: merge_call_def Let_def elim!: bindE_InrE)

lemma merge_calls_content: "merge_calls calls m = Inr m' \<Longrightarrow> mg_content m' = mg_content m"
  by (induction calls m rule: merge_calls.induct) (auto elim!: bindE_InrE dest: merge_call_content)

lemma merge_delta_content:
  "merge_delta delta m = Inr (events, m') \<Longrightarrow> mg_content m' = mg_content m @ concat (map event_text events)"
  by (auto simp: merge_delta_def Let_def event_text_def elim!: bindE_InrE dest!: merge_calls_content split: if_splits)

lemma merge_lines_content:
  "merge_lines lines m = (events, Inr m') \<Longrightarrow> mg_content m' = mg_content m @ concat (map event_text events)"
proof (induction lines m arbitrary: events rule: merge_lines.induct)
  case (2 raw lines m)
  then show ?case
    by (auto simp: Let_def split: if_splits sum.splits prod.splits dest!: merge_delta_content)
qed simp

lemma merge_lines_events:
  "merge_lines lines m = (events, r) \<Longrightarrow> \<forall>e\<in>set events. \<exists>j. e = Content_event j"
proof (induction lines m arbitrary: events r rule: merge_lines.induct)
  case (2 raw lines m)
  show ?case
  proof (cases "\<not> py_startswith (py_strip raw) ''data:'' \<or> py_strip (drop 5 (py_strip raw)) = ''[DONE]''")
    case True
    then show ?thesis using "2.IH"(1) "2.prems" by (auto simp: Let_def split: if_splits)
  next
    case False
    obtain d where d: "delta_of (py_strip (drop 5 (py_strip raw))) = d" by blast
    show ?thesis
    proof (cases d)
      case (Inl e)
      then show ?thesis using "2.prems" False d by (simp add: Let_def)
    next
      case (Inr delta)
      have own: "\<forall>e\<in>set es. \<exists>j. e = Content_event j" if "merge_delta delta m = Inr (es, m')" for es m'
        using that by (auto simp: merge_delta_def Let_def elim!: bindE_InrE split: if_splits)
      have failed: "\<forall>e\<in>set (content_events delta). \<exists>j. e = Content_event j"
        by (auto simp: content_events_def split: sum.splits)
      show ?thesis
      proof (cases "merge_delta delta m")
        case (Inl e)
        then show ?thesis using "2.prems" False d Inr failed by (simp add: Let_def)
      next
        case inner: (Inr p)
        obtain es m' where p: "p = (es, m')" by (cases p)
        obtain rest r' where rest: "merge_lines lines m' = (rest, r')" by fastforce
        have "\<forall>e\<in>set rest. \<exists>j. e = Content_event j"
          using "2.IH"(2) [OF refl _ refl _ _ inner [unfolded p] refl rest] False Inr d by simp
        then show ?thesis using "2.prems" False d Inr inner p rest own [of es m'] by (auto simp: Let_def)
      qed
    qed
  qed
qed simp

lemma join_text_strings: "join_text js = Inr t \<Longrightarrow> \<exists>pieces. js = map JStr pieces \<and> t = concat pieces"
proof (induction js arbitrary: t rule: join_text.induct)
  case (2 s js)
  then obtain u where "join_text js = Inr u" "t = s @ u" by (auto elim: bindE_InrE)
  then obtain pieces where "js = map JStr pieces" "u = concat pieces" using "2.IH" by blast
  then show ?case using \<open>t = s @ u\<close> by (intro exI [of _ "s # pieces"]) simp
qed simp_all

lemma content_list:
  "\<forall>e\<in>set events. \<exists>j. e = Content_event j \<Longrightarrow> events = map Content_event (concat (map event_text events))"
  by (induction events) (auto simp: event_text_def)

text \<open>C34: A streamed answer is consistent: when the stream ends well, its last event is the whole
  message, every event before it is a piece of text, and the pieces put together in order are the
  content of the message. So the deltas a client saw are the text that is recorded as completed.\<close>

theorem streamed_text_is_the_message:
  assumes "streamed_events (Inr lines) = (events, None)"
  shows "\<exists>pieces msg. events = map (\<lambda>t. Content_event (JStr t)) pieces @ [Message_event msg]
    \<and> map_of msg ''content'' = Some (JStr (concat pieces)) \<and> map_of msg ''role'' = Some (JStr ''assistant'')"
proof -
  obtain es m where m: "merge_lines lines no_deltas = (es, Inr m)"
    using assms by (auto simp: streamed_events_def split: prod.splits sum.splits)
  obtain msg where msg: "merged_message m = Inr msg" "events = es @ [Message_event msg]"
    using assms m by (auto simp: streamed_events_def split: sum.splits)
  have c: "mg_content m = concat (map event_text es)" using merge_lines_content [OF m] by (simp add: no_deltas_def)
  obtain t where t: "join_text (mg_content m) = Inr t"
      "map_of msg ''content'' = Some (JStr t)" "map_of msg ''role'' = Some (JStr ''assistant'')"
    using msg(1) by (auto simp: merged_message_def elim!: bindE_InrE)
  obtain pieces where p: "mg_content m = map JStr pieces" "t = concat pieces" using join_text_strings [OF t(1)] by blast
  have "es = map Content_event (concat (map event_text es))" by (rule content_list [OF merge_lines_events [OF m]])
  then have "es = map Content_event (map JStr pieces)" using c p(1) by metis
  then have "es = map (\<lambda>t. Content_event (JStr t)) pieces" by simp
  then show ?thesis using msg(2) t p(2) by blast
qed

definition demo_lines :: "string list" where
  "demo_lines = [''data: {\"choices\":[{\"delta\":{\"content\":\"Hel\"}}]}'', '''',
     ''data: {\"choices\":[{\"delta\":{\"content\":\"lo\"}}]}'', ''data: [DONE]'']"

lemma demo_streamed: "snd (streamed_events (Inr demo_lines)) = None"
  by code_simp

theorem streamed_text_is_the_message_witness:
  "\<exists>events msg. streamed_events (Inr demo_lines) = (events @ [Message_event msg], None)
     \<and> map_of msg ''role'' = Some (JStr ''assistant'')"
proof -
  have "streamed_events (Inr demo_lines) = (fst (streamed_events (Inr demo_lines)), None)"
    using demo_streamed by (metis prod.collapse)
  from streamed_text_is_the_message [OF this] this show ?thesis by metis
qed

end
