(* ===== verification/AuditRules.thy ===== *)
theory AuditRules
  imports Contracts
begin

text \<open>
  The audit rules of \<open>src/code_forge/audit.py\<close>: what \<open>on_insert\<close> and \<open>on_update\<close> accept and the
  \<open>AuditFields\<close> they give. A \<open>datetime\<close> is naive, has a \<open>tzinfo\<close> that gives no offset, or is
  aware; aware ones are ordered by the instant they stand for, and Python refuses to order an
  aware one against the others.
\<close>

section \<open>Instants\<close>

datatype instant = Instant (instant_micros: int)

instantiation instant :: linorder
begin

definition less_eq_instant :: "instant \<Rightarrow> instant \<Rightarrow> bool" where
  "less_eq_instant a b = (instant_micros a \<le> instant_micros b)"

definition less_instant :: "instant \<Rightarrow> instant \<Rightarrow> bool" where
  "less_instant a b = (instant_micros a < instant_micros b)"

instance
  by standard (auto simp: less_eq_instant_def less_instant_def instant.expand)

end

datatype py_datetime = Naive int | NoOffset int | Aware instant

definition datetime_aware :: "py_datetime \<Rightarrow> bool" where
  "datetime_aware d = (case d of Aware _ \<Rightarrow> True | _ \<Rightarrow> False)"

text \<open>\<open>a < b\<close>; a time without an offset is compared as a naive one.\<close>

fun datetime_less :: "py_datetime \<Rightarrow> py_datetime \<Rightarrow> exn + bool" where
  "datetime_less (Aware a) (Aware b) = Inr (a < b)"
| "datetime_less (Aware a) _ = Inl (ValueErr ''TypeError'')"
| "datetime_less _ (Aware b) = Inl (ValueErr ''TypeError'')"
| "datetime_less (Naive a) (Naive b) = Inr (a < b)"
| "datetime_less (Naive a) (NoOffset b) = Inr (a < b)"
| "datetime_less (NoOffset a) (Naive b) = Inr (a < b)"
| "datetime_less (NoOffset a) (NoOffset b) = Inr (a < b)"

fun_cases datetime_less_TrueE: "datetime_less (Aware a) d = Inr b"

section \<open>The rules\<close>

record audit_fields =
  af_date_created :: py_datetime
  af_created_by :: string
  af_date_updated :: py_datetime
  af_updated_by :: string

definition audit_validate :: "string \<Rightarrow> py_datetime \<Rightarrow> exn + unit" where
  "audit_validate actor timestamp =
     (if py_strip actor = [] \<or> 200 < length actor
      then Inl (DomainError INVALID_REQUEST ''Audit actor must be a nonempty reference up to 200 characters'')
      else if \<not> datetime_aware timestamp
      then Inl (DomainError INVALID_REQUEST ''Audit timestamp must be timezone-aware'')
      else Inr ())"

definition on_insert :: "string \<Rightarrow> py_datetime \<Rightarrow> exn + audit_fields" where
  "on_insert actor db_time = bindE (audit_validate actor db_time) (\<lambda>_.
     Inr \<lparr>af_date_created = db_time, af_created_by = actor, af_date_updated = db_time, af_updated_by = actor\<rparr>)"

definition on_update :: "audit_fields \<Rightarrow> string \<Rightarrow> py_datetime \<Rightarrow> bool \<Rightarrow> exn + audit_fields" where
  "on_update bef actor db_time changed =
     (if \<not> changed then Inr bef
      else bindE (audit_validate actor db_time) (\<lambda>_.
           bindE (datetime_less db_time (af_date_updated bef)) (\<lambda>early.
           if early then Inl (DomainError STATE_CONFLICT ''Audit update precedes the last committed update'')
           else Inr \<lparr>af_date_created = af_date_created bef, af_created_by = af_created_by bef,
                     af_date_updated = db_time, af_updated_by = actor\<rparr>)))"

section \<open>Histories\<close>

text \<open>The fields a row can carry: inserted once, then updated any number of times.\<close>

inductive audit_history :: "audit_fields \<Rightarrow> audit_fields \<Rightarrow> bool" where
  inserted: "on_insert actor t = Inr f \<Longrightarrow> audit_history f f"
| updated: "audit_history f g \<Longrightarrow> on_update g actor t changed = Inr h \<Longrightarrow> audit_history f h"

definition valid_actor :: "string \<Rightarrow> bool" where
  "valid_actor a \<longleftrightarrow> py_strip a \<noteq> [] \<and> length a \<le> 200"

definition audit_ok :: "audit_fields \<Rightarrow> bool" where
  "audit_ok f \<longleftrightarrow> valid_actor (af_created_by f) \<and> valid_actor (af_updated_by f)
     \<and> (\<exists>a b. af_date_created f = Aware a \<and> af_date_updated f = Aware b \<and> a \<le> b)"

lemma audit_validate_ok: "audit_validate a t = Inr u \<longleftrightarrow> valid_actor a \<and> (\<exists>i. t = Aware i)"
  by (cases t) (auto simp: audit_validate_def valid_actor_def datetime_aware_def)

lemma on_insert_ok: "on_insert a t = Inr f \<Longrightarrow> audit_ok f"
  by (auto simp: on_insert_def audit_ok_def audit_validate_ok elim!: bindE_InrE)

lemma on_update_ok:
  assumes "audit_ok f" "on_update f a t changed = Inr g"
  shows "audit_ok g \<and> af_date_created g = af_date_created f \<and> af_created_by g = af_created_by f"
  using assms
  by (auto simp: on_update_def audit_ok_def audit_validate_ok not_less split: if_splits
      elim!: bindE_InrE datetime_less_TrueE)

text \<open>Whatever the updates, the creation of a row stays as it was and its times stay in order.\<close>

theorem audit_history_ok:
  "audit_history f g \<Longrightarrow> audit_ok g \<and> af_date_created g = af_date_created f \<and> af_created_by g = af_created_by f"
  by (induction rule: audit_history.induct) (auto dest: on_insert_ok on_update_ok)

end
