(* ===== verification/ImpalaConfig.thy ===== *)
theory ImpalaConfig
  imports PyText Tooling
begin

text \<open>
  The server-owned binding of a scope to a department account
  (\<open>src/code_forge/integrations/impala/config.py\<close>): the policy with its bounds, the profile and its
  digest, and \<open>DepartmentBindings\<close>, which reads the configuration file anew on every call.

  The content of the file is an argument, or the error reading it raised. Every error
  \<open>resolve\<close> catches becomes the one \<open>DomainError\<close>, so only the error it lets through keeps its
  identity here: the \<open>IndexError\<close> of a list of departments, \<^term>\<open>KeyErr ''IndexError''\<close>. A key
  that is missing is \<^term>\<open>ValueErr ''KeyError''\<close>. JSON numbers with a fraction are no JSON here.
\<close>

section \<open>The policy\<close>

record query_policy =
  qp_default_rows :: int
  qp_max_rows :: int
  qp_max_bytes :: int
  qp_cell_bytes :: int
  qp_max_columns :: int
  qp_timeout_seconds :: int
  qp_rpc_timeout_seconds :: int
  qp_mem_limit_mb :: int
  qp_scan_bytes_limit_mb :: int
  qp_max_user_concurrency :: int
  qp_max_department_concurrency :: int
  qp_max_queries_per_message :: int
  qp_max_rows_per_message :: int
  qp_max_bytes_per_message :: int
  qp_max_queries_per_user_hour :: int
  qp_max_rows_per_user_hour :: int
  qp_max_bytes_per_user_hour :: int
  qp_max_queries_per_department_hour :: int
  qp_max_rows_per_department_hour :: int
  qp_max_bytes_per_department_hour :: int
  qp_required_filters :: "(string \<times> json) list"
  qp_allowed_udfs :: "json list"

text \<open>The integer fields in the order of the class, with their defaults.\<close>

definition policy_defaults :: "(string \<times> int) list" where
  "policy_defaults = [(''default_rows'', 100), (''max_rows'', 1000), (''max_bytes'', 32000),
     (''cell_bytes'', 2048), (''max_columns'', 100), (''timeout_seconds'', 60),
     (''rpc_timeout_seconds'', 5), (''mem_limit_mb'', 1024), (''scan_bytes_limit_mb'', 10240),
     (''max_user_concurrency'', 1), (''max_department_concurrency'', 4),
     (''max_queries_per_message'', 12), (''max_rows_per_message'', 5000),
     (''max_bytes_per_message'', 256000), (''max_queries_per_user_hour'', 120),
     (''max_rows_per_user_hour'', 20000), (''max_bytes_per_user_hour'', 1024000),
     (''max_queries_per_department_hour'', 600), (''max_rows_per_department_hour'', 100000),
     (''max_bytes_per_department_hour'', 5120000)]"

text \<open>The arguments of \<open>QueryPolicy(**policy)\<close>: an unknown name is an error, and so is a value
  that is no positive integer (a \<open>bool\<close> is none).\<close>

fun policy_ints :: "json_dict \<Rightarrow> (string \<times> int) list \<Rightarrow> exn + int list" where
  "policy_ints kvs [] = Inr []"
| "policy_ints kvs ((key, dflt) # rest) =
     bindE (case map_of kvs key of
              None \<Rightarrow> Inr dflt
            | Some (JInt i) \<Rightarrow> if 0 < i then Inr i else Inl (ValueErr (''Invalid Impala policy: '' @ key))
            | Some _ \<Rightarrow> Inl (ValueErr (''Invalid Impala policy: '' @ key)))
       (\<lambda>i. bindE (policy_ints kvs rest) (\<lambda>is. Inr (i # is)))"

definition check_policy :: "query_policy \<Rightarrow> exn + query_policy" where
  "check_policy p =
     (if \<not> (qp_default_rows p \<le> qp_max_rows p \<and> qp_max_rows p \<le> 10000)
      then Inl (ValueErr ''Impala row bounds must satisfy default <= max <= 10000'')
      else if \<not> (4096 \<le> qp_max_bytes p \<and> qp_max_bytes p \<le> 256000) \<or> qp_cell_bytes p > qp_max_bytes p
      then Inl (ValueErr ''Invalid Impala byte bounds'')
      else if qp_max_columns p > 100 \<or> qp_timeout_seconds p > 3600
      then Inl (ValueErr ''Impala column/time limits are too large'')
      else if qp_rpc_timeout_seconds p > qp_timeout_seconds p
      then Inl (ValueErr ''RPC timeout must not exceed query deadline'')
      else Inr p)"

definition policy_of_ints :: "int list \<Rightarrow> (string \<times> json) list \<Rightarrow> json list \<Rightarrow> query_policy" where
  "policy_of_ints v filters udfs = \<lparr>qp_default_rows = v ! 0, qp_max_rows = v ! 1, qp_max_bytes = v ! 2,
     qp_cell_bytes = v ! 3, qp_max_columns = v ! 4, qp_timeout_seconds = v ! 5,
     qp_rpc_timeout_seconds = v ! 6, qp_mem_limit_mb = v ! 7, qp_scan_bytes_limit_mb = v ! 8,
     qp_max_user_concurrency = v ! 9, qp_max_department_concurrency = v ! 10,
     qp_max_queries_per_message = v ! 11, qp_max_rows_per_message = v ! 12,
     qp_max_bytes_per_message = v ! 13, qp_max_queries_per_user_hour = v ! 14,
     qp_max_rows_per_user_hour = v ! 15, qp_max_bytes_per_user_hour = v ! 16,
     qp_max_queries_per_department_hour = v ! 17, qp_max_rows_per_department_hour = v ! 18,
     qp_max_bytes_per_department_hour = v ! 19, qp_required_filters = filters, qp_allowed_udfs = udfs\<rparr>"

definition make_policy :: "json_dict \<Rightarrow> (string \<times> json) list \<Rightarrow> json list \<Rightarrow> exn + query_policy" where
  "make_policy kvs filters udfs =
     (if \<not> (fst ` set kvs \<subseteq> set (''required_filters'' # ''allowed_udfs'' # map fst policy_defaults))
      then Inl (ValueErr ''TypeError'')
      else bindE (policy_ints kvs policy_defaults) (\<lambda>v. check_policy (policy_of_ints v filters udfs)))"

text \<open>\<open>policy["required_filters"] = ...; policy["allowed_udfs"] = ...\<close>\<close>

definition items_of :: "json \<Rightarrow> exn + json_dict" where
  "items_of j = (case j of JObj kvs \<Rightarrow> Inr kvs | _ \<Rightarrow> Inl (ValueErr ''AttributeError''))"

definition py_tuple :: "json \<Rightarrow> exn + json list" where
  "py_tuple j = (case j of
     JArr xs \<Rightarrow> Inr xs | JStr s \<Rightarrow> Inr (map (\<lambda>c. JStr [c]) s) | JObj kvs \<Rightarrow> Inr (map (JStr \<circ> fst) kvs)
   | _ \<Rightarrow> Inl (ValueErr ''TypeError''))"

definition dict_get :: "json_dict \<Rightarrow> string \<Rightarrow> json \<Rightarrow> json" where
  "dict_get kvs key dflt = (case map_of kvs key of None \<Rightarrow> dflt | Some v \<Rightarrow> v)"

definition policy_of_json :: "json \<Rightarrow> exn + query_policy" where
  "policy_of_json j =
     bindE (items_of j) (\<lambda>kvs.
     bindE (items_of (dict_get kvs ''required_filters'' (JObj []))) (\<lambda>filters.
     bindE (py_tuple (dict_get kvs ''allowed_udfs'' (JArr []))) (\<lambda>udfs.
     make_policy kvs (sort_key fst filters) udfs)))"

section \<open>The profile\<close>

text \<open>The fields \<open>resolve\<close> does not check can hold any JSON value.\<close>

record department_profile =
  dp_department :: string
  dp_host :: string
  dp_user :: string
  dp_port :: int
  dp_database :: string
  dp_auth_mechanism :: string
  dp_password_env :: json
  dp_ca_cert :: json
  dp_use_http_transport :: bool
  dp_http_path :: json
  dp_request_pool :: json
  dp_policy :: query_policy

definition policy_json :: "query_policy \<Rightarrow> json" where
  "policy_json p = JObj (map (\<lambda>(k, v). (k, JInt v)) [(''default_rows'', qp_default_rows p),
      (''max_rows'', qp_max_rows p), (''max_bytes'', qp_max_bytes p), (''cell_bytes'', qp_cell_bytes p),
      (''max_columns'', qp_max_columns p), (''timeout_seconds'', qp_timeout_seconds p),
      (''rpc_timeout_seconds'', qp_rpc_timeout_seconds p), (''mem_limit_mb'', qp_mem_limit_mb p),
      (''scan_bytes_limit_mb'', qp_scan_bytes_limit_mb p),
      (''max_user_concurrency'', qp_max_user_concurrency p),
      (''max_department_concurrency'', qp_max_department_concurrency p),
      (''max_queries_per_message'', qp_max_queries_per_message p),
      (''max_rows_per_message'', qp_max_rows_per_message p),
      (''max_bytes_per_message'', qp_max_bytes_per_message p),
      (''max_queries_per_user_hour'', qp_max_queries_per_user_hour p),
      (''max_rows_per_user_hour'', qp_max_rows_per_user_hour p),
      (''max_bytes_per_user_hour'', qp_max_bytes_per_user_hour p),
      (''max_queries_per_department_hour'', qp_max_queries_per_department_hour p),
      (''max_rows_per_department_hour'', qp_max_rows_per_department_hour p),
      (''max_bytes_per_department_hour'', qp_max_bytes_per_department_hour p)]
    @ [(''required_filters'', JArr (map (\<lambda>(t, c). JArr [JStr t, c]) (qp_required_filters p))),
       (''allowed_udfs'', JArr (qp_allowed_udfs p))])"

definition profile_json :: "department_profile \<Rightarrow> json" where
  "profile_json d = JObj [(''department'', JStr (dp_department d)), (''host'', JStr (dp_host d)),
     (''user'', JStr (dp_user d)), (''port'', JInt (dp_port d)), (''database'', JStr (dp_database d)),
     (''auth_mechanism'', JStr (dp_auth_mechanism d)), (''password_env'', dp_password_env d),
     (''ca_cert'', dp_ca_cert d), (''use_http_transport'', JBool (dp_use_http_transport d)),
     (''http_path'', dp_http_path d), (''request_pool'', dp_request_pool d),
     (''policy'', policy_json (dp_policy d))]"

text \<open>\<open>json.dumps(..., sort_keys=True)\<close> with the default \<open>ensure_ascii=True\<close>.\<close>

definition ascii_char :: "char \<Rightarrow> string" where
  "ascii_char c = (let n = of_char c :: nat in
     if n < 127 then esc_char c
     else [CHR 0x5C, CHR ''u'', CHR ''0'', CHR ''0'', hex_digit (n div 16), hex_digit (n mod 16)])"

definition quote_ascii :: "string \<Rightarrow> string" where
  "quote_ascii s = CHR 0x22 # concat (map ascii_char s) @ [CHR 0x22]"

fun dumps_ascii :: "json \<Rightarrow> string" where
  "dumps_ascii (JStr s) = quote_ascii s"
| "dumps_ascii (JArr xs) = ''['' @ py_join '', '' (map dumps_ascii xs) @ '']''"
| "dumps_ascii (JObj kvs) =
     (let items = map (\<lambda>(k, v). (k, quote_ascii k @ '': '' @ dumps_ascii v)) kvs
      in ''{'' @ py_join '', '' (map snd (sort_key fst items)) @ ''}'')"
| "dumps_ascii j = dumps True '', '' '': '' j"

definition profile_digest :: "(string \<Rightarrow> string) \<Rightarrow> department_profile \<Rightarrow> string" where
  "profile_digest sha d = sha (utf8_encode (dumps_ascii (profile_json d)))"

section \<open>Reading the configuration\<close>

definition nth_item :: "'a list \<Rightarrow> int \<Rightarrow> exn + 'a" where
  "nth_item xs i = (let n = int (length xs); k = (if i < 0 then i + n else i) in
     if 0 \<le> k \<and> k < n then Inr (xs ! nat k) else Inl (KeyErr ''IndexError''))"

text \<open>\<open>value[key]\<close> for a key that is itself a JSON value.\<close>

definition subscript :: "json \<Rightarrow> json \<Rightarrow> exn + json" where
  "subscript j key = (case (j, key) of
     (JObj kvs, JStr k) \<Rightarrow> (case map_of kvs k of Some v \<Rightarrow> Inr v | None \<Rightarrow> Inl (ValueErr ''KeyError''))
   | (JArr xs, JInt i) \<Rightarrow> nth_item xs i
   | (JArr xs, JBool b) \<Rightarrow> nth_item xs (if b then 1 else 0)
   | (JStr s, JInt i) \<Rightarrow> bindE (nth_item s i) (\<lambda>c. Inr (JStr [c]))
   | (JStr s, JBool b) \<Rightarrow> bindE (nth_item s (if b then 1 else 0)) (\<lambda>c. Inr (JStr [c]))
   | _ \<Rightarrow> Inl (ValueErr ''TypeError''))"

definition size_of :: "json \<Rightarrow> exn + nat" where
  "size_of j = (case j of JObj kvs \<Rightarrow> Inr (length kvs) | JArr xs \<Rightarrow> Inr (length xs)
     | JStr s \<Rightarrow> Inr (length s) | _ \<Rightarrow> Inl (ValueErr ''TypeError''))"

text \<open>\<open>dict(value)\<close>: an object is copied, and a list of pairs is read as items. A pair is a list, a
  string or an object of two; a first component that is no string becomes a key that no keyword can
  be, which the second result records.\<close>

definition pair_of :: "json \<Rightarrow> (json \<times> json) option" where
  "pair_of j = (case j of JArr [a, b] \<Rightarrow> Some (a, b) | JStr [a, b] \<Rightarrow> Some (JStr [a], JStr [b])
     | JObj [(a, _), (b, _)] \<Rightarrow> Some (JStr a, JStr b) | _ \<Rightarrow> None)"

fun dict_of_pairs :: "json list \<Rightarrow> json_dict \<times> bool \<Rightarrow> exn + json_dict \<times> bool" where
  "dict_of_pairs [] acc = Inr acc"
| "dict_of_pairs (j # js) (kvs, odd_keys) = (case pair_of j of
     None \<Rightarrow> Inl (ValueErr ''ValueError'')
   | Some (JStr k, v) \<Rightarrow> dict_of_pairs js (dict_set k v kvs, odd_keys)
   | Some (JArr _, v) \<Rightarrow> Inl (ValueErr ''TypeError'')
   | Some (JObj _, v) \<Rightarrow> Inl (ValueErr ''TypeError'')
   | Some (_, v) \<Rightarrow> dict_of_pairs js (kvs, True))"

definition py_dict :: "json \<Rightarrow> exn + json_dict \<times> bool" where
  "py_dict j = (case j of
     JObj kvs \<Rightarrow> Inr (kvs, False)
   | JArr xs \<Rightarrow> dict_of_pairs xs ([], False)
   | JStr s \<Rightarrow> if s = [] then Inr ([], False) else Inl (ValueErr ''ValueError'')
   | _ \<Rightarrow> Inl (ValueErr ''TypeError''))"

definition without :: "string \<Rightarrow> json_dict \<Rightarrow> json_dict" where
  "without key kvs = filter (\<lambda>(k, _). k \<noteq> key) kvs"

definition string_value :: "json \<Rightarrow> exn + string" where
  "string_value j = (case j of JStr s \<Rightarrow> Inr s | _ \<Rightarrow> Inl (ValueErr ''Invalid Impala connection profile''))"

text \<open>\<open>[A-Za-z_][A-Za-z0-9_]{0,127}\<close>\<close>

definition word_start :: "char \<Rightarrow> bool" where
  "word_start c = ((CHR ''A'' \<le> c \<and> c \<le> CHR ''Z'') \<or> (CHR ''a'' \<le> c \<and> c \<le> CHR ''z'') \<or> c = CHR ''_'')"

definition word_char :: "char \<Rightarrow> bool" where
  "word_char c = (word_start c \<or> (CHR ''0'' \<le> c \<and> c \<le> CHR ''9''))"

definition is_identifier :: "string \<Rightarrow> bool" where
  "is_identifier s = (case s of [] \<Rightarrow> False | c # cs \<Rightarrow> word_start c \<and> length cs \<le> 127 \<and> list_all word_char cs)"

definition profile_keys :: "string list" where
  "profile_keys = [''host'', ''user'', ''port'', ''database'', ''auth_mechanism'', ''password_env'',
     ''ca_cert'', ''use_http_transport'', ''http_path'', ''request_pool'']"

text \<open>Construction of the profile and the checks after it.\<close>

definition make_profile :: "json \<Rightarrow> query_policy \<Rightarrow> json_dict \<Rightarrow> exn + department_profile" where
  "make_profile department policy raw =
     (if \<not> (fst ` set raw \<subseteq> set profile_keys) then Inl (ValueErr ''TypeError'')
      else
      bindE (string_value department) (\<lambda>dept.
      bindE (string_value (dict_get raw ''host'' JNull)) (\<lambda>host.
      bindE (string_value (dict_get raw ''user'' JNull)) (\<lambda>user.
      bindE (string_value (dict_get raw ''database'' (JStr ''default''))) (\<lambda>database.
      bindE (string_value (dict_get raw ''auth_mechanism'' (JStr ''LDAP''))) (\<lambda>auth.
      case (dict_get raw ''port'' (JInt 21050), dict_get raw ''use_http_transport'' (JBool False)) of
        (JInt port, JBool http) \<Rightarrow>
          if \<not> (1 \<le> length host \<and> length host \<le> 255) \<or> \<not> (1 \<le> length user \<and> length user \<le> 200)
             \<or> \<not> (1 \<le> port \<and> port \<le> 65535)
             \<or> \<not> (1 \<le> length dept \<and> length dept \<le> 100 \<and> list_all ref_char dept)
             \<or> auth \<noteq> ''LDAP''
          then Inl (ValueErr ''Invalid Impala connection profile'')
          else if \<not> json_truthy (dict_get raw ''password_env'' (JStr ''''))
          then Inl (ValueErr ''LDAP requires a password environment reference'')
          else if http then Inl (ValueErr ''HTTP transport requires a verified RPC-timeout adapter'')
          else if \<not> is_identifier database then Inl (ValueErr ''Invalid default database'')
          else Inr \<lparr>dp_department = dept, dp_host = host, dp_user = user, dp_port = port,
                 dp_database = database, dp_auth_mechanism = auth,
                 dp_password_env = dict_get raw ''password_env'' (JStr ''''),
                 dp_ca_cert = dict_get raw ''ca_cert'' (JStr ''''), dp_use_http_transport = http,
                 dp_http_path = dict_get raw ''http_path'' (JStr ''''),
                 dp_request_pool = dict_get raw ''request_pool'' (JStr ''''), dp_policy = policy\<rparr>
      | _ \<Rightarrow> Inl (ValueErr ''Invalid Impala connection profile'')))))))"

text \<open>The department of a scope; \<^const>\<open>JNull\<close> when the scope has none.\<close>

definition department_of :: "json_dict \<Rightarrow> json \<Rightarrow> string \<Rightarrow> exn + json" where
  "department_of data departments scope_id =
     bindE (subscript (JObj data) (JStr ''mode'')) (\<lambda>mode.
     if mode = JStr ''trusted_single_department''
     then bindE (size_of departments) (\<lambda>n.
            if n \<noteq> 1 then Inl (ValueErr ''Single-department mode requires exactly one department'')
            else subscript (JObj data) (JStr ''default_department''))
     else if mode = JStr ''mapped_departments''
     then bindE (items_of (dict_get data ''scope_departments'' (JObj []))) (\<lambda>scopes.
            Inr (dict_get scopes scope_id JNull))
     else Inl (ValueErr ''Unknown Impala binding mode''))"

definition is_mapped :: "json_dict \<Rightarrow> bool" where
  "is_mapped data = (map_of data ''mode'' = Some (JStr ''mapped_departments''))"

definition resolve_data :: "json \<Rightarrow> string \<Rightarrow> exn + department_profile option" where
  "resolve_data j scope_id = (case j of
     JObj data \<Rightarrow>
       bindE (subscript j (JStr ''mode'')) (\<lambda>_.
       bindE (subscript j (JStr ''departments'')) (\<lambda>departments.
       bindE (department_of data departments scope_id) (\<lambda>department.
       if is_mapped data \<and> department = JNull then Inr None
       else
       bindE (bindE (subscript departments department) py_dict) (\<lambda>(raw, odd_keys).
       if dict_get raw ''enabled'' (JBool True) \<noteq> JBool True then Inr None
       else
       bindE (policy_of_json (dict_get raw ''policy'' (JObj []))) (\<lambda>policy.
       if odd_keys then Inl (ValueErr ''TypeError'')
       else bindE (make_profile department policy (without ''policy'' (without ''enabled'' raw)))
              (\<lambda>p. Inr (Some p)))))))
   | _ \<Rightarrow> Inl (ValueErr ''TypeError''))"

definition binding_unavailable :: exn where
  "binding_unavailable = DomainError DEPENDENCY_UNAVAILABLE
     ''Invalid or unavailable server Impala configuration; check operator settings''"

definition resolve_binding :: "exn + string \<Rightarrow> string \<Rightarrow> exn + department_profile option" where
  "resolve_binding config scope_id =
     (case bindE config (\<lambda>bytes.
             if int (length bytes) > 128000 then Inl (ValueErr ''Impala configuration too large'')
             else bindE (read_text_file bytes) (\<lambda>s. case loads s of
                    None \<Rightarrow> Inl (ValueErr ''JSONDecodeError'')
                  | Some j \<Rightarrow> resolve_data j scope_id)) of
        Inl e \<Rightarrow> Inl (if e = KeyErr ''IndexError'' then e else binding_unavailable)
      | Inr p \<Rightarrow> Inr p)"

definition require_binding ::
  "(string \<Rightarrow> string) \<Rightarrow> exn + string \<Rightarrow> string \<Rightarrow> string option \<Rightarrow> exn + department_profile" where
  "require_binding sha config scope_id expected_digest =
     bindE (resolve_binding config scope_id) (\<lambda>profile. case profile of
       None \<Rightarrow> Inl (DomainError CAPABILITY_DENIED ''Impala binding is disabled or missing'')
     | Some p \<Rightarrow>
         (case expected_digest of
            Some d \<Rightarrow> if profile_digest sha p \<noteq> d
              then Inl (DomainError CAPABILITY_DENIED
                     ''Impala binding changed since message acceptance; submit a new message'')
              else Inr p
          | None \<Rightarrow> Inr p))"

section \<open>What a resolved profile guarantees\<close>

definition policy_ok :: "query_policy \<Rightarrow> bool" where
  "policy_ok p \<longleftrightarrow> 0 < qp_default_rows p \<and> qp_default_rows p \<le> qp_max_rows p \<and> qp_max_rows p \<le> 10000
     \<and> 4096 \<le> qp_max_bytes p \<and> qp_max_bytes p \<le> 256000 \<and> 0 < qp_cell_bytes p
     \<and> qp_cell_bytes p \<le> qp_max_bytes p \<and> 0 < qp_max_columns p \<and> qp_max_columns p \<le> 100
     \<and> 0 < qp_timeout_seconds p \<and> qp_timeout_seconds p \<le> 3600"

lemma policy_ints_pos: "policy_ints kvs ds = Inr v \<Longrightarrow> \<forall>(k, d)\<in>set ds. 0 < d \<Longrightarrow> length v = length ds \<and> (\<forall>x\<in>set v. 0 < x)"
  by (induction kvs ds arbitrary: v rule: policy_ints.induct)
     (fastforce elim!: bindE_InrE split: option.splits json.splits if_splits)+

lemma check_policyD: "check_policy p = Inr q \<Longrightarrow> q = p \<and> qp_default_rows p \<le> qp_max_rows p \<and> qp_max_rows p \<le> 10000
     \<and> 4096 \<le> qp_max_bytes p \<and> qp_max_bytes p \<le> 256000 \<and> qp_cell_bytes p \<le> qp_max_bytes p
     \<and> qp_max_columns p \<le> 100 \<and> qp_timeout_seconds p \<le> 3600"
  by (auto simp: check_policy_def split: if_splits)

lemma policy_of_json_ok:
  assumes "policy_of_json j = Inr p"
  shows "policy_ok p"
proof -
  obtain kvs filters udfs v where v: "policy_ints kvs policy_defaults = Inr v"
    and p: "check_policy (policy_of_ints v filters udfs) = Inr p"
    using assms by (auto simp: policy_of_json_def make_policy_def elim!: bindE_InrE split: if_splits)
  have l: "length v = 20" "\<forall>x\<in>set v. 0 < x" using policy_ints_pos [OF v] by (auto simp: policy_defaults_def)
  have pos: "0 < v ! i" if "i < 20" for i using l that by (metis nth_mem)
  show ?thesis using check_policyD [OF p] pos [of 0] pos [of 3] pos [of 4] pos [of 5]
    by (simp add: policy_ok_def policy_of_ints_def)
qed

lemma make_profile_policy: "make_profile d policy raw = Inr p \<Longrightarrow> dp_policy p = policy"
  by (auto simp: make_profile_def elim!: bindE_InrE split: if_splits json.splits)

lemma resolve_binding_ok:
  assumes "resolve_binding config scope = Inr (Some p)"
  shows "policy_ok (dp_policy p)"
proof -
  obtain j where "resolve_data j scope = Inr (Some p)"
    using assms by (auto simp: resolve_binding_def elim!: bindE_InrE split: sum.splits if_splits option.splits)
  then show ?thesis
    by (auto simp: resolve_data_def elim!: bindE_InrE split: json.splits if_splits prod.splits
        dest!: make_profile_policy policy_of_json_ok)
qed

lemma require_binding_ok: "require_binding sha config scope d = Inr p \<Longrightarrow> policy_ok (dp_policy p)"
  by (auto simp: require_binding_def elim!: bindE_InrE split: option.splits if_splits dest: resolve_binding_ok)

end
