(* ===== verification/ImpalaLedger.thy ===== *)
theory ImpalaLedger
  imports ImpalaConfig
begin

text \<open>
  The durable evidence of \<open>ImpalaTools\<close> (\<open>src/code_forge/integrations/impala/service.py\<close>): the
  query records, the three budgets every query is charged to, and the operations running in this
  process. \<open>_reserve\<close>, \<open>_control\<close>, \<open>_save\<close> and the settlement at the end of \<open>_execute\<close> hold the lock,
  so each is one step. A file under \<open>queries\<close> or \<open>budgets\<close> is the entry of its name; \<open>disk i\<close> is the
  error that the step's write number \<open>i\<close> raises, if it raises one. The \<open>threading.Event\<close> of an
  operation is the flag of its entry in \<open>_active\<close>.
\<close>

definition encoded :: "json \<Rightarrow> string" where
  "encoded j = utf8_encode (dumps False '','' '':'' j)"

definition SNAPSHOT_PREFIX :: string where "SNAPSHOT_PREFIX = ''impala-binding@''"

fun first_digest :: "json list \<Rightarrow> exn + string option" where
  "first_digest [] = Inr None"
| "first_digest (JStr ref # refs) =
     (if py_startswith ref SNAPSHOT_PREFIX then Inr (Some (drop (length SNAPSHOT_PREFIX) ref)) else first_digest refs)"
| "first_digest (_ # refs) = Inl (ValueErr ''AttributeError'')"

definition frozen_digest :: "run_view \<Rightarrow> exn + string option" where
  "frozen_digest v =
     bindE (items_of (case rv_config_snapshot v of None \<Rightarrow> JNull | Some j \<Rightarrow> j)) (\<lambda>snapshot.
     bindE (py_tuple (dict_get snapshot ''tool_refs'' (JArr []))) first_digest)"

text \<open>A lower-case UUID as \<open>str(UUID(...))\<close> writes it.\<close>

definition uuid_shape :: "nat list" where "uuid_shape = [8, 4, 4, 4, 12]"

definition lower_hex :: "char \<Rightarrow> bool" where
  "lower_hex c = ((CHR ''0'' \<le> c \<and> c \<le> CHR ''9'') \<or> (CHR ''a'' \<le> c \<and> c \<le> CHR ''f''))"

definition canonical_uuid :: "string \<Rightarrow> bool" where
  "canonical_uuid s = (let parts = py_split CHR ''-'' s in
     map length parts = uuid_shape \<and> list_all (list_all lower_hex) parts)"

definition query_path :: "string \<Rightarrow> exn + string" where
  "query_path ref = (if canonical_uuid ref then Inr ref else Inl (DomainError INVALID_REQUEST ''Invalid query_ref''))"

section \<open>State\<close>

record budget =
  bu_queries :: int
  bu_rows :: int
  bu_bytes :: int

definition no_budget :: budget where "no_budget = \<lparr>bu_queries = 0, bu_rows = 0, bu_bytes = 0\<rparr>"

record query_record =
  qr_scope_id :: string
  qr_session_id :: string
  qr_message_ref :: string
  qr_department :: string
  qr_account :: string
  qr_binding_digest :: string
  qr_result :: json_dict

record active_query =
  aq_scope_id :: string
  aq_department :: string
  aq_flag :: bool

record impala =
  im_queries :: "(string \<times> query_record) list"
  im_budgets :: "(string \<times> budget) list"
  im_active :: "(string \<times> active_query) list"
  im_stopping :: bool

definition budget_at :: "impala \<Rightarrow> string \<Rightarrow> budget" where
  "budget_at s key = (case map_of (im_budgets s) key of None \<Rightarrow> no_budget | Some b \<Rightarrow> b)"

text \<open>One \<open>atomic_json\<close> of the step, and a list of them in order; an earlier write stays.\<close>

definition write_json :: "(nat \<Rightarrow> exn option) \<Rightarrow> nat \<Rightarrow> (impala \<Rightarrow> impala) \<Rightarrow> (impala, unit) io" where
  "write_json disk i f s = (case disk i of Some e \<Rightarrow> (Inl e, s) | None \<Rightarrow> (Inr (), f s))"

definition put_budget :: "string \<Rightarrow> budget \<Rightarrow> impala \<Rightarrow> impala" where
  "put_budget key b s = s\<lparr>im_budgets := AList.update key b (im_budgets s)\<rparr>"

definition put_query :: "string \<Rightarrow> query_record \<Rightarrow> impala \<Rightarrow> impala" where
  "put_query ref q s = s\<lparr>im_queries := AList.update ref q (im_queries s)\<rparr>"

fun write_budgets :: "(nat \<Rightarrow> exn option) \<Rightarrow> nat \<Rightarrow> (string \<times> budget) list \<Rightarrow> (impala, unit) io" where
  "write_budgets disk i [] = returnS ()"
| "write_budgets disk i ((key, b) # rest) =
     thenS (write_json disk i (put_budget key b)) (\<lambda>_. write_budgets disk (Suc i) rest)"

section \<open>Reserving\<close>

definition message_key :: "(string \<Rightarrow> string) \<Rightarrow> run_view \<Rightarrow> string" where
  "message_key sha v = sha (encoded (JArr [JStr (r_scope_id (rv_row v)), JStr (r_id (rv_row v))]))"

definition hourly_key :: "(string \<Rightarrow> string) \<Rightarrow> string \<Rightarrow> string \<Rightarrow> int \<Rightarrow> string" where
  "hourly_key sha kind owner hour = sha (encoded (JArr [JStr kind, JStr owner, JInt hour]))"

record limit =
  lm_key :: string
  lm_queries :: int
  lm_rows :: int
  lm_bytes :: int

definition budget_limits :: "(string \<Rightarrow> string) \<Rightarrow> run_view \<Rightarrow> department_profile \<Rightarrow> int \<Rightarrow> limit list" where
  "budget_limits sha v profile hour = (let p = dp_policy profile in
     [\<lparr>lm_key = message_key sha v, lm_queries = qp_max_queries_per_message p,
       lm_rows = qp_max_rows_per_message p, lm_bytes = qp_max_bytes_per_message p\<rparr>,
      \<lparr>lm_key = hourly_key sha ''user'' (r_scope_id (rv_row v)) hour,
       lm_queries = qp_max_queries_per_user_hour p, lm_rows = qp_max_rows_per_user_hour p,
       lm_bytes = qp_max_bytes_per_user_hour p\<rparr>,
      \<lparr>lm_key = hourly_key sha ''department'' (dp_department profile) hour,
       lm_queries = qp_max_queries_per_department_hour p, lm_rows = qp_max_rows_per_department_hour p,
       lm_bytes = qp_max_bytes_per_department_hour p\<rparr>])"

definition over_budget :: "int \<Rightarrow> int \<Rightarrow> limit \<Rightarrow> budget \<Rightarrow> bool" where
  "over_budget rows max_bytes l b = (bu_queries b \<ge> lm_queries l \<or> bu_rows b + rows > lm_rows l
     \<or> bu_bytes b + max_bytes > lm_bytes l)"

definition charge :: "int \<Rightarrow> int \<Rightarrow> budget \<Rightarrow> budget" where
  "charge rows max_bytes b = b\<lparr>bu_queries := bu_queries b + 1, bu_rows := bu_rows b + rows,
     bu_bytes := bu_bytes b + max_bytes\<rparr>"

fun reservations :: "int \<Rightarrow> int \<Rightarrow> impala \<Rightarrow> limit list \<Rightarrow> exn + (string \<times> budget) list" where
  "reservations rows max_bytes s [] = Inr []"
| "reservations rows max_bytes s (l # ls) =
     (let b = budget_at s (lm_key l) in
      if over_budget rows max_bytes l b
      then Inl (DomainError CAPABILITY_DENIED ''Impala message/user/department budget exceeded'')
      else bindE (reservations rows max_bytes s ls) (\<lambda>rs. Inr ((lm_key l, charge rows max_bytes b) # rs)))"

definition active_count :: "(active_query \<Rightarrow> bool) \<Rightarrow> impala \<Rightarrow> int" where
  "active_count P s = int (length (filter (\<lambda>(_, a). P a) (im_active s)))"

definition concurrency_exceeded :: "run_view \<Rightarrow> department_profile \<Rightarrow> impala \<Rightarrow> bool" where
  "concurrency_exceeded v profile s =
     (active_count (\<lambda>a. aq_scope_id a = r_scope_id (rv_row v)) s \<ge> qp_max_user_concurrency (dp_policy profile)
      \<or> active_count (\<lambda>a. aq_department a = dp_department profile) s
          \<ge> qp_max_department_concurrency (dp_policy profile))"

definition fresh_record :: "(string \<Rightarrow> string) \<Rightarrow> run_view \<Rightarrow> string \<Rightarrow> department_profile \<Rightarrow> query_record" where
  "fresh_record sha v ref profile = \<lparr>qr_scope_id = r_scope_id (rv_row v),
     qr_session_id = r_session_id (rv_row v), qr_message_ref = r_id (rv_row v),
     qr_department = dp_department profile, qr_account = dp_user profile,
     qr_binding_digest = profile_digest sha profile,
     qr_result = [(''query_ref'', JStr ref), (''query_id'', JNull), (''status'', JStr ''RUNNING'')]\<rparr>"

definition activate :: "run_view \<Rightarrow> string \<Rightarrow> department_profile \<Rightarrow> impala \<Rightarrow> impala" where
  "activate v ref profile s = s\<lparr>im_active := AList.update ref \<lparr>aq_scope_id = r_scope_id (rv_row v),
     aq_department = dp_department profile, aq_flag = False\<rparr> (im_active s)\<rparr>"

definition reserve_checks ::
  "(string \<Rightarrow> string) \<Rightarrow> int \<Rightarrow> run_view \<Rightarrow> string \<Rightarrow> department_profile \<Rightarrow> int \<Rightarrow> impala
     \<Rightarrow> exn + (string \<times> budget) list" where
  "reserve_checks sha hour v ref profile rows s =
     (if im_stopping s then Inl (DomainError CAPABILITY_DENIED ''Impala adapter is stopping'')
      else bindE (query_path ref) (\<lambda>path.
      if map_of (im_queries s) path \<noteq> None
      then Inl (DomainError STATE_CONFLICT ''Query already exists; do not resubmit'')
      else if concurrency_exceeded v profile s
      then Inl (DomainError CAPABILITY_DENIED ''Impala concurrency budget exceeded'')
      else reservations rows (qp_max_bytes (dp_policy profile)) s (budget_limits sha v profile hour)))"

definition reserve ::
  "(string \<Rightarrow> string) \<Rightarrow> (nat \<Rightarrow> exn option) \<Rightarrow> int \<Rightarrow> run_view \<Rightarrow> string \<Rightarrow> department_profile \<Rightarrow> int
     \<Rightarrow> (impala, string list) io" where
  "reserve sha disk hour v ref profile rows s =
     thenS (liftS (reserve_checks sha hour v ref profile rows s)) (\<lambda>rs.
     thenS (write_budgets disk 0 rs) (\<lambda>_.
     thenS (write_json disk (length rs) (put_query ref (fresh_record sha v ref profile))) (\<lambda>_.
     thenS (changeS (\<lambda>s. Inr (activate v ref profile s))) (\<lambda>_.
     returnS (map fst rs))))) s"

section \<open>Stopping and control\<close>

definition raise_flag :: "active_query \<Rightarrow> active_query" where "raise_flag a = a\<lparr>aq_flag := True\<rparr>"

definition stop_service :: "impala \<Rightarrow> impala" where
  "stop_service s = s\<lparr>im_stopping := True, im_active := map (\<lambda>(r, a). (r, raise_flag a)) (im_active s)\<rparr>"

definition signal :: "string \<Rightarrow> impala \<Rightarrow> impala" where
  "signal ref s = s\<lparr>im_active := map (\<lambda>(r, a). (r, if r = ref then raise_flag a else a)) (im_active s)\<rparr>"

definition query_unavailable :: exn where
  "query_unavailable = DomainError CAPABILITY_DENIED ''Query is unavailable''"

text \<open>\<open>result["status"] = ...\<close> and \<open>result.update(...)\<close>.\<close>

definition set_status :: "string \<Rightarrow> json_dict \<Rightarrow> json_dict" where
  "set_status status = dict_set ''status'' (JStr status)"

definition lost_result :: "bool \<Rightarrow> json_dict \<Rightarrow> json_dict" where
  "lost_result cancelling kvs = dict_set ''reason'' (JStr (if cancelling
       then ''Remote handle lost; operator cancellation is required''
       else ''Adapter restarted; remote state is unverified'')) (set_status ''UNKNOWN'' kvs)"

definition control :: "string \<Rightarrow> run_view \<Rightarrow> bool \<Rightarrow> (impala, json_dict) io" where
  "control ref v cancelling s =
     thenS (liftS (query_path ref)) (\<lambda>path.
     case map_of (im_queries s) path of
       None \<Rightarrow> raiseS query_unavailable
     | Some q \<Rightarrow>
         if qr_scope_id q \<noteq> r_scope_id (rv_row v) \<or> qr_session_id q \<noteq> r_session_id (rv_row v)
         then raiseS query_unavailable
         else let result = filter (\<lambda>(k, _). k \<notin> {''rows'', ''columns''}) (qr_result q);
                  active = (map_of (im_active s) ref \<noteq> None) in
           if active \<and> cancelling
           then thenS (changeS (\<lambda>s. Inr (signal ref s))) (\<lambda>_. returnS (set_status ''CANCELLING'' result))
           else if \<not> active \<and> map_of result ''status'' = Some (JStr ''RUNNING'')
           then returnS (lost_result cancelling result)
           else returnS result) s"

section \<open>Saving and settling\<close>

definition save :: "(nat \<Rightarrow> exn option) \<Rightarrow> nat \<Rightarrow> string \<Rightarrow> json_dict \<Rightarrow> (impala, unit) io" where
  "save disk i ref result s =
     thenS (liftS (query_path ref)) (\<lambda>path.
     case map_of (im_queries s) path of
       None \<Rightarrow> raiseS (OSErr ''FileNotFoundError'')
     | Some q \<Rightarrow> write_json disk i (put_query path (q\<lparr>qr_result := result\<rparr>))) s"

definition refund :: "int \<Rightarrow> int \<Rightarrow> int \<Rightarrow> int \<Rightarrow> budget \<Rightarrow> budget" where
  "refund rows max_bytes count nbytes b = b\<lparr>bu_rows := bu_rows b - (rows - count),
     bu_bytes := bu_bytes b - (max_bytes - nbytes)\<rparr>"

fun settle_budgets :: "(nat \<Rightarrow> exn option) \<Rightarrow> nat \<Rightarrow> int \<Rightarrow> int \<Rightarrow> int \<Rightarrow> int \<Rightarrow> string list \<Rightarrow> (impala, unit) io" where
  "settle_budgets disk i rows max_bytes count nbytes [] s = (Inr (), s)"
| "settle_budgets disk i rows max_bytes count nbytes (key # keys) s =
     (case map_of (im_budgets s) key of
        None \<Rightarrow> (Inl (OSErr ''FileNotFoundError''), s)
      | Some b \<Rightarrow>
          thenS (write_json disk i (put_budget key (refund rows max_bytes count nbytes b)))
            (\<lambda>_. settle_budgets disk (Suc i) rows max_bytes count nbytes keys) s)"

definition deactivate :: "string \<Rightarrow> impala \<Rightarrow> impala" where
  "deactivate ref s = s\<lparr>im_active := AList.delete ref (im_active s)\<rparr>"

text \<open>The end of \<open>_execute\<close>: the \<open>finally\<close> removes the operation whatever the writes do.\<close>

definition settle_query ::
  "(nat \<Rightarrow> exn option) \<Rightarrow> string \<Rightarrow> string list \<Rightarrow> int \<Rightarrow> int \<Rightarrow> int \<Rightarrow> json_dict \<Rightarrow> (impala, unit) io" where
  "settle_query disk ref keys rows max_bytes count result s =
     (case thenS (save disk 0 ref result) (\<lambda>_. settle_budgets disk 1 rows max_bytes count
              (int (length (encoded (JObj result)))) keys) s of
        (r, s') \<Rightarrow> (r, deactivate ref s'))"

section \<open>What control shows\<close>

text \<open>A query is shown to its own scope and Session only, without its rows, and showing it changes
  nothing but the flag of a query that runs.\<close>

lemma control_own_query:
  assumes "control ref v cancelling s = (Inr result, s')"
  obtains q where "map_of (im_queries s) ref = Some q" "qr_scope_id q = r_scope_id (rv_row v)"
    "qr_session_id q = r_session_id (rv_row v)"
  using assms
  by (auto simp: control_def query_path_def Let_def elim!: thenS_InrE split: option.splits if_splits)

lemma control_frame:
  "control ref v cancelling s = (r, s') \<Longrightarrow> im_queries s' = im_queries s \<and> im_budgets s' = im_budgets s
     \<and> map fst (im_active s') = map fst (im_active s)"
  by (auto simp: control_def query_path_def Let_def io_defs signal_def comp_def case_prod_unfold
      split: option.splits if_splits sum.splits)

end
