(* ===== verification/ImpalaBudgets.thy ===== *)
theory ImpalaBudgets
  imports ImpalaLedger
begin

text \<open>
  The service as a whole: the ledger, and what the running threads hold in their local variables
  between \<open>_reserve\<close> and the end of \<open>_execute\<close>. A step is one stretch of code under the lock, of any
  thread, with any disk errors, or a crash, which loses everything but the files. The two logs
  record what was accepted and what was delivered, for the statements below only.

  The rows, the bytes and the queries of a budget obey the same laws, stated once in the locale.
\<close>

section \<open>Steps\<close>

record task =
  tk_ref :: string
  tk_keys :: "string list"
  tk_rows :: int
  tk_bytes :: int

record service =
  sv_state :: impala
  sv_tasks :: "task list"
  sv_spent :: "(string \<times> int \<times> int) list"

definition fresh_impala :: impala where
  "fresh_impala = \<lparr>im_queries = [], im_budgets = [], im_active = [], im_stopping = False\<rparr>"

definition fresh_service :: service where
  "fresh_service = \<lparr>sv_state = fresh_impala, sv_tasks = [], sv_spent = []\<rparr>"

definition crash :: "impala \<Rightarrow> impala" where
  "crash s = s\<lparr>im_active := [], im_stopping := False\<rparr>"

definition spent_on :: "string list \<Rightarrow> int \<Rightarrow> int \<Rightarrow> (string \<times> int \<times> int) list" where
  "spent_on keys count nbytes = map (\<lambda>k. (k, count, nbytes)) keys"

text \<open>The digests of the three keys of one query are assumed to differ; nothing else about SHA-256 is.\<close>

definition admissible :: "(string \<Rightarrow> string) \<Rightarrow> run_view \<Rightarrow> department_profile \<Rightarrow> int \<Rightarrow> int \<Rightarrow> bool" where
  "admissible sha v profile hour rows \<longleftrightarrow> distinct (map lm_key (budget_limits sha v profile hour))
     \<and> 0 \<le> rows \<and> 0 \<le> qp_max_bytes (dp_policy profile)"

inductive service_step :: "(string \<Rightarrow> string) \<Rightarrow> service \<Rightarrow> service \<Rightarrow> bool" for sha where
  accepted: "admissible sha v profile hour rows \<Longrightarrow>
    reserve sha disk hour v ref profile rows (sv_state st) = (Inr keys, s') \<Longrightarrow>
    service_step sha st (st\<lparr>sv_state := s', sv_tasks := \<lparr>tk_ref = ref, tk_keys = keys, tk_rows = rows,
      tk_bytes = qp_max_bytes (dp_policy profile)\<rparr> # sv_tasks st\<rparr>)"
| refused: "admissible sha v profile hour rows \<Longrightarrow>
    reserve sha disk hour v ref profile rows (sv_state st) = (Inl e, s') \<Longrightarrow>
    service_step sha st (st\<lparr>sv_state := s'\<rparr>)"
| controlled: "control ref v c (sv_state st) = (r, s') \<Longrightarrow> service_step sha st (st\<lparr>sv_state := s'\<rparr>)"
| saved: "save disk i ref result (sv_state st) = (u, s') \<Longrightarrow> service_step sha st (st\<lparr>sv_state := s'\<rparr>)"
| stopped: "service_step sha st (st\<lparr>sv_state := stop_service (sv_state st)\<rparr>)"
| finished: "t \<in> set (sv_tasks st) \<Longrightarrow> 0 \<le> count \<Longrightarrow>
    settle_query disk (tk_ref t) (tk_keys t) (tk_rows t) (tk_bytes t) count result (sv_state st) = (Inr (), s') \<Longrightarrow>
    service_step sha st (st\<lparr>sv_state := s', sv_tasks := remove1 t (sv_tasks st),
      sv_spent := spent_on (tk_keys t) count (int (length (encoded (JObj result)))) @ sv_spent st\<rparr>)"
| lost: "t \<in> set (sv_tasks st) \<Longrightarrow> 0 \<le> count \<Longrightarrow>
    settle_query disk (tk_ref t) (tk_keys t) (tk_rows t) (tk_bytes t) count result (sv_state st) = (Inl e, s') \<Longrightarrow>
    service_step sha st (st\<lparr>sv_state := s', sv_tasks := remove1 t (sv_tasks st)\<rparr>)"
| crashed: "service_step sha st (st\<lparr>sv_state := crash (sv_state st), sv_tasks := []\<rparr>)"

inductive reachable_service :: "(string \<Rightarrow> string) \<Rightarrow> service \<Rightarrow> bool" for sha where
  fresh: "reachable_service sha fresh_service"
| stepped: "reachable_service sha st \<Longrightarrow> service_step sha st st' \<Longrightarrow> reachable_service sha st'"

section \<open>What the operations do to the budgets\<close>

lemma budget_at_put [simp]: "budget_at (put_budget k b s) = (budget_at s)(k := b)"
  by (rule ext) (simp add: budget_at_def put_budget_def update_conv')

lemma write_json_cases:
  "write_json disk i f s = (r, s') \<Longrightarrow> (r = Inr () \<and> s' = f s) \<or> (s' = s \<and> (\<exists>e. r = Inl e))"
  by (auto simp: write_json_def split: option.splits)

lemma same_budgets: "im_budgets s' = im_budgets s \<Longrightarrow> budget_at s' = budget_at s"
  by (rule ext) (simp add: budget_at_def)

lemma save_budgets: "save disk i ref result s = (r, s') \<Longrightarrow> im_budgets s' = im_budgets s"
  by (auto simp: save_def query_path_def io_defs put_query_def write_json_def split: option.splits if_splits)

lemma reservations_charge:
  "reservations rows mb s ls = Inr rs \<Longrightarrow> rs = map (\<lambda>l. (lm_key l, charge rows mb (budget_at s (lm_key l)))) ls
     \<and> (\<forall>l\<in>set ls. \<not> over_budget rows mb l (budget_at s (lm_key l)))"
  by (induction ls arbitrary: rs) (auto simp: Let_def elim!: bindE_InrE split: if_splits)

text \<open>Writing a list of budgets: each is new or as before, and all are new when no write failed.\<close>

lemma write_budgets_cases:
  "write_budgets disk i rs s = (r, s') \<Longrightarrow> distinct (map fst rs) \<Longrightarrow>
     (\<forall>k. budget_at s' k = budget_at s k \<or> map_of rs k = Some (budget_at s' k))
     \<and> (r = Inr () \<longrightarrow> (\<forall>k b. map_of rs k = Some b \<longrightarrow> budget_at s' k = b))"
proof (induction rs arbitrary: i s)
  case Nil
  then show ?case by (simp add: returnS_def)
next
  case (Cons p rs)
  obtain k b where p: "p = (k, b)" by (cases p)
  obtain r1 s1 where w: "write_json disk i (put_budget k b) s = (r1, s1)" by fastforce
  consider (ok) "r1 = Inr ()" "s1 = put_budget k b s" | (failed) e where "r1 = Inl e" "s1 = s"
    using write_json_cases [OF w] by auto
  then show ?case
  proof cases
    case ok
    then have rest: "write_budgets disk (Suc i) rs (put_budget k b s) = (r, s')"
      using Cons.prems(1) w by (simp add: p thenS_def)
    have k: "map_of rs k = None" using Cons.prems(2) by (simp add: p map_of_eq_None_iff)
    have d: "distinct (map fst rs)" using Cons.prems(2) by (simp add: p)
    from Cons.IH [OF rest d] k show ?thesis by (auto simp: p split: if_splits)
  next
    case failed
    then have "r = Inl e" "s' = s" using Cons.prems(1) w by (simp_all add: p thenS_def)
    then show ?thesis by simp
  qed
qed

lemma reserve_checks_charge:
  assumes "reserve_checks sha hour v ref profile rows s = Inr rs"
  shows "reservations rows (qp_max_bytes (dp_policy profile)) s (budget_limits sha v profile hour) = Inr rs"
  using assms by (auto simp: reserve_checks_def elim!: bindE_InrE split: if_splits)

lemma reserve_cases:
  assumes "reserve sha disk hour v ref profile rows s = (r, s')"
  obtains (denied) e where "r = Inl e" "s' = s"
  | (cut) e rs u s1 where "reserve_checks sha hour v ref profile rows s = Inr rs"
      "write_budgets disk 0 rs s = (u, s1)" "im_budgets s' = im_budgets s1" "r = Inl e"
  | (complete) rs s1 where "reserve_checks sha hour v ref profile rows s = Inr rs"
      "write_budgets disk 0 rs s = (Inr (), s1)" "im_budgets s' = im_budgets s1" "r = Inr (map fst rs)"
proof (cases "reserve_checks sha hour v ref profile rows s")
  case (Inl e)
  then have "r = Inl e" "s' = s" using assms by (simp_all add: reserve_def thenS_def liftS_def)
  then show ?thesis by (rule denied)
next
  case (Inr rs)
  obtain u s1 where w: "write_budgets disk 0 rs s = (u, s1)" by fastforce
  show ?thesis
  proof (cases u)
    case (Inl e)
    then have "r = Inl e" "s' = s1" using assms Inr w by (simp_all add: reserve_def thenS_def liftS_def)
    then show ?thesis using cut [OF Inr w] by simp
  next
    case inner: (Inr x)
    obtain r2 s2 where q: "write_json disk (length rs) (put_query ref (fresh_record sha v ref profile)) s1 = (r2, s2)"
      by fastforce
    have b: "im_budgets s2 = im_budgets s1" using write_json_cases [OF q] by (auto simp: put_query_def)
    show ?thesis
    proof (cases r2)
      case (Inl e)
      then have "r = Inl e" "s' = s2"
        using assms \<open>reserve_checks sha hour v ref profile rows s = Inr rs\<close> w inner q
        by (simp_all add: reserve_def thenS_def liftS_def)
      then show ?thesis using cut [OF \<open>reserve_checks sha hour v ref profile rows s = Inr rs\<close> w] b by simp
    next
      case (Inr y)
      then have "s' = activate v ref profile s2" "r = Inr (map fst rs)"
        using assms \<open>reserve_checks sha hour v ref profile rows s = Inr rs\<close> w inner q
        by (simp_all add: reserve_def thenS_def liftS_def changeS_def returnS_def)
      then show ?thesis using \<open>reserve_checks sha hour v ref profile rows s = Inr rs\<close> w inner b complete
        by (simp add: activate_def)
    qed
  qed
qed

text \<open>Settling: each budget of the list is refunded or as before, and all are when no write failed.\<close>

lemma settle_budgets_cases:
  "settle_budgets disk i rows mb count nbytes keys s = (r, s') \<Longrightarrow> distinct keys \<Longrightarrow>
     (\<forall>k. budget_at s' k = budget_at s k \<or> k \<in> set keys \<and> budget_at s' k = refund rows mb count nbytes (budget_at s k))"
proof (induction keys arbitrary: i s)
  case Nil
  then show ?case by simp
next
  case (Cons k keys)
  show ?case
  proof (cases "map_of (im_budgets s) k")
    case None
    then show ?thesis using Cons.prems(1) by simp
  next
    case (Some b)
    have b: "budget_at s k = b" by (simp add: budget_at_def Some)
    obtain r1 s1 where w: "write_json disk i (put_budget k (refund rows mb count nbytes b)) s = (r1, s1)" by fastforce
    consider (ok) "r1 = Inr ()" "s1 = put_budget k (refund rows mb count nbytes b) s" | (failed) "s1 = s" "r1 \<noteq> Inr ()"
      using write_json_cases [OF w] by auto
    then show ?thesis
    proof cases
      case ok
      then have rest: "settle_budgets disk (Suc i) rows mb count nbytes keys (put_budget k (refund rows mb count nbytes b) s)
          = (r, s')"
        using Cons.prems(1) w Some by (simp add: thenS_def)
      have d: "distinct keys" "k \<notin> set keys" using Cons.prems(2) by simp_all
      show ?thesis using Cons.IH [OF rest d(1)] b d(2) by (auto split: if_splits)
    next
      case failed
      then have "s' = s" using Cons.prems(1) w Some by (cases r1) (auto simp: thenS_def)
      then show ?thesis by simp
    qed
  qed
qed

text \<open>When all writes succeed, every budget of the list is refunded.\<close>

lemma settle_budgets_all:
  "settle_budgets disk i rows mb count nbytes keys s = (Inr (), s') \<Longrightarrow> distinct keys \<Longrightarrow> k \<in> set keys
     \<Longrightarrow> budget_at s' k = refund rows mb count nbytes (budget_at s k)"
proof (induction keys arbitrary: i s)
  case (Cons x keys)
  obtain b where b: "map_of (im_budgets s) x = Some b" using Cons.prems(1) by (auto split: option.splits)
  then have bx: "budget_at s x = b" by (simp add: budget_at_def)
  obtain s1 where w: "write_json disk i (put_budget x (refund rows mb count nbytes b)) s = (Inr (), s1)"
    and rest: "settle_budgets disk (Suc i) rows mb count nbytes keys s1 = (Inr (), s')"
    using Cons.prems(1) b by (auto simp: thenS_def split: prod.splits sum.splits)
  have s1: "s1 = put_budget x (refund rows mb count nbytes b) s" using write_json_cases [OF w] by simp
  show ?case
  proof (cases "k = x")
    case True
    then have "k \<notin> set keys" "distinct keys" using Cons.prems(2) by simp_all
    then have "budget_at s' k = budget_at s1 k" using settle_budgets_cases [OF rest] by blast
    then show ?thesis using True s1 bx by simp
  next
    case False
    then show ?thesis using Cons.IH [OF rest] Cons.prems(2,3) s1 by simp
  qed
qed simp

lemma settle_query_cases:
  assumes "settle_query disk ref keys rows mb count result s = (r, s')" "distinct keys"
  defines "nbytes \<equiv> int (length (encoded (JObj result)))"
  shows "budget_at s' k = budget_at s k
      \<or> k \<in> set keys \<and> budget_at s' k = refund rows mb count nbytes (budget_at s k)"
    and "r = Inr () \<Longrightarrow> k \<in> set keys \<Longrightarrow> budget_at s' k = refund rows mb count nbytes (budget_at s k)"
proof -
  obtain u s1 where sv: "save disk 0 ref result s = (u, s1)" by fastforce
  have b1: "budget_at s1 = budget_at s" using save_budgets [OF sv] same_budgets by blast
  obtain r2 s2 where body: "thenS (save disk 0 ref result)
      (\<lambda>_. settle_budgets disk 1 rows mb count nbytes keys) s = (r2, s2)" by fastforce
  have s': "s' = deactivate ref s2" "r = r2" using assms(1) body by (simp_all add: settle_query_def nbytes_def)
  have b': "budget_at s' = budget_at s2" by (rule same_budgets) (simp add: s' deactivate_def)
  show "budget_at s' k = budget_at s k
      \<or> k \<in> set keys \<and> budget_at s' k = refund rows mb count nbytes (budget_at s k)"
  proof (cases u)
    case (Inl e)
    then have "s2 = s1" using body sv by (simp add: thenS_def)
    then show ?thesis using b' b1 by simp
  next
    case (Inr x)
    then have "settle_budgets disk 1 rows mb count nbytes keys s1 = (r2, s2)" using body sv by (simp add: thenS_def)
    from settle_budgets_cases [OF this assms(2)] show ?thesis using b' b1 by metis
  qed
  assume r: "r = Inr ()" "k \<in> set keys"
  then have "settle_budgets disk 1 rows mb count nbytes keys s1 = (Inr (), s2)"
    using body sv s'(2) by (cases u) (auto simp: thenS_def)
  from settle_budgets_all [OF this assms(2) r(2)] show "budget_at s' k = refund rows mb count nbytes (budget_at s k)"
    using b' b1 by metis
qed

section \<open>A meter\<close>

text \<open>One of the three quantities of a budget: what a reservation holds and what a query uses of it.\<close>

locale meter =
  fixes get :: "budget \<Rightarrow> int" and held :: "int \<Rightarrow> int \<Rightarrow> int" and used :: "int \<Rightarrow> int \<Rightarrow> int"
  assumes get_none: "get no_budget = 0"
    and get_charge: "get (charge rows mb b) = get b + held rows mb"
    and get_refund: "get (refund rows mb count nbytes b) = get b - (held rows mb - used count nbytes)"
    and held_nonneg: "0 \<le> rows \<Longrightarrow> 0 \<le> mb \<Longrightarrow> 0 \<le> held rows mb"
    and used_nonneg: "0 \<le> count \<Longrightarrow> 0 \<le> nbytes \<Longrightarrow> 0 \<le> used count nbytes"
begin

definition task_due :: "string \<Rightarrow> task \<Rightarrow> int" where
  "task_due k t = (if k \<in> set (tk_keys t) then held (tk_rows t) (tk_bytes t) else 0)"

definition entry_due :: "string \<Rightarrow> string \<times> int \<times> int \<Rightarrow> int" where
  "entry_due k e = (case e of (k', count, nbytes) \<Rightarrow> if k' = k then used count nbytes else 0)"

text \<open>What was delivered under a key, and what the running queries hold of it.\<close>

definition due :: "string \<Rightarrow> service \<Rightarrow> int" where
  "due k st = sum_list (map (entry_due k) (sv_spent st)) + sum_list (map (task_due k) (sv_tasks st))"

definition task_ok :: "task \<Rightarrow> bool" where
  "task_ok t \<longleftrightarrow> distinct (tk_keys t) \<and> 0 \<le> tk_rows t \<and> 0 \<le> tk_bytes t"

definition covered :: "service \<Rightarrow> bool" where
  "covered st \<longleftrightarrow> (\<forall>t\<in>set (sv_tasks st). task_ok t) \<and> (\<forall>k. due k st \<le> get (budget_at (sv_state st) k))"

lemma task_due_nonneg: "task_ok t \<Longrightarrow> 0 \<le> task_due k t"
  by (simp add: task_due_def task_ok_def held_nonneg)

lemma sum_remove1: "t \<in> set ts \<Longrightarrow> sum_list (map f (remove1 t ts)) = sum_list (map f ts) - (f t :: int)"
  by (induction ts) auto

lemma spent_due:
  "distinct keys \<Longrightarrow> sum_list (map (entry_due k) (spent_on keys count nbytes)) = (if k \<in> set keys then used count nbytes else 0)"
  by (induction keys) (auto simp: spent_on_def entry_due_def)

lemma covered_fresh: "covered fresh_service"
  by (simp add: covered_def fresh_service_def fresh_impala_def due_def budget_at_def get_none)

lemma covered_same:
  assumes "covered st" "im_budgets s' = im_budgets (sv_state st)"
  shows "covered (st\<lparr>sv_state := s'\<rparr>)"
  using assms same_budgets [OF assms(2)] by (simp add: covered_def due_def)

text \<open>A reservation that goes through charges the three keys; one that does not charges some of them.\<close>

lemma reserve_get:
  assumes "admissible sha v profile hour rows" "reserve sha disk hour v ref profile rows s = (r, s')"
  shows "get (budget_at s k) \<le> get (budget_at s' k)"
    and "r = Inr keys \<Longrightarrow> distinct keys \<and> keys = map lm_key (budget_limits sha v profile hour)
       \<and> (k \<in> set keys \<longrightarrow> get (budget_at s' k) = get (budget_at s k) + held rows (qp_max_bytes (dp_policy profile)))"
proof -
  let ?mb = "qp_max_bytes (dp_policy profile)"
  let ?ls = "budget_limits sha v profile hour"
  have adm: "distinct (map lm_key ?ls)" "0 \<le> held rows ?mb"
    using assms(1) by (auto simp: admissible_def held_nonneg)
  have facts: "map fst rs = map lm_key ?ls \<and> (map_of rs k' = Some b \<longrightarrow> b = charge rows ?mb (budget_at s k'))"
    if "reserve_checks sha hour v ref profile rows s = Inr rs" for rs k' b
  proof -
    have rs: "rs = map (\<lambda>l. (lm_key l, charge rows ?mb (budget_at s (lm_key l)))) ?ls"
      using reservations_charge [OF reserve_checks_charge [OF that]] by simp
    then show ?thesis by (auto simp: comp_def dest!: map_of_SomeD)
  qed
  have changed: "budget_at s' k = budget_at s k \<or> budget_at s' k = charge rows ?mb (budget_at s k)"
    if "reserve_checks sha hour v ref profile rows s = Inr rs" "write_budgets disk 0 rs s = (u, s1)"
      "im_budgets s' = im_budgets s1" for rs u s1
    using write_budgets_cases [OF that(2)] facts [OF that(1)] adm(1) same_budgets [OF that(3)] by metis
  show "get (budget_at s k) \<le> get (budget_at s' k)"
    using assms(2)
  proof (cases rule: reserve_cases)
    case (cut e rs u s1)
    then show ?thesis using changed [OF cut(1,2,3)] adm(2) get_charge by auto
  next
    case (complete rs s1)
    then show ?thesis using changed [OF complete(1,2,3)] adm(2) get_charge by auto
  qed simp
  assume r: "r = Inr keys"
  show "distinct keys \<and> keys = map lm_key ?ls
       \<and> (k \<in> set keys \<longrightarrow> get (budget_at s' k) = get (budget_at s k) + held rows ?mb)"
    using assms(2)
  proof (cases rule: reserve_cases)
    case (complete rs s1)
    have keys: "keys = map fst rs" "map fst rs = map lm_key ?ls" using complete(4) r facts [OF complete(1)] by simp_all
    have "get (budget_at s' k) = get (budget_at s k) + held rows ?mb" if key: "k \<in> set keys"
    proof -
      have "map_of rs k \<noteq> None" using key keys(1) by (simp add: map_of_eq_None_iff)
      then obtain b where b: "map_of rs k = Some b" by blast
      have "budget_at s1 k = b" using write_budgets_cases [OF complete(2)] keys(2) adm(1) b by simp
      then show ?thesis using b facts [OF complete(1)] same_budgets [OF complete(3)] get_charge by metis
    qed
    then show ?thesis using keys adm(1) by simp
  qed (use r in simp_all)
qed

lemma settle_get:
  assumes "settle_query disk (tk_ref t) (tk_keys t) (tk_rows t) (tk_bytes t) count result s = (r, s')" "task_ok t" "0 \<le> count"
  shows "get (budget_at s k) - task_due k t \<le> get (budget_at s' k)"
    and "r = Inr () \<Longrightarrow> get (budget_at s' k) = get (budget_at s k) - task_due k t
       + (if k \<in> set (tk_keys t) then used count (int (length (encoded (JObj result)))) else 0)"
proof -
  have d: "distinct (tk_keys t)" using assms(2) by (simp add: task_ok_def)
  note c = settle_query_cases [OF assms(1) d, of k]
  have u: "0 \<le> used count (int (length (encoded (JObj result))))" using assms(3) by (simp add: used_nonneg)
  show "get (budget_at s k) - task_due k t \<le> get (budget_at s' k)"
    using c(1) u task_due_nonneg [OF assms(2), of k] by (auto simp: task_due_def get_refund)
  assume "r = Inr ()"
  then show "get (budget_at s' k) = get (budget_at s k) - task_due k t
       + (if k \<in> set (tk_keys t) then used count (int (length (encoded (JObj result)))) else 0)"
    using c by (auto simp: task_due_def get_refund)
qed

end

text \<open>Every step keeps what is due covered by the budgets.\<close>

context meter
begin

lemma covered_grown:
  assumes "covered st" "\<And>k. get (budget_at (sv_state st) k) \<le> get (budget_at s' k)"
  shows "covered (st\<lparr>sv_state := s'\<rparr>)"
  using assms by (auto simp: covered_def due_def intro: order_trans)

lemma due_removed:
  "t \<in> set (sv_tasks st) \<Longrightarrow> due k (st\<lparr>sv_state := s', sv_tasks := remove1 t (sv_tasks st)\<rparr>) = due k st - task_due k t"
  by (simp add: due_def sum_remove1)

lemma covered_step:
  assumes "service_step sha st st'" "covered st"
  shows "covered st'"
  using assms(1)
proof cases
  case (accepted v profile hour rows disk ref keys s')
  have ok: "task_ok \<lparr>tk_ref = ref, tk_keys = keys, tk_rows = rows, tk_bytes = qp_max_bytes (dp_policy profile)\<rparr>"
    using reserve_get(2) [OF accepted(2,3) refl] accepted(2) by (simp add: task_ok_def admissible_def)
  have "due k st' \<le> get (budget_at s' k)" for k
  proof -
    have "due k st' = due k st + (if k \<in> set keys then held rows (qp_max_bytes (dp_policy profile)) else 0)"
      by (simp add: accepted(1) due_def task_due_def)
    moreover have "due k st \<le> get (budget_at (sv_state st) k)" using assms(2) by (simp add: covered_def)
    ultimately show ?thesis
      using reserve_get(1) [OF accepted(2,3), of k] reserve_get(2) [OF accepted(2,3) refl, of k] by auto
  qed
  then show ?thesis using assms(2) ok by (simp add: covered_def accepted(1))
next
  case (refused v profile hour rows disk ref e s')
  show ?thesis unfolding refused(1) by (rule covered_grown [OF assms(2)]) (rule reserve_get(1) [OF refused(2,3)])
next
  case (controlled ref v c r s')
  show ?thesis unfolding controlled(1) using control_frame [OF controlled(2)] by (intro covered_same assms(2)) simp
next
  case (saved disk i ref result u s')
  show ?thesis unfolding saved(1) using save_budgets [OF saved(2)] by (intro covered_same assms(2))
next
  case stopped
  show ?thesis unfolding stopped by (intro covered_same assms(2)) (simp add: stop_service_def)
next
  case (finished t count disk result s')
  have ok: "task_ok t" using assms(2) finished(2) by (simp add: covered_def)
  have "due k st' \<le> get (budget_at s' k)" for k
  proof -
    have "due k st' = due k (st\<lparr>sv_state := s', sv_tasks := remove1 t (sv_tasks st)\<rparr>)
        + (if k \<in> set (tk_keys t) then used count (int (length (encoded (JObj result)))) else 0)"
      using ok spent_due [of "tk_keys t" k count] by (simp add: finished(1) due_def task_ok_def)
    moreover have "due k st \<le> get (budget_at (sv_state st) k)" using assms(2) by (simp add: covered_def)
    ultimately show ?thesis using settle_get(2) [OF finished(4) ok finished(3) refl, of k] due_removed [OF finished(2), of k]
      by simp
  qed
  then show ?thesis using assms(2) by (auto simp: covered_def finished(1) dest: notin_set_remove1)
next
  case (lost t count disk result e s')
  have ok: "task_ok t" using assms(2) lost(2) by (simp add: covered_def)
  have "due k st' \<le> get (budget_at s' k)" for k
  proof -
    have "due k st \<le> get (budget_at (sv_state st) k)" using assms(2) by (simp add: covered_def)
    then show ?thesis using settle_get(1) [OF lost(4) ok lost(3), of k] due_removed [OF lost(2), of k s']
      by (simp add: lost(1))
  qed
  then show ?thesis using assms(2) by (auto simp: covered_def lost(1) dest: notin_set_remove1)
next
  case crashed
  have "0 \<le> sum_list (map (task_due k) (sv_tasks st))" for k
    using assms(2) by (intro sum_list_nonneg) (auto simp: covered_def task_due_nonneg)
  then have "due k st' \<le> due k st" for k by (simp add: crashed due_def)
  moreover have "budget_at (crash (sv_state st)) = budget_at (sv_state st)" by (rule same_budgets) (simp add: crash_def)
  ultimately show ?thesis using assms(2) by (auto simp: covered_def crashed intro: order_trans)
qed

lemma covered_reachable: "reachable_service sha st \<Longrightarrow> covered st"
  by (induction rule: reachable_service.induct) (auto intro: covered_fresh covered_step)

text \<open>So what is due stays below any bound the budget met when the query was admitted.\<close>

lemma due_below:
  assumes "reachable_service sha st" "admissible sha v profile hour rows"
    and "reserve sha disk hour v ref profile rows (sv_state st) = (Inr keys, s')"
    and "st' = st\<lparr>sv_state := s', sv_tasks := \<lparr>tk_ref = ref, tk_keys = keys, tk_rows = rows,
      tk_bytes = qp_max_bytes (dp_policy profile)\<rparr> # sv_tasks st\<rparr>"
    and "get (budget_at (sv_state st) k) + held rows (qp_max_bytes (dp_policy profile)) \<le> bound" "k \<in> set keys"
  shows "due k st' \<le> bound"
proof -
  have "reachable_service sha st'" unfolding assms(4)
    by (rule reachable_service.stepped [OF assms(1) service_step.accepted [OF assms(2,3)]])
  then have "due k st' \<le> get (budget_at s' k)" using covered_reachable by (fastforce simp: covered_def assms(4))
  then show ?thesis using reserve_get(2) [OF assms(2,3) refl, of k] assms(5,6) by simp
qed

end

interpretation query_meter: meter bu_queries "\<lambda>_ _. 1" "\<lambda>_ _. 1"
  by unfold_locales (simp_all add: no_budget_def charge_def refund_def)

interpretation row_meter: meter bu_rows "\<lambda>rows _. rows" "\<lambda>count _. count"
  by unfold_locales (simp_all add: no_budget_def charge_def refund_def)

interpretation byte_meter: meter bu_bytes "\<lambda>_ mb. mb" "\<lambda>_ nbytes. nbytes"
  by unfold_locales (simp_all add: no_budget_def charge_def refund_def)

section \<open>No budget is overspent\<close>

definition queries_on :: "string \<Rightarrow> service \<Rightarrow> int" where
  "queries_on k st = sum_list (map (\<lambda>(k', _, _). if k' = k then 1 else 0) (sv_spent st))
     + sum_list (map (\<lambda>t. if k \<in> set (tk_keys t) then 1 else 0) (sv_tasks st))"

definition rows_on :: "string \<Rightarrow> service \<Rightarrow> int" where
  "rows_on k st = sum_list (map (\<lambda>(k', count, _). if k' = k then count else 0) (sv_spent st))
     + sum_list (map (\<lambda>t. if k \<in> set (tk_keys t) then tk_rows t else 0) (sv_tasks st))"

definition bytes_on :: "string \<Rightarrow> service \<Rightarrow> int" where
  "bytes_on k st = sum_list (map (\<lambda>(k', _, nbytes). if k' = k then nbytes else 0) (sv_spent st))
     + sum_list (map (\<lambda>t. if k \<in> set (tk_keys t) then tk_bytes t else 0) (sv_tasks st))"

lemma on_due:
  "queries_on k st = query_meter.due k st" "rows_on k st = row_meter.due k st" "bytes_on k st = byte_meter.due k st"
  unfolding queries_on_def rows_on_def bytes_on_def query_meter.due_def row_meter.due_def byte_meter.due_def
    query_meter.task_due_def row_meter.task_due_def byte_meter.task_due_def
    query_meter.entry_due_def row_meter.entry_due_def byte_meter.entry_due_def
  by (rule refl)+

text \<open>C35: Whatever queries ran before, interrupted by disk errors, cancellations and crashes in any
  order: when a query is admitted, each of its three budgets (the message, the user's hour, the
  department's hour) still covers the queries charged to it, the rows they delivered and the rows
  and bytes the running ones may still deliver, within the limits of the policy.\<close>

theorem budgets_never_overspent:
  assumes "reachable_service sha st" "admissible sha v profile hour rows"
    and "reserve sha disk hour v ref profile rows (sv_state st) = (Inr keys, s')"
    and "st' = st\<lparr>sv_state := s', sv_tasks := \<lparr>tk_ref = ref, tk_keys = keys, tk_rows = rows,
      tk_bytes = qp_max_bytes (dp_policy profile)\<rparr> # sv_tasks st\<rparr>"
    and "l \<in> set (budget_limits sha v profile hour)"
  shows "queries_on (lm_key l) st' \<le> lm_queries l \<and> rows_on (lm_key l) st' \<le> lm_rows l
    \<and> bytes_on (lm_key l) st' \<le> lm_bytes l"
proof -
  let ?mb = "qp_max_bytes (dp_policy profile)"
  obtain rs where "reserve_checks sha hour v ref profile rows (sv_state st) = Inr rs"
    using assms(3) by (cases rule: reserve_cases) auto
  then have within: "\<not> over_budget rows ?mb l (budget_at (sv_state st) (lm_key l))"
    using reservations_charge [OF reserve_checks_charge] assms(5) by blast
  have key: "lm_key l \<in> set keys" using row_meter.reserve_get(2) [OF assms(2,3) refl] assms(5) by simp
  show ?thesis unfolding on_due
    using query_meter.due_below [OF assms(1-4), of "lm_key l" "lm_queries l"]
      row_meter.due_below [OF assms(1-4), of "lm_key l" "lm_rows l"]
      byte_meter.due_below [OF assms(1-4), of "lm_key l" "lm_bytes l"] within key
    by (simp add: over_budget_def)
qed

section \<open>An admitted query\<close>

definition demo_run_row :: run_row where
  "demo_run_row = \<lparr>date_created = '''', created_by = '''', date_updated = '''', updated_by = '''',
     r_id = ''20'', r_scope_id = ''u'', r_session_id = ''10'', r_workspace_id = ''11'', r_run_seq = 1,
     r_idempotency_key = ''k1'', r_request_fingerprint = ''f1'', r_input_ref = '''', r_input_digest = '''',
     r_input_chars = 0, r_agent_ref = ''g'', r_execution_context = '''', r_config_snapshot_ref = '''',
     r_config_snapshot_digest = '''', r_config_snapshot_bytes = 0, r_status = RUNNING,
     r_active_attempt_id = Some ''30'', r_state_version = 1, r_task_outcome = None, r_wait_reason = None,
     r_output_ref = None, r_output_digest = None, r_output_chars = None, r_error = None,
     r_cancel_requested_at = None, r_deadline_at = None, r_due_at = '''', r_next_event_seq = 2\<rparr>"

definition demo_query_run :: run_view where
  "demo_query_run = \<lparr>rv_row = demo_run_row, rv_execution_context = None,
     rv_config_snapshot = Some (JObj [(''tool_refs'', JArr [JStr ''impala-binding@d''])]),
     rv_input = None, rv_output = None, rv_error = None\<rparr>"

definition demo_policy :: query_policy where
  "demo_policy = policy_of_ints [5, 9, 32000, 2048, 100, 6, 5, 8, 8, 1, 4, 12, 5000, 256000, 120, 20000,
     1024000, 600, 100000, 5120000] [] []"

definition demo_profile :: department_profile where
  "demo_profile = \<lparr>dp_department = ''sales'', dp_host = ''h'', dp_user = ''svc'', dp_port = 21050,
     dp_database = ''default'', dp_auth_mechanism = ''LDAP'', dp_password_env = JStr ''PW'',
     dp_ca_cert = JStr '''', dp_use_http_transport = False, dp_http_path = JStr '''',
     dp_request_pool = JStr '''', dp_policy = demo_policy\<rparr>"

definition demo_query_ref :: string where
  "demo_query_ref = ''00000000-0000-4000-8000-000000000001''"

lemma demo_admissible: "admissible id demo_query_run demo_profile 5 100"
  by code_simp

text \<open>On a disk without errors what is checked is written.\<close>

lemma write_budgets_works: "\<exists>s'. write_budgets (\<lambda>_. None) i rs s = (Inr (), s')"
  by (induction rs arbitrary: i s) (auto simp: thenS_def write_json_def returnS_def)

lemma reserve_works:
  assumes "reserve_checks sha hour v ref profile rows s = Inr rs"
  shows "fst (reserve sha (\<lambda>_. None) hour v ref profile rows s) = Inr (map fst rs)"
  using assms write_budgets_works [of 0 rs s]
  by (auto simp: reserve_def thenS_def liftS_def write_json_def changeS_def returnS_def)

lemma demo_checks: "is_ok (reserve_checks id 5 demo_query_run demo_query_ref demo_profile 100 fresh_impala)"
  by code_simp

lemma demo_reserved:
  "\<exists>keys. fst (reserve id (\<lambda>_. None) 5 demo_query_run demo_query_ref demo_profile 100 fresh_impala) = Inr keys"
  using demo_checks reserve_works by (metis is_ok_simps(2) sum.exhaust)

theorem budgets_never_overspent_witness:
  "\<exists>keys s'. reserve id (\<lambda>_. None) 5 demo_query_run demo_query_ref demo_profile 100 (sv_state fresh_service) = (Inr keys, s')
     \<and> rows_on (message_key id demo_query_run) (fresh_service\<lparr>sv_state := s',
          sv_tasks := \<lparr>tk_ref = demo_query_ref, tk_keys = keys, tk_rows = 100,
            tk_bytes = qp_max_bytes (dp_policy demo_profile)\<rparr> # sv_tasks fresh_service\<rparr>) \<le> 5000"
proof -
  obtain keys s' where r: "reserve id (\<lambda>_. None) 5 demo_query_run demo_query_ref demo_profile 100 (sv_state fresh_service)
      = (Inr keys, s')"
    using demo_reserved by (metis fresh_service_def prod.collapse service.select_convs(1))
  define l where "l = hd (budget_limits id demo_query_run demo_profile 5)"
  have l: "l \<in> set (budget_limits id demo_query_run demo_profile 5)"
    "lm_key l = message_key id demo_query_run" "lm_rows l = 5000"
    by (simp_all add: l_def budget_limits_def Let_def demo_profile_def demo_policy_def policy_of_ints_def policy_defaults_def)
  show ?thesis
    using budgets_never_overspent [OF reachable_service.fresh demo_admissible r refl l(1)] r l(2,3) by auto
qed

end
