(* ===== verification/ImpalaSql.thy ===== *)
theory ImpalaSql
  imports ImpalaConfig
begin

text \<open>
  The SELECT validation and outer row cap of \<open>src/code_forge/integrations/impala/sql.py\<close>. SQLGlot is
  an argument: \<open>parse\<close> gives the statements and \<open>render\<close> prints one with a new limit. A statement is
  what the code asks of its syntax tree: the \<^term>\<open>predicate\<close>s of a \<open>WHERE\<close> keep their shape, because
  \<open>restrictive\<close> walks them; of the rest the answers of \<open>isinstance\<close>, \<open>find_all\<close> and the attributes
  read are kept. Errors of SQLGlot are \<^term>\<open>ValueErr e\<close>; any other exception it raises escapes.
\<close>

definition sql_identifier :: "string \<Rightarrow> exn + string" where
  "sql_identifier value = (if is_identifier value then Inr (''`'' @ value @ ''`'')
     else Inl (DomainError INVALID_REQUEST ''Invalid database/table identifier''))"

section \<open>Statements\<close>

text \<open>A comparison: whether it is an \<open>IN\<close> with a query, its columns (name and owner), whether one of
  its leaves is a literal, and whether it contains a function or a query.\<close>

record comparison =
  cmp_in_query :: bool
  cmp_columns :: "(string \<times> string) list"
  cmp_literal :: bool
  cmp_function :: bool

datatype predicate = P_Where predicate | P_Paren predicate | P_And predicate predicate
  | P_Or predicate predicate | P_Compare comparison | P_Other

record select_view =
  sv_where :: "predicate option"
  sv_joins :: bool

record sql_table =
  st_identifier :: bool
  st_parts :: "string list"
  st_db :: string
  st_alias_or_name :: string
  st_select :: "select_view option"

text \<open>The limit is an integer literal, or something else.\<close>

record sql_tree =
  tr_query :: bool
  tr_forbidden :: bool
  tr_functions :: "string list"
  tr_tables :: "sql_table list"
  tr_hints :: "bool list"
  tr_limit :: "int option option"

text \<open>\<open>str.lower\<close> on code points below 256.\<close>

definition lower_char :: "char \<Rightarrow> char" where
  "lower_char c = (let n = of_char c :: nat in
     if (65 \<le> n \<and> n \<le> 90) \<or> (192 \<le> n \<and> n \<le> 222 \<and> n \<noteq> 215) then char_of (n + 32) else c)"

definition py_lower :: "string \<Rightarrow> string" where
  "py_lower s = map lower_char s"

definition lower_of :: "json \<Rightarrow> exn + string" where
  "lower_of j = (case j of JStr s \<Rightarrow> Inr (py_lower s) | _ \<Rightarrow> Inl (ValueErr ''AttributeError''))"

section \<open>Required filters\<close>

text \<open>Whether a comparison restricts the column of the table to constants.\<close>

definition restrictive_comparison :: "json \<Rightarrow> sql_table \<Rightarrow> bool \<Rightarrow> comparison \<Rightarrow> exn + bool" where
  "restrictive_comparison column table joins c =
     (if cmp_in_query c then Inr False
      else case cmp_columns c of
        [(name, owner)] \<Rightarrow>
          bindE (lower_of column) (\<lambda>wanted.
          if py_lower name \<noteq> wanted then Inr False
          else if owner \<noteq> [] \<and> py_lower owner \<noteq> py_lower (st_alias_or_name table) then Inr False
          else if owner = [] \<and> joins then Inr False
          else Inr (cmp_literal c \<and> \<not> cmp_function c))
      | _ \<Rightarrow> Inr False)"

fun restrictive :: "json \<Rightarrow> sql_table \<Rightarrow> bool \<Rightarrow> predicate \<Rightarrow> exn + bool" where
  "restrictive column table joins (P_Where p) = restrictive column table joins p"
| "restrictive column table joins (P_Paren p) = restrictive column table joins p"
| "restrictive column table joins (P_And p q) =
     bindE (restrictive column table joins p) (\<lambda>b. if b then Inr True else restrictive column table joins q)"
| "restrictive column table joins (P_Or p q) =
     bindE (restrictive column table joins p) (\<lambda>b. if b then restrictive column table joins q else Inr False)"
| "restrictive column table joins (P_Compare c) = restrictive_comparison column table joins c"
| "restrictive column table joins P_Other = Inr False"

definition configured_name :: "string \<Rightarrow> string \<Rightarrow> string" where
  "configured_name database table_name = (let n = py_lower table_name in
     if CHR ''.'' \<in> set n then n else py_lower database @ ''.'' @ n)"

definition qualified_name :: "string \<Rightarrow> sql_table \<Rightarrow> string" where
  "qualified_name database table = (let n = py_lower (py_join ''.'' (st_parts table)) in
     if st_db table = [] then py_lower database @ ''.'' @ n else n)"

definition missing_filter :: exn where
  "missing_filter = ValueErr ''Required partition filter is missing''"

definition check_filter :: "string \<Rightarrow> string \<Rightarrow> json \<Rightarrow> sql_table \<Rightarrow> exn + unit" where
  "check_filter database table_name column table =
     (if qualified_name database table \<noteq> configured_name database table_name then Inr ()
      else case st_select table of
        None \<Rightarrow> Inl missing_filter
      | Some sel \<Rightarrow> (case sv_where sel of
          None \<Rightarrow> Inl missing_filter
        | Some p \<Rightarrow> bindE (restrictive column table (sv_joins sel) p)
                     (\<lambda>b. if b then Inr () else Inl missing_filter)))"

fun check_tables :: "(sql_table \<Rightarrow> exn + unit) \<Rightarrow> sql_table list \<Rightarrow> exn + unit" where
  "check_tables f [] = Inr ()"
| "check_tables f (t # ts) = bindE (f t) (\<lambda>_. check_tables f ts)"

fun check_filters :: "string \<Rightarrow> sql_table list \<Rightarrow> (string \<times> json) list \<Rightarrow> exn + unit" where
  "check_filters database tables [] = Inr ()"
| "check_filters database tables ((table_name, column) # rest) =
     bindE (check_tables (check_filter database table_name column) tables)
       (\<lambda>_. check_filters database tables rest)"

section \<open>The whole check\<close>

fun lowered :: "json list \<Rightarrow> exn + string list" where
  "lowered [] = Inr []"
| "lowered (j # js) = bindE (lower_of j) (\<lambda>s. bindE (lowered js) (\<lambda>ss. Inr (s # ss)))"

definition check_functions :: "json list \<Rightarrow> string list \<Rightarrow> exn + unit" where
  "check_functions allowed names =
     (if names = [] then Inr ()
      else bindE (lowered allowed) (\<lambda>ok.
        if list_all (\<lambda>n. py_lower n \<in> set ok) names then Inr () else Inl (ValueErr ''Unapproved function'')))"

text \<open>The limit the statement is given.\<close>

definition capped_limit :: "int \<Rightarrow> sql_tree \<Rightarrow> exn + int" where
  "capped_limit rows tree = (case tr_limit tree of
     None \<Rightarrow> Inr (rows + 1)
   | Some (Some n) \<Rightarrow> if n < 0 then Inl (ValueErr ''LIMIT must be a nonnegative integer'') else Inr (min (rows + 1) n)
   | Some None \<Rightarrow> Inl (ValueErr ''LIMIT must be a nonnegative integer''))"

definition check_statement :: "query_policy \<Rightarrow> string \<Rightarrow> sql_tree \<Rightarrow> exn + unit" where
  "check_statement policy database tree =
     (if \<not> tr_query tree then Inl (ValueErr ''Only one SELECT statement is allowed'')
      else if tr_forbidden tree then Inl (ValueErr ''Write or control statement in query'')
      else bindE (check_functions (qp_allowed_udfs policy) (tr_functions tree)) (\<lambda>_.
      if \<not> list_all st_identifier (tr_tables tree) then Inl (ValueErr ''External/table functions are not allowed'')
      else if list_ex id (tr_hints tree) then Inl (ValueErr ''Query hints are not accepted'')
      else check_filters database (tr_tables tree) (qp_required_filters policy)))"

record sql_library =
  sl_parse :: "string \<Rightarrow> exn + sql_tree list"
  sl_render :: "sql_tree \<Rightarrow> int \<Rightarrow> exn + string"

definition query_rejected :: exn where
  "query_rejected = DomainError INVALID_REQUEST
     ''Query rejected: require one read-only SELECT, literal LIMIT, approved functions and configured partition filters''"

definition reject_query :: "exn + 'a \<Rightarrow> exn + 'a" where
  "reject_query r = (case r of Inl (ValueErr _) \<Rightarrow> Inl query_rejected | _ \<Rightarrow> r)"

definition bounded_select :: "sql_library \<Rightarrow> string \<Rightarrow> int \<Rightarrow> query_policy \<Rightarrow> string \<Rightarrow> exn + string" where
  "bounded_select L sql rows policy database =
     (let n = int (length (utf8_encode sql)) in
      if \<not> (1 \<le> n \<and> n \<le> 32000) then Inl (DomainError INVALID_REQUEST ''SQL must be 1-32000 UTF-8 bytes'')
      else if \<not> (1 \<le> rows \<and> rows \<le> qp_max_rows policy)
      then Inl (DomainError INVALID_REQUEST ''Query row limit exceeds policy'')
      else reject_query (bindE (sl_parse L sql) (\<lambda>statements. case statements of
        [tree] \<Rightarrow> bindE (check_statement policy database tree) (\<lambda>_.
                  bindE (capped_limit rows tree) (\<lambda>amount. sl_render L tree amount))
      | _ \<Rightarrow> Inl (ValueErr ''Only one SELECT statement is allowed''))))"

section \<open>What an accepted statement is\<close>

text \<open>The meaning \<open>restrictive\<close> stands for: every disjunct of the predicate has a comparison of the
  column with a literal among its conjuncts.\<close>

fun dnf :: "predicate \<Rightarrow> comparison list list" where
  "dnf (P_Where p) = dnf p"
| "dnf (P_Paren p) = dnf p"
| "dnf (P_And p q) = concat (map (\<lambda>a. map (\<lambda>b. a @ b) (dnf q)) (dnf p))"
| "dnf (P_Or p q) = dnf p @ dnf q"
| "dnf (P_Compare c) = [[c]]"
| "dnf P_Other = [[]]"

definition pins :: "json \<Rightarrow> sql_table \<Rightarrow> bool \<Rightarrow> comparison \<Rightarrow> bool" where
  "pins column table joins c = (restrictive_comparison column table joins c = Inr True)"

lemma restrictive_every_disjunct:
  "restrictive column table joins p = Inr True \<Longrightarrow> ds \<in> set (dnf p) \<Longrightarrow> \<exists>c\<in>set ds. pins column table joins c"
proof (induction p arbitrary: ds)
  case (P_And p q)
  obtain a b where d: "a \<in> set (dnf p)" "b \<in> set (dnf q)" "ds = a @ b" using P_And.prems(2) by auto
  obtain x where x: "restrictive column table joins p = Inr x" using P_And.prems(1) by (auto elim: bindE_InrE)
  show ?case
  proof (cases x)
    case True
    then show ?thesis using P_And.IH(1) [of a] x d by auto
  next
    case False
    then show ?thesis using P_And.IH(2) [of b] P_And.prems(1) x d by auto
  qed
next
  case (P_Or p q)
  then show ?case by (auto elim!: bindE_InrE split: if_splits)
qed (auto simp: pins_def)

lemma check_tables_all: "check_tables f ts = Inr () \<Longrightarrow> t \<in> set ts \<Longrightarrow> f t = Inr ()"
  by (induction ts) (auto elim!: bindE_InrE)

lemma check_filters_all:
  "check_filters database tables fs = Inr () \<Longrightarrow> (name, column) \<in> set fs \<Longrightarrow> table \<in> set tables
     \<Longrightarrow> check_filter database name column table = Inr ()"
proof (induction fs)
  case (Cons f fs)
  obtain n c where f: "f = (n, c)" by (cases f)
  have "check_tables (check_filter database n c) tables = Inr ()" "check_filters database tables fs = Inr ()"
    using Cons.prems(1) by (auto simp: f elim: bindE_InrE)
  then show ?case using Cons check_tables_all f by fastforce
qed simp

lemma reject_query_Inr: "reject_query r = Inr out \<Longrightarrow> r = Inr out"
  by (auto simp: reject_query_def split: sum.splits exn.splits)

lemma bounded_select_accepts:
  assumes "bounded_select L sql rows policy database = Inr out"
  obtains tree amount where "sl_parse L sql = Inr [tree]" "check_statement policy database tree = Inr ()"
    "capped_limit rows tree = Inr amount" "sl_render L tree amount = Inr out" "amount \<le> rows + 1"
    "1 \<le> rows" "rows \<le> qp_max_rows policy"
proof -
  have r: "1 \<le> rows" "rows \<le> qp_max_rows policy"
    using assms by (auto simp: bounded_select_def Let_def split: if_splits)
  obtain trees where s: "sl_parse L sql = Inr trees"
    and d: "(case trees of [tree] \<Rightarrow> bindE (check_statement policy database tree) (\<lambda>_.
                  bindE (capped_limit rows tree) (\<lambda>amount. sl_render L tree amount))
      | _ \<Rightarrow> Inl (ValueErr ''Only one SELECT statement is allowed'')) = Inr out"
    using assms unfolding bounded_select_def Let_def
    by (auto dest!: reject_query_Inr elim!: bindE_InrE split: if_split_asm)
  obtain tree where "trees = [tree]" using d by (auto split: list.split_asm)
  then obtain amount where t: "sl_parse L sql = Inr [tree]" "check_statement policy database tree = Inr ()"
    "capped_limit rows tree = Inr amount" "sl_render L tree amount = Inr out"
    using s d by (auto elim!: bindE_InrE)
  moreover have "amount \<le> rows + 1" using t(3) by (auto simp: capped_limit_def split: option.splits if_splits)
  ultimately show ?thesis using that r by blast
qed

text \<open>C37: A statement that is accepted and reads a table with a required filter restricts its column to
  constants in every disjunct.\<close>

theorem accepted_query_is_filtered:
  assumes "bounded_select L sql rows policy database = Inr out"
    and "(name, column) \<in> set (qp_required_filters policy)"
  shows "\<exists>tree. sl_parse L sql = Inr [tree] \<and> tr_query tree \<and> \<not> tr_forbidden tree
    \<and> (\<forall>table\<in>set (tr_tables tree). qualified_name database table = configured_name database name \<longrightarrow>
         (\<exists>sel p. st_select table = Some sel \<and> sv_where sel = Some p
            \<and> (\<forall>ds\<in>set (dnf p). \<exists>c\<in>set ds. pins column table (sv_joins sel) c)))"
proof -
  obtain tree amount where t: "sl_parse L sql = Inr [tree]" "check_statement policy database tree = Inr ()"
    using bounded_select_accepts [OF assms(1)] by metis
  have c: "tr_query tree" "\<not> tr_forbidden tree"
    "check_filters database (tr_tables tree) (qp_required_filters policy) = Inr ()"
    using t(2) by (auto simp: check_statement_def split: if_splits elim!: bindE_InrE)
  have "\<exists>sel p. st_select table = Some sel \<and> sv_where sel = Some p
            \<and> (\<forall>ds\<in>set (dnf p). \<exists>c\<in>set ds. pins column table (sv_joins sel) c)"
    if "table \<in> set (tr_tables tree)" "qualified_name database table = configured_name database name" for table
    using check_filters_all [OF c(3) assms(2) that(1)] that(2)
    by (auto simp: check_filter_def split: option.splits if_splits elim!: bindE_InrE
        intro: restrictive_every_disjunct)
  then show ?thesis using t(1) c by blast
qed

section \<open>An accepted query\<close>

definition demo_where :: predicate where
  "demo_where = P_Where (P_And P_Other (P_Compare \<lparr>cmp_in_query = False, cmp_columns = [(''DT'', '''')],
     cmp_literal = True, cmp_function = False\<rparr>))"

definition demo_tree :: sql_tree where
  "demo_tree = \<lparr>tr_query = True, tr_forbidden = False, tr_functions = [], tr_tables = [\<lparr>st_identifier = True,
     st_parts = [''T''], st_db = '''', st_alias_or_name = ''T'',
     st_select = Some \<lparr>sv_where = Some demo_where, sv_joins = False\<rparr>\<rparr>], tr_hints = [], tr_limit = None\<rparr>"

definition demo_library :: sql_library where
  "demo_library = \<lparr>sl_parse = (\<lambda>_. Inr [demo_tree]), sl_render = (\<lambda>_ n. Inr (''SELECT n LIMIT '' @ py_str_int n))\<rparr>"

definition filter_policy :: query_policy where
  "filter_policy = policy_of_ints [5, 9, 32000, 2048, 100, 6, 5, 8, 8, 1, 4, 12, 5000, 256000, 120, 20000,
     1024000, 600, 100000, 5120000] [(''t'', JStr ''dt'')] []"

lemma demo_selected: "bounded_select demo_library ''q'' 5 filter_policy ''default'' = Inr ''SELECT n LIMIT 6''"
  by code_simp

theorem accepted_query_is_filtered_witness:
  "\<exists>tree sel p. sl_parse demo_library ''q'' = Inr [tree] \<and> map st_select (tr_tables tree) = [Some sel]
     \<and> sv_where sel = Some p \<and> list_all (list_ex (pins (JStr ''dt'') (hd (tr_tables tree)) (sv_joins sel))) (dnf p)"
proof -
  have f: "(''t'', JStr ''dt'') \<in> set (qp_required_filters filter_policy)" by (simp add: filter_policy_def policy_of_ints_def)
  have q: "qualified_name ''default'' (hd (tr_tables demo_tree)) = configured_name ''default'' ''t''" by code_simp
  have l: "sl_parse demo_library ''q'' = Inr [demo_tree]" by (simp add: demo_library_def)
  have t: "tr_tables demo_tree = [hd (tr_tables demo_tree)]" by (simp add: demo_tree_def)
  then have "hd (tr_tables demo_tree) \<in> set (tr_tables demo_tree)" by (metis list.set_intros(1))
  then obtain sel p where s: "st_select (hd (tr_tables demo_tree)) = Some sel" "sv_where sel = Some p"
      "\<forall>ds\<in>set (dnf p). \<exists>c\<in>set ds. pins (JStr ''dt'') (hd (tr_tables demo_tree)) (sv_joins sel) c"
    using accepted_query_is_filtered [OF demo_selected f] q l by auto
  have "map st_select (tr_tables demo_tree) = [Some sel]" using t s(1) by (metis list.simps(8,9))
  then show ?thesis using l s(2,3) by (auto simp: list_all_iff list_ex_iff)
qed

end
