(* ===== verification/ImpalaQuery.thy ===== *)
theory ImpalaQuery
  imports ImpalaBudgets ImpalaSql
begin

text \<open>
  Running one query: \<open>_execute\<close> and \<open>_row\<close> of \<open>src/code_forge/integrations/impala/service.py\<close>, with
  the connection arguments and the query id of \<open>src/code_forge/integrations/impala/driver.py\<close>.

  The driver, the clock, the cancellation and the configuration file are a script: what each call of
  the driver answers, in order, and what each checkpoint finds. A loop reads its answers from a list;
  when the list ends first, the query is still running and there is no outcome (\<^const>\<open>None\<close>). A
  cell is what \<open>_row\<close> tells apart; a finite float passes through unchanged and is no cell here,
  because the model's JSON has no fractions.
\<close>

section \<open>The driver module\<close>

definition connect_arguments :: "(string \<Rightarrow> string option) \<Rightarrow> department_profile \<Rightarrow> exn + json_dict" where
  "connect_arguments secrets d =
     (let kwargs = [(''host'', JStr (dp_host d)), (''port'', JInt (dp_port d)),
          (''database'', JStr (dp_database d)), (''auth_mechanism'', JStr (dp_auth_mechanism d)),
          (''timeout'', JInt (qp_rpc_timeout_seconds (dp_policy d))), (''use_ssl'', JBool True),
          (''verify_cert'', JBool True), (''retries'', JInt 1),
          (''use_http_transport'', JBool (dp_use_http_transport d)), (''http_path'', dp_http_path d)]
          @ (if json_truthy (dp_ca_cert d) then [(''ca_cert'', dp_ca_cert d)] else []) in
      bindE (case dp_password_env d of JStr k \<Rightarrow> Inr (secrets k) | JArr _ \<Rightarrow> Inl (ValueErr ''TypeError'')
               | JObj _ \<Rightarrow> Inl (ValueErr ''TypeError'') | _ \<Rightarrow> Inr None) (\<lambda>password.
      if falsy password then Inl (DomainError DEPENDENCY_UNAVAILABLE ''Impala credential is unavailable'')
      else Inr (kwargs @ [(''user'', JStr (dp_user d)), (''password'', JStr (the password))])))"

definition hex_byte :: "char \<Rightarrow> string" where
  "hex_byte c = (let n = of_char c :: nat in [hex_digit (n div 16), hex_digit (n mod 16)])"

definition little_endian_hex :: "string \<Rightarrow> string" where
  "little_endian_hex bytes = concat (map hex_byte (rev bytes))"

text \<open>The operation GUID, when the cursor has one of bytes.\<close>

definition query_id_of :: "string option \<Rightarrow> string option" where
  "query_id_of guid = (case guid of
     Some g \<Rightarrow> if length g = 16 then Some (little_endian_hex (take 8 g) @ '':'' @ little_endian_hex (drop 8 g)) else None
   | None \<Rightarrow> None)"

section \<open>Cells\<close>

datatype cell = C_None | C_Bool bool | C_Int int | C_Bytes string | C_Other string

definition b64_char :: "nat \<Rightarrow> char" where
  "b64_char n = (if n < 26 then char_of (65 + n) else if n < 52 then char_of (71 + n)
     else if n < 62 then char_of (n - 4) else if n = 62 then CHR ''+'' else CHR ''/'')"

fun b64encode :: "string \<Rightarrow> string" where
  "b64encode [] = []"
| "b64encode [a] = (let n = of_char a * 65536 :: nat in
     [b64_char (n div 262144), b64_char (n div 4096 mod 64), CHR ''='', CHR ''=''])"
| "b64encode [a, b] = (let n = of_char a * 65536 + of_char b * 256 :: nat in
     [b64_char (n div 262144), b64_char (n div 4096 mod 64), b64_char (n div 64 mod 64), CHR ''=''])"
| "b64encode (a # b # c # rest) = (let n = of_char a * 65536 + of_char b * 256 + of_char c :: nat in
     [b64_char (n div 262144), b64_char (n div 4096 mod 64), b64_char (n div 64 mod 64), b64_char (n mod 64)]
     @ b64encode rest)"

text \<open>\<open>bytes.decode("utf-8", errors="ignore")\<close>.\<close>

fun utf8_decode_ignore :: "string \<Rightarrow> string" where
  "utf8_decode_ignore [] = []"
| "utf8_decode_ignore (a # bs) =
     (if (of_char a :: nat) < 128 then a # utf8_decode_ignore bs
      else case bs of
        [] \<Rightarrow> []
      | b # cs \<Rightarrow>
          let n = of_char a :: nat; m = of_char b :: nat in
          if n \<in> {194, 195} \<and> 128 \<le> m \<and> m < 192
          then char_of ((n - 192) * 64 + (m - 128)) # utf8_decode_ignore cs
          else utf8_decode_ignore bs)"

definition clip_text :: "int \<Rightarrow> string \<Rightarrow> string \<times> bool" where
  "clip_text limit s = (let raw = utf8_encode s in
     if int (length raw) > limit then (utf8_decode_ignore (take (nat limit) raw), True) else (s, False))"

definition cell_value :: "int \<Rightarrow> cell \<Rightarrow> json \<times> bool" where
  "cell_value limit c = (case c of
     C_None \<Rightarrow> (JNull, False) | C_Bool b \<Rightarrow> (JBool b, False) | C_Int i \<Rightarrow> (JInt i, False)
   | C_Bytes bytes \<Rightarrow> (case clip_text limit (b64encode (take (nat limit) bytes)) of
        (s, clipped) \<Rightarrow> (JStr s, clipped \<or> int (length bytes) > limit))
   | C_Other s \<Rightarrow> (case clip_text limit s of (t, clipped) \<Rightarrow> (JStr t, clipped)))"

definition row_values :: "int \<Rightarrow> cell list \<Rightarrow> json list \<times> bool" where
  "row_values limit cells = (map (fst \<circ> cell_value limit) cells, list_ex (snd \<circ> cell_value limit) cells)"

section \<open>The result\<close>

record query_result =
  qx_ref :: string
  qx_query_id :: "string option"
  qx_status :: string
  qx_department :: string
  qx_account :: string
  qx_columns :: "string list"
  qx_rows :: "json list list"
  qx_row_count :: int
  qx_truncated :: bool
  qx_reasons :: "string list"
  qx_error :: "(error_code \<times> string) option"
  qx_elapsed :: "int option"

definition result_dict :: "query_result \<Rightarrow> json_dict" where
  "result_dict r = [(''query_ref'', JStr (qx_ref r)), (''query_id'', opt_str (qx_query_id r)),
     (''status'', JStr (qx_status r)), (''department'', JStr (qx_department r)),
     (''account'', JStr (qx_account r)), (''columns'', JArr (map JStr (qx_columns r))),
     (''rows'', JArr (map JArr (qx_rows r))), (''row_count'', JInt (qx_row_count r)),
     (''truncated'', JBool (qx_truncated r)), (''truncation_reasons'', JArr (map JStr (qx_reasons r)))]
   @ (case qx_error r of None \<Rightarrow> []
      | Some (code, msg) \<Rightarrow> [(''error'', JObj [(''code'', JStr (error_code_value code)), (''message'', JStr msg)])])
   @ (case qx_elapsed r of None \<Rightarrow> [] | Some ms \<Rightarrow> [(''elapsed_ms'', JInt ms)])"

definition encoded_size :: "query_result \<Rightarrow> int" where
  "encoded_size r = int (length (encoded (JObj (result_dict r))))"

definition running_result :: "string \<Rightarrow> department_profile \<Rightarrow> query_result" where
  "running_result ref d = \<lparr>qx_ref = ref, qx_query_id = None, qx_status = ''RUNNING'',
     qx_department = dp_department d, qx_account = dp_user d, qx_columns = [], qx_rows = [],
     qx_row_count = 0, qx_truncated = False, qx_reasons = [], qx_error = None, qx_elapsed = None\<rparr>"

section \<open>Checkpoints and loops\<close>

text \<open>What a checkpoint finds: the flag or the stop, \<open>cancelled()\<close>, the deadline, the configuration.\<close>

record check =
  ck_flag :: bool
  ck_cancelled :: "exn + bool"
  ck_late :: bool
  ck_config :: "exn + string"

definition cancelled_now :: "check \<Rightarrow> exn + bool" where
  "cancelled_now c = (if ck_flag c then Inr True else ck_cancelled c)"

definition checkpoint :: "(string \<Rightarrow> string) \<Rightarrow> run_view \<Rightarrow> department_profile \<Rightarrow> check \<Rightarrow> exn + unit" where
  "checkpoint sha v d c =
     bindE (cancelled_now c) (\<lambda>gone.
     if gone then Inl (DomainError EXECUTION_FAILED ''Query cancellation requested'')
     else if ck_late c then Inl (DomainError EXECUTION_FAILED ''Impala query deadline exceeded'')
     else bindE (require_binding sha (ck_config c) (r_scope_id (rv_row v)) (Some (profile_digest sha d)))
            (\<lambda>_. Inr ()))"

fun wait_finished :: "(check \<Rightarrow> exn + unit) \<Rightarrow> (check \<times> (exn + string)) list \<Rightarrow> (exn + unit) option" where
  "wait_finished point [] = None"
| "wait_finished point ((c, answer) # polls) =
     (case bindE (point c) (\<lambda>_. answer) of
        Inl e \<Rightarrow> Some (Inl e)
      | Inr state \<Rightarrow>
          if state = ''FINISHED_STATE'' then Some (Inr ())
          else if state \<in> {''ERROR_STATE'', ''CANCELED_STATE'', ''CLOSED_STATE''}
          then Some (Inl (DomainError EXECUTION_FAILED (''Impala returned '' @ state)))
          else wait_finished point polls)"

definition add_reason :: "string \<Rightarrow> query_result \<Rightarrow> query_result" where
  "add_reason reason r = r\<lparr>qx_reasons := qx_reasons r @ [reason]\<rparr>"

text \<open>One row of the fetch loop: the result, and whether the loop goes on.\<close>

definition take_row :: "query_policy \<Rightarrow> int \<Rightarrow> cell list \<Rightarrow> query_result \<Rightarrow> query_result \<times> bool" where
  "take_row p rows cells r =
     (if int (length (qx_rows r)) \<ge> rows then (add_reason ''row_limit'' r, False)
      else let (row, clipped) = row_values (qp_cell_bytes p) cells; cand = r\<lparr>qx_rows := qx_rows r @ [row]\<rparr> in
        if encoded_size cand > qp_max_bytes p - 1024 then (add_reason ''byte_limit'' r, False)
        else (if clipped \<and> ''cell_limit'' \<notin> set (qx_reasons r) then add_reason ''cell_limit'' cand else cand, True))"

fun fetch_rows :: "(check \<Rightarrow> exn + unit) \<Rightarrow> query_policy \<Rightarrow> int \<Rightarrow> (check \<times> (exn + cell list option)) list
    \<Rightarrow> query_result \<Rightarrow> ((exn + unit) \<times> query_result) option" where
  "fetch_rows point p rows [] r = None"
| "fetch_rows point p rows ((c, answer) # fetches) r =
     (case bindE (point c) (\<lambda>_. answer) of
        Inl e \<Rightarrow> Some (Inl e, r)
      | Inr None \<Rightarrow> Some (Inr (), r)
      | Inr (Some cells) \<Rightarrow>
          (case take_row p rows cells r of
             (r', False) \<Rightarrow> Some (Inr (), r')
           | (r', True) \<Rightarrow> fetch_rows point p rows fetches r'))"

section \<open>The body of a query\<close>

record script =
  sc_start :: check
  sc_connect :: "exn + unit"
  sc_cursor :: "exn + unit"
  sc_arraysize :: "exn + unit"
  sc_execute :: "string \<Rightarrow> json_dict \<Rightarrow> exn + unit"
  sc_identity_polls :: "(check \<times> (exn + string)) list"
  sc_identity :: "exn + string option"
  sc_second :: check
  sc_guid :: "string option"
  sc_save :: "nat \<Rightarrow> exn option"
  sc_progress :: "exn + unit"
  sc_polls :: "(check \<times> (exn + string)) list"
  sc_columns :: "exn + string list"
  sc_fetches :: "(check \<times> (exn + cell list option)) list"
  sc_end :: check
  sc_handler :: check
  sc_cancel :: "exn + unit"
  sc_after_cancel :: "exn + string"
  sc_close :: "exn + unit"
  sc_disconnect :: "exn + unit"
  sc_elapsed :: int
  sc_settle :: "nat \<Rightarrow> exn option"

record exec =
  ex_result :: query_result
  ex_dispatched :: bool
  ex_cursor :: bool
  ex_connection :: bool
  ex_ledger :: impala

type_synonym 'a part = "exec \<Rightarrow> ((exn + 'a) \<times> exec) option"

definition thenP :: "'a part \<Rightarrow> ('a \<Rightarrow> 'b part) \<Rightarrow> 'b part" where
  "thenP m f x = (case m x of None \<Rightarrow> None | Some (Inl e, x') \<Rightarrow> Some (Inl e, x') | Some (Inr v, x') \<Rightarrow> f v x')"

definition liftP :: "exn + 'a \<Rightarrow> 'a part" where "liftP r x = Some (r, x)"

definition waitP :: "(exn + unit) option \<Rightarrow> unit part" where
  "waitP r x = map_option (\<lambda>a. (a, x)) r"

definition modP :: "(exec \<Rightarrow> exec) \<Rightarrow> unit part" where "modP f x = Some (Inr (), f x)"

definition resultP :: "(query_result \<Rightarrow> query_result) \<Rightarrow> unit part" where
  "resultP f = modP (\<lambda>x. x\<lparr>ex_result := f (ex_result x)\<rparr>)"

definition saveP :: "(nat \<Rightarrow> exn option) \<Rightarrow> string \<Rightarrow> unit part" where
  "saveP disk ref x = (case save disk 0 ref (result_dict (ex_result x)) (ex_ledger x) of
     (r, s') \<Rightarrow> Some (r, x\<lparr>ex_ledger := s'\<rparr>))"

definition fetchP :: "(check \<Rightarrow> exn + unit) \<Rightarrow> query_policy \<Rightarrow> int \<Rightarrow> (check \<times> (exn + cell list option)) list \<Rightarrow> unit part" where
  "fetchP point p rows fetches x =
     map_option (\<lambda>(a, r). (a, x\<lparr>ex_result := r\<rparr>)) (fetch_rows point p rows fetches (ex_result x))"

definition query_options :: "department_profile \<Rightarrow> int \<Rightarrow> json_dict" where
  "query_options d rows = (let p = dp_policy d in
     [(''EXEC_TIME_LIMIT_S'', JStr (py_str_int (qp_timeout_seconds p))),
      (''MEM_LIMIT'', JStr (py_str_int (qp_mem_limit_mb p) @ ''m'')),
      (''SCAN_BYTES_LIMIT'', JStr (py_str_int (qp_scan_bytes_limit_mb p) @ ''m'')),
      (''NUM_ROWS_PRODUCED_LIMIT'', JStr (py_str_int (max (rows + 1) (qp_max_rows p + 1)))),
      (''MAX_ROW_SIZE'', JStr ''64k''), (''FETCH_ROWS_TIMEOUT_MS'', JStr ''1000'')]
     @ (if json_truthy (dp_request_pool d) then [(''REQUEST_POOL'', dp_request_pool d)] else []))"

text \<open>From the first checkpoint to the verified account, and from there to the description.\<close>

definition open_session :: "(check \<Rightarrow> exn + unit) \<Rightarrow> department_profile \<Rightarrow> int \<Rightarrow> script \<Rightarrow> unit part" where
  "open_session point d rows sc =
     thenP (liftP (point (sc_start sc))) (\<lambda>_.
     thenP (liftP (sc_connect sc)) (\<lambda>_.
     thenP (modP (\<lambda>x. x\<lparr>ex_connection := True\<rparr>)) (\<lambda>_.
     thenP (liftP (sc_cursor sc)) (\<lambda>_.
     thenP (modP (\<lambda>x. x\<lparr>ex_cursor := True\<rparr>)) (\<lambda>_.
     thenP (liftP (sc_arraysize sc)) (\<lambda>_.
     thenP (modP (\<lambda>x. x\<lparr>ex_dispatched := True\<rparr>)) (\<lambda>_.
     thenP (liftP (sc_execute sc ''SELECT effective_user()'' (query_options d rows))) (\<lambda>_.
     thenP (waitP (wait_finished point (sc_identity_polls sc))) (\<lambda>_.
     thenP (liftP (sc_identity sc)) (\<lambda>identity.
     if identity \<noteq> Some (dp_user d)
     then liftP (Inl (DomainError CAPABILITY_DENIED ''Impala effective account mismatch''))
     else liftP (point (sc_second sc))))))))))))"

definition start_query :: "(check \<Rightarrow> exn + unit) \<Rightarrow> string \<Rightarrow> department_profile \<Rightarrow> string \<Rightarrow> int \<Rightarrow> script \<Rightarrow> unit part" where
  "start_query point ref d sql rows sc =
     thenP (liftP (sc_execute sc sql (query_options d rows))) (\<lambda>_.
     thenP (resultP (\<lambda>r. r\<lparr>qx_query_id := query_id_of (sc_guid sc)\<rparr>)) (\<lambda>_.
     thenP (saveP (sc_save sc) ref) (\<lambda>_.
     thenP (liftP (sc_progress sc)) (\<lambda>_.
     waitP (wait_finished point (sc_polls sc))))))"

definition read_columns :: "department_profile \<Rightarrow> script \<Rightarrow> unit part" where
  "read_columns d sc =
     thenP (liftP (sc_columns sc)) (\<lambda>columns.
     if int (length columns) > qp_max_columns (dp_policy d)
     then liftP (Inl (DomainError INVALID_REQUEST ''Result has too many columns''))
     else thenP (resultP (\<lambda>r. r\<lparr>qx_columns := map (take 128) columns\<rparr>)) (\<lambda>_ x.
       if encoded_size (ex_result x) > qp_max_bytes (dp_policy d) - 1024
       then Some (Inl (DomainError INVALID_REQUEST ''Result column metadata exceeds byte limit''), x)
       else Some (Inr (), x)))"

definition query_body :: "(check \<Rightarrow> exn + unit) \<Rightarrow> string \<Rightarrow> department_profile \<Rightarrow> string \<Rightarrow> int \<Rightarrow> script \<Rightarrow> unit part" where
  "query_body point ref d sql rows sc =
     thenP (open_session point d rows sc) (\<lambda>_.
     thenP (start_query point ref d sql rows sc) (\<lambda>_.
     thenP (read_columns d sc) (\<lambda>_.
     thenP (fetchP point (dp_policy d) rows (sc_fetches sc)) (\<lambda>_.
     thenP (liftP (point (sc_end sc))) (\<lambda>_.
     resultP (\<lambda>r. r\<lparr>qx_status := ''SUCCEEDED''\<rparr>))))))"

section \<open>Errors and cleaning up\<close>

definition fail_result :: "string \<Rightarrow> error_code \<Rightarrow> string \<Rightarrow> query_result \<Rightarrow> query_result" where
  "fail_result status code msg r = r\<lparr>qx_status := status, qx_error := Some (code, msg)\<rparr>"

text \<open>The two handlers; the first component is the exception that leaves \<open>_execute\<close>, if one does.\<close>

definition handle_failure :: "script \<Rightarrow> (exn + unit) \<times> exec \<Rightarrow> exn option \<times> exec" where
  "handle_failure sc outcome = (case outcome of
     (Inr _, x) \<Rightarrow> (None, x)
   | (Inl (DomainError code msg), x) \<Rightarrow>
       let r = fail_result ''FAILED'' code msg (ex_result x) in
       (case cancelled_now (sc_handler sc) of
          Inl e \<Rightarrow> (Some e, x\<lparr>ex_result := r\<rparr>)
        | Inr gone \<Rightarrow> (None, x\<lparr>ex_result := (if gone then r\<lparr>qx_status := ''CANCELLED''\<rparr> else r)\<rparr>))
   | (Inl _, x) \<Rightarrow> (None, x\<lparr>ex_result := fail_result (if ex_dispatched x then ''UNKNOWN'' else ''FAILED'')
        EXECUTION_FAILED ''Impala connection/query failed; remote status may be unknown'' (ex_result x)\<rparr>))"

definition close_cursor :: "script \<Rightarrow> query_result \<Rightarrow> query_result" where
  "close_cursor sc r =
     (case bindE (if qx_status r = ''SUCCEEDED'' then Inr r
            else bindE (sc_cancel sc) (\<lambda>_. bindE (sc_after_cancel sc) (\<lambda>state.
              Inr (if state \<in> {''CANCELED_STATE'', ''CLOSED_STATE'', ''FINISHED_STATE'', ''ERROR_STATE''} then r
                   else r\<lparr>qx_status := ''UNKNOWN''\<rparr>))))
            (\<lambda>r'. bindE (sc_close sc) (\<lambda>_. Inr r')) of
        Inr r' \<Rightarrow> r'
      | Inl _ \<Rightarrow> fail_result ''UNKNOWN'' EXECUTION_FAILED ''Remote cleanup could not be confirmed'' r)"

definition close_connection :: "script \<Rightarrow> query_result \<Rightarrow> query_result" where
  "close_connection sc r = (case sc_disconnect sc of Inl _ \<Rightarrow> r\<lparr>qx_status := ''UNKNOWN''\<rparr> | Inr _ \<Rightarrow> r)"

definition final_result :: "int \<Rightarrow> query_result \<Rightarrow> query_result" where
  "final_result elapsed r0 =
     (let r = (if qx_status r0 \<noteq> ''SUCCEEDED'' then r0\<lparr>qx_rows := [], qx_columns := []\<rparr> else r0) in
      r\<lparr>qx_row_count := int (length (qx_rows r)), qx_truncated := (qx_reasons r \<noteq> []),
        qx_elapsed := Some elapsed\<rparr>)"

definition clean_up :: "script \<Rightarrow> exec \<Rightarrow> query_result" where
  "clean_up sc x =
     (let r1 = (if ex_cursor x then close_cursor sc (ex_result x) else ex_result x);
          r2 = (if ex_connection x then close_connection sc r1 else r1) in
      final_result (sc_elapsed sc) r2)"

text \<open>What the \<open>finally\<close> leaves: the settled result, unless settling or a handler raised.\<close>

definition finish_query ::
  "string \<Rightarrow> department_profile \<Rightarrow> int \<Rightarrow> string list \<Rightarrow> script \<Rightarrow> exn option \<times> exec \<Rightarrow> (exn + query_result) \<times> impala" where
  "finish_query ref d rows keys sc outcome =
     (let (escaped, x) = outcome; result = clean_up sc x;
          (settled, s') = settle_query (sc_settle sc) ref keys rows (qp_max_bytes (dp_policy d))
             (qx_row_count result) (result_dict result) (ex_ledger x) in
      (bindE settled (\<lambda>_. case escaped of Some e \<Rightarrow> Inl e | None \<Rightarrow> Inr result), s'))"

definition execute_query ::
  "(string \<Rightarrow> string) \<Rightarrow> run_view \<Rightarrow> string \<Rightarrow> department_profile \<Rightarrow> string \<Rightarrow> int \<Rightarrow> string list \<Rightarrow> script
     \<Rightarrow> impala \<Rightarrow> ((exn + query_result) \<times> impala) option" where
  "execute_query sha v ref d sql rows keys sc s =
     map_option (\<lambda>outcome. finish_query ref d rows keys sc (handle_failure sc outcome))
     (query_body (checkpoint sha v d) ref d sql rows sc
        \<lparr>ex_result = running_result ref d, ex_dispatched = False, ex_cursor = False, ex_connection = False,
         ex_ledger = s\<rparr>)"

section \<open>The size of a result\<close>

definition text_size :: "json \<Rightarrow> int" where
  "text_size j = int (length (encoded j))"

definition key_size :: "string \<Rightarrow> int" where
  "key_size k = int (length (utf8_encode (quote_str k))) + 2"

lemma utf8_encode_ascii: "\<forall>c\<in>set s. (of_char c :: nat) < 128 \<Longrightarrow> utf8_encode s = s"
  by (induction s) (auto simp: utf8_encode_def utf8_char_def)

lemma utf8_encode_Cons: "(of_char c :: nat) < 128 \<Longrightarrow> utf8_encode (c # s) = c # utf8_encode s"
  by (simp add: utf8_encode_def utf8_char_def)

lemma utf8_encode_Nil: "utf8_encode [] = []"
  by (simp add: utf8_encode_def)

lemmas utf8_sizes = utf8_encode_append utf8_encode_Cons utf8_encode_Nil

lemma join_size:
  "xs \<noteq> [] \<Longrightarrow> int (length (utf8_encode (py_join '','' xs))) = sum_list (map (\<lambda>x. int (length (utf8_encode x)) + 1) xs) - 1"
  by (induction "'',''" xs rule: py_join.induct) (auto simp: utf8_sizes)

lemma object_size:
  assumes "kvs \<noteq> []"
  shows "text_size (JObj kvs) = 1 + sum_list (map (\<lambda>(k, v). key_size k + text_size v) kvs)"
proof -
  have "int (length (utf8_encode (dumps False '','' '':'' (JObj kvs))))
      = 2 + (sum_list (map (\<lambda>x. int (length (utf8_encode x)) + 1)
               (map (\<lambda>(k, v). quote_str k @ '':'' @ dumps False '','' '':'' v) kvs)) - 1)"
    using assms by (simp add: Let_def utf8_sizes join_size comp_def case_prod_unfold)
  moreover have "sum_list (map (\<lambda>x. int (length (utf8_encode x)) + 1)
               (map (\<lambda>(k, v). quote_str k @ '':'' @ dumps False '','' '':'' v) kvs))
      = sum_list (map (\<lambda>(k, v). key_size k + text_size v) kvs)"
    by (induction kvs) (auto simp: key_size_def text_size_def encoded_def utf8_sizes)
  ultimately show ?thesis by (simp add: text_size_def encoded_def)
qed

text \<open>What the end of a query adds to a result that had rows, columns and no error.\<close>

definition status_size :: "query_result \<Rightarrow> int" where
  "status_size r = text_size (JStr (qx_status r)) + text_size (JInt (qx_row_count r))
     + text_size (JBool (qx_truncated r)) + text_size (JArr (map JStr (qx_reasons r)))
     + (case qx_elapsed r of None \<Rightarrow> 0 | Some ms \<Rightarrow> key_size ''elapsed_ms'' + text_size (JInt ms))"

lemma same_frame_size:
  assumes "qx_ref r = qx_ref q" "qx_query_id r = qx_query_id q" "qx_department r = qx_department q"
    "qx_account r = qx_account q" "qx_columns r = qx_columns q" "qx_rows r = qx_rows q"
    "qx_error r = None" "qx_error q = None"
  shows "encoded_size r - status_size r = encoded_size q - status_size q"
proof -
  have "encoded_size x - status_size x = 1 + key_size ''query_ref'' + text_size (JStr (qx_ref x))
     + key_size ''query_id'' + text_size (opt_str (qx_query_id x)) + key_size ''status''
     + key_size ''department'' + text_size (JStr (qx_department x)) + key_size ''account''
     + text_size (JStr (qx_account x)) + key_size ''columns'' + text_size (JArr (map JStr (qx_columns x)))
     + key_size ''rows'' + text_size (JArr (map JArr (qx_rows x))) + key_size ''row_count''
     + key_size ''truncated'' + key_size ''truncation_reasons''" if "qx_error x = None" for x
    using that by (simp add: encoded_size_def text_size_def [symmetric] object_size result_dict_def
        status_size_def split: option.split)
  then show ?thesis using assms by simp
qed

lemma py_str_nat_length: "n < 10 ^ Suc k \<Longrightarrow> length (py_str_nat n) \<le> Suc k"
proof (induction k arbitrary: n)
  case 0
  then show ?case by (subst py_str_nat.simps) simp
next
  case (Suc k)
  show ?case
  proof (cases "n < 10")
    case True
    then show ?thesis by (subst py_str_nat.simps) simp
  next
    case False
    have "n div 10 < 10 ^ Suc k" using Suc.prems by simp
    from Suc.IH [OF this] False show ?thesis by (subst py_str_nat.simps) simp
  qed
qed

lemma digits_ascii: "utf8_encode (py_str_nat n) = py_str_nat n"
  using py_str_nat_digits [of n] by (intro utf8_encode_ascii) (auto simp: is_digit_def Let_def)

lemma number_size: "0 \<le> i \<Longrightarrow> i < 10 ^ Suc k \<Longrightarrow> text_size (JInt i) \<le> int (Suc k)"
proof -
  assume i: "0 \<le> i" "i < 10 ^ Suc k"
  then have "nat i < 10 ^ Suc k" by (simp add: nat_less_iff)
  from py_str_nat_length [OF this] show ?thesis
    using i by (simp add: text_size_def encoded_def py_str_int_def digits_ascii)
qed

section \<open>What the fetch loop keeps\<close>

definition frame_size :: "query_result \<Rightarrow> int" where
  "frame_size r = encoded_size r - status_size r"

lemma status_size_nonneg: "0 \<le> status_size r"
  by (auto simp: status_size_def text_size_def key_size_def split: option.split)

lemma frame_size_le: "encoded_size r \<le> b \<Longrightarrow> frame_size r \<le> b"
  using status_size_nonneg [of r] by (simp add: frame_size_def)

lemma frame_size_reasons:
  "qx_error r = None \<Longrightarrow> frame_size (r\<lparr>qx_reasons := rs\<rparr>) = frame_size r"
  unfolding frame_size_def by (rule same_frame_size) simp_all

text \<open>The rows the driver gives until it gives none.\<close>

fun given_rows :: "(check \<times> (exn + cell list option)) list \<Rightarrow> cell list list" where
  "given_rows ((_, Inr (Some cells)) # fetches) = cells # given_rows fetches"
| "given_rows _ = []"

definition shown_row :: "int \<Rightarrow> cell list \<Rightarrow> json list" where
  "shown_row limit cells = fst (row_values limit cells)"

definition clipped_row :: "int \<Rightarrow> cell list \<Rightarrow> bool" where
  "clipped_row limit cells = snd (row_values limit cells)"

definition open_reasons :: "string list set" where
  "open_reasons = {[], [''cell_limit'']}"

definition all_reasons :: "string list set" where
  "all_reasons = {[], [''cell_limit''], [''row_limit''], [''byte_limit''], [''cell_limit'', ''row_limit''],
     [''cell_limit'', ''byte_limit'']}"

lemma take_row_on:
  assumes "take_row p rows cells r = (r', True)" "qx_error r = None" "qx_reasons r \<in> open_reasons"
  obtains reasons where "r' = r\<lparr>qx_rows := qx_rows r @ [shown_row (qp_cell_bytes p) cells], qx_reasons := reasons\<rparr>"
    "reasons \<in> open_reasons" "reasons = [] \<longrightarrow> qx_reasons r = [] \<and> \<not> clipped_row (qp_cell_bytes p) cells"
    "int (length (qx_rows r)) < rows" "frame_size r' \<le> qp_max_bytes p - 1024"
proof -
  define cand where "cand = r\<lparr>qx_rows := qx_rows r @ [shown_row (qp_cell_bytes p) cells]\<rparr>"
  have len: "int (length (qx_rows r)) < rows" and small: "encoded_size cand \<le> qp_max_bytes p - 1024"
    and r': "r' = (if clipped_row (qp_cell_bytes p) cells \<and> ''cell_limit'' \<notin> set (qx_reasons r)
         then add_reason ''cell_limit'' cand else cand)"
    using assms(1) by (auto simp: take_row_def Let_def shown_row_def clipped_row_def cand_def split: if_splits prod.splits)
  define reasons where "reasons = qx_reasons r'"
  have shape: "r' = r\<lparr>qx_rows := qx_rows r @ [shown_row (qp_cell_bytes p) cells], qx_reasons := reasons\<rparr>"
    by (simp add: reasons_def r' cand_def add_reason_def)
  have rs: "reasons \<in> open_reasons" "reasons = [] \<longrightarrow> qx_reasons r = [] \<and> \<not> clipped_row (qp_cell_bytes p) cells"
    using assms(3) by (auto simp: reasons_def r' cand_def add_reason_def open_reasons_def split: if_splits)
  have "r' = cand\<lparr>qx_reasons := reasons\<rparr>" using shape by (simp add: cand_def)
  then have "frame_size r' = frame_size cand" using assms(2) by (simp add: frame_size_reasons cand_def)
  then show ?thesis using that [OF shape rs len] frame_size_le [OF small] by simp
qed

lemma take_row_off:
  assumes "take_row p rows cells r = (r', False)" "qx_reasons r \<in> open_reasons"
  obtains reasons where "r' = r\<lparr>qx_reasons := reasons\<rparr>" "reasons \<in> all_reasons" "reasons \<noteq> []"
proof -
  have "r' = add_reason ''row_limit'' r \<or> r' = add_reason ''byte_limit'' r"
    using assms(1) by (auto simp: take_row_def Let_def split: if_splits prod.splits)
  then show ?thesis using that [of "qx_reasons r @ [''row_limit'']"] that [of "qx_reasons r @ [''byte_limit'']"] assms(2)
    by (auto simp: add_reason_def open_reasons_def all_reasons_def)
qed

lemma fetch_rows_result:
  assumes "fetch_rows point p rows fetches r = Some (Inr (), r')" "qx_error r = None"
    "qx_reasons r \<in> open_reasons" "frame_size r \<le> qp_max_bytes p - 1024" "int (length (qx_rows r)) \<le> rows"
  shows "\<exists>n reasons. r' = r\<lparr>qx_rows := qx_rows r @ map (shown_row (qp_cell_bytes p)) (take n (given_rows fetches)),
            qx_reasons := reasons\<rparr>
     \<and> int (length (qx_rows r')) \<le> rows \<and> reasons \<in> all_reasons \<and> frame_size r' \<le> qp_max_bytes p - 1024
     \<and> (reasons = [] \<longrightarrow> qx_reasons r = [] \<and> n = length (given_rows fetches)
          \<and> list_all (\<lambda>cells. \<not> clipped_row (qp_cell_bytes p) cells) (given_rows fetches))"
  using assms
proof (induction fetches arbitrary: r)
  case Nil
  then show ?case by simp
next
  case (Cons f fetches)
  obtain c answer where f: "f = (c, answer)" by (cases f)
  obtain got where answer: "answer = Inr got" and pt: "point c = Inr ()"
    using Cons.prems(1) f by (cases answer; cases "point c") auto
  show ?case
  proof (cases got)
    case None
    then have "r' = r" using Cons.prems(1) f answer pt by simp
    moreover have "qx_reasons r \<in> all_reasons" using Cons.prems(3) by (auto simp: open_reasons_def all_reasons_def)
    ultimately show ?thesis using Cons.prems None f answer
      by (intro exI [of _ 0] exI [of _ "qx_reasons r"]) simp
  next
    case (Some cells)
    obtain r1 on where t: "take_row p rows cells r = (r1, on)" by fastforce
    show ?thesis
    proof (cases on)
      case False
      then have r': "r' = r1" using Cons.prems(1) f answer pt Some t by simp
      have t': "take_row p rows cells r = (r1, False)" using t False by simp
      obtain reasons where q: "r1 = r\<lparr>qx_reasons := reasons\<rparr>" "reasons \<in> all_reasons" "reasons \<noteq> []"
        by (rule take_row_off [OF t' Cons.prems(3)])
      then show ?thesis using Cons.prems(2,4,5) r'
        by (intro exI [of _ 0] exI [of _ reasons]) (simp add: frame_size_reasons)
    next
      case True
      have t': "take_row p rows cells r = (r1, True)" using t True by simp
      obtain reasons1 where q: "r1 = r\<lparr>qx_rows := qx_rows r @ [shown_row (qp_cell_bytes p) cells], qx_reasons := reasons1\<rparr>"
        "reasons1 \<in> open_reasons" "reasons1 = [] \<longrightarrow> qx_reasons r = [] \<and> \<not> clipped_row (qp_cell_bytes p) cells"
        "int (length (qx_rows r)) < rows" "frame_size r1 \<le> qp_max_bytes p - 1024"
        by (rule take_row_on [OF t' Cons.prems(2,3)])
      have rest: "fetch_rows point p rows fetches r1 = Some (Inr (), r')"
        using Cons.prems(1) f answer pt Some t True by simp
      have pre: "qx_error r1 = None" "qx_reasons r1 \<in> open_reasons" "int (length (qx_rows r1)) \<le> rows"
        using q(1,2,4) Cons.prems(2) by simp_all
      obtain n reasons where n: "r' = r1\<lparr>qx_rows := qx_rows r1 @ map (shown_row (qp_cell_bytes p)) (take n (given_rows fetches)),
            qx_reasons := reasons\<rparr>" "int (length (qx_rows r')) \<le> rows" "reasons \<in> all_reasons"
          "frame_size r' \<le> qp_max_bytes p - 1024"
          "reasons = [] \<longrightarrow> qx_reasons r1 = [] \<and> n = length (given_rows fetches)
          \<and> list_all (\<lambda>cells. \<not> clipped_row (qp_cell_bytes p) cells) (given_rows fetches)"
        using Cons.IH [OF rest pre(1,2) q(5) pre(3)] by blast
      have g: "given_rows (f # fetches) = cells # given_rows fetches" by (simp add: f answer Some)
      have "r' = r\<lparr>qx_rows := qx_rows r @ map (shown_row (qp_cell_bytes p)) (take (Suc n) (given_rows (f # fetches))),
            qx_reasons := reasons\<rparr>" unfolding n(1) q(1) g by simp
      moreover have "reasons = [] \<longrightarrow> qx_reasons r = [] \<and> Suc n = length (given_rows (f # fetches))
          \<and> list_all (\<lambda>cells. \<not> clipped_row (qp_cell_bytes p) cells) (given_rows (f # fetches))"
        unfolding g using n(5) q(1,3) by auto
      ultimately show ?thesis using n(2-4) by blast
    qed
  qed
qed

section \<open>Delivered results\<close>

lemma thenP_InrE:
  assumes "thenP m f x = Some (Inr v, x')"
  obtains u x1 where "m x = Some (Inr u, x1)" "f u x1 = Some (Inr v, x')"
  using assms by (auto simp: thenP_def split: option.splits prod.splits sum.splits)

lemma part_Inr [simp]:
  "liftP a x = Some (Inr v, x') \<longleftrightarrow> a = Inr v \<and> x' = x"
  "modP f x = Some (Inr w, x') \<longleftrightarrow> x' = f x"
  "resultP g x = Some (Inr w, x') \<longleftrightarrow> x' = x\<lparr>ex_result := g (ex_result x)\<rparr>"
  "waitP b x = Some (Inr w, x') \<longleftrightarrow> b = Some (Inr w) \<and> x' = x"
  by (auto simp: liftP_def modP_def resultP_def waitP_def)

lemma open_session_done:
  "open_session point d rows sc x = Some (Inr (), x') \<Longrightarrow> ex_result x' = ex_result x \<and> sc_identity sc = Inr (Some (dp_user d))"
  unfolding open_session_def by (auto elim!: thenP_InrE split: if_splits)

lemma saveP_result: "saveP disk ref x = Some (r, x') \<Longrightarrow> ex_result x' = ex_result x"
  by (auto simp: saveP_def split: prod.splits)

lemma start_query_done:
  "start_query point ref d sql rows sc x = Some (Inr (), x') \<Longrightarrow>
     ex_result x' = (ex_result x)\<lparr>qx_query_id := query_id_of (sc_guid sc)\<rparr>"
  unfolding start_query_def by (auto elim!: thenP_InrE dest!: saveP_result)

lemma read_columns_done:
  "read_columns d sc x = Some (Inr (), x') \<Longrightarrow> \<exists>columns. ex_result x' = (ex_result x)\<lparr>qx_columns := columns\<rparr>
     \<and> encoded_size (ex_result x') \<le> qp_max_bytes (dp_policy d) - 1024
     \<and> int (length columns) \<le> qp_max_columns (dp_policy d)"
  unfolding read_columns_def
proof (erule thenP_InrE)
  fix columns x1
  assume c: "liftP (sc_columns sc) x = Some (Inr columns, x1)"
    and rest: "(if int (length columns) > qp_max_columns (dp_policy d)
     then liftP (Inl (DomainError INVALID_REQUEST ''Result has too many columns''))
     else thenP (resultP (\<lambda>r. r\<lparr>qx_columns := map (take 128) columns\<rparr>)) (\<lambda>_ x.
       if encoded_size (ex_result x) > qp_max_bytes (dp_policy d) - 1024
       then Some (Inl (DomainError INVALID_REQUEST ''Result column metadata exceeds byte limit''), x)
       else Some (Inr (), x))) x1 = Some (Inr (), x')"
  show "\<exists>columns. ex_result x' = (ex_result x)\<lparr>qx_columns := columns\<rparr>
     \<and> encoded_size (ex_result x') \<le> qp_max_bytes (dp_policy d) - 1024
     \<and> int (length columns) \<le> qp_max_columns (dp_policy d)"
    using c rest by (intro exI [of _ "map (take 128) columns"]) (auto elim!: thenP_InrE split: if_splits)
qed

lemma fetchP_done:
  "fetchP point p rows fetches x = Some (Inr (), x') \<Longrightarrow> fetch_rows point p rows fetches (ex_result x) = Some (Inr (), ex_result x')"
  by (auto simp: fetchP_def)

lemma clean_up_succeeded:
  assumes "qx_status (clean_up sc x) = ''SUCCEEDED''"
  shows "clean_up sc x = final_result (sc_elapsed sc) (ex_result x) \<and> qx_status (ex_result x) = ''SUCCEEDED''"
proof -
  have f: "qx_status (final_result e q) = qx_status q" for e q by (simp add: final_result_def Let_def)
  have c: "qx_status (close_connection sc q) = ''SUCCEEDED'' \<Longrightarrow> close_connection sc q = q" for q
    by (auto simp: close_connection_def split: sum.splits)
  have k: "qx_status (close_cursor sc q) = ''SUCCEEDED'' \<Longrightarrow> close_cursor sc q = q" for q
    by (auto simp: close_cursor_def fail_result_def split: sum.splits if_splits elim!: bindE_InrE)
  define r1 where "r1 = (if ex_cursor x then close_cursor sc (ex_result x) else ex_result x)"
  define r2 where "r2 = (if ex_connection x then close_connection sc r1 else r1)"
  have u: "clean_up sc x = final_result (sc_elapsed sc) r2" by (simp add: clean_up_def r1_def r2_def Let_def)
  then have "qx_status r2 = ''SUCCEEDED''" using assms f by simp
  then have "r2 = r1" using c by (auto simp: r2_def split: if_splits)
  then have "r1 = ex_result x" using k \<open>qx_status r2 = ''SUCCEEDED''\<close> by (auto simp: r1_def split: if_splits)
  then show ?thesis using u \<open>r2 = r1\<close> \<open>qx_status r2 = ''SUCCEEDED''\<close> by simp
qed

lemma finish_query_done: "finish_query ref d rows keys sc (esc, x) = (Inr r, s') \<Longrightarrow> r = clean_up sc x"
  by (auto simp: finish_query_def Let_def split: prod.splits option.splits elim!: bindE_InrE)

lemma handle_failure_succeeded:
  assumes "handle_failure sc outcome = (esc, x)" "qx_status (ex_result x) = ''SUCCEEDED''"
  shows "outcome = (Inr (), x)"
proof -
  obtain a y where o1: "outcome = (a, y)" by (cases outcome)
  show ?thesis
  proof (cases a)
    case (Inl e)
    then show ?thesis using assms o1
      by (cases e) (auto simp: handle_failure_def fail_result_def Let_def split: sum.splits if_splits)
  next
    case (Inr u)
    then show ?thesis using assms o1 by (simp add: handle_failure_def)
  qed
qed

lemma reasons_size: "reasons \<in> all_reasons \<Longrightarrow> text_size (JArr (map JStr reasons)) \<le> 40"
proof -
  have "\<forall>rs\<in>all_reasons. length (encoded (JArr (map JStr rs))) \<le> 40" by code_simp
  then show "reasons \<in> all_reasons \<Longrightarrow> ?thesis" by (simp add: text_size_def)
qed

text \<open>The room kept back is enough for what the end of the query adds.\<close>

lemma final_size:
  assumes "frame_size r \<le> b - 1024" "qx_error r = None" "qx_status r = ''SUCCEEDED''" "qx_reasons r \<in> all_reasons"
    "int (length (qx_rows r)) \<le> 10000" "0 \<le> elapsed" "elapsed < 10 ^ 20"
  shows "encoded_size (final_result elapsed r) \<le> b"
proof -
  let ?f = "final_result elapsed r"
  have f: "qx_error ?f = None" "qx_status ?f = ''SUCCEEDED''" "qx_reasons ?f = qx_reasons r"
      "qx_row_count ?f = int (length (qx_rows r))" "qx_elapsed ?f = Some elapsed"
    using assms(2,3) by (simp_all add: final_result_def Let_def)
  have "encoded_size ?f - status_size ?f = encoded_size r - status_size r"
    by (rule same_frame_size) (simp_all add: final_result_def Let_def assms(2,3))
  moreover have "text_size (JStr ''SUCCEEDED'') \<le> 20" "key_size ''elapsed_ms'' \<le> 20" by code_simp+
  moreover have "text_size (JBool (qx_truncated ?f)) \<le> 20"
    by (simp add: text_size_def encoded_def utf8_sizes)
  moreover have "text_size (JInt (int (length (qx_rows r)))) \<le> 5"
    using number_size [of "int (length (qx_rows r))" 4] assms(5) by simp
  moreover have "text_size (JInt elapsed) \<le> 20" using number_size [of elapsed 19] assms(6,7) by simp
  moreover have "text_size (JArr (map JStr (qx_reasons r))) \<le> 40" using reasons_size assms(4) .
  ultimately show ?thesis using assms(1) by (simp add: status_size_def f frame_size_def)
qed

text \<open>The body of a query that went through, in one step.\<close>

lemma query_body_done:
  assumes "query_body point ref d sql rows sc \<lparr>ex_result = running_result ref d, ex_dispatched = a, ex_cursor = b,
      ex_connection = c, ex_ledger = s\<rparr> = Some (Inr (), x)" "0 \<le> rows"
  obtains r n where "ex_result x = r\<lparr>qx_status := ''SUCCEEDED''\<rparr>" "sc_identity sc = Inr (Some (dp_user d))"
    "qx_error r = None" "qx_account r = dp_user d" "int (length (qx_rows r)) \<le> rows" "qx_reasons r \<in> all_reasons"
    "frame_size r \<le> qp_max_bytes (dp_policy d) - 1024"
    "qx_rows r = map (shown_row (qp_cell_bytes (dp_policy d))) (take n (given_rows (sc_fetches sc)))"
    "qx_reasons r = [] \<longrightarrow> n = length (given_rows (sc_fetches sc))
       \<and> list_all (\<lambda>cells. \<not> clipped_row (qp_cell_bytes (dp_policy d)) cells) (given_rows (sc_fetches sc))"
proof -
  let ?p = "dp_policy d"
  obtain x1 x2 x3 x4 where parts: "open_session point d rows sc \<lparr>ex_result = running_result ref d, ex_dispatched = a,
      ex_cursor = b, ex_connection = c, ex_ledger = s\<rparr> = Some (Inr (), x1)"
      "start_query point ref d sql rows sc x1 = Some (Inr (), x2)" "read_columns d sc x2 = Some (Inr (), x3)"
      "fetchP point ?p rows (sc_fetches sc) x3 = Some (Inr (), x4)"
      "ex_result x = (ex_result x4)\<lparr>qx_status := ''SUCCEEDED''\<rparr>"
    using assms(1) unfolding query_body_def by (auto elim!: thenP_InrE)
  have x1: "ex_result x1 = running_result ref d" "sc_identity sc = Inr (Some (dp_user d))"
    using open_session_done [OF parts(1)] by simp_all
  obtain columns where x3: "ex_result x3 = (running_result ref d)\<lparr>qx_query_id := query_id_of (sc_guid sc), qx_columns := columns\<rparr>"
      "encoded_size (ex_result x3) \<le> qp_max_bytes ?p - 1024"
    using read_columns_done [OF parts(3)] start_query_done [OF parts(2)] x1(1) by auto
  have pre: "qx_error (ex_result x3) = None" "qx_reasons (ex_result x3) \<in> open_reasons"
      "frame_size (ex_result x3) \<le> qp_max_bytes ?p - 1024" "int (length (qx_rows (ex_result x3))) \<le> rows"
    using frame_size_le [OF x3(2)] assms(2) by (simp_all add: x3(1) running_result_def open_reasons_def)
  obtain n reasons where x4: "ex_result x4 = (ex_result x3)\<lparr>qx_rows := qx_rows (ex_result x3)
        @ map (shown_row (qp_cell_bytes ?p)) (take n (given_rows (sc_fetches sc))), qx_reasons := reasons\<rparr>"
      "int (length (qx_rows (ex_result x4))) \<le> rows" "reasons \<in> all_reasons" "frame_size (ex_result x4) \<le> qp_max_bytes ?p - 1024"
      "reasons = [] \<longrightarrow> qx_reasons (ex_result x3) = [] \<and> n = length (given_rows (sc_fetches sc))
          \<and> list_all (\<lambda>cells. \<not> clipped_row (qp_cell_bytes ?p) cells) (given_rows (sc_fetches sc))"
    using fetch_rows_result [OF fetchP_done [OF parts(4)] pre] by blast
  show ?thesis
  proof (rule that [OF parts(5) x1(2) _ _ x4(2) _ x4(4)])
    show "qx_error (ex_result x4) = None" "qx_account (ex_result x4) = dp_user d" "qx_reasons (ex_result x4) \<in> all_reasons"
      "qx_rows (ex_result x4) = map (shown_row (qp_cell_bytes ?p)) (take n (given_rows (sc_fetches sc)))"
      using x4(3) by (simp_all add: x4(1) x3(1) running_result_def)
    show "qx_reasons (ex_result x4) = [] \<longrightarrow> n = length (given_rows (sc_fetches sc))
       \<and> list_all (\<lambda>cells. \<not> clipped_row (qp_cell_bytes ?p) cells) (given_rows (sc_fetches sc))"
      using x4(5) by (simp add: x4(1))
  qed
qed

text \<open>C36: A query that reports success was run under the department's account, and what it delivers
  is what the driver gave: its rows are the first rows of the result in order, each cell unchanged
  or clipped, at most as many as asked for, and all of them unclipped unless it says that it is
  truncated; its encoding stays within the byte limit of the policy.\<close>

theorem delivered_rows_are_faithful:
  assumes "execute_query sha v ref d sql rows keys sc s = Some (Inr r, s')" "qx_status r = ''SUCCEEDED''"
    and "0 \<le> rows" "rows \<le> 10000" "0 \<le> sc_elapsed sc" "sc_elapsed sc < 10 ^ 20"
  shows "sc_identity sc = Inr (Some (dp_user d)) \<and> qx_account r = dp_user d
    \<and> (\<exists>n. qx_rows r = map (shown_row (qp_cell_bytes (dp_policy d))) (take n (given_rows (sc_fetches sc)))
         \<and> (\<not> qx_truncated r \<longrightarrow> n = length (given_rows (sc_fetches sc))
              \<and> list_all (\<lambda>cells. \<not> clipped_row (qp_cell_bytes (dp_policy d)) cells) (given_rows (sc_fetches sc))))
    \<and> qx_row_count r = int (length (qx_rows r)) \<and> qx_row_count r \<le> rows
    \<and> encoded_size r \<le> qp_max_bytes (dp_policy d)"
proof -
  let ?x0 = "\<lparr>ex_result = running_result ref d, ex_dispatched = False, ex_cursor = False, ex_connection = False,
         ex_ledger = s\<rparr>"
  let ?point = "checkpoint sha v d"
  let ?p = "dp_policy d"
  obtain outcome where body: "query_body ?point ref d sql rows sc ?x0 = Some outcome"
    and out: "finish_query ref d rows keys sc (handle_failure sc outcome) = (Inr r, s')"
    using assms(1) by (auto simp: execute_query_def)
  obtain esc x where h: "handle_failure sc outcome = (esc, x)" by fastforce
  have r: "r = clean_up sc x" using out finish_query_done by (simp add: h)
  have c: "clean_up sc x = final_result (sc_elapsed sc) (ex_result x)" "qx_status (ex_result x) = ''SUCCEEDED''"
    using clean_up_succeeded assms(2) r by auto
  have b: "query_body ?point ref d sql rows sc ?x0 = Some (Inr (), x)"
    using body handle_failure_succeeded [OF h c(2)] by simp
  obtain r4 n where x: "ex_result x = r4\<lparr>qx_status := ''SUCCEEDED''\<rparr>" "sc_identity sc = Inr (Some (dp_user d))"
    "qx_error r4 = None" "qx_account r4 = dp_user d" "int (length (qx_rows r4)) \<le> rows" "qx_reasons r4 \<in> all_reasons"
    "frame_size r4 \<le> qp_max_bytes ?p - 1024"
    "qx_rows r4 = map (shown_row (qp_cell_bytes ?p)) (take n (given_rows (sc_fetches sc)))"
    "qx_reasons r4 = [] \<longrightarrow> n = length (given_rows (sc_fetches sc))
       \<and> list_all (\<lambda>cells. \<not> clipped_row (qp_cell_bytes ?p) cells) (given_rows (sc_fetches sc))"
    by (rule query_body_done [OF b assms(3)])
  have fr: "frame_size (ex_result x) = frame_size r4"
    unfolding frame_size_def x(1) by (rule same_frame_size) (simp_all add: x(3))
  have "encoded_size r \<le> qp_max_bytes ?p" unfolding r c(1)
    using assms(4-6) x(5-7) fr by (intro final_size) (simp_all add: x(1,3))
  moreover have "r = final_result (sc_elapsed sc) (r4\<lparr>qx_status := ''SUCCEEDED''\<rparr>)" using r c(1) x(1) by simp
  then have "qx_rows r = qx_rows r4" "qx_row_count r = int (length (qx_rows r))"
      "qx_truncated r = (qx_reasons r4 \<noteq> [])" "qx_account r = dp_user d"
    using x(4) by (simp_all add: final_result_def Let_def)
  ultimately show ?thesis using x(2,5,8,9) by auto
qed

section \<open>A delivered result\<close>

definition demo_config :: string where
  "demo_config = ''{\"mode\":\"trusted_single_department\",\"default_department\":\"sales\",\"departments\":{\"sales\":{\"host\":\"h\",\"user\":\"svc\",\"password_env\":\"PW\"}}}''"

definition demo_check :: check where
  "demo_check = \<lparr>ck_flag = False, ck_cancelled = Inr False, ck_late = False, ck_config = Inr demo_config\<rparr>"

lemma demo_digest: "profile_digest (\<lambda>_. ''d'') p = ''d''"
  by (simp add: profile_digest_def)

lemma demo_resolved: "(case resolve_binding (Inr demo_config) ''u'' of Inr (Some p) \<Rightarrow> True | _ \<Rightarrow> False)"
  by code_simp

lemma demo_point: "checkpoint (\<lambda>_. ''d'') demo_query_run demo_profile demo_check = Inr ()"
  using demo_resolved
  by (auto simp: checkpoint_def cancelled_now_def demo_check_def require_binding_def demo_digest
      demo_query_run_def demo_run_row_def split: sum.splits option.splits)

definition demo_script :: script where
  "demo_script = \<lparr>sc_start = demo_check, sc_connect = Inr (), sc_cursor = Inr (), sc_arraysize = Inr (),
     sc_execute = (\<lambda>_ _. Inr ()), sc_identity_polls = [(demo_check, Inr ''FINISHED_STATE'')],
     sc_identity = Inr (Some ''svc''), sc_second = demo_check, sc_guid = None, sc_save = (\<lambda>_. None),
     sc_progress = Inr (), sc_polls = [(demo_check, Inr ''RUNNING_STATE''), (demo_check, Inr ''FINISHED_STATE'')],
     sc_columns = Inr [''n''], sc_fetches = [(demo_check, Inr (Some [C_Int 7])), (demo_check, Inr None)],
     sc_end = demo_check, sc_handler = demo_check, sc_cancel = Inr (), sc_after_cancel = Inr ''CANCELED_STATE'',
     sc_close = Inr (), sc_disconnect = Inr (), sc_elapsed = 12, sc_settle = (\<lambda>_. None)\<rparr>"

definition demo_ledger :: impala where
  "demo_ledger = fresh_impala\<lparr>im_queries := [(demo_query_ref, \<lparr>qr_scope_id = ''u'', qr_session_id = ''10'',
     qr_message_ref = ''20'', qr_department = ''sales'', qr_account = ''svc'', qr_binding_digest = ''d'', qr_result = []\<rparr>)]\<rparr>"

lemma demo_points:
  assumes "point demo_check = Inr ()"
  shows "query_body point demo_query_ref demo_profile ''q'' 5 demo_script
    = query_body (\<lambda>_. Inr ()) demo_query_ref demo_profile ''q'' 5 demo_script"
proof -
  have p: "point (sc_start demo_script) = Inr ()" "point (sc_second demo_script) = Inr ()"
      "point (sc_end demo_script) = Inr ()"
      "wait_finished point (sc_identity_polls demo_script) = Some (Inr ())"
      "wait_finished point (sc_polls demo_script) = Some (Inr ())"
      "wait_finished (\<lambda>_. Inr ()) (sc_identity_polls demo_script) = Some (Inr ())"
      "wait_finished (\<lambda>_. Inr ()) (sc_polls demo_script) = Some (Inr ())"
    using assms by (simp_all add: demo_script_def)
  have f: "fetch_rows point p rows (sc_fetches demo_script) r = fetch_rows (\<lambda>_. Inr ()) p rows (sc_fetches demo_script) r"
    for p rows r using assms by (simp add: demo_script_def split: prod.split bool.split)
  show ?thesis unfolding query_body_def open_session_def start_query_def fetchP_def p f by (rule refl)
qed

lemma demo_fields: "dp_user demo_profile = ''svc''" "qp_max_columns (dp_policy demo_profile) = 100"
    "qp_max_bytes (dp_policy demo_profile) = 32000" "qp_cell_bytes (dp_policy demo_profile) = 2048"
  by (simp_all add: demo_profile_def demo_policy_def policy_of_ints_def)

definition demo_result :: "json list list \<Rightarrow> query_result" where
  "demo_result rows = (running_result demo_query_ref demo_profile)\<lparr>qx_columns := [''n''], qx_rows := rows\<rparr>"

lemma demo_sizes: "encoded_size (demo_result []) \<le> 30976" "encoded_size (demo_result [[JInt 7]]) \<le> 30976"
  by (simp_all add: encoded_size_def encoded_def result_dict_def demo_result_def running_result_def demo_query_ref_def
      demo_profile_def utf8_sizes quote_str_def esc_char_def opt_str_def py_str_int_def py_str_nat.simps digit_char_def)

lemma demo_open: "open_session (\<lambda>_. Inr ()) demo_profile 5 demo_script x
    = Some (Inr (), x\<lparr>ex_connection := True, ex_cursor := True, ex_dispatched := True\<rparr>)"
  by (simp add: open_session_def thenP_def liftP_def modP_def waitP_def demo_script_def demo_fields)

lemma demo_uuid: "query_path demo_query_ref = Inr demo_query_ref"
  by code_simp

lemma demo_saved: "\<exists>s'. save (\<lambda>_. None) i demo_query_ref result demo_ledger = (Inr (), s') \<and> map_of (im_queries s') demo_query_ref \<noteq> None"
  by (simp add: save_def thenS_def liftS_def demo_uuid demo_ledger_def write_json_def put_query_def)

lemma demo_started: "\<exists>s'. start_query (\<lambda>_. Inr ()) demo_query_ref demo_profile ''q'' 5 demo_script
      (x\<lparr>ex_result := running_result demo_query_ref demo_profile, ex_ledger := demo_ledger\<rparr>)
    = Some (Inr (), x\<lparr>ex_result := running_result demo_query_ref demo_profile, ex_ledger := s'\<rparr>)
    \<and> map_of (im_queries s') demo_query_ref \<noteq> None"
proof -
  obtain s' where "save (\<lambda>_. None) 0 demo_query_ref (result_dict (running_result demo_query_ref demo_profile)) demo_ledger = (Inr (), s')"
      "map_of (im_queries s') demo_query_ref \<noteq> None" using demo_saved by blast
  moreover have "(running_result demo_query_ref demo_profile)\<lparr>qx_query_id := None\<rparr> = running_result demo_query_ref demo_profile"
    by (simp add: running_result_def)
  ultimately show ?thesis
    by (intro exI [of _ s']) (simp add: start_query_def thenP_def liftP_def resultP_def modP_def waitP_def saveP_def
        demo_script_def query_id_of_def)
qed

lemma demo_columns: "read_columns demo_profile demo_script (x\<lparr>ex_result := running_result demo_query_ref demo_profile\<rparr>)
    = Some (Inr (), x\<lparr>ex_result := demo_result []\<rparr>)"
proof -
  have "demo_result [] = (running_result demo_query_ref demo_profile)\<lparr>qx_columns := [''n'']\<rparr>"
    by (simp add: demo_result_def running_result_def)
  then show ?thesis using demo_sizes(1)
    by (simp add: read_columns_def thenP_def liftP_def resultP_def modP_def demo_script_def demo_fields)
qed

lemma demo_fetched: "fetchP (\<lambda>_. Inr ()) (dp_policy demo_profile) 5 (sc_fetches demo_script) (x\<lparr>ex_result := demo_result []\<rparr>)
    = Some (Inr (), x\<lparr>ex_result := demo_result [[JInt 7]]\<rparr>)"
proof -
  have "(demo_result [])\<lparr>qx_rows := [[JInt 7]]\<rparr> = demo_result [[JInt 7]]" "qx_rows (demo_result []) = []"
    by (simp_all add: demo_result_def running_result_def)
  then have "take_row (dp_policy demo_profile) 5 [C_Int 7] (demo_result []) = (demo_result [[JInt 7]], True)"
    using demo_sizes(2) by (simp add: take_row_def row_values_def cell_value_def demo_fields)
  then show ?thesis by (simp add: fetchP_def demo_script_def)
qed

lemma demo_query_runs:
  "\<exists>x. query_body (\<lambda>_. Inr ()) demo_query_ref demo_profile ''q'' 5 demo_script
        \<lparr>ex_result = running_result demo_query_ref demo_profile, ex_dispatched = False, ex_cursor = False,
          ex_connection = False, ex_ledger = demo_ledger\<rparr> = Some (Inr (), x)
     \<and> ex_result x = (demo_result [[JInt 7]])\<lparr>qx_status := ''SUCCEEDED''\<rparr>
     \<and> map_of (im_queries (ex_ledger x)) demo_query_ref \<noteq> None"
proof -
  let ?x = "\<lparr>ex_result = running_result demo_query_ref demo_profile, ex_dispatched = True, ex_cursor = True,
          ex_connection = True, ex_ledger = demo_ledger\<rparr>"
  obtain s' where s': "start_query (\<lambda>_. Inr ()) demo_query_ref demo_profile ''q'' 5 demo_script ?x
      = Some (Inr (), ?x\<lparr>ex_ledger := s'\<rparr>)" "map_of (im_queries s') demo_query_ref \<noteq> None"
    using demo_started [of ?x] by auto
  have c: "read_columns demo_profile demo_script (?x\<lparr>ex_ledger := s'\<rparr>)
      = Some (Inr (), ?x\<lparr>ex_ledger := s', ex_result := demo_result []\<rparr>)"
    using demo_columns [of "?x\<lparr>ex_ledger := s'\<rparr>"] by simp
  have f: "fetchP (\<lambda>_. Inr ()) (dp_policy demo_profile) 5 (sc_fetches demo_script) (?x\<lparr>ex_ledger := s', ex_result := demo_result []\<rparr>)
      = Some (Inr (), ?x\<lparr>ex_ledger := s', ex_result := demo_result [[JInt 7]]\<rparr>)"
    using demo_fetched [of "?x\<lparr>ex_ledger := s'\<rparr>"] by simp
  show ?thesis using s' c f
    by (simp add: query_body_def demo_open thenP_def liftP_def resultP_def modP_def)
qed

theorem delivered_rows_are_faithful_witness:
  "\<exists>r s'. execute_query (\<lambda>_. ''d'') demo_query_run demo_query_ref demo_profile ''q'' 5 [] demo_script demo_ledger
      = Some (Inr r, s') \<and> qx_rows r = [[JInt 7]] \<and> encoded_size r \<le> 32000"
proof -
  let ?p = "checkpoint (\<lambda>_. ''d'') demo_query_run demo_profile"
  obtain x where x: "query_body ?p demo_query_ref demo_profile ''q'' 5 demo_script
      \<lparr>ex_result = running_result demo_query_ref demo_profile, ex_dispatched = False, ex_cursor = False,
       ex_connection = False, ex_ledger = demo_ledger\<rparr> = Some (Inr (), x)"
      "ex_result x = (demo_result [[JInt 7]])\<lparr>qx_status := ''SUCCEEDED''\<rparr>"
      "map_of (im_queries (ex_ledger x)) demo_query_ref \<noteq> None"
    using demo_query_runs demo_points [of ?p, OF demo_point] by metis
  define r where "r = clean_up demo_script x"
  have u: "r = final_result 12 (ex_result x)"
    using x(2) by (simp add: r_def clean_up_def close_cursor_def close_connection_def demo_script_def Let_def)
  have status: "qx_status r = ''SUCCEEDED''" "\<not> qx_truncated r"
    by (simp_all add: u x(2) final_result_def Let_def demo_result_def running_result_def)
  have h: "handle_failure demo_script (Inr (), x) = (None, x)" by (simp add: handle_failure_def)
  obtain s' where sv: "settle_query (sc_settle demo_script) demo_query_ref [] 5 (qp_max_bytes (dp_policy demo_profile))
      (qx_row_count r) (result_dict r) (ex_ledger x) = (Inr (), s')"
    using x(3) by (auto simp: settle_query_def save_def thenS_def liftS_def demo_uuid demo_script_def write_json_def)
  have e: "execute_query (\<lambda>_. ''d'') demo_query_run demo_query_ref demo_profile ''q'' 5 [] demo_script demo_ledger = Some (Inr r, s')"
    using x(1) sv by (simp add: execute_query_def h finish_query_def r_def [symmetric] Let_def)
  have g: "given_rows (sc_fetches demo_script) = [[C_Int 7]]" "sc_elapsed demo_script = 12" by (simp_all add: demo_script_def)
  show ?thesis using delivered_rows_are_faithful [OF e status(1)] e status(2) g
    by (auto simp: shown_row_def row_values_def cell_value_def demo_fields)
qed

end
