(* ===== verification/ImpalaDispatch.thy ===== *)
theory ImpalaDispatch
  imports ImpalaService AgentRuntime
begin

text \<open>
  \<open>ImpalaToolDispatcher\<close> of \<open>src/code_forge/harness/impala_tools.py\<close>: a tool call of the model through
  the tool journal of the store. The state is the store's world, the file tree that holds the
  operation directories, and the service. The call of the tools is an argument: the action that
  \<open>ImpalaTools.call\<close> is when it returns, on the service and, for the progress it reports, on the
  journal. The lock stripes serialize dispatches of one call and are left out, and so is the
  cancellation of the dispatching task.
\<close>

record desk =
  dk_world :: world
  dk_tree :: tree
  dk_impala :: impala

definition at_store :: "'a act \<Rightarrow> (desk, 'a) io" where
  "at_store m s = (case m (dk_world s) of (r, w') \<Rightarrow> (r, s\<lparr>dk_world := w'\<rparr>))"

definition at_tree :: "(tree, 'a) io \<Rightarrow> (desk, 'a) io" where
  "at_tree m s = (case m (dk_tree s) of (r, t') \<Rightarrow> (r, s\<lparr>dk_tree := t'\<rparr>))"

definition at_service :: "(impala, 'a) io \<Rightarrow> (desk, 'a) io" where
  "at_service m s = (case m (dk_impala s) of (r, i') \<Rightarrow> (r, s\<lparr>dk_impala := i'\<rparr>))"

type_synonym tools_caller = "string \<Rightarrow> json_dict \<Rightarrow> run_view \<Rightarrow> string \<Rightarrow> (desk, json_dict) io"

record dispatcher =
  di_host :: "nat \<Rightarrow> host"
  di_root :: ppath
  di_auth :: "(execution_context \<Rightarrow> string \<Rightarrow> string \<Rightarrow> exn + unit) option"
  di_call :: tools_caller

definition error_result :: "string \<Rightarrow> string \<Rightarrow> string \<Rightarrow> json_dict" where
  "error_result code msg status = [(''status'', JStr status),
     (''error'', JObj [(''code'', JStr code), (''message'', JStr msg)])]"

section \<open>Reading the call\<close>

definition object_or_empty :: "json option \<Rightarrow> exn + json_dict" where
  "object_or_empty j = (case j of
     None \<Rightarrow> Inr []
   | Some v \<Rightarrow> if \<not> json_truthy v then Inr [] else items_of v)"

text \<open>\<open>json.loads(function.get("arguments") or "{}")\<close>; \<^const>\<open>None\<close> is the error that is caught.\<close>

definition loaded_arguments :: "json_dict \<Rightarrow> json option" where
  "loaded_arguments fn = (case map_of fn ''arguments'' of
     None \<Rightarrow> Some (JObj [])
   | Some j \<Rightarrow> if \<not> json_truthy j then Some (JObj [])
       else (case j of JStr s \<Rightarrow> loads s | _ \<Rightarrow> None))"

definition call_id :: "json_dict \<Rightarrow> string option" where
  "call_id call = (case map_of call ''id'' of
     Some (JStr s) \<Rightarrow> if 1 \<le> length s \<and> length s \<le> 200 then Some s else None | _ \<Rightarrow> None)"

definition input_text_of :: "json_dict \<Rightarrow> string" where
  "input_text_of arguments = dumps False '','' '':'' (JObj arguments)"

text \<open>What a call is refused with, or its tool, arguments and identifier.\<close>

definition read_call :: "run_view \<Rightarrow> json_dict \<Rightarrow> exn + (json_dict + (string \<times> json_dict \<times> string))" where
  "read_call v call =
     bindE (object_or_empty (map_of call ''function'')) (\<lambda>fn.
     case loaded_arguments fn of
       None \<Rightarrow> Inr (Inl (error_result ''INVALID_REQUEST'' ''Invalid tool JSON'' ''FAILED''))
     | Some arguments \<Rightarrow>
         bindE (offered_tools v) (\<lambda>tools.
         case map_of tools (text_field ''name'' fn) of
           None \<Rightarrow> Inr (Inl (error_result ''CAPABILITY_DENIED'' ''Impala was not enabled at acceptance'' ''FAILED''))
         | Some td \<Rightarrow>
             (case arguments of
                JObj kvs \<Rightarrow>
                  if \<not> (fst ` set kvs \<subseteq> fst ` set (td_properties td))
                  then Inr (Inl (error_result ''INVALID_REQUEST'' ''Invalid Impala arguments'' ''FAILED''))
                  else if int (length (utf8_encode (input_text_of kvs))) > 40000 \<or> call_id call = None
                  then Inr (Inl (error_result ''INVALID_REQUEST'' ''Input exceeds limit or lacks stable call ID'' ''FAILED''))
                  else Inr (Inr (text_field ''name'' fn, kvs, the (call_id call)))
              | _ \<Rightarrow> Inr (Inl (error_result ''INVALID_REQUEST'' ''Invalid Impala arguments'' ''FAILED'')))))"

section \<open>One operation\<close>

text \<open>\<open>run.get("execution_context", {}).get("actor_ref")\<close>\<close>

definition actor_ref_of :: "run_view \<Rightarrow> exn + string option" where
  "actor_ref_of v = bindE (items_of (case rv_execution_context v of None \<Rightarrow> JNull | Some j \<Rightarrow> j))
     (\<lambda>kvs. Inr (case map_of kvs ''actor_ref'' of Some (JStr s) \<Rightarrow> Some s | _ \<Rightarrow> None))"

text \<open>The error the authorization gives the model; any other exception leaves the dispatcher.\<close>

definition authorize_tool :: "dispatcher \<Rightarrow> run_view \<Rightarrow> user_binding option \<Rightarrow> string \<Rightarrow> exn + json_dict option" where
  "authorize_tool D v ub name = (case di_auth D of
     None \<Rightarrow> Inr None
   | Some auth \<Rightarrow>
       bindE (actor_ref_of v) (\<lambda>actor.
       bindE (make_execution_context (r_scope_id (rv_row v)) actor None ub) (\<lambda>ctx.
       case auth ctx ''tool.execute'' name of
         Inr _ \<Rightarrow> Inr None
       | Inl (DomainError code msg) \<Rightarrow> Inr (Some (error_result (error_code_value code) msg ''FAILED''))
       | Inl e \<Rightarrow> Inl e)))"

definition still_executing :: "run_view option \<Rightarrow> string \<Rightarrow> bool" where
  "still_executing current attempt = (case current of
     None \<Rightarrow> False
   | Some c \<Rightarrow> r_active_attempt_id (rv_row c) = Some attempt
       \<and> r_status (rv_row c) \<in> {RUNNING, WAITING_EXTERNAL})"

definition logical_key :: "dispatcher \<Rightarrow> string \<Rightarrow> string \<Rightarrow> string" where
  "logical_key D attempt cid = ''impala:'' @ h_sha256 (di_host D 0) (encoded (JArr [JStr attempt, JStr cid]))"

definition impala_call :: "dispatcher \<Rightarrow> run_view \<Rightarrow> string \<Rightarrow> string \<Rightarrow> json_dict \<Rightarrow> string \<Rightarrow> tool_call" where
  "impala_call D v attempt name arguments cid =
     \<lparr>tc_logical_call_key = logical_key D attempt cid, tc_tool_ref = name,
      tc_params_digest = h_sha256 (di_host D 0) (encoded (JArr [JStr name, JObj arguments])),
      tc_input_ref = ''impala-input:'' @ logical_key D attempt cid, tc_execution_profile_ref = ''impala@1'',
      tc_input_summary = name, tc_workspace_id = Some (r_workspace_id (rv_row v)),
      tc_input_revision_id = None, tc_input_text = input_text_of arguments\<rparr>"

definition operation_dir :: "dispatcher \<Rightarrow> run_view \<Rightarrow> user_binding option \<Rightarrow> string \<Rightarrow> (tree, ppath) io" where
  "operation_dir D v ub opid = (case ub of
     Some b \<Rightarrow> tool_output_dir b (r_session_id (rv_row v)) (r_id (rv_row v)) opid
   | None \<Rightarrow> let path = sub (di_root D) opid in thenS (mkdir_path path) (\<lambda>_. returnS path))"

text \<open>A row that is not PREPARED: the kept result of an operation that ended, or no replay.\<close>

definition ended_status :: "tool_status \<Rightarrow> bool" where
  "ended_status st = (st \<in> {Tool_SUCCEEDED, Tool_FAILED, Tool_CANCELLED})"

definition kept_result :: "ppath \<Rightarrow> tool_status \<Rightarrow> (tree, json) io" where
  "kept_result dir st t =
     (if ended_status st \<and> path_exists t (sub dir ''result.json'')
      then liftS (bindE (path_bytes t (sub dir ''result.json'')) (\<lambda>bytes.
             case utf8_decode bytes of
               None \<Rightarrow> Inl (ValueErr ''UnicodeDecodeError'')
             | Some s \<Rightarrow> (case loads s of None \<Rightarrow> Inl (ValueErr ''JSONDecodeError'') | Some j \<Rightarrow> Inr j))) t
      else returnS (JObj (error_result ''STATE_CONFLICT'' ''Operation requires remote verification'' ''UNKNOWN'')) t)"

definition called_result :: "tools_caller \<Rightarrow> string \<Rightarrow> json_dict \<Rightarrow> run_view \<Rightarrow> string \<Rightarrow> (desk, json_dict) io" where
  "called_result call name arguments v opid s =
     (case call name arguments v opid s of
        (Inl (DomainError code msg), s') \<Rightarrow> (Inr (error_result (error_code_value code) msg ''FAILED''), s')
      | (Inl _, s') \<Rightarrow> (Inr (error_result ''EXECUTION_FAILED'' ''Impala adapter failed'' ''UNKNOWN''), s')
      | (Inr r, s') \<Rightarrow> (Inr r, s'))"

text \<open>\<open>result["status"]\<close> names the final status; reading the state of a query succeeds whatever
  that state is.\<close>

definition journal_status :: "string \<Rightarrow> json_dict \<Rightarrow> tool_status" where
  "journal_status name result =
     (let st = text_field ''status'' result in
      if name \<in> control_tools \<and> json_truthy (dict_get result ''query_ref'' JNull) then Tool_SUCCEEDED
      else if st = ''FAILED'' then Tool_FAILED else if st = ''CANCELLED'' then Tool_CANCELLED
      else if st = ''UNKNOWN'' then Tool_UNKNOWN else Tool_SUCCEEDED)"

definition error_of :: "json_dict \<Rightarrow> json_dict option" where
  "error_of result = (case map_of result ''error'' of Some (JObj kvs) \<Rightarrow> Some kvs | _ \<Rightarrow> None)"

definition store_result :: "dispatcher \<Rightarrow> string \<Rightarrow> string \<Rightarrow> string \<Rightarrow> ppath \<Rightarrow> json_dict \<Rightarrow> tool_status
    \<Rightarrow> (desk, unit) io" where
  "store_result D scope opid actor dir result status =
     thenS (at_tree (write_path (sub dir ''result.json'') (encoded (JObj result)))) (\<lambda>_.
     thenS (at_tree (write_path (sub dir ''stdout.log'') (encoded (JObj result)))) (\<lambda>_.
     thenS (at_store (append_tool_output (di_host D 3) scope opid ''stdout'' (dumps False '','' '':'' (JObj result))
              (json_truthy (dict_get result ''truncated'' (JBool False))) actor)) (\<lambda>_.
     at_store (finish_tool (di_host D 4) scope opid status
        (Some (path_as_posix (sub dir ''result.json''))) (error_of result) actor None))))"

text \<open>When that fails, the operation is recorded as UNKNOWN and the dispatcher raises.\<close>

definition keep_result :: "dispatcher \<Rightarrow> string \<Rightarrow> string \<Rightarrow> string \<Rightarrow> ppath \<Rightarrow> json_dict \<Rightarrow> tool_status
    \<Rightarrow> (desk, unit) io" where
  "keep_result D scope opid actor dir result status s =
     (case store_result D scope opid actor dir result status s of
        (Inr u, s') \<Rightarrow> (Inr u, s')
      | (Inl _, s') \<Rightarrow>
          thenS (at_store (finish_tool (di_host D 5) scope opid Tool_UNKNOWN None
                   (Some [(''code'', JStr ''EXECUTION_FAILED''), (''message'', JStr ''Impala result persistence failed'')])
                   actor None))
            (\<lambda>_. raiseS (DomainError EXECUTION_FAILED ''Impala result persistence failed'')) s')"

text \<open>A cancelled query ends a Run that is being cancelled.\<close>

definition end_cancelled :: "dispatcher \<Rightarrow> run_view \<Rightarrow> string \<Rightarrow> tool_status \<Rightarrow> (desk, unit) io" where
  "end_cancelled D v actor status s =
     (if status \<noteq> Tool_CANCELLED then (Inr (), s)
      else thenS (\<lambda>s. (get_run (di_host D 6) (dk_world s) (r_scope_id (rv_row v)) (r_id (rv_row v)), s)) (\<lambda>current.
        case current of
          Some c \<Rightarrow> if r_status (rv_row c) = CANCELLING
            then thenS (at_store (transition_run (di_host D 6) (r_scope_id (rv_row v)) (r_id (rv_row v))
                   \<lparr>ch_target = CANCELLED, ch_expected_version = r_state_version (rv_row c), ch_task_outcome = None,
                    ch_reason = None, ch_output = None, ch_error = None, ch_extra_data = None\<rparr> (Some actor)))
                  (\<lambda>_. returnS ())
            else returnS ()
        | None \<Rightarrow> returnS ()) s)"

section \<open>Dispatching\<close>

definition run_operation :: "dispatcher \<Rightarrow> run_view \<Rightarrow> string \<Rightarrow> json_dict \<Rightarrow> string \<Rightarrow> string \<Rightarrow> ppath
    \<Rightarrow> (desk, json) io" where
  "run_operation D v name arguments actor opid dir =
     (let scope = r_scope_id (rv_row v) in
      thenS (at_tree (write_path (sub dir ''input.txt'') (utf8_encode (input_text_of arguments)))) (\<lambda>_.
      thenS (at_store (start_tool (di_host D 2) scope opid actor)) (\<lambda>_.
      thenS (called_result (di_call D) name arguments v opid) (\<lambda>result.
      let status = journal_status name result in
      thenS (keep_result D scope opid actor dir result status) (\<lambda>_.
      thenS (end_cancelled D v actor status) (\<lambda>_.
      returnS (JObj result)))))))"

definition cancelled_result :: json where
  "cancelled_result = JObj [(''status'', JStr ''CANCELLED''), (''reason'', JStr ''Message is no longer executing'')]"

definition journalled :: "dispatcher \<Rightarrow> run_view \<Rightarrow> string \<Rightarrow> string \<Rightarrow> user_binding option \<Rightarrow> string \<Rightarrow> json_dict
    \<Rightarrow> string \<Rightarrow> (desk, json) io" where
  "journalled D v attempt actor ub name arguments cid =
     thenS (at_store (prepare_tool (di_host D 1) (r_scope_id (rv_row v)) (r_id (rv_row v))
              (impala_call D v attempt name arguments cid) actor)) (\<lambda>(opid, status).
     thenS (at_tree (operation_dir D v ub opid)) (\<lambda>dir.
     if status \<noteq> Tool_PREPARED then at_tree (kept_result dir status)
     else run_operation D v name arguments actor opid dir))"

definition execute_locked :: "dispatcher \<Rightarrow> run_view \<Rightarrow> string \<Rightarrow> string \<Rightarrow> user_binding option \<Rightarrow> string \<Rightarrow> json_dict
    \<Rightarrow> string \<Rightarrow> (desk, json) io" where
  "execute_locked D v attempt actor ub name arguments cid =
     thenS (liftS (authorize_tool D v ub name)) (\<lambda>denied. case denied of
       Some answer \<Rightarrow> returnS (JObj answer)
     | None \<Rightarrow>
         thenS (\<lambda>s. (get_run (di_host D 0) (dk_world s) (r_scope_id (rv_row v)) (r_id (rv_row v)), s)) (\<lambda>current.
         if \<not> still_executing current attempt then returnS cancelled_result
         else journalled D v attempt actor ub name arguments cid))"

definition dispatch_call :: "dispatcher \<Rightarrow> run_view \<Rightarrow> string \<Rightarrow> json_dict \<Rightarrow> string \<Rightarrow> user_binding option \<Rightarrow> (desk, json) io" where
  "dispatch_call D v attempt call actor ub =
     thenS (liftS (read_call v call)) (\<lambda>r. case r of
       Inl answer \<Rightarrow> returnS (JObj answer)
     | Inr (name, arguments, cid) \<Rightarrow> execute_locked D v attempt actor ub name arguments cid)"

section \<open>Nothing is replayed\<close>

definition journal_row :: "dispatcher \<Rightarrow> run_view \<Rightarrow> string \<Rightarrow> string \<Rightarrow> world \<Rightarrow> tool_row option" where
  "journal_row D v attempt cid w = select_one (\<lambda>t. t_scope_id t = r_scope_id (rv_row v) \<and> t_run_id t = r_id (rv_row v)
     \<and> t_logical_call_key t = logical_key D attempt cid) (tool_executions (wdb w))"

lemma prepare_again:
  assumes "journal_row D v attempt cid w = Some t"
  shows "prepare_tool h (r_scope_id (rv_row v)) (r_id (rv_row v)) (impala_call D v attempt name arguments cid) actor w
    = (if t_params_digest t \<noteq> h_sha256 (di_host D 0) (encoded (JArr [JStr name, JObj arguments]))
       then (Inl (DomainError IDEMPOTENCY_CONFLICT ''Tool call key is already bound to different parameters''), w)
       else (Inr (t_id t, t_status t), w))"
  using assms by (simp add: prepare_tool_def Let_def transaction_def bindA_def read_db_def journal_row_def impala_call_def
      raise_def ret_def)

lemma kept_result_io:
  "at_tree (thenS (operation_dir D v ub opid) (\<lambda>dir. kept_result dir st)) s = (r, s') \<Longrightarrow>
     dk_world s' = dk_world s \<and> dk_impala s' = dk_impala s"
  by (auto simp: at_tree_def split: prod.splits)

lemma journalled_again:
  assumes "journal_row D v attempt cid (dk_world s) = Some t" "t_status t \<noteq> Tool_PREPARED"
  shows "journalled (D\<lparr>di_call := f\<rparr>) v attempt actor ub name arguments cid s = journalled D v attempt actor ub name arguments cid s
    \<and> dk_world (snd (journalled D v attempt actor ub name arguments cid s)) = dk_world s
    \<and> dk_impala (snd (journalled D v attempt actor ub name arguments cid s)) = dk_impala s"
proof -
  have row: "journal_row (D\<lparr>di_call := f\<rparr>) v attempt cid (dk_world s) = Some t"
    using assms(1) by (simp add: journal_row_def logical_key_def)
  have dir: "operation_dir (D\<lparr>di_call := f\<rparr>) v ub = operation_dir D v ub"
    by (rule ext) (simp add: operation_dir_def split: option.split)
  have id: "s\<lparr>dk_world := dk_world s\<rparr> = s" by simp
  show ?thesis
    using assms(2) by (simp add: journalled_def thenS_def at_store_def prepare_again [OF assms(1)] prepare_again [OF row]
        id dir at_tree_def split: prod.split sum.split)
qed

text \<open>C38: A call whose journal row says that it was started, or ended, is never run again: whatever
  the tools would do, the dispatcher gives the same answer without calling them, and neither the
  store nor the service changes.\<close>

theorem started_call_is_never_replayed:
  assumes "read_call v call = Inr (Inr (name, arguments, cid))"
    and "journal_row D v attempt cid (dk_world s) = Some t" "t_status t \<noteq> Tool_PREPARED"
    and "dispatch_call D v attempt call actor ub s = (r, s')"
  shows "dispatch_call (D\<lparr>di_call := f\<rparr>) v attempt call actor ub s = (r, s')
    \<and> dk_world s' = dk_world s \<and> dk_impala s' = dk_impala s"
proof -
  note again = journalled_again [OF assms(2,3)]
  have auth: "authorize_tool (D\<lparr>di_call := f\<rparr>) v ub name = authorize_tool D v ub name"
    by (simp add: authorize_tool_def)
  have same: "execute_locked (D\<lparr>di_call := f\<rparr>) v attempt actor ub name arguments cid s
      = execute_locked D v attempt actor ub name arguments cid s"
    using again by (simp add: execute_locked_def thenS_def liftS_def auth split: sum.split option.split prod.split)
  have "dk_world (snd (execute_locked D v attempt actor ub name arguments cid s)) = dk_world s
      \<and> dk_impala (snd (execute_locked D v attempt actor ub name arguments cid s)) = dk_impala s"
    using again by (simp add: execute_locked_def thenS_def liftS_def returnS_def split: sum.split option.split prod.split)
  moreover have "execute_locked D v attempt actor ub name arguments cid s = (r, s')"
    using assms(1,4) by (simp add: dispatch_call_def thenS_def liftS_def)
  ultimately show ?thesis using same assms(1) by (simp add: dispatch_call_def thenS_def liftS_def)
qed

section \<open>A call that was started before\<close>

definition demo_dispatcher :: dispatcher where
  "demo_dispatcher = \<lparr>di_host = (\<lambda>_. \<lparr>h_sha256 = (\<lambda>_. ''h''), h_uuid = (\<lambda>_. ''50''), h_clock = (\<lambda>_. 0),
     h_max_file_bytes = 100, h_legacy_root = ''''\<rparr>), di_root = mk_path ''/ops'', di_auth = None,
     di_call = (\<lambda>_ _ _ _. returnS [(''status'', JStr ''SUCCEEDED'')])\<rparr>"

definition demo_started_row :: tool_row where
  "demo_started_row = \<lparr>date_created = '''', created_by = '''', date_updated = '''', updated_by = '''', t_id = ''50'',
     t_scope_id = ''u'', t_run_id = ''20'', t_workspace_id = ''11'', t_logical_call_key = ''impala:h'',
     t_tool_ref = ''impala_search_tables'', t_params_digest = ''h'', t_input_ref = '''', t_input_digest = None,
     t_input_bytes = None, t_status = Tool_RUNNING, t_execution_profile_ref = ''impala@1'',
     t_external_operation_ref = None, t_process_ref = None, t_result_ref = None, t_input_revision_id = None,
     t_result_revision_id = None, t_error = None\<rparr>"

definition demo_desk :: desk where
  "demo_desk = \<lparr>dk_world = \<lparr>wdb = empty_db\<lparr>runs := [demo_run_row], tool_executions := [demo_started_row]\<rparr>, wfiles = []\<rparr>, dk_tree = [],
     dk_impala = fresh_impala\<rparr>"

definition demo_tool_call :: json_dict where
  "demo_tool_call = [(''id'', JStr ''c''), (''function'', JObj [(''name'', JStr ''impala_search_tables'')])]"

lemma demo_call_read: "read_call demo_query_run demo_tool_call = Inr (Inr (''impala_search_tables'', [], ''c''))"
  by code_simp

lemma demo_row: "journal_row demo_dispatcher demo_query_run ''30'' ''c'' (dk_world demo_desk) = Some demo_started_row"
  by (simp add: journal_row_def logical_key_def demo_dispatcher_def demo_desk_def demo_started_row_def
      demo_query_run_def demo_run_row_def)

lemma demo_answer: "fst (dispatch_call demo_dispatcher demo_query_run ''30'' demo_tool_call ''a'' None demo_desk)
    = Inr (JObj (error_result ''STATE_CONFLICT'' ''Operation requires remote verification'' ''UNKNOWN''))"
  by code_simp

theorem started_call_is_never_replayed_witness:
  "fst (dispatch_call (demo_dispatcher\<lparr>di_call := (\<lambda>_ _ _ _. raiseS (ValueErr ''called''))\<rparr>) demo_query_run ''30''
      demo_tool_call ''a'' None demo_desk)
    = Inr (JObj (error_result ''STATE_CONFLICT'' ''Operation requires remote verification'' ''UNKNOWN''))"
proof -
  obtain r s' where d: "dispatch_call demo_dispatcher demo_query_run ''30'' demo_tool_call ''a'' None demo_desk = (r, s')"
    by fastforce
  have "t_status demo_started_row \<noteq> Tool_PREPARED" by (simp add: demo_started_row_def)
  from started_call_is_never_replayed [OF demo_call_read demo_row this d] d show ?thesis
    using demo_answer by simp
qed

end
