(* ===== verification/Migration.thy ===== *)
theory Migration
  imports StoreHistory "HOL-Library.Multiset"
begin

text \<open>
  The in-place migrations of \<open>SqliteRuntimeStore\<close> (\<open>_create_schema\<close> and \<open>_migrate_v1_to_v4\<close> to
  \<open>_migrate_v3_to_v4\<close> of \<open>src/code_forge/persistence/sqlite_store.py\<close>): the tables of the older schemas, and
  the statements that turn them into those of schema v4. What schemas 2 and 3 held is what their
  migrations leave of v4. The \<open>artifacts\<close> table is left out, and the order of rows without an
  \<open>ORDER BY\<close> is that of the table read.

  The numbers the migrations give the events of a Session are shown to be 1, 2, 3 and so on in the
  order of Runs and of the events in a Run, by both ways they are computed.
\<close>

section \<open>Tables of older schemas\<close>

record workspace_v1 = audit +
  w1_id :: ident
  w1_scope_id :: ident
  w1_storage_ref :: string
  w1_current_revision :: "ident option"

record workspace_v2 = workspace_v1 +
  w2_project_ref :: string
  w2_project_path :: path_text
  w2_active_attempt_id :: "ident option"
  w2_workspace_epoch :: int
  w2_lease_until :: "stamp option"
  w2_heartbeat_at :: "stamp option"
  w2_space_path :: path_text

record workspace_v3 = workspace_v1 +
  w3_tenant_ref :: string
  w3_user_ref :: string
  w3_user_path :: path_text
  w3_project_ref :: string
  w3_project_path :: path_text
  w3_active_attempt_id :: "ident option"
  w3_workspace_epoch :: int
  w3_lease_until :: "stamp option"
  w3_heartbeat_at :: "stamp option"

record revision_v1 = audit +
  v1_id :: ident
  v1_scope_id :: ident
  v1_workspace_id :: ident
  v1_parent_id :: "ident option"
  v1_manifest_digest :: string
  v1_manifest_ref :: string

record session_v1 = audit +
  s1_id :: ident
  s1_scope_id :: ident
  s1_workspace_id :: ident
  s1_title :: string
  s1_external_ref :: "string option"
  s1_thread_id :: ident
  s1_next_run_seq :: int
  s1_execution_epoch :: int
  s1_active_run_id :: "ident option"

record run_v1 = audit +
  r1_id :: ident
  r1_scope_id :: ident
  r1_session_id :: ident
  r1_run_seq :: int
  r1_idempotency_key :: string
  r1_request_fingerprint :: string
  r1_input :: string
  r1_agent_ref :: string
  r1_execution_context :: string
  r1_config_snapshot :: string
  r1_status :: run_status
  r1_active_attempt_id :: "ident option"
  r1_state_version :: int
  r1_task_outcome :: "task_outcome option"
  r1_wait_reason :: "string option"
  r1_output :: "string option"
  r1_error :: "string option"
  r1_cancel_requested_at :: "stamp option"
  r1_deadline_at :: "stamp option"
  r1_due_at :: stamp
  r1_next_event_seq :: int

record run_v4 = run_v1 +
  r4_workspace_id :: ident

record attempt_v1 = audit +
  a1_id :: ident
  a1_scope_id :: ident
  a1_session_id :: ident
  a1_run_id :: ident
  a1_epoch :: int
  a1_worker_id :: ident
  a1_lease_until :: stamp
  a1_heartbeat_at :: stamp
  a1_workspace_base_revision :: "ident option"
  a1_checkpoint_ref :: "string option"
  a1_ended_at :: "stamp option"

record tool_v1 = audit +
  t1_id :: ident
  t1_scope_id :: ident
  t1_run_id :: ident
  t1_logical_call_key :: string
  t1_tool_ref :: string
  t1_params_digest :: string
  t1_input_ref :: string
  t1_status :: tool_status
  t1_execution_profile_ref :: string
  t1_external_operation_ref :: "string option"
  t1_process_ref :: "string option"
  t1_result_ref :: "string option"
  t1_error :: "string option"

record tool_v4 = tool_v1 +
  t4_workspace_id :: ident
  t4_input_revision_id :: "ident option"
  t4_result_revision_id :: "ident option"

record pending_v4 = audit +
  p4_id :: ident
  p4_scope_id :: ident
  p4_run_id :: ident
  p4_kind :: string
  p4_payload :: string
  p4_response_key :: "string option"
  p4_response_digest :: "string option"
  p4_response_payload :: "string option"
  p4_resolved_at :: "stamp option"

record event_v1 = audit +
  e1_event_id :: ident
  e1_scope_id :: ident
  e1_run_id :: ident
  e1_seq :: int
  e1_schema_version :: string
  e1_type :: event_type
  e1_data :: string
  e1_occurred_at :: stamp

record event_v4 = event_v1 +
  e4_session_id :: ident
  e4_session_seq :: int

record db_v1 =
  db1_workspaces :: "workspace_v1 list"
  db1_revisions :: "revision_v1 list"
  db1_sessions :: "session_v1 list"
  db1_requests :: "session_request_row list"
  db1_runs :: "run_v1 list"
  db1_attempts :: "attempt_v1 list"
  db1_tools :: "tool_v1 list"
  db1_pendings :: "pending_v4 list"
  db1_events :: "event_v1 list"

text \<open>What schemas 2 to 4 share.\<close>

record shared_db =
  dbs_revisions :: "revision_row list"
  dbs_requests :: "session_request_row list"
  dbs_runs :: "run_v4 list"
  dbs_attempts :: "attempt_row list"
  dbs_tools :: "tool_v4 list"
  dbs_pendings :: "pending_v4 list"

record db_v2 = shared_db +
  db2_workspaces :: "workspace_v2 list"
  db2_sessions :: "session_v1 list"
  db2_events :: "event_v1 list"

record db_v3 = shared_db +
  db3_workspaces :: "workspace_v3 list"
  db3_sessions :: "session_v1 list"
  db3_events :: "event_v1 list"

record db_v4 = shared_db +
  db4_workspaces :: "workspace_row list"
  db4_sessions :: "session_row list"
  db4_events :: "event_v4 list"

section \<open>Backfilling event numbers\<close>

text \<open>
  \<open>UPDATE run_events SET session_id = (SELECT session_id FROM runs ..)\<close>: NULL, which the column
  refuses, when there is no such Run. The second statement counts the events of the Session up to
  this one.
\<close>

definition run_matches :: "event_v1 \<Rightarrow> 'r run_v1_scheme \<Rightarrow> bool" where
  "run_matches e r \<longleftrightarrow> r1_scope_id r = e1_scope_id e \<and> r1_id r = e1_run_id e"

text \<open>\<open>run_events e JOIN runs r ON r.scope_id = e.scope_id AND r.id = e.run_id\<close>\<close>

definition event_runs :: "'r run_v1_scheme list \<Rightarrow> event_v1 list \<Rightarrow> (event_v1 \<times> 'r run_v1_scheme) list" where
  "event_runs rs es = concat (map (\<lambda>e. map (Pair e) (filter (run_matches e) rs)) es)"

definition counted_rows :: "run_v4 list \<Rightarrow> event_v1 list \<Rightarrow> event_v1 \<Rightarrow> ((event_v1 \<times> run_v4) \<times> run_v4) list" where
  "counted_rows rs es e = filter (\<lambda>((p, q), c). e1_scope_id p = e1_scope_id e \<and> r1_session_id q = r1_session_id c
       \<and> (r1_run_seq q < r1_run_seq c \<or> r1_run_seq q = r1_run_seq c \<and> e1_seq p \<le> e1_seq e))
     (concat (map (\<lambda>pq. map (Pair pq) (filter (run_matches e) rs)) (event_runs rs es)))"

definition number_event :: "run_v4 list \<Rightarrow> event_v1 list \<Rightarrow> event_v1 \<Rightarrow> exn + event_v4" where
  "number_event rs es e = (case select_one (run_matches e) rs of
     None \<Rightarrow> Inl (IntegrityError ''run_events'')
   | Some r \<Rightarrow> Inr (event_v1.extend e
       (event_v4.fields (r1_session_id r) (int (length (counted_rows rs es e))))))"

definition unique_numbers :: "event_v4 list \<Rightarrow> exn + event_v4 list" where
  "unique_numbers es =
     (if distinct (map (\<lambda>e. (e1_scope_id e, e4_session_id e, e4_session_seq e)) es) then Inr es
      else Inl (IntegrityError ''run_events''))"

definition backfill_events :: "run_v4 list \<Rightarrow> event_v1 list \<Rightarrow> exn + event_v4 list" where
  "backfill_events rs es = bindE (mapE (number_event rs es) es) unique_numbers"

definition backfill_session :: "event_v4 list \<Rightarrow> session_v1 \<Rightarrow> session_row" where
  "backfill_session es s = audit.extend (audit.truncate s) (session_row.fields (s1_id s) (s1_scope_id s)
     (s1_workspace_id s) (s1_title s) (s1_external_ref s) (s1_thread_id s) (s1_next_run_seq s)
     (1 + int (rowcount (\<lambda>e. e4_session_id e = s1_id s) es)) (s1_execution_epoch s) (s1_active_run_id s))"


section \<open>From schemas 2 and 3\<close>

definition workspace_from_v2 :: "workspace_v2 \<Rightarrow> workspace_row" where
  "workspace_from_v2 w = audit.extend (audit.truncate w) (workspace_row.fields (w1_id w) (w1_scope_id w)
     (w1_storage_ref w) '''' (''legacy-tenant:'' @ w1_scope_id w) (w1_scope_id w) (w2_space_path w) ''''
     (w2_project_ref w) (w2_project_path w) (w1_current_revision w) (w2_active_attempt_id w)
     (w2_workspace_epoch w) (w2_lease_until w) (w2_heartbeat_at w))"

definition workspace_from_v3 :: "workspace_v3 \<Rightarrow> workspace_row" where
  "workspace_from_v3 w = audit.extend (audit.truncate w) (workspace_row.fields (w1_id w) (w1_scope_id w)
     (w1_storage_ref w) '''' (w3_tenant_ref w) (w3_user_ref w) (w3_user_path w) ''''
     (w3_project_ref w) (w3_project_path w) (w1_current_revision w) (w3_active_attempt_id w)
     (w3_workspace_epoch w) (w3_lease_until w) (w3_heartbeat_at w))"

definition migrate_v2_to_v4 :: "db_v2 \<Rightarrow> exn + db_v4" where
  "migrate_v2_to_v4 d = bindE (backfill_events (dbs_runs d) (db2_events d)) (\<lambda>es.
     Inr (shared_db.extend (shared_db.truncate d) (db_v4.fields (map workspace_from_v2 (db2_workspaces d))
       (map (backfill_session es) (db2_sessions d)) es)))"

definition migrate_v3_to_v4 :: "db_v3 \<Rightarrow> exn + db_v4" where
  "migrate_v3_to_v4 d = bindE (backfill_events (dbs_runs d) (db3_events d)) (\<lambda>es.
     Inr (shared_db.extend (shared_db.truncate d) (db_v4.fields (map workspace_from_v3 (db3_workspaces d))
       (map (backfill_session es) (db3_sessions d)) es)))"

section \<open>From schema 1\<close>

definition workspace_from_v1 :: "workspace_v1 \<Rightarrow> workspace_row" where
  "workspace_from_v1 w = audit.extend (audit.truncate w) (workspace_row.fields (w1_id w) (w1_scope_id w)
     (w1_storage_ref w) '''' (''legacy-tenant:'' @ w1_scope_id w) (w1_scope_id w) '''' ''''
     (''legacy-project:'' @ w1_id w) '''' (w1_current_revision w) None 0 None None)"

definition revision_from_v1 :: "revision_v1 \<Rightarrow> revision_row" where
  "revision_from_v1 v = audit.extend (audit.truncate v) (revision_row.fields (v1_id v) (v1_scope_id v)
     (v1_workspace_id v) (v1_parent_id v) (v1_manifest_digest v) (v1_manifest_ref v) '''')"

definition session_from_v1 :: "session_v1 \<Rightarrow> session_row" where
  "session_from_v1 s = audit.extend (audit.truncate s) (session_row.fields (s1_id s) (s1_scope_id s)
     (s1_workspace_id s) (s1_title s) (s1_external_ref s) (s1_thread_id s) (s1_next_run_seq s)
     1 (s1_execution_epoch s) (s1_active_run_id s))"

text \<open>\<open>JOIN sessions_v1 s ON s.scope_id = .. AND s.id = ..\<close>, and the same for Runs.\<close>

definition sessions_at :: "db_v1 \<Rightarrow> ident \<Rightarrow> ident \<Rightarrow> session_v1 list" where
  "sessions_at d scope sid = filter (\<lambda>s. s1_scope_id s = scope \<and> s1_id s = sid) (db1_sessions d)"

definition runs_at :: "db_v1 \<Rightarrow> ident \<Rightarrow> ident \<Rightarrow> run_v1 list" where
  "runs_at d scope rid = filter (\<lambda>r. r1_scope_id r = scope \<and> r1_id r = rid) (db1_runs d)"

definition runs_from_v1 :: "db_v1 \<Rightarrow> run_v4 list" where
  "runs_from_v1 d = concat (map (\<lambda>r. map (\<lambda>s. run_v1.extend r (run_v4.fields (s1_workspace_id s)))
     (sessions_at d (r1_scope_id r) (r1_session_id r))) (db1_runs d))"

definition attempt_from_v1 :: "attempt_v1 \<Rightarrow> session_v1 \<Rightarrow> attempt_row" where
  "attempt_from_v1 a s = audit.extend (audit.truncate a) (attempt_row.fields (a1_id a) (a1_scope_id a)
     (a1_session_id a) (a1_run_id a) (s1_workspace_id s) (a1_epoch a) (a1_epoch a) (a1_worker_id a)
     (a1_lease_until a) (a1_heartbeat_at a) (a1_workspace_base_revision a) ''legacy'' ''''
     (a1_checkpoint_ref a) (a1_ended_at a))"

definition attempts_from_v1 :: "db_v1 \<Rightarrow> attempt_row list" where
  "attempts_from_v1 d = concat (map (\<lambda>a. map (attempt_from_v1 a)
     (sessions_at d (a1_scope_id a) (a1_session_id a))) (db1_attempts d))"

definition tools_from_v1 :: "db_v1 \<Rightarrow> tool_v4 list" where
  "tools_from_v1 d = concat (map (\<lambda>t. concat (map (\<lambda>r. map (\<lambda>s.
     tool_v1.extend t (tool_v4.fields (s1_workspace_id s) None None))
     (sessions_at d (r1_scope_id r) (r1_session_id r))) (runs_at d (t1_scope_id t) (t1_run_id t)))) (db1_tools d))"

text \<open>\<open>ROW_NUMBER() OVER (PARTITION BY e.scope_id, r.session_id ORDER BY r.run_seq, e.seq)\<close>\<close>

definition event_order :: "event_v1 \<times> 'r run_v1_scheme \<Rightarrow> int \<times> int" where
  "event_order = (\<lambda>(e, r). (r1_run_seq r, e1_seq e))"

definition row_number :: "(event_v1 \<times> run_v1) list \<Rightarrow> event_v1 \<times> run_v1 \<Rightarrow> int" where
  "row_number joined = (\<lambda>(e, r). 1 + int (length (takeWhile (\<lambda>(p, q). e1_event_id p \<noteq> e1_event_id e)
     (sort_key event_order (filter (\<lambda>(p, q). e1_scope_id p = e1_scope_id e
        \<and> r1_session_id q = r1_session_id r) joined)))))"

definition events_from_v1 :: "db_v1 \<Rightarrow> event_v4 list" where
  "events_from_v1 d = (let joined = event_runs (db1_runs d) (db1_events d) in
     map (\<lambda>(e, r). event_v1.extend e (event_v4.fields (r1_session_id r) (row_number joined (e, r)))) joined)"

definition count_session :: "event_v4 list \<Rightarrow> run_v4 list \<Rightarrow> session_row \<Rightarrow> session_row" where
  "count_session es rs s = s\<lparr>s_next_event_seq := 1 + int (length (concat (map (\<lambda>e.
     filter (\<lambda>r. r1_scope_id r = e1_scope_id e \<and> r1_id r = e1_run_id e \<and> r1_session_id r = s_id s) rs) es)))\<rparr>"

text \<open>The primary keys and unique constraints of schema v4; a NULL is equal to nothing.\<close>

definition unique_keys :: "db_v4 \<Rightarrow> bool" where
  "unique_keys d \<longleftrightarrow>
     distinct (map w_id (db4_workspaces d))
     \<and> distinct (map (\<lambda>w. (w_scope_id w, w_project_ref w)) (db4_workspaces d))
     \<and> distinct (map v_id (dbs_revisions d))
     \<and> distinct (map s_id (db4_sessions d)) \<and> distinct (map s_thread_id (db4_sessions d))
     \<and> distinct (map (\<lambda>q. (q_scope_id q, q_idempotency_key q)) (dbs_requests d))
     \<and> distinct (map r1_id (dbs_runs d))
     \<and> distinct (map (\<lambda>r. (r1_scope_id r, r1_session_id r, r1_run_seq r)) (dbs_runs d))
     \<and> distinct (map (\<lambda>r. (r1_scope_id r, r1_session_id r, r1_idempotency_key r)) (dbs_runs d))
     \<and> distinct (map a_id (dbs_attempts d))
     \<and> distinct (map (\<lambda>a. (a_scope_id a, a_session_id a, a_epoch a)) (dbs_attempts d))
     \<and> distinct (map (\<lambda>a. (a_scope_id a, a_workspace_id a, a_workspace_epoch a)) (dbs_attempts d))
     \<and> distinct (map t1_id (dbs_tools d))
     \<and> distinct (map (\<lambda>t. (t1_scope_id t, t1_run_id t, t1_logical_call_key t)) (dbs_tools d))
     \<and> distinct (map p4_id (dbs_pendings d))
     \<and> distinct (map (\<lambda>p. (p4_scope_id p, p4_run_id p, p4_response_key p))
          (filter (\<lambda>p. p4_response_key p \<noteq> None) (dbs_pendings d)))
     \<and> distinct (map e1_event_id (db4_events d))
     \<and> distinct (map (\<lambda>e. (e1_scope_id e, e1_run_id e, e1_seq e)) (db4_events d))
     \<and> distinct (map (\<lambda>e. (e1_scope_id e, e4_session_id e, e4_session_seq e)) (db4_events d))"

definition tables_from_v1 :: "db_v1 \<Rightarrow> db_v4" where
  "tables_from_v1 d = (let rs = runs_from_v1 d; es = events_from_v1 d in
     \<lparr>dbs_revisions = map revision_from_v1 (db1_revisions d), dbs_requests = db1_requests d, dbs_runs = rs,
      dbs_attempts = attempts_from_v1 d, dbs_tools = tools_from_v1 d, dbs_pendings = db1_pendings d,
      db4_workspaces = map workspace_from_v1 (db1_workspaces d),
      db4_sessions = map (count_session es rs \<circ> session_from_v1) (db1_sessions d), db4_events = es\<rparr>)"

definition migrate_v1_to_v4 :: "db_v1 \<Rightarrow> exn + db_v4" where
  "migrate_v1_to_v4 d = (if unique_keys (tables_from_v1 d) then Inr (tables_from_v1 d)
     else Inl (IntegrityError ''v4''))"


section \<open>Ranks\<close>

text \<open>
  Rows numbered by how many rows of the list do not come after them. Both ways a migration computes
  the number of an event are such a rank.
\<close>

lemma up_to_nth:
  fixes key :: "'x \<Rightarrow> 'k :: linorder"
  assumes "sorted_wrt (\<lambda>a b. key a < key b) ys" "i < length ys"
  shows "filter (\<lambda>y. key y \<le> key (ys ! i)) ys = take (Suc i) ys"
proof -
  have ys: "ys = take i ys @ ys ! i # drop (Suc i) ys" using assms(2) by (rule id_take_nth_drop)
  have "sorted_wrt (\<lambda>a b. key a < key b) (take i ys @ ys ! i # drop (Suc i) ys)" using assms(1) ys by simp
  then have a: "\<forall>y\<in>set (take i ys). key y < key (ys ! i)" "\<forall>y\<in>set (drop (Suc i) ys). key (ys ! i) < key y"
    by (auto simp: sorted_wrt_append)
  have "filter (\<lambda>y. key y \<le> key (ys ! i)) (take i ys) = take i ys"
    using a(1) by (simp add: filter_id_conv less_imp_le)
  moreover have "filter (\<lambda>y. key y \<le> key (ys ! i)) (drop (Suc i) ys) = []"
    using a(2) by (auto simp: filter_empty_conv not_le)
  ultimately have "filter (\<lambda>y. key y \<le> key (ys ! i)) (take i ys @ ys ! i # drop (Suc i) ys) = take i ys @ [ys ! i]"
    by simp
  then show ?thesis using ys assms(2) by (simp add: take_Suc_conv_app_nth)
qed

lemma sort_key_strict:
  fixes key :: "'x \<Rightarrow> 'k :: linorder"
  assumes "distinct (map key xs)"
  shows "sorted_wrt (\<lambda>a b. key a < key b) (sort_key key xs)"
proof -
  have "distinct (map key (sort_key key xs))" using assms by (auto simp: distinct_map)
  then have "sorted_wrt (<) (map key (sort_key key xs))" by (simp add: strict_sorted_iff)
  then show ?thesis by (simp add: sorted_wrt_map)
qed

locale ranked =
  fixes rows :: "'s \<Rightarrow> 'x list" and key :: "'x \<Rightarrow> 'k :: linorder" and number :: "'s \<Rightarrow> 'x \<Rightarrow> int"
    and ok :: "'s \<Rightarrow> bool"
  assumes rank_law: "ok s \<Longrightarrow> x \<in> set (rows s)
      \<Longrightarrow> number s x = int (length (filter (\<lambda>y. key y \<le> key x) (rows s)))"
    and key_law: "ok s \<Longrightarrow> distinct (map key (rows s))"
begin



lemma numbers_in_order: "ok s \<Longrightarrow> map (number s) (sort_key key (rows s)) = [1..int (length (rows s))]"
proof (rule nth_equalityI)
  fix i assume ok: "ok s" and i: "i < length (map (number s) (sort_key key (rows s)))"
  let ?ys = "sort_key key (rows s)"
  have x: "?ys ! i \<in> set (rows s)" using i by (metis length_map nth_mem set_sort)
  have "number s (?ys ! i) = int (length (filter (\<lambda>y. key y \<le> key (?ys ! i)) (rows s)))"
    by (rule rank_law [OF ok x])
  also have "length (filter (\<lambda>y. key y \<le> key (?ys ! i)) (rows s)) = length (filter (\<lambda>y. key y \<le> key (?ys ! i)) ?ys)"
    by (metis mset_filter mset_sort size_mset)
  also have "\<dots> = Suc i" using up_to_nth [OF sort_key_strict [OF key_law [OF ok]], of i] i by simp
  finally show "map (number s) ?ys ! i = [1..int (length (rows s))] ! i" using i by simp
qed simp

lemma numbers_sorted: "ok s \<Longrightarrow> sort (map (number s) (rows s)) = [1..int (length (rows s))]"
proof -
  assume "ok s"
  then have "mset (map (number s) (rows s)) = mset [1..int (length (rows s))]"
    using numbers_in_order [of s] by (metis mset_map mset_sort)
  then show ?thesis by (metis properties_for_sort sorted_upto)
qed

lemma number_less:
  assumes "ok s" "x \<in> set (rows s)" "y \<in> set (rows s)"
  shows "number s x < number s y \<longleftrightarrow> key x < key y"
proof -
  have m: "length (filter (\<lambda>z. key z \<le> key a) (rows s)) < length (filter (\<lambda>z. key z \<le> key b) (rows s))"
    if "b \<in> set (rows s)" "key a < key b" for a b
  proof -
    have "filter (\<lambda>z. key z \<le> key a) (rows s) = filter (\<lambda>z. key z \<le> key a) (filter (\<lambda>z. key z \<le> key b) (rows s))"
      using that(2) by (auto intro!: filter_cong)
    moreover have "b \<in> set (filter (\<lambda>z. key z \<le> key b) (rows s))" "\<not> key b \<le> key a" using that by auto
    ultimately show ?thesis by (metis length_filter_less)
  qed
  have "key x = key y \<Longrightarrow> number s x = number s y" using rank_law assms by simp
  then show ?thesis using m [of y x] m [of x y] rank_law assms
    by (metis less_asym linorder_neqE of_nat_less_iff order_less_irrefl)
qed

end


section \<open>The numbers of a Session's events\<close>

text \<open>The keys the older schemas had too, and the foreign key of Runs.\<close>

definition old_keys :: "session_v1 list \<Rightarrow> 'r run_v1_scheme list \<Rightarrow> event_v1 list \<Rightarrow> bool" where
  "old_keys ss rs es \<longleftrightarrow> distinct (map s1_id ss) \<and> distinct (map r1_id rs) \<and> distinct (map e1_event_id es)
     \<and> distinct (map (\<lambda>r. (r1_scope_id r, r1_session_id r, r1_run_seq r)) rs)
     \<and> distinct (map (\<lambda>e. (e1_scope_id e, e1_run_id e, e1_seq e)) es)
     \<and> (\<forall>r\<in>set rs. \<exists>s\<in>set ss. s1_scope_id s = r1_scope_id r \<and> s1_id s = r1_session_id r)"

definition session_rows :: "'r run_v1_scheme list \<Rightarrow> event_v1 list \<Rightarrow> ident \<Rightarrow> ident
    \<Rightarrow> (event_v1 \<times> 'r run_v1_scheme) list" where
  "session_rows rs es scope sid =
     filter (\<lambda>(p, q). e1_scope_id p = scope \<and> r1_session_id q = sid) (event_runs rs es)"

lemma one_run:
  "distinct (map r1_id rs) \<Longrightarrow> r \<in> set rs \<Longrightarrow> run_matches e r \<Longrightarrow> filter (run_matches e) rs = [r]"
proof -
  assume a: "distinct (map r1_id rs)" "r \<in> set rs" "run_matches e r"
  have "filter (run_matches e) rs = filter (run_matches e) (filter (\<lambda>q. r1_id q = r1_id r) rs)"
    using a(3) by (auto simp: run_matches_def intro!: filter_cong)
  also have "\<dots> = [r]" using a by (simp add: filter_key_unique)
  finally show ?thesis .
qed

lemma event_runs_iff: "(e, r) \<in> set (event_runs rs es) \<longleftrightarrow> e \<in> set es \<and> r \<in> set rs \<and> run_matches e r"
  by (auto simp: event_runs_def)

lemma event_runs_fst:
  "distinct (map r1_id rs) \<Longrightarrow> map fst (event_runs rs es) = filter (\<lambda>e. \<exists>r\<in>set rs. run_matches e r) es"
proof (induction es)
  case Nil then show ?case by (simp add: event_runs_def)
next
  case (Cons e es)
  show ?case
  proof (cases "\<exists>r\<in>set rs. run_matches e r")
    case True
    then obtain r where "filter (run_matches e) rs = [r]" using one_run [OF Cons.prems] by blast
    then show ?thesis using True Cons by (simp add: event_runs_def)
  next
    case False
    then have "filter (run_matches e) rs = []" by (simp add: filter_empty_conv)
    then show ?thesis using False Cons by (simp add: event_runs_def)
  qed
qed

lemma event_runs_distinct:
  "distinct (map r1_id rs) \<Longrightarrow> distinct (map f es) \<Longrightarrow> distinct (map (f \<circ> fst) (event_runs rs es))"
proof -
  assume a: "distinct (map r1_id rs)" "distinct (map f es)"
  have "map (f \<circ> fst) (event_runs rs es) = map f (filter (\<lambda>e. \<exists>r\<in>set rs. run_matches e r) es)"
    by (simp only: event_runs_fst [OF a(1), symmetric] map_map)
  then show ?thesis using a(2) by (simp add: distinct_map_filter)
qed

lemma session_rows_keys:
  assumes "old_keys ss rs es" shows "distinct (map event_order (session_rows rs es scope sid))"
proof -
  have d: "distinct (map r1_id rs)" "distinct (map (\<lambda>r. (r1_scope_id r, r1_session_id r, r1_run_seq r)) rs)"
    "distinct (map (\<lambda>e. (e1_scope_id e, e1_run_id e, e1_seq e)) es)"
    using assms by (simp_all add: old_keys_def)
  have "distinct (event_runs rs es)" using event_runs_distinct [OF d(1,3)] by (simp add: distinct_map)
  then have "distinct (session_rows rs es scope sid)" by (simp add: session_rows_def)
  moreover have "inj_on event_order (set (session_rows rs es scope sid))"
  proof (rule inj_onI, clarify)
    fix e r e' r'
    assume i: "(e, r) \<in> set (session_rows rs es scope sid)" "(e', r') \<in> set (session_rows rs es scope sid)"
      and k: "event_order (e, r) = event_order (e', r')"
    from i have m: "e \<in> set es" "r \<in> set rs" "run_matches e r" "e' \<in> set es" "r' \<in> set rs" "run_matches e' r'"
      "e1_scope_id e = e1_scope_id e'" "r1_session_id r = r1_session_id r'"
      by (auto simp: session_rows_def event_runs_iff)
    then have "r = r'" using k by (intro distinct_map_inj [OF d(2)]) (auto simp: event_order_def run_matches_def)
    moreover from this have "e = e'"
      using k m by (intro distinct_map_inj [OF d(3)]) (auto simp: event_order_def run_matches_def)
    ultimately show "e = e' \<and> r = r'" by simp
  qed
  ultimately show ?thesis by (simp add: distinct_map)
qed

text \<open>The count of schemas 2 and 3.\<close>

lemma counted_rows_rank:
  assumes "distinct (map r1_id rs)" "r \<in> set rs" "run_matches e r"
  shows "length (counted_rows rs es e) = length (filter (\<lambda>y. event_order y \<le> event_order (e, r))
           (session_rows rs es (e1_scope_id e) (r1_session_id r)))"
proof -
  have "counted_rows rs es e = filter (\<lambda>((p, q), c). e1_scope_id p = e1_scope_id e \<and> r1_session_id q = r1_session_id c
       \<and> (r1_run_seq q < r1_run_seq c \<or> r1_run_seq q = r1_run_seq c \<and> e1_seq p \<le> e1_seq e))
     (map (\<lambda>pq. (pq, r)) (event_runs rs es))"
    unfolding counted_rows_def by (simp add: one_run [OF assms])
  then show ?thesis
    by (auto simp: session_rows_def filter_map comp_def event_order_def less_eq_prod_def split_def
        intro!: arg_cong [where f = length] filter_cong)
qed

interpretation backfilled: ranked
  "\<lambda>(rs, es, scope, sid). session_rows rs es scope sid" event_order
  "\<lambda>(rs, es, _) (e, r). int (length (counted_rows rs es e))"
  "\<lambda>(rs, es, _). \<exists>ss. old_keys ss rs es"
proof (unfold_locales, goal_cases)
  case (1 s x)
  obtain rs es scope sid e r where s: "s = (rs, es, scope, sid)" "x = (e, r)" by (metis prod_cases4 surj_pair)
  have m: "r \<in> set rs" "run_matches e r" "e1_scope_id e = scope" "r1_session_id r = sid"
    using 1(2) s by (auto simp: session_rows_def event_runs_iff)
  have "distinct (map r1_id rs)" using 1(1) s by (auto simp: old_keys_def)
  then show ?case using counted_rows_rank [OF _ m(1,2), of es] m(3,4) s by simp
next
  case (2 s)
  then show ?case using session_rows_keys by (cases s) auto
qed

text \<open>The window function of schema 1.\<close>

lemma takeWhile_nth:
  "distinct (map f ys) \<Longrightarrow> i < length ys \<Longrightarrow> takeWhile (\<lambda>y. f y \<noteq> f (ys ! i)) ys = take i ys"
proof -
  assume d: "distinct (map f ys)" and i: "i < length ys"
  have ys: "ys = take i ys @ ys ! i # drop (Suc i) ys" using i by (rule id_take_nth_drop)
  have "f y \<noteq> f (ys ! i)" if "y \<in> set (take i ys)" for y
    using d i that ys by (metis (no_types, lifting) distinct_append distinct_map_inj in_set_takeD
        list.simps(9) map_append not_distinct_conv_prefix distinct_map nth_mem disjoint_iff list.set_intros(1))
  then have "takeWhile (\<lambda>y. f y \<noteq> f (ys ! i)) (take i ys @ ys ! i # drop (Suc i) ys) = take i ys"
    by (subst takeWhile_append2) auto
  then show ?thesis using ys by simp
qed

lemma row_number_rank:
  fixes rs :: "run_v1 list"
  assumes "old_keys ss rs es" "(e, r) \<in> set (event_runs rs es)"
  shows "row_number (event_runs rs es) (e, r) = int (length (filter (\<lambda>y. event_order y \<le> event_order (e, r))
           (session_rows rs es (e1_scope_id e) (r1_session_id r))))"
proof -
  let ?xs = "session_rows rs es (e1_scope_id e) (r1_session_id r)"
  let ?ys = "sort_key event_order ?xs"
  have "(e, r) \<in> set ?ys" using assms(2) by (simp add: session_rows_def)
  then obtain i where i: "i < length ?ys" "?ys ! i = (e, r)" by (metis in_set_conv_nth)
  have "distinct (map (e1_event_id \<circ> fst) (event_runs rs es))"
    using assms(1) by (intro event_runs_distinct) (simp_all add: old_keys_def)
  then have "distinct (map (e1_event_id \<circ> fst) ?ys)"
    by (auto simp: distinct_map session_rows_def intro: inj_on_subset)
  from takeWhile_nth [OF this i(1)] have "length (takeWhile (\<lambda>y. e1_event_id (fst y) \<noteq> e1_event_id e) ?ys) = i"
    using i by (simp add: comp_def)
  moreover have "filter (\<lambda>y. event_order y \<le> event_order (e, r)) ?ys = take (Suc i) ?ys"
    using up_to_nth [OF sort_key_strict [OF session_rows_keys [OF assms(1)]] i(1)] i(2) by simp
  moreover have "length (filter (\<lambda>y. event_order y \<le> event_order (e, r)) ?ys)
      = length (filter (\<lambda>y. event_order y \<le> event_order (e, r)) ?xs)"
    by (metis mset_filter mset_sort size_mset)
  ultimately show ?thesis using i(1) by (simp add: row_number_def session_rows_def split_def)
qed

interpretation windowed: ranked
  "\<lambda>(rs, es, scope, sid). session_rows rs es scope sid" event_order
  "\<lambda>(rs :: run_v1 list, es, _). row_number (event_runs rs es)"
  "\<lambda>(rs, es, _). \<exists>ss. old_keys ss rs es"
proof (unfold_locales, goal_cases)
  case (1 s x)
  obtain rs es scope sid e r where s: "s = (rs, es, scope, sid)" "x = (e, r)" by (metis prod_cases4 surj_pair)
  have m: "(e, r) \<in> set (event_runs rs es)" "e1_scope_id e = scope" "r1_session_id r = sid"
    using 1(2) s by (auto simp: session_rows_def)
  then show ?case using row_number_rank [OF _ m(1)] 1(1) s by auto
next
  case (2 s)
  then show ?case using session_rows_keys by (cases s) auto
qed


section \<open>Every migrated Session is numbered\<close>

datatype database = Fresh | Schema1 db_v1 | Schema2 db_v2 | Schema3 db_v3 | Schema4 db_v4 | Schema5 db
  | Newer int

fun to_v4 :: "database \<Rightarrow> exn + db_v4" where
  "to_v4 (Schema1 d) = migrate_v1_to_v4 d"
| "to_v4 (Schema2 d) = migrate_v2_to_v4 d"
| "to_v4 (Schema3 d) = migrate_v3_to_v4 d"
| "to_v4 (Schema4 d) = Inr d"
| "to_v4 _ = Inl (ValueErr ''RuntimeError'')"

fun backfillable :: "database \<Rightarrow> bool" where
  "backfillable (Schema1 d) = old_keys (db1_sessions d) (db1_runs d) (db1_events d)"
| "backfillable (Schema2 d) = old_keys (db2_sessions d) (dbs_runs d) (db2_events d)"
| "backfillable (Schema3 d) = old_keys (db3_sessions d) (dbs_runs d) (db3_events d)"
| "backfillable _ = False"

definition numbered_event :: "(event_v1 \<times> 'r run_v1_scheme \<Rightarrow> int) \<Rightarrow> event_v1 \<times> 'r run_v1_scheme \<Rightarrow> event_v4" where
  "numbered_event num = (\<lambda>(e, r). event_v1.extend e (event_v4.fields (r1_session_id r) (num (e, r))))"

lemma numbered_event_simps [simp]:
  "e4_session_id (numbered_event num x) = r1_session_id (snd x)"
  "e4_session_seq (numbered_event num x) = num x"
  "e1_seq (numbered_event num x) = e1_seq (fst x)"
  "e1_scope_id (numbered_event num x) = e1_scope_id (fst x)"
  "e1_run_id (numbered_event num x) = e1_run_id (fst x)"
  by (cases x; simp add: numbered_event_def event_v1.defs event_v4.defs)+

text \<open>The events of a Session, for a numbering that is a rank and a Session whose Runs share its scope.\<close>

definition ranked_by :: "run_v4 list \<Rightarrow> event_v4 list \<Rightarrow> ident \<Rightarrow> int \<Rightarrow> bool" where
  "ranked_by rs es sid next \<longleftrightarrow>
     sort (map e4_session_seq (filter (\<lambda>e. e4_session_id e = sid) es)) = [1..next - 1]
     \<and> (\<forall>e\<in>set es. \<forall>f\<in>set es. \<forall>r\<in>set rs. \<forall>q\<in>set rs. e4_session_id e = sid \<and> e4_session_id f = sid
          \<and> r1_scope_id r = e1_scope_id e \<and> r1_id r = e1_run_id e
          \<and> r1_scope_id q = e1_scope_id f \<and> r1_id q = e1_run_id f \<longrightarrow>
          (e4_session_seq e < e4_session_seq f \<longleftrightarrow> r1_run_seq r < r1_run_seq q
             \<or> r1_run_seq r = r1_run_seq q \<and> e1_seq e < e1_seq f))"

lemma session_scope:
  "old_keys ss rs es \<Longrightarrow> s \<in> set ss \<Longrightarrow> r \<in> set rs \<Longrightarrow> r1_session_id r = s1_id s \<Longrightarrow> r1_scope_id r = s1_scope_id s"
  unfolding old_keys_def by (metis distinct_map_inj)

lemma session_part:
  assumes "old_keys ss rs es" "s \<in> set ss"
  shows "filter (\<lambda>e. e4_session_id e = s1_id s) (map (numbered_event num) (event_runs rs es))
       = map (numbered_event num) (session_rows rs es (s1_scope_id s) (s1_id s))"
proof -
  have "filter (\<lambda>x. r1_session_id (snd x) = s1_id s) (event_runs rs es) = session_rows rs es (s1_scope_id s) (s1_id s)"
    unfolding session_rows_def
    using session_scope [OF assms] by (intro filter_cong) (auto simp: event_runs_iff run_matches_def)
  then show ?thesis by (simp add: filter_map comp_def)
qed

lemma mapE_numbers:
  "distinct (map r1_id rs) \<Longrightarrow> mapE (number_event rs es) es' = Inr es4
   \<Longrightarrow> es4 = map (numbered_event (\<lambda>(e, r). int (length (counted_rows rs es e)))) (event_runs rs es')"
proof (induction es' arbitrary: es4)
  case Nil then show ?case by (simp add: event_runs_def)
next
  case (Cons e es')
  obtain x xs where x: "number_event rs es e = Inr x" "mapE (number_event rs es) es' = Inr xs" "es4 = x # xs"
    using Cons.prems(2) by (auto elim!: bindE_InrE)
  obtain r where r: "select_one (run_matches e) rs = Some r"
    "x = event_v1.extend e (event_v4.fields (r1_session_id r) (int (length (counted_rows rs es e))))"
    using x(1) by (auto simp: number_event_def split: option.splits)
  have "filter (run_matches e) rs = [r]"
    using select_one_SomeD [OF r(1)] by (intro one_run Cons.prems(1)) auto
  then have "event_runs rs (e # es') = (e, r) # event_runs rs es'" by (simp add: event_runs_def)
  then show ?case using Cons.IH [OF Cons.prems(1) x(2)] x(3) r(2) by (simp add: numbered_event_def)
qed


lemma ranked_numbering:
  fixes rs :: "'r run_v1_scheme list"
  assumes keys: "old_keys ss rs es" and s: "s \<in> set ss"
    and sorted: "sort (map num (session_rows rs es (s1_scope_id s) (s1_id s)))
        = [1..int (length (session_rows rs es (s1_scope_id s) (s1_id s)))]"
    and less: "\<And>x y. x \<in> set (session_rows rs es (s1_scope_id s) (s1_id s)) \<Longrightarrow>
        y \<in> set (session_rows rs es (s1_scope_id s) (s1_id s)) \<Longrightarrow> num x < num y \<longleftrightarrow> event_order x < event_order y"
    and rs4: "\<And>r. r \<in> set rs4 \<Longrightarrow> \<exists>r0\<in>set rs. r1_id r0 = r1_id r \<and> r1_run_seq r0 = r1_run_seq r"
    and es4: "es4 = map (numbered_event num) (event_runs rs es)"
    and nxt: "next = 1 + int (length (filter (\<lambda>e. e4_session_id e = s1_id s) es4))"
  shows "ranked_by rs4 es4 (s1_id s) next"
proof -
  let ?rows = "session_rows rs es (s1_scope_id s) (s1_id s)"
  have part: "filter (\<lambda>e. e4_session_id e = s1_id s) es4 = map (numbered_event num) ?rows"
    unfolding es4 by (rule session_part [OF keys s])
  have ids: "distinct (map r1_id rs)" using keys by (simp add: old_keys_def)
  have row: "\<exists>x\<in>set ?rows. e = numbered_event num x \<and> event_order x = (r1_run_seq r, e1_seq e)"
    if e: "e \<in> set es4" "e4_session_id e = s1_id s" "r \<in> set rs4" "r1_id r = e1_run_id e" for e r
  proof -
    have "e \<in> set (filter (\<lambda>e. e4_session_id e = s1_id s) es4)" using e by simp
    then obtain x where x: "x \<in> set ?rows" "e = numbered_event num x" unfolding part by auto
    obtain r0 where r0: "r0 \<in> set rs" "r1_id r0 = r1_id r" "r1_run_seq r0 = r1_run_seq r" using rs4 [OF e(3)] by blast
    have "snd x \<in> set rs" "run_matches (fst x) (snd x)"
      using x(1) by (auto simp: session_rows_def event_runs_iff)
    then have "snd x = r0" using r0 e(4) x(2) by (intro distinct_map_inj [OF ids]) (auto simp: run_matches_def)
    then show ?thesis using x r0(3) by (auto simp: event_order_def split_def)
  qed
  have "sort (map e4_session_seq (filter (\<lambda>e. e4_session_id e = s1_id s) es4)) = [1..next - 1]"
    using sorted by (simp add: part nxt comp_def)
  moreover have "e4_session_seq e < e4_session_seq f \<longleftrightarrow> r1_run_seq r < r1_run_seq q
      \<or> r1_run_seq r = r1_run_seq q \<and> e1_seq e < e1_seq f"
    if h: "e \<in> set es4" "f \<in> set es4" "r \<in> set rs4" "q \<in> set rs4" "e4_session_id e = s1_id s"
      "e4_session_id f = s1_id s" "r1_id r = e1_run_id e" "r1_id q = e1_run_id f" for e f r q
  proof -
    obtain x where x: "x \<in> set ?rows" "e = numbered_event num x" "event_order x = (r1_run_seq r, e1_seq e)"
      using row [of e r] h by blast
    obtain y where y: "y \<in> set ?rows" "f = numbered_event num y" "event_order y = (r1_run_seq q, e1_seq f)"
      using row [of f q] h by blast
    have "e4_session_seq e < e4_session_seq f \<longleftrightarrow> event_order x < event_order y"
      using less [OF x(1) y(1)] x(2) y(2) by simp
    then show ?thesis unfolding x(3) y(3) by (auto simp: less_prod_simp)
  qed
  ultimately show ?thesis unfolding ranked_by_def by blast
qed

lemma backfill_ranked:
  assumes keys: "old_keys ss rs es" and s: "s \<in> set ss" and es4: "backfill_events rs es = Inr es4"
  shows "ranked_by rs es4 (s1_id s) (s_next_event_seq (backfill_session es4 s))"
proof (rule ranked_numbering [OF keys s])
  let ?num = "\<lambda>(e, r). int (length (counted_rows rs es e))"
  let ?s = "(rs, es, s1_scope_id s, s1_id s)"
  have ok: "\<exists>ss. old_keys ss rs es" using keys by blast
  show "sort (map ?num (session_rows rs es (s1_scope_id s) (s1_id s)))
      = [1..int (length (session_rows rs es (s1_scope_id s) (s1_id s)))]"
    using backfilled.numbers_sorted [of ?s] ok by simp
  show "?num x < ?num y \<longleftrightarrow> event_order x < event_order y"
    if "x \<in> set (session_rows rs es (s1_scope_id s) (s1_id s))"
      "y \<in> set (session_rows rs es (s1_scope_id s) (s1_id s))" for x y
    using backfilled.number_less [of ?s x y] ok that by simp
  have "mapE (number_event rs es) es = Inr es4"
    using es4 by (auto simp: backfill_events_def unique_numbers_def elim!: bindE_InrE split: if_splits)
  then show "es4 = map (numbered_event ?num) (event_runs rs es)"
    using keys by (intro mapE_numbers) (simp_all add: old_keys_def)
  show "s_next_event_seq (backfill_session es4 s) = 1 + int (length (filter (\<lambda>e. e4_session_id e = s1_id s) es4))"
    by (simp add: backfill_session_def audit.defs session_row.defs rowcount_def)
qed auto

lemma runs_from_v1_map:
  assumes "old_keys (db1_sessions d) (db1_runs d) es"
  shows "\<exists>f. runs_from_v1 d = map (\<lambda>r. run_v1.extend r (run_v4.fields (f r))) (db1_runs d)"
proof -
  have one: "\<exists>w. map (\<lambda>s. run_v1.extend r (run_v4.fields (s1_workspace_id s)))
      (sessions_at d (r1_scope_id r) (r1_session_id r)) = [run_v1.extend r (run_v4.fields w)]"
    if r: "r \<in> set (db1_runs d)" for r
  proof -
    obtain s where s: "s \<in> set (db1_sessions d)" "s1_scope_id s = r1_scope_id r" "s1_id s = r1_session_id r"
      using assms r by (auto simp: old_keys_def)
    have one: "filter (\<lambda>s'. s1_id s' = s1_id s) (db1_sessions d) = [s]"
      using assms s(1) by (intro filter_key_unique) (simp_all add: old_keys_def)
    have "sessions_at d (r1_scope_id r) (r1_session_id r)
        = filter (\<lambda>s'. s1_scope_id s' = r1_scope_id r) (filter (\<lambda>s'. s1_id s' = s1_id s) (db1_sessions d))"
      by (auto simp: sessions_at_def s(3) intro!: filter_cong)
    also have "\<dots> = [s]" unfolding one using s(2) by simp
    finally show ?thesis by auto
  qed
  then obtain f where f: "\<forall>r\<in>set (db1_runs d). map (\<lambda>s. run_v1.extend r (run_v4.fields (s1_workspace_id s)))
      (sessions_at d (r1_scope_id r) (r1_session_id r)) = [run_v1.extend r (run_v4.fields (f r))]"
    by metis
  have "runs_from_v1 d = concat (map (\<lambda>r. [run_v1.extend r (run_v4.fields (f r))]) (db1_runs d))"
    unfolding runs_from_v1_def using f by (intro arg_cong [where f = concat] map_cong) auto
  then show ?thesis by auto
qed


lemma count_session_v1:
  fixes num :: "event_v1 \<times> run_v1 \<Rightarrow> int"
  assumes keys: "old_keys (db1_sessions d) (db1_runs d) (db1_events d)"
    and es4: "es4 = map (numbered_event num) (event_runs (db1_runs d) (db1_events d))"
  shows "s_next_event_seq (count_session es4 (runs_from_v1 d) s)
       = 1 + int (length (filter (\<lambda>e. e4_session_id e = s_id s) es4))"
proof -
  let ?rs = "runs_from_v1 d"
  obtain f where f: "?rs = map (\<lambda>r. run_v1.extend r (run_v4.fields (f r))) (db1_runs d)"
    using runs_from_v1_map [OF keys] by blast
  have one: "filter (\<lambda>r. r1_scope_id r = e1_scope_id e \<and> r1_id r = e1_run_id e \<and> r1_session_id r = s_id s) ?rs
      = (if e4_session_id e = s_id s then [run_v1.extend r (run_v4.fields (f r))] else [])"
    if e: "e = numbered_event num (e0, r)" "(e0, r) \<in> set (event_runs (db1_runs d) (db1_events d))" for e e0 r
  proof -
    have m: "r \<in> set (db1_runs d)" "run_matches e0 r" using e(2) by (simp_all add: event_runs_iff)
    have r: "filter (run_matches e0) (db1_runs d) = [r]"
      using keys m by (intro one_run) (simp_all add: old_keys_def)
    have "filter (\<lambda>r. r1_scope_id r = e1_scope_id e \<and> r1_id r = e1_run_id e \<and> r1_session_id r = s_id s) ?rs
      = map (\<lambda>r. run_v1.extend r (run_v4.fields (f r)))
          (filter (\<lambda>r. r1_session_id r = s_id s) (filter (run_matches e0) (db1_runs d)))"
      by (simp add: f e(1) filter_map comp_def run_v1.defs run_matches_def conj_commute conj_left_commute)
    then show ?thesis using e(1) by (simp add: r)
  qed
  have "concat (map (\<lambda>e. filter (\<lambda>r. r1_scope_id r = e1_scope_id e \<and> r1_id r = e1_run_id e
      \<and> r1_session_id r = s_id s) ?rs) (map (numbered_event num) xs))
    = map (\<lambda>x. run_v1.extend (snd x) (run_v4.fields (f (snd x))))
        (filter (\<lambda>x. e4_session_id (numbered_event num x) = s_id s) xs)"
    if "set xs \<subseteq> set (event_runs (db1_runs d) (db1_events d))" for xs
    using that
  proof (induction xs)
    case (Cons x xs)
    then show ?case using one [of "numbered_event num x" "fst x" "snd x"] by simp
  qed simp
  from this [OF subset_refl] show ?thesis
    by (simp add: count_session_def es4 filter_map comp_def)
qed

lemma v1_ranked:
  assumes keys: "old_keys (db1_sessions d) (db1_runs d) (db1_events d)" and d4: "migrate_v1_to_v4 d = Inr d4"
    and s: "s \<in> set (db4_sessions d4)"
  shows "ranked_by (dbs_runs d4) (db4_events d4) (s_id s) (s_next_event_seq s)"
proof -
  let ?rs = "db1_runs d" and ?es = "db1_events d"
  let ?num = "row_number (event_runs ?rs ?es)"
  have d4: "d4 = tables_from_v1 d" using d4 by (auto simp: migrate_v1_to_v4_def split: if_splits)
  have es4: "events_from_v1 d = map (numbered_event ?num) (event_runs ?rs ?es)"
    by (simp add: events_from_v1_def numbered_event_def Let_def split_def)
  obtain s1 where s1: "s1 \<in> set (db1_sessions d)"
    "s = count_session (events_from_v1 d) (runs_from_v1 d) (session_from_v1 s1)"
    using s by (auto simp: d4 tables_from_v1_def Let_def)
  have id: "s_id s = s1_id s1" "s_id (session_from_v1 s1) = s1_id s1"
    by (simp_all add: s1(2) count_session_def session_from_v1_def audit.defs session_row.defs)
  let ?s = "(?rs, ?es, s1_scope_id s1, s1_id s1)"
  have ok: "\<exists>ss. old_keys ss ?rs ?es" using keys by blast
  have "ranked_by (runs_from_v1 d) (events_from_v1 d) (s1_id s1) (s_next_event_seq s)"
  proof (rule ranked_numbering [OF keys s1(1) _ _ _ es4])
    show "sort (map ?num (session_rows ?rs ?es (s1_scope_id s1) (s1_id s1)))
        = [1..int (length (session_rows ?rs ?es (s1_scope_id s1) (s1_id s1)))]"
      using windowed.numbers_sorted [of ?s] ok by simp
    show "?num x < ?num y \<longleftrightarrow> event_order x < event_order y"
      if "x \<in> set (session_rows ?rs ?es (s1_scope_id s1) (s1_id s1))"
        "y \<in> set (session_rows ?rs ?es (s1_scope_id s1) (s1_id s1))" for x y
      using windowed.number_less [of ?s x y] ok that by simp
    show "\<exists>r0\<in>set ?rs. r1_id r0 = r1_id r \<and> r1_run_seq r0 = r1_run_seq r" if "r \<in> set (runs_from_v1 d)" for r
      using that by (auto simp: runs_from_v1_def run_v1.defs)
    show "s_next_event_seq s = 1 + int (length (filter (\<lambda>e. e4_session_id e = s1_id s1) (events_from_v1 d)))"
      using count_session_v1 [OF keys es4, of "session_from_v1 s1"] s1(2) id(2) by simp
  qed
  then show ?thesis by (simp add: d4 id(1) tables_from_v1_def Let_def)
qed

lemma backfilled_ranked:
  assumes "old_keys ss rs es" "backfill_events rs es = Inr es4" "s \<in> set (map (backfill_session es4) ss)"
  shows "ranked_by rs es4 (s_id s) (s_next_event_seq s)"
proof -
  obtain s1 where s1: "s1 \<in> set ss" "s = backfill_session es4 s1" using assms(3) by auto
  then show ?thesis using backfill_ranked [OF assms(1) s1(1) assms(2)]
    by (simp add: backfill_session_def audit.defs session_row.defs)
qed

lemma v4_numbered:
  assumes "backfillable d" "to_v4 d = Inr d4" "s \<in> set (db4_sessions d4)"
  shows "ranked_by (dbs_runs d4) (db4_events d4) (s_id s) (s_next_event_seq s)"
proof (cases d)
  case (Schema1 d1)
  then show ?thesis using v1_ranked assms by simp
next
  case (Schema2 d2)
  then obtain es where es: "backfill_events (dbs_runs d2) (db2_events d2) = Inr es"
    "db4_sessions d4 = map (backfill_session es) (db2_sessions d2)" "dbs_runs d4 = dbs_runs d2" "db4_events d4 = es"
    using assms(2) by (auto simp: migrate_v2_to_v4_def shared_db.defs db_v4.defs elim!: bindE_InrE)
  show ?thesis unfolding es(3,4)
    using assms(1,3) Schema2 es(2) by (intro backfilled_ranked [OF _ es(1)]) simp_all
next
  case (Schema3 d3)
  then obtain es where es: "backfill_events (dbs_runs d3) (db3_events d3) = Inr es"
    "db4_sessions d4 = map (backfill_session es) (db3_sessions d3)" "dbs_runs d4 = dbs_runs d3" "db4_events d4 = es"
    using assms(2) by (auto simp: migrate_v3_to_v4_def shared_db.defs db_v4.defs elim!: bindE_InrE)
  show ?thesis unfolding es(3,4)
    using assms(1,3) Schema3 es(2) by (intro backfilled_ranked [OF _ es(1)]) simp_all
qed (use assms in simp_all)

end
