(* ===== verification/Upgrade.thy ===== *)
theory Upgrade
  imports Migration StoreDemo WorkspaceCommit
begin

text \<open>
  Opening a database of any schema (\<open>_create_schema\<close>) and the migration from schema v4 to v5
  (\<open>_migrate_v4_to_v5\<close> of \<open>src/code_forge/persistence/sqlite_store.py\<close>), which moves the bodies out of the
  tables: messages, snapshots and answers into objects, event data into the Session's log. A body that
  was moved reads back as what the old column held, whatever earlier attempts that failed have written;
  the number of a Session's event is the one theory \<open>Migration\<close> gave it, and reading the migrated
  events page by page misses none.
\<close>

section \<open>Moving the bodies\<close>

fun mapA :: "('a \<Rightarrow> 'b act) \<Rightarrow> 'a list \<Rightarrow> 'b list act" where
  "mapA f [] = ret []"
| "mapA f (x # xs) = bindA (f x) (\<lambda>y. bindA (mapA f xs) (\<lambda>ys. ret (y # ys)))"

text \<open>\<open>base_by_session.get(session_id, self._legacy_root)\<close>; a dict keeps the last of equal keys.\<close>

definition base_by_session :: "host \<Rightarrow> db_v4 \<Rightarrow> ident \<Rightarrow> string" where
  "base_by_session h d sid =
     (case map_of (rev (map (\<lambda>s. (s_id s, s_workspace_id s)) (db4_sessions d))) sid of
        None \<Rightarrow> h_legacy_root h
      | Some wid \<Rightarrow> (case map_of (rev (map (\<lambda>w. (w_id w, w_user_path w)) (db4_workspaces d))) wid of
          None \<Rightarrow> h_legacy_root h
        | Some user_path \<Rightarrow> user_base h user_path))"

text \<open>\<open>value or "{}"\<close>\<close>

definition or_object :: "string \<Rightarrow> string" where
  "or_object t = (if t = [] then ''{}'' else t)"

definition optional_object :: "(string \<Rightarrow> object_ref act) \<Rightarrow> string option \<Rightarrow> object_ref option act" where
  "optional_object write t = (case t of None \<Rightarrow> ret None | Some s \<Rightarrow> bindA (write s) (\<lambda>b. ret (Some b)))"

definition externalized_run :: "run_v4 \<Rightarrow> object_ref \<Rightarrow> object_ref \<Rightarrow> object_ref option \<Rightarrow> run_row" where
  "externalized_run r input snap out = audit.extend (audit.truncate r) (run_row.fields (r1_id r)
     (r1_scope_id r) (r1_session_id r) (r4_workspace_id r) (r1_run_seq r) (r1_idempotency_key r)
     (r1_request_fingerprint r) (ob_ref input) (ob_digest input) (length (r1_input r)) (r1_agent_ref r)
     (r1_execution_context r) (ob_ref snap) (ob_digest snap) (ob_bytes snap) (r1_status r)
     (r1_active_attempt_id r) (r1_state_version r) (r1_task_outcome r) (r1_wait_reason r)
     (map_option ob_ref out) (map_option ob_digest out) (map_option length (r1_output r)) (r1_error r)
     (r1_cancel_requested_at r) (r1_deadline_at r) (r1_due_at r) (r1_next_event_seq r))"

definition externalize_run :: "host \<Rightarrow> db_v4 \<Rightarrow> run_v4 \<Rightarrow> run_row act" where
  "externalize_run h d r = (let base = base_by_session h d (r1_session_id r); sid = r1_session_id r in
     bindA (write_message h base sid (r1_id r) ''user'' (r1_input r) (r1_run_seq r)) (\<lambda>input.
     bindA (write_snapshot h base sid (r1_id r) (or_object (r1_config_snapshot r))) (\<lambda>snap.
     bindA (optional_object (\<lambda>t. write_message h base sid (r1_id r) ''assistant'' t (r1_run_seq r)) (r1_output r)) (\<lambda>out.
     ret (externalized_run r input snap out)))))"

definition event_content :: "event_v4 \<Rightarrow> json \<Rightarrow> json" where
  "event_content e data = JObj
     [(''schema_version'', JStr ''1''), (''record_id'', JStr (e1_event_id e)),
      (''session_id'', JStr (e4_session_id e)), (''run_id'', JStr (e1_run_id e)),
      (''session_seq'', JInt (e4_session_seq e)), (''kind'', JStr ''event''),
      (''type'', JStr (event_type_value (e1_type e))), (''occurred_at'', JStr (e1_occurred_at e)),
      (''data'', data)]"

definition write_event_content :: "host \<Rightarrow> string \<Rightarrow> event_v4 \<Rightarrow> json \<Rightarrow> content_ref act" where
  "write_event_content h base e data = with_files (\<lambda>fs. append_record (h_max_file_bytes h) (h_sha256 h) fs base
     (''sessions/'' @ e4_session_id e) (event_content e data) ''content'')"

definition externalized_event :: "event_v4 \<Rightarrow> content_ref \<Rightarrow> event_row" where
  "externalized_event e c = audit.extend (audit.truncate e) (event_row.fields (e1_event_id e) (e1_scope_id e)
     (e1_run_id e) (e4_session_id e) (e1_seq e) (e4_session_seq e) (e1_schema_version e) (e1_type e)
     (cr_ref c) (cr_offset c) (cr_bytes c) (cr_digest c) (e1_occurred_at e))"

definition externalize_event :: "host \<Rightarrow> db_v4 \<Rightarrow> event_v4 \<Rightarrow> event_row act" where
  "externalize_event h d e = (case loads (or_object (e1_data e)) of
     None \<Rightarrow> raise (ValueErr ''JSONDecodeError'')
   | Some data \<Rightarrow> bindA (write_event_content h (base_by_session h d (e4_session_id e)) e data) (\<lambda>c.
       ret (externalized_event e c)))"

definition pending_path :: "ident \<Rightarrow> ident \<Rightarrow> string \<Rightarrow> string" where
  "pending_path sid pid part = ''sessions/'' @ sid @ ''/pending/'' @ pid @ ''-'' @ part @ ''.json''"

definition externalized_pending :: "pending_v4 \<Rightarrow> object_ref \<Rightarrow> object_ref option \<Rightarrow> pending_row" where
  "externalized_pending p payload response = audit.extend (audit.truncate p) (pending_row.fields (p4_id p)
     (p4_scope_id p) (p4_run_id p) (p4_kind p) (ob_ref payload) (ob_digest payload) (ob_bytes payload)
     (p4_response_key p) (p4_response_digest p) (map_option ob_ref response) (map_option ob_digest response)
     (map_option ob_bytes response) (p4_resolved_at p))"

text \<open>
  Without its Run an answer's columns stay NULL, which is the empty reference here: every reader takes
  the two alike. The foreign key of the table leaves no such row.
\<close>

definition no_object :: object_ref where
  "no_object = \<lparr>ob_ref = '''', ob_bytes = 0, ob_digest = ''''\<rparr>"

definition externalize_pending :: "host \<Rightarrow> db_v4 \<Rightarrow> pending_v4 \<Rightarrow> pending_row act" where
  "externalize_pending h d p = (case select_one (\<lambda>r. r1_id r = p4_run_id p) (dbs_runs d) of
     None \<Rightarrow> ret (externalized_pending p no_object None)
   | Some r \<Rightarrow> (let base = base_by_session h d (r1_session_id r); sid = r1_session_id r in
       bindA (write_object_act h base (pending_path sid (p4_id p) ''payload'') (utf8_encode (or_object (p4_payload p)))) (\<lambda>payload.
       bindA (optional_object (\<lambda>t. write_object_act h base (pending_path sid (p4_id p) ''response'') (utf8_encode t))
           (p4_response_payload p)) (\<lambda>response.
       ret (externalized_pending p payload response)))))"

definition tool_from_v4 :: "tool_v4 \<Rightarrow> tool_row" where
  "tool_from_v4 t = audit.extend (audit.truncate t) (tool_row.fields (t1_id t) (t1_scope_id t) (t1_run_id t)
     (t4_workspace_id t) (t1_logical_call_key t) (t1_tool_ref t) (t1_params_digest t) (t1_input_ref t)
     None None (t1_status t) (t1_execution_profile_ref t) (t1_external_operation_ref t) (t1_process_ref t)
     (t1_result_ref t) (t4_input_revision_id t) (t4_result_revision_id t) (t1_error t))"

definition migrate_v4_to_v5 :: "host \<Rightarrow> db_v4 \<Rightarrow> db act" where
  "migrate_v4_to_v5 h d =
     bindA (mapA (externalize_run h d) (dbs_runs d)) (\<lambda>rs.
     bindA (mapA (externalize_event h d) (db4_events d)) (\<lambda>es.
     bindA (mapA (externalize_pending h d) (dbs_pendings d)) (\<lambda>ps.
     ret \<lparr>workspaces = db4_workspaces d, workspace_revisions = dbs_revisions d, sessions = db4_sessions d,
       session_requests = dbs_requests d, runs = rs, run_attempts = dbs_attempts d,
       tool_executions = map tool_from_v4 (dbs_tools d), pending_responses = ps, run_events = es\<rparr>)))"

section \<open>Opening a database\<close>

text \<open>
  Each migration commits on its own, so that a failure leaves the database of the last one that did,
  beside the files that were written. A database with a version but none of the tables is \<open>Fresh\<close>.
\<close>

definition externalize_all :: "host \<Rightarrow> db_v4 \<Rightarrow> files \<Rightarrow> (exn + unit) \<times> database \<times> files" where
  "externalize_all h d fs = (case migrate_v4_to_v5 h d \<lparr>wdb = empty_db, wfiles = fs\<rparr> of
     (Inl e, w) \<Rightarrow> (Inl e, Schema4 d, wfiles w)
   | (Inr d5, w) \<Rightarrow> (Inr (), Schema5 d5, wfiles w))"

definition create_schema :: "host \<Rightarrow> database \<Rightarrow> files \<Rightarrow> (exn + unit) \<times> database \<times> files" where
  "create_schema h d fs = (case d of
     Fresh \<Rightarrow> (Inr (), Schema5 empty_db, fs)
   | Schema5 d5 \<Rightarrow> (Inr (), d, fs)
   | Newer v \<Rightarrow> (Inl (ValueErr ''RuntimeError''), d, fs)
   | _ \<Rightarrow> (case to_v4 d of
       Inl e \<Rightarrow> (Inl e, d, fs)
     | Inr d4 \<Rightarrow> externalize_all h d4 fs))"


section \<open>What a migration writes\<close>

definition object_key :: "string \<Rightarrow> string \<Rightarrow> file_key" where
  "object_key base path = (base, path_as_posix (mk_path path))"

definition run_message :: "run_v4 \<Rightarrow> string \<Rightarrow> string \<Rightarrow> string" where
  "run_message r role content =
     utf8_encode (canonical_json (message_json (r1_session_id r) (r1_id r) role content (r1_run_seq r)))"

definition snapshot_path :: "ident \<Rightarrow> ident \<Rightarrow> string" where
  "snapshot_path sid rid = ''sessions/'' @ sid @ ''/snapshots/'' @ rid @ ''.json''"

definition run_objects :: "host \<Rightarrow> db_v4 \<Rightarrow> run_v4 \<Rightarrow> (file_key \<times> string) list" where
  "run_objects h d r = (let base = base_by_session h d (r1_session_id r); sid = r1_session_id r in
     [(object_key base (message_path sid (r1_id r) ''user''), run_message r ''user'' (r1_input r)),
      (object_key base (snapshot_path sid (r1_id r)), utf8_encode (or_object (r1_config_snapshot r)))]
     @ (case r1_output r of None \<Rightarrow> []
        | Some t \<Rightarrow> [(object_key base (message_path sid (r1_id r) ''assistant''), run_message r ''assistant'' t)]))"

definition pending_objects :: "host \<Rightarrow> db_v4 \<Rightarrow> pending_v4 \<Rightarrow> (file_key \<times> string) list" where
  "pending_objects h d p = (case select_one (\<lambda>r. r1_id r = p4_run_id p) (dbs_runs d) of
     None \<Rightarrow> []
   | Some r \<Rightarrow> (let base = base_by_session h d (r1_session_id r); sid = r1_session_id r in
       (object_key base (pending_path sid (p4_id p) ''payload''), utf8_encode (or_object (p4_payload p)))
       # (case p4_response_payload p of None \<Rightarrow> []
          | Some t \<Rightarrow> [(object_key base (pending_path sid (p4_id p) ''response''), utf8_encode t)])))"

definition body_objects :: "host \<Rightarrow> db_v4 \<Rightarrow> (file_key \<times> string) list" where
  "body_objects h d = concat (map (run_objects h d) (dbs_runs d)) @ concat (map (pending_objects h d) (dbs_pendings d))"

text \<open>An object file of the migration is either missing or what the migration writes.\<close>

definition left_by :: "(file_key \<times> string) list \<Rightarrow> files \<Rightarrow> bool" where
  "left_by objs fs \<longleftrightarrow> (\<forall>k c. (k, c) \<in> set objs \<longrightarrow> map_of fs k = None \<or> map_of fs k = Some c)"

definition onward :: "(file_key \<times> string) list \<Rightarrow> files \<Rightarrow> files \<Rightarrow> bool" where
  "onward objs fs fs' \<longleftrightarrow> (left_by objs fs \<longrightarrow> left_by objs fs')
     \<and> (\<forall>k c. (k, c) \<in> set objs \<and> map_of fs k = Some c \<longrightarrow> map_of fs' k = Some c) \<and> extends fs fs'"

lemma onward_refl [simp]: "onward objs fs fs"
  by (auto simp: onward_def)

lemma onward_trans: "onward objs a b \<Longrightarrow> onward objs b c \<Longrightarrow> onward objs a c"
  unfolding onward_def by (fast intro: extends_trans)

definition steady :: "(file_key \<times> string) list \<Rightarrow> 'a act \<Rightarrow> bool" where
  "steady objs m \<longleftrightarrow> (\<forall>w. onward objs (wfiles w) (wfiles (snd (m w))))"

named_theorems steady_acts \<open>actions that keep the objects of a migration\<close>

lemma steady_ret [steady_acts]: "steady objs (ret x)"
  and steady_raise [steady_acts]: "steady objs (raise e)"
  by (simp_all add: steady_def ret_def raise_def)

lemma steady_bind [steady_acts]:
  assumes "steady objs m" "\<And>x. steady objs (f x)"
  shows "steady objs (bindA m f)"
  unfolding steady_def
proof
  fix w
  obtain r v where m: "m w = (r, v)" by fastforce
  have 1: "onward objs (wfiles w) (wfiles v)" using assms(1) m by (simp add: steady_def) (metis snd_conv)
  show "onward objs (wfiles w) (wfiles (snd (bindA m f w)))"
  proof (cases r)
    case (Inl e)
    then show ?thesis using m 1 by (simp add: bindA_def)
  next
    case (Inr x)
    have "onward objs (wfiles v) (wfiles (snd (f x v)))" using assms(2) by (simp add: steady_def)
    then show ?thesis using m 1 Inr by (simp add: bindA_def) (rule onward_trans)
  qed
qed

lemma steady_mapA: "(\<And>x. x \<in> set xs \<Longrightarrow> steady objs (f x)) \<Longrightarrow> steady objs (mapA f xs)"
  by (induction xs) (auto intro!: steady_acts)

lemma steady_optional [steady_acts]:
  "(\<And>s. t = Some s \<Longrightarrow> steady objs (write s)) \<Longrightarrow> steady objs (optional_object write t)"
  by (auto simp: optional_object_def intro!: steady_acts split: option.split)

definition functional :: "(file_key \<times> string) list \<Rightarrow> bool" where
  "functional objs \<longleftrightarrow> (\<forall>k c c'. (k, c) \<in> set objs \<and> (k, c') \<in> set objs \<longrightarrow> c = c')"

lemma steady_write:
  assumes "functional objs" "(object_key base path, payload) \<in> set objs"
  shows "steady objs (write_object_act h base path payload)"
proof -
  have "onward objs fs (snd (write_object (h_sha256 h) fs base path payload))" for fs
  proof (cases "map_of fs (object_key base path)")
    case None
    have snd: "snd (write_object (h_sha256 h) fs base path payload) = AList.update (object_key base path) payload fs"
      using None by (simp add: write_object_def object_key_def Let_def)
    have same: "c = payload" if "(object_key base path, c) \<in> set objs" for c
      using that assms unfolding functional_def by blast
    have "map_of fs k = Some c \<longrightarrow> map_of (AList.update (object_key base path) payload fs) k = Some c" for k c
      using None by (auto simp: map_of_update)
    moreover have "left_by objs fs \<longrightarrow> left_by objs (AList.update (object_key base path) payload fs)"
      unfolding left_by_def map_of_update using same by (metis fun_upd_apply)
    ultimately show ?thesis
      using extends_write [of fs "h_sha256 h" base path payload] unfolding onward_def snd by auto
  next
    case (Some c)
    then have "snd (write_object (h_sha256 h) fs base path payload) = fs"
      by (simp add: write_object_def object_key_def Let_def)
    then show ?thesis by simp
  qed
  moreover have "wfiles (snd (write_object_act h base path payload w))
      = snd (write_object (h_sha256 h) (wfiles w) base path payload)" for w
    by (simp add: write_object_act_def with_files_def split_def Let_def)
  ultimately show ?thesis by (simp add: steady_def)
qed

lemma mapA_results:
  assumes "\<And>x. x \<in> set xs \<Longrightarrow> steady objs (f x)" "mapA f xs w = (Inr ys, w')" "left_by objs (wfiles w)"
  shows "list_all2 (\<lambda>x y. \<exists>v v'. f x v = (Inr y, v') \<and> left_by objs (wfiles v) \<and> onward objs (wfiles v') (wfiles w')) xs ys"
  using assms
proof (induction xs arbitrary: w ys)
  case Nil then show ?case by (simp add: ret_def)
next
  case (Cons x xs)
  obtain y v zs where y: "f x w = (Inr y, v)" "mapA f xs v = (Inr zs, w')" "ys = y # zs"
    using Cons.prems(2) by (auto simp: bindA_def ret_def split: prod.splits sum.splits)
  have "onward objs (wfiles w) (wfiles v)" using Cons.prems(1) [of x] y(1) by (simp add: steady_def) (metis snd_conv)
  then have v: "left_by objs (wfiles v)" using Cons.prems(3) by (simp add: onward_def)
  have "steady objs (mapA f xs)" using Cons.prems(1) by (intro steady_mapA) simp
  then have "onward objs (wfiles v) (wfiles w')" using y(2) by (simp add: steady_def) (metis snd_conv)
  then show ?case using Cons.IH [OF _ y(2) v] Cons.prems(1,3) y(1,3) by auto
qed


section \<open>Where the files lie\<close>

lemma body_dirs [simp]: "valid_name ''sessions''" "valid_name ''messages''" "valid_name ''snapshots''" "valid_name ''pending''"
  by (simp_all add: valid_name_def)

lemma valid_file_name: "valid_name n \<Longrightarrow> CHR ''/'' \<notin> set t \<Longrightarrow> 2 \<le> length t \<Longrightarrow> valid_name (n @ t)"
  by (cases n) (auto simp: valid_name_def append_eq_Cons_conv Cons_eq_append_conv)

lemma message_path_text: "message_path sid rid role = rel_text [''sessions'', sid, ''messages'', rid @ ''-'' @ role @ ''.json'']"
  and snapshot_path_text: "snapshot_path sid rid = rel_text [''sessions'', sid, ''snapshots'', rid @ ''.json'']"
  and pending_path_text: "pending_path sid pid part = rel_text [''sessions'', sid, ''pending'', pid @ ''-'' @ part @ ''.json'']"
  by (simp_all add: message_path_def snapshot_path_def pending_path_def rel_text_def path_as_posix_def)

lemma object_key_text: "list_all valid_name k \<Longrightarrow> object_key base (rel_text k) = (base, rel_text k)"
  by (simp add: object_key_def mk_path_rel_text) (simp add: rel_text_def)

lemma next_file_valid: "valid_name (next_file mx fs base dir ''content'' n)"
proof -
  let ?names = "sort (filter (glob_jsonl ''content'') (List.map_filter (name_in_dir base dir \<circ> fst) fs))"
  have num: "CHR ''/'' \<notin> set (pad6 k)" for k
    using py_str_nat_digits [of k] by (auto simp: pad6_def Let_def is_digit_def)
  have "valid_name (last ?names)" if "?names \<noteq> []"
  proof -
    have "last ?names \<in> set ?names" using that by (rule last_in_set)
    then obtain key where k: "name_in_dir base dir key = Some (last ?names)" "glob_jsonl ''content'' (last ?names)"
      by (auto simp: map_filter_def)
    then have "pp_parts (mk_path (snd key)) \<noteq> []" "last ?names = last (pp_parts (mk_path (snd key)))"
      by (auto simp: name_in_dir_def Let_def split: if_splits)
    then have "last ?names \<in> set (pp_parts (mk_path (snd key)))" by simp
    moreover have "wf_ppath (mk_path (snd key))" by simp
    ultimately have "last ?names \<noteq> []" "CHR ''/'' \<notin> set (last ?names)" by (auto simp: wf_ppath_def)
    moreover have "9 \<le> length (last ?names)" using k(2) by (simp add: glob_jsonl_def)
    ultimately show ?thesis by (auto simp: valid_name_def)
  qed
  then show ?thesis
    by (auto simp: next_file_def Let_def valid_name_def num)
qed

lemma session_dir:
  "valid_name sid \<Longrightarrow> mk_path (''sessions/'' @ sid) = \<lparr>pp_root = [], pp_parts = [''sessions'', sid]\<rparr>"
  using mk_path_rel_text [of "[''sessions'', sid]"] by (simp add: rel_text_def path_as_posix_def)

lemma append_ref_text:
  assumes "mk_path dir = \<lparr>pp_root = [], pp_parts = k\<rparr>" "append_record mx sha fs base dir record ''content'' = (ref, fs')"
  obtains name where "valid_name name" "cr_ref ref = rel_text (k @ [name])"
proof -
  let ?name = "next_file mx fs base (mk_path dir) ''content'' (length (utf8_encode (canonical_json record @ [CHR 0x0A])))"
  have v: "valid_name ?name" by (rule next_file_valid)
  have "cr_ref ref = path_as_posix (path_join (mk_path dir) (mk_path ?name))"
    using assms(2) by (auto simp: append_record_def Let_def)
  also have "\<dots> = rel_text (k @ [?name])"
    by (subst (1) mk_path_name [OF v]) (simp add: assms(1) path_join_def path_is_absolute_def rel_text_def)
  finally show ?thesis using that v by blast
qed


section \<open>The objects do not clash\<close>

definition plain_bodies :: "db_v4 \<Rightarrow> bool" where
  "plain_bodies d \<longleftrightarrow> distinct (map r1_id (dbs_runs d)) \<and> distinct (map p4_id (dbs_pendings d))
     \<and> list_all (\<lambda>r. valid_name (r1_id r) \<and> valid_name (r1_session_id r)) (dbs_runs d)
     \<and> list_all (\<lambda>p. valid_name (p4_id p)) (dbs_pendings d)
     \<and> list_all (\<lambda>e. valid_name (e4_session_id e)) (db4_events d)"

lemma endings [simp]: "a @ ''-user.json'' \<noteq> b @ ''-assistant.json''" "a @ ''-assistant.json'' \<noteq> b @ ''-user.json''"
  "a @ ''-payload.json'' \<noteq> b @ ''-response.json''" "a @ ''-response.json'' \<noteq> b @ ''-payload.json''"
  by (auto dest!: arg_cong [where f = "\<lambda>s. take 6 (rev s)"])

inductive body_file :: "db_v4 \<Rightarrow> string \<Rightarrow> string \<Rightarrow> string \<Rightarrow> bool" for d where
  "r \<in> set (dbs_runs d) \<Longrightarrow> body_file d ''messages'' (r1_id r @ ''-user.json'') (run_message r ''user'' (r1_input r))"
| "r \<in> set (dbs_runs d) \<Longrightarrow> r1_output r = Some t
    \<Longrightarrow> body_file d ''messages'' (r1_id r @ ''-assistant.json'') (run_message r ''assistant'' t)"
| "r \<in> set (dbs_runs d) \<Longrightarrow> body_file d ''snapshots'' (r1_id r @ ''.json'') (utf8_encode (or_object (r1_config_snapshot r)))"
| "p \<in> set (dbs_pendings d) \<Longrightarrow> body_file d ''pending'' (p4_id p @ ''-payload.json'') (utf8_encode (or_object (p4_payload p)))"
| "p \<in> set (dbs_pendings d) \<Longrightarrow> p4_response_payload p = Some t
    \<Longrightarrow> body_file d ''pending'' (p4_id p @ ''-response.json'') (utf8_encode t)"

inductive_cases body_file_messages: "body_file d ''messages'' f c"
inductive_cases body_file_snapshots: "body_file d ''snapshots'' f c"
inductive_cases body_file_pending: "body_file d ''pending'' f c"

lemma body_file_kind: "body_file d kind f c \<Longrightarrow> kind \<in> {''messages'', ''snapshots'', ''pending''}"
  by (induction rule: body_file.induct) simp_all

lemma body_file_functional:
  assumes "plain_bodies d" "body_file d kind f c" "body_file d kind f c'" shows "c = c'"
proof -
  have r: "r = q" if "r \<in> set (dbs_runs d)" "q \<in> set (dbs_runs d)" "r1_id r = r1_id q" for r q
    using that assms(1) by (intro distinct_map_inj [of r1_id]) (simp_all add: plain_bodies_def)
  have p: "x = y" if "x \<in> set (dbs_pendings d)" "y \<in> set (dbs_pendings d)" "p4_id x = p4_id y" for x y
    using that assms(1) by (intro distinct_map_inj [of p4_id]) (simp_all add: plain_bodies_def)
  consider "kind = ''messages''" | "kind = ''snapshots''" | "kind = ''pending''"
    using body_file_kind [OF assms(2)] by blast
  then show ?thesis
  proof cases
    case 1
    show ?thesis using assms(2,3) unfolding 1
      by (elim body_file_messages; simp; metis r option.inject)
  next
    case 2
    show ?thesis using assms(2,3) unfolding 2
      by (elim body_file_snapshots; simp; metis r option.inject)
  next
    case 3
    show ?thesis using assms(2,3) unfolding 3
      by (elim body_file_pending; simp; metis p option.inject)
  qed
qed

lemma run_object_file:
  assumes "plain_bodies d" "r \<in> set (dbs_runs d)" "(k, c) \<in> set (run_objects h d r)"
  shows "\<exists>kind f. k = (base_by_session h d (r1_session_id r), rel_text [''sessions'', r1_session_id r, kind, f])
    \<and> valid_name (r1_session_id r) \<and> valid_name kind \<and> valid_name f \<and> body_file d kind f c"
proof -
  have v: "valid_name (r1_id r)" "valid_name (r1_session_id r)"
    using assms(1,2) by (auto simp: plain_bodies_def list_all_iff)
  have f: "valid_name (r1_id r @ ''-user.json'')" "valid_name (r1_id r @ ''-assistant.json'')"
    "valid_name (r1_id r @ ''.json'')"
    using v(1) by (simp_all add: valid_file_name)
  from assms(3) consider
      "k = object_key (base_by_session h d (r1_session_id r)) (message_path (r1_session_id r) (r1_id r) ''user'')"
        "c = run_message r ''user'' (r1_input r)"
    | "k = object_key (base_by_session h d (r1_session_id r)) (snapshot_path (r1_session_id r) (r1_id r))"
        "c = utf8_encode (or_object (r1_config_snapshot r))"
    | t where "k = object_key (base_by_session h d (r1_session_id r)) (message_path (r1_session_id r) (r1_id r) ''assistant'')"
        "r1_output r = Some t" "c = run_message r ''assistant'' t"
    by (cases "r1_output r") (auto simp: run_objects_def Let_def)
  then show ?thesis
  proof cases
    case 1
    then show ?thesis using v(2) f(1) body_file.intros(1) [OF assms(2)]
      by (intro exI [of _ "''messages''"] exI [of _ "r1_id r @ ''-user.json''"])
        (simp add: message_path_text object_key_text)
  next
    case 2
    then show ?thesis using v(2) f(3) body_file.intros(3) [OF assms(2)]
      by (intro exI [of _ "''snapshots''"] exI [of _ "r1_id r @ ''.json''"])
        (simp add: snapshot_path_text object_key_text)
  next
    case 3
    then show ?thesis using v(2) f(2) body_file.intros(2) [OF assms(2) 3(2)]
      by (intro exI [of _ "''messages''"] exI [of _ "r1_id r @ ''-assistant.json''"])
        (simp add: message_path_text object_key_text)
  qed
qed


lemma pending_object_file:
  assumes "plain_bodies d" "p \<in> set (dbs_pendings d)" "(k, c) \<in> set (pending_objects h d p)"
  shows "\<exists>base sid f. k = (base, rel_text [''sessions'', sid, ''pending'', f])
    \<and> valid_name sid \<and> valid_name f \<and> body_file d ''pending'' f c"
proof -
  obtain r where r: "select_one (\<lambda>r. r1_id r = p4_run_id p) (dbs_runs d) = Some r"
    using assms(3) by (cases "select_one (\<lambda>r. r1_id r = p4_run_id p) (dbs_runs d)") (auto simp: pending_objects_def)
  have v: "valid_name (p4_id p)" "valid_name (r1_session_id r)"
    using assms(1,2) select_one_in [OF r] by (auto simp: plain_bodies_def list_all_iff)
  have f: "valid_name (p4_id p @ ''-payload.json'')" "valid_name (p4_id p @ ''-response.json'')"
    using v(1) by (simp_all add: valid_file_name)
  from assms(3) consider
      "k = object_key (base_by_session h d (r1_session_id r)) (pending_path (r1_session_id r) (p4_id p) ''payload'')"
        "c = utf8_encode (or_object (p4_payload p))"
    | t where "k = object_key (base_by_session h d (r1_session_id r)) (pending_path (r1_session_id r) (p4_id p) ''response'')"
        "p4_response_payload p = Some t" "c = utf8_encode t"
    by (cases "p4_response_payload p") (auto simp: pending_objects_def r Let_def)
  then show ?thesis
  proof cases
    case 1
    then show ?thesis using v(2) f(1) body_file.intros(4) [OF assms(2)]
      by (intro exI [of _ "base_by_session h d (r1_session_id r)"] exI [of _ "r1_session_id r"]
          exI [of _ "p4_id p @ ''-payload.json''"]) (simp add: pending_path_text object_key_text)
  next
    case 2
    then show ?thesis using v(2) f(2) body_file.intros(5) [OF assms(2) 2(2)]
      by (intro exI [of _ "base_by_session h d (r1_session_id r)"] exI [of _ "r1_session_id r"]
          exI [of _ "p4_id p @ ''-response.json''"]) (simp add: pending_path_text object_key_text)
  qed
qed

lemma body_object_file:
  assumes "plain_bodies d" "(k, c) \<in> set (body_objects h d)"
  obtains base sid kind f where "k = (base, rel_text [''sessions'', sid, kind, f])" "valid_name sid"
    "valid_name kind" "valid_name f" "body_file d kind f c"
proof -
  from assms(2) consider r where "r \<in> set (dbs_runs d)" "(k, c) \<in> set (run_objects h d r)"
    | p where "p \<in> set (dbs_pendings d)" "(k, c) \<in> set (pending_objects h d p)"
    by (auto simp: body_objects_def)
  then show ?thesis
  proof cases
    case 1
    from run_object_file [OF assms(1) this] show ?thesis using that by blast
  next
    case 2
    from pending_object_file [OF assms(1) this] show ?thesis using that body_dirs(4) by blast
  qed
qed

lemma body_objects_functional:
  assumes "plain_bodies d" shows "functional (body_objects h d)"
  unfolding functional_def
proof (intro allI impI, elim conjE)
  fix k c c'
  assume a: "(k, c) \<in> set (body_objects h d)" "(k, c') \<in> set (body_objects h d)"
  obtain base sid kind f where x: "k = (base, rel_text [''sessions'', sid, kind, f])" "valid_name sid"
    "valid_name kind" "valid_name f" "body_file d kind f c" by (rule body_object_file [OF assms a(1)])
  obtain base' sid' kind' f' where y: "k = (base', rel_text [''sessions'', sid', kind', f'])" "valid_name sid'"
    "valid_name kind'" "valid_name f'" "body_file d kind' f' c'" by (rule body_object_file [OF assms a(2)])
  have "[''sessions'', sid, kind, f] = [''sessions'', sid', kind', f']"
    using x y by (intro rel_text_inj) simp_all
  then show "c = c'" using body_file_functional [OF assms x(5)] y(5) by simp
qed

section \<open>Every step keeps the objects\<close>

lemma steady_append:
  assumes "plain_bodies d" "valid_name (e4_session_id e)"
  shows "steady (body_objects h d) (write_event_content h base e data)"
proof -
  let ?dir = "''sessions/'' @ e4_session_id e"
  let ?app = "\<lambda>fs. append_record (h_max_file_bytes h) (h_sha256 h) fs base ?dir (event_content e data) ''content''"
  have "onward (body_objects h d) fs (snd (?app fs))" for fs
  proof -
    obtain ref fs' where ap: "?app fs = (ref, fs')" by fastforce
    obtain name where n: "valid_name name" "cr_ref ref = rel_text ([''sessions'', e4_session_id e] @ [name])"
      by (rule append_ref_text [OF session_dir [OF assms(2)] ap])
    obtain v where fs': "fs' = AList.update (base, cr_ref ref) v fs"
      using ap by (auto simp: append_record_def Let_def)
    have "(base, cr_ref ref) \<noteq> k" if o: "(k, c) \<in> set (body_objects h d)" for k c
    proof
      assume k: "(base, cr_ref ref) = k"
      obtain b sid kind f where x: "k = (b, rel_text [''sessions'', sid, kind, f])" "valid_name sid"
        "valid_name kind" "valid_name f" "body_file d kind f c" by (rule body_object_file [OF assms(1) o])
      have "[''sessions'', sid, kind, f] = [''sessions'', e4_session_id e, name]"
        using k x n assms(2) by (intro rel_text_inj) simp_all
      then show False by simp
    qed
    then have "map_of fs' k = map_of fs k" if "(k, c) \<in> set (body_objects h d)" for k c
      using that unfolding fs' map_of_update by (metis fun_upd_other)
    then show ?thesis using extends_append [of fs "h_max_file_bytes h" "h_sha256 h" base ?dir] ap
      unfolding onward_def left_by_def by (metis snd_conv)
  qed
  moreover have "wfiles (snd (write_event_content h base e data w)) = snd (?app (wfiles w))" for w
    by (simp add: write_event_content_def with_files_def split_def Let_def)
  ultimately show ?thesis by (simp add: steady_def)
qed

lemma steady_run:
  assumes "plain_bodies d" "r \<in> set (dbs_runs d)"
  shows "steady (body_objects h d) (externalize_run h d r)"
proof -
  have i: "set (run_objects h d r) \<subseteq> set (body_objects h d)" using assms(2) by (auto simp: body_objects_def)
  note w = steady_write [OF body_objects_functional [OF assms(1)], of _ _ _ h]
  show ?thesis unfolding externalize_run_def Let_def write_message_def write_snapshot_def
    by (intro steady_acts w; rule subsetD [OF i]; simp add: run_objects_def Let_def run_message_def snapshot_path_def)
qed

lemma steady_event:
  assumes "plain_bodies d" "e \<in> set (db4_events d)"
  shows "steady (body_objects h d) (externalize_event h d e)"
proof -
  have "valid_name (e4_session_id e)" using assms by (auto simp: plain_bodies_def list_all_iff)
  then show ?thesis unfolding externalize_event_def
    by (auto intro!: steady_acts steady_append [OF assms(1)] split: option.split)
qed

lemma steady_pending:
  assumes "plain_bodies d" "p \<in> set (dbs_pendings d)"
  shows "steady (body_objects h d) (externalize_pending h d p)"
proof (cases "select_one (\<lambda>r. r1_id r = p4_run_id p) (dbs_runs d)")
  case None
  then show ?thesis by (simp add: externalize_pending_def steady_ret)
next
  case (Some r)
  have i: "set (pending_objects h d p) \<subseteq> set (body_objects h d)" using assms(2) by (auto simp: body_objects_def)
  note w = steady_write [OF body_objects_functional [OF assms(1)], of _ _ _ h]
  show ?thesis unfolding externalize_pending_def Some option.case Let_def
    by (intro steady_acts w; rule subsetD [OF i]; simp add: pending_objects_def Some Let_def)
qed

lemma steady_migration: "plain_bodies d \<Longrightarrow> steady (body_objects h d) (migrate_v4_to_v5 h d)"
  unfolding migrate_v4_to_v5_def
  by (intro steady_acts steady_mapA) (simp_all add: steady_run steady_event steady_pending)


section \<open>Reading the bodies back\<close>

lemma write_present:
  assumes "write_object_act h base path payload w = (Inr b, w')" "left_by objs (wfiles w)"
    "(object_key base path, payload) \<in> set objs"
  shows "ob_ref b = path \<and> map_of (wfiles w') (object_key base path) = Some payload"
proof -
  have w: "map_of (wfiles w) (object_key base path) = None \<or> map_of (wfiles w) (object_key base path) = Some payload"
    using assms(2,3) unfolding left_by_def by blast
  have "b = fst (write_object (h_sha256 h) (wfiles w) base path payload)"
    "wfiles w' = snd (write_object (h_sha256 h) (wfiles w) base path payload)"
    using assms(1) by (auto simp: write_object_act_def with_files_def split_def Let_def)
  then show ?thesis using w by (auto simp: write_object_def object_key_def Let_def map_of_update)
qed

lemma steadyD: "steady objs m \<Longrightarrow> m w = (r, w') \<Longrightarrow> onward objs (wfiles w) (wfiles w')"
  unfolding steady_def by (metis snd_conv)

lemma onwardD: "onward objs fs fs' \<Longrightarrow> (k, c) \<in> set objs \<Longrightarrow> map_of fs k = Some c \<Longrightarrow> map_of fs' k = Some c"
  unfolding onward_def by blast

lemma bindA_InrE:
  assumes "bindA m f w = (Inr y, w')" obtains x v where "m w = (Inr x, v)" "f x v = (Inr y, w')"
  using assms by (auto simp: bindA_def split: prod.splits sum.splits)


lemma run_moved:
  assumes d: "plain_bodies d" "r \<in> set (dbs_runs d)" and x: "externalize_run h d r w = (Inr r5, w')"
    and l: "left_by (body_objects h d) (wfiles w)"
  shows "(\<exists>input snap out. r5 = externalized_run r input snap out
      \<and> ob_ref input = message_path (r1_session_id r) (r1_id r) ''user''
      \<and> ob_ref snap = snapshot_path (r1_session_id r) (r1_id r)
      \<and> map_option ob_ref out = map_option (\<lambda>_. message_path (r1_session_id r) (r1_id r) ''assistant'') (r1_output r))
    \<and> (\<forall>k c. (k, c) \<in> set (run_objects h d r) \<longrightarrow> map_of (wfiles w') k = Some c)"
proof -
  let ?objs = "body_objects h d" and ?base = "base_by_session h d (r1_session_id r)"
  let ?input = "write_object_act h ?base (message_path (r1_session_id r) (r1_id r) ''user'') (run_message r ''user'' (r1_input r))"
  let ?snap = "write_object_act h ?base (snapshot_path (r1_session_id r) (r1_id r)) (utf8_encode (or_object (r1_config_snapshot r)))"
  let ?answer = "\<lambda>t. write_object_act h ?base (message_path (r1_session_id r) (r1_id r) ''assistant'') (run_message r ''assistant'' t)"
  have i: "set (run_objects h d r) \<subseteq> set ?objs" using d(2) by (auto simp: body_objects_def)
  note st = steady_write [OF body_objects_functional [OF d(1)], of _ _ _ h]
  have o: "(object_key ?base (message_path (r1_session_id r) (r1_id r) ''user''), run_message r ''user'' (r1_input r)) \<in> set ?objs"
    "(object_key ?base (snapshot_path (r1_session_id r) (r1_id r)), utf8_encode (or_object (r1_config_snapshot r))) \<in> set ?objs"
    by (rule subsetD [OF i], simp add: run_objects_def Let_def)+
  have oa: "(object_key ?base (message_path (r1_session_id r) (r1_id r) ''assistant''), run_message r ''assistant'' t) \<in> set ?objs"
    if "r1_output r = Some t" for t using that by (intro subsetD [OF i]) (simp add: run_objects_def Let_def)
  have def: "externalize_run h d r = bindA ?input (\<lambda>a. bindA ?snap (\<lambda>b. bindA (optional_object ?answer (r1_output r))
      (\<lambda>c. ret (externalized_run r a b c))))"
    by (simp add: externalize_run_def Let_def write_message_def write_snapshot_def run_message_def snapshot_path_def)
  obtain a v1 where a: "?input w = (Inr a, v1)" and x1: "bindA ?snap (\<lambda>b. bindA (optional_object ?answer (r1_output r))
      (\<lambda>c. ret (externalized_run r a b c))) v1 = (Inr r5, w')" using x unfolding def by (rule bindA_InrE)
  obtain b v2 where b: "?snap v1 = (Inr b, v2)" and x2: "bindA (optional_object ?answer (r1_output r))
      (\<lambda>c. ret (externalized_run r a b c)) v2 = (Inr r5, w')" using x1 by (rule bindA_InrE)
  obtain c where c: "optional_object ?answer (r1_output r) v2 = (Inr c, w')" "r5 = externalized_run r a b c"
    using x2 by (rule bindA_InrE) (simp add: ret_def)
  have s: "onward ?objs (wfiles w) (wfiles v1)" "onward ?objs (wfiles v1) (wfiles v2)" "onward ?objs (wfiles v2) (wfiles w')"
    using steadyD [OF st [OF o(1)] a] steadyD [OF st [OF o(2)] b]
      steadyD [OF steady_optional c(1), of ?objs] st [OF oa] by blast+
  have l1: "left_by ?objs (wfiles v1)" "left_by ?objs (wfiles v2)" using s l by (simp_all add: onward_def)
  note wa = write_present [OF a l o(1)] and wb = write_present [OF b l1(1) o(2)]
  have in1: "map_of (wfiles w') (object_key ?base (message_path (r1_session_id r) (r1_id r) ''user'')) = Some (run_message r ''user'' (r1_input r))"
    by (rule onwardD [OF s(3) o(1) onwardD [OF s(2) o(1) conjunct2 [OF wa]]])
  have in2: "map_of (wfiles w') (object_key ?base (snapshot_path (r1_session_id r) (r1_id r))) = Some (utf8_encode (or_object (r1_config_snapshot r)))"
    by (rule onwardD [OF s(3) o(2) conjunct2 [OF wb]])
  show ?thesis
  proof (cases "r1_output r")
    case None
    then have "c = None" using c(1) by (simp add: optional_object_def ret_def)
    then show ?thesis using c(2) wa wb None in1 in2
      by (intro conjI exI [of _ a] exI [of _ b] exI [of _ None]) (simp_all add: run_objects_def Let_def)
  next
    case (Some t)
    have "bindA (?answer t) (\<lambda>b. ret (Some b)) v2 = (Inr c, w')" using c(1) Some by (simp add: optional_object_def)
    then obtain e where e: "?answer t v2 = (Inr e, w')" "c = Some e" by (rule bindA_InrE) (simp add: ret_def)
    note wc = write_present [OF e(1) l1(2) oa [OF Some]]
    show ?thesis using c(2) wa wb wc e(2) Some in1 in2
      by (intro conjI exI [of _ a] exI [of _ b] exI [of _ "Some e"]) (simp_all add: run_objects_def Let_def)
  qed
qed


lemma event_moved:
  assumes "externalize_event h d e w = (Inr e5, w')" "extends (wfiles w') fs"
  shows "\<exists>data c. loads (or_object (e1_data e)) = Some data \<and> e5 = externalized_event e c
    \<and> read_verified (h_sha256 h) fs (base_by_session h d (e4_session_id e)) (cr_ref c) (cr_offset c) (cr_bytes c)
        (Some (cr_digest c)) = Inr (norm_json True (event_content e data))"
proof -
  obtain data where data: "loads (or_object (e1_data e)) = Some data"
    using assms(1) by (cases "loads (or_object (e1_data e))") (simp_all add: externalize_event_def raise_def)
  let ?base = "base_by_session h d (e4_session_id e)"
  let ?app = "append_record (h_max_file_bytes h) (h_sha256 h) (wfiles w) ?base (''sessions/'' @ e4_session_id e)
    (event_content e data) ''content''"
  obtain c fs1 where ap: "?app = (c, fs1)" by fastforce
  have e5: "e5 = externalized_event e c" "wfiles w' = fs1"
    using assms(1) ap by (auto simp: externalize_event_def data write_event_content_def bindA_def with_files_def ret_def)
  have "wf_json (event_content e data)" using loads_wf [OF data] by (simp add: event_content_def)
  from read_after_append [OF this ap] have "read_verified (h_sha256 h) fs ?base (cr_ref c) (cr_offset c) (cr_bytes c)
        (Some (cr_digest c)) = Inr (norm_json True (event_content e data))"
    using assms(2) e5(2) by simp
  then show ?thesis using data e5(1) by blast
qed

text \<open>The directory a migrated body lies in is the one its readers look in.\<close>

definition session_links :: "db_v4 \<Rightarrow> bool" where
  "session_links d \<longleftrightarrow> distinct (map s_id (db4_sessions d)) \<and> distinct (map w_id (db4_workspaces d))
     \<and> list_all (\<lambda>s. list_ex (\<lambda>w. w_scope_id w = s_scope_id s \<and> w_id w = s_workspace_id s) (db4_workspaces d))
         (db4_sessions d)"

lemma map_of_rows: "distinct (map k xs) \<Longrightarrow> x \<in> set xs \<Longrightarrow> map_of (rev (map (\<lambda>x. (k x, v x)) xs)) (k x) = Some (v x)"
  by (subst map_of_eq_Some_iff) (auto simp: rev_map [symmetric] comp_def)

lemma base_same:
  assumes "session_links d" "sessions d5 = db4_sessions d" "workspaces d5 = db4_workspaces d"
  shows "base_for_session h sid d5 = base_by_session h d sid"
proof (cases "\<exists>s\<in>set (db4_sessions d). s_id s = sid")
  case True
  then obtain s where s: "s \<in> set (db4_sessions d)" "s_id s = sid" by blast
  obtain w where w: "w \<in> set (db4_workspaces d)" "w_scope_id w = s_scope_id s" "w_id w = s_workspace_id s"
    using assms(1) s(1) by (auto simp: session_links_def list_all_iff list_ex_iff)
  have u: "distinct (map s_id (db4_sessions d))" "distinct (map w_id (db4_workspaces d))"
    using assms(1) by (simp_all add: session_links_def)
  have "select_one (\<lambda>(s, w). s_id s = sid) (join_sw d5) = Some (s, w)"
  proof (rule select_one_unique)
    show "(s, w) \<in> set (join_sw d5)" using s w assms by (auto simp: join_sw_def)
    fix y assume "y \<in> set (join_sw d5)" "case y of (s, w) \<Rightarrow> s_id s = sid"
    then obtain s' w' where y: "y = (s', w')" "s' \<in> set (db4_sessions d)" "w' \<in> set (db4_workspaces d)"
      "w_id w' = s_workspace_id s'" "s_id s' = sid" using assms(2,3) by (auto simp: join_sw_def)
    have "s' = s" using y s by (intro distinct_map_inj [OF u(1)]) simp_all
    moreover have "w' = w" using y w calculation by (intro distinct_map_inj [OF u(2)]) simp_all
    ultimately show "y = (s, w)" using y(1) by simp
  qed (use s in simp)
  moreover have "base_by_session h d sid = user_base h (w_user_path w)"
    using map_of_rows [OF u(1) s(1), of s_workspace_id] map_of_rows [OF u(2) w(1), of w_user_path] s(2) w(3)
    by (simp add: base_by_session_def)
  ultimately show ?thesis by (simp add: base_for_session_def)
next
  case False
  then have "select_one (\<lambda>(s, w). s_id s = sid) (join_sw d5) = None"
    using assms(2) by (auto simp: select_one_None join_sw_def)
  moreover have "map_of (rev (map (\<lambda>s. (s_id s, s_workspace_id s)) (db4_sessions d))) sid = None"
    using False by (auto simp: map_of_eq_None_iff)
  ultimately show ?thesis by (simp add: base_for_session_def base_by_session_def)
qed

text \<open>What a reader of schema v5 finds for a Run, an event, and an answer of schema v4.\<close>

definition run_reads_back :: "host \<Rightarrow> db \<Rightarrow> files \<Rightarrow> run_v4 \<Rightarrow> run_row \<Rightarrow> bool" where
  "run_reads_back h d5 fs r4 r5 \<longleftrightarrow> r_id r5 = r1_id r4 \<and> r_session_id r5 = r1_session_id r4
     \<and> r_status r5 = r1_status r4
     \<and> (let base = base_for_session h (r_session_id r5) d5 in
        read_message fs base (Some (r_input_ref r5)) = Inr (Some (JStr (r1_input r4)))
      \<and> read_message fs base (r_output_ref r5) = Inr (map_option JStr (r1_output r4))
      \<and> read_object fs base (r_config_snapshot_ref r5) = Inr (utf8_encode (or_object (r1_config_snapshot r4))))"

definition event_reads_back :: "host \<Rightarrow> db \<Rightarrow> files \<Rightarrow> event_v4 \<Rightarrow> event_row \<Rightarrow> bool" where
  "event_reads_back h d5 fs e4 e5 \<longleftrightarrow> e_event_id e5 = e1_event_id e4 \<and> e_session_seq e5 = e4_session_seq e4
     \<and> (\<exists>data. loads (or_object (e1_data e4)) = Some data
          \<and> read_verified (h_sha256 h) fs (base_for_session h (e_session_id e5) d5) (e_data_ref e5)
              (e_data_offset e5) (e_data_bytes e5) (Some (e_data_digest e5))
            = Inr (norm_json True (event_content e4 data)))"


lemma read_path: "message_path sid rid role \<noteq> []"
  by (simp add: message_path_def)

lemma run_reads_backI:
  assumes d: "plain_bodies d" "session_links d" "r \<in> set (dbs_runs d)"
    and tabs: "sessions d5 = db4_sessions d" "workspaces d5 = db4_workspaces d"
    and x: "externalize_run h d r w = (Inr r5, w')" "left_by (body_objects h d) (wfiles w)"
      "onward (body_objects h d) (wfiles w') fs"
  shows "run_reads_back h d5 fs r r5"
proof -
  obtain input snap out where r5: "r5 = externalized_run r input snap out"
    and ref: "ob_ref input = message_path (r1_session_id r) (r1_id r) ''user''"
      "ob_ref snap = snapshot_path (r1_session_id r) (r1_id r)"
      "map_option ob_ref out = map_option (\<lambda>_. message_path (r1_session_id r) (r1_id r) ''assistant'') (r1_output r)"
    and obj: "\<forall>k c. (k, c) \<in> set (run_objects h d r) \<longrightarrow> map_of (wfiles w') k = Some c"
    using run_moved [OF d(1,3) x(1,2)] by blast
  let ?base = "base_by_session h d (r1_session_id r)"
  have "set (run_objects h d r) \<subseteq> set (body_objects h d)" using d(3) by (auto simp: body_objects_def)
  then have at: "map_of fs k = Some c" if "(k, c) \<in> set (run_objects h d r)" for k c
    using onwardD [OF x(3)] obj that by blast
  have msg: "read_message fs ?base (Some (message_path (r1_session_id r) (r1_id r) role)) = Inr (Some (JStr t))"
    if "(object_key ?base (message_path (r1_session_id r) (r1_id r) role), run_message r role t) \<in> set (run_objects h d r)" for role t
    using at [OF that] by (intro read_written_message [OF _ read_path]) (simp add: object_key_def run_message_def)
  have i: "read_message fs ?base (Some (ob_ref input)) = Inr (Some (JStr (r1_input r)))"
    unfolding ref by (rule msg) (simp add: run_objects_def Let_def)
  have s: "read_object fs ?base (ob_ref snap) = Inr (utf8_encode (or_object (r1_config_snapshot r)))"
  proof -
    have "map_of fs (object_key ?base (snapshot_path (r1_session_id r) (r1_id r)))
        = Some (utf8_encode (or_object (r1_config_snapshot r)))" by (rule at) (simp add: run_objects_def Let_def)
    then show ?thesis by (simp add: read_object_def ref(2) object_key_def)
  qed
  have o: "read_message fs ?base (map_option ob_ref out) = Inr (map_option JStr (r1_output r))"
  proof (cases "r1_output r")
    case None
    then show ?thesis using ref(3) by (simp add: read_message_def)
  next
    case (Some t)
    show ?thesis unfolding ref(3) Some option.map by (rule msg) (simp add: run_objects_def Let_def Some)
  qed
  have "base_for_session h (r1_session_id r) d5 = ?base" by (rule base_same [OF d(2) tabs])
  then show ?thesis using i s o
    by (simp add: run_reads_back_def r5 externalized_run_def audit.defs run_row.defs Let_def)
qed

lemma event_reads_backI:
  assumes d: "session_links d" and tabs: "sessions d5 = db4_sessions d" "workspaces d5 = db4_workspaces d"
    and x: "externalize_event h d e w = (Inr e5, w')" "extends (wfiles w') fs"
  shows "event_reads_back h d5 fs e e5"
proof -
  obtain data c where c: "loads (or_object (e1_data e)) = Some data" "e5 = externalized_event e c"
    "read_verified (h_sha256 h) fs (base_by_session h d (e4_session_id e)) (cr_ref c) (cr_offset c) (cr_bytes c)
        (Some (cr_digest c)) = Inr (norm_json True (event_content e data))"
    using event_moved [OF x] by blast
  have "base_for_session h (e4_session_id e) d5 = base_by_session h d (e4_session_id e)"
    by (rule base_same [OF d tabs])
  then show ?thesis using c by (simp add: event_reads_back_def externalized_event_def audit.defs event_row.defs)
qed

lemma migration_succeeds:
  assumes d: "plain_bodies d" "session_links d" and l: "left_by (body_objects h d) (wfiles w)"
    and m: "migrate_v4_to_v5 h d w = (Inr d5, w')"
  shows "list_all2 (run_reads_back h d5 (wfiles w')) (dbs_runs d) (runs d5)
    \<and> list_all2 (event_reads_back h d5 (wfiles w')) (db4_events d) (run_events d5)"
proof -
  let ?objs = "body_objects h d"
  obtain rs w1 where rs: "mapA (externalize_run h d) (dbs_runs d) w = (Inr rs, w1)" and m1: "bindA (mapA (externalize_event h d)
      (db4_events d)) (\<lambda>es. bindA (mapA (externalize_pending h d) (dbs_pendings d)) (\<lambda>ps. ret \<lparr>workspaces = db4_workspaces d,
      workspace_revisions = dbs_revisions d, sessions = db4_sessions d, session_requests = dbs_requests d, runs = rs,
      run_attempts = dbs_attempts d, tool_executions = map tool_from_v4 (dbs_tools d), pending_responses = ps,
      run_events = es\<rparr>)) w1 = (Inr d5, w')"
    using m unfolding migrate_v4_to_v5_def by (rule bindA_InrE)
  obtain es w2 where es: "mapA (externalize_event h d) (db4_events d) w1 = (Inr es, w2)" and m2: "bindA (mapA
      (externalize_pending h d) (dbs_pendings d)) (\<lambda>ps. ret \<lparr>workspaces = db4_workspaces d,
      workspace_revisions = dbs_revisions d, sessions = db4_sessions d, session_requests = dbs_requests d, runs = rs,
      run_attempts = dbs_attempts d, tool_executions = map tool_from_v4 (dbs_tools d), pending_responses = ps,
      run_events = es\<rparr>) w2 = (Inr d5, w')"
    using m1 by (rule bindA_InrE)
  obtain ps where ps: "mapA (externalize_pending h d) (dbs_pendings d) w2 = (Inr ps, w')"
    "runs d5 = rs" "run_events d5 = es" "sessions d5 = db4_sessions d" "workspaces d5 = db4_workspaces d"
    using m2 by (rule bindA_InrE) (auto simp: ret_def)
  have st: "onward ?objs (wfiles w) (wfiles w1)" "onward ?objs (wfiles w1) (wfiles w2)" "onward ?objs (wfiles w2) (wfiles w')"
    using steadyD [OF steady_mapA rs] steadyD [OF steady_mapA es] steadyD [OF steady_mapA ps(1)]
      steady_run steady_event steady_pending d(1) by blast+
  then have l1: "left_by ?objs (wfiles w1)" and on: "onward ?objs (wfiles w1) (wfiles w')"
    using l by (simp add: onward_def, blast intro: onward_trans)
  have "list_all2 (\<lambda>x y. \<exists>v v'. externalize_run h d x v = (Inr y, v') \<and> left_by ?objs (wfiles v)
      \<and> onward ?objs (wfiles v') (wfiles w1)) (dbs_runs d) rs"
    by (rule mapA_results [OF _ rs l]) (rule steady_run [OF d(1)])
  then have "list_all2 (run_reads_back h d5 (wfiles w')) (dbs_runs d) rs"
    by (rule list.rel_mono_strong) (blast intro: run_reads_backI [OF d _ ps(4,5)] onward_trans [OF _ on])
  moreover have "list_all2 (\<lambda>x y. \<exists>v v'. externalize_event h d x v = (Inr y, v') \<and> left_by ?objs (wfiles v)
      \<and> onward ?objs (wfiles v') (wfiles w2)) (db4_events d) es"
    by (rule mapA_results [OF _ es l1]) (rule steady_event [OF d(1)])
  then have "list_all2 (event_reads_back h d5 (wfiles w')) (db4_events d) es"
    by (rule list.rel_mono_strong)
      (metis event_reads_backI [OF d(2) ps(4,5)] onward_trans [OF _ st(3)] onward_def)
  ultimately show ?thesis using ps(2,3) by simp
qed


section \<open>What opening a database of schema 4 leaves\<close>

definition returns :: "'a act \<Rightarrow> bool" where
  "returns m \<longleftrightarrow> (\<forall>w. \<exists>y w'. m w = (Inr y, w'))"

lemma returns_ret: "returns (ret x)"
  by (simp add: returns_def ret_def)

lemma returns_bind: "returns m \<Longrightarrow> (\<And>x. returns (f x)) \<Longrightarrow> returns (bindA m f)"
  unfolding returns_def bindA_def by (metis (no_types, lifting) case_prod_conv sum.simps(6))

lemma returns_files: "returns (with_files g)"
  by (simp add: returns_def with_files_def split_def Let_def)

lemma returns_mapA: "(\<And>x. x \<in> set xs \<Longrightarrow> returns (f x)) \<Longrightarrow> returns (mapA f xs)"
  by (induction xs) (auto intro!: returns_ret returns_bind)

lemma returns_optional: "(\<And>s. returns (write s)) \<Longrightarrow> returns (optional_object write t)"
  by (cases t) (simp_all add: optional_object_def returns_ret returns_bind)

lemmas returns_rules = returns_ret returns_bind returns_files returns_optional returns_mapA

lemma returns_run: "returns (externalize_run h d r)"
  unfolding externalize_run_def Let_def write_message_def write_snapshot_def write_object_act_def
  by (intro returns_rules)

lemma returns_pending: "returns (externalize_pending h d p)"
  by (cases "select_one (\<lambda>r. r1_id r = p4_run_id p) (dbs_runs d)")
    (auto simp: externalize_pending_def Let_def write_object_act_def intro!: returns_rules)

lemma returns_event: "loads (or_object (e1_data e)) \<noteq> None \<Longrightarrow> returns (externalize_event h d e)"
  by (auto simp: externalize_event_def write_event_content_def intro!: returns_rules)

definition data_parses :: "db_v4 \<Rightarrow> bool" where
  "data_parses d = list_all (\<lambda>e. loads (or_object (e1_data e)) \<noteq> None) (db4_events d)"

lemma returns_migration: "data_parses d \<Longrightarrow> returns (migrate_v4_to_v5 h d)"
  unfolding migrate_v4_to_v5_def data_parses_def
  by (intro returns_bind returns_mapA returns_ret)
    (simp_all add: returns_run returns_pending returns_event list_all_iff)

lemma mapA_all_ran: "mapA f xs w = (Inr ys, w') \<Longrightarrow> x \<in> set xs \<Longrightarrow> \<exists>v y v'. f x v = (Inr y, v')"
  by (induction xs arbitrary: w ys w') (auto elim!: bindA_InrE)

lemma migration_parsed: "migrate_v4_to_v5 h d w = (Inr d5, w') \<Longrightarrow> data_parses d"
proof -
  assume "migrate_v4_to_v5 h d w = (Inr d5, w')"
  then obtain v es v' where "mapA (externalize_event h d) (db4_events d) v = (Inr es, v')"
    unfolding migrate_v4_to_v5_def by (elim bindA_InrE)
  from mapA_all_ran [OF this] have "\<exists>v y v'. externalize_event h d e v = (Inr y, v')" if "e \<in> set (db4_events d)" for e
    using that by blast
  then show ?thesis unfolding data_parses_def list_all_iff
    by (fastforce simp: externalize_event_def raise_def split: option.splits)
qed

text \<open>C12: A database of schema 4 opens exactly when the data of its events parse. Then every input, output
  and snapshot of a Run and the data of every event read back as they were, whatever an earlier attempt that
  ended half way has written; otherwise the database stays as it is, and the files written are those the next
  attempt accepts.\<close>

theorem migrated_bodies_read_back:
  assumes "plain_bodies d" "session_links d" "left_by (body_objects h d) fs"
    and "create_schema h (Schema4 d) fs = (r, d', fs')"
  shows "left_by (body_objects h d) fs' \<and>
    (if data_parses d
     then r = Inr () \<and> (\<exists>d5. d' = Schema5 d5 \<and> list_all2 (run_reads_back h d5 fs') (dbs_runs d) (runs d5)
       \<and> list_all2 (event_reads_back h d5 fs') (db4_events d) (run_events d5))
     else \<not> is_ok r \<and> d' = Schema4 d)"
proof -
  obtain x w where m: "migrate_v4_to_v5 h d \<lparr>wdb = empty_db, wfiles = fs\<rparr> = (x, w)" by fastforce
  have l: "left_by (body_objects h d) (wfiles w)"
    using steadyD [OF steady_migration [OF assms(1)] m] assms(3) by (simp add: onward_def)
  show ?thesis
  proof (cases x)
    case (Inl e)
    then have "\<not> data_parses d" using returns_migration m unfolding returns_def by (metis Pair_inject sum.distinct(1))
    then show ?thesis using m Inl l assms(4) by (auto simp: create_schema_def externalize_all_def)
  next
    case (Inr d5)
    note m = m [unfolded Inr]
    have "fs' = wfiles w" "r = Inr ()" "d' = Schema5 d5"
      using m assms(4) by (auto simp: create_schema_def externalize_all_def)
    then show ?thesis using migration_parsed [OF m] migration_succeeds [OF assms(1,2) _ m] assms(3) l by simp
  qed
qed


definition demo_v4 :: db_v4 where
  "demo_v4 = (let a = audit_row ''t'' ''a'' in
     \<lparr>dbs_revisions = [], dbs_requests = [],
      dbs_runs = [run_v1.extend (audit.extend a (run_v1.fields ''r'' ''u'' ''s'' 1 ''k'' ''f'' ''hi'' ''g'' ''{}'' ''{}''
        SUCCEEDED None 2 (Some COMPLETED) None (Some ''ok'') None None None ''t'' 2)) (run_v4.fields ''w'')],
      dbs_attempts = [], dbs_tools = [], dbs_pendings = [],
      db4_workspaces = [audit.extend a (workspace_row.fields ''w'' ''u'' ''store'' '''' ''t'' ''u'' '''' '''' ''p'' ''''
        None None 0 None None)],
      db4_sessions = [audit.extend a (session_row.fields ''s'' ''u'' ''w'' ''title'' None ''thread'' 2 2 1 None)],
      db4_events = [event_v1.extend (audit.extend a (event_v1.fields ''e'' ''u'' ''r'' 1 ''1'' RUN_ACCEPTED '''' ''t''))
        (event_v4.fields ''s'' 1)]\<rparr>)"

lemma demo_v4_fields:
  "map (\<lambda>r. (r1_id r, r1_session_id r, r1_input r, r1_output r)) (dbs_runs demo_v4) = [(''r'', ''s'', ''hi'', Some ''ok'')]"
  "dbs_pendings demo_v4 = []" "map (\<lambda>s. (s_id s, s_scope_id s, s_workspace_id s)) (db4_sessions demo_v4) = [(''s'', ''u'', ''w'')]"
  "map (\<lambda>w. (w_id w, w_scope_id w)) (db4_workspaces demo_v4) = [(''w'', ''u'')]"
  "map (\<lambda>e. (e4_session_id e, e1_data e)) (db4_events demo_v4) = [(''s'', '''')]"
  by (simp_all add: demo_v4_def audit_row_def audit.defs run_v1.defs run_v4.defs workspace_row.defs session_row.defs
      event_v1.defs event_v4.defs Let_def)

theorem migrated_bodies_read_back_witness:
  "\<exists>d5 fs' r5. create_schema (demo_host ''4'') (Schema4 demo_v4) [] = (Inr (), Schema5 d5, fs')
     \<and> runs d5 = [r5] \<and> read_message fs' (base_for_session (demo_host ''4'') (r_session_id r5) d5) (Some (r_input_ref r5))
         = Inr (Some (JStr ''hi''))"
proof -
  note f = demo_v4_fields [unfolded map_eq_Cons_conv map_is_Nil_conv]
  have p: "plain_bodies demo_v4" "session_links demo_v4"
    using f by (auto simp: plain_bodies_def session_links_def valid_name_def)
  have "loads (or_object '''') = Some (JObj [])" by code_simp
  then have d: "data_parses demo_v4" using f(5) by (auto simp: data_parses_def)
  have "left_by (body_objects h demo_v4) []" for h by (simp add: left_by_def)
  moreover obtain r d' fs' where c: "create_schema (demo_host ''4'') (Schema4 demo_v4) [] = (r, d', fs')" by (metis prod_cases3)
  ultimately obtain d5 where "r = Inr ()" "d' = Schema5 d5"
    "list_all2 (run_reads_back (demo_host ''4'') d5 fs') (dbs_runs demo_v4) (runs d5)"
    using migrated_bodies_read_back [OF p _ c] d by auto
  then show ?thesis using c f(1) by (auto simp: list_all2_Cons1 run_reads_back_def Let_def)
qed


section \<open>Reading a migrated Session\<close>

lemma mapA_list_all2: "mapA f xs w = (Inr ys, w') \<Longrightarrow> list_all2 (\<lambda>x y. \<exists>v v'. f x v = (Inr y, v')) xs ys"
proof (induction xs arbitrary: w ys)
  case Nil then show ?case by (simp add: ret_def)
next
  case (Cons x xs)
  from Cons.prems obtain y v where y: "f x w = (Inr y, v)" "bindA (mapA f xs) (\<lambda>ys. ret (y # ys)) v = (Inr ys, w')"
    unfolding mapA.simps by (rule bindA_InrE)
  from y(2) obtain zs u where "mapA f xs v = (Inr zs, u)" "ret (y # zs) u = (Inr ys, w')" by (rule bindA_InrE)
  then show ?case using Cons.IH [of v zs] y(1) by (auto simp: ret_def)
qed

lemma list_all2_map_eq: "list_all2 R xs ys \<Longrightarrow> (\<And>x y. R x y \<Longrightarrow> g y = f x) \<Longrightarrow> map g ys = map f xs"
  by (induction rule: list_all2_induct) auto

lemma migration_keeps:
  assumes "migrate_v4_to_v5 h d w = (Inr d5, w')"
  shows "sessions d5 = db4_sessions d"
    "map (\<lambda>r. (r_scope_id r, r_id r, r_run_seq r)) (runs d5) = map (\<lambda>r. (r1_scope_id r, r1_id r, r1_run_seq r)) (dbs_runs d)"
    "map (\<lambda>e. (e_scope_id e, e_run_id e, e_session_id e, e_seq e, e_session_seq e)) (run_events d5)
     = map (\<lambda>e. (e1_scope_id e, e1_run_id e, e4_session_id e, e1_seq e, e4_session_seq e)) (db4_events d)"
proof -
  obtain rs w1 es w2 where m: "mapA (externalize_run h d) (dbs_runs d) w = (Inr rs, w1)"
    "mapA (externalize_event h d) (db4_events d) w1 = (Inr es, w2)" "sessions d5 = db4_sessions d" "runs d5 = rs" "run_events d5 = es"
    using assms unfolding migrate_v4_to_v5_def by (elim bindA_InrE) (auto simp: ret_def)
  show "sessions d5 = db4_sessions d" by (rule m(3))
  have "\<exists>a b c. y = externalized_run x a b c" if "externalize_run h d x v = (Inr y, v')" for x y v v'
    using that unfolding externalize_run_def Let_def by (elim bindA_InrE) (auto simp: ret_def)
  then show "map (\<lambda>r. (r_scope_id r, r_id r, r_run_seq r)) (runs d5) = map (\<lambda>r. (r1_scope_id r, r1_id r, r1_run_seq r)) (dbs_runs d)"
    unfolding m(4) by (intro list_all2_map_eq [OF mapA_list_all2 [OF m(1)]])
      (fastforce simp: externalized_run_def audit.defs run_row.defs)
  have "\<exists>c. y = externalized_event x c" if "externalize_event h d x v = (Inr y, v')" for x y v v'
    using that by (auto simp: externalize_event_def ret_def raise_def split: option.splits elim!: bindA_InrE)
  then show "map (\<lambda>e. (e_scope_id e, e_run_id e, e_session_id e, e_seq e, e_session_seq e)) (run_events d5)
     = map (\<lambda>e. (e1_scope_id e, e1_run_id e, e4_session_id e, e1_seq e, e4_session_seq e)) (db4_events d)"
    unfolding m(5) by (intro list_all2_map_eq [OF mapA_list_all2 [OF m(2)]])
      (fastforce simp: externalized_event_def audit.defs event_row.defs)
qed

lemma coalesce_max_sort: "sort xs = [1..m] \<Longrightarrow> 0 \<le> m \<Longrightarrow> coalesce_max xs = m"
proof (cases xs)
  case (Cons x ys)
  assume s: "sort xs = [1..m]" and "0 \<le> m"
  have set: "set xs = {1..m}" by (metis s set_sort set_upto)
  have "x \<in> {1..m}" using Cons by (simp add: set [symmetric])
  then have "Max (set xs) = m" by (intro Max_eqI) (auto simp: set)
  moreover have "foldl max x ys = Max (set (x # ys))"
    by (simp only: foldl_conv_fold Max.set_eq_fold max.commute)
  ultimately show ?thesis using Cons by simp
qed simp


interpretation upgraded_pages: paged_log
  "\<lambda>(sid, d) k limit. session_event_rows sid k limit d" e_session_seq
  "\<lambda>(sid, d). session_event_cursor sid d"
  "\<lambda>(sid, d). \<exists>m\<ge>0. sort (map e_session_seq (filter (\<lambda>e. e_session_id e = sid) (run_events d))) = [1..m]"
proof (unfold_locales, clarify)
  fix sid and d :: db and k m :: int and limit
  let ?es = "filter (\<lambda>e. e_session_id e = sid) (run_events d)"
  assume m: "0 \<le> m" "sort (map e_session_seq ?es) = [1..m]" and k: "0 \<le> k"
  have "session_event_rows sid k limit d = take limit (sort_key e_session_seq (filter (\<lambda>e. k < e_session_seq e) ?es))"
    by (simp add: session_event_rows_def select_def conj_commute)
  then have "map e_session_seq (session_event_rows sid k limit d)
      = take limit (sort (map e_session_seq (filter (\<lambda>e. k < e_session_seq e) ?es)))"
    by (simp add: take_map sort_key_map [where f = "\<lambda>x. x" and h = e_session_seq])
  also have "map e_session_seq (filter (\<lambda>e. k < e_session_seq e) ?es) = filter (\<lambda>i. k < i) (map e_session_seq ?es)"
    by (simp add: filter_map comp_def)
  also have "sort \<dots> = filter (\<lambda>i. k < i) [1..m]"
    unfolding m(2) [symmetric] by (simp only: filter_sort)
  also have "\<dots> = [k + 1..m]" by (rule filter_upto [OF k])
  also have "m = session_event_cursor sid d"
    using coalesce_max_sort [OF m(2,1)] by (simp add: session_event_cursor_def select_def)
  finally show "map e_session_seq (session_event_rows sid k limit d) = take limit [k + 1..session_event_cursor sid d]" .
qed

text \<open>Reading pages of a Session's events until one is empty, each after the last number seen.\<close>

definition read_pages :: "nat \<Rightarrow> ident \<Rightarrow> db \<Rightarrow> int \<Rightarrow> nat \<Rightarrow> event_row list" where
  "read_pages fuel sid d = upgraded_pages.drain fuel (sid, d)"

lemma sessions_next_pos:
  assumes "ranked_by rs es sid nxt" "1 \<le> nxt"
  shows "\<exists>m\<ge>0. sort (map e4_session_seq (filter (\<lambda>e. e4_session_id e = sid) es)) = [1..m]"
  using assms by (intro exI [of _ "nxt - 1"]) (auto simp: ranked_by_def)

lemma next_positive: "backfillable d \<Longrightarrow> to_v4 d = Inr d4 \<Longrightarrow> s \<in> set (db4_sessions d4) \<Longrightarrow> 1 \<le> s_next_event_seq s"
  by (cases d) (auto simp: migrate_v1_to_v4_def migrate_v2_to_v4_def migrate_v3_to_v4_def tables_from_v1_def Let_def
      count_session_def backfill_session_def shared_db.defs db_v4.defs audit.defs session_row.defs
      split: if_splits elim!: bindE_InrE)

text \<open>C13: When a database of schema 1, 2 or 3 is opened, the events of each Session get the numbers 1, 2, 3, ..
  in the order of its Runs and of the events in a Run, the Session's counter is the next number, and a client
  that reads them page by page receives each once.\<close>

theorem migrated_events_numbered:
  assumes "backfillable d" "create_schema h d fs = (Inr (), Schema5 d5, fs')"
    and "s \<in> set (sessions d5)" "0 < limit" "nat (s_next_event_seq s) \<le> fuel"
  shows "map e_session_seq (read_pages fuel (s_id s) d5 0 limit) = [1..s_next_event_seq s - 1]
    \<and> (\<forall>e\<in>set (run_events d5). \<forall>f\<in>set (run_events d5). \<forall>r\<in>set (runs d5). \<forall>q\<in>set (runs d5).
        e_session_id e = s_id s \<and> e_session_id f = s_id s
        \<and> r_scope_id r = e_scope_id e \<and> r_id r = e_run_id e \<and> r_scope_id q = e_scope_id f \<and> r_id q = e_run_id f \<longrightarrow>
        (e_session_seq e < e_session_seq f \<longleftrightarrow> r_run_seq r < r_run_seq q \<or> r_run_seq r = r_run_seq q \<and> e_seq e < e_seq f))"
proof -
  obtain d4 w where d4: "to_v4 d = Inr d4" and m: "migrate_v4_to_v5 h d4 \<lparr>wdb = empty_db, wfiles = fs\<rparr> = (Inr d5, w)"
    using assms(1,2) by (cases d) (auto simp: create_schema_def externalize_all_def split: sum.splits prod.splits)
  note k = migration_keeps [OF m]
  have s: "s \<in> set (db4_sessions d4)" using assms(3) k(1) by simp
  have rk: "ranked_by (dbs_runs d4) (db4_events d4) (s_id s) (s_next_event_seq s)"
    by (rule v4_numbered [OF assms(1) d4 s])
  have seqs: "map e_session_seq (filter (\<lambda>e. e_session_id e = s_id s) (run_events d5))
      = map e4_session_seq (filter (\<lambda>e. e4_session_id e = s_id s) (db4_events d4))"
    using arg_cong [OF k(3), of "\<lambda>xs. map (\<lambda>(_, _, _, _, n). n) (filter (\<lambda>(_, _, sid, _, _). sid = s_id s) xs)"]
    by (simp add: filter_map comp_def)
  let ?n = "s_next_event_seq s"
  have n: "1 \<le> ?n" by (rule next_positive [OF assms(1) d4 s])
  have sort: "sort (map e_session_seq (filter (\<lambda>e. e_session_id e = s_id s) (run_events d5))) = [1..?n - 1]"
    using rk unfolding seqs by (simp add: ranked_by_def)
  have cursor: "session_event_cursor (s_id s) d5 = ?n - 1"
    using coalesce_max_sort [OF sort] n by (simp add: session_event_cursor_def select_def)
  have "map e_session_seq (read_pages fuel (s_id s) d5 0 limit) = [0 + 1..session_event_cursor (s_id s) d5]"
    unfolding read_pages_def using sort n assms(4,5)
    by (subst upgraded_pages.drain_complete) (auto simp: cursor intro!: exI [of _ "?n - 1"])
  moreover have "e_session_seq e < e_session_seq f \<longleftrightarrow> r_run_seq r < r_run_seq q \<or> r_run_seq r = r_run_seq q \<and> e_seq e < e_seq f"
    if h: "e \<in> set (run_events d5)" "f \<in> set (run_events d5)" "r \<in> set (runs d5)" "q \<in> set (runs d5)"
      "e_session_id e = s_id s" "e_session_id f = s_id s" "r_scope_id r = e_scope_id e" "r_id r = e_run_id e"
      "r_scope_id q = e_scope_id f" "r_id q = e_run_id f" for e f r q
  proof -
    have ev: "\<exists>x\<in>set (db4_events d4). (e1_scope_id x, e1_run_id x, e4_session_id x, e1_seq x, e4_session_seq x)
        = (e_scope_id y, e_run_id y, e_session_id y, e_seq y, e_session_seq y)" if y: "y \<in> set (run_events d5)" for y
    proof -
      have "(e_scope_id y, e_run_id y, e_session_id y, e_seq y, e_session_seq y)
          \<in> set (map (\<lambda>e. (e_scope_id e, e_run_id e, e_session_id e, e_seq e, e_session_seq e)) (run_events d5))"
        unfolding set_map using y by (rule imageI)
      then show ?thesis unfolding k(3) by auto
    qed
    have rn: "\<exists>x\<in>set (dbs_runs d4). (r1_scope_id x, r1_id x, r1_run_seq x) = (r_scope_id y, r_id y, r_run_seq y)"
      if y: "y \<in> set (runs d5)" for y
    proof -
      have "(r_scope_id y, r_id y, r_run_seq y) \<in> set (map (\<lambda>r. (r_scope_id r, r_id r, r_run_seq r)) (runs d5))"
        unfolding set_map using y by (rule imageI)
      then show ?thesis unfolding k(2) by auto
    qed
    show ?thesis using rk ev [OF h(1)] ev [OF h(2)] rn [OF h(3)] rn [OF h(4)] h(5-)
      unfolding ranked_by_def by (metis prod.inject)
  qed
  ultimately show ?thesis by (simp add: cursor)
qed


definition demo_v1 :: db_v1 where
  "demo_v1 = (let a = audit_row ''t'' ''a'';
       run = (\<lambda>id n. audit.extend a (run_v1.fields id ''u'' ''s'' n id ''f'' ''hi'' ''g'' ''{}'' ''{}'' QUEUED None 0
         None None None None None None ''t'' 2));
       event = (\<lambda>id rid n. audit.extend a (event_v1.fields id ''u'' rid n ''1'' MESSAGE_DELTA '''' ''t''))
     in \<lparr>db1_workspaces = [audit.extend a (workspace_v1.fields ''w'' ''u'' ''store'' None)], db1_revisions = [],
      db1_sessions = [audit.extend a (session_v1.fields ''s'' ''u'' ''w'' ''title'' None ''thread'' 3 1 None)],
      db1_requests = [], db1_runs = [run ''q'' 1, run ''r'' 2], db1_attempts = [], db1_tools = [], db1_pendings = [],
      db1_events = [event ''e'' ''q'' 1, event ''f'' ''r'' 1, event ''g'' ''q'' 2]\<rparr>)"

lemma demo_v1_facts:
  "old_keys (db1_sessions demo_v1) (db1_runs demo_v1) (db1_events demo_v1)"
  "unique_keys (tables_from_v1 demo_v1)" "data_parses (tables_from_v1 demo_v1)"
  "map (\<lambda>s. (s_id s, s_next_event_seq s)) (db4_sessions (tables_from_v1 demo_v1)) = [(''s'', 4)]"
  by code_simp+

theorem migrated_events_numbered_witness:
  "\<exists>d5 fs'. create_schema (demo_host ''4'') (Schema1 demo_v1) [] = (Inr (), Schema5 d5, fs')
     \<and> map e_session_seq (read_pages 5 ''s'' d5 0 2) = [1..3]"
proof -
  let ?h = "demo_host ''4''" and ?d4 = "tables_from_v1 demo_v1"
  obtain d5 w where m: "migrate_v4_to_v5 ?h ?d4 \<lparr>wdb = empty_db, wfiles = []\<rparr> = (Inr d5, w)"
    using returns_migration [OF demo_v1_facts(3), of ?h] unfolding returns_def by blast
  have c: "create_schema ?h (Schema1 demo_v1) [] = (Inr (), Schema5 d5, wfiles w)"
    using m demo_v1_facts(2) by (simp add: create_schema_def migrate_v1_to_v4_def externalize_all_def)
  obtain s where s: "s \<in> set (sessions d5)" "s_id s = ''s''" "s_next_event_seq s = 4"
    using demo_v1_facts(4) migration_keeps(1) [OF m] by auto
  show ?thesis using migrated_events_numbered [OF _ c s(1), of 2 5] demo_v1_facts(1) s(2,3) c by auto
qed

end
