(* ===== verification/Plugins.thy ===== *)
theory Plugins
  imports DeepSeek ImpalaDispatch
begin

text \<open>
  The plugin registry and the wiring of the built-in implementations
  (\<open>src/code_forge/runtime/plugins.py\<close>): which factory a name stands for, and which components
  \<open>build_plugins\<close> makes of the environment and hands to which others. A component is the class that was
  constructed with its arguments, \<open>None\<close> for Python's; a factory of another package is any function of the
  keyword arguments.
\<close>

section \<open>Components\<close>

datatype component =
    Sqlite_store ppath
  | Sqlite_repository "component option"
  | Default_allow
  | Manual_skills ppath ppath
  | Impala_skills "component option" ppath ppath
  | Workspace_store ppath
  | Process_backend "component option" ppath
  | Context_manager int
  | Chat_model adapter
  | Impala_dispatcher ppath ppath "component option" "component option" ppath "component option"
  | Local_harness "component option" "component option" "component option" "component option"
      "component option" int "component option"
  | LangGraph_harness "component option" "component option" "component option" "component option"
      "component option" "component option" int "component option"
  | External string

type_synonym env = "(string \<times> string) list"

datatype arg = Path_arg ppath | Env_arg env | Part_arg "component option" | Int_arg int | Text_arg "string option"

type_synonym kwargs = "(string \<times> arg) list"
type_synonym factory = "kwargs \<Rightarrow> exn + component option"

text \<open>A keyword a factory requires; \<open>build_plugins\<close> passes each with its kind of value.\<close>

definition path_kw :: "string \<Rightarrow> kwargs \<Rightarrow> exn + ppath" where
  "path_kw key kw = (case map_of kw key of Some (Path_arg p) \<Rightarrow> Inr p | _ \<Rightarrow> Inl (ValueErr ''TypeError''))"

definition part_kw :: "string \<Rightarrow> kwargs \<Rightarrow> exn + component option" where
  "part_kw key kw = (case map_of kw key of Some (Part_arg c) \<Rightarrow> Inr c | _ \<Rightarrow> Inl (ValueErr ''TypeError''))"

definition int_kw :: "string \<Rightarrow> kwargs \<Rightarrow> exn + int" where
  "int_kw key kw = (case map_of kw key of Some (Int_arg i) \<Rightarrow> Inr i | _ \<Rightarrow> Inl (ValueErr ''TypeError''))"

definition text_kw :: "string \<Rightarrow> kwargs \<Rightarrow> exn + string option" where
  "text_kw key kw = (case map_of kw key of Some (Text_arg t) \<Rightarrow> Inr t | _ \<Rightarrow> Inl (ValueErr ''TypeError''))"

section \<open>The registry\<close>

type_synonym registry = "(string \<times> (string \<times> factory) list) list"

definition plugins_of :: "registry \<Rightarrow> string \<Rightarrow> (string \<times> factory) list" where
  "plugins_of reg kind = (case map_of reg kind of None \<Rightarrow> [] | Some named \<Rightarrow> named)"

definition register_plugin :: "string \<Rightarrow> string \<Rightarrow> factory \<Rightarrow> registry \<Rightarrow> registry" where
  "register_plugin kind name factory reg = dict_set kind (dict_set name factory (plugins_of reg kind)) reg"

definition create_plugin :: "registry \<Rightarrow> string \<Rightarrow> string \<Rightarrow> kwargs \<Rightarrow> exn + component option" where
  "create_plugin reg kind name kw = (case map_of (plugins_of reg kind) name of
     None \<Rightarrow> Inl (DomainError DEPENDENCY_UNAVAILABLE (''Unknown '' @ kind @ '' plugin: '' @ name))
   | Some factory \<Rightarrow> factory kw)"

definition plugin_names :: "registry \<Rightarrow> string \<Rightarrow> string list" where
  "plugin_names reg kind = sort (map fst (plugins_of reg kind))"

section \<open>Built-in factories\<close>

text \<open>
  What is installed beside the program: the optional packages, the process environment, the user's home
  and the file a path names.
\<close>

record installation =
  in_langgraph :: bool
  in_impala :: bool
  in_environ :: env
  in_expanduser :: "ppath \<Rightarrow> ppath"
  in_file :: "ppath \<Rightarrow> exn + string"

definition env_get :: "env \<Rightarrow> string \<Rightarrow> string \<Rightarrow> string" where
  "env_get env key default_value = (case map_of env key of None \<Rightarrow> default_value | Some v \<Rightarrow> v)"

definition rstrip_slashes :: "string \<Rightarrow> string" where
  "rstrip_slashes s = List.rev (dropWhile (\<lambda>c. c = CHR ''/'') (List.rev s))"

text \<open>\<open>DeepSeekChatAdapter.__init__\<close>, which reads its defaults from the process environment.\<close>

definition make_adapter :: "env \<Rightarrow> string \<Rightarrow> string option \<Rightarrow> string option \<Rightarrow> bool option \<Rightarrow> adapter" where
  "make_adapter environ api_key model base_url verify_ssl =
     \<lparr>ad_api_key = api_key,
      ad_model = (if falsy model then env_get environ ''DEEPSEEK_MODEL'' ''deepseek-v4-pro'' else the model),
      ad_base_url = rstrip_slashes (if falsy base_url
        then env_get environ ''DEEPSEEK_BASE_URL'' ''https://api.deepseek.com'' else the base_url),
      ad_verify_ssl = (case verify_ssl of Some v \<Rightarrow> v
        | None \<Rightarrow> py_lower (env_get environ ''DEEPSEEK_VERIFY_SSL'' ''1'') \<notin> {''0'', ''false'', ''no''})\<rparr>"

definition sqlite_store :: factory where
  "sqlite_store kw = bindE (path_kw ''root'' kw) (\<lambda>root. Inr (Some (Sqlite_store (sub root ''state.db''))))"

definition sqlite_repository :: factory where
  "sqlite_repository kw = bindE (part_kw ''store'' kw) (\<lambda>store. Inr (Some (Sqlite_repository store)))"

definition default_allow_authorization :: factory where
  "default_allow_authorization kw = Inr (Some Default_allow)"

definition manual_skills :: factory where
  "manual_skills kw = bindE (path_kw ''skills_root'' kw) (\<lambda>skills. bindE (path_kw ''snapshot_root'' kw) (\<lambda>snapshots.
     Inr (Some (Manual_skills skills snapshots))))"

definition local_workspace :: factory where
  "local_workspace kw = bindE (path_kw ''workspace_root'' kw) (\<lambda>root. Inr (Some (Workspace_store root)))"

definition local_process_execution :: factory where
  "local_process_execution kw = bindE (part_kw ''workspace'' kw) (\<lambda>ws. bindE (path_kw ''operations_root'' kw) (\<lambda>ops.
     Inr (Some (Process_backend ws ops))))"

definition bounded_context :: factory where
  "bounded_context kw = bindE (int_kw ''max_chars'' kw) (\<lambda>n. Inr (Some (Context_manager n)))"

definition none_model :: factory where
  "none_model kw = Inr None"

definition deepseek_model :: "env \<Rightarrow> factory" where
  "deepseek_model environ kw =
     bindE (text_kw ''api_key'' kw) (\<lambda>api_key. bindE (text_kw ''model'' kw) (\<lambda>model.
     bindE (text_kw ''base_url'' kw) (\<lambda>base_url.
     if falsy api_key
     then Inl (DomainError MODEL_NOT_CONFIGURED ''DEEPSEEK_API_KEY is required for the deepseek model plugin'')
     else Inr (Some (Chat_model (make_adapter environ (the api_key) model base_url None))))))"

definition local_harness :: factory where
  "local_harness kw =
     bindE (part_kw ''store'' kw) (\<lambda>store. bindE (part_kw ''execution'' kw) (\<lambda>execution.
     bindE (part_kw ''workspace'' kw) (\<lambda>ws. bindE (part_kw ''resolver'' kw) (\<lambda>resolver.
     bindE (part_kw ''model_adapter'' kw) (\<lambda>model. bindE (int_kw ''max_tool_steps'' kw) (\<lambda>steps.
     bindE (part_kw ''impala_dispatcher'' kw) (\<lambda>impala.
     Inr (Some (Local_harness store execution ws resolver model steps impala)))))))))"

definition langgraph_harness :: "bool \<Rightarrow> factory" where
  "langgraph_harness langgraph kw =
     bindE (part_kw ''store'' kw) (\<lambda>store. bindE (part_kw ''execution'' kw) (\<lambda>execution.
     bindE (part_kw ''workspace'' kw) (\<lambda>ws. bindE (part_kw ''resolver'' kw) (\<lambda>resolver.
     bindE (part_kw ''context_manager'' kw) (\<lambda>ctx. bindE (part_kw ''model_adapter'' kw) (\<lambda>model.
     bindE (int_kw ''max_tool_steps'' kw) (\<lambda>steps. bindE (part_kw ''impala_dispatcher'' kw) (\<lambda>impala.
     if model = None
     then Inl (DomainError MODEL_NOT_CONFIGURED ''LangGraph harness requires a configured model adapter'')
     else if \<not> langgraph
     then Inl (DomainError DEPENDENCY_UNAVAILABLE (''LangGraph plugin is unavailable. Install it with ''
       @ ''`.venv/bin/python -m pip install 'langgraph>=1.2,<2'` '' @ ''or set FORGE_HARNESS=local.''))
     else Inr (Some (LangGraph_harness store execution ws resolver ctx model steps impala))))))))))"

definition builtin_registry :: "installation \<Rightarrow> registry" where
  "builtin_registry I = foldl (\<lambda>reg (kind, name, factory). register_plugin kind name factory reg) []
     [(''store'', ''sqlite'', sqlite_store), (''repository'', ''sqlite'', sqlite_repository),
      (''authorization'', ''default-allow'', default_allow_authorization), (''skills'', ''manual'', manual_skills),
      (''workspace'', ''local'', local_workspace), (''execution'', ''local-process'', local_process_execution),
      (''context'', ''bounded'', bounded_context), (''model'', ''none'', none_model),
      (''model'', ''deepseek'', deepseek_model (in_environ I)), (''harness'', ''local'', local_harness),
      (''harness'', ''langgraph'', langgraph_harness (in_langgraph I))]"


section \<open>Wiring\<close>

record runtime_plugins =
  rp_store :: "component option"
  rp_repository :: "component option"
  rp_authorization :: "component option"
  rp_resolver :: "component option"
  rp_workspace :: "component option"
  rp_execution :: "component option"
  rp_context_manager :: "component option"
  rp_model_adapter :: "component option"
  rp_harness :: "component option"

text \<open>\<open>int(env.get(key, default))\<close>\<close>

definition env_int :: "env \<Rightarrow> string \<Rightarrow> string \<Rightarrow> exn + int" where
  "env_int env key default_value = (case py_int (env_get env key default_value) of
     None \<Rightarrow> Inl (ValueErr ''invalid literal for int() with base 10'') | Some i \<Rightarrow> Inr i)"

text \<open>\<open>root / path\<close> unless the path is absolute.\<close>

definition below :: "ppath \<Rightarrow> ppath \<Rightarrow> ppath" where
  "below root p = (if path_is_absolute p then p else path_join root p)"

definition skills_root_of :: "ppath \<Rightarrow> env \<Rightarrow> ppath" where
  "skills_root_of root env = below root (case map_of env ''FORGE_SKILLS_DIR'' of
     None \<Rightarrow> sub (sub root ''config'') ''skills'' | Some dir \<Rightarrow> mk_path dir)"

definition model_of_env :: "registry \<Rightarrow> env \<Rightarrow> exn + component option" where
  "model_of_env reg env =
     (let model_name = map_of env ''FORGE_MODEL'' in
      if falsy model_name \<and> falsy (map_of env ''DEEPSEEK_API_KEY'') then Inr None
      else create_plugin reg ''model'' (if falsy model_name then ''deepseek'' else the model_name)
        [(''api_key'', Text_arg (map_of env ''DEEPSEEK_API_KEY'')), (''model'', Text_arg (map_of env ''DEEPSEEK_MODEL'')),
         (''base_url'', Text_arg (map_of env ''DEEPSEEK_BASE_URL'')), (''env'', Env_arg env)])"

text \<open>The resolver and the dispatcher when Impala is configured; the bindings must resolve first.\<close>

definition impala_of_env :: "installation \<Rightarrow> ppath \<Rightarrow> env \<Rightarrow> component option \<Rightarrow> component option
    \<Rightarrow> component option \<Rightarrow> component option \<Rightarrow> exn + component option \<times> component option" where
  "impala_of_env I root env store ws authorization resolver =
     (if falsy (map_of env ''FORGE_IMPALA_CONFIG'') then Inr (resolver, None)
      else if \<not> in_impala I
      then Inl (DomainError DEPENDENCY_UNAVAILABLE
        ''Impala dependencies unavailable; install `pip install -e '.[impala]'`'')
      else let config = below root (in_expanduser I (mk_path (the (map_of env ''FORGE_IMPALA_CONFIG'')))) in
        bindE (resolve_binding (in_file I config) ''default'') (\<lambda>_.
        Inr (Some (Impala_skills resolver config (sub root ''impala'')),
             Some (Impala_dispatcher config (sub root ''impala'') store ws (sub root ''operations'') authorization))))"

definition harness_name :: "env \<Rightarrow> component option \<Rightarrow> string" where
  "harness_name env model = (if falsy (map_of env ''FORGE_HARNESS'')
     then if model \<noteq> None then ''langgraph'' else ''local''
     else the (map_of env ''FORGE_HARNESS''))"

definition build_plugins :: "installation \<Rightarrow> ppath \<Rightarrow> env \<Rightarrow> registry option \<Rightarrow> exn + runtime_plugins" where
  "build_plugins I root given_env given_registry =
     (let env = (if given_env = [] then in_environ I else given_env);
          reg = (case given_registry of None \<Rightarrow> builtin_registry I | Some r \<Rightarrow> r);
          store_name = env_get env ''FORGE_STORE'' ''sqlite'' in
      bindE (create_plugin reg ''store'' store_name [(''root'', Path_arg root), (''env'', Env_arg env)]) (\<lambda>store.
      bindE (create_plugin reg ''repository'' (env_get env ''FORGE_REPOSITORY'' store_name)
        [(''store'', Part_arg store), (''env'', Env_arg env)]) (\<lambda>repository.
      bindE (create_plugin reg ''authorization'' (env_get env ''FORGE_AUTHORIZATION'' ''default-allow'')
        [(''env'', Env_arg env)]) (\<lambda>authorization.
      bindE (create_plugin reg ''skills'' (env_get env ''FORGE_SKILLS'' ''manual'')
        [(''skills_root'', Path_arg (skills_root_of root env)), (''snapshot_root'', Path_arg (sub root ''skill-snapshots'')),
         (''env'', Env_arg env)]) (\<lambda>skills.
      bindE (create_plugin reg ''workspace'' (env_get env ''FORGE_WORKSPACE'' ''local'')
        [(''workspace_root'', Path_arg (sub root ''workspace-store'')), (''env'', Env_arg env)]) (\<lambda>ws.
      bindE (create_plugin reg ''execution'' (env_get env ''FORGE_EXECUTION'' ''local-process'')
        [(''workspace'', Part_arg ws), (''operations_root'', Path_arg (sub root ''operations'')), (''env'', Env_arg env)]) (\<lambda>execution.
      bindE (env_int env ''FORGE_CONTEXT_MAX_CHARS'' ''24000'') (\<lambda>max_chars.
      bindE (create_plugin reg ''context'' (env_get env ''FORGE_CONTEXT'' ''bounded'')
        [(''max_chars'', Int_arg max_chars), (''env'', Env_arg env)]) (\<lambda>ctx.
      bindE (model_of_env reg env) (\<lambda>model.
      bindE (impala_of_env I root env store ws authorization skills) (\<lambda>(resolver, impala).
      bindE (env_int env ''FORGE_MAX_TOOL_STEPS'' ''12'') (\<lambda>steps.
      bindE (create_plugin reg ''harness'' (harness_name env model)
        [(''store'', Part_arg store), (''execution'', Part_arg execution), (''workspace'', Part_arg ws),
         (''resolver'', Part_arg resolver), (''context_manager'', Part_arg ctx), (''model_adapter'', Part_arg model),
         (''max_tool_steps'', Int_arg steps), (''impala_dispatcher'', Part_arg impala), (''env'', Env_arg env)]) (\<lambda>harness.
      Inr \<lparr>rp_store = store, rp_repository = repository, rp_authorization = authorization, rp_resolver = resolver,
        rp_workspace = ws, rp_execution = execution, rp_context_manager = ctx, rp_model_adapter = model,
        rp_harness = harness\<rparr>)))))))))))))"

section \<open>What is wired\<close>

lemma plugins_of_register:
  "plugins_of (register_plugin kind name f reg) k
   = (if k = kind then dict_set name f (plugins_of reg kind) else plugins_of reg k)"
  by (induction reg) (auto simp: plugins_of_def register_plugin_def)


lemma plugins_of_Nil [simp]: "plugins_of [] k = []"
  by (simp add: plugins_of_def)

lemma builtin_plugins:
  "plugins_of (builtin_registry I) ''store'' = [(''sqlite'', sqlite_store)]"
  "plugins_of (builtin_registry I) ''repository'' = [(''sqlite'', sqlite_repository)]"
  "plugins_of (builtin_registry I) ''authorization'' = [(''default-allow'', default_allow_authorization)]"
  "plugins_of (builtin_registry I) ''skills'' = [(''manual'', manual_skills)]"
  "plugins_of (builtin_registry I) ''workspace'' = [(''local'', local_workspace)]"
  "plugins_of (builtin_registry I) ''execution'' = [(''local-process'', local_process_execution)]"
  "plugins_of (builtin_registry I) ''context'' = [(''bounded'', bounded_context)]"
  "plugins_of (builtin_registry I) ''model'' = [(''none'', none_model), (''deepseek'', deepseek_model (in_environ I))]"
  "plugins_of (builtin_registry I) ''harness''
     = [(''local'', local_harness), (''langgraph'', langgraph_harness (in_langgraph I))]"
  by (simp_all add: builtin_registry_def plugins_of_register)

lemmas keyword_defs = path_kw_def part_kw_def int_kw_def text_kw_def

definition unknown_plugin :: "string \<Rightarrow> string \<Rightarrow> exn" where
  "unknown_plugin kind name = DomainError DEPENDENCY_UNAVAILABLE (''Unknown '' @ kind @ '' plugin: '' @ name)"

lemma create_builtin:
  "create_plugin (builtin_registry I) ''store'' n [(''root'', Path_arg root), (''env'', e)]
     = (if n = ''sqlite'' then Inr (Some (Sqlite_store (sub root ''state.db''))) else Inl (unknown_plugin ''store'' n))"
  "create_plugin (builtin_registry I) ''repository'' n [(''store'', Part_arg s), (''env'', e)]
     = (if n = ''sqlite'' then Inr (Some (Sqlite_repository s)) else Inl (unknown_plugin ''repository'' n))"
  "create_plugin (builtin_registry I) ''authorization'' n kw
     = (if n = ''default-allow'' then Inr (Some Default_allow) else Inl (unknown_plugin ''authorization'' n))"
  "create_plugin (builtin_registry I) ''skills'' n [(''skills_root'', Path_arg a), (''snapshot_root'', Path_arg b), (''env'', e)]
     = (if n = ''manual'' then Inr (Some (Manual_skills a b)) else Inl (unknown_plugin ''skills'' n))"
  "create_plugin (builtin_registry I) ''workspace'' n [(''workspace_root'', Path_arg a), (''env'', e)]
     = (if n = ''local'' then Inr (Some (Workspace_store a)) else Inl (unknown_plugin ''workspace'' n))"
  "create_plugin (builtin_registry I) ''execution'' n [(''workspace'', Part_arg w), (''operations_root'', Path_arg a), (''env'', e)]
     = (if n = ''local-process'' then Inr (Some (Process_backend w a)) else Inl (unknown_plugin ''execution'' n))"
  "create_plugin (builtin_registry I) ''context'' n [(''max_chars'', Int_arg i), (''env'', e)]
     = (if n = ''bounded'' then Inr (Some (Context_manager i)) else Inl (unknown_plugin ''context'' n))"
  by (simp_all add: create_plugin_def builtin_plugins unknown_plugin_def keyword_defs sqlite_store_def sqlite_repository_def
      default_allow_authorization_def manual_skills_def local_workspace_def local_process_execution_def bounded_context_def)

definition harness_args :: "component option \<Rightarrow> component option \<Rightarrow> component option \<Rightarrow> component option
    \<Rightarrow> component option \<Rightarrow> component option \<Rightarrow> int \<Rightarrow> component option \<Rightarrow> env \<Rightarrow> kwargs" where
  "harness_args store execution ws resolver ctx model steps impala env =
     [(''store'', Part_arg store), (''execution'', Part_arg execution), (''workspace'', Part_arg ws),
      (''resolver'', Part_arg resolver), (''context_manager'', Part_arg ctx), (''model_adapter'', Part_arg model),
      (''max_tool_steps'', Int_arg steps), (''impala_dispatcher'', Part_arg impala), (''env'', Env_arg env)]"

lemma create_harness:
  "create_plugin (builtin_registry I) ''harness'' n (harness_args store execution ws resolver ctx model steps impala env)
     = (if n = ''local'' then Inr (Some (Local_harness store execution ws resolver model steps impala))
        else if n = ''langgraph''
        then (if model = None
              then Inl (DomainError MODEL_NOT_CONFIGURED ''LangGraph harness requires a configured model adapter'')
              else if in_langgraph I
              then Inr (Some (LangGraph_harness store execution ws resolver ctx model steps impala))
              else Inl (DomainError DEPENDENCY_UNAVAILABLE (''LangGraph plugin is unavailable. Install it with ''
                @ ''`.venv/bin/python -m pip install 'langgraph>=1.2,<2'` '' @ ''or set FORGE_HARNESS=local.'')))
        else Inl (unknown_plugin ''harness'' n))"
  by (simp add: create_plugin_def builtin_plugins unknown_plugin_def keyword_defs local_harness_def langgraph_harness_def harness_args_def)

lemma impala_cases:
  assumes "impala_of_env I root env store ws authorization skills = Inr (resolver, impala)"
  shows "falsy (map_of env ''FORGE_IMPALA_CONFIG'') \<and> resolver = skills \<and> impala = None
    \<or> \<not> falsy (map_of env ''FORGE_IMPALA_CONFIG'') \<and> in_impala I \<and> (\<exists>config. is_ok (resolve_binding (in_file I config) ''default'')
        \<and> resolver = Some (Impala_skills skills config (sub root ''impala''))
        \<and> impala = Some (Impala_dispatcher config (sub root ''impala'') store ws (sub root ''operations'') authorization))"
  using assms by (auto simp: impala_of_env_def Let_def split: if_splits elim!: bindE_InrE)



definition demo_installation :: installation where
  "demo_installation = \<lparr>in_langgraph = True, in_impala = False, in_environ = [], in_expanduser = (\<lambda>p. p),
     in_file = (\<lambda>_. Inl (OSErr ''FileNotFoundError''))\<rparr>"

definition demo_env :: env where
  "demo_env = [(''DEEPSEEK_API_KEY'', ''k''), (''FORGE_MAX_TOOL_STEPS'', ''5'')]"

lemma demo_ints: "env_int demo_env ''FORGE_CONTEXT_MAX_CHARS'' ''24000'' = Inr 24000"
  "env_int demo_env ''FORGE_MAX_TOOL_STEPS'' ''12'' = Inr 5"
  by code_simp+

lemma demo_choices:
  "demo_env \<noteq> []" "env_get demo_env ''FORGE_STORE'' ''sqlite'' = ''sqlite''"
  "env_get demo_env ''FORGE_REPOSITORY'' ''sqlite'' = ''sqlite''"
  "env_get demo_env ''FORGE_AUTHORIZATION'' ''default-allow'' = ''default-allow''"
  "env_get demo_env ''FORGE_SKILLS'' ''manual'' = ''manual''" "env_get demo_env ''FORGE_WORKSPACE'' ''local'' = ''local''"
  "env_get demo_env ''FORGE_EXECUTION'' ''local-process'' = ''local-process''"
  "env_get demo_env ''FORGE_CONTEXT'' ''bounded'' = ''bounded''"
  "harness_name demo_env (Some c) = ''langgraph''"
  "impala_of_env I root demo_env store ws authorization resolver = Inr (resolver, None)"
  by (simp_all add: demo_env_def env_get_def harness_name_def impala_of_env_def)

lemma demo_model: "\<exists>m. model_of_env (builtin_registry I) demo_env = Inr (Some m)"
  by (simp add: model_of_env_def create_plugin_def builtin_plugins deepseek_model_def keyword_defs demo_env_def)


text \<open>Wiring fails with an error of the domain, or because a number of the environment is none; the one other
  case is that of an Impala configuration \<open>resolve\<close> does not translate.\<close>

lemma wiring_errors:
  assumes "build_plugins I root env None = Inl e"
  shows "(\<exists>code msg. e = DomainError code msg \<and> code \<in> {DEPENDENCY_UNAVAILABLE, MODEL_NOT_CONFIGURED})
    \<or> e = ValueErr ''invalid literal for int() with base 10'' \<or> e = KeyErr ''IndexError''"
proof -
  have model: "\<exists>code msg. x = DomainError code msg \<and> code \<in> {DEPENDENCY_UNAVAILABLE, MODEL_NOT_CONFIGURED}"
    if "model_of_env (builtin_registry I) env' = Inl x" for env' x
    using that by (auto simp: model_of_env_def Let_def create_plugin_def builtin_plugins none_model_def deepseek_model_def
        keyword_defs split: if_splits)
  have config: "x = KeyErr ''IndexError'' \<or> x = binding_unavailable" if "resolve_binding c s = Inl x" for c s x
    using that by (auto simp: resolve_binding_def split: sum.splits if_splits)
  have impala: "(\<exists>msg. x = DomainError DEPENDENCY_UNAVAILABLE msg) \<or> x = KeyErr ''IndexError''"
    if "impala_of_env I root env' a b c d = Inl x" for env' a b c d x
    using that config unfolding impala_of_env_def Let_def
    by (auto simp: bindE_def binding_unavailable_def split: if_splits sum.splits)
  have number: "x = ValueErr ''invalid literal for int() with base 10''" if "env_int env' k v = Inl x" for env' k v x
    using that by (auto simp: env_int_def split: option.splits)
  show ?thesis
    using assms unfolding build_plugins_def Let_def option.case
    by (auto simp: create_builtin create_harness [unfolded harness_args_def] unknown_plugin_def bindE_def
        split: if_splits sum.splits prod.splits dest!: model impala number)
qed

end
