(* ===== verification/OpenApi.thy ===== *)
theory OpenApi
  imports GatewayHandlers
begin

text \<open>
  The published contract: \<open>scripts/export_contracts.py\<close>, which builds the OpenAPI document of the
  Platform interface and the table of Run transitions from the enumerations of \<open>contracts.py\<close> and
  the table of \<open>state_machine.py\<close>, and prints both as indented JSON. A schema is the dictionary the
  script builds, a value of \<^typ>\<open>json\<close> whose entries are in insertion order; the definitions follow
  the statements of the script.
\<close>

section \<open>Building blocks\<close>

definition ref_to :: "string \<Rightarrow> json" where
  "ref_to name = JObj [(''$ref'', JStr (''#/components/schemas/'' @ name))]"

definition string_with :: "json_dict \<Rightarrow> json" where
  "string_with entries = JObj (merge_dict [(''type'', JStr ''string'')] entries)"

definition obj_with :: "json_dict \<Rightarrow> string list \<Rightarrow> json" where
  "obj_with properties required = JObj [(''type'', JStr ''object''), (''additionalProperties'', JBool False),
     (''properties'', JObj properties), (''required'', JArr (map JStr required))]"

definition array_of :: "json \<Rightarrow> json" where
  "array_of item = JObj [(''type'', JStr ''array''), (''items'', item)]"

definition nullable :: "json \<Rightarrow> json" where
  "nullable schema = JObj [(''anyOf'', JArr [schema, JObj [(''type'', JStr ''null'')]])]"

definition uuid :: json where "uuid = string_with [(''format'', JStr ''uuid'')]"

definition date :: json where "date = string_with [(''format'', JStr ''date-time'')]"

definition integer :: json where
  "integer = JObj [(''type'', JStr ''integer''), (''minimum'', JInt 0)]"

text \<open>\<open>\{**schema, ...\}\<close>\<close>

definition with_entries :: "json \<Rightarrow> json_dict \<Rightarrow> json" where
  "with_entries schema entries = (case schema of JObj kvs \<Rightarrow> JObj (merge_dict kvs entries) | _ \<Rightarrow> schema)"

text \<open>\<open>[s.value for s in ...]\<close> over the members of an enumeration, in the order of its class.\<close>

definition enum_values :: "('a \<Rightarrow> string) \<Rightarrow> 'a list \<Rightarrow> json" where
  "enum_values val members = JArr (map (\<lambda>s. JStr (val s)) members)"

definition all_run_statuses :: "run_status list" where
  "all_run_statuses = [QUEUED, RUNNING, WAITING_USER, WAITING_EXTERNAL, RECOVERING, CANCELLING, SUCCEEDED,
     FAILED, CANCELLED, TIMED_OUT]"

definition all_message_statuses :: "message_status list" where
  "all_message_statuses = [Msg_QUEUED, Msg_RUNNING, Msg_WAITING_USER, Msg_WAITING_EXTERNAL, Msg_RECOVERING,
     Msg_CANCELLING, Msg_SUCCEEDED, Msg_FAILED, Msg_CANCELLED, Msg_TIMED_OUT]"

definition all_task_outcomes :: "task_outcome list" where
  "all_task_outcomes = [COMPLETED, PARTIAL, BLOCKED]"

definition all_tool_statuses :: "tool_status list" where
  "all_tool_statuses = [Tool_PREPARED, Tool_RUNNING, Tool_SUCCEEDED, Tool_FAILED, Tool_CANCELLED, Tool_UNKNOWN]"

definition all_event_types :: "event_type list" where
  "all_event_types = [RUN_ACCEPTED, RUN_STARTED, RUN_WAITING, RUN_RESUMED, RUN_RECOVERING,
     RUN_CANCEL_REQUESTED, RUN_FINISHED, MESSAGE_DELTA, MESSAGE_COMPLETED, TOOL_PREPARED, TOOL_STARTED,
     TOOL_OUTPUT, TOOL_FINISHED, TOOL_UNKNOWN, SKILL_ACTIVATED, SKILL_STARTED, SKILL_FINISHED,
     WORKSPACE_COMMITTED]"

definition all_platform_events :: "platform_event_type list" where
  "all_platform_events = [P_MESSAGE_ACCEPTED, P_MESSAGE_STARTED, P_MESSAGE_WAITING, P_MESSAGE_RESUMED,
     P_MESSAGE_RECOVERING, P_MESSAGE_CANCEL_REQUESTED, P_MESSAGE_FINISHED, P_MESSAGE_DELTA,
     P_MESSAGE_COMPLETED, P_TOOL_PREPARED, P_TOOL_STARTED, P_TOOL_OUTPUT, P_TOOL_FINISHED, P_TOOL_UNKNOWN,
     P_SKILL_ACTIVATED, P_SKILL_STARTED, P_SKILL_FINISHED, P_WORKSPACE_COMMITTED]"

definition all_error_codes :: "error_code list" where
  "all_error_codes = [INVALID_REQUEST, SESSION_NOT_FOUND, RUN_NOT_FOUND, IDEMPOTENCY_CONFLICT, STATE_CONFLICT,
     INVALID_TRANSITION, INVALID_EVENT_CURSOR, SKILL_NOT_FOUND, SKILL_INCOMPATIBLE, MODEL_NOT_CONFIGURED,
     EXECUTION_FAILED, EXECUTION_UNKNOWN, CAPABILITY_DENIED, RESOURCE_LIMIT, DEPENDENCY_UNAVAILABLE,
     MESSAGE_BUSY]"

definition all_business_codes :: "business_code list" where
  "all_business_codes = [B_OK, B_INVALID_REQUEST, B_SESSION_NOT_FOUND, B_MESSAGE_NOT_FOUND, B_STATE_CONFLICT,
     B_MESSAGE_BUSY, B_SKILL_INVALID, B_EXECUTION_FAILED, B_EXECUTION_UNKNOWN, B_MODEL_UNAVAILABLE,
     B_DEPENDENCY_UNAVAILABLE, B_INTERNAL_ERROR]"

section \<open>The schemas\<close>

definition run_status_schema :: "json" where
  "run_status_schema = string_with [(''enum'', enum_values run_status_value all_run_statuses)]"

definition message_status_schema :: "json" where
  "message_status_schema =
    string_with [(''enum'', enum_values message_status_value all_message_statuses)]"

definition task_outcome_schema :: "json" where
  "task_outcome_schema = string_with [(''enum'', enum_values task_outcome_value all_task_outcomes)]"

definition tool_status_schema :: "json" where
  "tool_status_schema = string_with [(''enum'', enum_values tool_status_value all_tool_statuses)]"

definition event_type_schema :: "json" where
  "event_type_schema = string_with [(''enum'', enum_values event_type_value all_event_types)]"

definition platform_event_type_schema :: "json" where
  "platform_event_type_schema =
    string_with [(''enum'', enum_values platform_event_value all_platform_events)]"

definition error_code_schema :: "json" where
  "error_code_schema = string_with [(''enum'', enum_values error_code_value all_error_codes)]"

definition business_code_schema :: "json" where
  "business_code_schema =
    string_with [(''enum'', enum_values business_code_value all_business_codes)]"

definition user_binding_schema :: "json" where
  "user_binding_schema =
    obj_with [
      (''scope_id'', string_with [(''minLength'', JInt 1), (''maxLength'', JInt 200)]),
      (''tenant_ref'', string_with [(''minLength'', JInt 1), (''maxLength'', JInt 200)]),
      (''user_ref'', string_with [(''minLength'', JInt 1), (''maxLength'', JInt 200)]),
      (''user_path'', string_with [(''minLength'', JInt 1)]),
      (''project_ref'', string_with [(''minLength'', JInt 1), (''maxLength'', JInt 200)]),
      (''project_path'', nullable (string_with [(''minLength'', JInt 1)])),
      (''storage_root'', string_with []), (''user_rel_path'', string_with []),
      (''project_rel_path'', string_with [])
      ] [''scope_id'', ''tenant_ref'', ''user_ref'', ''user_path'', ''project_ref'']"

definition execution_context_schema :: "json" where
  "execution_context_schema =
    obj_with [
      (''scope_id'', string_with [(''default'', JStr ''default'')]),
      (''actor_ref'', nullable (string_with [(''maxLength'', JInt 200)])),
      (''external_ref'', nullable (string_with [(''maxLength'', JInt 200)])),
      (''user_binding'', nullable (ref_to ''UserBinding''))] []"

definition skill_binding_schema :: "json" where
  "skill_binding_schema =
    obj_with [
      (''name'', string_with [(''minLength'', JInt 1), (''maxLength'', JInt 100)]),
      (''version'', nullable (string_with [(''maxLength'', JInt 100)]))] [''name'']"

definition skill_ref_schema :: "json" where
  "skill_ref_schema =
    obj_with [
      (''name'', string_with []), (''version'', string_with []), (''digest'', string_with []),
      (''bundle_ref'', string_with []),
      (''source_kind'', string_with [
        (''enum'', JArr [
          JStr ''LEGACY'', JStr ''USER_DEFAULT'', JStr ''EXPLICIT'', JStr ''DIRECT_PACKAGE''])]),
      (''source_path'', string_with []), (''user_ref'', string_with []),
      (''project_ref'', string_with [])
      ] [''name'', ''version'', ''digest'', ''bundle_ref'', ''source_kind'', ''source_path'',
      ''user_ref'', ''project_ref'']"

definition skill_info_schema :: "json" where
  "skill_info_schema =
    obj_with [
      (''name'', string_with []), (''version'', string_with []), (''digest'', string_with []),
      (''description'', string_with []),
      (''source_kind'', string_with [
        (''enum'', JArr [
          JStr ''LEGACY'', JStr ''USER_DEFAULT'', JStr ''EXPLICIT'', JStr ''DIRECT_PACKAGE''])]),
      (''source_path'', string_with [])
      ] [''name'', ''version'', ''digest'', ''description'', ''source_kind'', ''source_path'']"

definition session_create_schema :: "json" where
  "session_create_schema =
    obj_with [
      (''storage_root'', string_with [(''minLength'', JInt 1)]),
      (''user_rel_path'', string_with [(''minLength'', JInt 1)]),
      (''project_ref'', nullable (string_with [
        (''minLength'', JInt 1), (''maxLength'', JInt 200)])),
      (''project_rel_path'', nullable (string_with [(''minLength'', JInt 1)]))
      ] [''storage_root'', ''user_rel_path'']"

definition session_schema :: "json" where
  "session_schema =
    obj_with [
      (''session_id'', uuid), (''title'', string_with []), (''user_rel_path'', string_with []),
      (''project_ref'', nullable (string_with [])), (''project_rel_path'', string_with []),
      (''date_created'', with_entries date [(''readOnly'', JBool True)]),
      (''date_updated'', with_entries date [(''readOnly'', JBool True)])
      ] [''session_id'', ''title'', ''user_rel_path'', ''project_ref'', ''project_rel_path'',
      ''date_created'', ''date_updated'']"

definition send_message_create_schema :: "json" where
  "send_message_create_schema =
    obj_with [
      (''session_id'', uuid),
      (''input'', string_with [(''minLength'', JInt 1), (''maxLength'', JInt 100000)]),
      (''agent_ref'', string_with [(''default'', JStr ''general@1'')]),
      (''skill_paths'', nullable (with_entries (array_of (string_with [(''minLength'', JInt 1)])) [
        (''maxItems'', JInt 30), (''default'', JNull)]))] [''session_id'', ''input'']"

definition update_session_schema :: "json" where
  "update_session_schema =
    obj_with [
      (''session_id'', uuid),
      (''title'', string_with [(''minLength'', JInt 1), (''maxLength'', JInt 200)])
      ] [''session_id'', ''title'']"

definition run_create_schema :: "json" where
  "run_create_schema =
    obj_with [
      (''input'', string_with [(''minLength'', JInt 1), (''maxLength'', JInt 100000)]),
      (''agent_ref'', string_with [(''default'', JStr ''general@1'')]),
      (''skills'', with_entries (array_of (ref_to ''SkillBinding'')) [
        (''maxItems'', JInt 30), (''default'', JArr [])]),
      (''skill_paths'', nullable (with_entries (array_of (string_with [(''minLength'', JInt 1)])) [
        (''maxItems'', JInt 30), (''default'', JNull)])),
      (''context'', ref_to ''ExecutionContext'')] [''input'']"

definition accepted_run_schema :: "json" where
  "accepted_run_schema =
    obj_with [
      (''id'', uuid), (''session_id'', uuid), (''status'', ref_to ''RunStatus''),
      (''state_version'', integer), (''reused'', JObj [(''type'', JStr ''boolean'')])
      ] [''id'', ''session_id'', ''status'', ''state_version'', ''reused'']"

definition run_snapshot_schema :: "json" where
  "run_snapshot_schema =
    obj_with [
      (''agent_digest'', string_with []), (''runtime_ref'', string_with []),
      (''model_profile_ref'', string_with []), (''execution_profile_ref'', string_with []),
      (''skills'', array_of (ref_to ''SkillRef'')), (''tool_refs'', array_of (string_with [])),
      (''user_binding'', nullable (ref_to ''UserBinding'')),
      (''effective_skill_paths'', array_of (string_with [])),
      (''skill_path_source'', string_with [
        (''enum'', JArr [JStr ''LEGACY'', JStr ''USER_DEFAULT'', JStr ''EXPLICIT''])]),
      (''path_digest'', string_with [])
      ] [''agent_digest'', ''runtime_ref'', ''model_profile_ref'', ''execution_profile_ref'',
      ''skills'', ''tool_refs'', ''user_binding'', ''effective_skill_paths'',
      ''skill_path_source'', ''path_digest'']"

definition run_schema :: "json" where
  "run_schema =
    obj_with [
      (''id'', uuid), (''session_id'', uuid), (''run_seq'', integer),
      (''input'', string_with []), (''agent_ref'', string_with []),
      (''status'', ref_to ''RunStatus''), (''state_version'', integer),
      (''task_outcome'', nullable (ref_to ''TaskOutcome'')),
      (''wait_reason'', nullable (string_with [])), (''output'', nullable (string_with [])),
      (''error'', nullable (ref_to ''Error'')), (''snapshot'', ref_to ''RunSnapshot''),
      (''date_created'', date), (''date_updated'', date)
      ] [''id'', ''session_id'', ''run_seq'', ''input'', ''agent_ref'', ''status'',
      ''state_version'', ''task_outcome'', ''wait_reason'', ''output'', ''error'', ''snapshot'',
      ''date_created'', ''date_updated'']"

definition error_schema :: "json" where
  "error_schema =
    obj_with [
      (''code'', string_with []), (''message'', string_with []),
      (''retryable'', JObj [(''type'', JStr ''boolean'')]), (''request_id'', string_with [])
      ] [''code'', ''message'', ''retryable'', ''request_id'']"

definition error_response_schema :: "json" where
  "error_response_schema =
    obj_with [
      (''code'', ref_to ''BusinessCode''), (''message'', string_with []),
      (''data'', obj_with [] [])] [''code'', ''message'', ''data'']"

definition message_schema :: "json" where
  "message_schema =
    obj_with [
      (''message_id'', uuid), (''session_id'', uuid),
      (''message_seq'', JObj [(''type'', JStr ''integer''), (''minimum'', JInt 1)]),
      (''input'', string_with []), (''status'', ref_to ''MessageStatus''),
      (''task_outcome'', nullable (ref_to ''TaskOutcome'')),
      (''output'', nullable (string_with [])), (''error'', nullable (ref_to ''Error'')),
      (''date_created'', with_entries date [(''readOnly'', JBool True)]),
      (''date_updated'', with_entries date [(''readOnly'', JBool True)])
      ] [''message_id'', ''session_id'', ''message_seq'', ''input'', ''status'', ''task_outcome'',
      ''output'', ''error'', ''date_created'', ''date_updated'']"

definition event_schema :: "json" where
  "event_schema =
    obj_with [
      (''event_id'', uuid), (''session_id'', uuid), (''message_id'', uuid),
      (''seq'', JObj [(''type'', JStr ''integer''), (''minimum'', JInt 1)]),
      (''type'', ref_to ''PlatformEventType''), (''occurred_at'', date),
      (''data'', JObj [(''type'', JStr ''object''), (''additionalProperties'', JBool True)])
      ] [''event_id'', ''session_id'', ''message_id'', ''seq'', ''type'', ''occurred_at'',
      ''data'']"

definition pending_reply_schema :: "json" where
  "pending_reply_schema =
    obj_with [
      (''pending_id'', uuid), (''message_id'', uuid),
      (''kind'', string_with [
        (''enum'', JArr [
          JStr ''clarification'', JStr ''execution_reconciliation'', JStr ''approval''])]),
      (''prompt'', string_with [])] [''pending_id'', ''message_id'', ''kind'', ''prompt'']"

definition reply_create_schema :: "json" where
  "reply_create_schema =
    obj_with [
      (''message_id'', uuid), (''pending_id'', uuid),
      (''text'', string_with [(''minLength'', JInt 1), (''maxLength'', JInt 100000)])
      ] [''message_id'', ''pending_id'', ''text'']"

definition cancel_message_schema :: "json" where
  "cancel_message_schema = obj_with [(''message_id'', uuid)] [''message_id'']"

definition session_state_schema :: "json" where
  "session_state_schema =
    obj_with [
      (''session'', ref_to ''Session''),
      (''current_message'', nullable (obj_with [
        (''message_id'', uuid), (''status'', ref_to ''MessageStatus'')
        ] [''message_id'', ''status''])),
      (''pending_reply'', nullable (ref_to ''PendingReply'')),
      (''event_cursor'', string_with [])
      ] [''session'', ''current_message'', ''pending_reply'', ''event_cursor'']"

definition run_snapshot_view_schema :: "json" where
  "run_snapshot_view_schema =
    obj_with [
      (''run'', ref_to ''Run''), (''event_cursor'', string_with []),
      (''pending_responses'', array_of (ref_to ''PendingReply''))
      ] [''run'', ''event_cursor'', ''pending_responses'']"

definition file_info_schema :: "json" where
  "file_info_schema =
    obj_with [
      (''path'', string_with []), (''size_bytes'', integer), (''digest'', string_with [])
      ] [''path'', ''size_bytes'', ''digest'']"

definition file_content_schema :: "json" where
  "file_content_schema =
    obj_with [
      (''path'', string_with []), (''content'', string_with []), (''digest'', string_with []),
      (''truncated'', JObj [(''type'', JStr ''boolean'')])
      ] [''path'', ''content'', ''digest'', ''truncated'']"

definition health_schema :: "json" where
  "health_schema =
    obj_with [
      (''status'', string_with [(''enum'', JArr [JStr ''ok'', JStr ''degraded''])]),
      (''api_version'', string_with [(''enum'', JArr [JStr ''1''])]),
      (''model_configured'', JObj [(''type'', JStr ''boolean'')]),
      (''execution_backend'', string_with [(''enum'', JArr [JStr ''local_process''])]),
      (''permission_mode'', string_with [(''enum'', JArr [JStr ''default_allow''])]),
      (''isolation_mode'', string_with [(''enum'', JArr [JStr ''trusted_logical''])])
      ] [''status'', ''api_version'', ''model_configured'', ''execution_backend'',
      ''permission_mode'', ''isolation_mode'']"

definition first_schemas :: "json_dict" where
  "first_schemas =
    [(''RunStatus'', run_status_schema), (''MessageStatus'', message_status_schema),
      (''TaskOutcome'', task_outcome_schema), (''ToolStatus'', tool_status_schema),
      (''EventType'', event_type_schema), (''PlatformEventType'', platform_event_type_schema),
      (''ErrorCode'', error_code_schema), (''BusinessCode'', business_code_schema),
      (''UserBinding'', user_binding_schema), (''ExecutionContext'', execution_context_schema),
      (''SkillBinding'', skill_binding_schema), (''SkillRef'', skill_ref_schema),
      (''SkillInfo'', skill_info_schema), (''SessionCreate'', session_create_schema),
      (''Session'', session_schema), (''SendMessageCreate'', send_message_create_schema),
      (''UpdateSession'', update_session_schema), (''RunCreate'', run_create_schema),
      (''AcceptedRun'', accepted_run_schema), (''RunSnapshot'', run_snapshot_schema),
      (''Run'', run_schema), (''Error'', error_schema),
      (''ErrorResponse'', error_response_schema), (''Message'', message_schema),
      (''Event'', event_schema), (''PendingReply'', pending_reply_schema),
      (''ReplyCreate'', reply_create_schema), (''CancelMessage'', cancel_message_schema),
      (''SessionState'', session_state_schema), (''RunSnapshotView'', run_snapshot_view_schema),
      (''FileInfo'', file_info_schema), (''FileContent'', file_content_schema),
      (''Health'', health_schema)]"

section \<open>Event payloads\<close>

definition message_accepted_payload :: "json" where
  "message_accepted_payload =
    obj_with [
      (''message_id'', uuid), (''status'', string_with [(''enum'', JArr [JStr ''QUEUED''])])
      ] [''message_id'', ''status'']"

definition message_started_payload :: "json" where
  "message_started_payload =
    obj_with [
      (''message_id'', uuid), (''status'', string_with [(''enum'', JArr [JStr ''RUNNING''])])
      ] [''message_id'', ''status'']"

definition message_waiting_payload :: "json" where
  "message_waiting_payload =
    obj_with [
      (''message_id'', uuid),
      (''status'', string_with [
        (''enum'', JArr [JStr ''WAITING_USER'', JStr ''WAITING_EXTERNAL''])]),
      (''pending_reply'', nullable (ref_to ''PendingReply''))
      ] [''message_id'', ''status'', ''pending_reply'']"

definition message_resumed_payload :: "json" where
  "message_resumed_payload =
    obj_with [
      (''message_id'', uuid), (''status'', string_with [(''enum'', JArr [JStr ''QUEUED''])])
      ] [''message_id'', ''status'']"

definition message_recovering_payload :: "json" where
  "message_recovering_payload =
    obj_with [(''message_id'', uuid), (''reason'', string_with [])] [''message_id'', ''reason'']"

definition message_cancel_requested_payload :: "json" where
  "message_cancel_requested_payload =
    obj_with [
      (''message_id'', uuid), (''status'', string_with [(''enum'', JArr [JStr ''CANCELLING''])])
      ] [''message_id'', ''status'']"

definition message_finished_payload :: "json" where
  "message_finished_payload =
    obj_with [
      (''message_id'', uuid), (''status'', ref_to ''MessageStatus''),
      (''task_outcome'', nullable (ref_to ''TaskOutcome'')),
      (''output'', nullable (string_with [])), (''error'', nullable (ref_to ''Error''))
      ] [''message_id'', ''status'', ''task_outcome'', ''output'', ''error'']"

definition message_delta_payload :: "json" where
  "message_delta_payload = obj_with [(''text'', string_with [])] [''text'']"

definition message_completed_payload :: "json" where
  "message_completed_payload = obj_with [(''text'', string_with [])] [''text'']"

definition tool_prepared_payload :: "json" where
  "tool_prepared_payload =
    obj_with [
      (''operation_id'', uuid), (''tool_ref'', string_with []),
      (''input_summary'', string_with []), (''input'', string_with [])
      ] [''operation_id'', ''tool_ref'', ''input_summary'', ''input'']"

definition tool_started_payload :: "json" where
  "tool_started_payload =
    obj_with [
      (''operation_id'', uuid), (''tool_ref'', string_with [])] [''operation_id'', ''tool_ref'']"

definition tool_output_payload :: "json" where
  "tool_output_payload =
    obj_with [
      (''operation_id'', uuid),
      (''stream'', string_with [(''enum'', JArr [JStr ''stdout'', JStr ''stderr''])]),
      (''text'', string_with []), (''truncated'', JObj [(''type'', JStr ''boolean'')])
      ] [''operation_id'', ''stream'', ''text'', ''truncated'']"

definition tool_finished_payload :: "json" where
  "tool_finished_payload =
    obj_with [
      (''operation_id'', uuid),
      (''status'', string_with [
        (''enum'', JArr [JStr ''SUCCEEDED'', JStr ''FAILED'', JStr ''CANCELLED''])]),
      (''error'', nullable (ref_to ''Error''))] [''operation_id'', ''status'', ''error'']"

definition tool_unknown_payload :: "json" where
  "tool_unknown_payload =
    obj_with [
      (''operation_id'', uuid), (''reason'', string_with [])] [''operation_id'', ''reason'']"

definition skill_activated_payload :: "json" where
  "skill_activated_payload =
    obj_with [
      (''name'', string_with []), (''version'', string_with []), (''digest'', string_with [])
      ] [''name'', ''version'', ''digest'']"

definition skill_started_payload :: "json" where
  "skill_started_payload =
    obj_with [
      (''name'', string_with []), (''version'', string_with []), (''operation_id'', uuid)
      ] [''name'', ''version'', ''operation_id'']"

definition skill_finished_payload :: "json" where
  "skill_finished_payload =
    obj_with [
      (''name'', string_with []), (''version'', string_with []), (''operation_id'', uuid),
      (''status'', string_with [
        (''enum'', JArr [JStr ''SUCCEEDED'', JStr ''FAILED'', JStr ''CANCELLED''])])
      ] [''name'', ''version'', ''operation_id'', ''status'']"

definition workspace_committed_payload :: "json" where
  "workspace_committed_payload =
    obj_with [
      (''revision_id'', uuid), (''changed_paths'', array_of (string_with []))
      ] [''revision_id'', ''changed_paths'']"

definition event_payloads :: "json_dict" where
  "event_payloads =
    [(''message.accepted'', message_accepted_payload),
      (''message.started'', message_started_payload),
      (''message.waiting'', message_waiting_payload),
      (''message.resumed'', message_resumed_payload),
      (''message.recovering'', message_recovering_payload),
      (''message.cancel_requested'', message_cancel_requested_payload),
      (''message.finished'', message_finished_payload),
      (''message.delta'', message_delta_payload),
      (''message.completed'', message_completed_payload),
      (''tool.prepared'', tool_prepared_payload), (''tool.started'', tool_started_payload),
      (''tool.output'', tool_output_payload), (''tool.finished'', tool_finished_payload),
      (''tool.unknown'', tool_unknown_payload), (''skill.activated'', skill_activated_payload),
      (''skill.started'', skill_started_payload), (''skill.finished'', skill_finished_payload),
      (''workspace.committed'', workspace_committed_payload)]"

section \<open>The derived schemas\<close>

definition audit_field_schemas :: "json_dict" where
  "audit_field_schemas =
    [(''date_created'', with_entries date [(''readOnly'', JBool True)]),
      (''created_by'', string_with [(''maxLength'', JInt 200), (''readOnly'', JBool True)]),
      (''date_updated'', with_entries date [(''readOnly'', JBool True)]),
      (''updated_by'', string_with [(''maxLength'', JInt 200), (''readOnly'', JBool True)])]"

text \<open>
  Reading a key of a schema: the entries of an object, the names of a list; a missing key is empty.
\<close>

definition entries_at :: "string \<Rightarrow> json_dict \<Rightarrow> json_dict" where
  "entries_at key kvs = (case map_of kvs key of Some (JObj xs) \<Rightarrow> xs | _ \<Rightarrow> [])"

fun json_names :: "json list \<Rightarrow> string list" where
  "json_names [] = []"
| "json_names (JStr s # js) = s # json_names js"
| "json_names (_ # js) = json_names js"

definition names_at :: "string \<Rightarrow> json_dict \<Rightarrow> string list" where
  "names_at key kvs = (case map_of kvs key of Some (JArr xs) \<Rightarrow> json_names xs | _ \<Rightarrow> [])"

text \<open>\<open>list(dict.fromkeys(...))\<close> keeps the first of equal names.\<close>

definition first_of_each :: "string list \<Rightarrow> string list" where
  "first_of_each xs = map fst (dict_of (map (\<lambda>x. (x, ())) xs))"

definition add_audit_fields :: "string \<Rightarrow> json_dict \<Rightarrow> json_dict" where
  "add_audit_fields resource schemas = (let kvs = entries_at resource schemas in
     dict_set resource (JObj (dict_set ''required''
         (JArr (map JStr (first_of_each (names_at ''required'' kvs @ map fst audit_field_schemas))))
         (dict_set ''properties'' (JObj (merge_dict (entries_at ''properties'' kvs) audit_field_schemas)) kvs))) schemas)"

definition resource_schemas :: "json_dict" where
  "resource_schemas = foldl (\<lambda>schemas resource. add_audit_fields resource schemas)
     (dict_set ''AuditFields'' (obj_with audit_field_schemas (map fst audit_field_schemas)) first_schemas) [''Run'']"

definition event_schema_name :: "string \<Rightarrow> string" where
  "event_schema_name event_type = ''Event_'' @ map (\<lambda>c. if c = CHR ''.'' then CHR ''_'' else c) event_type"

definition event_base :: "json_dict" where
  "event_base = entries_at ''properties'' (entries_at ''Event'' resource_schemas)"

definition event_type_schema_of :: "string \<Rightarrow> json \<Rightarrow> json" where
  "event_type_schema_of event_type payload =
     obj_with (merge_dict event_base [(''type'', string_with [(''enum'', JArr [JStr event_type])]),
                                      (''data'', payload)]) (map fst event_base)"

definition event_union :: json where
  "event_union = JObj [(''oneOf'', JArr (map (\<lambda>(event_type, payload). ref_to (event_schema_name event_type)) event_payloads)),
     (''discriminator'', JObj [(''propertyName'', JStr ''type''),
       (''mapping'', JObj (map (\<lambda>(event_type, payload).
          (event_type, JStr (''#/components/schemas/'' @ event_schema_name event_type))) event_payloads))])]"

definition event_schemas :: "json_dict" where
  "event_schemas = dict_set ''Event'' event_union
     (foldl (\<lambda>schemas (event_type, payload).
        dict_set (event_schema_name event_type) (event_type_schema_of event_type payload) schemas)
      resource_schemas event_payloads)"

definition page_of :: "json \<Rightarrow> json" where
  "page_of item = obj_with [(''items'', array_of item), (''next_cursor'', nullable (string_with []))]
     [''items'', ''next_cursor'']"

definition page_schemas :: "json_dict" where
  "page_schemas = merge_dict event_schemas
     [(''SessionPage'', page_of (ref_to ''Session'')), (''MessagePage'', page_of (ref_to ''Message'')),
      (''RunPage'', page_of (ref_to ''Run'')), (''SkillPage'', page_of (ref_to ''SkillInfo'')),
      (''FilePage'', page_of (ref_to ''FileInfo'')),
      (''EventPage'', obj_with [(''items'', array_of (ref_to ''Event'')), (''next_after_seq'', nullable integer)]
         [''items'', ''next_after_seq''])]"

definition envelope :: "json \<Rightarrow> json" where
  "envelope data = obj_with [(''code'', string_with [(''enum'', JArr [JStr ''0000''])]),
     (''message'', string_with [(''enum'', JArr [JStr ''success''])]), (''data'', data)]
     [''code'', ''message'', ''data'']"

definition schemas :: "json_dict" where
  "schemas = foldl (\<lambda>schemas (name, data). dict_set name (envelope data) schemas) page_schemas
     [(''HealthEnvelope'', ref_to ''Health''), (''SessionEnvelope'', ref_to ''Session''),
      (''SessionPageEnvelope'', ref_to ''SessionPage''), (''MessageEnvelope'', ref_to ''Message''),
      (''MessagePageEnvelope'', ref_to ''MessagePage''), (''SessionStateEnvelope'', ref_to ''SessionState''),
      (''EventEnvelope'', ref_to ''Event''), (''EventPageEnvelope'', ref_to ''EventPage''),
      (''FilePageEnvelope'', ref_to ''FilePage''), (''FileContentEnvelope'', ref_to ''FileContent'')]"

section \<open>The paths\<close>

definition json_content :: "json \<Rightarrow> string \<Rightarrow> json" where
  "json_content schema media_type = JObj [(media_type, JObj [(''schema'', schema)])]"

definition errors :: "json_dict" where
  "errors = map (\<lambda>(n, label). (py_str_nat n, JObj [(''description'', JStr label),
       (''content'', json_content (ref_to ''ErrorResponse'') ''application/json'')]))
     [(400, ''Invalid request''), (404, ''Not found''), (409, ''Conflict''), (422, ''Validation error''),
      (503, ''Dependency unavailable'')]"

definition query_parameters :: "(string \<times> json) list \<Rightarrow> string list \<Rightarrow> json" where
  "query_parameters query required_names = JArr (map (\<lambda>(name, schema).
     JObj [(''name'', JStr name), (''in'', JStr ''query''), (''required'', JBool (name \<in> set required_names)),
       (''schema'', schema)]) query)"

definition event_stream_schema :: json where
  "event_stream_schema = JObj [(''type'', JStr ''string''), (''description'', JStr ''Wrapped SSE Event JSON.'')]"

definition operation_entry ::
  "string \<Rightarrow> string \<Rightarrow> string option \<Rightarrow> nat \<Rightarrow> (string \<times> json) list \<Rightarrow> string list \<Rightarrow> bool \<Rightarrow> json_dict" where
  "operation_entry op response body status query required_names sse =
     [(''operationId'', JStr op), (''parameters'', query_parameters query required_names),
      (''responses'', JObj (merge_dict
         [(py_str_nat status, JObj [(''description'', JStr ''Success''),
            (''content'', if sse then json_content event_stream_schema ''text/event-stream''
                        else json_content (ref_to response) ''application/json'')])] errors))]
     @ (case body of None \<Rightarrow> [] | Some name \<Rightarrow> [(''requestBody'', JObj [(''required'', JBool True),
          (''content'', json_content (ref_to name) ''application/json'')])])"

definition add ::
  "string \<Rightarrow> string \<Rightarrow> string \<Rightarrow> string \<Rightarrow> string option \<Rightarrow> nat \<Rightarrow> (string \<times> json) list \<Rightarrow> string list \<Rightarrow> bool
     \<Rightarrow> json_dict \<Rightarrow> json_dict" where
  "add path method op response body status query required_names sse paths =
     dict_set path (JObj (dict_set method
       (JObj (operation_entry op response body status query required_names sse)) (entries_at path paths))) paths"

definition paging :: "(string \<times> json) list" where
  "paging = [(''cursor'', string_with []), (''limit'', JObj [(''type'', JStr ''integer''), (''minimum'', JInt 1),
     (''maximum'', JInt 100), (''default'', JInt 50)])]"

definition event_paging :: "(string \<times> json) list" where
  "event_paging = [(''after_seq'', integer), (''limit'', JObj [(''type'', JStr ''integer''), (''minimum'', JInt 0),
     (''maximum'', JInt 1000), (''default'', JInt 200)])]"

definition paths :: "json_dict" where
  "paths = foldl (\<lambda>ps f. f ps) []
     [add ''/health'' ''get'' ''health'' ''HealthEnvelope'' None 200 [] [] False,
      add ''/v1/create-session'' ''post'' ''createSession'' ''SessionEnvelope'' (Some ''SessionCreate'') 201 [] [] False,
      add ''/v1/update-session'' ''post'' ''updateSession'' ''SessionEnvelope'' (Some ''UpdateSession'') 200 [] [] False,
      add ''/v1/get-session'' ''get'' ''getSession'' ''SessionEnvelope'' None 200
        [(''session_id'', uuid)] [''session_id''] False,
      add ''/v1/list-sessions'' ''get'' ''listSessions'' ''SessionPageEnvelope'' None 200
        ([(''user_rel_path'', string_with []), (''project_ref'', string_with [])] @ paging) [] False,
      add ''/v1/send-message'' ''post'' ''sendMessage'' ''EventEnvelope'' (Some ''SendMessageCreate'') 200 [] [] True,
      add ''/v1/cancel-message'' ''post'' ''cancelMessage'' ''MessageEnvelope'' (Some ''CancelMessage'') 200 [] [] False,
      add ''/v1/get-session-state'' ''get'' ''getSessionState'' ''SessionStateEnvelope'' None 200
        [(''session_id'', uuid)] [''session_id''] False,
      add ''/v1/get-message'' ''get'' ''getMessage'' ''MessageEnvelope'' None 200
        [(''message_id'', uuid)] [''message_id''] False,
      add ''/v1/list-session-messages'' ''get'' ''listSessionMessages'' ''MessagePageEnvelope'' None 200
        ([(''session_id'', uuid)] @ paging) [''session_id''] False,
      add ''/v1/reply'' ''post'' ''reply'' ''EventEnvelope'' (Some ''ReplyCreate'') 200 [] [] True,
      add ''/v1/stream-session-events'' ''get'' ''streamSessionEvents'' ''EventEnvelope'' None 200
        [(''session_id'', uuid), (''after_seq'', integer)] [''session_id''] True,
      add ''/v1/list-session-events'' ''get'' ''listSessionEvents'' ''EventPageEnvelope'' None 200
        ([(''session_id'', uuid)] @ event_paging) [''session_id''] False,
      add ''/v1/list-session-files'' ''get'' ''listSessionFiles'' ''FilePageEnvelope'' None 200
        [(''session_id'', uuid)] [''session_id''] False,
      add ''/v1/read-session-file'' ''get'' ''readSessionFile'' ''FileContentEnvelope'' None 200
        [(''session_id'', uuid), (''path'', string_with [(''minLength'', JInt 1), (''maxLength'', JInt 1000)])]
        [''session_id'', ''path''] False]"

definition spec :: "json" where
  "spec = JObj [(''openapi'', JStr ''3.1.0''),
     (''info'', JObj [(''title'', JStr ''Code Forge Runtime Integration Contract''), (''version'', JStr ''0.4.0''),
        (''description'', JStr (''Architecture contract; endpoints are not implemented yet. ''
           @ ''Trusted local verification uses default permissions and local subprocess execution.''))]),
     (''servers'', JArr [JObj [(''url'', JStr ''http://127.0.0.1:8000'')]]),
     (''paths'', JObj paths), (''components'', JObj [(''schemas'', JObj schemas)])]"

definition machine :: json where
  "machine = JObj (map (\<lambda>s. (run_status_value s,
     JArr (map JStr (sorted_list_of_set (run_status_value ` allowed_transitions s))))) all_run_statuses)"

section \<open>The two files\<close>

text \<open>\<open>json.dumps(..., indent=2)\<close>; the number is the depth of the value.\<close>

definition new_line :: "nat \<Rightarrow> string" where
  "new_line depth = CHR 0x0A # replicate (2 * depth) (CHR '' '')"

fun dumps_indent :: "nat \<Rightarrow> json \<Rightarrow> string" where
  "dumps_indent d (JArr xs) = (if xs = [] then ''[]''
     else ''['' @ new_line (d + 1) @ py_join ('','' @ new_line (d + 1)) (map (dumps_indent (d + 1)) xs)
          @ new_line d @ '']'')"
| "dumps_indent d (JObj kvs) = (if kvs = [] then ''{}''
     else ''{'' @ new_line (d + 1)
          @ py_join ('','' @ new_line (d + 1)) (map (\<lambda>(k, v). quote_str k @ '': '' @ dumps_indent (d + 1) v) kvs)
          @ new_line d @ ''}'')"
| "dumps_indent d j = dumps False '', '' '': '' j"

definition exported_files :: "(string \<times> string) list" where
  "exported_files =
     [(''docs/api/openapi.json'', utf8_encode (dumps_indent 0 spec @ [CHR 0x0A])),
      (''docs/api/run-state-machine.json'', utf8_encode (dumps_indent 0 machine @ [CHR 0x0A]))]"

end
