(* ===== verification/ApiSchemas.thy ===== *)
theory ApiSchemas
  imports OpenApi GatewayAnswers
begin

text \<open>
  Which values a schema of the published contract has (\<open>scripts/export_contracts.py\<close>), by the part of
  JSON Schema the document uses; \<open>format\<close> is an annotation there and constrains nothing. Rules for the
  building blocks of the script and the schemas by name follow.
\<close>

named_theorems accept_rules \<open>which values a schema built by the script accepts\<close>

section \<open>The values of a schema\<close>

fun has_type :: "string \<Rightarrow> json \<Rightarrow> bool" where
  "has_type t JNull = (t = ''null'')"
| "has_type t (JBool b) = (t = ''boolean'')"
| "has_type t (JInt i) = (t = ''integer'')"
| "has_type t (JStr s) = (t = ''string'')"
| "has_type t (JArr xs) = (t = ''array'')"
| "has_type t (JObj kvs) = (t = ''object'')"

definition int_at :: "string \<Rightarrow> json_dict \<Rightarrow> int \<Rightarrow> int" where
  "int_at key kvs default_value = (case map_of kvs key of Some (JInt i) \<Rightarrow> i | _ \<Rightarrow> default_value)"

fun within_limits :: "json_dict \<Rightarrow> json \<Rightarrow> bool" where
  "within_limits kvs (JStr s) \<longleftrightarrow> int_at ''minLength'' kvs 0 \<le> int (length s)
     \<and> int (length s) \<le> int_at ''maxLength'' kvs (int (length s))"
| "within_limits kvs (JInt i) \<longleftrightarrow> int_at ''minimum'' kvs i \<le> i \<and> i \<le> int_at ''maximum'' kvs i"
| "within_limits kvs (JArr xs) \<longleftrightarrow> int (length xs) \<le> int_at ''maxItems'' kvs (int (length xs))"
| "within_limits kvs _ \<longleftrightarrow> True"

definition referred :: "json_dict \<Rightarrow> string \<Rightarrow> json option" where
  "referred S r = (let prefix = ''#/components/schemas/'' in
     if take (length prefix) r = prefix then map_of S (drop (length prefix) r) else None)"

definition schemas_at :: "string \<Rightarrow> json_dict \<Rightarrow> json list" where
  "schemas_at key kvs = (case map_of kvs key of Some (JArr xs) \<Rightarrow> xs | _ \<Rightarrow> [])"

text \<open>
  One node of a schema: its references, the plain keywords, the parts of an object or array, and the
  combinations. \<open>f\<close> says which values the schemas below the node have, and \<open>S\<close> resolves references.
\<close>

definition node_plain :: "json_dict \<Rightarrow> json \<Rightarrow> bool" where
  "node_plain kvs v \<longleftrightarrow>
     (case map_of kvs ''type'' of Some (JStr t) \<Rightarrow> has_type t v | _ \<Rightarrow> True)
     \<and> (case map_of kvs ''enum'' of Some (JArr xs) \<Rightarrow> v \<in> set xs | _ \<Rightarrow> True)
     \<and> within_limits kvs v"

definition node_target :: "json_dict \<Rightarrow> json_dict \<Rightarrow> json option option" where
  "node_target S kvs = (case map_of kvs ''$ref'' of Some (JStr r) \<Rightarrow> Some (referred S r) | _ \<Rightarrow> None)"

definition node_parts :: "(json \<Rightarrow> json \<Rightarrow> bool) \<Rightarrow> json_dict \<Rightarrow> json \<Rightarrow> bool" where
  "node_parts f kvs v = (let properties = entries_at ''properties'' kvs in case v of
     JObj entries \<Rightarrow>
       list_all (\<lambda>(k, p). case map_of entries k of None \<Rightarrow> True | Some x \<Rightarrow> f p x) properties
       \<and> set (names_at ''required'' kvs) \<subseteq> set (map fst entries)
       \<and> (map_of kvs ''additionalProperties'' = Some (JBool False) \<longrightarrow> set (map fst entries) \<subseteq> set (map fst properties))
   | JArr xs \<Rightarrow> (case map_of kvs ''items'' of None \<Rightarrow> True | Some p \<Rightarrow> list_all (f p) xs)
   | _ \<Rightarrow> True)"

definition node_choices :: "(json \<Rightarrow> json \<Rightarrow> bool) \<Rightarrow> json_dict \<Rightarrow> json \<Rightarrow> bool" where
  "node_choices f kvs v \<longleftrightarrow>
     (map_of kvs ''anyOf'' \<noteq> None \<longrightarrow> list_ex (\<lambda>p. f p v) (schemas_at ''anyOf'' kvs))
     \<and> (map_of kvs ''oneOf'' \<noteq> None \<longrightarrow> length (filter (\<lambda>p. f p v) (schemas_at ''oneOf'' kvs)) = 1)"

definition node_accepts :: "json_dict \<Rightarrow> (json \<Rightarrow> json \<Rightarrow> bool) \<Rightarrow> json_dict \<Rightarrow> json \<Rightarrow> bool" where
  "node_accepts S f kvs v \<longleftrightarrow> node_plain kvs v \<and> node_parts f kvs v \<and> node_choices f kvs v
     \<and> (case node_target S kvs of None \<Rightarrow> True | Some None \<Rightarrow> False | Some (Some t) \<Rightarrow> f t v)"

definition parts_below :: "json_dict \<Rightarrow> json_dict \<Rightarrow> json list" where
  "parts_below S kvs = (case node_target S kvs of Some (Some t) \<Rightarrow> [t] | _ \<Rightarrow> [])
     @ map snd (entries_at ''properties'' kvs) @ (case map_of kvs ''items'' of None \<Rightarrow> [] | Some p \<Rightarrow> [p])
     @ schemas_at ''anyOf'' kvs @ schemas_at ''oneOf'' kvs"

text \<open>
  \<open>accepts S n schema v\<close>: \<open>v\<close> is a value of the schema, where \<open>n\<close> bounds how deep schemas and references
  are followed. \<open>ends_within S n schema\<close>: they end within \<open>n\<close> steps, so more steps change nothing.
\<close>

primrec accepts :: "json_dict \<Rightarrow> nat \<Rightarrow> json \<Rightarrow> json \<Rightarrow> bool" where
  "accepts S 0 schema v = False"
| "accepts S (Suc n) schema v = (case schema of JObj kvs \<Rightarrow> node_accepts S (accepts S n) kvs v | _ \<Rightarrow> False)"

primrec ends_within :: "json_dict \<Rightarrow> nat \<Rightarrow> json \<Rightarrow> bool" where
  "ends_within S 0 schema = False"
| "ends_within S (Suc n) schema = (case schema of JObj kvs \<Rightarrow> list_all (ends_within S n) (parts_below S kvs) | _ \<Rightarrow> True)"

lemma node_parts_cong:
  assumes "\<forall>p \<in> set (parts_below S kvs). \<forall>x. f p x = g p x" shows "node_parts f kvs v = node_parts g kvs v"
proof -
  have "f p x = g p x" if "(k, p) \<in> set (entries_at ''properties'' kvs)" for k p x
    using assms that by (force simp: parts_below_def)
  moreover have "f p x = g p x" if "map_of kvs ''items'' = Some p" for p x
    using assms that by (simp add: parts_below_def)
  ultimately show ?thesis
    by (cases v) (auto simp: node_parts_def Let_def list_all_iff split: option.split)
qed

lemma node_choices_cong:
  assumes "\<forall>p \<in> set (parts_below S kvs). \<forall>x. f p x = g p x" shows "node_choices f kvs v = node_choices g kvs v"
proof -
  have "filter (\<lambda>p. f p v) (schemas_at ''oneOf'' kvs) = filter (\<lambda>p. g p v) (schemas_at ''oneOf'' kvs)"
    using assms by (intro filter_cong) (auto simp: parts_below_def)
  moreover have "list_ex (\<lambda>p. f p v) (schemas_at ''anyOf'' kvs) = list_ex (\<lambda>p. g p v) (schemas_at ''anyOf'' kvs)"
    using assms by (auto simp: parts_below_def list_ex_iff)
  ultimately show ?thesis by (simp add: node_choices_def)
qed

lemma node_accepts_cong:
  assumes "\<forall>p \<in> set (parts_below S kvs). \<forall>x. f p x = g p x" shows "node_accepts S f kvs v = node_accepts S g kvs v"
proof -
  have "f t v = g t v" if "node_target S kvs = Some (Some t)" for t
    using assms that by (simp add: parts_below_def)
  then have "(case node_target S kvs of None \<Rightarrow> True | Some None \<Rightarrow> False | Some (Some t) \<Rightarrow> f t v)
      = (case node_target S kvs of None \<Rightarrow> True | Some None \<Rightarrow> False | Some (Some t) \<Rightarrow> g t v)"
    by (cases "node_target S kvs"; cases "the (node_target S kvs)") simp_all
  then show ?thesis
    unfolding node_accepts_def node_parts_cong [OF assms] node_choices_cong [OF assms] by (rule arg_cong)
qed

lemma accepts_ends_within: "ends_within S n schema \<Longrightarrow> n \<le> m \<Longrightarrow> accepts S m schema v = accepts S n schema v"
proof (induction n arbitrary: m schema v)
  case 0 then show ?case by simp
next
  case (Suc n)
  obtain k where m: "m = Suc k" "n \<le> k" using Suc.prems(2) by (cases m) auto
  show ?case
  proof (cases schema)
    case (JObj kvs)
    have "list_all (ends_within S n) (parts_below S kvs)" using Suc.prems(1) JObj by simp
    then have same: "\<forall>p \<in> set (parts_below S kvs). \<forall>x. accepts S k p x = accepts S n p x"
      using Suc.IH [OF _ m(2)] unfolding list_all_iff by blast
    show ?thesis unfolding m(1) JObj accepts.simps json.case by (rule node_accepts_cong [OF same])
  qed (simp_all add: m(1))
qed

section \<open>Which values the script's building blocks have\<close>

lemma accepts_ref [accept_rules]:
  "accepts S (Suc n) (ref_to name) v \<longleftrightarrow> (case map_of S name of None \<Rightarrow> False | Some t \<Rightarrow> accepts S n t v)"
  by (cases v) (simp_all add: ref_to_def node_accepts_def node_plain_def node_parts_def node_choices_def
    node_target_def referred_def entries_at_def names_at_def int_at_def split: option.split)

lemma json_names_strs [simp]: "json_names (map JStr xs) = xs"
  by (induction xs) simp_all

lemma accepts_obj [accept_rules]:
  "accepts S (Suc n) (obj_with ps required) v \<longleftrightarrow> (\<exists>entries. v = JObj entries
     \<and> list_all (\<lambda>(k, p). case map_of entries k of None \<Rightarrow> True | Some x \<Rightarrow> accepts S n p x) ps
     \<and> set required \<subseteq> set (map fst entries) \<and> set (map fst entries) \<subseteq> set (map fst ps))"
  by (cases v) (simp_all add: obj_with_def node_accepts_def node_plain_def node_parts_def node_choices_def
    node_target_def entries_at_def names_at_def Let_def)

lemma accepts_array [accept_rules]:
  "accepts S (Suc n) (array_of p) v \<longleftrightarrow> (\<exists>xs. v = JArr xs \<and> list_all (accepts S n p) xs)"
  by (cases v) (simp_all add: array_of_def node_accepts_def node_plain_def node_parts_def node_choices_def
    node_target_def entries_at_def names_at_def int_at_def Let_def)

lemma accepts_null: "accepts S (Suc n) (JObj [(''type'', JStr ''null'')]) v \<longleftrightarrow> v = JNull"
  by (cases v) (simp_all add: node_accepts_def node_plain_def node_parts_def node_choices_def
    node_target_def entries_at_def names_at_def int_at_def Let_def)

lemma accepts_nullable [accept_rules]:
  "accepts S (Suc (Suc n)) (nullable p) v \<longleftrightarrow> accepts S (Suc n) p v \<or> v = JNull"
proof -
  have "accepts S (Suc (Suc n)) (nullable p) v \<longleftrightarrow> list_ex (\<lambda>q. accepts S (Suc n) q v) [p, JObj [(''type'', JStr ''null'')]]"
    by (subst accepts.simps(2), cases v) (simp_all add: nullable_def node_accepts_def node_plain_def node_parts_def
      node_choices_def node_target_def entries_at_def names_at_def int_at_def schemas_at_def Let_def del: accepts.simps)
  then show ?thesis by (simp add: accepts_null del: accepts.simps)
qed

lemma map_of_dict_set: "map_of (dict_set k v d) = (map_of d)(k \<mapsto> v)"
  by (induction d rule: dict_set.induct) auto

lemma accepts_plain:
  assumes "map_of kvs ''$ref'' = None" "map_of kvs ''anyOf'' = None" "map_of kvs ''oneOf'' = None"
    "map_of kvs ''properties'' = None" "map_of kvs ''items'' = None" "map_of kvs ''required'' = None"
    "map_of kvs ''additionalProperties'' = None"
  shows "accepts S (Suc n) (JObj kvs) v \<longleftrightarrow> node_plain kvs v"
  using assms by (cases v) (simp_all add: node_accepts_def node_parts_def node_choices_def node_target_def
    entries_at_def names_at_def)

lemma has_type_iff: "has_type ''string'' v \<longleftrightarrow> (\<exists>s. v = JStr s)" "has_type ''integer'' v \<longleftrightarrow> (\<exists>i. v = JInt i)"
  "has_type ''boolean'' v \<longleftrightarrow> (\<exists>b. v = JBool b)"
  by (cases v; simp)+

lemmas plain_defs = node_plain_def merge_dict_def has_type_iff int_at_def

lemma accepts_strings [accept_rules]:
  "accepts S (Suc n) (string_with []) v \<longleftrightarrow> (\<exists>s. v = JStr s)"
  "accepts S (Suc n) (string_with [(''enum'', JArr xs)]) v \<longleftrightarrow> (\<exists>s. v = JStr s \<and> JStr s \<in> set xs)"
  "accepts S (Suc n) (string_with [(''enum'', enum_values val ms)]) v \<longleftrightarrow> (\<exists>m \<in> set ms. v = JStr (val m))"
  "accepts S (Suc n) (string_with [(''minLength'', JInt a), (''maxLength'', JInt b)]) v
     \<longleftrightarrow> (\<exists>s. v = JStr s \<and> a \<le> int (length s) \<and> int (length s) \<le> b)"
  "accepts S (Suc n) (string_with [(''minLength'', JInt a)]) v \<longleftrightarrow> (\<exists>s. v = JStr s \<and> a \<le> int (length s))"
  by (auto simp: string_with_def accepts_plain plain_defs enum_values_def simp del: accepts.simps)

lemma accepts_uuid_date [accept_rules]:
  "accepts S (Suc n) uuid v \<longleftrightarrow> (\<exists>s. v = JStr s)" "accepts S (Suc n) date v \<longleftrightarrow> (\<exists>s. v = JStr s)"
  "accepts S (Suc n) (with_entries date [(''readOnly'', JBool True)]) v \<longleftrightarrow> (\<exists>s. v = JStr s)"
  by (auto simp: uuid_def date_def with_entries_def string_with_def accepts_plain plain_defs simp del: accepts.simps)

lemma accepts_numbers [accept_rules]:
  "accepts S (Suc n) integer v \<longleftrightarrow> (\<exists>i. v = JInt i \<and> 0 \<le> i)"
  "accepts S (Suc n) (JObj [(''type'', JStr ''integer''), (''minimum'', JInt a)]) v \<longleftrightarrow> (\<exists>i. v = JInt i \<and> a \<le> i)"
  "accepts S (Suc n) (JObj [(''type'', JStr ''boolean'')]) v \<longleftrightarrow> (\<exists>b. v = JBool b)"
  by (auto simp: integer_def accepts_plain plain_defs simp del: accepts.simps)

declare accepts.simps [simp del]

section \<open>The schemas by name\<close>

lemma run_audited: "map_of resource_schemas name = (if name = ''AuditFields'' then Some (obj_with audit_field_schemas (map fst audit_field_schemas))
    else if name = ''Run'' then map_of resource_schemas ''Run'' else map_of first_schemas name)"
  by (simp add: resource_schemas_def add_audit_fields_def map_of_dict_set Let_def)

lemma event_base_value: "event_base = [(''event_id'', uuid), (''session_id'', uuid), (''message_id'', uuid),
   (''seq'', JObj [(''type'', JStr ''integer''), (''minimum'', JInt 1)]),
   (''type'', ref_to ''PlatformEventType''), (''occurred_at'', date),
   (''data'', JObj [(''type'', JStr ''object''), (''additionalProperties'', JBool True)])]"
  by (simp add: event_base_def entries_at_def run_audited first_schemas_def event_schema_def obj_with_def)

lemma event_names: "map (\<lambda>(event_type, payload). event_schema_name event_type) event_payloads =
  [''Event_message_accepted'', ''Event_message_started'', ''Event_message_waiting'', ''Event_message_resumed'', ''Event_message_recovering'', ''Event_message_cancel_requested'', ''Event_message_finished'', ''Event_message_delta'', ''Event_message_completed'', ''Event_tool_prepared'', ''Event_tool_started'', ''Event_tool_output'', ''Event_tool_finished'', ''Event_tool_unknown'', ''Event_skill_activated'', ''Event_skill_started'', ''Event_skill_finished'', ''Event_workspace_committed'']"
  by (simp add: event_payloads_def event_schema_name_def)

lemma schemas_map: "map_of schemas = (map_of resource_schemas)(
     ''Event_message_accepted'' \<mapsto> event_type_schema_of ''message.accepted'' message_accepted_payload,
     ''Event_message_started'' \<mapsto> event_type_schema_of ''message.started'' message_started_payload,
     ''Event_message_waiting'' \<mapsto> event_type_schema_of ''message.waiting'' message_waiting_payload,
     ''Event_message_resumed'' \<mapsto> event_type_schema_of ''message.resumed'' message_resumed_payload,
     ''Event_message_recovering'' \<mapsto> event_type_schema_of ''message.recovering'' message_recovering_payload,
     ''Event_message_cancel_requested'' \<mapsto> event_type_schema_of ''message.cancel_requested'' message_cancel_requested_payload,
     ''Event_message_finished'' \<mapsto> event_type_schema_of ''message.finished'' message_finished_payload,
     ''Event_message_delta'' \<mapsto> event_type_schema_of ''message.delta'' message_delta_payload,
     ''Event_message_completed'' \<mapsto> event_type_schema_of ''message.completed'' message_completed_payload,
     ''Event_tool_prepared'' \<mapsto> event_type_schema_of ''tool.prepared'' tool_prepared_payload,
     ''Event_tool_started'' \<mapsto> event_type_schema_of ''tool.started'' tool_started_payload,
     ''Event_tool_output'' \<mapsto> event_type_schema_of ''tool.output'' tool_output_payload,
     ''Event_tool_finished'' \<mapsto> event_type_schema_of ''tool.finished'' tool_finished_payload,
     ''Event_tool_unknown'' \<mapsto> event_type_schema_of ''tool.unknown'' tool_unknown_payload,
     ''Event_skill_activated'' \<mapsto> event_type_schema_of ''skill.activated'' skill_activated_payload,
     ''Event_skill_started'' \<mapsto> event_type_schema_of ''skill.started'' skill_started_payload,
     ''Event_skill_finished'' \<mapsto> event_type_schema_of ''skill.finished'' skill_finished_payload,
     ''Event_workspace_committed'' \<mapsto> event_type_schema_of ''workspace.committed'' workspace_committed_payload,
     ''Event'' \<mapsto> event_union,
     ''SessionPage'' \<mapsto> page_of (ref_to ''Session''),
     ''MessagePage'' \<mapsto> page_of (ref_to ''Message''),
     ''RunPage'' \<mapsto> page_of (ref_to ''Run''),
     ''SkillPage'' \<mapsto> page_of (ref_to ''SkillInfo''),
     ''FilePage'' \<mapsto> page_of (ref_to ''FileInfo''),
     ''EventPage'' \<mapsto> obj_with [(''items'', array_of (ref_to ''Event'')), (''next_after_seq'', nullable integer)]
       [''items'', ''next_after_seq''],
     ''HealthEnvelope'' \<mapsto> envelope (ref_to ''Health''),
     ''SessionEnvelope'' \<mapsto> envelope (ref_to ''Session''),
     ''SessionPageEnvelope'' \<mapsto> envelope (ref_to ''SessionPage''),
     ''MessageEnvelope'' \<mapsto> envelope (ref_to ''Message''),
     ''MessagePageEnvelope'' \<mapsto> envelope (ref_to ''MessagePage''),
     ''SessionStateEnvelope'' \<mapsto> envelope (ref_to ''SessionState''),
     ''EventEnvelope'' \<mapsto> envelope (ref_to ''Event''),
     ''EventPageEnvelope'' \<mapsto> envelope (ref_to ''EventPage''),
     ''FilePageEnvelope'' \<mapsto> envelope (ref_to ''FilePage''),
     ''FileContentEnvelope'' \<mapsto> envelope (ref_to ''FileContent''))"
  by (simp add: schemas_def page_schemas_def event_schemas_def event_payloads_def merge_dict_def map_of_dict_set
    event_schema_name_def)

lemma lookup_first: "name \<notin> {''AuditFields'', ''Run''} \<Longrightarrow> map_of resource_schemas name = map_of first_schemas name"
  by (simp add: run_audited)

lemma lookup_views [accept_rules]:
  "map_of schemas ''Session'' = Some session_schema" "map_of schemas ''Message'' = Some message_schema"
  "map_of schemas ''PendingReply'' = Some pending_reply_schema" "map_of schemas ''Error'' = Some error_schema"
  "map_of schemas ''ErrorResponse'' = Some error_response_schema"
  "map_of schemas ''SessionState'' = Some session_state_schema" "map_of schemas ''FileInfo'' = Some file_info_schema"
  "map_of schemas ''FileContent'' = Some file_content_schema" "map_of schemas ''Health'' = Some health_schema"
  "map_of schemas ''Event'' = Some event_union"
  by (simp_all add: schemas_map lookup_first first_schemas_def)

lemma lookup_pages [accept_rules]:
  "map_of schemas ''SessionPage'' = Some (page_of (ref_to ''Session''))"
  "map_of schemas ''MessagePage'' = Some (page_of (ref_to ''Message''))"
  "map_of schemas ''FilePage'' = Some (page_of (ref_to ''FileInfo''))"
  "map_of schemas ''EventPage'' = Some (obj_with [(''items'', array_of (ref_to ''Event'')),
     (''next_after_seq'', nullable integer)] [''items'', ''next_after_seq''])"
  by (simp_all add: schemas_map)

lemma lookup_enums [accept_rules]:
  "map_of schemas ''MessageStatus'' = Some message_status_schema"
  "map_of schemas ''TaskOutcome'' = Some task_outcome_schema"
  "map_of schemas ''BusinessCode'' = Some business_code_schema"
  "map_of schemas ''PlatformEventType'' = Some platform_event_type_schema"
  by (simp_all add: schemas_map lookup_first first_schemas_def)

lemma lookup_envelope [accept_rules]:
  "map_of schemas (name @ ''Envelope'') = Some (envelope (ref_to name))"
  if "name \<in> {''Health'', ''Session'', ''SessionPage'', ''Message'', ''MessagePage'', ''SessionState'', ''Event'',
     ''EventPage'', ''FilePage'', ''FileContent''}"
  using that by (elim insertE emptyE; simp add: schemas_map)

section \<open>The whole table\<close>

definition audited_run :: json where
  "audited_run = obj_with [
      (''id'', uuid), (''session_id'', uuid), (''run_seq'', integer),
      (''input'', string_with []), (''agent_ref'', string_with []),
      (''status'', ref_to ''RunStatus''), (''state_version'', integer),
      (''task_outcome'', nullable (ref_to ''TaskOutcome'')),
      (''wait_reason'', nullable (string_with [])), (''output'', nullable (string_with [])),
      (''error'', nullable (ref_to ''Error'')), (''snapshot'', ref_to ''RunSnapshot''),
      (''date_created'', with_entries date [(''readOnly'', JBool True)]), (''date_updated'', with_entries date [(''readOnly'', JBool True)]),
      (''created_by'', string_with [(''maxLength'', JInt 200), (''readOnly'', JBool True)]),
      (''updated_by'', string_with [(''maxLength'', JInt 200), (''readOnly'', JBool True)])] [
      ''id'', ''session_id'', ''run_seq'', ''input'', ''agent_ref'', ''status'',
      ''state_version'', ''task_outcome'', ''wait_reason'', ''output'', ''error'', ''snapshot'',
      ''date_created'', ''date_updated'', ''created_by'', ''updated_by'']"

lemma resource_schemas_list: "resource_schemas = map (\<lambda>(name, s). (name, if name = ''Run'' then audited_run else s)) first_schemas
    @ [(''AuditFields'', obj_with audit_field_schemas (map fst audit_field_schemas))]"
  by (simp add: entries_at_def resource_schemas_def add_audit_fields_def Let_def first_schemas_def
    run_schema_def obj_with_def names_at_def first_of_each_def dict_of_def audit_field_schemas_def merge_dict_def audited_run_def)

lemma dict_set_present:
  "distinct (map fst d) \<Longrightarrow> k \<in> set (map fst d) \<Longrightarrow> dict_set k v d = map (\<lambda>(k', v'). (k', if k' = k then v else v')) d"
proof (induction d rule: dict_set.induct)
  case (2 k v k' v' kvs)
  show ?case
  proof (cases "k = k'")
    case True
    then have "map (\<lambda>(k', v'). (k', if k' = k then v else v')) kvs = kvs"
      using "2.prems" by (intro map_idI) (force split: prod.split)
    then show ?thesis using True by simp
  qed (use 2 in auto)
qed simp

definition event_entries :: "json_dict" where
  "event_entries = map (\<lambda>(t, p). (event_schema_name t, event_type_schema_of t p)) event_payloads"

definition page_entries :: "json_dict" where
  "page_entries = [(''SessionPage'', page_of (ref_to ''Session'')), (''MessagePage'', page_of (ref_to ''Message'')),
      (''RunPage'', page_of (ref_to ''Run'')), (''SkillPage'', page_of (ref_to ''SkillInfo'')),
      (''FilePage'', page_of (ref_to ''FileInfo'')),
      (''EventPage'', obj_with [(''items'', array_of (ref_to ''Event'')), (''next_after_seq'', nullable integer)]
         [''items'', ''next_after_seq''])]"

definition envelope_entries :: "json_dict" where
  "envelope_entries = map (\<lambda>name. (name @ ''Envelope'', envelope (ref_to name)))
     [''Health'', ''Session'', ''SessionPage'', ''Message'', ''MessagePage'', ''SessionState'', ''Event'', ''EventPage'',
      ''FilePage'', ''FileContent'']"

lemma schema_names: "distinct (map fst (resource_schemas @ event_entries @ page_entries @ envelope_entries))"
  by (simp add: resource_schemas_list first_schemas_def event_entries_def event_payloads_def event_schema_name_def
    page_entries_def envelope_entries_def)

lemma schemas_list: "schemas = map (\<lambda>(name, s). (name, if name = ''Event'' then event_union else s))
    (resource_schemas @ event_entries) @ page_entries @ envelope_entries"
proof -
  have set: "foldl (\<lambda>d (k, v). dict_set k v d) d kvs = d @ kvs" if "distinct (map fst (d @ kvs))" for d kvs :: json_dict
    using that by (rule dict_of_aux)
  have "foldl (\<lambda>schemas (t, p). dict_set (event_schema_name t) (event_type_schema_of t p) schemas) resource_schemas ps
      = foldl (\<lambda>d (k, v). dict_set k v d) resource_schemas (map (\<lambda>(t, p). (event_schema_name t, event_type_schema_of t p)) ps)" for ps
    by (simp add: foldl_map case_prod_unfold)
  moreover have d1: "distinct (map fst (resource_schemas @ event_entries))" using schema_names by auto
  ultimately have "event_schemas = dict_set ''Event'' event_union (resource_schemas @ event_entries)"
    unfolding event_schemas_def event_entries_def [symmetric] by (metis set [OF d1] event_entries_def)
  also have "\<dots> = map (\<lambda>(name, s). (name, if name = ''Event'' then event_union else s)) (resource_schemas @ event_entries)"
    using d1 by (intro dict_set_present) (auto simp: resource_schemas_list first_schemas_def)
  finally have ev: "event_schemas = map (\<lambda>(name, s). (name, if name = ''Event'' then event_union else s))
    (resource_schemas @ event_entries)" .
  have keys: "map fst event_schemas = map fst (resource_schemas @ event_entries)" by (simp add: ev case_prod_beta)
  have pages: "page_schemas = event_schemas @ page_entries"
    unfolding page_schemas_def merge_dict_def page_entries_def [symmetric] using schema_names keys by (intro set) auto
  have "foldl (\<lambda>schemas (name, data). dict_set name (envelope data) schemas) d ps
      = foldl (\<lambda>d (k, v). dict_set k v d) d (map (\<lambda>(name, data). (name, envelope data)) ps)" for d ps
    by (simp add: foldl_map case_prod_unfold)
  then have "schemas = foldl (\<lambda>d (k, v). dict_set k v d) page_schemas envelope_entries"
    by (simp add: schemas_def envelope_entries_def)
  also have "\<dots> = page_schemas @ envelope_entries"
    using schema_names keys by (intro set) (auto simp: pages)
  finally show ?thesis by (simp add: pages ev)
qed

end
