(* ===== verification/ApiDocument.thy ===== *)
theory ApiDocument
  imports ApiSchemas
begin

text \<open>
  The published contract on its own (\<open>scripts/export_contracts.py\<close>): its references resolve and none is
  cyclic, its objects require only properties they have, and its operations are the routes that
  \<open>do_GET\<close> and \<open>do_POST\<close> of \<open>src/code_forge/transport/server.py\<close> dispatch.
\<close>

lemma event_payloads_keys: "distinct (map fst event_payloads)"
  by (simp add: event_payloads_def)

lemma event_lookup:
  "map_of event_payloads t = Some p \<Longrightarrow> map_of schemas (event_schema_name t) = Some (event_type_schema_of t p)"
  by (drule map_of_SomeD)
     (simp only: event_payloads_def set_simps insert_iff empty_iff prod.inject simp_thms,
      elim disjE conjE; simp add: schemas_map event_schema_name_def)

section \<open>The document hangs together\<close>

named_theorems walk_rules \<open>walking a schema built by the script\<close>

text \<open>Every reference below a value, as the walk of \<open>tests/test_contract_consistency.py\<close> finds them.\<close>

fun references :: "json \<Rightarrow> string list" where
  "references (JArr xs) = concat (map references xs)"
| "references (JObj kvs) = (case map_of kvs ''$ref'' of Some (JStr r) \<Rightarrow> [r] | _ \<Rightarrow> [])
     @ concat (map (\<lambda>(k, v). references v) kvs)"
| "references _ = []"

text \<open>Every object schema below a value requires only properties it has.\<close>

fun requires_own :: "json \<Rightarrow> bool" where
  "requires_own (JArr xs) = list_all requires_own xs"
| "requires_own (JObj kvs) = ((map_of kvs ''type'' = Some (JStr ''object'')
       \<longrightarrow> set (names_at ''required'' kvs) \<subseteq> fst ` set (entries_at ''properties'' kvs))
     \<and> list_all (\<lambda>(k, v). requires_own v) kvs)"
| "requires_own _ = True"

lemma references_strs [simp]: "concat (map (references \<circ> JStr) xs) = []"
  by (induction xs) simp_all

lemma requires_strs [simp]: "list_all requires_own (map JStr xs)"
  by (simp add: list_all_iff)

lemma walk_building [walk_rules]:
  "references (ref_to name) = [''#/components/schemas/'' @ name]" "requires_own (ref_to name)"
  "references (array_of p) = references p" "requires_own (array_of p) = requires_own p"
  "references (nullable p) = references p" "requires_own (nullable p) = requires_own p"
  "references uuid = []" "references date = []" "references integer = []"
  "requires_own uuid" "requires_own date" "requires_own integer"
  by (simp_all add: ref_to_def array_of_def nullable_def uuid_def date_def integer_def string_with_def merge_dict_def)

lemma walk_with [walk_rules]:
  "references (with_entries date [(k, JBool b)]) = []" "requires_own (with_entries date [(k, JBool b)])"
  "references (with_entries (array_of p) [(''maxItems'', JInt i), (''default'', JNull)]) = references p"
  "references (with_entries (array_of p) [(''maxItems'', JInt i), (''default'', JArr [])]) = references p"
  "requires_own (with_entries (array_of p) [(''maxItems'', JInt i), (''default'', JNull)]) = requires_own p"
  "requires_own (with_entries (array_of p) [(''maxItems'', JInt i), (''default'', JArr [])]) = requires_own p"
  by (simp_all add: with_entries_def array_of_def date_def string_with_def merge_dict_def)

lemma ref_to_no_name [simp]: "ref_to name \<noteq> JStr s" "JStr s \<noteq> ref_to name"
  by (simp_all add: ref_to_def)

lemma walk_obj [walk_rules]:
  assumes "map_of ps ''$ref'' = None"
  shows "references (obj_with ps required) = concat (map (\<lambda>(k, v). references v) ps)"
  using assms by (simp add: obj_with_def)

lemma walk_required [walk_rules]:
  assumes "map_of ps ''type'' \<noteq> Some (JStr ''object'')"
  shows "requires_own (obj_with ps required) \<longleftrightarrow> set required \<subseteq> fst ` set ps \<and> list_all (\<lambda>(k, v). requires_own v) ps"
  using assms by (auto simp: obj_with_def names_at_def entries_at_def)

lemma references_enum: "references (enum_values val ms) = []" "requires_own (enum_values val ms)"
  by (induction ms) (simp_all add: enum_values_def)

lemmas schema_defs = run_status_schema_def message_status_schema_def task_outcome_schema_def tool_status_schema_def
  event_type_schema_def platform_event_type_schema_def error_code_schema_def business_code_schema_def
  user_binding_schema_def execution_context_schema_def skill_binding_schema_def skill_ref_schema_def
  skill_info_schema_def session_create_schema_def session_schema_def send_message_create_schema_def
  update_session_schema_def run_create_schema_def accepted_run_schema_def run_snapshot_schema_def run_schema_def
  error_schema_def error_response_schema_def message_schema_def event_schema_def pending_reply_schema_def
  reply_create_schema_def cancel_message_schema_def session_state_schema_def run_snapshot_view_schema_def
  file_info_schema_def file_content_schema_def health_schema_def

lemmas payload_defs = message_accepted_payload_def message_started_payload_def message_waiting_payload_def
  message_resumed_payload_def message_recovering_payload_def message_cancel_requested_payload_def
  message_finished_payload_def message_delta_payload_def message_completed_payload_def tool_prepared_payload_def
  tool_started_payload_def tool_output_payload_def tool_finished_payload_def tool_unknown_payload_def
  skill_activated_payload_def skill_started_payload_def skill_finished_payload_def workspace_committed_payload_def

lemmas keyword_defs = string_with_def merge_dict_def references_enum

lemma schemas_own: "list_all (\<lambda>(name, s). requires_own s) first_schemas"
    "list_all (\<lambda>(name, s). requires_own s) event_payloads" "requires_own audited_run"
    "requires_own (obj_with audit_field_schemas (map fst audit_field_schemas))"
    "list_all (\<lambda>(name, s). requires_own s) page_entries" "list_all (\<lambda>(name, s). requires_own s) envelope_entries"
  by (simp_all add: first_schemas_def schema_defs event_payloads_def payload_defs audited_run_def audit_field_schemas_def
    page_entries_def page_of_def envelope_entries_def envelope_def walk_rules keyword_defs names_at_def entries_at_def)

definition refers_within :: "string list \<Rightarrow> json \<Rightarrow> bool" where
  "refers_within names j \<longleftrightarrow> set (references j) \<subseteq> (\<lambda>name. ''#/components/schemas/'' @ name) ` set names"

lemma schemas_refer: "list_all (\<lambda>(name, s). refers_within (map fst schemas) s) first_schemas"
    "list_all (\<lambda>(name, s). refers_within (map fst schemas) s) event_payloads"
    "refers_within (map fst schemas) audited_run"
    "refers_within (map fst schemas) (obj_with audit_field_schemas (map fst audit_field_schemas))"
    "list_all (\<lambda>(name, s). refers_within (map fst schemas) s) page_entries"
    "list_all (\<lambda>(name, s). refers_within (map fst schemas) s) envelope_entries"
  by (simp_all add: refers_within_def schemas_list resource_schemas_list first_schemas_def schema_defs event_payloads_def payload_defs audited_run_def audit_field_schemas_def
    page_entries_def page_of_def envelope_entries_def envelope_def walk_rules keyword_defs)

lemma ends_building [walk_rules]:
  "ends_within S (Suc n) (ref_to name) = (case map_of S name of None \<Rightarrow> True | Some t \<Rightarrow> ends_within S n t)"
  "ends_within S (Suc n) (array_of p) = ends_within S n p"
  "ends_within S (Suc n) (obj_with ps required) = list_all (\<lambda>(k, p). ends_within S n p) ps"
  by (simp_all add: ref_to_def array_of_def obj_with_def parts_below_def node_target_def referred_def entries_at_def
    schemas_at_def list_all_iff case_prod_beta split: option.split)

lemma ends_nullable [walk_rules]: "ends_within S (Suc (Suc n)) (nullable p) = ends_within S (Suc n) p"
  by (subst ends_within.simps(2), simp add: nullable_def parts_below_def node_target_def entries_at_def schemas_at_def)

lemma ends_plain:
  assumes "map_of kvs ''$ref'' = None" "map_of kvs ''anyOf'' = None" "map_of kvs ''oneOf'' = None"
    "map_of kvs ''properties'' = None" "map_of kvs ''items'' = None"
  shows "ends_within S (Suc n) (JObj kvs)"
  using assms by (simp add: parts_below_def node_target_def entries_at_def schemas_at_def)

lemma ends_keywords [walk_rules]:
  "ends_within S (Suc n) uuid" "ends_within S (Suc n) date" "ends_within S (Suc n) integer"
  "ends_within S (Suc n) (with_entries date [(''readOnly'', b)])"
  "ends_within S (Suc (Suc n)) (with_entries (array_of p) [(''maxItems'', i), (''default'', d)]) = ends_within S (Suc n) p"
  by (simp_all add: uuid_def date_def integer_def string_with_def with_entries_def array_of_def merge_dict_def
    parts_below_def node_target_def entries_at_def schemas_at_def)

declare ends_within.simps(2) [simp del]

lemma lookup_rest: "map_of schemas ''UserBinding'' = Some user_binding_schema"
  "map_of schemas ''SkillRef'' = Some skill_ref_schema" "map_of schemas ''RunStatus'' = Some run_status_schema"
  "map_of schemas ''RunSnapshot'' = Some run_snapshot_schema" "map_of schemas ''SkillBinding'' = Some skill_binding_schema"
  "map_of schemas ''ExecutionContext'' = Some execution_context_schema" "map_of schemas ''SkillInfo'' = Some skill_info_schema"
  by (simp_all add: schemas_map lookup_first first_schemas_def)

lemma lookup_run: "map_of schemas ''Run'' = Some audited_run"
  by (simp add: schemas_map resource_schemas_list first_schemas_def)

lemmas lookups = lookup_views lookup_pages lookup_enums lookup_rest lookup_run

lemma ends_within_mono: "ends_within S n s \<Longrightarrow> n \<le> m \<Longrightarrow> ends_within S m s"
proof (induction n arbitrary: m s)
  case (Suc n)
  obtain k where "m = Suc k" "n \<le> k" using Suc.prems(2) by (cases m) auto
  then show ?case using Suc by (cases s) (auto simp: ends_within.simps(2) list_all_iff)
qed simp

lemmas ends_rules = walk_rules lookups keyword_defs ends_plain numeral_eq_Suc

lemma payloads_end: "list_all (\<lambda>(name, s). ends_within schemas 6 s) event_payloads"
  by (simp add: event_payloads_def payload_defs schema_defs ends_rules)

lemma event_ends: "(t, p) \<in> set event_payloads \<Longrightarrow> ends_within schemas 7 (event_type_schema_of t p)"
  using payloads_end
  by (auto simp: list_all_iff ends_rules event_type_schema_of_def event_base_value)

lemma union_ends: "ends_within schemas 9 event_union"
proof -
  have "ends_within schemas 8 (ref_to (event_schema_name t))" if "(t, p) \<in> set event_payloads" for t p
  proof -
    have "map_of event_payloads t = Some p" using that event_payloads_keys by simp
    then show ?thesis using event_ends [OF that] by (simp add: walk_rules event_lookup numeral_eq_Suc)
  qed
  then show ?thesis
    by (auto simp: numeral_eq_Suc ends_within.simps(2) event_union_def parts_below_def node_target_def entries_at_def schemas_at_def list_all_iff)
qed

lemma first_schemas_end:
  "list_all (\<lambda>(name, s). ends_within schemas 12 (if name = ''Run'' then audited_run else if name = ''Event'' then event_union else s)) first_schemas"
  using ends_within_mono [OF union_ends, of 12]
  by (simp add: first_schemas_def schema_defs audited_run_def ends_rules)

lemma audit_ends: "ends_within schemas 4 (obj_with audit_field_schemas (map fst audit_field_schemas))"
  by (simp add: audit_field_schemas_def ends_rules)

lemma every_schema:
  assumes "list_all (\<lambda>(name, s). P (if name = ''Run'' then audited_run else if name = ''Event'' then event_union else s)) first_schemas"
    "P (obj_with audit_field_schemas (map fst audit_field_schemas))"
    "\<And>t p. (t, p) \<in> set event_payloads \<Longrightarrow> P (event_type_schema_of t p)"
    "list_all (\<lambda>(name, s). P s) page_entries" "list_all (\<lambda>(name, s). P s) envelope_entries"
  shows "\<forall>(name, s) \<in> set schemas. P s"
proof -
  have "event_schema_name t \<noteq> ''Event''" for t by (simp add: event_schema_name_def)
  then have "list_all (\<lambda>(name, s). P (if name = ''Event'' then event_union else s)) event_entries"
    using assms(3) by (auto simp: event_entries_def list_all_iff)
  moreover have "list_all (\<lambda>(name, s). P (if name = ''Event'' then event_union else s)) resource_schemas"
    using assms(1,2) by (auto simp: resource_schemas_list list_all_iff split: if_splits)
  ultimately show ?thesis using assms(4,5)
    unfolding schemas_list list_all_iff by auto
qed

lemma event_type_walk:
  "refers_within names p \<Longrightarrow> ''PlatformEventType'' \<in> set names \<Longrightarrow> refers_within names (event_type_schema_of t p)"
  "requires_own p \<Longrightarrow> requires_own (event_type_schema_of t p)"
  by (auto simp: refers_within_def event_type_schema_of_def event_base_value walk_rules keyword_defs)

lemma union_walk: "requires_own event_union" "refers_within (map fst schemas) event_union"
  by (simp_all add: event_union_def event_payloads_def refers_within_def walk_rules schemas_list event_entries_def)

abbreviation refs_of :: "json \<Rightarrow> string set" where
  "refs_of j \<equiv> set (references j)"

lemma refs_value: "(k, v) \<in> set d \<Longrightarrow> refs_of v \<subseteq> refs_of (JObj d)"
  by auto

lemma refs_obj: "refs_of (JObj d) = {r. map_of d ''$ref'' = Some (JStr r)} \<union> (\<Union>v \<in> snd ` set d. refs_of v)"
  by (auto split: option.split json.split)

lemma dict_set_values: "snd ` set (dict_set k v d) \<subseteq> insert v (snd ` set d)"
  by (induction k v d rule: dict_set.induct) auto

lemma refs_dict_set: "k \<noteq> ''$ref'' \<Longrightarrow> refs_of (JObj (dict_set k v d)) \<subseteq> refs_of v \<union> refs_of (JObj d)"
  using UN_mono [OF dict_set_values, of k v d refs_of refs_of] unfolding refs_obj map_of_dict_set by auto

lemma refs_entries_at: "refs_of (JObj (entries_at k d)) \<subseteq> refs_of (JObj d)"
proof (cases "map_of d k")
  case (Some v)
  then show ?thesis using refs_value [OF map_of_SomeD [OF Some]] by (cases v) (simp_all add: entries_at_def)
qed (simp add: entries_at_def)

lemma query_refs: "refs_of (query_parameters query names) = (\<Union>(k, p) \<in> set query. refs_of p)"
  by (induction query) (auto simp: query_parameters_def)

lemma content_refs: "references (json_content schema media) = references schema"
    if "media \<in> {''application/json'', ''text/event-stream''}"
  using that by (auto simp: json_content_def)

lemma response_refs:
  "status \<in> {200, 201} \<Longrightarrow> refs_of (JObj (merge_dict [(py_str_nat status, r)] errors))
     = refs_of r \<union> {''#/components/schemas/ErrorResponse''}"
  by (elim insertE emptyE) (simp_all add: errors_def merge_dict_def py_str_nat.simps digit_char_def content_refs ref_to_def insert_commute)

lemma refs_entry: "map_of b ''$ref'' = None \<Longrightarrow>
    refs_of (JObj ([(''operationId'', JStr op), (''parameters'', q), (''responses'', r)] @ b))
      = refs_of q \<union> refs_of r \<union> (\<Union>v \<in> snd ` set b. refs_of v)"
  unfolding refs_obj by auto

lemma success_refs: "refs_of (JObj [(''description'', JStr d), (''content'', c)]) = refs_of c"
  by simp

definition refs_to :: "string set \<Rightarrow> string set" where
  "refs_to names = (\<lambda>name. ''#/components/schemas/'' @ name) ` names"

lemma refs_to_simps: "refs_of (ref_to name) = refs_to {name}" "refs_to (A \<union> B) = refs_to A \<union> refs_to B"
  "{''#/components/schemas/ErrorResponse''} = refs_to {''ErrorResponse''}"
  by (simp_all add: refs_to_def walk_rules image_Un)

lemma body_refs:
  "(\<Union>v \<in> snd ` set (case body of None \<Rightarrow> [] | Some name \<Rightarrow> [(''requestBody'', JObj [(''required'', JBool True),
      (''content'', json_content (ref_to name) ''application/json'')])]). refs_of v) = refs_to (set_option body)"
  by (cases body) (simp_all add: content_refs walk_rules refs_to_def)

lemma refs_operation:
  assumes "status \<in> {200, 201}"
  shows "refs_of (JObj (operation_entry op response body status query names sse))
     \<subseteq> refs_to ({response, ''ErrorResponse''} \<union> set_option body) \<union> (\<Union>(k, p) \<in> set query. refs_of p)"
proof -
  have b: "map_of (case body of None \<Rightarrow> [] | Some name \<Rightarrow> [(''requestBody'', JObj [(''required'', JBool True),
      (''content'', json_content (ref_to name) ''application/json'')])]) ''$ref'' = None"
    by (cases body) simp_all
  have c: "refs_of (if sse then json_content event_stream_schema ''text/event-stream''
      else json_content (ref_to response) ''application/json'') \<subseteq> refs_to {response}"
    by (simp add: content_refs event_stream_schema_def refs_to_simps(1))
  show ?thesis
    unfolding operation_entry_def refs_entry [OF b] response_refs [OF assms] success_refs query_refs body_refs
    using c by (auto simp: refs_to_def)
qed

lemma refs_add:
  assumes "path \<noteq> ''$ref''" "method \<noteq> ''$ref''" "status \<in> {200, 201}" "\<forall>(k, p) \<in> set query. references p = []"
  shows "refs_of (JObj (add path method op response body status query names sse ps))
     \<subseteq> refs_to ({response, ''ErrorResponse''} \<union> set_option body) \<union> refs_of (JObj ps)"
proof -
  have "(\<Union>(k, p) \<in> set query. refs_of p) = {}" using assms(4) by auto
  then have e: "refs_of (JObj (operation_entry op response body status query names sse))
      \<subseteq> refs_to ({response, ''ErrorResponse''} \<union> set_option body)"
    using refs_operation [OF assms(3), of op response body query names sse] by simp
  show ?thesis
    unfolding add_def using e refs_dict_set [OF assms(1)] refs_dict_set [OF assms(2)] refs_entries_at [of path ps]
    by (meson Un_least Un_upper1 Un_upper2 order_trans)
qed

definition schema_keys :: "string set" where
  "schema_keys = set (map fst schemas)"

lemma named_schemas: "{''ErrorResponse'', ''SessionCreate'', ''UpdateSession'', ''SendMessageCreate'', ''CancelMessage'',
    ''ReplyCreate'', ''HealthEnvelope'', ''SessionEnvelope'', ''SessionPageEnvelope'', ''EventEnvelope'', ''MessageEnvelope'',
    ''SessionStateEnvelope'', ''MessagePageEnvelope'', ''EventPageEnvelope'', ''FilePageEnvelope'', ''FileContentEnvelope''}
      \<subseteq> schema_keys"
  by (simp add: schema_keys_def schemas_list resource_schemas_list first_schemas_def envelope_entries_def)

definition adds_known :: "(json_dict \<Rightarrow> json_dict) \<Rightarrow> bool" where
  "adds_known f \<longleftrightarrow> (\<forall>ps. refs_of (JObj ps) \<subseteq> refs_to schema_keys \<longrightarrow> refs_of (JObj (f ps)) \<subseteq> refs_to schema_keys)"

lemma adds_known_add:
  assumes "path \<noteq> ''$ref''" "method \<noteq> ''$ref''" "status \<in> {200, 201}" "\<forall>(k, p) \<in> set query. references p = []"
    "{response, ''ErrorResponse''} \<union> set_option body \<subseteq> schema_keys"
  shows "adds_known (add path method op response body status query names sse)"
proof -
  have "refs_to ({response, ''ErrorResponse''} \<union> set_option body) \<subseteq> refs_to schema_keys"
    unfolding refs_to_def by (rule image_mono [OF assms(5)])
  then show ?thesis
    unfolding adds_known_def using refs_add [OF assms(1-4), of op response body names sse] by blast
qed

lemma adds_known_foldl:
  "list_all adds_known fs \<Longrightarrow> refs_of (JObj ps) \<subseteq> refs_to schema_keys
     \<Longrightarrow> refs_of (JObj (foldl (\<lambda>ps f. f ps) ps fs)) \<subseteq> refs_to schema_keys"
  by (induction fs arbitrary: ps) (auto simp: adds_known_def)

lemma paths_refer: "refs_of (JObj paths) \<subseteq> refs_to schema_keys"
  unfolding paths_def
proof (rule adds_known_foldl)
  show "refs_of (JObj []) \<subseteq> refs_to schema_keys" by simp
qed (use named_schemas in \<open>simp add: adds_known_add paging_def event_paging_def walk_rules keyword_defs\<close>)

section \<open>Its operations are the routes\<close>

lemma paths_list: "paths = [
     (''/health'', JObj [(''get'', JObj (operation_entry ''health'' ''HealthEnvelope'' None 200 [] [] False))]),
     (''/v1/create-session'', JObj [(''post'', JObj (operation_entry ''createSession'' ''SessionEnvelope'' (Some ''SessionCreate'') 201 [] [] False))]),
     (''/v1/update-session'', JObj [(''post'', JObj (operation_entry ''updateSession'' ''SessionEnvelope'' (Some ''UpdateSession'') 200 [] [] False))]),
     (''/v1/get-session'', JObj [(''get'', JObj (operation_entry ''getSession'' ''SessionEnvelope'' None 200 [(''session_id'', uuid)] [''session_id''] False))]),
     (''/v1/list-sessions'', JObj [(''get'', JObj (operation_entry ''listSessions'' ''SessionPageEnvelope'' None 200 ([(''user_rel_path'', string_with []), (''project_ref'', string_with [])] @ paging) [] False))]),
     (''/v1/send-message'', JObj [(''post'', JObj (operation_entry ''sendMessage'' ''EventEnvelope'' (Some ''SendMessageCreate'') 200 [] [] True))]),
     (''/v1/cancel-message'', JObj [(''post'', JObj (operation_entry ''cancelMessage'' ''MessageEnvelope'' (Some ''CancelMessage'') 200 [] [] False))]),
     (''/v1/get-session-state'', JObj [(''get'', JObj (operation_entry ''getSessionState'' ''SessionStateEnvelope'' None 200 [(''session_id'', uuid)] [''session_id''] False))]),
     (''/v1/get-message'', JObj [(''get'', JObj (operation_entry ''getMessage'' ''MessageEnvelope'' None 200 [(''message_id'', uuid)] [''message_id''] False))]),
     (''/v1/list-session-messages'', JObj [(''get'', JObj (operation_entry ''listSessionMessages'' ''MessagePageEnvelope'' None 200 ([(''session_id'', uuid)] @ paging) [''session_id''] False))]),
     (''/v1/reply'', JObj [(''post'', JObj (operation_entry ''reply'' ''EventEnvelope'' (Some ''ReplyCreate'') 200 [] [] True))]),
     (''/v1/stream-session-events'', JObj [(''get'', JObj (operation_entry ''streamSessionEvents'' ''EventEnvelope'' None 200 [(''session_id'', uuid), (''after_seq'', integer)] [''session_id''] True))]),
     (''/v1/list-session-events'', JObj [(''get'', JObj (operation_entry ''listSessionEvents'' ''EventPageEnvelope'' None 200 ([(''session_id'', uuid)] @ event_paging) [''session_id''] False))]),
     (''/v1/list-session-files'', JObj [(''get'', JObj (operation_entry ''listSessionFiles'' ''FilePageEnvelope'' None 200 [(''session_id'', uuid)] [''session_id''] False))]),
     (''/v1/read-session-file'', JObj [(''get'', JObj (operation_entry ''readSessionFile'' ''FileContentEnvelope'' None 200 [(''session_id'', uuid), (''path'', string_with [(''minLength'', JInt 1), (''maxLength'', JInt 1000)])] [''session_id'', ''path''] False))])]"
  by (simp add: paths_def add_def entries_at_def)

definition documented_operations :: "(string \<times> string) list" where
  "documented_operations = concat (map (\<lambda>(path, v). case v of
     JObj methods \<Rightarrow> map (\<lambda>(method, entry). (path, method)) methods | _ \<Rightarrow> []) paths)"

lemma documented_set:
  "set documented_operations = (\<lambda>path. (path, ''get'')) ` fst ` set (get_handlers G q)
     \<union> (\<lambda>path. (path, ''post'')) ` fst ` set (post_handlers G body)"
  by (simp add: documented_operations_def paths_list get_handlers_def post_handlers_def insert_commute)

lemma not_dispatched: "path \<notin> fst ` set hs \<Longrightarrow> dispatch hs path a = (Inr (business_error B_INVALID_REQUEST 404 ''Not found''), a)"
  by (simp add: dispatch_def returnS_def map_of_eq_None_iff [THEN iffD2] split: option.split)

lemma fst_pairs: "x \<in> (\<lambda>p. (p, m)) ` A \<longleftrightarrow> snd x = m \<and> fst x \<in> A"
  by (cases x) auto

text \<open>C32: The operations of the published document are exactly the routes the gateway dispatches, each
  documented once: a request for any other path is answered 404 and changes nothing (a POST once its
  body has been read), and no documented route is missing from the gateway.\<close>

theorem documented_operations_are_the_routes:
  "distinct documented_operations
   \<and> ((path, ''get'') \<in> set documented_operations \<longleftrightarrow> path \<in> fst ` set (get_handlers G q))
   \<and> ((path, ''post'') \<in> set documented_operations \<longleftrightarrow> path \<in> fst ` set (post_handlers G body))
   \<and> ((path, ''get'') \<in> set documented_operations \<or> do_GET G path q a = (business_error B_INVALID_REQUEST 404 ''Not found'', a))
   \<and> ((path, ''post'') \<in> set documented_operations \<or> read_body content_length input \<noteq> Inr body
      \<or> do_POST G path content_length input a = (business_error B_INVALID_REQUEST 404 ''Not found'', a))"
proof -
  have "distinct documented_operations" by (simp add: documented_operations_def paths_list)
  moreover have get: "(path, ''get'') \<in> set documented_operations \<longleftrightarrow> path \<in> fst ` set (get_handlers G q)"
    and post: "(path, ''post'') \<in> set documented_operations \<longleftrightarrow> path \<in> fst ` set (post_handlers G body)"
    by (simp_all add: documented_set [of G q body] fst_pairs)
  moreover have "do_GET G path q a = (business_error B_INVALID_REQUEST 404 ''Not found'', a)"
    if "path \<notin> fst ` set (get_handlers G q)"
    using not_dispatched [OF that] by (simp add: do_GET_def answer_errors_def)
  moreover have "do_POST G path content_length input a = (business_error B_INVALID_REQUEST 404 ''Not found'', a)"
    if "path \<notin> fst ` set (post_handlers G body)" "read_body content_length input = Inr body"
    using not_dispatched [OF that(1)] by (simp add: do_POST_def answer_errors_def thenS_def liftS_def that(2))
  ultimately show ?thesis by blast
qed

theorem documented_operations_are_the_routes_witness:
  "\<forall>G q a. do_GET G ''/v1/list-runs'' q a = (business_error B_INVALID_REQUEST 404 ''Not found'', a)"
proof (intro allI)
  fix G q a
  have "(''/v1/list-runs'', ''get'') \<notin> set documented_operations"
    by (simp add: documented_operations_def paths_list)
  then show "do_GET G ''/v1/list-runs'' q a = (business_error B_INVALID_REQUEST 404 ''Not found'', a)"
    using documented_operations_are_the_routes [of "''/v1/list-runs''" G q "[]" a None "''''"] by blast
qed

section \<open>Its schemas\<close>

lemma spec_refs: "refs_of spec \<subseteq> refs_of (JObj paths) \<union> refs_of (JObj schemas)"
  unfolding spec_def refs_obj by (simp del: references.simps(2)) (auto simp: refs_obj)

lemma platform_type_named: "''PlatformEventType'' \<in> set (map fst schemas)"
  by (simp add: schemas_list resource_schemas_list first_schemas_def)

lemma schemas_refer_known: "\<forall>(name, s) \<in> set schemas. refers_within (map fst schemas) s"
proof (rule every_schema)
  show "list_all (\<lambda>(name, s). refers_within (map fst schemas) (if name = ''Run'' then audited_run
      else if name = ''Event'' then event_union else s)) first_schemas"
    using schemas_refer(1,3) union_walk by (auto simp: list_all_iff)
  show "refers_within (map fst schemas) (event_type_schema_of t p)" if "(t, p) \<in> set event_payloads" for t p
    using that schemas_refer(2) platform_type_named by (intro event_type_walk(1)) (auto simp: list_all_iff)
qed (use schemas_refer in auto)

lemma schemas_end: "\<forall>(name, s) \<in> set schemas. ends_within schemas 16 s"
proof (rule every_schema)
  show "list_all (\<lambda>(name, s). ends_within schemas 16 (if name = ''Run'' then audited_run
      else if name = ''Event'' then event_union else s)) first_schemas"
    using first_schemas_end ends_within_mono [of schemas 12 _ 16] by (auto simp: list_all_iff)
  show "ends_within schemas 16 (event_type_schema_of t p)" if "(t, p) \<in> set event_payloads" for t p
    using ends_within_mono [OF event_ends [OF that]] by simp
  show "ends_within schemas 16 (obj_with audit_field_schemas (map fst audit_field_schemas))"
    using ends_within_mono [OF audit_ends] by simp
  show "list_all (\<lambda>(name, s). ends_within schemas 16 s) page_entries"
    using ends_within_mono [OF union_ends, of 13] by (simp add: page_entries_def page_of_def schema_defs audited_run_def ends_rules)
  show "list_all (\<lambda>(name, s). ends_within schemas 16 s) envelope_entries"
    using ends_within_mono [OF union_ends, of 11] ends_within_mono [OF union_ends, of 14]
    by (simp add: envelope_entries_def envelope_def page_of_def schema_defs ends_rules)
qed

lemma schemas_require_own: "\<forall>(name, s) \<in> set schemas. requires_own s"
proof (rule every_schema)
  show "list_all (\<lambda>(name, s). requires_own (if name = ''Run'' then audited_run
      else if name = ''Event'' then event_union else s)) first_schemas"
    using schemas_own(1,3) union_walk by (auto simp: list_all_iff)
  show "requires_own (event_type_schema_of t p)" if "(t, p) \<in> set event_payloads" for t p
    using that schemas_own(2) by (intro event_type_walk(2)) (auto simp: list_all_iff)
qed (use schemas_own in auto)

lemma no_ref_schema: "map_of schemas ''$ref'' = None"
  by (simp add: schemas_map lookup_first first_schemas_def)

lemma schema_keys_distinct: "distinct (map fst schemas)"
  using schema_names by (simp add: schemas_list comp_def case_prod_beta)

text \<open>The published document hangs together. No schema is defined twice, every reference anywhere in
  the document names one of its schemas, every object requires only properties it has, and no schema
  reaches itself through references: whether a value belongs to a schema is settled within sixteen
  steps, whatever bound above that a reader allows.\<close>

theorem published_document_hangs_together:
  "distinct (map fst schemas) \<and> refers_within (map fst schemas) spec
   \<and> (\<forall>(name, s) \<in> set schemas. requires_own s \<and> ends_within schemas 16 s
        \<and> (\<forall>m v. accepts schemas (16 + m) s v = accepts schemas 16 s v))"
proof (intro conjI)
  have "refs_of s \<subseteq> refs_to schema_keys" if "s \<in> snd ` set schemas" for s
  proof -
    obtain name where "(name, s) \<in> set schemas" using \<open>s \<in> snd ` set schemas\<close> by auto
    then have "refers_within (map fst schemas) s" using schemas_refer_known by blast
    then show ?thesis unfolding refers_within_def refs_to_def schema_keys_def .
  qed
  then have "refs_of (JObj schemas) \<subseteq> refs_to schema_keys"
    unfolding refs_obj no_ref_schema by blast
  then show "refers_within (map fst schemas) spec"
    using spec_refs paths_refer unfolding refers_within_def refs_to_def schema_keys_def by blast
  show "\<forall>(name, s) \<in> set schemas. requires_own s \<and> ends_within schemas 16 s
        \<and> (\<forall>m v. accepts schemas (16 + m) s v = accepts schemas 16 s v)"
    using schemas_end schemas_require_own accepts_ends_within [of schemas 16 _ "16 + _"]
    by (fastforce simp: le_add1)
qed (rule schema_keys_distinct)

end
