(* ===== verification/ApiContract.thy ===== *)
theory ApiContract
  imports ApiDocument HarnessJournal
begin

text \<open>
  Whether the gateway of \<open>src/code_forge/transport/server.py\<close> keeps the published contract
  (\<open>scripts/export_contracts.py\<close>): the answers and the events it writes are values of the schemas
  documented for them, and where they are not.
\<close>

named_theorems gives_rules \<open>actions whose answers carry data of a known form\<close>

section \<open>The views of the gateway\<close>

lemma envelope_accepts:
  assumes "name \<in> {''Health'', ''Session'', ''SessionPage'', ''Message'', ''MessagePage'', ''SessionState'', ''Event'',
     ''EventPage'', ''FilePage'', ''FileContent''}"
  shows "accepts schemas (Suc (Suc (Suc n))) (ref_to (name @ ''Envelope''))
       (JObj [(''code'', JStr (business_code_value B_OK)), (''message'', JStr ''success''), (''data'', d)])
     \<longleftrightarrow> accepts schemas (Suc n) (ref_to name) d"
  by (simp add: accepts_ref lookup_envelope [OF assms])
     (simp add: envelope_def accept_rules)

lemma session_accepts: "accepts S (Suc (Suc (Suc n))) session_schema (session_json v)"
  by (simp add: session_schema_def session_json_def accept_rules)

lemma health_accepts: "accepts S (Suc (Suc n)) health_schema (JObj [(''status'', JStr ''ok''), (''api_version'', JStr ''1''),
     (''model_configured'', JBool b), (''execution_backend'', JStr ''local_process''),
     (''permission_mode'', JStr ''default_allow''), (''isolation_mode'', JStr ''trusted_logical'')])"
  by (simp add: health_schema_def accept_rules)

lemma file_accepts: "accepts S (Suc (Suc n)) file_info_schema (file_json f)"
  by (simp add: file_info_schema_def file_json_def accept_rules)

lemma content_accepts: "accepts S (Suc (Suc n)) file_content_schema (JObj [(''path'', JStr p), (''content'', JStr c),
     (''digest'', JStr d), (''truncated'', JBool b)])"
  by (simp add: file_content_schema_def accept_rules)

lemma page_accepts: "accepts S (Suc (Suc (Suc n))) (page_of p) (page_json items cursor)
    \<longleftrightarrow> list_all (accepts S (Suc n) p) items"
  by (auto simp: page_of_def page_json_def accept_rules opt_str_def split: option.split)

lemma all_message_statuses_all: "s \<in> set all_message_statuses"
  by (cases s) (simp_all add: all_message_statuses_def)

lemma status_table_values: "snd ` set status_table \<subseteq> range message_status_value"
  unfolding status_table_def set_map image_image by (intro image_subsetI) simp

lemma status_accepts: "accepts S (Suc n) message_status_schema (JStr (message_status_text s))"
proof -
  have "\<exists>m. message_status_text s = message_status_value m"
  proof (cases "map_of status_table s")
    case (Some t)
    then have "t \<in> snd ` set status_table" by (force dest: map_of_SomeD)
    then show ?thesis using status_table_values by (auto simp: message_status_text_def Some)
  qed (auto simp: message_status_text_def intro: exI [of _ Msg_FAILED])
  then show ?thesis using all_message_statuses_all by (auto simp: message_status_schema_def accept_rules)
qed

lemma outcome_accepts: "accepts schemas (Suc (Suc (Suc n))) (nullable (ref_to ''TaskOutcome'')) (outcome_json x)"
proof (cases x)
  case (Some t)
  then show ?thesis
    by (cases t) (simp_all add: outcome_json_def accept_rules task_outcome_schema_def all_task_outcomes_def)
qed (simp add: outcome_json_def accept_rules)

lemma error_accepts:
  assumes "public_error e mid = Inr j"
  shows "accepts schemas (Suc (Suc (Suc (Suc n)))) (nullable (ref_to ''Error'')) j"
  using assms by (auto simp: public_error_def error_schema_def accept_rules split: if_splits elim!: bindE_InrE)

text \<open>The texts of a message: its input is one, its output is one or absent.\<close>

definition text_or_null :: "json \<Rightarrow> bool" where
  "text_or_null j \<longleftrightarrow> j = JNull \<or> (\<exists>s. j = JStr s)"

definition message_texts :: "run_view \<Rightarrow> bool" where
  "message_texts v \<longleftrightarrow> (\<exists>s. or_null (rv_input v) = JStr s) \<and> text_or_null (or_null (rv_output v))"

lemma message_accepts:
  assumes "message_json_view v = Inr j"
  shows "accepts schemas (Suc (Suc (Suc (Suc (Suc n))))) message_schema j
     \<longleftrightarrow> message_texts v \<and> 1 \<le> r_run_seq (rv_row v)"
proof -
  obtain err where err: "public_error (or_null (rv_error v)) (r_id (rv_row v)) = Inr err"
    and j: "j = JObj [(''message_id'', JStr (r_id (rv_row v))), (''session_id'', JStr (r_session_id (rv_row v))),
       (''message_seq'', JInt (r_run_seq (rv_row v))), (''input'', or_null (rv_input v)),
       (''status'', JStr (message_status_text (run_status_value (r_status (rv_row v))))),
       (''task_outcome'', outcome_json (r_task_outcome (rv_row v))), (''output'', or_null (rv_output v)),
       (''error'', err), (''date_created'', JStr (date_created (rv_row v))), (''date_updated'', JStr (date_updated (rv_row v)))]"
    using assms by (auto simp: message_json_view_def Let_def elim!: bindE_InrE)
  have "accepts schemas (Suc (Suc (Suc (Suc n)))) (nullable (ref_to ''TaskOutcome'')) (outcome_json x)" for x
    by (rule outcome_accepts)
  then show ?thesis unfolding j
    by (simp add: message_schema_def accepts_obj accepts_uuid_date accepts_numbers accepts_strings(1) error_accepts [OF err]
      accepts_ref lookup_enums status_accepts message_texts_def text_or_null_def)
       (auto simp: accept_rules)
qed

section \<open>Events\<close>

lemma event_type_accepts:
  "accepts S (Suc (Suc n)) (event_type_schema_of t p) (public_event_json e)
   \<longleftrightarrow> platform_event_value (pe_type e) = t \<and> 1 \<le> pe_seq e \<and> accepts S (Suc n) p (JObj (pe_data e))"
proof -
  have "event_type_schema_of t p = obj_with
      [(''event_id'', uuid), (''session_id'', uuid), (''message_id'', uuid),
       (''seq'', JObj [(''type'', JStr ''integer''), (''minimum'', JInt 1)]),
       (''type'', string_with [(''enum'', JArr [JStr t])]), (''occurred_at'', date), (''data'', p)]
      [''event_id'', ''session_id'', ''message_id'', ''seq'', ''type'', ''occurred_at'', ''data'']"
    by (simp add: event_type_schema_of_def event_base_value merge_dict_def)
  then show ?thesis by (auto simp: public_event_json_def accept_rules)
qed

lemma choice_of_one:
  assumes "distinct (map fst xs)" "map_of xs t = Some p"
  shows "length (filter (\<lambda>(t', q). t' = t \<and> C q) xs) = 1 \<longleftrightarrow> C p"
proof -
  have "filter (\<lambda>(t', q). t' = t \<and> C q) ys = []" if "t \<notin> fst ` set ys" for ys
    using that by (force simp: filter_empty_conv)
  then show ?thesis using assms by (induction xs) (auto split: if_splits)
qed

lemma union_accepts:
  "accepts S (Suc n) event_union v
     \<longleftrightarrow> length (filter (\<lambda>(t, p). accepts S n (ref_to (event_schema_name t)) v) event_payloads) = 1"
proof -
  have "filter (\<lambda>q. accepts S n q v) (map (\<lambda>(t, p). ref_to (event_schema_name t)) event_payloads)
      = map (\<lambda>(t, p). ref_to (event_schema_name t))
          (filter (\<lambda>(t, p). accepts S n (ref_to (event_schema_name t)) v) event_payloads)"
    unfolding filter_map by (rule arg_cong [where f = "map _"]) (rule filter_cong, auto)
  then show ?thesis
    unfolding event_union_def accepts.simps json.case
    by (cases v) (simp_all add: node_accepts_def node_plain_def node_parts_def node_choices_def node_target_def
      entries_at_def names_at_def int_at_def schemas_at_def Let_def)
qed

lemma event_payload_of: "\<exists>p. map_of event_payloads (platform_event_value t) = Some p"
  by (cases t) (simp_all add: event_payloads_def)

lemma event_accepts:
  assumes "map_of event_payloads (platform_event_value (pe_type e)) = Some p"
  shows "accepts schemas (Suc (Suc (Suc (Suc (Suc n))))) (ref_to ''Event'') (public_event_json e)
     \<longleftrightarrow> 1 \<le> pe_seq e \<and> accepts schemas (Suc n) p (JObj (pe_data e))"
proof -
  let ?t = "platform_event_value (pe_type e)"
  have "accepts schemas (Suc (Suc (Suc n))) (ref_to (event_schema_name t)) (public_event_json e)
      \<longleftrightarrow> t = ?t \<and> 1 \<le> pe_seq e \<and> accepts schemas (Suc n) q (JObj (pe_data e))"
    if "(t, q) \<in> set event_payloads" for t q
  proof -
    have "map_of event_payloads t = Some q" using that event_payloads_keys by simp
    then show ?thesis using event_lookup by (auto simp: accepts_ref event_type_accepts)
  qed
  then have "filter (\<lambda>(t, p). accepts schemas (Suc (Suc (Suc n))) (ref_to (event_schema_name t)) (public_event_json e)) event_payloads
    = filter (\<lambda>(t, q). t = ?t \<and> 1 \<le> pe_seq e \<and> accepts schemas (Suc n) q (JObj (pe_data e))) event_payloads"
    by (intro filter_cong) auto
  then show ?thesis
    using choice_of_one [OF event_payloads_keys assms, of "\<lambda>q. 1 \<le> pe_seq e \<and> accepts schemas (Suc n) q (JObj (pe_data e))"]
    by (simp add: accepts_ref lookup_views union_accepts)
qed

section \<open>Answers\<close>

definition response_schema :: "string \<Rightarrow> string \<Rightarrow> nat \<Rightarrow> json option" where
  "response_schema path method status = map_of (entries_at ''application/json'' (entries_at ''content''
     (entries_at (py_str_nat status) (entries_at ''responses'' (entries_at method (entries_at path paths)))))) ''schema''"

definition conforms :: "json \<Rightarrow> json \<Rightarrow> bool" where
  "conforms schema j = accepts schemas 17 schema j"

text \<open>The action answers a request with the status and data of which \<open>P\<close> holds, if it answers at all.\<close>

definition gives :: "nat \<Rightarrow> (json \<Rightarrow> bool) \<Rightarrow> (app, response) io \<Rightarrow> bool" where
  "gives status P m \<longleftrightarrow> (\<forall>a r a'. m a = (Inr r, a') \<longrightarrow> (\<exists>d. r = ok_reply status d \<and> P d))"

lemma gives_then [gives_rules]: "(\<And>x. gives s P (f x)) \<Longrightarrow> gives s P (thenS m f)"
  unfolding gives_def by (blast elim: thenS_InrE)

lemma gives_plain [gives_rules]: "gives s P (raiseS e)" "P d \<Longrightarrow> gives s P (returnS (ok_reply s d))"
  by (auto simp: gives_def raiseS_def returnS_def)

lemma gives_if [gives_rules]: "gives s P m \<Longrightarrow> gives s P k \<Longrightarrow> gives s P (if b then m else k)"
  by simp

lemma gives_option [gives_rules]:
  "gives s P m \<Longrightarrow> (\<And>x. gives s P (f x)) \<Longrightarrow> gives s P (case y of None \<Rightarrow> m | Some x \<Rightarrow> f x)"
  by (simp split: option.split)

lemma gives_pair [gives_rules]: "(\<And>x y. gives s P (f x y)) \<Longrightarrow> gives s P (case p of (x, y) \<Rightarrow> f x y)"
  by (simp split: prod.split)

lemma gives_triple [gives_rules]: "(\<And>x y z. gives s P (f x y z)) \<Longrightarrow> gives s P (case p of (x, y, z) \<Rightarrow> f x y z)"
  by (simp split: prod.split)

lemma error_reply_form: "\<exists>code status msg. error_reply e = business_error code status msg \<and> status \<in> error_statuses"
proof (cases e)
  case (DomainError c msg)
  have "snd (domain_error_answer c) \<in> error_statuses" by (cases c) (simp_all add: error_statuses_def)
  then show ?thesis
    by (cases "domain_error_answer c") (auto simp: DomainError error_reply_def domain_error_reply_def)
qed (auto simp: error_reply_def error_statuses_def)

lemma given:
  assumes "gives status P m" "fst (answer_errors m a) = Reply s j" "s \<in> {200, 201}"
  shows "\<exists>d. Reply s j = ok_reply status d \<and> P d"
proof (cases "m a")
  case (Pair r a')
  show ?thesis
  proof (cases r)
    case (Inl e)
    then have "error_reply e = Reply s j" using assms(2) Pair by (simp add: answer_errors_def)
    then have "s \<in> error_statuses" using error_reply_form [of e] by (auto simp: business_error_def)
    then show ?thesis using assms(3) by (auto simp: error_statuses_def)
  next
    case (Inr x)
    then have "x = Reply s j" "m a = (Inr x, a')" using assms(2) Pair by (simp_all add: answer_errors_def)
    then show ?thesis using assms(1) unfolding gives_def by metis
  qed
qed

lemma error_conforms: "conforms (ref_to ''ErrorResponse'') (JObj [(''code'', JStr (business_code_value code)),
     (''message'', JStr msg), (''data'', JObj [])])"
proof -
  have "code \<in> set all_business_codes" by (cases code) (simp_all add: all_business_codes_def)
  then show ?thesis
    by (auto simp: conforms_def numeral_eq_Suc accept_rules error_response_schema_def business_code_schema_def)
qed

lemma business_error_conforms: "business_error code status msg = Reply s j \<Longrightarrow> conforms (ref_to ''ErrorResponse'') j"
  using error_conforms by (auto simp: business_error_def)

section \<open>What the routes answer\<close>

lemma envelope_conforms:
  assumes "name \<in> {''Health'', ''Session'', ''SessionPage'', ''Message'', ''MessagePage'', ''SessionState'', ''Event'',
     ''EventPage'', ''FilePage'', ''FileContent''}" "Reply s j = ok_reply status d"
  shows "conforms (ref_to (name @ ''Envelope'')) j \<longleftrightarrow> accepts schemas 15 (ref_to name) d"
  using envelope_accepts [OF assms(1), of 14 d] assms(2)
  by (simp add: conforms_def ok_reply_def numeral_eq_Suc del: append.simps)

definition page_lists :: "json \<Rightarrow> json list \<Rightarrow> bool" where
  "page_lists d items \<longleftrightarrow> (\<exists>cursor. d = page_json items cursor)"

lemma get_given:
  "gives 200 (\<lambda>d. \<exists>b. d = JObj [(''status'', JStr ''ok''), (''api_version'', JStr ''1''), (''model_configured'', JBool b),
      (''execution_backend'', JStr ''local_process''), (''permission_mode'', JStr ''default_allow''),
      (''isolation_mode'', JStr ''trusted_logical'')]) (health G)"
  "gives 200 (\<lambda>d. \<exists>v. d = session_json v) (handle_get_session q)"
  "gives 200 (\<lambda>d. \<exists>vs. page_lists d (map session_json vs)) (handle_list_sessions q)"
  "gives 200 (\<lambda>d. \<exists>fs. page_lists d (map file_json fs)) (handle_list_session_files G q)"
  "gives 200 (\<lambda>d. \<exists>p c g b. d = JObj [(''path'', JStr p), (''content'', JStr c), (''digest'', JStr g), (''truncated'', JBool b)])
     (handle_read_session_file G q)"
  unfolding health_def handle_get_session_def handle_list_sessions_def handle_list_session_files_def
    handle_read_session_file_def page_lists_def
  by (intro gives_rules; blast)+

lemma post_given:
  "gives 201 (\<lambda>d. \<exists>v. d = session_json v) (handle_create_session G body)"
  "gives 200 (\<lambda>d. \<exists>v. d = session_json v) (handle_update_session G body)"
  unfolding handle_create_session_def handle_update_session_def
  by (intro gives_rules; blast)+

lemma operation_responses:
  "entries_at ''responses'' (operation_entry op response body status query names sse)
     = merge_dict [(py_str_nat status, JObj [(''description'', JStr ''Success''),
        (''content'', if sse then json_content event_stream_schema ''text/event-stream''
                    else json_content (ref_to response) ''application/json'')])] errors"
  by (simp add: operation_entry_def entries_at_def)

lemma status_texts: "py_str_nat 200 = ''200''" "py_str_nat 201 = ''201''" "py_str_nat 400 = ''400''" "py_str_nat 404 = ''404''"
  "py_str_nat 409 = ''409''" "py_str_nat 422 = ''422''" "py_str_nat 500 = ''500''" "py_str_nat 503 = ''503''"
  by code_simp+

lemma errors_value: "errors = map (\<lambda>(s, d). (s, JObj [(''description'', JStr d),
     (''content'', json_content (ref_to ''ErrorResponse'') ''application/json'')]))
   [(''400'', ''Invalid request''), (''404'', ''Not found''), (''409'', ''Conflict''), (''422'', ''Validation error''),
    (''503'', ''Dependency unavailable'')]"
  by (simp add: errors_def status_texts)

lemma responses_by_status:
  "s \<in> {200, 201} \<Longrightarrow> map_of (merge_dict [(py_str_nat s, r)] errors) (py_str_nat s) = Some r"
  "s \<in> {200, 201} \<Longrightarrow> n \<in> {400, 404, 409, 422, 503} \<Longrightarrow> map_of (merge_dict [(py_str_nat s, r)] errors) (py_str_nat n)
     = map_of errors (py_str_nat n)"
  "s \<in> {200, 201} \<Longrightarrow> map_of (merge_dict [(py_str_nat s, r)] errors) (py_str_nat 500) = None"
  by (elim insertE emptyE; simp add: errors_value merge_dict_def status_texts)+

lemma documented_errors: "n \<in> {400, 404, 409, 422, 503}
    \<Longrightarrow> \<exists>d. map_of errors (py_str_nat n) = Some (JObj [(''description'', JStr d), (''content'', json_content (ref_to ''ErrorResponse'') ''application/json'')])"
  by (elim insertE emptyE; simp add: errors_value status_texts)

lemma operation_entries:
  "entries_at ''get'' (entries_at ''/health'' paths) = operation_entry ''health'' ''HealthEnvelope'' None 200 [] [] False"
  "entries_at ''post'' (entries_at ''/v1/create-session'' paths) = operation_entry ''createSession'' ''SessionEnvelope'' (Some ''SessionCreate'') 201 [] [] False"
  "entries_at ''post'' (entries_at ''/v1/update-session'' paths) = operation_entry ''updateSession'' ''SessionEnvelope'' (Some ''UpdateSession'') 200 [] [] False"
  "entries_at ''get'' (entries_at ''/v1/get-session'' paths) = operation_entry ''getSession'' ''SessionEnvelope'' None 200 [(''session_id'', uuid)] [''session_id''] False"
  "entries_at ''get'' (entries_at ''/v1/list-sessions'' paths) = operation_entry ''listSessions'' ''SessionPageEnvelope'' None 200 ([(''user_rel_path'', string_with []), (''project_ref'', string_with [])] @ paging) [] False"
  "entries_at ''post'' (entries_at ''/v1/send-message'' paths) = operation_entry ''sendMessage'' ''EventEnvelope'' (Some ''SendMessageCreate'') 200 [] [] True"
  "entries_at ''post'' (entries_at ''/v1/cancel-message'' paths) = operation_entry ''cancelMessage'' ''MessageEnvelope'' (Some ''CancelMessage'') 200 [] [] False"
  "entries_at ''get'' (entries_at ''/v1/get-session-state'' paths) = operation_entry ''getSessionState'' ''SessionStateEnvelope'' None 200 [(''session_id'', uuid)] [''session_id''] False"
  "entries_at ''get'' (entries_at ''/v1/get-message'' paths) = operation_entry ''getMessage'' ''MessageEnvelope'' None 200 [(''message_id'', uuid)] [''message_id''] False"
  "entries_at ''get'' (entries_at ''/v1/list-session-messages'' paths) = operation_entry ''listSessionMessages'' ''MessagePageEnvelope'' None 200 ([(''session_id'', uuid)] @ paging) [''session_id''] False"
  "entries_at ''post'' (entries_at ''/v1/reply'' paths) = operation_entry ''reply'' ''EventEnvelope'' (Some ''ReplyCreate'') 200 [] [] True"
  "entries_at ''get'' (entries_at ''/v1/stream-session-events'' paths) = operation_entry ''streamSessionEvents'' ''EventEnvelope'' None 200 [(''session_id'', uuid), (''after_seq'', integer)] [''session_id''] True"
  "entries_at ''get'' (entries_at ''/v1/list-session-events'' paths) = operation_entry ''listSessionEvents'' ''EventPageEnvelope'' None 200 ([(''session_id'', uuid)] @ event_paging) [''session_id''] False"
  "entries_at ''get'' (entries_at ''/v1/list-session-files'' paths) = operation_entry ''listSessionFiles'' ''FilePageEnvelope'' None 200 [(''session_id'', uuid)] [''session_id''] False"
  "entries_at ''get'' (entries_at ''/v1/read-session-file'' paths) = operation_entry ''readSessionFile'' ''FileContentEnvelope'' None 200 [(''session_id'', uuid), (''path'', string_with [(''minLength'', JInt 1), (''maxLength'', JInt 1000)])] [''session_id'', ''path''] False"
  by (simp_all add: paths_list entries_at_def)

lemma documented_entry:
  assumes "(path, method) \<in> set documented_operations"
  shows "\<exists>op response body status query names sse. status \<in> {200, 201}
     \<and> entries_at method (entries_at path paths) = operation_entry op response body status query names sse"
proof -
  have "(path, method) \<in> {(''/health'', ''get''), (''/v1/create-session'', ''post''), (''/v1/update-session'', ''post''), (''/v1/get-session'', ''get''), (''/v1/list-sessions'', ''get''), (''/v1/send-message'', ''post''), (''/v1/cancel-message'', ''post''), (''/v1/get-session-state'', ''get''), (''/v1/get-message'', ''get''), (''/v1/list-session-messages'', ''get''), (''/v1/reply'', ''post''), (''/v1/stream-session-events'', ''get''), (''/v1/list-session-events'', ''get''), (''/v1/list-session-files'', ''get''), (''/v1/read-session-file'', ''get'')}"
    using assms by (simp add: documented_operations_def paths_list)
  then show ?thesis
    by (elim insertE emptyE Pair_inject; hypsubst; subst operation_entries; intro exI conjI; (rule_tac [2] refl)?; simp)
qed

lemma entries_at_Some: "map_of kvs k = Some (JObj xs) \<Longrightarrow> entries_at k kvs = xs"
  by (simp add: entries_at_def)

lemma schema_of_response: "map_of (entries_at ''application/json'' (entries_at ''content''
    [(''description'', d), (''content'', json_content s ''application/json'')])) ''schema'' = Some s"
  by (simp add: entries_at_def json_content_def)

lemma success_schema:
  assumes "entries_at method (entries_at path paths) = operation_entry op response body s query names False" "s \<in> {200, 201}"
  shows "response_schema path method s = Some (ref_to response)"
  unfolding response_schema_def assms(1) operation_responses entries_at_Some [OF responses_by_status(1) [OF assms(2)]]
  by (simp add: schema_of_response)

lemma error_schema_documented:
  assumes "(path, method) \<in> set documented_operations" "n \<in> error_statuses"
  shows "response_schema path method n = (if n = 500 then None else Some (ref_to ''ErrorResponse''))"
proof -
  obtain op response body status query names sse where st: "status \<in> {200, 201}"
    and e: "entries_at method (entries_at path paths) = operation_entry op response body status query names sse"
    using documented_entry [OF assms(1)] by blast
  show ?thesis
  proof (cases "n = 500")
    case True
    then show ?thesis unfolding response_schema_def e operation_responses
      by (simp add: entries_at_def responses_by_status(3) [OF st])
  next
    case False
    then have n: "n \<in> {400, 404, 409, 422, 503}" using assms(2) by (auto simp: error_statuses_def)
    obtain d where "map_of errors (py_str_nat n) = Some (JObj [(''description'', JStr d),
        (''content'', json_content (ref_to ''ErrorResponse'') ''application/json'')])"
      using documented_errors [OF n] by blast
    then have "map_of (merge_dict [(py_str_nat status, r)] errors) (py_str_nat n) = Some (JObj [(''description'', JStr d),
        (''content'', json_content (ref_to ''ErrorResponse'') ''application/json'')])" for r
      by (simp add: responses_by_status(2) [OF st n])
    from entries_at_Some [OF this] show ?thesis
      unfolding response_schema_def e operation_responses by (simp add: schema_of_response False)
  qed
qed

lemma answer_schemas:
  "response_schema ''/health'' ''get'' 200 = Some (ref_to ''HealthEnvelope'')"
  "response_schema ''/v1/get-session'' ''get'' 200 = Some (ref_to ''SessionEnvelope'')"
  "response_schema ''/v1/list-sessions'' ''get'' 200 = Some (ref_to ''SessionPageEnvelope'')"
  "response_schema ''/v1/list-session-files'' ''get'' 200 = Some (ref_to ''FilePageEnvelope'')"
  "response_schema ''/v1/read-session-file'' ''get'' 200 = Some (ref_to ''FileContentEnvelope'')"
  "response_schema ''/v1/create-session'' ''post'' 201 = Some (ref_to ''SessionEnvelope'')"
  "response_schema ''/v1/update-session'' ''post'' 200 = Some (ref_to ''SessionEnvelope'')"
  "response_schema ''/v1/get-message'' ''get'' 200 = Some (ref_to ''MessageEnvelope'')"
  "response_schema ''/v1/cancel-message'' ''post'' 200 = Some (ref_to ''MessageEnvelope'')"
  "response_schema ''/v1/list-session-messages'' ''get'' 200 = Some (ref_to ''MessagePageEnvelope'')"
  by (rule success_schema, (rule operation_entries)?, simp)+

lemma conforms_views:
  "accepts schemas 15 (ref_to ''Session'') (session_json v)"
  "accepts schemas 15 (ref_to ''Health'') (JObj [(''status'', JStr ''ok''), (''api_version'', JStr ''1''),
     (''model_configured'', JBool b), (''execution_backend'', JStr ''local_process''),
     (''permission_mode'', JStr ''default_allow''), (''isolation_mode'', JStr ''trusted_logical'')])"
  "accepts schemas 15 (ref_to ''FileContent'') (JObj [(''path'', JStr p), (''content'', JStr c),
     (''digest'', JStr d), (''truncated'', JBool b)])"
  "page_lists x (map session_json vs) \<Longrightarrow> accepts schemas 15 (ref_to ''SessionPage'') x"
  "page_lists x (map file_json fs) \<Longrightarrow> accepts schemas 15 (ref_to ''FilePage'') x"
  by (auto simp: numeral_eq_Suc accepts_ref lookup_views lookup_pages session_accepts health_accepts content_accepts
    page_lists_def page_accepts list_all_iff file_accepts)

definition plain_routes :: "string set" where
  "plain_routes = {''/health'', ''/v1/get-session'', ''/v1/list-sessions'', ''/v1/list-session-files'', ''/v1/read-session-file''}"

lemma documented_answer:
  assumes "gives status P m" "fst (answer_errors m a) = Reply s j" "s \<in> {200, 201}"
    and "response_schema path method status = Some (ref_to (name @ ''Envelope''))"
    and "name \<in> {''Health'', ''Session'', ''SessionPage'', ''Message'', ''MessagePage'', ''SessionState'', ''Event'',
        ''EventPage'', ''FilePage'', ''FileContent''}"
    and "\<And>d. P d \<Longrightarrow> accepts schemas 15 (ref_to name) d"
  shows "\<exists>t. response_schema path method s = Some t \<and> conforms t j"
proof -
  obtain d where d: "Reply s j = ok_reply status d" "P d" using given [OF assms(1-3)] by blast
  then have "s = status" by (simp add: ok_reply_def)
  then show ?thesis using envelope_conforms [OF assms(5) d(1)] assms(6) [OF d(2)] assms(4) by blast
qed

lemma get_answer: "fst (do_GET G path q a) = Reply s j \<Longrightarrow> map_of (get_handlers G q) path = Some m
    \<Longrightarrow> fst (answer_errors m a) = Reply s j"
  by (simp add: do_GET_def dispatch_def)

lemma get_documented:
  assumes "fst (do_GET G path q a) = Reply s j" "s \<in> {200, 201}" "path \<in> plain_routes"
  shows "\<exists>t. response_schema path ''get'' s = Some t \<and> conforms t j"
proof -
  from assms(3) [unfolded plain_routes_def] show ?thesis
  proof (elim insertE emptyE)
    assume p: "path = ''/health''"
    have "fst (answer_errors (health G) a) = Reply s j"
      by (rule get_answer [OF assms(1)]) (simp add: p get_handlers_def)
    then show ?thesis unfolding p
      by (rule documented_answer [OF get_given(1) _ assms(2), where name = "''Health''"])
        (simp add: answer_schemas, simp, elim exE, hypsubst, rule conforms_views(2))
  next
    assume p: "path = ''/v1/get-session''"
    have "fst (answer_errors (handle_get_session q) a) = Reply s j"
      by (rule get_answer [OF assms(1)]) (simp add: p get_handlers_def)
    then show ?thesis unfolding p
      by (rule documented_answer [OF get_given(2) _ assms(2), where name = "''Session''"])
        (simp add: answer_schemas, simp, elim exE, hypsubst, rule conforms_views(1))
  next
    assume p: "path = ''/v1/list-sessions''"
    have "fst (answer_errors (handle_list_sessions q) a) = Reply s j"
      by (rule get_answer [OF assms(1)]) (simp add: p get_handlers_def)
    then show ?thesis unfolding p
      by (rule documented_answer [OF get_given(3) _ assms(2), where name = "''SessionPage''"])
        (simp add: answer_schemas, simp, elim exE, erule conforms_views(4))
  next
    assume p: "path = ''/v1/list-session-files''"
    have "fst (answer_errors (handle_list_session_files G q) a) = Reply s j"
      by (rule get_answer [OF assms(1)]) (simp add: p get_handlers_def)
    then show ?thesis unfolding p
      by (rule documented_answer [OF get_given(4) _ assms(2), where name = "''FilePage''"])
        (simp add: answer_schemas, simp, elim exE, erule conforms_views(5))
  next
    assume p: "path = ''/v1/read-session-file''"
    have "fst (answer_errors (handle_read_session_file G q) a) = Reply s j"
      by (rule get_answer [OF assms(1)]) (simp add: p get_handlers_def)
    then show ?thesis unfolding p
      by (rule documented_answer [OF get_given(5) _ assms(2), where name = "''FileContent''"])
        (simp add: answer_schemas, simp, elim exE, hypsubst, rule conforms_views(3))
  qed
qed

lemma post_answer:
  assumes "fst (do_POST G path content_length input a) = Reply s j"
  shows "s \<in> error_statuses \<or> (\<exists>body. \<forall>m. map_of (post_handlers G body) path = Some m \<longrightarrow> fst (answer_errors m a) = Reply s j)"
proof (cases "read_body content_length input")
  case (Inl e)
  then have "error_reply e = Reply s j" using assms by (simp add: do_POST_def answer_errors_def thenS_def liftS_def)
  then show ?thesis using error_reply_form [of e] by (auto simp: business_error_def)
next
  case (Inr body)
  then have "fst (answer_errors (dispatch (post_handlers G body) path) a) = Reply s j"
    using assms by (simp add: do_POST_def answer_errors_def thenS_def liftS_def)
  then show ?thesis by (intro disjI2 exI [of _ body]) (auto simp: dispatch_def)
qed

lemma post_documented:
  assumes "fst (do_POST G path content_length input a) = Reply s j" "s \<in> {200, 201}"
    "path \<in> {''/v1/create-session'', ''/v1/update-session''}"
  shows "\<exists>t. response_schema path ''post'' s = Some t \<and> conforms t j"
proof -
  have "s \<notin> error_statuses" using assms(2) by (auto simp: error_statuses_def)
  then obtain body where m: "\<And>m. map_of (post_handlers G body) path = Some m \<Longrightarrow> fst (answer_errors m a) = Reply s j"
    using post_answer [OF assms(1)] by blast
  from assms(3) show ?thesis
  proof (elim insertE emptyE)
    assume p: "path = ''/v1/create-session''"
    have "fst (answer_errors (handle_create_session G body) a) = Reply s j"
      by (rule m) (simp add: p post_handlers_def)
    then show ?thesis unfolding p
      by (rule documented_answer [OF post_given(1) _ assms(2), where name = "''Session''"])
        (simp add: answer_schemas, simp, elim exE, hypsubst, rule conforms_views(1))
  next
    assume p: "path = ''/v1/update-session''"
    have "fst (answer_errors (handle_update_session G body) a) = Reply s j"
      by (rule m) (simp add: p post_handlers_def)
    then show ?thesis unfolding p
      by (rule documented_answer [OF post_given(2) _ assms(2), where name = "''Session''"])
        (simp add: answer_schemas, simp, elim exE, hypsubst, rule conforms_views(1))
  qed
qed

lemma well_formed_conforms:
  assumes "well_formed (Reply s j)"
  shows "s \<in> {200, 201} \<or> s \<in> error_statuses \<and> conforms (ref_to ''ErrorResponse'') j"
  using assms error_conforms by (auto simp: well_formed_def split: if_splits)

lemma get_well_formed: "well_formed (fst (do_GET G path q a))"
  unfolding do_GET_def by (intro answered replies_dispatch get_replies)

lemma post_well_formed: "well_formed (fst (do_POST G path content_length input a))"
  unfolding do_POST_def by (intro answered replies_then replies_dispatch post_replies)

lemma plain_documented: "path \<in> plain_routes \<Longrightarrow> (path, ''get'') \<in> set documented_operations"
  "path \<in> {''/v1/create-session'', ''/v1/update-session''} \<Longrightarrow> (path, ''post'') \<in> set documented_operations"
  by (auto simp: plain_routes_def documented_operations_def paths_list)



section \<open>Messages\<close>

definition error_readable :: "json \<Rightarrow> bool" where
  "error_readable e \<longleftrightarrow> \<not> json_truthy e \<or> (\<exists>s. e = JStr s) \<or> (\<exists>kvs. e = JObj kvs)"

lemma message_view_defined: "(\<exists>d. message_json_view v = Inr d) \<longleftrightarrow> error_readable (or_null (rv_error v))"
  by (cases "or_null (rv_error v)") (auto simp: message_json_view_def Let_def public_error_def error_readable_def)

lemma message_page_views:
  "(\<exists>js. mapE message_json_view vs = Inr js \<and> list_all (accepts schemas 11 message_schema) js)
   \<longleftrightarrow> list_all (\<lambda>v. error_readable (or_null (rv_error v)) \<and> message_texts v \<and> 1 \<le> r_run_seq (rv_row v)) vs"
proof (induction vs)
  case (Cons v vs)
  have v: "(\<exists>d. message_json_view v = Inr d \<and> accepts schemas 11 message_schema d)
      \<longleftrightarrow> error_readable (or_null (rv_error v)) \<and> message_texts v \<and> 1 \<le> r_run_seq (rv_row v)"
    using message_accepts [of v _ 6] by (auto simp: message_view_defined [symmetric] numeral_eq_Suc)
  show ?case unfolding list.pred_inject v [symmetric] Cons.IH [symmetric]
    by (auto elim!: bindE_InrE)
qed simp

text \<open>A message is shown as the contract documents it exactly when its input can be read back as
  text, its output is text or absent, its number in the Session is positive and its error is one a
  reader understands; a page of messages, exactly when all of them are. A message whose input is
  gone from the content store is therefore answered with a null input, which no schema allows.\<close>

theorem messages_as_documented:
  "((\<exists>d. message_json_view v = Inr d \<and> conforms (ref_to ''MessageEnvelope'')
       (JObj [(''code'', JStr (business_code_value B_OK)), (''message'', JStr ''success''), (''data'', d)]))
     \<longleftrightarrow> error_readable (or_null (rv_error v)) \<and> message_texts v \<and> 1 \<le> r_run_seq (rv_row v))
   \<and> ((\<exists>js. mapE message_json_view vs = Inr js \<and> conforms (ref_to ''MessagePageEnvelope'')
       (JObj [(''code'', JStr (business_code_value B_OK)), (''message'', JStr ''success''), (''data'', page_json js cursor)]))
     \<longleftrightarrow> list_all (\<lambda>v. error_readable (or_null (rv_error v)) \<and> message_texts v \<and> 1 \<le> r_run_seq (rv_row v)) vs)"
proof
  have "conforms (ref_to ''MessageEnvelope'') (JObj [(''code'', JStr (business_code_value B_OK)),
      (''message'', JStr ''success''), (''data'', d)]) \<longleftrightarrow> accepts schemas 14 message_schema d" for d
    using envelope_accepts [of "''Message''" 14 d] by (simp add: conforms_def numeral_eq_Suc accepts_ref lookup_views)
  then show "(\<exists>d. message_json_view v = Inr d \<and> conforms (ref_to ''MessageEnvelope'')
       (JObj [(''code'', JStr (business_code_value B_OK)), (''message'', JStr ''success''), (''data'', d)]))
     \<longleftrightarrow> error_readable (or_null (rv_error v)) \<and> message_texts v \<and> 1 \<le> r_run_seq (rv_row v)"
    using message_accepts [of v _ 9] by (auto simp: message_view_defined [symmetric] numeral_eq_Suc)
  have "conforms (ref_to ''MessagePageEnvelope'') (JObj [(''code'', JStr (business_code_value B_OK)),
      (''message'', JStr ''success''), (''data'', page_json js cursor)]) \<longleftrightarrow> list_all (accepts schemas 11 message_schema) js" for js
  proof -
    have "accepts schemas 12 (ref_to ''Message'') = accepts schemas 11 message_schema"
      by (rule ext) (simp add: numeral_eq_Suc accepts_ref lookup_views)
    then show ?thesis using envelope_accepts [of "''MessagePage''" 14 "page_json js cursor"]
      by (simp add: conforms_def numeral_eq_Suc accepts_ref [of _ _ "''MessagePage''"] lookup_pages page_accepts)
  qed
  then show "(\<exists>js. mapE message_json_view vs = Inr js \<and> conforms (ref_to ''MessagePageEnvelope'')
       (JObj [(''code'', JStr (business_code_value B_OK)), (''message'', JStr ''success''), (''data'', page_json js cursor)]))
     \<longleftrightarrow> list_all (\<lambda>v. error_readable (or_null (rv_error v)) \<and> message_texts v \<and> 1 \<le> r_run_seq (rv_row v)) vs"
    by (simp add: message_page_views)
qed

section \<open>Events of a message\<close>

definition pending_fits :: "pending_reply option \<Rightarrow> bool" where
  "pending_fits p \<longleftrightarrow> (case p of None \<Rightarrow> True
     | Some x \<Rightarrow> pr_kind x \<in> {''clarification'', ''execution_reconciliation'', ''approval''} \<and> (\<exists>s. pr_prompt x = JStr s))"

lemma pending_accepts: "accepts schemas (Suc (Suc (Suc (Suc n)))) (nullable (ref_to ''PendingReply'')) (pending_json p) \<longleftrightarrow> pending_fits p"
  by (cases p) (auto simp: pending_json_def pending_fits_def accept_rules pending_reply_schema_def)

definition outcome_fits :: "json \<Rightarrow> bool" where
  "outcome_fits j \<longleftrightarrow> j = JNull \<or> (\<exists>t. j = JStr (task_outcome_value t))"

lemma outcome_fits_accepts: "accepts schemas (Suc (Suc (Suc n))) (nullable (ref_to ''TaskOutcome'')) j \<longleftrightarrow> outcome_fits j"
proof -
  have "t \<in> set all_task_outcomes" for t by (cases t) (simp_all add: all_task_outcomes_def)
  then show ?thesis by (auto simp: outcome_fits_def accept_rules task_outcome_schema_def)
qed

text \<open>What an event of a message must carry for its public form to be documented.\<close>

definition message_event_fits :: "(string \<Rightarrow> exn + pending_reply option) \<Rightarrow> event_view \<Rightarrow> json_dict \<Rightarrow> bool" where
  "message_event_fits pending ev kvs \<longleftrightarrow> (case ev_type ev of
     RUN_WAITING \<Rightarrow> message_status_text (text_or kvs ''status'' '''') \<in> {''WAITING_USER'', ''WAITING_EXTERNAL''}
       \<and> (\<exists>p. pending (ev_session_id ev) = Inr p \<and> pending_fits p)
   | RUN_RECOVERING \<Rightarrow> (\<exists>s. value_or_empty ''reason'' kvs = JStr s)
   | RUN_FINISHED \<Rightarrow> outcome_fits (body_value ''task_outcome'' kvs) \<and> text_or_null (body_value ''output'' kvs)
   | MESSAGE_DELTA \<Rightarrow> (\<exists>s. value_or_empty ''text'' kvs = JStr s)
   | MESSAGE_COMPLETED \<Rightarrow> (\<exists>s. value_or_empty ''text'' kvs = JStr s)
   | _ \<Rightarrow> True)"

definition message_events :: "event_type set" where
  "message_events = {RUN_ACCEPTED, RUN_STARTED, RUN_WAITING, RUN_RESUMED, RUN_RECOVERING, RUN_CANCEL_REQUESTED,
     RUN_FINISHED, MESSAGE_DELTA, MESSAGE_COMPLETED}"

lemma event_conforms:
  assumes "map_of event_payloads (platform_event_value (pe_type e)) = Some p"
  shows "conforms (ref_to ''Event'') (public_event_json e) \<longleftrightarrow> 1 \<le> pe_seq e \<and> accepts schemas 13 p (JObj (pe_data e))"
  using event_accepts [OF assms, of 12] by (simp add: conforms_def numeral_eq_Suc)

lemma message_payloads:
  "map_of event_payloads ''message.accepted'' = Some message_accepted_payload"
  "map_of event_payloads ''message.started'' = Some message_started_payload"
  "map_of event_payloads ''message.waiting'' = Some message_waiting_payload"
  "map_of event_payloads ''message.resumed'' = Some message_resumed_payload"
  "map_of event_payloads ''message.recovering'' = Some message_recovering_payload"
  "map_of event_payloads ''message.cancel_requested'' = Some message_cancel_requested_payload"
  "map_of event_payloads ''message.finished'' = Some message_finished_payload"
  "map_of event_payloads ''message.delta'' = Some message_delta_payload"
  "map_of event_payloads ''message.completed'' = Some message_completed_payload"
  by (simp_all add: event_payloads_def)

lemma status_payload_accepts:
  "accepts S (Suc (Suc n)) (obj_with [(''message_id'', uuid), (''status'', string_with [(''enum'', JArr xs)])] [''message_id'', ''status''])
     (JObj (status_payload m s)) \<longleftrightarrow> JStr s \<in> set xs"
  by (simp add: status_payload_def accept_rules)

lemma body_value_simps: "body_value k kvs = or_null (map_of kvs k)"
  by (simp add: body_value_def)

lemma public_event_parts:
  assumes "public_event_of pending ev = Inr e"
  shows "public_payload pending ev = Inr (pe_data e)" "pe_type e = event_type_map (ev_type ev)"
  using assms by (auto simp: public_event_of_def split: option.splits elim!: bindE_InrE)

lemma message_event_conforms:
  assumes "public_event_of pending ev = Inr e" "ev_type ev \<in> message_events" "event_dict ''AttributeError'' ev = Inr kvs"
  shows "conforms (ref_to ''Event'') (public_event_json e) \<longleftrightarrow> 1 \<le> pe_seq e \<and> message_event_fits pending ev kvs"
proof -
  note d = public_event_parts [OF assms(1)]
  note ev = event_conforms [of e, unfolded d(2)]
  show ?thesis
  proof (cases "ev_type ev")
    case RUN_ACCEPTED
    then have "pe_data e = status_payload (ev_run_id ev) ''QUEUED''" using d(1) by (simp add: public_payload_def)
    then show ?thesis using ev RUN_ACCEPTED
      by (simp add: message_payloads message_accepted_payload_def numeral_eq_Suc status_payload_accepts message_event_fits_def)
  next
    case RUN_STARTED
    then have "pe_data e = status_payload (ev_run_id ev) ''RUNNING''" using d(1) by (simp add: public_payload_def)
    then show ?thesis using ev RUN_STARTED
      by (simp add: message_payloads message_started_payload_def numeral_eq_Suc status_payload_accepts message_event_fits_def)
  next
    case RUN_RESUMED
    then have "pe_data e = status_payload (ev_run_id ev) ''QUEUED''" using d(1) by (simp add: public_payload_def)
    then show ?thesis using ev RUN_RESUMED
      by (simp add: message_payloads message_resumed_payload_def numeral_eq_Suc status_payload_accepts message_event_fits_def)
  next
    case RUN_CANCEL_REQUESTED
    then have "pe_data e = status_payload (ev_run_id ev) ''CANCELLING''" using d(1) by (simp add: public_payload_def)
    then show ?thesis using ev RUN_CANCEL_REQUESTED
      by (simp add: message_payloads message_cancel_requested_payload_def numeral_eq_Suc status_payload_accepts message_event_fits_def)
  next
    case RUN_WAITING
    then obtain p where p: "pending (ev_session_id ev) = Inr p" "pe_data e = status_payload (ev_run_id ev)
        (message_status_text (text_or kvs ''status'' '''')) @ [(''pending_reply'', pending_json p)]"
      using d(1) assms(3) by (auto simp: public_payload_def Let_def elim!: bindE_InrE)
    have "accepts schemas 13 message_waiting_payload (JObj (pe_data e))
      \<longleftrightarrow> message_status_text (text_or kvs ''status'' '''') \<in> {''WAITING_USER'', ''WAITING_EXTERNAL''} \<and> pending_fits p"
      by (simp add: p(2) message_waiting_payload_def numeral_eq_Suc accepts_obj status_payload_def accepts_strings
        accepts_uuid_date pending_accepts)
    then show ?thesis using ev RUN_WAITING p(1) by (simp add: message_payloads message_event_fits_def)
  next
    case RUN_RECOVERING
    then have "pe_data e = [(''message_id'', JStr (ev_run_id ev)), (''reason'', value_or_empty ''reason'' kvs)]"
      using d(1) assms(3) by (auto simp: public_payload_def Let_def elim!: bindE_InrE)
    then show ?thesis using ev RUN_RECOVERING
      by (simp add: message_payloads message_recovering_payload_def numeral_eq_Suc accept_rules message_event_fits_def)
  next
    case RUN_FINISHED
    then obtain err where err: "public_error (body_value ''error'' kvs) (ev_run_id ev) = Inr err"
      and p: "pe_data e = status_payload (ev_run_id ev) (message_status_text (text_or kvs ''status'' ''''))
        @ [(''task_outcome'', body_value ''task_outcome'' kvs), (''output'', body_value ''output'' kvs), (''error'', err)]"
      using d(1) assms(3) by (auto simp: public_payload_def Let_def elim!: bindE_InrE)
    have "accepts schemas 13 message_finished_payload (JObj (pe_data e))
      \<longleftrightarrow> outcome_fits (body_value ''task_outcome'' kvs) \<and> text_or_null (body_value ''output'' kvs)"
      by (simp add: p message_finished_payload_def numeral_eq_Suc accepts_obj status_payload_def
        accepts_uuid_date outcome_fits_accepts error_accepts [OF err] accepts_ref lookup_enums status_accepts)
        (auto simp: accept_rules text_or_null_def)
    then show ?thesis using ev RUN_FINISHED by (simp add: message_payloads message_event_fits_def)
  next
    case MESSAGE_DELTA
    then have "pe_data e = [(''text'', value_or_empty ''text'' kvs)]"
      using d(1) assms(3) by (auto simp: public_payload_def Let_def elim!: bindE_InrE)
    then show ?thesis using ev MESSAGE_DELTA
      by (simp add: message_payloads message_delta_payload_def numeral_eq_Suc accept_rules message_event_fits_def)
  next
    case MESSAGE_COMPLETED
    then have "pe_data e = [(''text'', value_or_empty ''text'' kvs)]"
      using d(1) assms(3) by (auto simp: public_payload_def Let_def elim!: bindE_InrE)
    then show ?thesis using ev MESSAGE_COMPLETED
      by (simp add: message_payloads message_completed_payload_def numeral_eq_Suc accept_rules message_event_fits_def)
  qed (use assms(2) in \<open>simp_all add: message_events_def\<close>)
qed

text \<open>The public form of an event of a message is a value of the documented event union exactly when
  its number is positive and the journalled data fits: a waiting event must name a waiting status and
  its open question a documented kind, a recovering event must give its reason as text, a finished
  event one of the three outcomes or none and text or no output, whatever its error says; a delta must
  be text. The events that carry only a status always fit.\<close>

theorem message_events_as_documented:
  assumes "public_event_of pending ev = Inr e" "ev_type ev \<in> message_events" "event_dict ''AttributeError'' ev = Inr kvs"
  shows "conforms (ref_to ''Event'') (public_event_json e) \<longleftrightarrow> 1 \<le> pe_seq e \<and> message_event_fits pending ev kvs"
  using assms by (rule message_event_conforms)

definition sample_event :: event_view where
  "sample_event = \<lparr>ev_event_id = ''1'', ev_scope_id = ''u'', ev_run_id = ''20'', ev_session_id = ''10'', ev_seq = 2,
     ev_session_seq = Some 2, ev_schema_version = ''1'', ev_type = RUN_FINISHED, ev_occurred_at = ''t'',
     ev_data = JObj [(''status'', JStr ''SUCCEEDED''), (''task_outcome'', JStr ''completed''), (''error'', JNull),
       (''output'', JStr ''done'')]\<rparr>"

theorem message_events_as_documented_witness:
  "\<exists>e. public_event_of (\<lambda>_. Inr None) sample_event = Inr e \<and> conforms (ref_to ''Event'') (public_event_json e)"
proof -
  let ?kvs = "[(''status'', JStr ''SUCCEEDED''), (''task_outcome'', JStr ''completed''), (''error'', JNull), (''output'', JStr ''done'')]"
  obtain e where e: "public_event_of (\<lambda>_. Inr None) sample_event = Inr e" "pe_seq e = 2"
    by (simp add: public_event_of_def public_payload_def event_dict_def sample_event_def public_error_def body_value_def
      or_null_def Let_def)
  have "message_event_fits (\<lambda>_. Inr None) sample_event ?kvs"
    by (simp add: message_event_fits_def sample_event_def body_value_def outcome_fits_def text_or_null_def or_null_def)
      (rule exI [of _ COMPLETED], simp)
  then show ?thesis using e message_events_as_documented [OF e(1), of ?kvs]
    by (simp add: sample_event_def message_events_def event_dict_def)
qed

section \<open>What the journal says of a status change\<close>

lemma transition_event: "transition st target v outcome reason = Inr t \<Longrightarrow>
    tr_event_type t = (if target \<in> TERMINAL_STATUSES then RUN_FINISHED else nonterminal_event target)
    \<and> rs_status (tr_after t) = target"
  by (auto simp: transition_def split: if_splits)

lemma text_or_str: "map_of kvs key = Some (JStr s) \<Longrightarrow> s \<noteq> [] \<Longrightarrow> text_or kvs key d = s"
  by (simp add: text_or_def py_str_def)

lemma status_change_fits:
  assumes "transition st target v (ch_task_outcome ch) (ch_reason ch) = Inr t" "ch_extra_data ch = None"
    and "ev_type ev = tr_event_type t"
    and "\<And>k. k \<noteq> ''output'' \<Longrightarrow> k \<noteq> ''output_ref'' \<Longrightarrow> map_of kvs k = map_of (transition_data ch t output_ref) k"
    and "text_or_null (body_value ''output'' kvs)" "pending (ev_session_id ev) = Inr p" "pending_fits p"
  shows "message_event_fits pending ev kvs" "ev_type ev \<in> message_events"
proof -
  note ev = transition_event [OF assms(1)]
  have after: "rs_status (tr_after t) = target" using ev by blast
  have data: "map_of kvs ''status'' = map_of (transition_data ch t output_ref) ''status''"
    "map_of kvs ''task_outcome'' = map_of (transition_data ch t output_ref) ''task_outcome''"
    "map_of kvs ''reason'' = map_of (transition_data ch t output_ref) ''reason''"
    by (simp_all add: assms(4))
  show "ev_type ev \<in> message_events"
    using ev assms(3) by (cases target) (auto simp: message_events_def TERMINAL_STATUSES_def)
  show "message_event_fits pending ev kvs"
  proof (cases "target \<in> TERMINAL_STATUSES")
    case True
    then have "ev_type ev = RUN_FINISHED" "tr_event_type t = RUN_FINISHED" using ev assms(3) by simp_all
    then show ?thesis using data(2) assms(5)
      by (auto simp: message_event_fits_def transition_data_def Let_def body_value_def or_null_def outcome_fits_def split: option.split)
  next
    case False
    then have t: "tr_event_type t = nonterminal_event target" "ev_type ev = nonterminal_event target"
      using ev assms(3) by simp_all
    show ?thesis
    proof (cases target)
      case WAITING_USER
      then have "map_of kvs ''status'' = Some (JStr ''WAITING_USER'')"
        using data(1) t(1) after assms(2) by (simp add: transition_data_def waiting_def merge_dict_def)
      then show ?thesis using assms(6,7) t(2) WAITING_USER
        by (simp add: message_event_fits_def text_or_str message_status_text_def status_table_def)
    next
      case WAITING_EXTERNAL
      then have "map_of kvs ''status'' = Some (JStr ''WAITING_EXTERNAL'')"
        using data(1) t(1) after assms(2) by (simp add: transition_data_def waiting_def merge_dict_def)
      then show ?thesis using assms(6,7) t(2) WAITING_EXTERNAL
        by (simp add: message_event_fits_def text_or_str message_status_text_def status_table_def)
    next
      case RECOVERING
      then have "\<exists>s. map_of kvs ''reason'' = Some (JStr s)"
        using data(3) t(1) after assms(2) by (simp add: transition_data_def waiting_def merge_dict_def)
      then show ?thesis using t(2) RECOVERING by (auto simp: message_event_fits_def value_or_empty_def)
    qed (use t False in \<open>simp_all add: message_event_fits_def TERMINAL_STATUSES_def\<close>)
  qed
qed

text \<open>C30: What the store journals for a change of a Run's status is always published as documented: for
  every transition the state machine allows and every data it journals with it, the public event is a
  value of the event union, as long as the output reads back as text and the Session's open question
  is one of the documented kinds.\<close>

theorem status_changes_as_documented:
  assumes "transition st target v (ch_task_outcome ch) (ch_reason ch) = Inr t" "ch_extra_data ch = None"
    and "ev_type ev = tr_event_type t" "event_dict ''AttributeError'' ev = Inr kvs"
    and "\<And>k. k \<noteq> ''output'' \<Longrightarrow> k \<noteq> ''output_ref'' \<Longrightarrow> map_of kvs k = map_of (transition_data ch t output_ref) k"
    and "text_or_null (body_value ''output'' kvs)" "pending (ev_session_id ev) = Inr p" "pending_fits p"
    and "public_event_of pending ev = Inr e" "1 \<le> pe_seq e"
  shows "conforms (ref_to ''Event'') (public_event_json e)"
  using status_change_fits [where pending = pending and p = p and output_ref = output_ref, OF assms(1-3,5-8)]
    message_event_conforms [OF assms(9) _ assms(4)] assms(10) by blast

theorem status_changes_as_documented_witness:
  "\<exists>e. public_event_of (\<lambda>_. Inr None) sample_event = Inr e \<and> conforms (ref_to ''Event'') (public_event_json e)"
proof -
  let ?kvs = "[(''status'', JStr ''SUCCEEDED''), (''task_outcome'', JStr ''completed''), (''error'', JNull), (''output'', JStr ''done'')]"
  let ?st = "\<lparr>rs_run_id = ''20'', rs_status = RUNNING, rs_state_version = 1, rs_task_outcome = None, rs_wait_reason = None\<rparr>"
  let ?ch = "\<lparr>ch_target = SUCCEEDED, ch_expected_version = 1, ch_task_outcome = Some COMPLETED, ch_reason = None,
     ch_output = Some ''done'', ch_error = None, ch_extra_data = None\<rparr>"
  obtain e where e: "public_event_of (\<lambda>_. Inr None) sample_event = Inr e" "pe_seq e = 2"
    by (simp add: public_event_of_def public_payload_def event_dict_def sample_event_def public_error_def body_value_def
      or_null_def Let_def)
  obtain t where t: "transition ?st SUCCEEDED 1 (ch_task_outcome ?ch) (ch_reason ?ch) = Inr t"
    by (simp add: transition_def waiting_def Let_def)
  have outcome: "rs_task_outcome (tr_after t) = Some COMPLETED" "tr_event_type t = RUN_FINISHED" "rs_status (tr_after t) = SUCCEEDED"
    using t by (auto simp: transition_def waiting_def Let_def TERMINAL_STATUSES_def)
  have "conforms (ref_to ''Event'') (public_event_json e)"
  proof (rule status_changes_as_documented [where ?kvs = ?kvs and p = None and output_ref = "Some ''r''", OF t _ _ _ _ _ _ _ e(1)])
    show "map_of ?kvs k = map_of (transition_data ?ch t (Some ''r'')) k" if "k \<noteq> ''output''" "k \<noteq> ''output_ref''" for k
      using that outcome by (simp add: transition_data_def error_json_def)
  qed (use e(2) outcome in \<open>simp_all add: sample_event_def event_dict_def text_or_null_def body_value_def or_null_def pending_fits_def\<close>)
  then show ?thesis using e(1) by blast
qed

section \<open>Events of tools\<close>

lemma settle_error:
  assumes "settle h sc r w = (Inr st, w')"
  shows "if st_status st = Tool_SUCCEEDED then st_error st = None
     else st_error st = None \<or> (\<exists>c msg. st_error st = Some (error_dict c msg))"
  using assms
  by (auto simp: settle_def ret_def bindA_def split: if_splits prod.splits sum.splits) blast

lemma tool_error_form:
  assumes "settle h sc (tr_result tr) w = (Inr st, w')"
  shows "tool_error tr st = None \<and> st_status st = Tool_SUCCEEDED
     \<or> (\<exists>c m. tool_error tr st = Some [(''code'', JStr c), (''message'', JStr m)] \<and> st_status st \<noteq> Tool_SUCCEEDED)"
  using settle_error [OF assms] by (auto simp: tool_error_def error_dict_def split: if_splits)

lemma short_error_refused: "\<not> accepts schemas (Suc (Suc (Suc n))) (nullable (ref_to ''Error'')) (JObj [(''code'', c), (''message'', m)])"
  by (simp add: accept_rules error_schema_def)



end
