(* ===== verification/ApiFiles.thy ===== *)
theory ApiFiles
  imports ApiDocument
begin

text \<open>
  The files \<open>scripts/export_contracts.py\<close> writes, read back: what \<open>json.dumps(..., indent=2)\<close> prints is
  what \<open>json.loads\<close> reads, and the exported table of transitions is the one of \<open>state_machine.py\<close>.
\<close>

section \<open>Reading indented text\<close>

lemma skip_ws_newline [simp]: "skip_ws (new_line d @ s) = skip_ws s"
proof -
  have "dropWhile json_ws (replicate n CHR '' '' @ s) = dropWhile json_ws s" for n
    by (induction n) (simp_all add: json_ws_def)
  then show ?thesis by (simp add: new_line_def skip_ws_def json_ws_def)
qed

lemma ends_number_newline [simp]: "ends_number (new_line d @ s)"
  by (simp add: new_line_def ends_number_def is_digit_def)

lemma newline_split: "new_line d @ s = CHR 0x0A # replicate (2 * d) (CHR '' '') @ s"
  by (simp add: new_line_def)

definition reads_indent :: "nat \<Rightarrow> json \<Rightarrow> bool" where
  "reads_indent d j \<longleftrightarrow> (\<forall>n t. 2 * length (dumps_indent d j) \<le> n \<longrightarrow> ends_number t \<longrightarrow>
     parse_value n (dumps_indent d j @ t) = Some (j, t))"

lemma starts_value_indent: "starts_value (dumps_indent d j @ t)"
proof (cases j)
  case (JArr xs) then show ?thesis by (simp add: starts_value_def json_ws_def)
next
  case (JObj kvs) then show ?thesis by (simp add: starts_value_def json_ws_def)
qed (use starts_value_dumps in \<open>simp_all del: dumps.simps\<close>)

lemma skip_ws_indent [simp]: "skip_ws (dumps_indent d j @ t) = dumps_indent d j @ t"
  by (rule skip_ws_starts [OF starts_value_indent])

lemma indent_nonempty: "1 \<le> length (dumps_indent d j)"
  using starts_value_indent [of d j "[]"] by (cases "dumps_indent d j") (auto simp: starts_value_def)

lemma parse_elems_indent:
  assumes "xs \<noteq> []" "\<forall>x \<in> set xs. reads_indent d x"
    "2 * length (py_join ('','' @ new_line d) (map (dumps_indent d) xs)) + 1 \<le> n"
  shows "parse_elems n (py_join ('','' @ new_line d) (map (dumps_indent d) xs) @ new_line e @ CHR '']'' # t) = Some (xs, t)"
  using assms
proof (induction xs arbitrary: n)
  case (Cons x xs)
  obtain m where n: "n = Suc m" using Cons.prems by (cases n) auto
  show ?case
  proof (cases "xs = []")
    case True
    then have "parse_value m (dumps_indent d x @ new_line e @ CHR '']'' # t) = Some (x, new_line e @ CHR '']'' # t)"
      using Cons.prems n unfolding reads_indent_def by auto
    then show ?thesis using True n by simp
  next
    case False
    let ?J = "py_join ('','' @ new_line d) (map (dumps_indent d) xs)"
    have J: "py_join ('','' @ new_line d) (map (dumps_indent d) (x # xs)) = dumps_indent d x @ '','' @ new_line d @ ?J"
      using False by (cases xs) auto
    have sk: "skip_ws (?J @ u) = ?J @ u" for u
      using False skip_ws_indent by (cases xs; cases "tl xs") auto
    have "parse_value m (dumps_indent d x @ CHR '','' # new_line d @ ?J @ new_line e @ CHR '']'' # t)
        = Some (x, CHR '','' # new_line d @ ?J @ new_line e @ CHR '']'' # t)"
      using Cons.prems n J unfolding reads_indent_def by auto
    moreover have "parse_elems m (?J @ new_line e @ CHR '']'' # t) = Some (xs, t)"
      using Cons.prems n J False by (intro Cons.IH) auto
    ultimately show ?thesis using n J sk by simp
  qed
qed simp

abbreviation entry_text :: "nat \<Rightarrow> string \<times> json \<Rightarrow> string" where
  "entry_text d kv \<equiv> quote_str (fst kv) @ '': '' @ dumps_indent d (snd kv)"

lemma skip_ws_space [simp]: "skip_ws (CHR '' '' # s) = skip_ws s"
  by (simp add: skip_ws_def json_ws_def)

lemma parse_members_indent:
  assumes "kvs \<noteq> []" "\<forall>kv \<in> set kvs. reads_indent d (snd kv)"
    "2 * length (py_join ('','' @ new_line d) (map (entry_text d) kvs)) + 1 \<le> n"
  shows "parse_members n (py_join ('','' @ new_line d) (map (entry_text d) kvs) @ new_line e @ CHR ''}'' # t) = Some (kvs, t)"
  using assms
proof (induction kvs arbitrary: n)
  case (Cons kv kvs)
  obtain k v where kv: "kv = (k, v)" by (cases kv)
  obtain m where n: "n = Suc m" using Cons.prems by (cases n) auto
  have rb: "parse_value m (dumps_indent d v @ u) = Some (v, u)" if "ends_number u" "2 * length (dumps_indent d v) \<le> m" for u
    using Cons.prems kv that unfolding reads_indent_def by auto
  show ?case
  proof (cases "kvs = []")
    case True
    have "parse_value m (dumps_indent d v @ new_line e @ CHR ''}'' # t) = Some (v, new_line e @ CHR ''}'' # t)"
      using Cons.prems n kv True by (intro rb) auto
    then show ?thesis using True n kv by (simp add: quote_str_def parse_str_quote)
  next
    case False
    let ?J = "py_join ('','' @ new_line d) (map (entry_text d) kvs)"
    have J: "py_join ('','' @ new_line d) (map (entry_text d) (kv # kvs)) = quote_str k @ '': '' @ dumps_indent d v @ '','' @ new_line d @ ?J"
      using False kv by (cases kvs) auto
    have "starts_value (?J @ u)" for u
      using False starts_value_quote by (cases kvs; cases "tl kvs") auto
    then have sk: "skip_ws (?J @ u) = ?J @ u" for u by (rule skip_ws_starts)
    have "parse_value m (dumps_indent d v @ CHR '','' # new_line d @ ?J @ new_line e @ CHR ''}'' # t)
        = Some (v, CHR '','' # new_line d @ ?J @ new_line e @ CHR ''}'' # t)"
      using Cons.prems n J by (intro rb) auto
    moreover have "parse_members m (?J @ new_line e @ CHR ''}'' # t) = Some (kvs, t)"
      using Cons.prems n J False by (intro Cons.IH) auto
    ultimately show ?thesis using n kv J sk by (simp add: quote_str_def parse_str_quote)
  qed
qed simp

lemma reads_indentI:
  "(\<And>n t. 2 * length (dumps_indent d j) \<le> Suc n \<Longrightarrow> ends_number t \<Longrightarrow>
      parse_value (Suc n) (dumps_indent d j @ t) = Some (j, t)) \<Longrightarrow> reads_indent d j"
  unfolding reads_indent_def
  by (metis indent_nonempty not_less_eq_eq Suc_le_D mult_2 add_leD1 le_trans One_nat_def)

lemma norm_plain: "norm_json False JNull = JNull" "norm_json False (JBool b) = JBool b"
  "norm_json False (JInt i) = JInt i" "norm_json False (JStr s) = JStr s"
  by simp_all

lemma reads_indent_plain:
  assumes "j = JNull \<or> (\<exists>b. j = JBool b) \<or> (\<exists>i. j = JInt i) \<or> (\<exists>s. j = JStr s)"
  shows "reads_indent d j"
proof -
  have "reads_back False '', '' '': '' j"
    using assms by (intro reads_back_all) (auto simp: item_seps_def key_seps_def)
  moreover have "dumps_indent d j = dumps False '', '' '': '' j" "norm_json False j = j" using assms by auto
  ultimately show ?thesis unfolding reads_indent_def reads_back_def by simp
qed

lemma reads_indent_all: "wf_json j \<Longrightarrow> reads_indent d j"
proof (induction j arbitrary: d)
  case (JArr xs)
  show ?case
  proof (rule reads_indentI)
    fix n t assume n: "2 * length (dumps_indent d (JArr xs)) \<le> Suc n"
    let ?J = "py_join ('','' @ new_line (d + 1)) (map (dumps_indent (d + 1)) xs)"
    show "parse_value (Suc n) (dumps_indent d (JArr xs) @ t) = Some (JArr xs, t)"
    proof (cases "xs = []")
      case False
      have "starts_value (?J @ new_line d @ CHR '']'' # t)"
        using False starts_value_indent by (cases xs; cases "tl xs") auto
      then obtain c cs where c: "skip_ws (?J @ new_line d @ CHR '']'' # t) = c # cs"
          "?J @ new_line d @ CHR '']'' # t = c # cs" "c \<noteq> CHR '']''"
        by (rule starts_value_split)
      have "parse_elems n (?J @ new_line d @ CHR '']'' # t) = Some (xs, t)"
        using JArr n False by (intro parse_elems_indent) (auto simp: list_all_iff)
      then show ?thesis using c False by simp
    qed simp
  qed
next
  case (JObj kvs)
  show ?case
  proof (rule reads_indentI)
    fix n t assume n: "2 * length (dumps_indent d (JObj kvs)) \<le> Suc n"
    let ?J = "py_join ('','' @ new_line (d + 1)) (map (entry_text (d + 1)) kvs)"
    show "parse_value (Suc n) (dumps_indent d (JObj kvs) @ t) = Some (JObj kvs, t)"
    proof (cases "kvs = []")
      case False
      have "starts_value (?J @ new_line d @ CHR ''}'' # t)"
        using False starts_value_quote by (cases kvs; cases "tl kvs") auto
      then obtain c cs where c: "skip_ws (?J @ new_line d @ CHR ''}'' # t) = c # cs"
          "?J @ new_line d @ CHR ''}'' # t = c # cs" "c \<noteq> CHR ''}''"
        by (rule starts_value_split)
      have "parse_members n (?J @ new_line d @ CHR ''}'' # t) = Some (kvs, t)"
        using JObj n False by (intro parse_members_indent) (auto simp: list_all_iff case_prod_unfold)
      moreover have "dict_of kvs = kvs" using JObj.prems by (intro dict_of_distinct) simp
      ultimately show ?thesis using c False by (simp add: case_prod_unfold)
    qed simp
  qed
qed (simp_all add: reads_indent_plain)

lemma loads_indent:
  assumes "wf_json j" shows "loads (dumps_indent 0 j @ [CHR 0x0A]) = Some j"
proof -
  have "parse_value (2 * length (dumps_indent 0 j @ [CHR 0x0A]) + 2) (dumps_indent 0 j @ [CHR 0x0A]) = Some (j, [CHR 0x0A])"
    using reads_indent_all [OF assms, of 0, unfolded reads_indent_def, rule_format,
        of "2 * length (dumps_indent 0 j @ [CHR 0x0A]) + 2" "[CHR 0x0A]"]
    by (simp add: ends_number_def is_digit_def del: parse_value.simps)
  then show ?thesis by (simp add: loads_def) (simp add: skip_ws_def json_ws_def)
qed

section \<open>The exported table of transitions\<close>

definition targets_text :: "run_status \<Rightarrow> string list" where
  "targets_text s = sorted_list_of_set (run_status_value ` allowed_transitions s)"

lemma all_run_statuses_all: "s \<in> set all_run_statuses"
  by (cases s) (simp_all add: all_run_statuses_def)

lemma run_status_value_inject: "run_status_value s = run_status_value t \<longleftrightarrow> s = t"
  by (cases s; cases t; simp)

lemma machine_entries: "machine = JObj (map (\<lambda>s. (run_status_value s, JArr (map JStr (targets_text s)))) all_run_statuses)"
  by (simp add: machine_def targets_text_def)

lemma machine_wf: "wf_json machine"
proof -
  have "distinct (map run_status_value all_run_statuses)" by (simp add: all_run_statuses_def)
  then show ?thesis by (simp add: machine_entries comp_def list_all_iff)
qed

lemma map_of_machine: "map_of (map (\<lambda>s. (run_status_value s, f s)) ss) (run_status_value t) = (if t \<in> set ss then Some (f t) else None)"
  by (induction ss) (auto simp: run_status_value_inject)

section \<open>The exported document\<close>

lemma wf_strs [simp]: "list_all wf_json (map JStr xs)"
  by (simp add: list_all_iff)

lemma wf_building [walk_rules]:
  "wf_json (ref_to name)" "wf_json (array_of p) = wf_json p" "wf_json (nullable p) = wf_json p"
  "wf_json uuid" "wf_json date" "wf_json integer" "wf_json (enum_values val ms)"
  "wf_json (with_entries date [(''readOnly'', JBool b)])"
  "wf_json p \<Longrightarrow> wf_json (with_entries (array_of p) [(''maxItems'', JInt i), (''default'', JNull)])"
  "wf_json p \<Longrightarrow> wf_json (with_entries (array_of p) [(''maxItems'', JInt i), (''default'', JArr [])])"
  "wf_json (obj_with ps required) \<longleftrightarrow> distinct (map fst ps) \<and> list_all (\<lambda>(k, v). wf_json v) ps"
  by (simp_all add: ref_to_def array_of_def nullable_def uuid_def date_def integer_def string_with_def merge_dict_def
    with_entries_def obj_with_def enum_values_def list_all_iff)

lemma first_schemas_wf: "list_all (\<lambda>(name, s). wf_json s) first_schemas" "wf_json audited_run"
    "wf_json (obj_with audit_field_schemas (map fst audit_field_schemas))" "list_all (\<lambda>(name, s). wf_json s) event_payloads"
    "list_all (\<lambda>(name, s). wf_json s) page_entries" "list_all (\<lambda>(name, s). wf_json s) envelope_entries"
  by (simp_all add: first_schemas_def schema_defs event_payloads_def payload_defs audited_run_def audit_field_schemas_def
    page_entries_def page_of_def envelope_entries_def envelope_def walk_rules keyword_defs)

lemma union_wf: "wf_json event_union"
  by (simp add: event_union_def event_payloads_def walk_rules)

lemma schemas_wf: "\<forall>(name, s) \<in> set schemas. wf_json s"
proof (rule every_schema)
  show "wf_json (event_type_schema_of t p)" if "(t, p) \<in> set event_payloads" for t p
    using that first_schemas_wf(4) by (auto simp: list_all_iff event_type_schema_of_def event_base_value walk_rules keyword_defs)
  show "list_all (\<lambda>(name, s). wf_json (if name = ''Run'' then audited_run else if name = ''Event'' then event_union else s)) first_schemas"
    using first_schemas_wf(1,2) union_wf by (auto simp: list_all_iff)
qed (use first_schemas_wf in auto)

lemma merge_wf:
  assumes "wf_json (JObj base)" "list_all (\<lambda>(k, v). wf_json v) extra" shows "wf_json (JObj (merge_dict base extra))"
  using assms unfolding merge_dict_def
proof (induction extra arbitrary: base)
  case (Cons kv extra)
  have "wf_json (JObj (dict_set (fst kv) (snd kv) base))"
    using Cons.prems dict_set_wf [of base "snd kv" "fst kv"] by (simp add: case_prod_beta)
  then show ?case using Cons by (simp add: case_prod_beta)
qed simp

lemma operation_wf:
  assumes "list_all (\<lambda>(k, p). wf_json p) query"
  shows "wf_json (JObj (operation_entry op response body status query names sse))"
proof -
  have r: "wf_json (JObj (merge_dict [(py_str_nat status, r)] errors))" if "wf_json r" for r
    using that by (intro merge_wf) (simp_all add: errors_def json_content_def walk_rules)
  have "wf_json (query_parameters query names)"
    using assms by (auto simp: query_parameters_def list_all_iff)
  then show ?thesis
    unfolding operation_entry_def
    by (cases body; cases sse) (simp_all add: r json_content_def event_stream_schema_def walk_rules del: wf_json.simps(2),
      simp_all add: r [simplified] walk_rules)
qed

lemma spec_wf: "wf_json spec"
proof -
  have "wf_json (JObj paths)"
    by (simp add: paths_list) (simp add: operation_wf [simplified] paging_def event_paging_def walk_rules keyword_defs)
  moreover have "wf_json (JObj schemas)"
    using schemas_wf schema_keys_distinct by (auto simp: list_all_iff)
  ultimately show ?thesis by (simp add: spec_def)
qed

text \<open>The exported files are read back as what the script built. The document comes back unchanged; the
  table of transitions is the state machine: it has an entry for every status of a Run, and the entry of a status lists, sorted
  and without repetition, exactly the statuses \<open>transition\<close> allows next; so a status is terminal just
  when its list is empty.\<close>

theorem exported_files_read_back:
  "Option.bind (utf8_decode (the (map_of exported_files ''docs/api/openapi.json''))) loads = Some spec
   \<and> (\<exists>kvs. Option.bind (utf8_decode (the (map_of exported_files ''docs/api/run-state-machine.json''))) loads = Some (JObj kvs)
     \<and> (\<forall>s. \<exists>xs. map_of kvs (run_status_value s) = Some (JArr (map JStr xs)) \<and> sorted xs \<and> distinct xs
          \<and> (\<forall>t. run_status_value t \<in> set xs \<longleftrightarrow> t \<in> allowed_transitions s)
          \<and> (xs = [] \<longleftrightarrow> s \<in> TERMINAL_STATUSES)))"
proof
  show "Option.bind (utf8_decode (the (map_of exported_files ''docs/api/openapi.json''))) loads = Some spec"
    using loads_indent [OF spec_wf] by (simp add: exported_files_def utf8_roundtrip)
next
  let ?kvs = "map (\<lambda>s. (run_status_value s, JArr (map JStr (targets_text s)))) all_run_statuses"
  have "Option.bind (utf8_decode (the (map_of exported_files ''docs/api/run-state-machine.json''))) loads = Some (JObj ?kvs)"
    using loads_indent [OF machine_wf] by (simp add: exported_files_def utf8_roundtrip machine_entries)
  moreover have fin: "finite (run_status_value ` allowed_transitions s)" for s by (cases s) simp_all
  moreover have "(run_status_value t \<in> set (targets_text s)) = (t \<in> allowed_transitions s)" for s t
    using fin [of s] by (auto simp: targets_text_def run_status_value_inject)
  moreover have "targets_text s = [] \<longleftrightarrow> s \<in> TERMINAL_STATUSES" for s
    using fin [of s] by (cases s) (auto simp: targets_text_def TERMINAL_STATUSES_def)
  ultimately show "\<exists>kvs. Option.bind (utf8_decode (the (map_of exported_files ''docs/api/run-state-machine.json''))) loads = Some (JObj kvs)
     \<and> (\<forall>s. \<exists>xs. map_of kvs (run_status_value s) = Some (JArr (map JStr xs)) \<and> sorted xs \<and> distinct xs
          \<and> (\<forall>t. run_status_value t \<in> set xs \<longleftrightarrow> t \<in> allowed_transitions s)
          \<and> (xs = [] \<longleftrightarrow> s \<in> TERMINAL_STATUSES))"
    using all_run_statuses_all
    by (intro exI [of _ ?kvs] conjI allI exI [of _ "targets_text _"])
       (simp_all add: map_of_machine targets_text_def)
qed

end
