(* ===== verification/HarnessEnd.thy ===== *)
theory HarnessEnd
  imports GraphHarness HarnessJournal
begin

text \<open>
  How a Run stands when a harness (\<open>src/code_forge/harness/local.py\<close>,
  \<open>src/code_forge/harness/langgraph_harness.py\<close>) gives it back to the worker loop.
\<close>

section \<open>The row a transition leaves\<close>

definition stored_run :: "string \<Rightarrow> string \<Rightarrow> db \<Rightarrow> run_row option" where
  "stored_run scope rid d = select_one (\<lambda>r. r_scope_id r = scope \<and> r_id r = rid) (runs d)"

lemma stored_run_updated:
  assumes "\<And>x. r_scope_id (f x) = r_scope_id x \<and> r_id (f x) = r_id x"
  shows "stored_run scope rid (update_runs P f d) = map_option (\<lambda>r. if P r then f r else r) (stored_run scope rid d)"
  using assms by (simp add: stored_run_def update_runs_def select_one_update_where)

lemma stored_run_elsewhere [simp]:
  "stored_run scope rid (update_sessions P f d) = stored_run scope rid d"
  "stored_run scope rid (update_workspaces Q g d) = stored_run scope rid d"
  "stored_run scope rid (update_attempts R h d) = stored_run scope rid d"
  by (simp_all add: stored_run_def update_sessions_def update_workspaces_def update_attempts_def)

text \<open>The status and outcome a row has.\<close>

definition stands :: "run_status \<Rightarrow> task_outcome option \<Rightarrow> string \<Rightarrow> string \<Rightarrow> db \<Rightarrow> bool" where
  "stands status outcome scope rid d \<longleftrightarrow>
     (\<exists>r. stored_run scope rid d = Some r \<and> r_status r = status \<and> r_task_outcome r = outcome)"

lemma stands_updated:
  assumes "\<And>x. r_scope_id (f x) = r_scope_id x \<and> r_id (f x) = r_id x"
    and "\<And>x. r_status (f x) = r_status x \<and> r_task_outcome (f x) = r_task_outcome x"
    and "stands status outcome scope rid d"
  shows "stands status outcome scope rid (update_runs P f d)"
proof -
  obtain r where r: "stored_run scope rid d = Some r" "r_status r = status" "r_task_outcome r = outcome"
    using assms(3) by (auto simp: stands_def)
  then have "stored_run scope rid (update_runs P f d) = Some (if P r then f r else r)"
    using stored_run_updated [of f scope rid P d, OF assms(1)] by simp
  then show ?thesis using r assms(2) by (auto simp: stands_def)
qed

lemma stands_event:
  assumes "event_added scope' rid' et d d'" "stands status outcome scope rid d"
  shows "stands status outcome scope rid d'"
proof -
  obtain e now actor d1 where d1: "insert_event e d = Inr d1"
    and d': "d' = update_sessions (\<lambda>s. s_scope_id s = e_scope_id e \<and> s_id s = e_session_id e)
            (\<lambda>s. touch now actor (s\<lparr>s_next_event_seq := e_session_seq e + 1\<rparr>))
         (update_runs (\<lambda>r. r_scope_id r = e_scope_id e \<and> r_id r = e_run_id e)
            (\<lambda>r. touch now actor (r\<lparr>r_next_event_seq := e_seq e + 1\<rparr>)) d1)"
    using assms(1) by (auto simp: event_added_def record_event_def dest!: bindE_InrD)
  have "stands status outcome scope rid d1"
    using assms(2) insert_event_simps [OF d1] by (simp add: stands_def stored_run_def)
  then have "stands status outcome scope rid (update_runs (\<lambda>r. r_scope_id r = e_scope_id e \<and> r_id r = e_run_id e)
            (\<lambda>r. touch now actor (r\<lparr>r_next_event_seq := e_seq e + 1\<rparr>)) d1)"
    by (rule stands_updated [rotated 2]) (simp_all add: touch_def)
  then show ?thesis by (simp add: stands_def d')
qed

lemma stands_released:
  assumes "stands status outcome scope rid d"
  shows "stands status outcome scope rid (release_leases r scope rid now actor d)"
proof -
  have "stands status outcome scope rid (update_workspaces P f (update_sessions Q g (update_attempts R h d)))"
    for P f Q g R h using assms by (simp add: stands_def)
  then show ?thesis unfolding release_leases_def
    by (rule stands_updated [rotated 2]) (simp_all add: touch_def)
qed

lemma stands_changed:
  assumes "stored_run scope rid d = Some r" "run_at_version scope rid v r"
  shows "stands (rs_status after) (rs_task_outcome after) scope rid
     (update_runs (run_at_version scope rid v) (apply_change ch after out now actor) d)"
proof -
  have "r_scope_id (apply_change ch after out now actor x) = r_scope_id x
      \<and> r_id (apply_change ch after out now actor x) = r_id x" for x
    by (simp add: apply_change_def touch_def)
  note row = stored_run_updated [of "apply_change ch after out now actor", OF this]
  show ?thesis using assms by (simp add: stands_def row) (simp add: apply_change_def touch_def)
qed

lemma transition_tx_stands:
  "wp (transition_tx h scope rid ch actor_ref)
     (\<lambda>_ w'. stands (ch_target ch) (ch_task_outcome ch) scope rid (wdb w')) w"
proof (cases "stored_run scope rid (wdb w)")
  case None
  then show ?thesis by (simp add: transition_tx_def stored_run_def wp_simps Let_def)
next
  case (Some r)
  have "wp (apply_transition h scope rid ch actor r t (wdb w))
      (\<lambda>_ w'. stands (ch_target ch) (ch_task_outcome ch) scope rid (wdb w')) w"
    if tr: "transition (run_state_of r) (ch_target ch) (ch_expected_version ch) (ch_task_outcome ch) (ch_reason ch) = Inr t"
    for t actor
  proof -
    note T = transition_InrD [OF tr]
    have "run_at_version scope rid (ch_expected_version ch) r"
      using select_one_SomeD [OF Some [unfolded stored_run_def]] T(1) by (simp add: run_at_version_def run_state_of_def)
    note changed = stands_changed [OF Some this, of "tr_after t" ch]
    have "rs_status (tr_after t) = ch_target ch" "rs_task_outcome (tr_after t) = ch_task_outcome ch"
      using T(7) by simp_all
    then show ?thesis using changed
      by (simp add: apply_transition_def Let_def wp_simps T(6))
         (intro wp_write_output impI wp_event conjI; auto intro!: stands_released elim: stands_event)
  qed
  then show ?thesis using Some
    by (simp add: transition_tx_def stored_run_def wp_simps Let_def)
qed

section \<open>The Run a harness gives back\<close>

lemma get_run_row:
  "get_run h w scope rid = Inr None \<Longrightarrow> stored_run scope rid (wdb w) = None"
  "get_run h w scope rid = Inr (Some v) \<Longrightarrow> stored_run scope rid (wdb w) = Some (rv_row v)"
  by (auto simp: get_run_def stored_run_def optE_def decode_run_def Let_def split: option.splits
      elim!: bindE_InrE)

lemma wp_read_run: "wp (read_run h scope rid) Q = (\<lambda>w. \<forall>x. get_run h w scope rid = Inr x \<longrightarrow> Q x w)"
  by (auto simp: wp_def read_run_def fun_eq_iff split: sum.splits)

lemma wp_bind_any: "(\<And>x w. wp (f x) Q w) \<Longrightarrow> wp (bindA m f) Q w"
  by (simp add: wp_bindA) (rule wp_any, blast)

text \<open>The row of the Run, which the view shows, in one of the states.\<close>

definition given_back :: "run_status set \<Rightarrow> tool_scope \<Rightarrow> run_view option \<Rightarrow> world \<Rightarrow> bool" where
  "given_back states sc result w \<longleftrightarrow>
     stored_run (ts_scope_id sc) (ts_run_id sc) (wdb w) = map_option rv_row result
     \<and> (\<forall>v. result = Some v \<longrightarrow> r_status (rv_row v) \<in> states
          \<and> (r_status (rv_row v) = SUCCEEDED \<longrightarrow> r_task_outcome (rv_row v) \<noteq> None))"

lemma transition_given_back:
  assumes "ch_target ch \<in> states" "ch_target ch = SUCCEEDED \<longrightarrow> ch_task_outcome ch \<noteq> None"
  shows "wp (transition_run h (ts_scope_id sc) (ts_run_id sc) ch actor_ref) (given_back states sc) w"
proof -
  have "given_back states sc x w'"
    if "stands (ch_target ch) (ch_task_outcome ch) (ts_scope_id sc) (ts_run_id sc) (wdb w')"
      "get_run h w' (ts_scope_id sc) (ts_run_id sc) = Inr x" for w' x
    using that assms get_run_row [of h w' "ts_scope_id sc" "ts_run_id sc"]
    by (cases x) (auto simp: stands_def given_back_def)
  then show ?thesis
    by (simp add: transition_run_def wp_bindA wp_read_run)
       (rule wp_mono [OF transition_tx_stands], blast)
qed

lemma end_run_gives_back: "wp (end_run E sc answer outcome) (given_back {SUCCEEDED, CANCELLED, CANCELLING} sc) w"
proof -
  have "given_back {SUCCEEDED, CANCELLED, CANCELLING} sc (Some v) w"
    if "get_run h w (ts_scope_id sc) (ts_run_id sc) = Inr (Some v)" "r_status (rv_row v) \<in> {CANCELLED, CANCELLING}" for h v
    using that get_run_row(2) by (auto simp: given_back_def)
  moreover have "wp (transition_run h (ts_scope_id sc) (ts_run_id sc) (success_change version outcome answer) actor)
      (given_back {SUCCEEDED, CANCELLED, CANCELLING} sc) w" for h version actor
    by (rule transition_given_back) (simp_all add: success_change_def)
  ultimately show ?thesis
    by (auto simp: end_run_def wp_bindA wp_read_run wp_ret split: option.split)
qed

lemma execute_local_gives_back:
  "wp (execute_local E v ci) (given_back {SUCCEEDED, CANCELLED, CANCELLING} (claimed_scope E v ci)) w"
  unfolding execute_local_def Let_def
  by (intro wp_bind_any) (auto split: prod.split intro!: wp_bind_any end_run_gives_back)

lemma finish_failed_then_read:
  "wp (bindA (finish_failed G sc c msg) (\<lambda>_. read_run h (ts_scope_id sc) (ts_run_id sc)))
     (given_back {FAILED, CANCELLED, CANCELLING} sc) w"
proof -
  have left: "given_back {FAILED, CANCELLED, CANCELLING} sc x w'"
    if "get_run h w' (ts_scope_id sc) (ts_run_id sc) = Inr x"
      "stored_run (ts_scope_id sc) (ts_run_id sc) (wdb w') = None
        \<or> (\<exists>st outcome. stands st outcome (ts_scope_id sc) (ts_run_id sc) (wdb w') \<and> st \<in> {FAILED, CANCELLED, CANCELLING})" for x w'
    using that get_run_row [of h w' "ts_scope_id sc" "ts_run_id sc"]
    by (cases x) (auto simp: stands_def given_back_def)
  have moved: "wp (transition_run k (ts_scope_id sc) (ts_run_id sc) (failure_change version c msg) actor)
      (\<lambda>_ w'. \<forall>x. get_run h w' (ts_scope_id sc) (ts_run_id sc) = Inr x \<longrightarrow> given_back {FAILED, CANCELLED, CANCELLING} sc x w') w"
    for k version actor
  proof (rule wp_mono)
    show "wp (transition_run k (ts_scope_id sc) (ts_run_id sc) (failure_change version c msg) actor) (given_back {FAILED} sc) w"
      by (rule transition_given_back) (simp_all add: failure_change_def)
    show "\<forall>x. get_run h w' (ts_scope_id sc) (ts_run_id sc) = Inr x \<longrightarrow> given_back {FAILED, CANCELLED, CANCELLING} sc x w'"
      if "given_back {FAILED} sc y w'" for y w'
      using that by (intro allI impI left) (cases y; auto simp: given_back_def stands_def)+
  qed
  show ?thesis
    by (auto simp: finish_failed_def wp_bindA wp_read_run wp_ret split: option.split
        intro!: left moved dest!: get_run_row) (auto simp: stands_def)
qed

lemma execute_graph_gives_back:
  "wp (execute_graph G v ci) (given_back {SUCCEEDED, FAILED, CANCELLED, CANCELLING} (claimed_scope (base_env G) v ci)) w"
proof -
  have "given_back S sc x w \<Longrightarrow> S \<subseteq> S' \<Longrightarrow> given_back S' sc x w" for S S' sc x w
    by (auto simp: given_back_def)
  note weaker = wp_mono [OF _ this]
  show ?thesis
    unfolding execute_graph_def Let_def
    by (intro wp_bind_any)
       (auto split: sum.split prod.split intro!: weaker [OF end_run_gives_back] weaker [OF finish_failed_then_read])
qed


text \<open>C5: What a harness gives back is settled. When the local harness returns, the Run it shows is the
  stored one and has succeeded with an outcome, or was or is being cancelled; the LangGraph harness
  may besides have failed it, and it does so whatever its graph raises. Neither returns while the
  Run is still running: only an exception that leaves the harness can leave it so.\<close>

theorem harness_settles_the_run:
  "(execute_local E v ci w = (Inr result, w')
      \<longrightarrow> given_back {SUCCEEDED, CANCELLED, CANCELLING} (claimed_scope E v ci) result w')
   \<and> (execute_graph G v ci w = (Inr result, w')
      \<longrightarrow> given_back {SUCCEEDED, FAILED, CANCELLED, CANCELLING} (claimed_scope (base_env G) v ci) result w')"
  using wpD [OF execute_local_gives_back] wpD [OF execute_graph_gives_back] by blast

text \<open>A running Run whose graph hits its recursion limit.\<close>

definition ended_row :: run_row where
  "ended_row = \<lparr>date_created = ''t'', created_by = ''a'', date_updated = ''t'', updated_by = ''a'',
     r_id = ''20'', r_scope_id = ''u'', r_session_id = ''10'', r_workspace_id = ''11'', r_run_seq = 1,
     r_idempotency_key = ''k'', r_request_fingerprint = ''f'', r_input_ref = '''', r_input_digest = '''', r_input_chars = 0,
     r_agent_ref = ''g'', r_execution_context = '''', r_config_snapshot_ref = '''', r_config_snapshot_digest = '''',
     r_config_snapshot_bytes = 0, r_status = RUNNING, r_active_attempt_id = None, r_state_version = 1,
     r_task_outcome = None, r_wait_reason = None, r_output_ref = None, r_output_digest = None, r_output_chars = None,
     r_error = None, r_cancel_requested_at = None, r_deadline_at = None, r_due_at = ''t'', r_next_event_seq = 1\<rparr>"

definition ended_session :: session_row where
  "ended_session = \<lparr>date_created = ''t'', created_by = ''a'', date_updated = ''t'', updated_by = ''a'',
     s_id = ''10'', s_scope_id = ''u'', s_workspace_id = ''11'', s_title = '''', s_external_ref = None, s_thread_id = '''',
     s_next_run_seq = 2, s_next_event_seq = 1, s_execution_epoch = 0, s_active_run_id = Some ''20''\<rparr>"

definition ended_world :: world where
  "ended_world = \<lparr>wdb = empty_db\<lparr>sessions := [ended_session], runs := [ended_row]\<rparr>, wfiles = []\<rparr>"

definition limited_graph :: graph_env where
  "limited_graph = harness_env.extend demo_harness
     \<lparr>ge_invoke = (\<lambda>agent tools edge messages limit. raise (ValueErr ''GraphRecursionError'')),
      ge_adapter = Complete (\<lambda>i messages. ret empty_message), ge_max_chars = 100\<rparr>"

definition ended_claim :: claim_info where
  "ended_claim = \<lparr>ci_scope_id = ''u'', ci_run_id = ''20'', ci_attempt_id = ''30'', ci_epoch = 1,
     ci_workspace_id = ''11'', ci_workspace_epoch = 1, ci_user_binding = None, ci_working_directory = None\<rparr>"

definition ended_view :: run_view where
  "ended_view = \<lparr>rv_row = ended_row, rv_execution_context = None, rv_config_snapshot = None, rv_input = None,
     rv_output = None, rv_error = None\<rparr>"

definition ended_scope :: tool_scope where
  "ended_scope = claimed_scope demo_harness ended_view ended_claim"

lemma ended_facts: "ts_scope_id ended_scope = ''u''" "ts_run_id ended_scope = ''20''" "ts_session_id ended_scope = ''10''"
  "ts_actor ended_scope = ''system:runtime/w''" "base_env limited_graph = demo_harness"
  "r_scope_id ended_row = ''u''" "r_id ended_row = ''20''" "r_session_id ended_row = ''10''" "r_status ended_row = RUNNING"
  "r_state_version ended_row = 1" "r_next_event_seq ended_row = 1" "s_scope_id ended_session = ''u''"
  "s_id ended_session = ''10''" "s_next_event_seq ended_session = 1" "rv_row ended_view = ended_row"
  "he_prepare limited_graph = (\<lambda>sc. ret ())" "he_host limited_graph = he_host demo_harness"
  by (simp_all add: ended_scope_def claimed_scope_def ended_view_def ended_claim_def ended_row_def ended_session_def
      demo_harness_def limited_graph_def harness_env.defs)

lemma ended_read: "get_run h ended_world ''u'' ''20'' = Inr (Some ended_view)"
  by (simp add: get_run_def ended_world_def ended_facts optE_def decode_run_def Let_def)
     (simp add: ended_row_def ended_view_def parse_json_text_def read_object_json_def read_message_def)

lemma ended_error: "loads (dumps_sorted (JObj (error_dict DEPENDENCY_UNAVAILABLE ''GraphRecursionError''))) \<noteq> None"
  by code_simp

lemma ended_transition:
  "\<exists>v' w'. transition_run (demo_host n) ''u'' ''20'' (failure_change 1 DEPENDENCY_UNAVAILABLE ''GraphRecursionError'')
     (Some ''system:runtime/w'') ended_world = (Inr (Some v'), w') \<and> r_status (rv_row v') = FAILED
     \<and> (\<forall>m. get_run (demo_host m) w' ''u'' ''20'' = Inr (Some v'))"
proof -
  let ?ch = "failure_change 1 DEPENDENCY_UNAVAILABLE ''GraphRecursionError''"
  let ?err = "error_dict DEPENDENCY_UNAVAILABLE ''GraphRecursionError''"
  have error: "error_text (Some ?err) = Some (dumps_sorted (JObj ?err))" by (simp add: error_text_def error_dict_def)
  obtain w' r where w': "transition_tx (demo_host n) ''u'' ''20'' ?ch (Some ''system:runtime/w'') ended_world = (Inr (), w')"
    "stored_run ''u'' ''20'' (wdb w') = Some r" "r_status r = FAILED" "r_execution_context r = ''''" "r_config_snapshot_ref r = ''''"
    "r_input_ref r = ''''" "r_output_ref r = None" "r_error r = error_text (Some ?err)"
    by (simp add: transition_tx_def ended_world_def ended_facts Let_def bindA_def read_db_def transaction_def
      liftE_def transition_def run_state_of_def failure_change_def TERMINAL_STATUSES_def apply_transition_def
      write_output_def ret_def mod_db_def insert_event_locked_def update_runs_def join_rs_def empty_db_def
      run_at_version_def apply_change_def touch_def with_files_def append_record_def record_event_def insert_event_def
      event_row_of_def clash_def insert_db_def update_sessions_def waiting_def release_leases_def update_attempts_def
      update_workspaces_def stored_run_def update_where_def coalesce_def)
     (simp add: ended_row_def error)
  obtain j where j: "loads (dumps_sorted (JObj ?err)) = Some j" using ended_error by blast
  have "dumps_sorted (JObj ?err) \<noteq> ''''" by code_simp
  then have "parse_json_text (r_error r) = Inr (Some j)"
    by (simp add: w' error parse_json_text_def falsy_def j)
  then have "get_run (demo_host m) w' ''u'' ''20'' = Inr (Some \<lparr>rv_row = r, rv_execution_context = None, rv_config_snapshot = None,
      rv_input = None, rv_output = None, rv_error = Some j\<rparr>)" for m
    using w' by (simp add: get_run_def stored_run_def optE_def decode_run_def Let_def read_object_json_def read_message_def)
       (simp add: parse_json_text_def)
  then show ?thesis using w'(1-3) by (auto simp: transition_run_def bindA_def read_run_def)
qed


theorem harness_settles_the_run_witness:
  "\<exists>v' w'. execute_graph limited_graph ended_view ended_claim ended_world = (Inr (Some v'), w')
     \<and> r_status (rv_row v') = FAILED \<and> stored_run ''u'' ''20'' (wdb w') = Some (rv_row v')"
proof -
  have host: "he_host demo_harness 0 k = demo_host (if k = 1 then ''51'' else if k = 2 then ''52'' else ''53'')" for k
    by (simp add: demo_harness_def)
  obtain v' w' where t: "transition_run (demo_host ''53'') ''u'' ''20'' (failure_change 1 DEPENDENCY_UNAVAILABLE ''GraphRecursionError'')
       (Some ''system:runtime/w'') ended_world = (Inr (Some v'), w')" "\<And>m. get_run (demo_host m) w' ''u'' ''20'' = Inr (Some v')"
       "r_status (rv_row v') = FAILED"
    using ended_transition by blast
  have history: "read_history (demo_host ''53'') ended_scope ended_world = (Inr [], ended_world)"
    by (simp add: read_history_def conversation_history_def ended_world_def ended_facts history_rows_def select_def Let_def
        history_messages_def)
  have failed: "finish_failed limited_graph ended_scope DEPENDENCY_UNAVAILABLE ''GraphRecursionError'' ended_world = (Inr (), w')"
    using t(1) by (simp add: finish_failed_def bindA_def read_run_def ret_def ended_facts host ended_read)
  have graph: "ge_invoke limited_graph agent tools edge messages limit = raise (ValueErr ''GraphRecursionError'')" for agent tools edge messages limit
    by (simp add: limited_graph_def harness_env.defs)
  have no_skills: "snapshot_skills (rv_config_snapshot ended_view) = []"
    by (simp add: ended_view_def snapshot_skills_def)
  have e: "execute_graph limited_graph ended_view ended_claim ended_world = (Inr (Some v'), w')"
    using t(2) history failed unfolding host
    by (simp add: execute_graph_def ended_facts(5) ended_scope_def [symmetric] Let_def no_skills graph host)
       (simp add: ended_facts bindA_def ret_def catch_all_def raise_def failure_of_def exn_text_def read_run_def demo_harness_def)
  have "claimed_scope (base_env limited_graph) ended_view ended_claim = ended_scope" by (simp add: ended_facts ended_scope_def)
  then have given: "given_back {SUCCEEDED, FAILED, CANCELLED, CANCELLING} ended_scope (Some v') w'"
    using harness_settles_the_run [of demo_harness ended_view ended_claim ended_world "Some v'" w' limited_graph] e by simp
  then show ?thesis using e t(3) by (auto simp: given_back_def ended_facts)
qed


end
