(* ===== verification/ToolOffer.thy ===== *)
theory ToolOffer
  imports HarnessEnd ImpalaService
begin

text \<open>
  The tools the two harnesses describe to the model (\<open>_tool_specs\<close> of
  \<open>src/code_forge/harness/local.py\<close> and of \<open>src/code_forge/harness/langgraph_harness.py\<close>), and what a
  call of a tool that was not offered can do. The Impala dispatcher is present when the harness was
  given one.
\<close>

section \<open>The descriptions\<close>

definition skill_parameter :: json where
  "skill_parameter = JObj [(''type'', JStr ''string''),
     (''description'', JStr ''Name of an active Skill. Omit when no Skill is active.'')]"

definition code_tool_spec :: "string \<Rightarrow> string \<Rightarrow> string \<Rightarrow> json" where
  "code_tool_spec name description key = JObj [(''type'', JStr ''function''),
     (''function'', JObj [(''name'', JStr name), (''description'', JStr description),
        (''parameters'', JObj [(''type'', JStr ''object''),
           (''properties'', JObj [(key, JObj [(''type'', JStr ''string'')]), (''skill'', skill_parameter)]),
           (''required'', JArr [JStr key])])])]"

definition impala_offer :: "harness_env \<Rightarrow> run_view option \<Rightarrow> exn + json list" where
  "impala_offer E run = (case run of
     Some v \<Rightarrow> if he_impala E \<noteq> None then impala_specs v else Inr []
   | None \<Rightarrow> Inr [])"

definition tool_specs :: "harness_env \<Rightarrow> run_view option \<Rightarrow> exn + json list" where
  "tool_specs E run = bindE (impala_offer E run) (\<lambda>impala. Inr
     ([code_tool_spec ''execute_python'' ''Run Python code in the current workspace.'' ''code'',
       code_tool_spec ''execute_command'' ''Run a non-interactive shell command.'' ''command''] @ impala))"

text \<open>The same list written out again in the LangGraph harness.\<close>

definition graph_tool_specs :: "harness_env \<Rightarrow> run_view option \<Rightarrow> exn + json list" where
  "graph_tool_specs E run = bindE (impala_offer E run) (\<lambda>impala. Inr
     ([code_tool_spec ''execute_python'' ''Run Python code in the current workspace.'' ''code'',
       code_tool_spec ''execute_command'' ''Run a non-interactive shell command.'' ''command''] @ impala))"

section \<open>Calls of tools that were not offered\<close>

definition called_name :: "json_dict \<Rightarrow> string" where
  "called_name call = text_field ''name'' (dict_of_json (map_of call ''function''))"

definition spec_name :: "json \<Rightarrow> string" where
  "spec_name spec = called_name (dict_of_json (Some spec))"

definition refused_with :: "json option \<Rightarrow> json_dict \<Rightarrow> string \<Rightarrow> bool" where
  "refused_with snapshot call problem \<longleftrightarrow> problem = ''Unsupported tool: '' @ called_name call
     \<or> (\<exists>arguments. call_arguments (dict_of_json (map_of call ''function'')) = Inr arguments
          \<and> select_active_skill snapshot (map_of arguments ''skill'') = Inl problem)"

lemma spec_names [simp]: "spec_name (code_tool_spec name description key) = name"
  "spec_name (tool_spec_json (name, td)) = name"
  by (simp_all add: spec_name_def called_name_def code_tool_spec_def tool_spec_json_def dict_of_json_def text_field_def)

lemma names_offered:
  assumes "tool_specs E (Some v) = Inr specs"
  shows "map spec_name specs = [''execute_python'', ''execute_command'']
     \<or> map spec_name specs = [''execute_python'', ''execute_command''] @ TOOL_NAMES"
  using assms
  by (auto simp: tool_specs_def impala_offer_def impala_specs_def offered_tools_def impala_tools_def TOOL_NAMES_def
      elim!: bindE_InrE split: if_splits)

lemma not_offered:
  assumes "tool_specs E (Some v) = Inr specs" "called_name call \<notin> spec_name ` set specs"
  shows "called_name call \<noteq> ''execute_python''" "called_name call \<noteq> ''execute_command''"
proof -
  have "called_name call \<notin> set (map spec_name specs)" using assms(2) by simp
  then show "called_name call \<noteq> ''execute_python''" "called_name call \<noteq> ''execute_command''"
    using names_offered [OF assms(1)] by (elim disjE; simp)+
qed

lemma told_problem: "select_active_skill snapshot requested \<noteq> Inl ''''"
  by (auto simp: select_active_skill_def Let_def split: option.split json.split)

lemma local_refuses:
  assumes "called_name call \<noteq> ''execute_python''" "called_name call \<noteq> ''execute_command''"
    and "\<not> (py_startswith (called_name call) ''impala_'' \<and> he_impala E \<noteq> None)"
  shows "snd (run_call E sc snapshot i call w) = w
    \<and> (\<forall>r. fst (run_call E sc snapshot i call w) = Inr r
         \<longrightarrow> (\<exists>problem. refused_with snapshot call problem \<and> r = Inr (tool_message call (take 16000 problem))))"
proof -
  note names = assms [unfolded called_name_def]
  show ?thesis
  proof (cases "call_arguments (dict_of_json (map_of call ''function''))")
    case (Inr arguments)
    then show ?thesis using names told_problem
      by (auto simp: run_call_def Let_def bindA_def liftE_def ret_def refused_with_def called_name_def tool_content_def
          split: sum.split)
  qed (simp add: run_call_def Let_def bindA_def liftE_def)
qed

lemma graph_refuses:
  assumes "called_name call \<noteq> ''execute_python''" "called_name call \<noteq> ''execute_command''"
    and "\<not> (py_startswith (called_name call) ''impala_'' \<and> he_impala E \<noteq> None)"
  shows "snd (execute_tool_call E sc snapshot i call w) = w
    \<and> (\<forall>content. fst (execute_tool_call E sc snapshot i call w) = Inr content \<longrightarrow> refused_with snapshot call content)"
proof -
  note names = assms [unfolded called_name_def]
  show ?thesis
  proof (cases "call_arguments (dict_of_json (map_of call ''function''))")
    case (Inr arguments)
    then show ?thesis using names
      by (auto simp: execute_tool_call_def Let_def bindA_def liftE_def ret_def raise_def read_run_def refused_with_def
          called_name_def split: sum.split option.split prod.split)
  qed (auto simp: execute_tool_call_def Let_def bindA_def liftE_def raise_def read_run_def names [simplified]
      split: sum.split option.split)
qed




end
