(* ===== verification/Waiting.thy ===== *)
theory Waiting
  imports GraphHarness
begin

text \<open>
  What the harnesses do around an operation (\<open>_wait_for_operation\<close>, \<open>_output_sink\<close> and \<open>_read_log\<close> of
  \<open>src/code_forge/harness/local.py\<close>; \<open>src/code_forge/harness/langgraph_harness.py\<close> has them once more):
  polling it every 50 milliseconds until it is no longer running, journalling the output it
  announces, and reading its logs. The polls are given as the backend each of them sees; how bytes that
  are no UTF-8 are replaced is an argument, since the replacement character is not a byte.
\<close>

section \<open>Waiting for the end\<close>

fun wait_for_operation :: "string \<Rightarrow> backend list \<Rightarrow> exn + operation_result option" where
  "wait_for_operation opid [] = Inr None"
| "wait_for_operation opid (s # polls) = bindE (fst (get_status opid s)) (\<lambda>r.
     if or_status r \<noteq> Tool_RUNNING then Inr (Some r) else wait_for_operation opid polls)"

text \<open>Between two polls the backend takes any steps, but nobody releases the operation.\<close>

definition polled :: "backend_env \<Rightarrow> string \<Rightarrow> backend list \<Rightarrow> bool" where
  "polled E opid = successively (\<lambda>s s'. (backend_step E)\<^sup>*\<^sup>* s s' \<and> pb_index s' opid = pb_index s opid)"

definition op_at :: "backend \<Rightarrow> nat \<Rightarrow> running_op" where
  "op_at s i = pb_objects s ! i"

lemma index_in_range: "reachable_backend E s \<Longrightarrow> pb_index s opid = Some i \<Longrightarrow> i < length (pb_objects s)"
  using reachable_ok by (auto simp: backend_ok_def index_ok_def)

lemma poll_of: "reachable_backend E s \<Longrightarrow> pb_index s opid = Some i \<Longrightarrow> get_status opid s = (Inr (result_of (op_at s i)), s)"
  by (simp add: get_status_def current_op_def thenS_def readS_def returnS_def op_at_def index_in_range)

lemma past_waiting:
  assumes "reachable_backend E s" "pb_index s opid = Some i" "po_stage (op_at s i) \<noteq> Waiting"
  shows "po_status (op_at s i) \<noteq> Tool_RUNNING"
proof -
  have "op_ok (op_at s i)"
    using reachable_ok [OF assms(1)] index_in_range [OF assms(1,2)] by (auto simp: backend_ok_def op_at_def)
  then show ?thesis using assms(3) by (cases "po_stage (op_at s i)") (auto simp: op_facts)
qed

lemma lifecycle_ends: "lifecycle\<^sup>=\<^sup>= a b \<Longrightarrow> lifecycle\<^sup>=\<^sup>= b c \<Longrightarrow> a \<noteq> Tool_RUNNING \<Longrightarrow> lifecycle\<^sup>=\<^sup>= a c"
  by (auto elim: lifecycle.cases)

lemma status_over_steps:
  assumes "(backend_step E)\<^sup>*\<^sup>* s s'" "reachable_backend E s" "i < length (pb_objects s)" "po_status (op_at s i) \<noteq> Tool_RUNNING"
  shows "i < length (pb_objects s') \<and> lifecycle\<^sup>=\<^sup>= (po_status (op_at s i)) (po_status (op_at s' i))"
  using assms(1)
proof (induction rule: rtranclp_induct)
  case (step y z)
  note one = step_on_op [OF step.hyps(2) reachable_ok [OF reachable_steps [OF step.hyps(1) assms(2)]]]
  show ?case using one step.IH lifecycle_ends [OF _ _ assms(4)] by (auto simp: op_at_def)
qed (use assms in simp)

lemma status_over_polls:
  assumes "polled E opid (s # polls)" "reachable_backend E s" "pb_index s opid = Some i" "po_status (op_at s i) \<noteq> Tool_RUNNING"
  shows "lifecycle\<^sup>=\<^sup>= (po_status (op_at s i)) (po_status (op_at (last (s # polls)) i))"
  using assms
proof (induction polls arbitrary: s)
  case (Cons s' polls)
  have step: "(backend_step E)\<^sup>*\<^sup>* s s'" "pb_index s' opid = Some i" and rest: "polled E opid (s' # polls)"
    using Cons.prems(1,3) by (auto simp: polled_def)
  have one: "lifecycle\<^sup>=\<^sup>= (po_status (op_at s i)) (po_status (op_at s' i))"
    using status_over_steps [OF step(1) Cons.prems(2) index_in_range [OF Cons.prems(2,3)] Cons.prems(4)] by blast
  then have "po_status (op_at s' i) \<noteq> Tool_RUNNING" using Cons.prems(4) by (auto elim: lifecycle.cases)
  then have "lifecycle\<^sup>=\<^sup>= (po_status (op_at s' i)) (po_status (op_at (last (s' # polls)) i))"
    by (rule Cons.IH [OF rest reachable_steps [OF step(1) Cons.prems(2)] step(2)])
  then show ?case using lifecycle_ends [OF one _ Cons.prems(4)] by simp
qed simp



section \<open>The output of an operation\<close>

text \<open>The sink the backend's readers call with each piece of output.\<close>

definition output_sink :: "host \<Rightarrow> string \<Rightarrow> string \<Rightarrow> string \<Rightarrow> string \<Rightarrow> string \<times> bool \<Rightarrow> unit act" where
  "output_sink h scope oid actor stream piece =
     (if fst piece = [] \<and> \<not> snd piece then ret ()
      else append_tool_output h scope oid stream (fst piece) (snd piece) actor)"

definition worth_telling :: "'t list \<times> bool \<Rightarrow> bool" where
  "worth_telling piece \<longleftrightarrow> fst piece \<noteq> [] \<or> snd piece"

lemma read_chunk_tells:
  "list_all worth_telling (rd_sent r) \<Longrightarrow> list_all worth_telling (rd_sent (read_chunk D sink limit chunk r))"
  by (auto simp: read_chunk_def Let_def send_def worth_telling_def split: prod.split)

lemma read_chunks_tell:
  "list_all worth_telling (rd_sent r) \<Longrightarrow> list_all worth_telling (rd_sent (read_chunks D sink limit chunks r))"
  by (induction chunks arbitrary: r) (simp_all add: read_chunk_tells)

text \<open>The sink drops nothing a reader sends: a reader never sends an empty piece that is not the
  announcement of a cut.\<close>

lemma sink_drops_nothing:
  assumes "piece \<in> set (rd_sent (read_bounded D s0 sink limit chunks))"
  shows "output_sink h scope oid actor stream piece = append_tool_output h scope oid stream (fst piece) (snd piece) actor"
proof -
  have "list_all worth_telling (rd_sent (read_bounded D s0 sink limit chunks))"
    unfolding read_bounded_def Let_def
    using read_chunks_tell [of "\<lparr>rd_file = '''', rd_total = 0, rd_truncated = False, rd_notified = False, rd_state = s0, rd_sent = []\<rparr>" D sink limit chunks]
    by (auto simp: worth_telling_def)
  then show ?thesis using assms by (auto simp: list_all_iff worth_telling_def output_sink_def)
qed

text \<open>A log that was never written reads as empty.\<close>

definition read_log :: "(string \<Rightarrow> string) \<Rightarrow> tree \<Rightarrow> string option \<Rightarrow> exn + string" where
  "read_log decode t ref =
     (if falsy ref then Inr ''''
      else if \<not> path_exists t (mk_path (the ref)) then Inr ''''
      else bindE (path_bytes t (mk_path (the ref))) (\<lambda>bytes. Inr (universal_newlines (decode bytes))))"


end
