(* ===== verification/DotEnv.thy ===== *)
theory DotEnv
  imports Plugins PyText
begin

text \<open>
  Starting the runtime: \<open>load_dotenv\<close> of \<open>scripts/env_loader.py\<close>, \<open>main\<close> of \<open>scripts/run_runtime.py\<close> up to
  the server, and the directory and components \<open>create_server\<close> of
  \<open>src/code_forge/transport/server.py\<close> makes of the environment. The process environment is the state.
\<close>

section \<open>The file of settings\<close>

definition quoted_by :: "char \<Rightarrow> string \<Rightarrow> bool" where
  "quoted_by q s \<longleftrightarrow> s \<noteq> [] \<and> hd s = q \<and> last s = q"

text \<open>\<open>value[1:-1]\<close> of a text that starts and ends with the same quote.\<close>

definition unquoted :: "string \<Rightarrow> string" where
  "unquoted v = (if quoted_by CHR 0x22 v \<or> quoted_by CHR 0x27 v then butlast (tl v) else v)"

definition setting_of :: "string \<Rightarrow> (string \<times> string) option" where
  "setting_of raw_line = (let line = py_strip raw_line in
     if line = [] \<or> py_startswith line ''#'' \<or> CHR ''='' \<notin> set line then None
     else let key = py_strip (takeWhile (\<lambda>c. c \<noteq> CHR ''='') line);
              val = py_strip (tl (dropWhile (\<lambda>c. c \<noteq> CHR ''='') line)) in
       if key = [] then None else Some (key, unquoted val))"

text \<open>\<open>os.environ.setdefault\<close>; the system's \<open>putenv\<close> takes no NUL.\<close>

definition setdefault :: "string \<times> string \<Rightarrow> (env, unit) io" where
  "setdefault kv env =
     (if map_of env (fst kv) \<noteq> None then (Inr (), env)
      else if nul \<in> set (fst kv) \<or> nul \<in> set (snd kv) then (Inl (ValueErr ''embedded null byte''), env)
      else (Inr (), env @ [kv]))"

definition load_dotenv :: "tree \<Rightarrow> ppath \<Rightarrow> (env, unit) io" where
  "load_dotenv t root =
     (let env_path = sub root ''.env'' in
      if \<not> path_is_file t env_path then returnS ()
      else thenS (liftS (bindE (path_bytes t env_path) read_text_file)) (\<lambda>text.
           eachS setdefault (List.map_filter setting_of (py_splitlines text))))"

section \<open>Starting the server\<close>

text \<open>\<open>Path(root or env.get("FORGE_RUNTIME_DIR", ".runtime")).resolve()\<close>\<close>

definition server_base :: "os_env \<Rightarrow> string option \<Rightarrow> env \<Rightarrow> exn + ppath" where
  "server_base os root env = (case os_resolve os (mk_path (if falsy root
        then env_get env ''FORGE_RUNTIME_DIR'' ''.runtime'' else the root)) of
     None \<Rightarrow> Inl (OSErr ''resolve'') | Some p \<Rightarrow> Inr p)"

definition server_plugins :: "installation \<Rightarrow> os_env \<Rightarrow> string option \<Rightarrow> registry option \<Rightarrow> env \<Rightarrow> exn + runtime_plugins" where
  "server_plugins I os root registry given_env =
     (let env = (if given_env = [] then in_environ I else given_env) in
      bindE (server_base os root env) (\<lambda>base. build_plugins I base env registry))"

text \<open>\<open>run_runtime.py --runtime-dir flag\<close>: the process environment is what \<open>create_server\<close> falls back to.\<close>

definition run_runtime :: "installation \<Rightarrow> os_env \<Rightarrow> tree \<Rightarrow> ppath \<Rightarrow> string \<Rightarrow> (env, runtime_plugins) io" where
  "run_runtime I os t repo_root flag =
     thenS (load_dotenv t repo_root) (\<lambda>_.
     thenS (setdefault (''FORGE_RUNTIME_DIR'', flag)) (\<lambda>_.
     thenS (readS (\<lambda>env. env)) (\<lambda>env.
     liftS (server_plugins (I\<lparr>in_environ := env\<rparr>) os None None []))))"

section \<open>What a line says\<close>

lemma strip_id:
  assumes "s \<noteq> []" "\<not> py_isspace (hd s)" "\<not> py_isspace (last s)"
  shows "py_strip s = s"
proof -
  have "dropWhile py_isspace s = s" using assms(1,2) by (cases s) auto
  moreover have "dropWhile py_isspace (rev s) = rev s" using assms(1,3) by (cases "rev s") (auto simp: hd_rev [symmetric])
  ultimately show ?thesis by (simp add: py_strip_def)
qed

definition clean_key :: "string \<Rightarrow> bool" where
  "clean_key k \<longleftrightarrow> k \<noteq> [] \<and> hd k \<noteq> CHR ''#'' \<and> \<not> py_isspace (hd k) \<and> \<not> py_isspace (last k)
     \<and> list_all (\<lambda>c. c \<noteq> CHR ''='' \<and> c \<noteq> nul \<and> \<not> line_end c) k"

definition clean_value :: "string \<Rightarrow> bool" where
  "clean_value v \<longleftrightarrow> list_all (\<lambda>c. c \<noteq> nul \<and> \<not> line_end c) v"

definition setting_line :: "string \<times> string \<Rightarrow> string" where
  "setting_line kv = fst kv @ ''='' @ [CHR 0x22] @ snd kv @ [CHR 0x22]"

lemma setting_of_line:
  assumes "clean_key k"
  shows "setting_of (setting_line (k, v)) = Some (k, v)"
proof -
  let ?line = "k @ CHR ''='' # CHR 0x22 # v @ [CHR 0x22]"
  have k: "k \<noteq> []" "hd k \<noteq> CHR ''#''" "\<not> py_isspace (hd k)" "\<not> py_isspace (last k)" "\<forall>c\<in>set k. c \<noteq> CHR ''=''"
    using assms by (auto simp: clean_key_def list_all_iff)
  have q: "\<not> py_isspace CHR 0x22" by code_simp
  have line: "py_strip ?line = ?line" using k(1,3) q by (intro strip_id) auto
  have key: "takeWhile (\<lambda>c. c \<noteq> CHR ''='') ?line = k" "dropWhile (\<lambda>c. c \<noteq> CHR ''='') ?line = CHR ''='' # CHR 0x22 # v @ [CHR 0x22]"
    using k(5) by (auto simp: takeWhile_append dropWhile_append)
  have val: "py_strip (CHR 0x22 # v @ [CHR 0x22]) = CHR 0x22 # v @ [CHR 0x22]" using q by (intro strip_id) auto
  have "\<not> py_startswith ?line ''#''" using k(1,2) by (cases k) (auto simp: py_startswith_def)
  then show ?thesis
    unfolding setting_of_def Let_def setting_line_def
    using k(1) by (simp add: line key val strip_id [OF k(1,3,4)] unquoted_def quoted_by_def)
qed

section \<open>What a file says\<close>

definition dotenv_text :: "(string \<times> string) list \<Rightarrow> string" where
  "dotenv_text kvs = concat (map (\<lambda>kv. setting_line kv @ [CHR 0x0A]) kvs)"

definition clean_setting :: "string \<times> string \<Rightarrow> bool" where
  "clean_setting kv \<longleftrightarrow> clean_key (fst kv) \<and> clean_value (snd kv)"

lemma line_ends: "line_end CHR 0x0A" "line_end CHR 0x0D" "\<not> line_end CHR ''=''" "\<not> line_end CHR 0x22"
  by code_simp+

lemma split_line: "list_all (\<lambda>c. \<not> line_end c) s \<Longrightarrow>
    split_lines_from w (s @ CHR 0x0A # rest) = (w @ s) # split_lines_from [] rest"
  by (induction s arbitrary: w) (simp_all add: line_ends)

lemma clean_line: "clean_setting kv \<Longrightarrow> list_all (\<lambda>c. \<not> line_end c) (setting_line kv)"
  by (auto simp: clean_setting_def clean_key_def clean_value_def setting_line_def list_all_iff line_ends)

lemma lines_of_text: "list_all clean_setting kvs \<Longrightarrow> py_splitlines (dotenv_text kvs) = map setting_line kvs"
  unfolding py_splitlines_def
  by (induction kvs) (simp_all add: dotenv_text_def split_line clean_line)

lemma settings_of_text: "list_all clean_setting kvs \<Longrightarrow> List.map_filter setting_of (py_splitlines (dotenv_text kvs)) = kvs"
proof -
  assume clean: "list_all clean_setting kvs"
  then have "map setting_of (map setting_line kvs) = map Some kvs"
    by (induction kvs) (auto simp: clean_setting_def setting_of_line)
  then show ?thesis unfolding lines_of_text [OF clean]
    by (induction kvs) (auto simp: List.map_filter_simps)
qed

lemma text_has_no_cr: "list_all clean_setting kvs \<Longrightarrow> CHR 0x0D \<notin> set (dotenv_text kvs)"
proof -
  assume clean: "list_all clean_setting kvs"
  have "CHR 0x0D \<notin> set (setting_line kv)" if "kv \<in> set kvs" for kv
    using clean_line [of kv] clean that line_ends(2) by (auto simp: list_all_iff)
  then show ?thesis by (auto simp: dotenv_text_def)
qed

lemma map_of_setdefaults:
  assumes "list_all clean_setting kvs"
  shows "\<exists>added. eachS setdefault kvs env = (Inr (), env @ added)
     \<and> (\<forall>k. map_of (env @ added) k = (case map_of env k of Some v \<Rightarrow> Some v | None \<Rightarrow> map_of kvs k))"
  using assms
proof (induction kvs arbitrary: env)
  case Nil
  then show ?case by (auto simp: returnS_def split: option.split)
next
  case (Cons kv kvs)
  show ?case
  proof (cases "map_of env (fst kv) = None")
    case False
    then have "setdefault kv env = (Inr (), env)" by (simp add: setdefault_def)
    moreover obtain added where "eachS setdefault kvs env = (Inr (), env @ added)"
      "\<And>k. map_of (env @ added) k = (case map_of env k of Some v \<Rightarrow> Some v | None \<Rightarrow> map_of kvs k)"
      using Cons.IH [of env] Cons.prems by auto
    ultimately show ?thesis using False
      by (intro exI [of _ added]) (cases kv, auto simp: thenS_def split: option.splits)
  next
    case True
    have set: "setdefault kv env = (Inr (), env @ [kv])"
      using True Cons.prems by (auto simp: setdefault_def clean_setting_def clean_key_def clean_value_def list_all_iff)
    obtain added where "eachS setdefault kvs (env @ [kv]) = (Inr (), (env @ [kv]) @ added)"
      "\<And>k. map_of ((env @ [kv]) @ added) k = (case map_of (env @ [kv]) k of Some v \<Rightarrow> Some v | None \<Rightarrow> map_of kvs k)"
      using Cons.IH [of "env @ [kv]"] Cons.prems by auto
    then show ?thesis using True
      by (intro exI [of _ "kv # added"]) (auto simp: thenS_def set map_add_def split: option.splits)
  qed
qed

text \<open>A file of settings means what it says and overrides nothing. When the settings, each written as
  a quoted line, have names without \<open>=\<close> and without white space at their ends, and no line ends or NULs,
  loading the file succeeds; every variable the process had keeps its value, and every other one gets
  the value of the first line that names it, character for character.\<close>

theorem dotenv_reads_back:
  assumes "path_is_file t (sub root ''.env'')" "path_bytes t (sub root ''.env'') = Inr (utf8_encode (dotenv_text kvs))"
    and "list_all clean_setting kvs"
  shows "\<exists>added. load_dotenv t root env = (Inr (), env @ added)
     \<and> (\<forall>k. map_of (env @ added) k = (case map_of env k of Some v \<Rightarrow> Some v | None \<Rightarrow> map_of kvs k))"
  using map_of_setdefaults [OF assms(3), of env] assms(1,2) settings_of_text [OF assms(3)]
    universal_newlines_id [OF text_has_no_cr [OF assms(3)]]
  by (simp add: load_dotenv_def read_text_file_def utf8_roundtrip thenS_def liftS_def)

text \<open>The directory the server uses: the environment's, else the file's, and only then the flag.\<close>

lemma served_directory:
  assumes "load_dotenv t root env = (Inr (), env')" "nul \<notin> set flag" "run_runtime I os t root flag env = (Inr parts, env'')"
  shows "map_of env'' ''FORGE_RUNTIME_DIR'' = Some (case map_of env' ''FORGE_RUNTIME_DIR'' of Some d \<Rightarrow> d | None \<Rightarrow> flag)"
  using assms(1,2,3)
  by (auto simp: run_runtime_def thenS_def setdefault_def readS_def liftS_def nul_def map_add_def
      split: if_splits option.splits sum.splits prod.splits)


definition demo_settings :: "(string \<times> string) list" where
  "demo_settings = [(''DEEPSEEK_MODEL'', ''deepseek #1''), (''FORGE_RUNTIME_DIR'', ''data'')]"

definition demo_root_tree :: tree where
  "demo_root_tree = [([], Dir), ([''repo''], Dir), ([''repo'', ''.env''], File (utf8_encode (dotenv_text demo_settings)))]"

theorem dotenv_reads_back_witness:
  "\<exists>env. load_dotenv demo_root_tree (mk_path ''/repo'') [(''FORGE_RUNTIME_DIR'', ''kept'')] = (Inr (), env)
     \<and> map_of env ''FORGE_RUNTIME_DIR'' = Some ''kept'' \<and> map_of env ''DEEPSEEK_MODEL'' = Some ''deepseek #1''"
proof -
  have f: "path_is_file demo_root_tree (sub (mk_path ''/repo'') ''.env'')"
    "path_bytes demo_root_tree (sub (mk_path ''/repo'') ''.env'') = Inr (utf8_encode (dotenv_text demo_settings))"
    by code_simp+
  have "list_all clean_setting demo_settings" by code_simp
  from dotenv_reads_back [OF f this, of "[(''FORGE_RUNTIME_DIR'', ''kept'')]"]
  obtain env where env: "load_dotenv demo_root_tree (mk_path ''/repo'') [(''FORGE_RUNTIME_DIR'', ''kept'')] = (Inr (), env)"
    "\<And>k. map_of env k = (case map_of [(''FORGE_RUNTIME_DIR'', ''kept'')] k of Some v \<Rightarrow> Some v | None \<Rightarrow> map_of demo_settings k)"
    by blast
  show ?thesis using env(1) env(2) [of "''FORGE_RUNTIME_DIR''"] env(2) [of "''DEEPSEEK_MODEL''"]
    by (simp add: demo_settings_def)
qed


end
