(* ===== verification/Spec2Isabelle.thy ===== *)
theory Spec2Isabelle
  imports Service SkillBundles ProcessSafety HarnessJournal GraphHarness GatewayAnswers DeepSeek AuditRules ImpalaDispatch Upgrade Plugins ApiContract ApiFiles ToolOffer Waiting DotEnv
begin

text \<open>
  A verification development for the code-forge agent runtime (\<open>src/src/code_forge\<close>): a service
  that accepts messages of a user's Session over HTTP, queues each as a Run, lets one worker drive a
  model and its tools through the Run in a workspace directory, and streams the Run's events back.

  \<^bold>\<open>The parts and how they meet.\<close> The HTTP gateway (\<open>transport/server.py\<close>) reads requests, builds the
  \<open>UserBinding\<close> of a Session and calls the \<open>AgentRuntime\<close> (\<open>runtime/app.py\<close>). A message goes through
  \<open>RunService.submit\<close> (\<open>service.py\<close>): the resolver (\<open>skills/manual_skill_resolver.py\<close>) freezes the
  Skills, and the store (\<open>persistence/sqlite_store.py\<close>) accepts the Run once per key. The worker loop
  claims a Run under a Session and a workspace lease and gives it to a harness (\<open>harness/local.py\<close> or
  \<open>harness/langgraph_harness.py\<close>), which asks a model (\<open>integrations/deepseek_chat.py\<close>), journals every
  tool call in the store, and runs it in the process backend (\<open>execution/local_process_backend.py\<close>) on
  an attempt staged and committed by the workspace store (\<open>workspace/store.py\<close>), or in the bounded
  Impala service (\<open>integrations/impala\<close>, through \<open>harness/impala_tools.py\<close>). Status changes follow
  \<open>state_machine.py\<close>; message, event and snapshot bodies lie in files (\<open>persistence/content_store.py\<close>)
  the tables point into.

  \<^bold>\<open>Values, state and errors.\<close> A class of the source is a record whose fields carry a prefix, an enum a
  datatype with its wire values, a table a list of rows, a directory tree a list of locations with
  nodes, a \<open>dict\<close> that travels as JSON a \<open>json\<close> value. An operation that reads or changes state is a
  function from the state to a result \<open>exn + 'a\<close> and the next state (type \<open>act\<close> over the store's world,
  \<open>io\<close> over a tree, the runtime or a backend), so that what an operation leaves behind when it raises is
  part of the model; a store transaction undoes its tables and keeps the files it wrote. The host's clock,
  UUIDs and SHA-256, the operating system's path resolution, and code outside the repository are
  arguments.
\<close>

section \<open>The theories\<close>

text \<open>
  \<^item> \<open>Prelude\<close> (tables, text helpers), \<open>PyText\<close> (Python's text operations), \<open>Json\<close> (\<open>json.dumps\<close>,
    \<open>json.loads\<close> and UTF-8, with the round trips the rest uses), \<open>Clock\<close> (\<open>_iso\<close>).
  \<^item> \<open>Contracts\<close>, \<open>Bindings\<close> (\<open>contracts.py\<close>), \<open>StateMachine\<close> (\<open>state_machine.py\<close>), \<open>AuditRules\<close>
    (\<open>audit.py\<close>).
  \<^item> \<open>ContentStore\<close> (\<open>content_store.py\<close>); \<open>Schema\<close>, \<open>StoreBase\<close>, \<open>Events\<close>, \<open>Sessions\<close>, \<open>Runs\<close>,
    \<open>Execution\<close>, \<open>Tools\<close> (\<open>sqlite_store.py\<close>, in its order). \<open>Leases\<close> and \<open>EventLog\<close> are what the store
    promises, stated without its tables: a lease protocol and numbered logs, as step relations with
    their invariants, and paging through a numbered log as a locale. \<open>StoreSafety\<close> shows that every
    operation is a sequence of their steps; \<open>StoreHistory\<close> and \<open>StoreFiles\<close> lift the invariants to every
    history of operations, with any arguments and failures; \<open>StoreDemo\<close> and \<open>StoreProperties\<close> state
    them. \<open>Migration\<close> and \<open>Upgrade\<close> are the migrations from schemas 1 to 4.
  \<^item> \<open>Service\<close> (\<open>service.py\<close>): \<open>submit\<close> over a locale of the three repository calls, which the SQLite
    repository interprets.
  \<^item> \<open>FileTree\<close>, \<open>Workspace\<close>, \<open>WorkspaceCommit\<close>, \<open>Transcript\<close> (\<open>workspace/store.py\<close>).
  \<^item> \<open>Skills\<close>, \<open>SkillResolution\<close>, \<open>SkillBundles\<close> (\<open>manual_skill_resolver.py\<close>).
  \<^item> \<open>ProcessBackend\<close> and \<open>ProcessSafety\<close> (\<open>local_process_backend.py\<close>): the interleaved steps of
    submitting, reading, ending, committing and cancelling, and the invariant of every reachable state.
  \<^item> \<open>Context\<close>, \<open>Tooling\<close>, \<open>LocalHarness\<close>, \<open>HarnessJournal\<close>, \<open>GraphHarness\<close>, \<open>HarnessEnd\<close>, \<open>ToolOffer\<close>,
    \<open>Waiting\<close> (\<open>harness\<close>) and \<open>DeepSeek\<close>.
  \<^item> \<open>AgentRuntime\<close> (\<open>runtime/app.py\<close>), \<open>GatewayBindings\<close>, \<open>Gateway\<close>, \<open>GatewayHandlers\<close>,
    \<open>GatewayStream\<close>, \<open>GatewayAnswers\<close> (\<open>server.py\<close>).
  \<^item> \<open>ImpalaConfig\<close>, \<open>ImpalaSql\<close>, \<open>ImpalaLedger\<close>, \<open>ImpalaBudgets\<close>, \<open>ImpalaQuery\<close>, \<open>ImpalaService\<close>
    (\<open>integrations/impala\<close>) and \<open>ImpalaDispatch\<close> (\<open>impala_tools.py\<close>).
  \<^item> \<open>Plugins\<close> (\<open>runtime/plugins.py\<close>): the registry, the built-in factories and the wiring.
    \<open>DotEnv\<close> (\<open>scripts/env_loader.py\<close>, \<open>scripts/run_runtime.py\<close>): the settings the server starts from.
  \<^item> \<open>OpenApi\<close> (\<open>scripts/export_contracts.py\<close>): the published contract, whose two files it prints.
    \<open>ApiSchemas\<close> states when a value belongs to a schema of it, \<open>ApiDocument\<close> and \<open>ApiFiles\<close> show that
    the document hangs together, describes the gateway's routes and reads back, and \<open>ApiContract\<close>
    compares what the gateway and the store write with it.
\<close>

section \<open>What is shown\<close>

text \<open>
  \<^item> Runs: the reachable states of a Run are consistent, a stale version is refused, terminal is final,
    every Run can be ended, and a harness never returns with its Run still running.
  \<^item> Store: mutual exclusion and exact leases after every history, the claim takes the first free Run,
    gap-free event numbers, complete paging, rows and bodies that only grow, bodies that read back
    verified, and migrations that keep bodies and number events.
  \<^item> Acceptance: a key stands for one request and one Run; nothing changes before the checks passed.
  \<^item> Files: a commit publishes exactly the attempt, a session file request stays inside the project,
    stored Skill bundles never change, and Skill resolution ends and orders dependencies first.
  \<^item> Processes: bounded reading does not depend on the chunks, results are well formed in every
    reachable state, their statuses follow a life cycle, an ended result is final, and the wait of a harness
    ends with the operation.
  \<^item> Gateway: every request is answered in one form, reading requests keep the store, the event stream
    delivers every event once, and a Session's binding survives being stored.
  \<^item> Harness and Impala: what the harness counts agrees with its journal, a call of a tool that was not
    offered changes nothing, a started call is not replayed, budgets cover what running queries hold, results are the driver's first rows, and
    accepted statements carry their required filters.
  \<^item> Contract: the documented operations are the routes, the answers about Sessions and files and the
    events of status changes belong to their schemas, and where the code leaves the contract: the
    status 500, and the events of failed tools.
\<close>

section \<open>Bounds\<close>

text \<open>
  Recursion that is not structural carries fuel. \<open>json.loads\<close> takes twice the length of its text plus
  two, which the round trips of \<open>Json\<close> show is enough for any text \<open>dumps\<close> wrote. Skill resolution
  takes fuel that \<open>skill_resolution_ends\<close> shows never runs out beyond the number of names in the
  source tree. What other processes decide comes as finite lists: the rounds of the worker, the answers
  of a model, the chunks of a child process, the replies of a driver, the turns of a stream. Whether a
  value belongs to a schema is decided to a depth: \<open>published_document_hangs_together\<close> shows that
  sixteen is enough for every schema of the document, and a response adds one for its envelope.
\<close>

section \<open>Not modelled\<close>

text \<open>
  JSON fractions (the source stores none) and characters beyond Latin-1, because a character here is
  a byte-sized code point; symbolic links and file permissions; threads, locks and cancellation of
  asyncio tasks, except as the order of the locked steps; the bytes on a socket. SQLite is its tables with
  transactions; sqlglot, impyla, LangGraph's loop, and the model are parameters or scripts. The protocol
  classes of \<open>ports.py\<close> have no bodies to model: their implementations are modelled instead. The entry
  scripts (\<open>run_local.py\<close>, \<open>run_platform.py\<close>, \<open>verify_skill_orchestration.py\<close>,
  \<open>export_workflow_cases.py\<close>) parse arguments, start processes and print.
\<close>

end
